(* ===== verification/Prelude.thy ===== *)
theory Prelude
  imports Complex_Main "HOL-Library.Word" "HOL-Library.Sublist" "HOL-Library.Monad_Syntax" "HOL-Library.Code_Target_Nat"
begin

section \<open>Shared vocabulary: bytes, Go strings, integers and time\<close>

text \<open>
  The generic layer every component theory imports. A Go \<open>string\<close> or \<open>[]byte\<close> is a list
  of 8-bit characters (Isabelle's \<open>string\<close>), so \<open>length\<close> counts bytes as Go's \<open>len\<close> does.
  The operations of Go's \<open>strings\<close>, \<open>strconv\<close>, \<open>encoding/hex\<close> and \<open>math/big\<close> packages that
  the gateway uses are defined here; instants and durations are \<open>int\<close> nanoseconds, and
  Go's zero \<open>time.Time\<close> is \<open>None\<close>. Collections of rewrite rules used by several
  components are declared at the end.
\<close>

type_synonym byte = "8 word"
type_synonym instant = int
type_synonym duration = int

named_theorems record_frames
  \<comment> \<open>frame facts: which fields of a component's state an operation leaves alone\<close>

named_theorems inv_intros
  \<comment> \<open>preservation of a component's invariant by its operations\<close>

subsection \<open>Time\<close>

definition nanos_per_milli :: int where "nanos_per_milli = 1000000"

definition nanos_per_second :: int where "nanos_per_second = 1000000000"

definition seconds :: "int \<Rightarrow> duration" where "seconds n = n * nanos_per_second"

definition minutes :: "int \<Rightarrow> duration" where "minutes n = seconds (60 * n)"

definition hours :: "int \<Rightarrow> duration" where "hours n = minutes (60 * n)"

text \<open>\<open>time.Time.UnixMilli\<close> rounds towards minus infinity.\<close>

definition unix_milli :: "instant \<Rightarrow> int" where
  "unix_milli t = t div nanos_per_milli"

text \<open>\<open>Duration.Milliseconds\<close> truncates towards zero.\<close>

definition duration_millis :: "duration \<Rightarrow> int" where
  "duration_millis d = sgn d * (\<bar>d\<bar> div nanos_per_milli)"

text \<open>\<open>a.After(b)\<close> where \<open>a\<close> may be the zero time.\<close>

fun opt_after :: "instant option \<Rightarrow> instant \<Rightarrow> bool" where
  "opt_after None now = False"
| "opt_after (Some t) now = (now < t)"

subsection \<open>Characters\<close>

definition byte_of :: "char \<Rightarrow> nat" where "byte_of c = of_char c"

definition is_digit :: "char \<Rightarrow> bool" where
  "is_digit c \<longleftrightarrow> 48 \<le> byte_of c \<and> byte_of c \<le> 57"

definition is_upper :: "char \<Rightarrow> bool" where
  "is_upper c \<longleftrightarrow> 65 \<le> byte_of c \<and> byte_of c \<le> 90"

definition is_lower :: "char \<Rightarrow> bool" where
  "is_lower c \<longleftrightarrow> 97 \<le> byte_of c \<and> byte_of c \<le> 122"

definition is_hex :: "char \<Rightarrow> bool" where
  "is_hex c \<longleftrightarrow> is_digit c \<or> (97 \<le> byte_of c \<and> byte_of c \<le> 102) \<or> (65 \<le> byte_of c \<and> byte_of c \<le> 70)"

definition char_lower :: "char \<Rightarrow> char" where
  "char_lower c = (if is_upper c then char_of (byte_of c + 32) else c)"

definition char_upper :: "char \<Rightarrow> char" where
  "char_upper c = (if is_lower c then char_of (byte_of c - 32) else c)"

text \<open>The value of a hexadecimal digit (0 for any other character).\<close>

definition hex_val :: "char \<Rightarrow> nat" where
  "hex_val c =
     (if is_digit c then byte_of c - 48
      else if 97 \<le> byte_of c \<and> byte_of c \<le> 102 then byte_of c - 87
      else if 65 \<le> byte_of c \<and> byte_of c \<le> 70 then byte_of c - 55
      else 0)"

subsection \<open>The strings package\<close>

text \<open>
  \<open>strings.ToLower\<close> on bytes: ASCII letters, and the two runes whose lower case is an ASCII
  letter (U+0130 gives \<open>i\<close>, U+212A gives \<open>k\<close>). Other non-ASCII letters are kept; the
  gateway only searches the result for ASCII patterns or compares it with ASCII strings,
  which no other rune can affect.
\<close>

fun to_lower :: "string \<Rightarrow> string" where
  "to_lower [] = []"
| "to_lower (c # cs) =
     (if byte_of c = 196 \<and> cs \<noteq> [] \<and> byte_of (hd cs) = 176
      then CHR ''i'' # to_lower (tl cs)
      else if byte_of c = 226 \<and> length cs \<ge> 2 \<and> byte_of (hd cs) = 132 \<and> byte_of (hd (tl cs)) = 170
      then CHR ''k'' # to_lower (tl (tl cs))
      else char_lower c # to_lower cs)"

text \<open>
  The simple case folding of \<open>strings.EqualFold\<close> against an ASCII string: ASCII letters,
  the Kelvin sign (\<open>k\<close>) and the long s (U+017F, \<open>s\<close>).
\<close>

fun fold_case :: "string \<Rightarrow> string" where
  "fold_case [] = []"
| "fold_case (c # cs) =
     (if byte_of c = 197 \<and> cs \<noteq> [] \<and> byte_of (hd cs) = 191
      then CHR ''s'' # fold_case (tl cs)
      else if byte_of c = 226 \<and> length cs \<ge> 2 \<and> byte_of (hd cs) = 132 \<and> byte_of (hd (tl cs)) = 170
      then CHR ''k'' # fold_case (tl (tl cs))
      else char_lower c # fold_case cs)"

definition equal_fold :: "string \<Rightarrow> string \<Rightarrow> bool" where
  "equal_fold s t \<longleftrightarrow> fold_case s = fold_case t"

text \<open>
  \<open>strings.ToUpper\<close>: ASCII letters, and the two runes whose upper case is an ASCII letter
  (U+0131 gives \<open>I\<close>, U+017F gives \<open>S\<close>); other non-ASCII letters stay non-ASCII.
\<close>

fun to_upper :: "string \<Rightarrow> string" where
  "to_upper [] = []"
| "to_upper (c # cs) =
     (if byte_of c = 196 \<and> cs \<noteq> [] \<and> byte_of (hd cs) = 177
      then CHR ''I'' # to_upper (tl cs)
      else if byte_of c = 197 \<and> cs \<noteq> [] \<and> byte_of (hd cs) = 191
      then CHR ''S'' # to_upper (tl cs)
      else char_upper c # to_upper cs)"

fun str_contains :: "string \<Rightarrow> string \<Rightarrow> bool" where
  "str_contains [] p = (p = [])"
| "str_contains (c # cs) p = (prefix p (c # cs) \<or> str_contains cs p)"

text \<open>
  The byte sequences \<open>unicode.IsSpace\<close> accepts, and \<open>strings.TrimSpace\<close>, which strips
  them from both ends.
\<close>

definition space_runes :: "string list" where
  "space_runes =
     map (map char_of)
       ([[32], [9], [10], [11], [12], [13], [194, 133], [194, 160], [225, 154, 128]] @
        map (\<lambda>k. [226, 128, k]) [128, 129, 130, 131, 132, 133, 134, 135, 136, 137, 138, 168, 169, 175] @
        [[226, 129, 159], [227, 128, 128 :: nat]])"

definition leading_space :: "string list \<Rightarrow> string \<Rightarrow> nat" where
  "leading_space runes s =
     (case filter (\<lambda>r. prefix r s) runes of [] \<Rightarrow> 0 | r # _ \<Rightarrow> length r)"

function trim_left_runes :: "string list \<Rightarrow> string \<Rightarrow> string" where
  "trim_left_runes runes s =
     (let n = leading_space runes s in
      if n = 0 \<or> s = [] then s else trim_left_runes runes (drop n s))"
  by pat_completeness auto
termination
  by (relation "measure (\<lambda>(runes, s). length s)") (auto simp: Let_def)

declare trim_left_runes.simps [simp del]

definition trim_space :: "string \<Rightarrow> string" where
  "trim_space s =
     rev (trim_left_runes (map rev space_runes) (rev (trim_left_runes space_runes s)))"

fun join :: "string \<Rightarrow> string list \<Rightarrow> string" where
  "join sep [] = []"
| "join sep [x] = x"
| "join sep (x # y # ys) = x @ sep @ join sep (y # ys)"

subsection \<open>Numbers in text\<close>

fun dec_of_nat :: "nat \<Rightarrow> string" where
  "dec_of_nat n =
     (if n < 10 then [char_of (48 + n)] else dec_of_nat (n div 10) @ [char_of (48 + n mod 10)])"

declare dec_of_nat.simps [simp del]

text \<open>\<open>big.Int.String\<close> and \<open>strconv.Itoa\<close>.\<close>

definition dec_of_int :: "int \<Rightarrow> string" where
  "dec_of_int i = (if i < 0 then CHR ''-'' # dec_of_nat (nat (- i)) else dec_of_nat (nat i))"

definition nat_of_dec :: "string \<Rightarrow> nat" where
  "nat_of_dec s = foldl (\<lambda>a c. 10 * a + (byte_of c - 48)) 0 s"

definition nat_of_hex :: "string \<Rightarrow> nat" where
  "nat_of_hex s = foldl (\<lambda>a c. 16 * a + hex_val c) 0 s"

definition all_digits :: "string \<Rightarrow> bool" where
  "all_digits s \<longleftrightarrow> s \<noteq> [] \<and> list_all is_digit s"

text \<open>\<open>new(big.Int).SetString(s, 10)\<close>: an optional sign and decimal digits.\<close>

definition parse_big_dec :: "string \<Rightarrow> int option" where
  "parse_big_dec s =
     (case s of
        [] \<Rightarrow> None
      | c # cs \<Rightarrow>
          if c = CHR ''-'' then (if all_digits cs then Some (- int (nat_of_dec cs)) else None)
          else if c = CHR ''+'' then (if all_digits cs then Some (int (nat_of_dec cs)) else None)
          else if all_digits s then Some (int (nat_of_dec s)) else None)"

definition hex_digit :: "nat \<Rightarrow> char" where
  "hex_digit d = (if d < 10 then char_of (48 + d) else char_of (87 + d))"

fun hex_of_nat :: "nat \<Rightarrow> string" where
  "hex_of_nat n = (if n < 16 then [hex_digit n] else hex_of_nat (n div 16) @ [hex_digit (n mod 16)])"

declare hex_of_nat.simps [simp del]

subsection \<open>encoding/hex\<close>

fun hex_decode :: "string \<Rightarrow> byte list option" where
  "hex_decode [] = Some []"
| "hex_decode [c] = None"
| "hex_decode (a # b # cs) =
     (if is_hex a \<and> is_hex b
      then map_option ((#) (word_of_nat (16 * hex_val a + hex_val b))) (hex_decode cs)
      else None)"

definition hex_encode :: "byte list \<Rightarrow> string" where
  "hex_encode bs = concat (map (\<lambda>b. [hex_digit (unat b div 16), hex_digit (unat b mod 16)]) bs)"

subsection \<open>Option plumbing\<close>

definition guard_opt :: "bool \<Rightarrow> unit option" where
  "guard_opt b = (if b then Some () else None)"

lemma guard_opt_simps [simp]: "guard_opt True = Some ()" "guard_opt False = None"
  by (simp_all add: guard_opt_def)

lemma guard_opt_Some [simp]: "guard_opt b = Some u \<longleftrightarrow> b"
  by (simp add: guard_opt_def)

lemma guard_opt_None [simp]: "guard_opt b = None \<longleftrightarrow> \<not> b"
  by (simp add: guard_opt_def)

fun map_opt :: "('a \<Rightarrow> 'b option) \<Rightarrow> 'a list \<Rightarrow> 'b list option" where
  "map_opt f [] = Some []"
| "map_opt f (x # xs) =
     (case f x of None \<Rightarrow> None
      | Some y \<Rightarrow> (case map_opt f xs of None \<Rightarrow> None | Some ys \<Rightarrow> Some (y # ys)))"

lemma map_opt_length: "map_opt f xs = Some ys \<Longrightarrow> length ys = length xs"
  by (induction xs arbitrary: ys) (auto split: option.splits)

lemma map_opt_nth: "map_opt f xs = Some ys \<Longrightarrow> i < length xs \<Longrightarrow> f (xs ! i) = Some (ys ! i)"
proof (induction xs arbitrary: ys i)
  case Nil
  then show ?case by simp
next
  case (Cons x xs)
  then show ?case by (cases i) (auto split: option.splits)
qed

lemma map_opt_set: "map_opt f xs = Some ys \<Longrightarrow> y \<in> set ys \<Longrightarrow> \<exists>x \<in> set xs. f x = Some y"
  by (induction xs arbitrary: ys) (auto split: option.splits)

end
