(* ===== verification/Json.thy ===== *)
theory Json
  imports Prelude
begin

section \<open>encoding/json: values, parsing and typed decoding\<close>

text \<open>
  What the gateway uses of Go's \<open>encoding/json\<close>. A JSON value is a tree that keeps what the
  decoder can observe: the literal text of a number, the decoded bytes of a string, and the
  members of an object in order, duplicates included. A \<open>json.RawMessage\<close> is \<open>raw\<close>: the tree
  of the bytes it holds, or \<open>None\<close> when it is nil or not one valid JSON value.
  \<open>json_parse\<close> reads bytes as \<open>json.Valid\<close> and the scanner do (the grammar of RFC 8259, at
  most 10000 nested containers), \<open>unquote\<close> decodes string escapes with U+FFFD for invalid
  UTF-8 and lone surrogates, and \<open>unmarshal\<close> is the typed decoder over a schema \<open>gtype\<close>.
\<close>

datatype json =
    JNull
  | JBool bool
  | JNum string
  | JStr string
  | JArr "json list"
  | JObj "(string \<times> json) list"

type_synonym raw = "json option"

subsection \<open>Scanning\<close>

definition is_json_space :: "char \<Rightarrow> bool" where
  "is_json_space c \<longleftrightarrow> byte_of c = 32 \<or> byte_of c = 9 \<or> byte_of c = 10 \<or> byte_of c = 13"

definition skip_ws :: "string \<Rightarrow> string" where
  "skip_ws s = dropWhile is_json_space s"

lemma skip_ws_length: "length (skip_ws s) \<le> length s"
  by (simp add: skip_ws_def length_dropWhile_le)

text \<open>The raw body of a string literal up to its closing quote, escapes checked.\<close>

fun scan_string :: "string \<Rightarrow> (string \<times> string) option" where
  "scan_string [] = None"
| "scan_string (c # cs) =
     (if c = CHR 0x22 then Some ([], cs)
      else if byte_of c < 32 then None
      else if c = CHR 0x5C then
        (case cs of
           [] \<Rightarrow> None
         | e # es \<Rightarrow>
             if e = CHR ''u'' then
               (case es of
                  h1 # h2 # h3 # h4 # rest \<Rightarrow>
                    if is_hex h1 \<and> is_hex h2 \<and> is_hex h3 \<and> is_hex h4
                    then map_option (\<lambda>(b, r). (c # e # h1 # h2 # h3 # h4 # b, r)) (scan_string rest)
                    else None
                | _ \<Rightarrow> None)
             else if e \<in> set (CHR 0x22 # CHR 0x5C # ''/bfnrt'')
             then map_option (\<lambda>(b, r). (c # e # b, r)) (scan_string es)
             else None)
      else map_option (\<lambda>(b, r). (c # b, r)) (scan_string cs))"

lemma scan_string_length: "scan_string s = Some (b, r) \<Longrightarrow> length r < length s"
proof (induction s arbitrary: b r rule: length_induct)
  case (1 s)
  have IH: "scan_string t = Some (b', r') \<Longrightarrow> length t < length s \<Longrightarrow> length r' < length t" for t b' r'
    using 1 by blast
  show ?case
    using "1.prems" by (cases s) (auto split: if_splits list.splits dest!: IH)
qed

text \<open>The length of the valid UTF-8 sequence at the front, 0 when there is none.\<close>

definition utf8_len :: "string \<Rightarrow> nat" where
  "utf8_len s =
     (let b = map byte_of (take 4 s);
          cont = (\<lambda>i. i < length b \<and> 128 \<le> b ! i \<and> b ! i \<le> 191);
          b1 = (if 1 < length b then b ! 1 else 0)
      in case b of
           [] \<Rightarrow> 0
         | c # _ \<Rightarrow>
             if c < 128 then 1
             else if 194 \<le> c \<and> c \<le> 223 \<and> cont 1 then 2
             else if 224 \<le> c \<and> c \<le> 239 \<and> cont 1 \<and> cont 2 \<and>
                     (c = 224 \<longrightarrow> 160 \<le> b1) \<and> (c = 237 \<longrightarrow> b1 \<le> 159) then 3
             else if 240 \<le> c \<and> c \<le> 244 \<and> cont 1 \<and> cont 2 \<and> cont 3 \<and>
                     (c = 240 \<longrightarrow> 144 \<le> b1) \<and> (c = 244 \<longrightarrow> b1 \<le> 143) then 4
             else 0)"

definition utf8_encode :: "nat \<Rightarrow> string" where
  "utf8_encode r =
     map char_of
       (if r < 128 then [r]
        else if r < 2048 then [192 + r div 64, 128 + r mod 64]
        else if r < 65536 then [224 + r div 4096, 128 + r div 64 mod 64, 128 + r mod 64]
        else [240 + r div 262144, 128 + r div 4096 mod 64, 128 + r div 64 mod 64, 128 + r mod 64])"

definition replacement_char :: string where
  "replacement_char = utf8_encode 65533"

definition escape_value :: "char \<Rightarrow> char" where
  "escape_value e =
     (if e = CHR ''b'' then CHR 0x08 else if e = CHR ''f'' then CHR 0x0C
      else if e = CHR ''n'' then CHR 0x0A else if e = CHR ''r'' then CHR 0x0D
      else if e = CHR ''t'' then CHR 0x09 else e)"

text \<open>The second half of a surrogate pair at the front, as \<open>getu4\<close> reads it.\<close>

definition low_surrogate :: "string \<Rightarrow> nat option" where
  "low_surrogate s =
     (if length s \<ge> 6 \<and> s ! 0 = CHR 0x5C \<and> s ! 1 = CHR ''u'' \<and> list_all is_hex (take 4 (drop 2 s))
      then (let r = nat_of_hex (take 4 (drop 2 s)) in
            if 56320 \<le> r \<and> r \<le> 57343 then Some r else None)
      else None)"

function unquote :: "string \<Rightarrow> string" where
  "unquote s =
     (case s of
        [] \<Rightarrow> []
      | c # cs \<Rightarrow>
          if c = CHR 0x5C \<and> cs \<noteq> [] then
            (if hd cs = CHR ''u'' then
               (let r = nat_of_hex (take 4 (tl cs)); rest = drop 4 (tl cs) in
                if 55296 \<le> r \<and> r \<le> 57343 then
                  (case (if r \<le> 56319 then low_surrogate rest else None) of
                     Some l \<Rightarrow> utf8_encode (65536 + (r - 55296) * 1024 + (l - 56320)) @ unquote (drop 6 rest)
                   | None \<Rightarrow> replacement_char @ unquote rest)
                else utf8_encode r @ unquote rest)
             else escape_value (hd cs) # unquote (tl cs))
          else if byte_of c < 128 then c # unquote cs
          else (let n = utf8_len s in
                if n = 0 then replacement_char @ unquote cs
                else take n s @ unquote (drop n s)))"
  by pat_completeness auto
termination
  by (relation "measure length") (auto simp: Let_def)

declare unquote.simps [simp del]

subsection \<open>Numbers\<close>

definition split_digits :: "string \<Rightarrow> string \<times> string" where
  "split_digits s = (takeWhile is_digit s, dropWhile is_digit s)"

text \<open>The longest number literal at the front: sign, integer part, fraction, exponent.\<close>

definition scan_number :: "string \<Rightarrow> (string \<times> string) option" where
  "scan_number s =
     (let (sign, s1) = (case s of c # cs \<Rightarrow> if c = CHR ''-'' then ([c], cs) else ([], s) | [] \<Rightarrow> ([], s));
          (ip, s2) = (case s1 of
                        c # cs \<Rightarrow> if c = CHR ''0'' then ([c], cs) else split_digits s1
                      | [] \<Rightarrow> ([], s1))
      in if ip = [] then None
         else
           (case (case s2 of
                    c # cs \<Rightarrow>
                      if c = CHR ''.'' then
                        (let (fp, s3) = split_digits cs in
                         if fp = [] then None else Some (c # fp, s3))
                      else Some ([], s2)
                  | [] \<Rightarrow> Some ([], s2)) of
              None \<Rightarrow> None
            | Some (fracs, s3) \<Rightarrow>
                (case s3 of
                   c # cs \<Rightarrow>
                     if c = CHR ''e'' \<or> c = CHR ''E'' then
                       (let (esign, s4) = (case cs of
                                             d # ds \<Rightarrow> if d = CHR ''+'' \<or> d = CHR ''-'' then ([d], ds) else ([], cs)
                                           | [] \<Rightarrow> ([], cs));
                            (ep, s5) = split_digits s4 in
                        if ep = [] then None else Some (sign @ ip @ fracs @ c # esign @ ep, s5))
                     else Some (sign @ ip @ fracs, s3)
                 | [] \<Rightarrow> Some (sign @ ip @ fracs, s3))))"

subsection \<open>Parsing\<close>

definition shrink :: "string \<Rightarrow> ('a \<times> string) option \<Rightarrow> ('a \<times> string) option" where
  \<comment> \<open>keeps a result that consumed something; every parser below does, see \<open>parse_shrinks\<close>\<close>
  "shrink s r = (case r of None \<Rightarrow> None | Some (x, rest) \<Rightarrow> if length rest < length s then r else None)"

lemma shrink_Some: "shrink s r = Some (x, rest) \<longleftrightarrow> r = Some (x, rest) \<and> length rest < length s"
  by (auto simp: shrink_def split: option.splits if_splits)

lemma shrink_None: "shrink s r = None \<longleftrightarrow> (\<forall>x rest. r = Some (x, rest) \<longrightarrow> \<not> length rest < length s)"
  by (auto simp: shrink_def split: option.splits if_splits prod.splits)

definition strip_literal :: "string \<Rightarrow> json \<Rightarrow> string \<Rightarrow> (json \<times> string) option" where
  "strip_literal lit v s = (if prefix lit s then Some (v, drop (length lit) s) else None)"

lemma skip_ws_Cons_length: "skip_ws s = c # cs \<Longrightarrow> length cs < length s"
  using skip_ws_length [of s] by simp

function parse_value :: "nat \<Rightarrow> string \<Rightarrow> (json \<times> string) option"
  and parse_elements :: "nat \<Rightarrow> string \<Rightarrow> (json list \<times> string) option"
  and parse_members :: "nat \<Rightarrow> string \<Rightarrow> ((string \<times> json) list \<times> string) option"
where
  "parse_value d s =
     (case skip_ws s of
        [] \<Rightarrow> None
      | c # cs \<Rightarrow>
          if c = CHR 0x22 then map_option (\<lambda>(b, r). (JStr (unquote b), r)) (scan_string cs)
          else if c = CHR ''{'' then
            (if d = 0 then None
             else case skip_ws cs of
                    [] \<Rightarrow> None
                  | c2 # cs2 \<Rightarrow>
                      if c2 = CHR ''}'' then Some (JObj [], cs2)
                      else map_option (\<lambda>(kvs, r). (JObj kvs, r)) (parse_members (d - 1) cs))
          else if c = CHR ''['' then
            (if d = 0 then None
             else case skip_ws cs of
                    [] \<Rightarrow> None
                  | c2 # cs2 \<Rightarrow>
                      if c2 = CHR '']'' then Some (JArr [], cs2)
                      else map_option (\<lambda>(vs, r). (JArr vs, r)) (parse_elements (d - 1) cs))
          else if c = CHR ''t'' then strip_literal ''true'' (JBool True) (c # cs)
          else if c = CHR ''f'' then strip_literal ''false'' (JBool False) (c # cs)
          else if c = CHR ''n'' then strip_literal ''null'' JNull (c # cs)
          else map_option (\<lambda>(n, r). (JNum n, r)) (scan_number (c # cs)))"
| "parse_elements d s =
     (case shrink s (parse_value d s) of
        None \<Rightarrow> None
      | Some (v, rest) \<Rightarrow>
          (case skip_ws rest of
             [] \<Rightarrow> None
           | c # cs \<Rightarrow>
               if c = CHR '','' then map_option (\<lambda>(vs, r). (v # vs, r)) (parse_elements d cs)
               else if c = CHR '']'' then Some ([v], cs)
               else None))"
| "parse_members d s =
     (case skip_ws s of
        [] \<Rightarrow> None
      | q # qs \<Rightarrow>
          if q \<noteq> CHR 0x22 then None
          else (case scan_string qs of
             None \<Rightarrow> None
           | Some (b, rest) \<Rightarrow>
               (case skip_ws rest of
                  [] \<Rightarrow> None
                | c # cs \<Rightarrow>
                    if c \<noteq> CHR '':'' then None
                    else (case shrink cs (parse_value d cs) of
                       None \<Rightarrow> None
                     | Some (v, rest2) \<Rightarrow>
                         (case skip_ws rest2 of
                            [] \<Rightarrow> None
                          | c2 # cs2 \<Rightarrow>
                              if c2 = CHR '','' then
                                map_option (\<lambda>(kvs, r). ((unquote b, v) # kvs, r)) (parse_members d cs2)
                              else if c2 = CHR ''}'' then Some ([(unquote b, v)], cs2)
                              else None)))))"
  by pat_completeness auto

termination
  by (relation "measure (\<lambda>x. case x of Inl (d, s) \<Rightarrow> 2 * length s
       | Inr (Inl (d, s)) \<Rightarrow> 2 * length s + 1 | Inr (Inr (d, s)) \<Rightarrow> 2 * length s + 1)")
     (auto simp: shrink_Some dest!: skip_ws_Cons_length scan_string_length)

declare parse_value.simps [simp del] parse_elements.simps [simp del] parse_members.simps [simp del]

definition max_nesting :: nat where "max_nesting = 10000"

text \<open>\<open>json.Valid\<close> and a decode of the whole text.\<close>

definition json_parse :: "string \<Rightarrow> raw" where
  "json_parse s =
     (case parse_value max_nesting s of
        None \<Rightarrow> None
      | Some (v, rest) \<Rightarrow> if skip_ws rest = [] then Some v else None)"

subsection \<open>Printing\<close>

text \<open>
  \<open>json.Marshal\<close> of a tree: strings escaped the way \<open>encoding/json\<close> does with HTML escaping
  on, invalid UTF-8 as U+FFFD, no white space. Number literals are printed as they are.
\<close>

definition escape_ascii :: "char \<Rightarrow> string" where
  "escape_ascii c =
     (if c = CHR 0x22 \<or> c = CHR 0x5C then [CHR 0x5C, c]
      else if c = CHR 0x08 then [CHR 0x5C, CHR ''b''] else if c = CHR 0x0C then [CHR 0x5C, CHR ''f'']
      else if c = CHR 0x0A then [CHR 0x5C, CHR ''n''] else if c = CHR 0x0D then [CHR 0x5C, CHR ''r'']
      else if c = CHR 0x09 then [CHR 0x5C, CHR ''t'']
      else if byte_of c < 32 \<or> c \<in> set ''<>&''
      then CHR 0x5C # ''u00'' @ [hex_digit (byte_of c div 16), hex_digit (byte_of c mod 16)]
      else [c])"

function quote_json :: "string \<Rightarrow> string" where
  "quote_json s =
     (case s of
        [] \<Rightarrow> []
      | c # cs \<Rightarrow>
          if byte_of c < 128 then escape_ascii c @ quote_json cs
          else (let n = utf8_len s in
                if n = 0 then CHR 0x5C # ''ufffd'' @ quote_json cs
                else if take n s = utf8_encode 8232 then CHR 0x5C # ''u2028'' @ quote_json (drop n s)
                else if take n s = utf8_encode 8233 then CHR 0x5C # ''u2029'' @ quote_json (drop n s)
                else take n s @ quote_json (drop n s)))"
  by pat_completeness auto
termination
  by (relation "measure length") (auto simp: Let_def)

declare quote_json.simps [simp del]

definition print_string :: "string \<Rightarrow> string" where
  "print_string s = CHR 0x22 # quote_json s @ [CHR 0x22]"

fun json_print :: "json \<Rightarrow> string" where
  "json_print JNull = ''null''"
| "json_print (JBool b) = (if b then ''true'' else ''false'')"
| "json_print (JNum n) = n"
| "json_print (JStr s) = print_string s"
| "json_print (JArr js) = ''['' @ join '','' (map json_print js) @ '']''"
| "json_print (JObj kvs) =
     ''{'' @ join '','' (map (\<lambda>(k, v). print_string k @ '':'' @ json_print v) kvs) @ ''}''"

subsection \<open>The value of a number literal\<close>

text \<open>The rational a literal of the JSON grammar denotes; \<open>strconv.ParseFloat\<close> rounds it.\<close>

definition split_at_exp :: "string \<Rightarrow> string \<times> string" where
  "split_at_exp s =
     (let m = takeWhile (\<lambda>c. c \<noteq> CHR ''e'' \<and> c \<noteq> CHR ''E'') s in (m, drop (Suc (length m)) s))"

definition literal_exponent :: "string \<Rightarrow> int" where
  "literal_exponent e = (case parse_big_dec e of Some i \<Rightarrow> i | None \<Rightarrow> 0)"

definition rat_of_literal :: "string \<Rightarrow> rat" where
  "rat_of_literal lit =
     (let neg = (lit \<noteq> [] \<and> hd lit = CHR ''-''); body = (if neg then tl lit else lit);
          (mant, ex) = split_at_exp body;
          ip = takeWhile is_digit mant; fp = drop (Suc (length ip)) mant;
          m = of_nat (nat_of_dec (ip @ fp)) / 10 ^ length fp;
          e = literal_exponent ex;
          v = (if e \<ge> 0 then m * 10 ^ nat e else m / 10 ^ nat (- e))
      in if neg then - v else v)"

definition float_finite :: "rat \<Rightarrow> bool" where
  \<comment> \<open>below the point from which a literal overflows when rounded to a \<open>float64\<close>\<close>
  "float_finite v \<longleftrightarrow> \<bar>v\<bar> < 2 ^ 1024 - 2 ^ 970"

definition float_nonneg :: "rat \<Rightarrow> bool" where
  \<comment> \<open>rounds to zero or more: at most half the least subnormal below zero\<close>
  "float_nonneg v \<longleftrightarrow> - (1 / 2 ^ 1075) \<le> v"

text \<open>Evaluation decides the common case without the large powers of two.\<close>

lemma float_finite_code [code]:
  "float_finite v = (if \<bar>v\<bar> \<le> 2 ^ 60 then True else \<bar>v\<bar> < 2 ^ 1024 - 2 ^ 970)"
proof -
  have "(2::rat) ^ 60 < 2 ^ 1024 - 2 ^ 970" by simp
  then show ?thesis by (simp add: float_finite_def)
qed

lemma float_nonneg_code [code]:
  "float_nonneg v = (if 0 \<le> v then True else - (1 / 2 ^ 1075) \<le> v)"
  using order_trans [of "- (1 / 2 ^ 1075)" 0 v] by (simp add: float_nonneg_def)

subsection \<open>Decoding into any\<close>

text \<open>
  Decoding into \<open>any\<close> with \<open>UseNumber\<close> turns an object into a Go map, the last of equal keys
  winning; such maps are equal, and print alike, when they agree as maps. \<open>json_any\<close> is the
  tree with every object's members sorted by key and duplicates resolved.
\<close>

fun str_less :: "string \<Rightarrow> string \<Rightarrow> bool" where
  "str_less [] t = (t \<noteq> [])"
| "str_less (c # cs) [] = False"
| "str_less (c # cs) (d # ds) = (byte_of c < byte_of d \<or> (c = d \<and> str_less cs ds))"

fun insert_member :: "string \<times> json \<Rightarrow> (string \<times> json) list \<Rightarrow> (string \<times> json) list" where
  "insert_member m [] = [m]"
| "insert_member m (m' # ms) =
     (if fst m = fst m' then m # ms
      else if str_less (fst m) (fst m') then m # m' # ms
      else m' # insert_member m ms)"

fun json_any :: "json \<Rightarrow> json" where
  "json_any (JArr js) = JArr (map json_any js)"
| "json_any (JObj kvs) = JObj (fold insert_member (map (\<lambda>(k, v). (k, json_any v)) kvs) [])"
| "json_any j = j"

end
