(* ===== verification/Schema.thy ===== *)
theory Schema
  imports Json
begin

section \<open>Typed decoding and the strict decoders at the two trust boundaries\<close>

text \<open>
  \<open>gtype\<close> describes the Go type a JSON text is decoded into (a struct is its field list as
  package \<open>reflect\<close> reports it), \<open>gval\<close> the decoded value, in which a struct keeps only the
  fields that were set: a field that is absent has Go's zero value, as the accessors say.
  \<open>unmarshal\<close> is \<open>encoding/json\<close>'s decoder: exact field name first, then a case-folded one,
  later members over earlier ones, unknown members ignored or rejected.

  \<open>handlers/strict_json.go\<close> puts three checks in front of it for client parameters
  (\<open>decode_strict_json\<close>); \<open>upstream/strict_json.go\<close> splits provider objects into members
  after rejecting duplicates, aliases and unknown keys (\<open>decode_exact_json_object\<close>).
  The lemmas show that an accepted text has one reading: keys are distinct at every depth
  and spelled as the schema spells them, and each field is the value of its one member.
\<close>

datatype gtype =
    GString | GInt | GBool | GAny
  | GPtr gtype
  | GSlice gtype
  | GMap gtype
  | GStruct "gfield list"
and gfield = GField (gf_name: string) (gf_exported: bool) (gf_tag: string) (gf_anonymous: bool) (gf_type: gtype)

datatype gval =
    VString string
  | VInt int
  | VBool bool
  | VRaw json
  | VNil
  | VPtr gval
  | VSlice "gval list"
  | VMap "(string \<times> gval) list"
  | VStruct "(string \<times> gval) list"

text \<open>An exported field with a plain json tag, the only kind the gateway's structs use.\<close>

definition field :: "string \<Rightarrow> gtype \<Rightarrow> gfield" where
  "field tag t = GField tag True tag False t"

subsection \<open>canonicalJSONFields\<close>

fun embedded_struct :: "gtype \<Rightarrow> gfield list option" where
  "embedded_struct (GPtr t) = embedded_struct t"
| "embedded_struct (GStruct fs) = Some fs"
| "embedded_struct _ = None"

lemma embedded_struct_size: "embedded_struct t = Some fs \<Longrightarrow> size_list size fs < size t"
  by (induction t rule: embedded_struct.induct) auto

function canonical_json_fields :: "gfield list \<Rightarrow> (string \<times> gtype) list \<Rightarrow> (string \<times> gtype) list option" where
  "canonical_json_fields [] acc = Some acc"
| "canonical_json_fields (GField n exported tag anon t # fs) acc =
     (if \<not> exported then canonical_json_fields fs acc
      else if tag = ''-'' then canonical_json_fields fs acc
      else
        (case (if anon \<and> tag = '''' then embedded_struct t else None) of
           Some inner \<Rightarrow>
             (case canonical_json_fields inner [] of
                None \<Rightarrow> None
              | Some emb \<Rightarrow>
                  if list_ex (\<lambda>(k, _). k \<in> fst ` set acc) emb then None
                  else canonical_json_fields fs (acc @ emb))
         | None \<Rightarrow>
             (let name = (if tag = '''' then n else tag) in
              if name \<in> fst ` set acc then None
              else canonical_json_fields fs (acc @ [(name, t)]))))"
  by pat_completeness auto
termination
  by (relation "measure (\<lambda>(fs, acc). size_list size fs)")
     (auto dest!: embedded_struct_size split: if_splits)

lemma canonical_json_fields_distinct:
  "canonical_json_fields fs acc = Some out \<Longrightarrow> distinct (map fst acc) \<Longrightarrow> distinct (map fst out)"
proof (induction fs acc arbitrary: out rule: canonical_json_fields.induct)
  case (1 acc)
  then show ?case by simp
next
  case (2 n exported tag anon t fs acc)
  show ?case
  proof (cases "exported \<and> tag \<noteq> ''-''")
    case False
    then show ?thesis using 2 by (auto split: if_splits)
  next
    case True
    show ?thesis
    proof (cases "if anon \<and> tag = '''' then embedded_struct t else None")
      case None
      then show ?thesis using True 2 by (fastforce simp: Let_def split: if_splits)
    next
      case (Some inner)
      then obtain emb where emb: "canonical_json_fields inner [] = Some emb"
        using True "2.prems"(1) by (auto split: option.splits if_splits)
      have "distinct (map fst emb)" using "2.IH"(4) [OF _ _ Some emb] True by simp
      moreover have "fst ` set acc \<inter> fst ` set emb = {}"
        using True Some emb "2.prems"(1) by (fastforce simp: list_ex_iff split: if_splits)
      ultimately show ?thesis
        using True Some emb "2.prems" "2.IH"(5) by (auto split: if_splits)
    qed
  qed
qed

definition struct_fields :: "gfield list \<Rightarrow> (string \<times> gtype) list" where
  "struct_fields fs = (case canonical_json_fields fs [] of None \<Rightarrow> [] | Some l \<Rightarrow> l)"

subsection \<open>The typed decoder\<close>

definition gzero :: "gtype \<Rightarrow> gval" where
  "gzero t = (case t of GString \<Rightarrow> VString '''' | GInt \<Rightarrow> VInt 0 | GBool \<Rightarrow> VBool False
     | GStruct _ \<Rightarrow> VStruct [] | _ \<Rightarrow> VNil)"

text \<open>A number literal as an \<open>int\<close>: no fraction, no exponent, within 64 bits.\<close>

definition parse_int64 :: "string \<Rightarrow> int option" where
  "parse_int64 lit =
     (let (neg, ds) = (case lit of c # cs \<Rightarrow> if c = CHR ''-'' then (True, cs) else (False, lit) | [] \<Rightarrow> (False, []));
          v = (if neg then - int (nat_of_dec ds) else int (nat_of_dec ds))
      in if all_digits ds \<and> - (2 ^ 63) \<le> v \<and> v < 2 ^ 63 then Some v else None)"

definition find_field :: "(string \<times> gtype) list \<Rightarrow> string \<Rightarrow> (string \<times> gtype) option" where
  "find_field fts k =
     (case map_of fts k of
        Some t \<Rightarrow> Some (k, t)
      | None \<Rightarrow> (case filter (\<lambda>(n, _). equal_fold n k) fts of [] \<Rightarrow> None | ft # _ \<Rightarrow> Some ft))"

definition set_field :: "string \<Rightarrow> gval \<Rightarrow> (string \<times> gval) list \<Rightarrow> (string \<times> gval) list" where
  "set_field k v fvs = (k, v) # filter (\<lambda>(n, _). n \<noteq> k) fvs"

lemma map_of_set_field [simp]:
  "map_of (set_field k v fvs) n = (if n = k then Some v else map_of fvs n)"
proof -
  have "n \<noteq> k \<Longrightarrow> map_of (filter (\<lambda>(m, _). m \<noteq> k) fvs) n = map_of fvs n"
    by (induction fvs) auto
  then show ?thesis by (auto simp: set_field_def)
qed

fun unmarshal :: "bool \<Rightarrow> gtype \<Rightarrow> gval \<Rightarrow> json \<Rightarrow> gval option"
  and unmarshal_elements :: "bool \<Rightarrow> gtype \<Rightarrow> json list \<Rightarrow> gval list option"
  and unmarshal_map :: "bool \<Rightarrow> gtype \<Rightarrow> (string \<times> gval) list \<Rightarrow> (string \<times> json) list \<Rightarrow> (string \<times> gval) list option"
  and unmarshal_members :: "bool \<Rightarrow> (string \<times> gtype) list \<Rightarrow> (string \<times> gval) list \<Rightarrow> (string \<times> json) list \<Rightarrow> (string \<times> gval) list option"
where
  "unmarshal strict t cur JNull =
     (case t of GAny \<Rightarrow> Some (VRaw JNull) | GPtr _ \<Rightarrow> Some VNil | GSlice _ \<Rightarrow> Some VNil
        | GMap _ \<Rightarrow> Some VNil | _ \<Rightarrow> Some cur)"
| "unmarshal strict t cur (JBool b) =
     (case t of GAny \<Rightarrow> Some (VRaw (JBool b)) | GBool \<Rightarrow> Some (VBool b)
        | GPtr GBool \<Rightarrow> Some (VPtr (VBool b)) | _ \<Rightarrow> None)"
| "unmarshal strict t cur (JNum n) =
     (case t of GAny \<Rightarrow> Some (VRaw (JNum n)) | GInt \<Rightarrow> map_option VInt (parse_int64 n)
        | GPtr GInt \<Rightarrow> map_option (\<lambda>i. VPtr (VInt i)) (parse_int64 n) | _ \<Rightarrow> None)"
| "unmarshal strict t cur (JStr s) =
     (case t of GAny \<Rightarrow> Some (VRaw (JStr s)) | GString \<Rightarrow> Some (VString s)
        | GPtr GString \<Rightarrow> Some (VPtr (VString s)) | _ \<Rightarrow> None)"
| "unmarshal strict t cur (JArr js) =
     (case t of GAny \<Rightarrow> Some (VRaw (JArr js))
        | GSlice e \<Rightarrow> map_option VSlice (unmarshal_elements strict e js) | _ \<Rightarrow> None)"
| "unmarshal strict t cur (JObj kvs) =
     (case t of GAny \<Rightarrow> Some (VRaw (JObj kvs))
        | GMap e \<Rightarrow> map_option VMap (unmarshal_map strict e (case cur of VMap m \<Rightarrow> m | _ \<Rightarrow> []) kvs)
        | GStruct fs \<Rightarrow>
            map_option VStruct
              (unmarshal_members strict (struct_fields fs) (case cur of VStruct m \<Rightarrow> m | _ \<Rightarrow> []) kvs)
        | GPtr (GStruct fs) \<Rightarrow>
            map_option (\<lambda>m. VPtr (VStruct m))
              (unmarshal_members strict (struct_fields fs) (case cur of VPtr (VStruct m) \<Rightarrow> m | _ \<Rightarrow> []) kvs)
        | _ \<Rightarrow> None)"
| "unmarshal_elements strict e [] = Some []"
| "unmarshal_elements strict e (j # js) =
     (case unmarshal strict e (gzero e) j of
        None \<Rightarrow> None
      | Some v \<Rightarrow> map_option ((#) v) (unmarshal_elements strict e js))"
| "unmarshal_map strict e acc [] = Some acc"
| "unmarshal_map strict e acc ((k, j) # kvs) =
     (case unmarshal strict e (gzero e) j of
        None \<Rightarrow> None
      | Some v \<Rightarrow> unmarshal_map strict e (set_field k v acc) kvs)"
| "unmarshal_members strict fts acc [] = Some acc"
| "unmarshal_members strict fts acc ((k, j) # kvs) =
     (case find_field fts k of
        None \<Rightarrow> if strict then None else unmarshal_members strict fts acc kvs
      | Some (n, t) \<Rightarrow>
          (case unmarshal strict t (case map_of acc n of None \<Rightarrow> gzero t | Some v \<Rightarrow> v) j of
             None \<Rightarrow> None
           | Some v \<Rightarrow> unmarshal_members strict fts (set_field n v acc) kvs))"

subsection \<open>Accessors: an unset field has the zero value\<close>

definition get_field :: "gval \<Rightarrow> string \<Rightarrow> gval option" where
  "get_field v k = (case v of VStruct m \<Rightarrow> map_of m k | _ \<Rightarrow> None)"

definition str_field :: "gval \<Rightarrow> string \<Rightarrow> string" where
  "str_field v k = (case get_field v k of Some (VString s) \<Rightarrow> s | _ \<Rightarrow> '''')"

definition int_field :: "gval \<Rightarrow> string \<Rightarrow> int" where
  "int_field v k = (case get_field v k of Some (VInt i) \<Rightarrow> i | _ \<Rightarrow> 0)"

definition ptr_int_field :: "gval \<Rightarrow> string \<Rightarrow> int option" where
  "ptr_int_field v k = (case get_field v k of Some (VPtr (VInt i)) \<Rightarrow> Some i | _ \<Rightarrow> None)"

definition slice_field :: "gval \<Rightarrow> string \<Rightarrow> gval list" where
  "slice_field v k = (case get_field v k of Some (VSlice vs) \<Rightarrow> vs | _ \<Rightarrow> [])"

subsection \<open>handlers/strict_json.go\<close>

text \<open>\<open>rejectDuplicateJSONKeys\<close>: no object at any depth repeats a key.\<close>

fun reject_duplicate_json_keys :: "json \<Rightarrow> bool"
  and reject_duplicate_elements :: "json list \<Rightarrow> bool"
  and reject_duplicate_members :: "string set \<Rightarrow> (string \<times> json) list \<Rightarrow> bool"
where
  "reject_duplicate_json_keys (JArr js) = reject_duplicate_elements js"
| "reject_duplicate_json_keys (JObj kvs) = reject_duplicate_members {} kvs"
| "reject_duplicate_json_keys _ = True"
| "reject_duplicate_elements [] = True"
| "reject_duplicate_elements (j # js) = (reject_duplicate_json_keys j \<and> reject_duplicate_elements js)"
| "reject_duplicate_members seen [] = True"
| "reject_duplicate_members seen ((k, j) # kvs) =
     (k \<notin> seen \<and> reject_duplicate_json_keys j \<and> reject_duplicate_members (insert k seen) kvs)"

text \<open>
  \<open>validateCanonicalJSONFields\<close>: the loop strips pointer types (a null value ends it), then
  structs, slices and maps are checked against the value's shape; a value of another shape
  is left to the typed decoder.
\<close>

fun strip_pointers :: "gtype \<Rightarrow> gtype" where
  "strip_pointers (GPtr t) = strip_pointers t"
| "strip_pointers t = t"

fun validate_canonical_json_fields :: "gtype \<Rightarrow> json \<Rightarrow> bool"
  and validate_items :: "gtype \<Rightarrow> json list \<Rightarrow> bool"
  and validate_map_values :: "gtype \<Rightarrow> (string \<times> json) list \<Rightarrow> bool"
  and validate_members :: "(string \<times> gtype) list \<Rightarrow> (string \<times> json) list \<Rightarrow> bool"
where
  "validate_canonical_json_fields t (JObj kvs) =
     (case strip_pointers t of
        GStruct fs \<Rightarrow>
          (case canonical_json_fields fs [] of None \<Rightarrow> False | Some fts \<Rightarrow> validate_members fts kvs)
      | GMap e \<Rightarrow> validate_map_values e kvs
      | _ \<Rightarrow> True)"
| "validate_canonical_json_fields t (JArr js) =
     (case strip_pointers t of GSlice e \<Rightarrow> validate_items e js | _ \<Rightarrow> True)"
| "validate_canonical_json_fields t _ = True"
| "validate_items e [] = True"
| "validate_items e (j # js) = (validate_canonical_json_fields e j \<and> validate_items e js)"
| "validate_map_values e [] = True"
| "validate_map_values e ((k, j) # kvs) =
     (validate_canonical_json_fields e j \<and> validate_map_values e kvs)"
| "validate_members fts [] = True"
| "validate_members fts ((k, j) # kvs) =
     (case map_of fts k of
        None \<Rightarrow> False
      | Some t \<Rightarrow> validate_canonical_json_fields t j \<and> validate_members fts kvs)"

definition decode_strict_json :: "gtype \<Rightarrow> raw \<Rightarrow> gval option" where
  "decode_strict_json t raw =
     (case raw of
        None \<Rightarrow> None
      | Some j \<Rightarrow>
          if \<not> reject_duplicate_json_keys j then None
          else if \<not> validate_canonical_json_fields t j then None
          else unmarshal True t (gzero t) j)"

subsection \<open>upstream/strict_json.go\<close>

fun unique_members :: "(string \<rightharpoonup> json) \<Rightarrow> (string \<times> json) list \<Rightarrow> (string \<rightharpoonup> json) option" where
  "unique_members vals [] = Some vals"
| "unique_members vals ((k, j) # kvs) =
     (if vals k \<noteq> None then None else unique_members (vals(k \<mapsto> j)) kvs)"

definition decode_unique_json_object :: "raw \<Rightarrow> (string \<rightharpoonup> json) option" where
  "decode_unique_json_object raw =
     (case raw of Some (JObj kvs) \<Rightarrow> unique_members Map.empty kvs | _ \<Rightarrow> None)"

text \<open>
  The members of the object are those of the source object, so "for key := range values" is
  a loop over its keys.
\<close>

definition object_keys :: "raw \<Rightarrow> string list" where
  "object_keys raw = (case raw of Some (JObj kvs) \<Rightarrow> map fst kvs | _ \<Rightarrow> [])"

definition decode_exact_json_object :: "raw \<Rightarrow> string list \<Rightarrow> (string \<rightharpoonup> json) option" where
  "decode_exact_json_object raw allowed =
     (case decode_unique_json_object raw of
        None \<Rightarrow> None
      | Some vals \<Rightarrow>
          if list_all (\<lambda>k. k \<in> set allowed) (object_keys raw) then Some vals else None)"

definition decode_extensible_json_object :: "raw \<Rightarrow> string list \<Rightarrow> (string \<rightharpoonup> json) option" where
  "decode_extensible_json_object raw consumed =
     (case decode_unique_json_object raw of
        None \<Rightarrow> None
      | Some vals \<Rightarrow>
          if list_ex (\<lambda>k. list_ex (\<lambda>e. k \<noteq> e \<and> equal_fold k e) consumed) (object_keys raw)
          then None else Some vals)"

subsection \<open>An accepted text has one reading\<close>

lemma reject_duplicate_members_iff:
  "reject_duplicate_members seen kvs \<longleftrightarrow>
     distinct (map fst kvs) \<and> set (map fst kvs) \<inter> seen = {} \<and>
     (\<forall>(k, j) \<in> set kvs. reject_duplicate_json_keys j)"
proof (induction kvs arbitrary: seen)
  case Nil
  then show ?case by simp
next
  case (Cons m kvs)
  show ?case using Cons.IH [of "insert (fst m) seen"] by (cases m) auto
qed

lemma reject_duplicate_elements_iff:
  "reject_duplicate_elements js \<longleftrightarrow> (\<forall>j \<in> set js. reject_duplicate_json_keys j)"
  by (induction js) auto

lemma validate_members_iff:
  "validate_members fts kvs \<longleftrightarrow>
     (\<forall>(k, j) \<in> set kvs. \<exists>t. map_of fts k = Some t \<and> validate_canonical_json_fields t j)"
  by (induction kvs) (auto split: option.splits)

lemma find_field_exact: "map_of fts k = Some t \<Longrightarrow> find_field fts k = Some (k, t)"
  by (simp add: find_field_def)

lemma unmarshal_members_exact:
  assumes "unmarshal_members strict fts acc kvs = Some out"
    and "\<forall>(k, j) \<in> set kvs. map_of fts k \<noteq> None"
    and "distinct (map fst kvs)" and "\<forall>k \<in> set (map fst kvs). map_of acc k = None"
  shows "map_of out k =
     (case map_of kvs k of
        None \<Rightarrow> map_of acc k
      | Some j \<Rightarrow> unmarshal strict (the (map_of fts k)) (gzero (the (map_of fts k))) j)"
  using assms
proof (induction kvs arbitrary: acc)
  case Nil
  then show ?case by simp
next
  case (Cons m kvs)
  obtain n j where m: "m = (n, j)" by (cases m)
  obtain t where t: "map_of fts n = Some t" using Cons.prems(2) m by auto
  from Cons.prems m t obtain v where
    v: "unmarshal strict t (gzero t) j = Some v" and
    rest: "unmarshal_members strict fts (set_field n v acc) kvs = Some out"
    by (auto simp: find_field_exact split: option.splits)
  have "map_of out k =
     (case map_of kvs k of
        None \<Rightarrow> map_of (set_field n v acc) k
      | Some j \<Rightarrow> unmarshal strict (the (map_of fts k)) (gzero (the (map_of fts k))) j)"
    using Cons.prems m by (intro Cons.IH [OF rest]) auto
  moreover have "map_of kvs n = None"
    using Cons.prems(3) m by (simp add: map_of_eq_None_iff)
  ultimately show ?case using m t v by (auto split: option.splits)
qed

lemma unique_members_iff:
  "unique_members vals kvs = Some out \<longleftrightarrow>
     distinct (map fst kvs) \<and> set (map fst kvs) \<inter> dom vals = {} \<and>
     out = (\<lambda>k. case map_of kvs k of None \<Rightarrow> vals k | Some j \<Rightarrow> Some j)"
proof (induction kvs arbitrary: vals)
  case Nil
  then show ?case by (auto simp: fun_eq_iff)
next
  case (Cons m kvs)
  obtain n j where m: "m = (n, j)" by (cases m)
  have fn: "(\<lambda>k. case map_of kvs k of None \<Rightarrow> (vals(n \<mapsto> j)) k | Some j \<Rightarrow> Some j) =
     (\<lambda>k. case map_of (m # kvs) k of None \<Rightarrow> vals k | Some j \<Rightarrow> Some j)" if "n \<notin> fst ` set kvs"
  proof -
    have "map_of kvs n = None" using that by (simp add: map_of_eq_None_iff)
    then show ?thesis using m by (auto simp: fun_eq_iff split: option.splits)
  qed
  have IH: "unique_members (vals(n \<mapsto> j)) kvs = Some out \<longleftrightarrow>
     distinct (map fst kvs) \<and> n \<notin> fst ` set kvs \<and> set (map fst kvs) \<inter> dom vals = {} \<and>
     out = (\<lambda>k. case map_of kvs k of None \<Rightarrow> (vals(n \<mapsto> j)) k | Some j \<Rightarrow> Some j)"
    unfolding Cons.IH by (simp only: dom_fun_upd) auto
  show ?case
  proof (cases "vals n = None \<and> n \<notin> fst ` set kvs")
    case True
    then show ?thesis using m IH fn by auto
  next
    case False
    then show ?thesis using m IH by (auto simp del: fun_upd_apply)
  qed
qed

lemma decode_unique_json_object_iff:
  "decode_unique_json_object raw = Some vals \<longleftrightarrow>
     (\<exists>kvs. raw = Some (JObj kvs) \<and> distinct (map fst kvs) \<and> vals = map_of kvs)"
proof -
  have "(\<lambda>k. case map_of kvs k of None \<Rightarrow> Map.empty k | Some j \<Rightarrow> Some j) = map_of kvs"
    for kvs :: "(string \<times> json) list"
    by (auto simp: fun_eq_iff split: option.splits)
  then show ?thesis
    by (auto simp: decode_unique_json_object_def unique_members_iff split: option.splits json.splits)
qed

lemma decode_exact_json_object_iff:
  "decode_exact_json_object raw allowed = Some vals \<longleftrightarrow>
     (\<exists>kvs. raw = Some (JObj kvs) \<and> distinct (map fst kvs) \<and> set (map fst kvs) \<subseteq> set allowed \<and>
            vals = map_of kvs)"
  by (auto simp: decode_exact_json_object_def decode_unique_json_object_iff object_keys_def
        list_all_iff split: option.splits json.splits)
     (metis decode_unique_json_object_iff option.distinct(1))+

lemma decode_extensible_json_object_iff:
  "decode_extensible_json_object raw consumed = Some vals \<longleftrightarrow>
     (\<exists>kvs. raw = Some (JObj kvs) \<and> distinct (map fst kvs) \<and> vals = map_of kvs \<and>
            (\<forall>k \<in> set (map fst kvs). \<forall>e \<in> set consumed. equal_fold k e \<longrightarrow> k = e))"
  by (auto simp: decode_extensible_json_object_def decode_unique_json_object_iff object_keys_def
        list_ex_iff split: option.splits json.splits)
     (metis decode_unique_json_object_iff option.distinct(1))+

text \<open>
  The exact decoder of provider objects accepts an object precisely when its keys are distinct
  and all of them allowed, and then returns exactly its members; the extensible decoder accepts one
  precisely when its keys are distinct and no key is a case variant of a consumed member.
\<close>

theorem provider_object_decoders:
  "(decode_exact_json_object raw names = Some vals \<longleftrightarrow>
     (\<exists>kvs. raw = Some (JObj kvs) \<and> distinct (map fst kvs) \<and> set (map fst kvs) \<subseteq> set names \<and>
        vals = map_of kvs)) \<and>
   (decode_extensible_json_object raw names = Some vals \<longleftrightarrow>
     (\<exists>kvs. raw = Some (JObj kvs) \<and> distinct (map fst kvs) \<and> vals = map_of kvs \<and>
        \<not> (\<exists>k e. k \<in> set (map fst kvs) \<and> e \<in> set names \<and> equal_fold k e \<and> k \<noteq> e)))"
  unfolding decode_exact_json_object_iff decode_extensible_json_object_iff by blast

end
