(* ===== verification/Errors.thy ===== *)
theory Errors
  imports Schema
begin

section \<open>Errors: upstream failures, JSON-RPC errors and their public form\<close>

text \<open>
  Errors as values. \<open>go_error\<close> is what an upstream client returns: a \<open>NodeError\<close> (the node
  answered "no"), an \<open>Unavailable\<close> (no authoritative answer) or any other error.
  \<open>rpc_error\<close> is the JSON-RPC error object of \<open>internal/rpc\<close>; its \<open>Data\<close> is \<open>None\<close> for nil and
  otherwise the JSON value it stands for (the gateway itself only puts string maps there).
  \<open>public_node_error_message\<close> (\<open>upstream/errors.go\<close>) maps an untrusted provider message into a
  fixed vocabulary; \<open>upstream_error\<close> (\<open>handlers/gateway.go\<close>) and \<open>broadcast_error\<close>
  (\<open>handlers/broadcast.go\<close>) build the client-visible error, the second keeping explicit
  rejection apart from a lost answer.
\<close>

datatype go_error =
    NodeError (ne_code: int) (ne_message: string)
  | Unavailable (ua_upstream: string) (ua_message: string)
  | OtherError string

record rpc_error =
  err_code :: int
  err_message :: string
  err_data :: raw

definition CodeParse :: int where "CodeParse = -32700"
definition CodeInvalidRequest :: int where "CodeInvalidRequest = -32600"
definition CodeMethodNotFound :: int where "CodeMethodNotFound = -32601"
definition CodeInvalidParams :: int where "CodeInvalidParams = -32602"
definition CodeUpstream :: int where "CodeUpstream = -32000"
definition CodeRateLimited :: int where "CodeRateLimited = -32001"
definition CodeUnsupported :: int where "CodeUnsupported = -32002"
definition CodeSubmissionUnknown :: int where "CodeSubmissionUnknown = -32003"

lemmas rpc_codes = CodeParse_def CodeInvalidRequest_def CodeMethodNotFound_def CodeInvalidParams_def
  CodeUpstream_def CodeRateLimited_def CodeUnsupported_def CodeSubmissionUnknown_def

definition rpc_errorf :: "int \<Rightarrow> string \<Rightarrow> rpc_error" where
  "rpc_errorf code message = \<lparr>err_code = code, err_message = message, err_data = None\<rparr>"

abbreviation invalid_params :: "string \<Rightarrow> rpc_error" where
  "invalid_params message \<equiv> rpc_errorf CodeInvalidParams message"

text \<open>The \<open>map[string]string\<close> the gateway attaches to an upstream error.\<close>

definition error_data :: "string \<Rightarrow> string \<Rightarrow> raw" where
  "error_data upstream message =
     Some (JObj [(''upstream'', JStr upstream), (''message'', JStr message)])"

subsection \<open>upstream/errors.go\<close>

definition public_messages :: "(string \<times> string) list" where
  "public_messages =
    [(''insufficient funds'', ''insufficient funds for transaction''),
     (''nonce too low'', ''transaction nonce is too low''),
     (''nonce too high'', ''transaction nonce is too high''),
     (''replacement transaction underpriced'', ''replacement transaction fee is too low''),
     (''transaction underpriced'', ''transaction fee is too low''),
     (''intrinsic gas too low'', ''transaction gas limit is too low''),
     (''exceeds block gas limit'', ''transaction exceeds the block gas limit''),
     (''fee cap less than block base fee'', ''transaction fee cap is below the network base fee''),
     (''already known'', ''transaction is already known by the network''),
     (''execution reverted'', ''transaction execution reverted''),
     (''invalid sender'', ''transaction sender is invalid''),
     (''blockhash not found'', ''transaction blockhash is no longer valid''),
     (''account in use'', ''transaction account is currently in use''),
     (''transaction simulation failed'', ''transaction simulation failed''),
     (''signature verification failed'', ''transaction signature verification failed''),
     (''validate signature'', ''transaction signature verification failed''),
     (''signature error'', ''transaction signature verification failed''),
     (''rate limit'', ''upstream rate limit reached''),
     (''too many requests'', ''upstream rate limit reached'')]"

definition public_node_error_message :: "string \<Rightarrow> string" where
  "public_node_error_message message =
     (let lower = to_lower message in
      case filter (\<lambda>(contains, _). str_contains lower contains) public_messages of
        [] \<Rightarrow> ''upstream rejected request''
      | (_, public) # _ \<Rightarrow> public)"

text \<open>\<open>readBoundedResponse\<close> on a body that was read to its end.\<close>

definition read_bounded_response :: "string \<Rightarrow> int \<Rightarrow> string option" where
  "read_bounded_response body max_bytes =
     (if max_bytes < 0 then None
      else let data = take (nat (max_bytes + 1)) body in
           if int (length data) > max_bytes then None else Some data)"

subsection \<open>handlers/gateway.go and handlers/broadcast.go\<close>

definition upstream_error :: "string \<Rightarrow> go_error \<Rightarrow> rpc_error" where
  "upstream_error default_upstream err =
     (case err of
        NodeError _ m \<Rightarrow>
          (let message = public_node_error_message m in
           \<lparr>err_code = CodeUpstream, err_message = message,
            err_data = error_data default_upstream message\<rparr>)
      | Unavailable _ _ \<Rightarrow>
          \<lparr>err_code = CodeUpstream, err_message = ''upstream_error'',
           err_data = error_data default_upstream ''upstream temporarily unavailable''\<rparr>
      | OtherError _ \<Rightarrow>
          \<lparr>err_code = CodeUpstream, err_message = ''upstream_error'',
           err_data = error_data default_upstream ''upstream request failed''\<rparr>)"

definition broadcast_error :: "string \<Rightarrow> go_error \<Rightarrow> rpc_error" where
  "broadcast_error default_upstream err =
     (case err of
        NodeError _ m \<Rightarrow>
          (let message = public_node_error_message m in
           \<lparr>err_code = CodeUpstream, err_message = message,
            err_data = error_data default_upstream message\<rparr>)
      | Unavailable _ _ \<Rightarrow>
          \<lparr>err_code = CodeSubmissionUnknown, err_message = ''submission_unknown'',
           err_data = error_data default_upstream ''upstream response unavailable''\<rparr>
      | OtherError _ \<Rightarrow>
          \<lparr>err_code = CodeSubmissionUnknown, err_message = ''submission_unknown'',
           err_data = error_data default_upstream ''upstream response unavailable''\<rparr>)"

subsection \<open>Nothing of a provider's message reaches the client\<close>

definition public_vocabulary :: "string set" where
  "public_vocabulary =
     snd ` set public_messages \<union>
     {''upstream rejected request'', ''upstream temporarily unavailable'', ''upstream request failed'',
      ''upstream response unavailable'', ''upstream_error'', ''submission_unknown''}"

lemma public_node_error_message_vocabulary:
  "public_node_error_message m \<in> public_vocabulary"
proof (cases "filter (\<lambda>(contains, _). str_contains (to_lower m) contains) public_messages")
  case Nil
  then show ?thesis by (simp add: public_node_error_message_def public_vocabulary_def)
next
  case (Cons x xs)
  then have "x \<in> set (filter (\<lambda>(contains, _). str_contains (to_lower m) contains) public_messages)"
    by simp
  then have "x \<in> set public_messages" by simp
  with Cons show ?thesis
    by (cases x) (force simp: public_node_error_message_def public_vocabulary_def)
qed

lemma read_bounded_response_iff:
  "read_bounded_response body n = Some data \<longleftrightarrow> data = body \<and> int (length body) \<le> n"
  by (auto simp: read_bounded_response_def Let_def min_def split: if_splits)

lemma broadcast_error_code:
  "err_code (broadcast_error u err) = CodeUpstream \<longleftrightarrow> (\<exists>c m. err = NodeError c m)"
  by (cases err) (auto simp: broadcast_error_def rpc_codes Let_def)

text \<open>
  Client-visible errors name an upstream by the caller's own label and otherwise speak the
  fixed vocabulary: the provider's text, host and code never pass.
\<close>

lemma upstream_error_vocabulary:
  "err_message (upstream_error u err) \<in> public_vocabulary \<and>
   (\<exists>m \<in> public_vocabulary. err_data (upstream_error u err) = error_data u m)"
proof (cases err)
  case (NodeError c m)
  then show ?thesis
    using public_node_error_message_vocabulary [of m] by (auto simp: upstream_error_def Let_def)
qed (auto simp: upstream_error_def public_vocabulary_def)

lemma broadcast_error_vocabulary:
  "err_message (broadcast_error u err) \<in> public_vocabulary \<and>
   (\<exists>m \<in> public_vocabulary. err_data (broadcast_error u err) = error_data u m)"
proof (cases err)
  case (NodeError c m)
  then show ?thesis
    using public_node_error_message_vocabulary [of m] by (auto simp: broadcast_error_def Let_def)
qed (auto simp: broadcast_error_def public_vocabulary_def)

end
