(* ===== verification/Registry.thy ===== *)
theory Registry
  imports Errors
begin

section \<open>The chain and network registry, and address validation\<close>

text \<open>
  \<open>handlers/validate.go\<close> and \<open>handlers/networks.go\<close>: the chain families, the networks that
  belong to them, resolution of the optional \<open>network\<close> parameter, base58 and the address
  checks of each family. SHA-256 is an argument (\<open>sha\<close>) of the TRON functions; nothing
  proved here depends on what it computes beyond being a function.
\<close>

record chain_meta =
  cm_symbol :: string
  cm_decimals :: int
  cm_evm :: bool

definition chain_order :: "string list" where
  "chain_order = [''eth'', ''polygon'', ''base'', ''arbitrum'', ''avalanche'', ''bnb'', ''tron'', ''solana'']"

definition chains :: "string \<rightharpoonup> chain_meta" where
  "chains = map_of
    [(''eth'', \<lparr>cm_symbol = ''ETH'', cm_decimals = 18, cm_evm = True\<rparr>),
     (''polygon'', \<lparr>cm_symbol = ''POL'', cm_decimals = 18, cm_evm = True\<rparr>),
     (''base'', \<lparr>cm_symbol = ''ETH'', cm_decimals = 18, cm_evm = True\<rparr>),
     (''arbitrum'', \<lparr>cm_symbol = ''ETH'', cm_decimals = 18, cm_evm = True\<rparr>),
     (''avalanche'', \<lparr>cm_symbol = ''AVAX'', cm_decimals = 18, cm_evm = True\<rparr>),
     (''bnb'', \<lparr>cm_symbol = ''BNB'', cm_decimals = 18, cm_evm = True\<rparr>),
     (''tron'', \<lparr>cm_symbol = ''TRX'', cm_decimals = 6, cm_evm = False\<rparr>),
     (''solana'', \<lparr>cm_symbol = ''SOL'', cm_decimals = 9, cm_evm = False\<rparr>)]"

definition evm_chain_order :: "string list" where
  "evm_chain_order = filter (\<lambda>c. case chains c of Some m \<Rightarrow> cm_evm m | None \<Rightarrow> False) chain_order"

text \<open>\<open>strconv.Quote\<close> of the registry's own identifiers, which need no escapes.\<close>

definition quote :: "string \<Rightarrow> string" where
  "quote s = CHR 0x22 # s @ [CHR 0x22]"

definition quoted_list :: "string list \<Rightarrow> string" where
  "quoted_list items = join '', '' (map quote items)"

subsection \<open>Networks\<close>

record network_meta =
  nm_chain :: string
  nm_mainnet :: bool
  nm_etherscan_chain_id :: int
  nm_identity :: string

definition network_order :: "string list" where
  "network_order =
    [''eth-mainnet'', ''eth-sepolia'', ''polygon-mainnet'', ''polygon-amoy'',
     ''base-mainnet'', ''base-sepolia'', ''arbitrum-mainnet'', ''arbitrum-sepolia'',
     ''avalanche-mainnet'', ''avalanche-fuji'', ''bnb-mainnet'', ''bnb-testnet'',
     ''tron-mainnet'', ''tron-nile'', ''sol-mainnet'', ''sol-devnet'']"

definition network_table :: "(string \<times> network_meta) list" where
  "network_table =
    (let net = (\<lambda>chain main cid ident. \<lparr>nm_chain = chain, nm_mainnet = main,
                  nm_etherscan_chain_id = cid, nm_identity = ident\<rparr>)
     in [(''eth-mainnet'', net ''eth'' True 1 ''1''),
         (''eth-sepolia'', net ''eth'' False 11155111 ''11155111''),
         (''polygon-mainnet'', net ''polygon'' True 137 ''137''),
         (''polygon-amoy'', net ''polygon'' False 80002 ''80002''),
         (''base-mainnet'', net ''base'' True 8453 ''8453''),
         (''base-sepolia'', net ''base'' False 84532 ''84532''),
         (''arbitrum-mainnet'', net ''arbitrum'' True 42161 ''42161''),
         (''arbitrum-sepolia'', net ''arbitrum'' False 421614 ''421614''),
         (''avalanche-mainnet'', net ''avalanche'' True 43114 ''43114''),
         (''avalanche-fuji'', net ''avalanche'' False 43113 ''43113''),
         (''bnb-mainnet'', net ''bnb'' True 56 ''56''),
         (''bnb-testnet'', net ''bnb'' False 97 ''97''),
         (''tron-mainnet'', net ''tron'' True 0
            ''00000000000000001ebf88508a03865c71d452e25f4d51194196a1d22b6653dc''),
         (''tron-nile'', net ''tron'' False 0
            ''0000000000000000d698d4192c56cb6be724a558448e2684802de4d6cd8690dc''),
         (''sol-mainnet'', net ''solana'' True 0 ''5eykt4UsFv8P8NJdTREpY1vzqKqZKvdpKuc147dw2N9d''),
         (''sol-devnet'', net ''solana'' False 0 ''EtWTRABZaYq6iMfeYKouRu166VU2xqa1wcaWoxPkrZBG'')])"

definition networks :: "string \<rightharpoonup> network_meta" where
  "networks = map_of network_table"

text \<open>
  \<open>mainnetOf\<close>: the loop over the map stores each mainnet under its family. Reading a missing
  family gives the empty string.
\<close>

definition mainnet_of :: "string \<Rightarrow> string" where
  "mainnet_of chain =
     (case filter (\<lambda>(_, m). nm_mainnet m \<and> nm_chain m = chain) network_table of
        [] \<Rightarrow> '''' | (i, _) # _ \<Rightarrow> i)"

definition resolve_network :: "string \<Rightarrow> string \<Rightarrow> rpc_error + string" where
  \<open>resolve_network chain network =
     (if network = '''' then Inr (mainnet_of chain)
      else case networks network of
             None \<Rightarrow> Inl (invalid_params
               (''invalid params: "network" must be one of '' @ quoted_list network_order))
           | Some meta \<Rightarrow>
               if nm_chain meta \<noteq> chain then
                 Inl (invalid_params
                   (''invalid params: "network" '' @ quote network @ '' does not belong to chain '' @
                    quote chain @ '' (it is a '' @ quote (nm_chain meta) @ '' network)''))
               else Inr network)\<close>

definition validate_chain :: "string \<Rightarrow> rpc_error + chain_meta" where
  \<open>validate_chain chain =
     (case chains chain of
        None \<Rightarrow> Inl (invalid_params
          (''invalid params: "chain" must be one of '' @ quoted_list chain_order))
      | Some m \<Rightarrow> Inr m)\<close>

subsection \<open>Base58\<close>

definition b58_alphabet :: string where
  "b58_alphabet = ''123456789ABCDEFGHJKLMNPQRSTUVWXYZabcdefghijkmnopqrstuvwxyz''"

fun index_from :: "nat \<Rightarrow> 'a \<Rightarrow> 'a list \<Rightarrow> nat option" where
  "index_from i x [] = None"
| "index_from i x (y # ys) = (if x = y then Some i else index_from (Suc i) x ys)"

definition b58_index :: "char \<Rightarrow> nat option" where
  "b58_index c = index_from 0 c b58_alphabet"

text \<open>\<open>big.Int.Bytes\<close> and \<open>SetBytes\<close>: big-endian, no leading zero.\<close>

fun bytes_of_nat :: "nat \<Rightarrow> byte list" where
  "bytes_of_nat n = (if n = 0 then [] else bytes_of_nat (n div 256) @ [word_of_nat (n mod 256)])"

declare bytes_of_nat.simps [simp del]

definition nat_of_bytes :: "byte list \<Rightarrow> nat" where
  "nat_of_bytes bs = foldl (\<lambda>a b. 256 * a + unat b) 0 bs"

fun base58_value :: "nat \<Rightarrow> string \<Rightarrow> nat option" where
  "base58_value n [] = Some n"
| "base58_value n (c # cs) =
     (case b58_index c of None \<Rightarrow> None | Some d \<Rightarrow> base58_value (n * 58 + d) cs)"

definition base58_decode :: "string \<Rightarrow> byte list option" where
  "base58_decode s =
     (case base58_value 0 s of
        None \<Rightarrow> None
      | Some n \<Rightarrow> Some (replicate (length (takeWhile (\<lambda>c. c = CHR ''1'') s)) 0 @ bytes_of_nat n))"

text \<open>The digits of \<open>n\<close>, least significant first, as the encoding loop appends them.\<close>

fun base58_digits :: "nat \<Rightarrow> string" where
  "base58_digits n = (if n = 0 then [] else b58_alphabet ! (n mod 58) # base58_digits (n div 58))"

declare base58_digits.simps [simp del]

definition base58_encode :: "byte list \<Rightarrow> string" where
  "base58_encode payload =
     rev (base58_digits (nat_of_bytes payload) @
          replicate (length (takeWhile (\<lambda>b. b = 0) payload)) CHR ''1'')"

subsection \<open>Addresses\<close>

definition hex_text :: "nat \<Rightarrow> string \<Rightarrow> bool" where
  "hex_text n s \<longleftrightarrow> length s = n \<and> list_all is_hex s"

text \<open>\<open>^0x[0-9a-fA-F]{40}$\<close>, \<open>^0x(?:[0-9a-fA-F]{2})+$\<close> and \<open>^41[0-9a-f]{40}$\<close>.\<close>

definition evm_address_re :: "string \<Rightarrow> bool" where
  "evm_address_re s \<longleftrightarrow> prefix ''0x'' s \<and> hex_text 40 (drop 2 s)"

definition evm_hex_payload_re :: "string \<Rightarrow> bool" where
  "evm_hex_payload_re s \<longleftrightarrow>
     prefix ''0x'' s \<and> length s > 2 \<and> even (length s) \<and> list_all is_hex (drop 2 s)"

definition tron_hex_address_re :: "string \<Rightarrow> bool" where
  "tron_hex_address_re s \<longleftrightarrow>
     prefix ''41'' s \<and> length s = 42 \<and> list_all (\<lambda>c. is_hex c \<and> \<not> is_upper c) (drop 2 s)"

definition tron_addr_hex :: "(byte list \<Rightarrow> byte list) \<Rightarrow> string \<Rightarrow> string" where
  "tron_addr_hex sha addr =
     (if length addr = 42 \<and> prefix ''41'' (to_lower addr) \<and> hex_decode addr \<noteq> None
      then to_lower addr
      else if prefix ''T'' addr then
        (case base58_decode addr of
           Some raw \<Rightarrow>
             (if length raw = 25 \<and> take 4 (sha (sha (take 21 raw))) = drop 21 raw
              then to_lower (hex_encode (take 21 raw)) else to_lower addr)
         | None \<Rightarrow> to_lower addr)
      else to_lower addr)"

definition is_valid_tron_base58_address :: "(byte list \<Rightarrow> byte list) \<Rightarrow> string \<Rightarrow> bool" where
  "is_valid_tron_base58_address sha address =
     (if length address \<noteq> 34 \<or> \<not> prefix ''T'' address then False
      else let normalized = tron_addr_hex sha address in
           length normalized = 42 \<and> prefix ''41'' normalized \<and> tron_hex_address_re normalized)"

definition is_valid_solana_address :: "string \<Rightarrow> bool" where
  "is_valid_solana_address address =
     (if length address < 32 \<or> length address > 44 then False
      else case base58_decode address of Some raw \<Rightarrow> length raw = 32 | None \<Rightarrow> False)"

definition is_valid_solana_signature :: "string \<Rightarrow> bool" where
  "is_valid_solana_signature signature =
     (if length signature < 64 \<or> length signature > 88 then False
      else case base58_decode signature of Some raw \<Rightarrow> length raw = 64 | None \<Rightarrow> False)"

definition tron_addr_display :: "(byte list \<Rightarrow> byte list) \<Rightarrow> string \<Rightarrow> string" where
  "tron_addr_display sha addr =
     (if prefix ''T'' addr then addr
      else let normalized = to_lower (trim_space addr) in
           if length normalized \<noteq> 42 \<or> \<not> prefix ''41'' normalized then addr
           else case hex_decode normalized of
                  None \<Rightarrow> addr
                | Some payload \<Rightarrow>
                    if length payload \<noteq> 21 then addr
                    else base58_encode (payload @ take 4 (sha (sha payload))))"

text \<open>The result is the first failed check, \<open>None\<close> when the address is accepted.\<close>

definition validate_address :: "(byte list \<Rightarrow> byte list) \<Rightarrow> string \<Rightarrow> string \<Rightarrow> rpc_error option" where
  \<open>validate_address sha chain address =
     (if trim_space address = '''' then
        Some (invalid_params ''invalid params: "address" is required and must not be blank'')
      else case chains chain of
        None \<Rightarrow> Some (invalid_params ''invalid params: unsupported address chain'')
      | Some meta \<Rightarrow>
          if cm_evm meta \<and> \<not> evm_address_re address then
            Some (invalid_params ''invalid params: "address" must be a 0x-prefixed 20-byte hex address'')
          else if chain = ''tron'' \<and> \<not> is_valid_tron_base58_address sha address then
            Some (invalid_params
              ''invalid params: "address" must be a checksum-valid TRON Base58Check address'')
          else if chain = ''solana'' \<and> \<not> is_valid_solana_address address then
            Some (invalid_params
              ''invalid params: "address" must decode to a 32-byte Solana public key'')
          else None)\<close>

end
