(* ===== verification/Base58.thy ===== *)
theory Base58
  imports Registry
begin

section \<open>Base58 is a bijection between byte strings and canonical texts\<close>

text \<open>
  The proofs about \<open>base58_decode\<close> and \<open>base58_encode\<close> of \<open>handlers/validate.go\<close>: decoding an
  encoding gives the bytes back, and encoding a decoding gives the text back, so two
  different address texts never name the same bytes.
\<close>

lemma b58_index_nth: "d < 58 \<Longrightarrow> b58_index (b58_alphabet ! d) = Some d"
proof -
  have "list_all (\<lambda>d. b58_index (b58_alphabet ! d) = Some d) [0..<58]" by code_simp
  then show "d < 58 \<Longrightarrow> ?thesis" by (simp add: list_all_iff)
qed

lemma index_from_Some: "index_from i x xs = Some k \<Longrightarrow> i \<le> k \<and> k < i + length xs \<and> xs ! (k - i) = x"
  by (induction xs arbitrary: i) (fastforce simp: nth_Cons' split: if_splits)+

lemma b58_index_Some: "b58_index c = Some d \<Longrightarrow> d < 58 \<and> b58_alphabet ! d = c"
  using index_from_Some [of 0 c b58_alphabet d] by (simp add: b58_index_def b58_alphabet_def)

lemma b58_zero: "b58_alphabet ! 0 = CHR ''1''"
  by (simp add: b58_alphabet_def)

lemma b58_index_one: "b58_index CHR ''1'' = Some 0"
  using b58_index_nth [of 0] by (simp add: b58_zero)

lemma b58_index_zero: "b58_index c = Some 0 \<longleftrightarrow> c = CHR ''1''"
  using b58_index_Some [of c 0] b58_index_one b58_zero by auto

lemma base58_value_append:
  "base58_value n (xs @ ys) =
     (case base58_value n xs of None \<Rightarrow> None | Some m \<Rightarrow> base58_value m ys)"
  by (induction xs arbitrary: n) (auto split: option.splits)

lemma base58_value_ones: "base58_value 0 (replicate z CHR ''1'' @ s) = base58_value 0 s"
  by (induction z) (auto simp: b58_index_one)

lemma base58_value_grows: "base58_value n s = Some m \<Longrightarrow> n \<le> m"
proof (induction s arbitrary: n)
  case Nil
  then show ?case by simp
next
  case (Cons c s)
  then obtain d where "base58_value (n * 58 + d) s = Some m" by (auto split: option.splits)
  from Cons.IH [OF this] show ?case by simp
qed

lemma base58_value_positive:
  assumes "base58_value 0 s = Some n" and "s \<noteq> []" and "hd s \<noteq> CHR ''1''"
  shows "0 < n"
proof -
  from assms obtain d where d: "b58_index (hd s) = Some d" and "base58_value d (tl s) = Some n"
    by (cases s) (auto split: option.splits)
  then have "d \<le> n" by (auto dest: base58_value_grows)
  moreover have "d \<noteq> 0"
  proof
    assume "d = 0"
    with d have "b58_index (hd s) = Some 0" by simp
    then show False using assms(3) by (simp only: b58_index_zero)
  qed
  ultimately show ?thesis by simp
qed

lemma base58_value_digits: "base58_value 0 (rev (base58_digits n)) = Some n"
proof (induction n rule: base58_digits.induct)
  case (1 n)
  show ?case
  proof (cases "n = 0")
    case True
    then show ?thesis by (simp add: base58_digits.simps [of 0])
  next
    case False
    with 1 show ?thesis
      by (simp add: base58_digits.simps [of n] base58_value_append b58_index_nth)
  qed
qed

lemma base58_digits_last: "n \<noteq> 0 \<Longrightarrow> base58_digits n \<noteq> [] \<and> last (base58_digits n) \<noteq> CHR ''1''"
proof (induction n rule: base58_digits.induct)
  case (1 n)
  show ?case
  proof (cases "n div 58 = 0")
    case True
    then have "n < 58" by simp
    then have "b58_alphabet ! n \<noteq> CHR ''1''"
      using b58_index_nth [of n] b58_index_one 1(2) by auto
    with True \<open>n < 58\<close> 1(2) show ?thesis
      by (simp add: base58_digits.simps [of n] base58_digits.simps [of 0])
  next
    case False
    with 1 show ?thesis by (simp add: base58_digits.simps [of n])
  qed
qed

lemma rev_digits_of_value:
  assumes "base58_value 0 t = Some n" and "t = [] \<or> hd t \<noteq> CHR ''1''"
  shows "rev (base58_digits n) = t"
  using assms
proof (induction t arbitrary: n rule: rev_induct)
  case Nil
  then show ?case by (simp add: base58_digits.simps [of 0])
next
  case (snoc c u)
  from snoc.prems(1) obtain m d where m: "base58_value 0 u = Some m"
    and d: "b58_index c = Some d" and n: "n = m * 58 + d"
    by (auto simp: base58_value_append split: option.splits)
  have u: "u = [] \<or> hd u \<noteq> CHR ''1''" using snoc.prems(2) by (cases u) auto
  have "0 < n" using base58_value_positive [OF snoc.prems(1)] snoc.prems(2) by simp
  moreover have "d < 58" "b58_alphabet ! d = c" using b58_index_Some [OF d] by auto
  ultimately have "base58_digits n = c # base58_digits m"
    using n by (simp add: base58_digits.simps [of "m * 58 + d"])
  then show ?case using snoc.IH [OF m u] by simp
qed

subsection \<open>Big-endian bytes\<close>

lemma nat_of_bytes_snoc: "nat_of_bytes (bs @ [b]) = 256 * nat_of_bytes bs + unat b"
  by (simp add: nat_of_bytes_def)

lemma nat_of_bytes_of_nat: "nat_of_bytes (bytes_of_nat n) = n"
proof (induction n rule: bytes_of_nat.induct)
  case (1 n)
  have "unat (word_of_nat (n mod 256) :: byte) = n mod 256"
    by (simp add: unat_of_nat)
  with 1 show ?case
    by (cases "n = 0") (auto simp: bytes_of_nat.simps [of n] nat_of_bytes_snoc nat_of_bytes_def bytes_of_nat.simps [of 0])
qed

lemma bytes_of_nat_head: "bytes_of_nat n = [] \<or> hd (bytes_of_nat n) \<noteq> 0"
proof (induction n rule: bytes_of_nat.induct)
  case (1 n)
  show ?case
  proof (cases "n div 256 = 0")
    case True
    then have "n < 256" by simp
    then have "unat (word_of_nat n :: byte) = n" by (simp add: unat_of_nat)
    then have "n \<noteq> 0 \<Longrightarrow> (word_of_nat n :: byte) \<noteq> 0" by (metis unat_0)
    then show ?thesis using \<open>n < 256\<close>
      by (cases "n = 0") (simp_all add: bytes_of_nat.simps [of n] bytes_of_nat.simps [of 0])
  next
    case False
    then have "bytes_of_nat (n div 256) \<noteq> []" by (simp add: bytes_of_nat.simps [of "n div 256"])
    with 1 False show ?thesis by (simp add: bytes_of_nat.simps [of n])
  qed
qed

lemma bytes_of_nat_of_bytes: "bs = [] \<or> hd bs \<noteq> 0 \<Longrightarrow> bytes_of_nat (nat_of_bytes bs) = bs"
proof (induction bs rule: rev_induct)
  case Nil
  then show ?case by (simp add: nat_of_bytes_def bytes_of_nat.simps [of 0])
next
  case (snoc b bs)
  have bs: "bs = [] \<or> hd bs \<noteq> 0" using snoc.prems by (cases bs) auto
  have "unat b < 256" using unsigned_less [of b] by simp
  then have dm: "(256 * nat_of_bytes bs + unat b) div 256 = nat_of_bytes bs"
    "(256 * nat_of_bytes bs + unat b) mod 256 = unat b" by simp_all
  have "256 * nat_of_bytes bs + unat b \<noteq> 0"
  proof
    assume "256 * nat_of_bytes bs + unat b = 0"
    then have "nat_of_bytes bs = 0" "b = 0" by (auto simp: unat_eq_0)
    then have "bs = []" using snoc.IH [OF bs] by (simp add: bytes_of_nat.simps [of 0])
    with \<open>b = 0\<close> snoc.prems show False by simp
  qed
  then show ?case
    using snoc.IH [OF bs] dm
    by (simp add: nat_of_bytes_snoc bytes_of_nat.simps [of "256 * nat_of_bytes bs + unat b"])
qed

lemma nat_of_bytes_zeros: "nat_of_bytes (replicate z 0 @ bs) = nat_of_bytes bs"
proof -
  have "foldl (\<lambda>a b. 256 * a + unat b) 0 (replicate z (0 :: byte)) = 0" by (induction z) auto
  then show ?thesis by (simp add: nat_of_bytes_def)
qed

lemma split_takeWhile:
  "xs = replicate (length (takeWhile (\<lambda>x. x = a) xs)) a @ dropWhile (\<lambda>x. x = a) xs \<and>
   (dropWhile (\<lambda>x. x = a) xs = [] \<or> hd (dropWhile (\<lambda>x. x = a) xs) \<noteq> a)"
  by (induction xs) auto

lemma takeWhile_replicate_append:
  "ys = [] \<or> hd ys \<noteq> a \<Longrightarrow> takeWhile (\<lambda>x. x = a) (replicate z a @ ys) = replicate z a"
  by (induction z) (auto simp: takeWhile_eq_Nil_iff)

subsection \<open>Round trips\<close>

lemma decode_encode: "base58_decode (base58_encode payload) = Some payload"
proof -
  define z where "z = length (takeWhile (\<lambda>b. b = 0) payload)"
  define body where "body = dropWhile (\<lambda>b. b = 0) payload"
  have p: "payload = replicate z 0 @ body" and body: "body = [] \<or> hd body \<noteq> 0"
    using split_takeWhile [of payload 0] by (auto simp: z_def body_def)
  define ds where "ds = rev (base58_digits (nat_of_bytes payload))"
  have enc: "base58_encode payload = replicate z CHR ''1'' @ ds"
    by (simp add: base58_encode_def z_def ds_def)
  have ds: "ds = [] \<or> hd ds \<noteq> CHR ''1''"
    using base58_digits_last [of "nat_of_bytes payload"]
    by (cases "nat_of_bytes payload = 0") (simp_all add: ds_def hd_rev base58_digits.simps [of 0])
  have "bytes_of_nat (nat_of_bytes payload) = body"
    using bytes_of_nat_of_bytes [OF body] by (subst p) (simp add: nat_of_bytes_zeros)
  moreover have "base58_value 0 (base58_encode payload) = Some (nat_of_bytes payload)"
    by (simp add: enc base58_value_ones) (simp add: ds_def base58_value_digits)
  moreover have "takeWhile (\<lambda>c. c = CHR ''1'') (base58_encode payload) = replicate z CHR ''1''"
    using takeWhile_replicate_append [OF ds] by (simp add: enc)
  ultimately show ?thesis
    by (simp add: base58_decode_def p [symmetric])
qed

lemma encode_decode:
  assumes "base58_decode s = Some payload"
  shows "base58_encode payload = s"
proof -
  define z where "z = length (takeWhile (\<lambda>c. c = CHR ''1'') s)"
  define body where "body = dropWhile (\<lambda>c. c = CHR ''1'') s"
  have s: "s = replicate z CHR ''1'' @ body" and body: "body = [] \<or> hd body \<noteq> CHR ''1''"
    using split_takeWhile [of s "CHR ''1''"] by (auto simp: z_def body_def)
  from assms obtain n where n: "base58_value 0 s = Some n"
    and payload: "payload = replicate z 0 @ bytes_of_nat n"
    by (auto simp: base58_decode_def z_def split: option.splits)
  have "base58_value 0 body = Some n" using n s by (metis base58_value_ones)
  then have "rev (base58_digits n) = body" using body by (rule rev_digits_of_value)
  moreover have "takeWhile (\<lambda>b. b = 0) payload = replicate z 0"
    unfolding payload by (rule takeWhile_replicate_append [OF bytes_of_nat_head])
  ultimately show ?thesis
    using s by (simp add: base58_encode_def payload nat_of_bytes_zeros nat_of_bytes_of_nat)
qed

lemma base58_decode_length: "base58_decode s = Some p \<Longrightarrow> length p \<ge> length (takeWhile (\<lambda>c. c = CHR ''1'') s)"
  by (auto simp: base58_decode_def split: option.splits)

end
