(* ===== verification/Rlp.thy ===== *)
theory Rlp
  imports Base58
begin

section \<open>RLP framing of signed EVM transactions\<close>

text \<open>
  \<open>handlers/broadcast_envelope.go\<close>: the bounded RLP reader (\<open>readBroadcastRLP\<close>) and the
  envelope check in front of the broadcast guard (\<open>validEVMBroadcastEnvelope\<close>). Lengths are
  \<open>nat\<close>: every length is compared with the input before it grows, so the code's 64-bit
  \<open>int\<close> cannot wrap. The lemmas show that the reader accepts only the canonical encoding of
  the tree it returns (\<open>rlp_encode\<close>), uses at most its item budget and nests at most nine
  levels, and that it accepts the encoding of every well-formed tree within those limits.
\<close>

datatype broadcast_rlp =
  RLP (rlp_list: bool) (rlp_data: "byte list") (rlp_children: "broadcast_rlp list")

subsection \<open>The reader\<close>

text \<open>The loop over the length bytes, with \<open>left\<close> the length of the remaining input.\<close>

fun rlp_length_bytes :: "nat \<Rightarrow> nat \<Rightarrow> byte list \<Rightarrow> nat option" where
  "rlp_length_bytes left sz [] = Some sz"
| "rlp_length_bytes left sz (b # bs) =
     (if sz > left div 256 then None
      else let sz' = sz * 256 + unat b in
           if sz' > left then None else rlp_length_bytes left sz' bs)"

text \<open>Prefix byte 0x80 or above: list flag, header length and payload length.\<close>

definition rlp_header :: "byte list \<Rightarrow> (bool \<times> nat \<times> nat) option" where
  "rlp_header raw =
     (let prefix = unat (raw ! 0);
          is_list = (prefix \<ge> 0xc0);
          base = (if is_list then 0xc0 else 0x80);
          sz = prefix - base
      in case (if sz > 55 then
                 (let length_bytes = sz - 55 in
                  if length raw \<le> length_bytes \<or> raw ! 1 = 0 then None
                  else case rlp_length_bytes (length raw) 0 (take length_bytes (drop 1 raw)) of
                         None \<Rightarrow> None
                       | Some sz \<Rightarrow> if sz < 56 then None else Some (1 + length_bytes, sz))
               else Some (1, sz)) of
           None \<Rightarrow> None
         | Some (head, sz) \<Rightarrow>
             if sz > length raw - head then None else Some (is_list, head, sz))"

text \<open>
  \<open>read_broadcast_rlp depth budget raw\<close> gives the node, the bytes used and the budget left.
  The loop over a list's payload re-reads at the position the last item ended; the test
  \<open>n = 0\<close> never holds (\<open>read_broadcast_rlp_used\<close>) and is what makes the recursion on the
  payload well-founded.
\<close>

function read_broadcast_rlp :: "nat \<Rightarrow> nat \<Rightarrow> byte list \<Rightarrow> (broadcast_rlp \<times> nat \<times> nat) option"
  and read_rlp_children :: "nat \<Rightarrow> nat \<Rightarrow> byte list \<Rightarrow> (broadcast_rlp list \<times> nat) option"
where
  "read_broadcast_rlp depth budget raw =
     (if raw = [] \<or> depth > 8 \<or> budget = 0 then None
      else if unat (raw ! 0) < 0x80 then Some (RLP False (take 1 raw) [], 1, budget - 1)
      else case rlp_header raw of
        None \<Rightarrow> None
      | Some (is_list, head, sz) \<Rightarrow>
          (let data = take sz (drop head raw) in
           if \<not> is_list \<and> sz = 1 \<and> unat (data ! 0) < 0x80 then None
           else if is_list then
             (if head = 0 then None
              else case read_rlp_children (depth + 1) (budget - 1) data of
                     None \<Rightarrow> None
                   | Some (children, budget') \<Rightarrow> Some (RLP True data children, head + sz, budget'))
           else Some (RLP False data [], head + sz, budget - 1)))"
| "read_rlp_children depth budget data =
     (if data = [] then Some ([], budget)
      else case read_broadcast_rlp depth budget data of
        None \<Rightarrow> None
      | Some (child, n, budget') \<Rightarrow>
          if n = 0 then None
          else case read_rlp_children depth budget' (drop n data) of
                 None \<Rightarrow> None
               | Some (children, budget'') \<Rightarrow> Some (child # children, budget''))"
  by pat_completeness auto

termination
  by (relation "measure (\<lambda>x. case x of Inl (d, b, raw) \<Rightarrow> 2 * length raw
       | Inr (d, b, data) \<Rightarrow> 2 * length data + 1)")
     (auto simp flip: length_greater_0_conv simp: min_def)

declare read_broadcast_rlp.simps [simp del] read_rlp_children.simps [simp del]

subsection \<open>The envelope check\<close>

definition rlp_scalar_ok :: "broadcast_rlp \<Rightarrow> bool" where
  "rlp_scalar_ok scalar \<longleftrightarrow>
     \<not> (rlp_list scalar \<or> length (rlp_data scalar) = 0 \<or> length (rlp_data scalar) > 32 \<or>
        rlp_data scalar ! 0 = 0)"

definition valid_evm_broadcast_envelope :: "byte list \<Rightarrow> bool" where
  "valid_evm_broadcast_envelope raw =
     (if raw = [] then False
      else let typed = (unat (raw ! 0) < 0x80); tx_type = raw ! 0 in
        if typed \<and> tx_type = 0 then False
        else let raw' = (if typed then drop 1 raw else raw) in
          case read_broadcast_rlp 0 4096 raw' of
            None \<Rightarrow> False
          | Some (rt, used, _) \<Rightarrow>
              if used \<noteq> length raw' \<or> \<not> rlp_list rt then False
              else
                let fields0 = rlp_children rt;
                    fields = (if tx_type = 3 \<and> length fields0 = 4 \<and> rlp_list (fields0 ! 0)
                              then rlp_children (fields0 ! 0) else fields0);
                    n = length fields
                in if n < 9 \<or> (\<not> typed \<and> n \<noteq> 9) \<or> (tx_type = 1 \<and> n \<noteq> 11) \<or> (tx_type = 2 \<and> n \<noteq> 12)
                   then False
                   else if \<not> list_all rlp_scalar_ok (drop (n - 2) fields) then False
                   else let v = fields ! (n - 3); vd = rlp_data v in
                     if rlp_list v \<or> length vd > 32 \<or> (length vd > 0 \<and> vd ! 0 = 0) then False
                     else if typed then length vd = 0 \<or> (length vd = 1 \<and> vd ! 0 = 1)
                     else length vd > 1 \<or>
                          (length vd = 1 \<and> (vd ! 0 = 27 \<or> vd ! 0 = 28 \<or> unat (vd ! 0) \<ge> 35)))"

subsection \<open>The canonical encoding\<close>

definition rlp_encode_length :: "nat \<Rightarrow> nat \<Rightarrow> byte list" where
  "rlp_encode_length base n =
     (if n \<le> 55 then [word_of_nat (base + n)]
      else word_of_nat (base + 55 + length (bytes_of_nat n)) # bytes_of_nat n)"

fun rlp_encode :: "broadcast_rlp \<Rightarrow> byte list" where
  "rlp_encode (RLP is_list data children) =
     (if is_list then
        (let payload = concat (map rlp_encode children) in
         rlp_encode_length 0xc0 (length payload) @ payload)
      else if length data = 1 \<and> unat (data ! 0) < 0x80 then data
      else rlp_encode_length 0x80 (length data) @ data)"

fun rlp_nodes :: "broadcast_rlp \<Rightarrow> nat" where
  "rlp_nodes (RLP l d cs) = Suc (sum_list (map rlp_nodes cs))"

fun rlp_depth :: "broadcast_rlp \<Rightarrow> nat" where
  "rlp_depth (RLP l d cs) = Suc (foldr max (map rlp_depth cs) 0)"

text \<open>What the reader returns: a leaf has no children, a list's data is its children's bytes.\<close>

fun rlp_wf :: "broadcast_rlp \<Rightarrow> bool" where
  "rlp_wf (RLP l d cs) \<longleftrightarrow>
     (if l then d = concat (map rlp_encode cs) \<and> list_all rlp_wf cs else cs = [])"

lemma foldr_max_le:
  "(\<forall>x \<in> set xs. k + f x \<le> m) \<Longrightarrow> k \<le> m \<Longrightarrow> k + foldr max (map f xs) (0 :: nat) \<le> (m :: nat)"
  by (induction xs) auto

lemma rlp_length_bytes_value:
  "rlp_length_bytes left sz bs = Some n \<Longrightarrow> n = foldl (\<lambda>a b. 256 * a + unat b) sz bs"
  by (induction bs arbitrary: sz) (auto simp: Let_def mult.commute split: if_splits)

lemma rlp_header_canonical:
  assumes "rlp_header raw = Some (is_list, head, sz)" and "raw \<noteq> []" and "\<not> unat (raw ! 0) < 0x80"
  shows "take head raw = rlp_encode_length (if is_list then 0xc0 else 0x80) sz \<and>
         0 < head \<and> head + sz \<le> length raw"
proof -
  define p where "p = unat (raw ! 0)"
  define base :: nat where "base = (if is_list then 0xc0 else 0x80)"
  have p: "128 \<le> p" "p < 256" using assms(3) unsigned_less [of "raw ! 0"] by (auto simp: p_def)
  have il: "is_list \<longleftrightarrow> p \<ge> 0xc0"
    using assms(1) by (auto simp: rlp_header_def Let_def p_def split: if_splits option.splits)
  have raw0: "raw ! 0 = word_of_nat p" by (simp add: p_def)
  show ?thesis
  proof (cases "p - base > 55")
    case False
    then have "head = 1" "sz = p - base" "sz \<le> length raw - 1"
      using assms(1) il by (auto simp: rlp_header_def Let_def p_def base_def split: if_splits option.splits)
    moreover have "take 1 raw = [raw ! 0]" using assms(2) by (cases raw) auto
    moreover have "base + sz = p" using p il \<open>sz = p - base\<close> by (auto simp: base_def)
    moreover have "head + sz \<le> length raw" using assms(2) calculation(1,3) by (cases raw) auto
    ultimately show ?thesis
      using False raw0 by (auto simp: rlp_encode_length_def base_def)
  next
    case True
    define lb where "lb = p - base - 55"
    define bs where "bs = take lb (drop 1 raw)"
    from True assms(1) il have hd: "head = 1 + lb" and len: "lb < length raw" and nz: "raw ! 1 \<noteq> 0"
      and szv: "rlp_length_bytes (length raw) 0 bs = Some sz" and big: "56 \<le> sz"
      and fit: "sz \<le> length raw - head"
      by (auto simp: rlp_header_def Let_def p_def base_def lb_def bs_def split: if_splits option.splits)
    have lbpos: "0 < lb" using True by (simp add: lb_def)
    have lbs: "length bs = lb" using len by (simp add: bs_def)
    have "hd bs = raw ! 1" using len lbpos by (simp add: bs_def hd_drop_conv_nth)
    then have "bytes_of_nat (nat_of_bytes bs) = bs"
      using nz lbs lbpos by (intro bytes_of_nat_of_bytes) auto
    moreover have "nat_of_bytes bs = sz"
      using rlp_length_bytes_value [OF szv] by (simp add: nat_of_bytes_def)
    ultimately have bytes: "bytes_of_nat sz = bs" by simp
    have "take head raw = raw ! 0 # bs"
      using assms(2) by (cases raw) (auto simp: hd bs_def)
    moreover have "p = base + 55 + lb" using True by (simp add: lb_def)
    ultimately show ?thesis
      using big bytes lbs raw0 fit hd len by (simp add: rlp_encode_length_def base_def)
  qed
qed

lemma read_broadcast_rlp_canonical:
  shows "read_broadcast_rlp depth budget raw = Some (node, used, budget') \<Longrightarrow>
      take used raw = rlp_encode node \<and> 0 < used \<and> used \<le> length raw \<and> rlp_wf node \<and>
      rlp_nodes node + budget' = budget \<and> depth + rlp_depth node \<le> 9"
    and "read_rlp_children depth budget data = Some (children, budget'') \<Longrightarrow>
      concat (map rlp_encode children) = data \<and> list_all rlp_wf children \<and>
      sum_list (map rlp_nodes children) + budget'' = budget \<and>
      (\<forall>c \<in> set children. depth + rlp_depth c \<le> 9)"
proof (induction depth budget raw and depth budget data
    arbitrary: node used budget' and children budget'' rule: read_broadcast_rlp_read_rlp_children.induct)
  case (1 depth budget raw)
  have pre: "raw \<noteq> []" "depth \<le> 8" "0 < budget"
    using "1.prems" by (auto simp: read_broadcast_rlp.simps [of depth budget raw] split: if_splits)
  show ?case
  proof (cases "unat (raw ! 0) < 0x80")
    case True
    with "1.prems" pre show ?thesis
      by (cases raw) (auto simp: read_broadcast_rlp.simps [of depth budget])
  next
    case False
    with "1.prems" pre obtain is_list head sz where hdr: "rlp_header raw = Some (is_list, head, sz)"
      by (auto simp: read_broadcast_rlp.simps [of depth budget raw] split: option.splits)
    define data where "data = take sz (drop head raw)"
    from rlp_header_canonical [OF hdr pre(1) False]
    have enc: "take head raw = rlp_encode_length (if is_list then 0xc0 else 0x80) sz"
      and fit: "0 < head" "head + sz \<le> length raw" by auto
    have ld: "length data = sz" using fit by (simp add: data_def)
    have tk: "take (head + sz) raw = rlp_encode_length (if is_list then 0xc0 else 0x80) sz @ data"
      by (simp add: take_add enc data_def)
    show ?thesis
    proof (cases is_list)
      case il: True
      with "1.prems" pre False hdr fit obtain cs where
        ch: "read_rlp_children (depth + 1) (budget - 1) data = Some (cs, budget')"
        and node: "node = RLP True data cs" "used = head + sz"
        by (auto simp: read_broadcast_rlp.simps [of depth budget raw] Let_def data_def
            split: option.splits if_splits)
      have IH: "concat (map rlp_encode cs) = data \<and> list_all rlp_wf cs \<and>
          sum_list (map rlp_nodes cs) + budget' = budget - 1 \<and>
          (\<forall>c \<in> set cs. depth + 1 + rlp_depth c \<le> 9)"
        by (rule "1.IH" [of "(is_list, head, sz)" is_list "(head, sz)" head sz data cs budget'])
           (use pre False hdr il fit ch in \<open>auto simp: data_def\<close>)
      then have "depth + 1 + foldr max (map rlp_depth cs) 0 \<le> 9"
        using pre(2) by (intro foldr_max_le) auto
      with IH node il tk ld fit pre show ?thesis by (auto simp: Let_def)
    next
      case nl: False
      with "1.prems" pre False hdr have node: "node = RLP False data []" "used = head + sz"
        "budget' = budget - 1" and ns: "\<not> (sz = 1 \<and> unat (data ! 0) < 0x80)"
        by (auto simp: read_broadcast_rlp.simps [of depth budget raw] Let_def data_def
            split: option.splits if_splits)
      with nl tk ld fit pre show ?thesis by auto
    qed
  qed
next
  case (2 depth budget data)
  show ?case
  proof (cases "data = []")
    case True
    with "2.prems" show ?thesis by (simp add: read_rlp_children.simps)
  next
    case False
    with "2.prems" obtain child n b cs where
      c: "read_broadcast_rlp depth budget data = Some (child, n, b)" and n: "n \<noteq> 0"
      and cs: "read_rlp_children depth b (drop n data) = Some (cs, budget'')"
      and children: "children = child # cs"
      by (auto simp: read_rlp_children.simps [of depth budget data] split: option.splits if_splits)
    have A: "take n data = rlp_encode child \<and> 0 < n \<and> n \<le> length data \<and> rlp_wf child \<and>
      rlp_nodes child + b = budget \<and> depth + rlp_depth child \<le> 9"
      by (rule "2.IH"(1)) (use False c in auto)
    have B: "concat (map rlp_encode cs) = drop n data \<and> list_all rlp_wf cs \<and>
      sum_list (map rlp_nodes cs) + budget'' = b \<and> (\<forall>c \<in> set cs. depth + rlp_depth c \<le> 9)"
      by (rule "2.IH"(2) [of "(child, n, b)" child "(n, b)" n b]) (use False c n cs in auto)
    from A B have "rlp_encode child @ concat (map rlp_encode cs) = data"
      by (metis append_take_drop_id)
    with A B children show ?thesis by auto
  qed
qed

lemmas read_broadcast_rlp_used = read_broadcast_rlp_canonical(1)

subsection \<open>Every canonical encoding within the limits is accepted\<close>

lemma bytes_of_nat_length: "n < 256 ^ k \<Longrightarrow> length (bytes_of_nat n) \<le> k"
proof (induction k arbitrary: n)
  case 0
  then show ?case by (simp add: bytes_of_nat.simps [of 0])
next
  case (Suc k)
  then have "length (bytes_of_nat (n div 256)) \<le> k"
    by (intro Suc.IH) (simp add: less_mult_imp_div_less mult.commute)
  then show ?case by (cases "n = 0") (simp_all add: bytes_of_nat.simps [of n] bytes_of_nat.simps [of 0])
qed

lemma foldl_bytes_ge: "s \<le> foldl (\<lambda>a b. 256 * a + unat (b :: byte)) s bs"
proof (induction bs arbitrary: s)
  case Nil
  then show ?case by simp
next
  case (Cons b bs)
  have "s \<le> 256 * s + unat b" by simp
  also have "\<dots> \<le> foldl (\<lambda>a b. 256 * a + unat b) (256 * s + unat b) bs" by (rule Cons.IH)
  finally show ?case by simp
qed

lemma rlp_length_bytes_accepts:
  "foldl (\<lambda>a b. 256 * a + unat b) s bs \<le> left \<Longrightarrow>
   rlp_length_bytes left s bs = Some (foldl (\<lambda>a b. 256 * a + unat b) s bs)"
proof (induction bs arbitrary: s)
  case Nil
  then show ?case by simp
next
  case (Cons b bs)
  have "256 * s + unat b \<le> left"
    using foldl_bytes_ge [of "256 * s + unat b" bs] Cons.prems by simp
  moreover from this have "s \<le> left div 256" by simp
  ultimately show ?case
    using Cons.IH [of "256 * s + unat b"] Cons.prems by (simp add: Let_def mult.commute)
qed

lemma rlp_header_accepts:
  assumes n: "n < 2 ^ 64" "n \<le> length tail"
    and base: "base = (if is_list then 0xc0 else 0x80)"
  shows "rlp_header (rlp_encode_length base n @ tail) =
           Some (is_list, length (rlp_encode_length base n), n) \<and>
         \<not> unat ((rlp_encode_length base n @ tail) ! 0) < 0x80"
proof (cases "n \<le> 55")
  case True
  define w :: byte where "w = word_of_nat (base + n)"
  have "base + n < 256" using True base by auto
  then have w: "unat w = base + n" unfolding w_def by (simp only: unat_of_nat) simp
  have "rlp_encode_length base n = [w]" using True by (simp add: rlp_encode_length_def w_def)
  then show ?thesis using True n base w by (auto simp: rlp_header_def Let_def)
next
  case False
  define bs where "bs = bytes_of_nat n"
  have len: "length bs \<le> 8" using bytes_of_nat_length [of n 8] n(1) by (simp add: bs_def)
  have ne: "bs \<noteq> []" using False by (simp add: bs_def bytes_of_nat.simps [of n])
  then have "hd bs \<noteq> 0" using bytes_of_nat_head [of n] by (simp add: bs_def)
  then have b0: "bs ! 0 \<noteq> 0" using ne by (simp add: hd_conv_nth)
  define w :: byte where "w = word_of_nat (base + 55 + length bs)"
  have "base + 55 + length bs < 256" using len base by auto
  then have w: "unat w = base + 55 + length bs" unfolding w_def by (simp only: unat_of_nat) simp
  have v: "rlp_length_bytes (Suc (length bs + length tail)) 0 bs = Some n"
  proof -
    have "nat_of_bytes bs = n" by (simp add: bs_def nat_of_bytes_of_nat)
    then show ?thesis using rlp_length_bytes_accepts [of 0 bs] n(2) by (simp add: nat_of_bytes_def)
  qed
  have enc: "rlp_encode_length base n = w # bs" using False by (simp add: rlp_encode_length_def bs_def w_def)
  have "0 < length bs" using ne by simp
  then have lt: "length bs < Suc (length bs + length tail)" "(bs @ tail) ! 0 = bs ! 0"
    by (simp_all add: nth_append)
  show ?thesis
    unfolding enc rlp_header_def using w v len ne b0 lt n False base
    by (auto simp: Let_def)
qed

lemma rlp_encode_nonempty: "rlp_encode t \<noteq> []"
  by (cases t) (auto simp: rlp_encode_length_def Let_def)

lemma read_broadcast_rlp_accepts:
  "rlp_wf t \<Longrightarrow> depth + rlp_depth t \<le> 9 \<Longrightarrow> rlp_nodes t \<le> budget \<Longrightarrow>
   length (rlp_encode t) < 2 ^ 64 \<Longrightarrow>
   read_broadcast_rlp depth budget (rlp_encode t @ rest) =
     Some (t, length (rlp_encode t), budget - rlp_nodes t)"
proof (induction t arbitrary: depth budget rest)
  case (RLP is_list data cs)
  have children: "read_rlp_children (depth + 1) b (concat (map rlp_encode ts)) =
      Some (ts, b - sum_list (map rlp_nodes ts))"
    if "set ts \<subseteq> set cs" "list_all rlp_wf ts" "\<forall>t \<in> set ts. depth + 1 + rlp_depth t \<le> 9"
      "sum_list (map rlp_nodes ts) \<le> b" "length (concat (map rlp_encode ts)) < 2 ^ 64" for ts b
    using that
  proof (induction ts arbitrary: b)
    case Nil
    then show ?case by (simp add: read_rlp_children.simps)
  next
    case (Cons t ts)
    have "read_broadcast_rlp (depth + 1) b (rlp_encode t @ concat (map rlp_encode ts)) =
        Some (t, length (rlp_encode t), b - rlp_nodes t)"
      using Cons.prems by (intro RLP.IH) auto
    moreover have "read_rlp_children (depth + 1) (b - rlp_nodes t) (concat (map rlp_encode ts)) =
        Some (ts, b - rlp_nodes t - sum_list (map rlp_nodes ts))"
      using Cons.prems by (intro Cons.IH) auto
    ultimately show ?case
      using rlp_encode_nonempty [of t]
      by (simp add: read_rlp_children.simps [of "Suc depth" b])
  qed
  have dep: "\<forall>c \<in> set cs. rlp_depth c \<le> foldr max (map rlp_depth cs) 0"
    by (induction cs) (auto simp: le_max_iff_disj)
  show ?case
  proof (cases "\<not> is_list \<and> length data = 1 \<and> unat (data ! 0) < 0x80")
    case True
    then obtain b where "data = [b]" by (cases data) auto
    with True RLP.prems show ?thesis
      by (simp add: read_broadcast_rlp.simps [of depth budget] Let_def)
  next
    case False
    define base :: nat where "base = (if is_list then 0xc0 else 0x80)"
    define h where "h = rlp_encode_length base (length data)"
    have enc: "rlp_encode (RLP is_list data cs) = h @ data"
      using False RLP.prems(1) by (auto simp: h_def base_def Let_def)
    have n: "length data < 2 ^ 64" using RLP.prems(4) unfolding enc by simp
    from rlp_header_accepts [OF n, of "data @ rest" base is_list]
    have hdr: "rlp_header (h @ data @ rest) = Some (is_list, length h, length data)"
      and ge: "\<not> unat ((h @ data @ rest) ! 0) < 0x80" by (simp_all add: h_def base_def)
    have h: "0 < length h" by (simp add: h_def rlp_encode_length_def)
    have bounds: "depth \<le> 8" "0 < budget" using RLP.prems(2,3) by auto
    show ?thesis
    proof (cases is_list)
      case True
      have "read_rlp_children (depth + 1) (budget - 1) data =
          Some (cs, budget - 1 - sum_list (map rlp_nodes cs))"
        using children [of cs "budget - 1"] True RLP.prems n dep by fastforce
      with True hdr ge h bounds show ?thesis
        unfolding enc by (simp add: read_broadcast_rlp.simps [of depth budget] Let_def)
    next
      case nl: False
      with False RLP.prems(1) hdr ge h bounds show ?thesis
        unfolding enc by (auto simp: read_broadcast_rlp.simps [of depth budget] Let_def)
    qed
  qed
qed

subsection \<open>The transaction in an accepted envelope\<close>

definition envelope_body :: "byte list \<Rightarrow> byte list" where
  "envelope_body raw = (if unat (raw ! 0) < 0x80 then drop 1 raw else raw)"

lemma accepted_envelope_parses:
  assumes "valid_evm_broadcast_envelope raw"
  shows "raw \<noteq> [] \<and> (\<exists>t budget.
    read_broadcast_rlp 0 4096 (envelope_body raw) = Some (t, length (envelope_body raw), budget) \<and> rlp_list t)"
proof -
  have ne: "raw \<noteq> []" using assms by (auto simp: valid_evm_broadcast_envelope_def)
  note run = assms [unfolded valid_evm_broadcast_envelope_def Let_def [of "unat (raw ! 0) < 0x80"]
      Let_def [of "raw ! 0"] envelope_body_def [symmetric], unfolded Let_def [of "envelope_body raw"]]
  show ?thesis
  proof (cases "read_broadcast_rlp 0 4096 (envelope_body raw)")
    case None
    then show ?thesis using run ne by (simp split: if_splits)
  next
    case (Some x)
    obtain t used budget where x: "x = (t, used, budget)" by (cases x)
    have "\<not> (used \<noteq> length (envelope_body raw) \<or> \<not> rlp_list t)"
    proof
      assume "used \<noteq> length (envelope_body raw) \<or> \<not> rlp_list t"
      with run show False unfolding Some x option.case prod.case by (simp split: if_splits)
    qed
    then show ?thesis using Some x ne by simp
  qed
qed

end
