(* ===== verification/Expiry_Heap.thy ===== *)
theory Expiry_Heap
  imports Prelude "HOL-Library.Multiset"
begin

section \<open>The expiry index of the broadcast guard\<close>

text \<open>
  \<open>broadcastExpiryHeap\<close> of \<open>handlers/broadcast_guard.go\<close> with the \<open>container/heap\<close> algorithms
  that drive it. Heap items are pointers: \<open>eh_obj\<close> is the memory of \<open>broadcastExpiry\<close> objects,
  \<open>eh_items\<close> the slice of their addresses. \<open>Swap\<close>, \<open>Push\<close> and \<open>Pop\<close> keep each object's \<open>index\<close>
  field, which is what makes removing an arbitrary record possible. \<open>index_inv\<close> says the
  field is right for every item of the heap; every heap operation keeps it, keeps the keys
  and times of all objects, and changes the set of items only by the one pushed or removed.
\<close>

record broadcast_expiry =
  be_key :: string
  be_at :: instant
  be_index :: int

record expiry_heap =
  eh_obj :: "nat \<Rightarrow> broadcast_expiry"
  eh_items :: "nat list"

definition heap_less :: "expiry_heap \<Rightarrow> nat \<Rightarrow> nat \<Rightarrow> bool" where
  "heap_less h i j \<longleftrightarrow> be_at (eh_obj h (eh_items h ! i)) < be_at (eh_obj h (eh_items h ! j))"

definition set_index :: "nat \<Rightarrow> int \<Rightarrow> (nat \<Rightarrow> broadcast_expiry) \<Rightarrow> (nat \<Rightarrow> broadcast_expiry)" where
  "set_index p i obj = obj(p := (obj p)\<lparr>be_index := i\<rparr>)"

definition heap_swap :: "nat \<Rightarrow> nat \<Rightarrow> expiry_heap \<Rightarrow> expiry_heap" where
  "heap_swap i j h =
     (let a = eh_items h ! i; b = eh_items h ! j in
      \<lparr>eh_obj = set_index a (int j) (set_index b (int i) (eh_obj h)),
       eh_items = (eh_items h)[i := b, j := a]\<rparr>)"

text \<open>The interface methods \<open>Push\<close> and \<open>Pop\<close>.\<close>

definition heap_append :: "nat \<Rightarrow> expiry_heap \<Rightarrow> expiry_heap" where
  "heap_append p h =
     \<lparr>eh_obj = set_index p (int (length (eh_items h))) (eh_obj h), eh_items = eh_items h @ [p]\<rparr>"

definition heap_drop_last :: "expiry_heap \<Rightarrow> expiry_heap" where
  "heap_drop_last h =
     \<lparr>eh_obj = set_index (last (eh_items h)) (-1) (eh_obj h), eh_items = butlast (eh_items h)\<rparr>"

text \<open>\<open>container/heap\<close>: sifting up and down, \<open>Push\<close> and \<open>Remove\<close>.\<close>

fun heap_up :: "nat \<Rightarrow> expiry_heap \<Rightarrow> expiry_heap" where
  "heap_up j h =
     (let i = (j - 1) div 2 in
      if j = 0 \<or> \<not> heap_less h j i then h else heap_up i (heap_swap i j h))"

declare heap_up.simps [simp del]

function heap_down :: "nat \<Rightarrow> nat \<Rightarrow> expiry_heap \<Rightarrow> nat \<times> expiry_heap" where
  "heap_down i n h =
     (let j1 = 2 * i + 1 in
      if j1 \<ge> n then (i, h)
      else let j = (if j1 + 1 < n \<and> heap_less h (j1 + 1) j1 then j1 + 1 else j1) in
           if \<not> heap_less h j i then (i, h) else heap_down j n (heap_swap i j h))"
  by pat_completeness auto
termination
  by (relation "measure (\<lambda>(i, n, h). n - i)") (auto simp: Let_def)

declare heap_down.simps [simp del]

definition heap_push :: "nat \<Rightarrow> expiry_heap \<Rightarrow> expiry_heap" where
  "heap_push p h = heap_up (length (eh_items h)) (heap_append p h)"

definition heap_remove :: "nat \<Rightarrow> expiry_heap \<Rightarrow> expiry_heap" where
  "heap_remove i h =
     (let n = length (eh_items h) - 1 in
      heap_drop_last
        (if n \<noteq> i then
           (let (i', h') = heap_down i n (heap_swap i n h) in
            if i' > i then h' else heap_up i h')
         else h))"

subsection \<open>Frames and the index invariant\<close>

definition same_objects :: "expiry_heap \<Rightarrow> expiry_heap \<Rightarrow> bool" where
  "same_objects h h' \<longleftrightarrow>
     (\<forall>p. be_key (eh_obj h' p) = be_key (eh_obj h p) \<and> be_at (eh_obj h' p) = be_at (eh_obj h p))"

definition index_inv :: "expiry_heap \<Rightarrow> bool" where
  "index_inv h \<longleftrightarrow>
     distinct (eh_items h) \<and>
     (\<forall>i < length (eh_items h). be_index (eh_obj h (eh_items h ! i)) = int i)"

lemma same_objects_refl [simp]: "same_objects h h"
  by (simp add: same_objects_def)

lemma same_objects_trans: "same_objects h h' \<Longrightarrow> same_objects h' h'' \<Longrightarrow> same_objects h h''"
  by (simp add: same_objects_def)

lemma same_objects_swap: "same_objects h (heap_swap i j h)"
  by (simp add: same_objects_def heap_swap_def set_index_def Let_def)

lemma mset_swap_list:
  "i < length xs \<Longrightarrow> j < length xs \<Longrightarrow> mset (xs[i := xs ! j, j := xs ! i]) = mset xs"
  by (rule mset_swap)

lemma heap_swap_items:
  "i < length (eh_items h) \<Longrightarrow> j < length (eh_items h) \<Longrightarrow>
     mset (eh_items (heap_swap i j h)) = mset (eh_items h)"
  by (simp add: heap_swap_def Let_def mset_swap_list)

lemma heap_swap_inv [inv_intros]:
  assumes "index_inv h" and "i < length (eh_items h)" and "j < length (eh_items h)"
  shows "index_inv (heap_swap i j h)"
proof -
  have d: "distinct (eh_items (heap_swap i j h))"
    using assms heap_swap_items [of i h j] by (metis index_inv_def mset_eq_imp_distinct_iff)
  have len: "length (eh_items (heap_swap i j h)) = length (eh_items h)"
    by (simp add: heap_swap_def Let_def)
  have "be_index (eh_obj (heap_swap i j h) (eh_items (heap_swap i j h) ! k)) = int k"
    if "k < length (eh_items h)" for k
    using assms that
    by (auto simp: heap_swap_def set_index_def Let_def index_inv_def nth_list_update nth_eq_iff_index_eq)
  then show ?thesis using d len by (simp add: index_inv_def)
qed

text \<open>What every heap algorithm does to the heap: a permutation that keeps the objects.\<close>

definition rearranges :: "expiry_heap \<Rightarrow> expiry_heap \<Rightarrow> bool" where
  "rearranges h h' \<longleftrightarrow>
     same_objects h h' \<and> mset (eh_items h') = mset (eh_items h) \<and> (index_inv h \<longrightarrow> index_inv h')"

lemma rearranges_refl [simp]: "rearranges h h"
  by (simp add: rearranges_def)

lemma rearranges_trans: "rearranges h h' \<Longrightarrow> rearranges h' h'' \<Longrightarrow> rearranges h h''"
  by (auto simp: rearranges_def intro: same_objects_trans)

lemma rearranges_length: "rearranges h h' \<Longrightarrow> length (eh_items h') = length (eh_items h)"
  by (metis mset_eq_length rearranges_def)

lemma rearranges_swap:
  "i < length (eh_items h) \<Longrightarrow> j < length (eh_items h) \<Longrightarrow> rearranges h (heap_swap i j h)"
  by (simp add: rearranges_def same_objects_swap heap_swap_items heap_swap_inv)

lemma rearranges_up: "j < length (eh_items h) \<Longrightarrow> rearranges h (heap_up j h)"
proof (induction j h rule: heap_up.induct)
  case (1 j h)
  define i where "i = (j - 1) div 2"
  have sw: "i < length (eh_items h)" using "1.prems" by (auto simp: i_def)
  show ?case
  proof (cases "j = 0 \<or> \<not> heap_less h j i")
    case True
    then show ?thesis by (simp add: heap_up.simps [of j] i_def)
  next
    case False
    have "rearranges h (heap_swap i j h)" using sw "1.prems" by (rule rearranges_swap)
    moreover have "rearranges (heap_swap i j h) (heap_up i (heap_swap i j h))"
      using "1.IH" [of i] False sw by (simp add: i_def heap_swap_def Let_def)
    ultimately show ?thesis
      using False by (simp add: heap_up.simps [of j] i_def Let_def) (blast intro: rearranges_trans)
  qed
qed

lemma rearranges_down:
  "i < length (eh_items h) \<Longrightarrow> n \<le> length (eh_items h) \<Longrightarrow> heap_down i n h = (i', h') \<Longrightarrow>
     rearranges h h' \<and> (\<forall>k. n \<le> k \<longrightarrow> k \<noteq> i \<longrightarrow> k < length (eh_items h) \<longrightarrow> eh_items h' ! k = eh_items h ! k)"
proof (induction i n h arbitrary: i' h' rule: heap_down.induct)
  case (1 i n h)
  define j1 where "j1 = 2 * i + 1"
  define j where "j = (if j1 + 1 < n \<and> heap_less h (j1 + 1) j1 then j1 + 1 else j1)"
  have step: "heap_down i n h =
      (if j1 \<ge> n \<or> \<not> heap_less h j i then (i, h) else heap_down j n (heap_swap i j h))"
    unfolding heap_down.simps [of i] by (auto simp: j1_def j_def Let_def)
  show ?case
  proof (cases "j1 \<ge> n \<or> \<not> heap_less h j i")
    case True
    then show ?thesis using "1.prems"(3) unfolding step by auto
  next
    case False
    then have jn: "j < n" "i < j" by (auto simp: j_def j1_def)
    then have jl: "j < length (eh_items h)" using "1.prems"(2) by simp
    have eq: "heap_down j n (heap_swap i j h) = (i', h')"
      using False "1.prems"(3) unfolding step by simp
    have len: "length (eh_items (heap_swap i j h)) = length (eh_items h)"
      by (simp add: heap_swap_def Let_def)
    have "rearranges (heap_swap i j h) h' \<and>
      (\<forall>k. n \<le> k \<longrightarrow> k \<noteq> j \<longrightarrow> k < length (eh_items (heap_swap i j h)) \<longrightarrow>
           eh_items h' ! k = eh_items (heap_swap i j h) ! k)"
      by (rule "1.IH" [of j1 j]) (use False jl len eq "1.prems"(2) in \<open>auto simp: j1_def j_def\<close>)
    moreover have "rearranges h (heap_swap i j h)" using "1.prems"(1) jl by (rule rearranges_swap)
    moreover have "\<forall>k. n \<le> k \<longrightarrow> k \<noteq> i \<longrightarrow> eh_items (heap_swap i j h) ! k = eh_items h ! k"
      using jn by (auto simp: heap_swap_def Let_def nth_list_update)
    ultimately show ?thesis using jn len by (auto intro: rearranges_trans)
  qed
qed

subsection \<open>Push and Remove\<close>

lemma heap_append_inv:
  assumes "index_inv h" and "p \<notin> set (eh_items h)"
  shows "index_inv (heap_append p h)"
  using assms by (auto simp: index_inv_def heap_append_def set_index_def nth_append)

lemma heap_push_spec:
  assumes "index_inv h" and "p \<notin> set (eh_items h)"
  shows "index_inv (heap_push p h) \<and> same_objects h (heap_push p h) \<and>
         mset (eh_items (heap_push p h)) = add_mset p (mset (eh_items h))"
proof -
  have "rearranges (heap_append p h) (heap_push p h)"
    unfolding heap_push_def by (rule rearranges_up) (simp add: heap_append_def)
  moreover have "same_objects h (heap_append p h)"
    by (simp add: same_objects_def heap_append_def set_index_def)
  ultimately show ?thesis
    using heap_append_inv [OF assms]
    by (auto simp: rearranges_def heap_append_def intro: same_objects_trans)
qed

lemma heap_drop_last_spec:
  assumes "index_inv h" and "eh_items h \<noteq> []"
  shows "index_inv (heap_drop_last h) \<and> same_objects h (heap_drop_last h) \<and>
         mset (eh_items (heap_drop_last h)) = mset (eh_items h) - {#last (eh_items h)#}"
proof -
  obtain xs x where xs: "eh_items h = xs @ [x]" using assms(2) by (metis append_butlast_last_id)
  then have "x \<notin> set xs" "distinct xs" using assms(1) by (auto simp: index_inv_def)
  moreover have "be_index (eh_obj h (xs ! i)) = int i" if "i < length xs" for i
    using assms(1) that unfolding index_inv_def xs
    by (metis append_Nil2 length_append less_Suc_eq nth_append_left xs length_append_singleton)
  ultimately show ?thesis
    using xs by (auto simp: index_inv_def heap_drop_last_def set_index_def same_objects_def)
qed

text \<open>
  \<open>heap.Remove\<close> takes out exactly the item at the index, wherever it is in the heap.
\<close>

lemma heap_remove_spec:
  assumes inv: "index_inv h" and i: "i < length (eh_items h)"
  shows "index_inv (heap_remove i h) \<and> same_objects h (heap_remove i h) \<and>
         mset (eh_items (heap_remove i h)) = mset (eh_items h) - {#eh_items h ! i#}"
proof -
  define n where "n = length (eh_items h) - 1"
  define g where "g = (if n \<noteq> i then
       (let (i', h') = heap_down i n (heap_swap i n h) in if i' > i then h' else heap_up i h') else h)"
  have rm: "heap_remove i h = heap_drop_last g" by (simp add: heap_remove_def g_def n_def Let_def)
  have nl: "n < length (eh_items h)" using i by (simp add: n_def)
  have core: "rearranges h g \<and> last (eh_items g) = eh_items h ! i"
  proof (cases "n = i")
    case True
    then have "last (eh_items h) = eh_items h ! i"
      using i by (simp add: n_def last_conv_nth flip: length_greater_0_conv)
    then show ?thesis using True by (simp add: g_def)
  next
    case False
    define s where "s = heap_swap i n h"
    obtain i' d where d: "heap_down i n s = (i', d)" by (cases "heap_down i n s")
    have ls: "length (eh_items s) = length (eh_items h)" by (simp add: s_def heap_swap_def Let_def)
    have hs: "rearranges h s" unfolding s_def using i nl by (rule rearranges_swap)
    have sd: "rearranges s d" and keep: "eh_items d ! n = eh_items s ! n"
      using rearranges_down [OF _ _ d] i nl ls False by auto
    have ld: "length (eh_items d) = length (eh_items h)" using rearranges_length [OF sd] ls by simp
    have sn: "eh_items s ! n = eh_items h ! i" using nl by (simp add: s_def heap_swap_def Let_def)
    have in_: "i < n" using i False by (simp add: n_def)
    have up: "rearranges d (heap_up i d)" using i ld by (intro rearranges_up) simp
    have "eh_items (heap_up i d) ! n = eh_items d ! n"
      using in_ by (induction i d rule: heap_up.induct)
        (subst heap_up.simps, auto simp: Let_def heap_swap_def)
    then have "rearranges d g \<and> eh_items g ! n = eh_items h ! i"
      using False d up keep sn by (auto simp: g_def s_def)
    then have "rearranges h g" "eh_items g ! n = eh_items h ! i"
      using hs sd by (blast intro: rearranges_trans)+
    moreover from this have "length (eh_items g) = Suc n"
      using rearranges_length [of h g] i by (simp add: n_def)
    ultimately show ?thesis by (metis diff_Suc_1 last_conv_nth list.size(3) nat.distinct(1))
  qed
  then have "eh_items g \<noteq> []" using rearranges_length [of h g] i by auto
  with core inv heap_drop_last_spec [of g] show ?thesis
    unfolding rm by (auto simp: rearranges_def intro: same_objects_trans)
qed

end
