(* ===== verification/Guard.thy ===== *)
theory Guard
  imports Errors Expiry_Heap "HOL-Library.AList"
begin

section \<open>The broadcast guard\<close>

text \<open>
  \<open>handlers/broadcast_guard.go\<close>: the idempotency guard in front of every signed-transaction
  submission. \<open>broadcast_guard\<close> is the process-local state: the records by payload key, the
  expiry index over them, the list of records that may be evicted, and the counters. Objects
  the code compares by pointer (expiry objects, list elements) are numbered from \<open>bg_next\<close>.

  \<open>begin_guard\<close> and \<open>complete_guard\<close> are split where the code releases its mutex, so that
  another request may run in between: \<open>begin_local\<close> is the first locked section,
  \<open>read_shared\<close> the answer of the shared store, \<open>adopt_shared\<close> the second locked section;
  \<open>complete_local\<close> and \<open>complete_publish\<close> the two of \<open>complete\<close>. The store's answers
  (\<open>setnx_result\<close>, \<open>get_result\<close>, the outcome of \<open>Set\<close>) are arguments.
\<close>

definition broadcast_guard_ttl :: duration where "broadcast_guard_ttl = hours 24"

lemma guard_ttl_value: "broadcast_guard_ttl = 86400000000000"
  by (simp add: broadcast_guard_ttl_def hours_def minutes_def seconds_def nanos_per_second_def)

definition max_broadcast_records :: nat where "max_broadcast_records = 4096"
definition broadcast_expiry_sweep_budget :: nat where "broadcast_expiry_sweep_budget = 64"

definition broadcast_pending :: string where "broadcast_pending = ''pending''"
definition broadcast_accepted :: string where "broadcast_accepted = ''accepted''"
definition broadcast_rejected :: string where "broadcast_rejected = ''rejected''"
definition broadcast_unknown :: string where "broadcast_unknown = ''unknown''"

lemmas broadcast_states = broadcast_pending_def broadcast_accepted_def broadcast_rejected_def
  broadcast_unknown_def

record broadcast_record =
  br_state :: string
  br_tx_hash :: string
  br_error :: "rpc_error option"

record local_broadcast_record =
  lr_record :: broadcast_record
  lr_expires :: instant
  lr_expiry :: nat
  lr_evictable :: "nat option"

record broadcast_guard_metrics =
  gm_claim_acquired :: "64 word"
  gm_replay_accepted :: "64 word"
  gm_replay_rejected :: "64 word"
  gm_replay_unknown :: "64 word"
  gm_replay_pending :: "64 word"
  gm_unavailable :: "64 word"
  gm_corrupt_record :: "64 word"
  gm_persist_error :: "64 word"

record broadcast_guard =
  bg_shared :: bool
  bg_records :: "(string \<times> local_broadcast_record) list"
  bg_expiries :: expiry_heap
  bg_evictable :: "(nat \<times> string) list"
  bg_next :: nat
  bg_metrics :: broadcast_guard_metrics

definition new_broadcast_guard :: "bool \<Rightarrow> broadcast_guard" where
  "new_broadcast_guard shared =
     \<lparr>bg_shared = shared, bg_records = [],
      bg_expiries = \<lparr>eh_obj = (\<lambda>_. \<lparr>be_key = '''', be_at = 0, be_index = 0\<rparr>), eh_items = []\<rparr>,
      bg_evictable = [], bg_next = 0,
      bg_metrics = \<lparr>gm_claim_acquired = 0, gm_replay_accepted = 0, gm_replay_rejected = 0,
        gm_replay_unknown = 0, gm_replay_pending = 0, gm_unavailable = 0, gm_corrupt_record = 0,
        gm_persist_error = 0\<rparr>\<rparr>"

abbreviation bump_metrics ::
  "(broadcast_guard_metrics \<Rightarrow> broadcast_guard_metrics) \<Rightarrow> broadcast_guard \<Rightarrow> broadcast_guard" where
  "bump_metrics f g \<equiv> g\<lparr>bg_metrics := f (bg_metrics g)\<rparr>"

definition count_claim :: "broadcast_guard \<Rightarrow> broadcast_guard" where
  "count_claim g = bump_metrics (\<lambda>m. m\<lparr>gm_claim_acquired := gm_claim_acquired m + 1\<rparr>) g"

definition count_unavailable :: "broadcast_guard \<Rightarrow> broadcast_guard" where
  "count_unavailable g = bump_metrics (\<lambda>m. m\<lparr>gm_unavailable := gm_unavailable m + 1\<rparr>) g"

definition count_corrupt :: "broadcast_guard \<Rightarrow> broadcast_guard" where
  "count_corrupt g = bump_metrics (\<lambda>m. m\<lparr>gm_corrupt_record := gm_corrupt_record m + 1\<rparr>) g"

definition count_persist_error :: "broadcast_guard \<Rightarrow> broadcast_guard" where
  "count_persist_error g = bump_metrics (\<lambda>m. m\<lparr>gm_persist_error := gm_persist_error m + 1\<rparr>) g"

definition record_replay :: "broadcast_record \<Rightarrow> broadcast_guard \<Rightarrow> broadcast_guard" where
  "record_replay r g =
     (if br_state r = broadcast_accepted then
        bump_metrics (\<lambda>m. m\<lparr>gm_replay_accepted := gm_replay_accepted m + 1\<rparr>) g
      else if br_state r = broadcast_rejected then
        bump_metrics (\<lambda>m. m\<lparr>gm_replay_rejected := gm_replay_rejected m + 1\<rparr>) g
      else if br_state r = broadcast_unknown then
        bump_metrics (\<lambda>m. m\<lparr>gm_replay_unknown := gm_replay_unknown m + 1\<rparr>) g
      else if br_state r = broadcast_pending then
        bump_metrics (\<lambda>m. m\<lparr>gm_replay_pending := gm_replay_pending m + 1\<rparr>) g
      else g)"

definition valid_broadcast_record :: "broadcast_record \<Rightarrow> bool" where
  "valid_broadcast_record r =
     (if br_state r = broadcast_pending then br_tx_hash r = '''' \<and> br_error r = None
      else if br_state r = broadcast_accepted then trim_space (br_tx_hash r) \<noteq> '''' \<and> br_error r = None
      else if br_state r = broadcast_rejected then
        br_tx_hash r = '''' \<and>
        (case br_error r of None \<Rightarrow> False | Some e \<Rightarrow> err_code e = CodeUpstream)
      else if br_state r = broadcast_unknown then
        br_tx_hash r = '''' \<and>
        (case br_error r of None \<Rightarrow> False | Some e \<Rightarrow> err_code e = CodeSubmissionUnknown)
      else False)"

definition pending_record :: broadcast_record where
  "pending_record = \<lparr>br_state = broadcast_pending, br_tx_hash = '''', br_error = None\<rparr>"

subsection \<open>Records in the shared store\<close>

definition rpc_error_type :: gtype where
  "rpc_error_type = GStruct [field ''code'' GInt, field ''message'' GString, field ''data'' GAny]"

definition broadcast_record_type :: gtype where
  "broadcast_record_type =
     GStruct [field ''state'' GString, field ''txHash'' GString, field ''error'' (GPtr rpc_error_type)]"

definition encode_rpc_error :: "rpc_error \<Rightarrow> json" where
  "encode_rpc_error e =
     JObj ([(''code'', JNum (dec_of_int (err_code e))), (''message'', JStr (err_message e))] @
           (case err_data e of None \<Rightarrow> [] | Some d \<Rightarrow> [(''data'', d)]))"

definition encode_broadcast_record :: "broadcast_record \<Rightarrow> json" where
  "encode_broadcast_record r =
     JObj ([(''state'', JStr (br_state r))] @
           (if br_tx_hash r = '''' then [] else [(''txHash'', JStr (br_tx_hash r))]) @
           (case br_error r of None \<Rightarrow> [] | Some e \<Rightarrow> [(''error'', encode_rpc_error e)]))"

definition rpc_error_of_gval :: "gval \<Rightarrow> rpc_error" where
  "rpc_error_of_gval v =
     \<lparr>err_code = int_field v ''code'', err_message = str_field v ''message'',
      err_data = (case get_field v ''data'' of Some (VRaw d) \<Rightarrow> (if d = JNull then None else Some d)
                  | _ \<Rightarrow> None)\<rparr>"

definition decode_broadcast_record :: "raw \<Rightarrow> broadcast_record option" where
  "decode_broadcast_record raw =
     (case raw of None \<Rightarrow> None
      | Some j \<Rightarrow>
        map_option (\<lambda>v. \<lparr>br_state = str_field v ''state'', br_tx_hash = str_field v ''txHash'',
            br_error = (case get_field v ''error'' of Some (VPtr e) \<Rightarrow> Some (rpc_error_of_gval e)
                        | _ \<Rightarrow> None)\<rparr>)
          (unmarshal False broadcast_record_type (gzero broadcast_record_type) j))"

datatype setnx_result = NxError | NxCreated | NxExists
datatype get_result = GetError | GetValue raw

definition read_shared :: "get_result \<Rightarrow> broadcast_guard \<Rightarrow> broadcast_guard \<times> broadcast_record option" where
  "read_shared got g =
     (case got of
        GetError \<Rightarrow> (count_unavailable g, None)
      | GetValue raw \<Rightarrow>
          (case decode_broadcast_record raw of
             None \<Rightarrow> (count_corrupt g, None)
           | Some r \<Rightarrow> if \<not> valid_broadcast_record r then (count_corrupt g, None) else (g, Some r)))"

subsection \<open>Local bookkeeping\<close>

definition remove_local :: "string \<Rightarrow> broadcast_guard \<Rightarrow> broadcast_guard" where
  "remove_local key g =
     (case map_of (bg_records g) key of
        None \<Rightarrow> g
      | Some entry \<Rightarrow>
          g\<lparr>bg_evictable := (case lr_evictable entry of
                None \<Rightarrow> bg_evictable g
              | Some el \<Rightarrow> filter (\<lambda>(i, _). i \<noteq> el) (bg_evictable g)),
            bg_expiries := heap_remove (nat (be_index (eh_obj (bg_expiries g) (lr_expiry entry)))) (bg_expiries g),
            bg_records := AList.delete key (bg_records g)\<rparr>)"

definition mark_evictable :: "string \<Rightarrow> broadcast_guard \<Rightarrow> broadcast_guard" where
  "mark_evictable key g =
     (case map_of (bg_records g) key of
        None \<Rightarrow> g
      | Some entry \<Rightarrow>
          if lr_evictable entry \<noteq> None then g
          else g\<lparr>bg_evictable := bg_evictable g @ [(bg_next g, key)],
                 bg_next := Suc (bg_next g),
                 bg_records := AList.update key (entry\<lparr>lr_evictable := Some (bg_next g)\<rparr>) (bg_records g)\<rparr>)"

definition move_to_back :: "nat \<Rightarrow> broadcast_guard \<Rightarrow> broadcast_guard" where
  "move_to_back el g =
     g\<lparr>bg_evictable := filter (\<lambda>(i, _). i \<noteq> el) (bg_evictable g) @
                       filter (\<lambda>(i, _). i = el) (bg_evictable g)\<rparr>"

fun sweep_expired :: "nat \<Rightarrow> instant \<Rightarrow> broadcast_guard \<Rightarrow> broadcast_guard" where
  "sweep_expired 0 now g = g"
| "sweep_expired (Suc budget) now g =
     (case eh_items (bg_expiries g) of
        [] \<Rightarrow> g
      | p # _ \<Rightarrow>
          if be_at (eh_obj (bg_expiries g) p) > now then g
          else sweep_expired budget now (remove_local (be_key (eh_obj (bg_expiries g) p)) g))"

subsection \<open>begin\<close>

datatype begin_local_result = LocalReplay broadcast_record | LocalCorrupt | LocalFull | LocalReserved

definition evict_one :: "broadcast_guard \<Rightarrow> broadcast_guard" where
  "evict_one g =
     (if length (bg_records g) \<ge> max_broadcast_records \<and> bg_evictable g \<noteq> []
      then remove_local (snd (hd (bg_evictable g))) g else g)"

definition insert_pending :: "instant \<Rightarrow> string \<Rightarrow> broadcast_guard \<Rightarrow> broadcast_guard" where
  "insert_pending now key g =
     (let p = bg_next g; due = now + broadcast_guard_ttl;
          h = bg_expiries g;
          h' = h\<lparr>eh_obj := (eh_obj h)(p := \<lparr>be_key = key, be_at = due, be_index = 0\<rparr>)\<rparr>
      in g\<lparr>bg_records := AList.update key \<lparr>lr_record = pending_record, lr_expires = due, lr_expiry = p,
                                          lr_evictable = None\<rparr> (bg_records g),
           bg_expiries := heap_push p h', bg_next := Suc p\<rparr>)"

definition reserve_local :: "instant \<Rightarrow> string \<Rightarrow> broadcast_guard \<Rightarrow> broadcast_guard \<times> begin_local_result" where
  "reserve_local now key g =
     (let g = evict_one g in
      if length (bg_records g) \<ge> max_broadcast_records then (g, LocalFull)
      else (insert_pending now key g, LocalReserved))"

definition begin_local :: "instant \<Rightarrow> string \<Rightarrow> broadcast_guard \<Rightarrow> broadcast_guard \<times> begin_local_result" where
  "begin_local now key g =
     (let g = sweep_expired broadcast_expiry_sweep_budget now g in
      case map_of (bg_records g) key of
        Some existing \<Rightarrow>
          if lr_expires existing > now then
            (let g = (case lr_evictable existing of None \<Rightarrow> g | Some el \<Rightarrow> move_to_back el g) in
             if \<not> valid_broadcast_record (lr_record existing) then (count_corrupt g, LocalCorrupt)
             else (record_replay (lr_record existing) g, LocalReplay (lr_record existing)))
          else reserve_local now key (remove_local key g)
      | None \<Rightarrow> reserve_local now key g)"

datatype begin_result = Owner | Replay broadcast_record | GuardUnavailable

definition adopt_shared :: "string \<Rightarrow> broadcast_record \<Rightarrow> broadcast_guard \<Rightarrow> broadcast_guard \<times> begin_result" where
  "adopt_shared key existing g =
     (case map_of (bg_records g) key of
        None \<Rightarrow> (g, GuardUnavailable)
      | Some entry \<Rightarrow>
          (let g = g\<lparr>bg_records := AList.update key (entry\<lparr>lr_record := existing\<rparr>) (bg_records g)\<rparr>;
               g = (if br_state existing = broadcast_pending then remove_local key g
                    else mark_evictable key g)
           in (record_replay existing g, Replay existing)))"

definition begin_guard ::
  "instant \<Rightarrow> string \<Rightarrow> setnx_result \<Rightarrow> get_result \<Rightarrow> broadcast_guard \<Rightarrow> broadcast_guard \<times> begin_result" where
  "begin_guard now key nx got g =
     (case begin_local now key g of
        (g, LocalReplay r) \<Rightarrow> (g, Replay r)
      | (g, LocalCorrupt) \<Rightarrow> (g, GuardUnavailable)
      | (g, LocalFull) \<Rightarrow>
          (if bg_shared g then
             (case read_shared got g of
                (g, Some r) \<Rightarrow> (record_replay r g, Replay r)
              | (g, None) \<Rightarrow> (count_unavailable g, GuardUnavailable))
           else (count_unavailable g, GuardUnavailable))
      | (g, LocalReserved) \<Rightarrow>
          (if \<not> bg_shared g then (count_claim g, Owner)
           else (case nx of
              NxError \<Rightarrow> (count_unavailable (remove_local key g), GuardUnavailable)
            | NxCreated \<Rightarrow> (count_claim g, Owner)
            | NxExists \<Rightarrow>
                (case read_shared got g of
                   (g, None) \<Rightarrow> (remove_local key g, GuardUnavailable)
                 | (g, Some existing) \<Rightarrow> adopt_shared key existing g))))"

subsection \<open>complete\<close>

datatype complete_result = CompleteInvalid | CompleteMissing | CompleteLocal | CompletePublish nat

definition complete_local ::
  "string \<Rightarrow> broadcast_record \<Rightarrow> broadcast_guard \<Rightarrow> broadcast_guard \<times> complete_result" where
  "complete_local key r g =
     (if \<not> valid_broadcast_record r \<or> br_state r = broadcast_pending then
        (count_persist_error g, CompleteInvalid)
      else case map_of (bg_records g) key of
        None \<Rightarrow> (count_persist_error g, CompleteMissing)
      | Some entry \<Rightarrow>
          (let g = g\<lparr>bg_records := AList.update key (entry\<lparr>lr_record := r\<rparr>) (bg_records g)\<rparr>;
               g = (if \<not> bg_shared g \<and> br_state r = broadcast_rejected then mark_evictable key g else g)
           in (g, if bg_shared g then CompletePublish (lr_expiry entry) else CompleteLocal)))"

definition complete_publish ::
  "string \<Rightarrow> broadcast_record \<Rightarrow> nat \<Rightarrow> bool \<Rightarrow> broadcast_guard \<Rightarrow> broadcast_guard" where
  "complete_publish key r expiry set_ok g =
     (let g = (if set_ok then g else count_persist_error g) in
      if set_ok \<or> br_state r = broadcast_rejected then
        (case map_of (bg_records g) key of
           None \<Rightarrow> g
         | Some current \<Rightarrow> if lr_expiry current = expiry then mark_evictable key g else g)
      else g)"

text \<open>The whole of \<open>complete\<close>; the flag says that it returned no error.\<close>

definition complete_guard ::
  "string \<Rightarrow> broadcast_record \<Rightarrow> bool \<Rightarrow> broadcast_guard \<Rightarrow> broadcast_guard \<times> bool" where
  "complete_guard key r set_ok g =
     (case complete_local key r g of
        (g, CompleteLocal) \<Rightarrow> (g, True)
      | (g, CompletePublish expiry) \<Rightarrow> (complete_publish key r expiry set_ok g, set_ok)
      | (g, _) \<Rightarrow> (g, False))"

end
