(* ===== verification/Guard_Inv.thy ===== *)
theory Guard_Inv
  imports Guard
begin

section \<open>The guard's data-structure invariant\<close>

text \<open>
  \<open>guard_inv\<close> ties the three structures of the guard together: each record owns exactly one
  object of the expiry index, which carries its key and expiry; the eviction list holds
  exactly the records marked evictable; addresses are fresh; at most
  \<open>max_broadcast_records\<close> records exist. Every operation of the guard keeps it, so memory is
  bounded and \<open>heap.Remove\<close> is always called with the index of the record's own object.
\<close>

definition heap_agrees :: "(string \<rightharpoonup> local_broadcast_record) \<Rightarrow> expiry_heap \<Rightarrow> bool" where
  "heap_agrees rs h \<longleftrightarrow>
     index_inv h \<and>
     (\<forall>k lr. rs k = Some lr \<longrightarrow>
        lr_expiry lr \<in> set (eh_items h) \<and> be_key (eh_obj h (lr_expiry lr)) = k \<and>
        be_at (eh_obj h (lr_expiry lr)) = lr_expires lr) \<and>
     (\<forall>p \<in> set (eh_items h). \<exists>lr. rs (be_key (eh_obj h p)) = Some lr \<and> lr_expiry lr = p)"

lemma heap_agrees_owned:
  "heap_agrees rs h \<Longrightarrow> rs k = Some lr \<Longrightarrow>
     lr_expiry lr \<in> set (eh_items h) \<and> be_key (eh_obj h (lr_expiry lr)) = k \<and>
     be_at (eh_obj h (lr_expiry lr)) = lr_expires lr"
  unfolding heap_agrees_def by blast

lemma heap_agrees_held:
  "heap_agrees rs h \<Longrightarrow> p \<in> set (eh_items h) \<Longrightarrow>
     \<exists>lr. rs (be_key (eh_obj h p)) = Some lr \<and> lr_expiry lr = p"
  unfolding heap_agrees_def by blast

lemma heap_agreesI:
  assumes "index_inv h"
    and "\<And>k lr. rs k = Some lr \<Longrightarrow>
        lr_expiry lr \<in> set (eh_items h) \<and> be_key (eh_obj h (lr_expiry lr)) = k \<and>
        be_at (eh_obj h (lr_expiry lr)) = lr_expires lr"
    and "\<And>p. p \<in> set (eh_items h) \<Longrightarrow>
        \<exists>lr. rs (be_key (eh_obj h p)) = Some lr \<and> lr_expiry lr = p"
  shows "heap_agrees rs h"
  unfolding heap_agrees_def using assms by blast

definition list_agrees :: "(string \<rightharpoonup> local_broadcast_record) \<Rightarrow> (nat \<times> string) list \<Rightarrow> bool" where
  "list_agrees rs ev \<longleftrightarrow>
     distinct (map fst ev) \<and>
     (\<forall>e k. (e, k) \<in> set ev \<longleftrightarrow> (\<exists>lr. rs k = Some lr \<and> lr_evictable lr = Some e))"

definition guard_inv :: "broadcast_guard \<Rightarrow> bool" where
  "guard_inv g \<longleftrightarrow>
     distinct (map fst (bg_records g)) \<and> length (bg_records g) \<le> max_broadcast_records \<and>
     heap_agrees (map_of (bg_records g)) (bg_expiries g) \<and>
     list_agrees (map_of (bg_records g)) (bg_evictable g) \<and>
     (\<forall>p \<in> set (eh_items (bg_expiries g)). p < bg_next g) \<and>
     (\<forall>e \<in> fst ` set (bg_evictable g). e < bg_next g)"

lemma guard_inv_new: "guard_inv (new_broadcast_guard shared)"
  by (simp add: guard_inv_def new_broadcast_guard_def heap_agrees_def list_agrees_def index_inv_def)

text \<open>Counters are outside the invariant.\<close>

lemma guard_inv_metrics [simp]:
  "guard_inv (count_claim g) = guard_inv g" "guard_inv (count_unavailable g) = guard_inv g"
  "guard_inv (count_corrupt g) = guard_inv g" "guard_inv (count_persist_error g) = guard_inv g"
  "guard_inv (record_replay r g) = guard_inv g"
  by (simp_all add: guard_inv_def count_claim_def count_unavailable_def count_corrupt_def
      count_persist_error_def record_replay_def)

lemma records_metrics [simp, record_frames]:
  "bg_records (count_claim g) = bg_records g" "bg_records (count_unavailable g) = bg_records g"
  "bg_records (count_corrupt g) = bg_records g" "bg_records (count_persist_error g) = bg_records g"
  "bg_records (record_replay r g) = bg_records g"
  by (simp_all add: count_claim_def count_unavailable_def count_corrupt_def
      count_persist_error_def record_replay_def)

lemma shared_metrics [simp, record_frames]:
  "bg_shared (count_claim g) = bg_shared g" "bg_shared (count_unavailable g) = bg_shared g"
  "bg_shared (count_corrupt g) = bg_shared g" "bg_shared (count_persist_error g) = bg_shared g"
  "bg_shared (record_replay r g) = bg_shared g"
  by (simp_all add: count_claim_def count_unavailable_def count_corrupt_def
      count_persist_error_def record_replay_def)

lemma shared_ops [simp, record_frames]:
  "bg_shared (remove_local k g) = bg_shared g" "bg_shared (mark_evictable k g) = bg_shared g"
  "bg_shared (move_to_back el g) = bg_shared g" "bg_shared (insert_pending now k g) = bg_shared g"
  "bg_shared (evict_one g) = bg_shared g"
  by (auto simp: remove_local_def mark_evictable_def move_to_back_def insert_pending_def
      evict_one_def Let_def split: option.splits)

lemma shared_sweep [simp, record_frames]: "bg_shared (sweep_expired b now g) = bg_shared g"
  by (induction b now g rule: sweep_expired.induct) (auto split: list.splits)

subsection \<open>removeLocal\<close>

lemma records_remove_local [simp, record_frames]:
  "map_of (bg_records (remove_local k g)) = (map_of (bg_records g))(k := None)"
  by (cases "map_of (bg_records g) k") (auto simp: remove_local_def delete_conv')

lemma length_remove_local: "length (bg_records (remove_local k g)) \<le> length (bg_records g)"
  by (auto simp: remove_local_def length_delete_le split: option.splits)

lemma length_remove_local_less:
  assumes "map_of (bg_records g) k \<noteq> None"
  shows "length (bg_records (remove_local k g)) < length (bg_records g)"
proof -
  have "k \<in> fst ` set (bg_records g)" using assms by (simp add: map_of_eq_None_iff)
  then have "length (AList.delete k (bg_records g)) < length (bg_records g)"
    by (auto simp: AList.delete_eq length_filter_less)
  then show ?thesis using assms by (auto simp: remove_local_def)
qed

lemma heap_agrees_remove:
  assumes "heap_agrees rs h" and "rs k = Some lr"
  shows "heap_agrees (rs(k := None)) (heap_remove (nat (be_index (eh_obj h (lr_expiry lr)))) h) \<and>
         set (eh_items (heap_remove (nat (be_index (eh_obj h (lr_expiry lr)))) h)) \<subseteq> set (eh_items h)"
proof -
  define p where "p = lr_expiry lr"
  define i where "i = nat (be_index (eh_obj h p))"
  have inv: "index_inv h" and p: "p \<in> set (eh_items h)" and key: "be_key (eh_obj h p) = k"
    using assms by (auto simp: heap_agrees_def p_def)
  from p obtain j where j: "j < length (eh_items h)" "eh_items h ! j = p" by (auto simp: in_set_conv_nth)
  then have "i = j" using inv by (auto simp: index_inv_def i_def)
  then have i: "i < length (eh_items h)" "eh_items h ! i = p" using j by auto
  define h' where "h' = heap_remove i h"
  from heap_remove_spec [OF inv i(1)] have inv': "index_inv h'" and same: "same_objects h h'"
    and ms: "mset (eh_items h') = mset (eh_items h) - {#p#}"
    by (auto simp: h'_def i(2))
  have "set (eh_items h') = set_mset (mset (remove1 p (eh_items h)))"
    using ms by (metis mset_remove1 set_mset_mset)
  also have "\<dots> = set (eh_items h) - {p}"
    using inv by (simp only: index_inv_def set_mset_mset set_remove1_eq)
  finally have st: "set (eh_items h') = set (eh_items h) - {p}" .
  have uniq: "lr_expiry lr' \<noteq> p" if "rs k' = Some lr'" "k' \<noteq> k" for k' lr'
    using heap_agrees_owned [OF assms(1) that(1)] that(2) key by metis
  have keyp: "be_key (eh_obj h q) \<noteq> k" if "q \<in> set (eh_items h)" "q \<noteq> p" for q
    using heap_agrees_held [OF assms(1) that(1)] that(2) assms(2) by (metis option.inject p_def)
  have obj: "be_key (eh_obj h' q) = be_key (eh_obj h q)" "be_at (eh_obj h' q) = be_at (eh_obj h q)" for q
    using same by (auto simp: same_objects_def)
  have owned: "lr_expiry lr' \<in> set (eh_items h') \<and> be_key (eh_obj h' (lr_expiry lr')) = k' \<and>
      be_at (eh_obj h' (lr_expiry lr')) = lr_expires lr'" if "(rs(k := None)) k' = Some lr'" for k' lr'
  proof -
    have "rs k' = Some lr'" "k' \<noteq> k" using that by (auto split: if_splits)
    with heap_agrees_owned [OF assms(1), of k' lr'] uniq [of k' lr'] st obj show ?thesis by simp
  qed
  have held: "\<exists>lr. (rs(k := None)) (be_key (eh_obj h' q)) = Some lr \<and> lr_expiry lr = q"
    if "q \<in> set (eh_items h')" for q
  proof -
    have "q \<in> set (eh_items h)" "q \<noteq> p" using that st by auto
    with heap_agrees_held [OF assms(1), of q] keyp [of q] obj show ?thesis by simp
  qed
  have "heap_agrees (rs(k := None)) h'" using inv' owned held by (rule heap_agreesI)
  moreover have "set (eh_items h') \<subseteq> set (eh_items h)" using st by blast
  ultimately show ?thesis by (simp only: h'_def i_def p_def)
qed

lemma list_agrees_remove:
  assumes "list_agrees rs ev" and "rs k = Some lr"
  shows "list_agrees (rs(k := None))
     (case lr_evictable lr of None \<Rightarrow> ev | Some el \<Rightarrow> filter (\<lambda>(i, _). i \<noteq> el) ev)"
proof (cases "lr_evictable lr")
  case None
  with assms show ?thesis by (auto simp: list_agrees_def)
next
  case (Some el)
  have "distinct (map fst (filter (\<lambda>(i, _). i \<noteq> el) ev))"
    using assms(1) by (auto simp: list_agrees_def intro: distinct_map_filter)
  moreover have "(el, k) \<in> set ev" using assms Some by (auto simp: list_agrees_def)
  then have "k' = k" if "(el, k') \<in> set ev" for k'
    using that assms(1) by (auto simp: list_agrees_def dest: eq_key_imp_eq_value)
  ultimately show ?thesis using assms Some by (fastforce simp: list_agrees_def)
qed

lemma guard_inv_remove_local [inv_intros]: "guard_inv g \<Longrightarrow> guard_inv (remove_local k g)"
proof (cases "map_of (bg_records g) k")
  case None
  then show "guard_inv g \<Longrightarrow> ?thesis" by (simp add: remove_local_def)
next
  case (Some lr)
  assume inv: "guard_inv g"
  have "distinct (map fst (bg_records (remove_local k g)))"
    using inv Some by (simp add: guard_inv_def remove_local_def distinct_delete)
  moreover have "length (bg_records (remove_local k g)) \<le> max_broadcast_records"
    using inv length_remove_local [of k g] by (simp add: guard_inv_def)
  moreover have "heap_agrees (map_of (bg_records (remove_local k g))) (bg_expiries (remove_local k g)) \<and>
      set (eh_items (bg_expiries (remove_local k g))) \<subseteq> set (eh_items (bg_expiries g))"
    using inv Some heap_agrees_remove [of "map_of (bg_records g)" "bg_expiries g" k lr]
    by (simp add: guard_inv_def remove_local_def delete_conv')
  moreover have "list_agrees (map_of (bg_records (remove_local k g))) (bg_evictable (remove_local k g))"
    using inv Some list_agrees_remove [of "map_of (bg_records g)" "bg_evictable g" k lr]
    by (simp add: guard_inv_def remove_local_def delete_conv')
  moreover have sub: "set (bg_evictable (remove_local k g)) \<subseteq> set (bg_evictable g)"
    and nx: "bg_next (remove_local k g) = bg_next g"
    using Some by (auto simp: remove_local_def split: option.splits)
  moreover have "\<forall>e \<in> fst ` set (bg_evictable (remove_local k g)). e < bg_next g"
    using inv sub unfolding guard_inv_def by (meson image_mono subsetD)
  moreover have "\<forall>p \<in> set (eh_items (bg_expiries (remove_local k g))). p < bg_next g"
    using inv calculation(3) unfolding guard_inv_def by (meson subsetD)
  ultimately show ?thesis by (simp only: guard_inv_def)
qed

lemma remove_local_gone: "guard_inv g \<Longrightarrow> k \<notin> fst ` set (bg_records (remove_local k g))"
  by (metis fun_upd_same map_of_eq_None_iff records_remove_local)

subsection \<open>Marking, moving, inserting, replacing\<close>

lemma records_update_known:
  "map_of rs k = Some lr \<Longrightarrow> length (AList.update k v rs) = length rs"
  by (induction rs) auto

lemma records_update_length: "length (AList.update k v rs) \<le> Suc (length rs)"
  by (induction rs) auto

text \<open>Changing a record's payload or its evictable mark keeps its tie to the expiry index.\<close>

lemma heap_agrees_update:
  assumes "heap_agrees rs h" and "rs k = Some lr" and "lr_expiry lr' = lr_expiry lr"
    and "lr_expires lr' = lr_expires lr"
  shows "heap_agrees (rs(k \<mapsto> lr')) h"
proof (rule heap_agreesI)
  show "index_inv h" using assms(1) by (simp add: heap_agrees_def)
  show "lr_expiry v \<in> set (eh_items h) \<and> be_key (eh_obj h (lr_expiry v)) = k' \<and>
      be_at (eh_obj h (lr_expiry v)) = lr_expires v" if "(rs(k \<mapsto> lr')) k' = Some v" for k' v
    using that heap_agrees_owned [OF assms(1), of k'] assms(2-4) by (auto split: if_splits)
  show "\<exists>v. (rs(k \<mapsto> lr')) (be_key (eh_obj h p)) = Some v \<and> lr_expiry v = p"
    if "p \<in> set (eh_items h)" for p
    using heap_agrees_held [OF assms(1) that] assms(2,3) by auto
qed

lemma list_agrees_update:
  "list_agrees rs ev \<Longrightarrow> rs k = Some lr \<Longrightarrow> lr_evictable lr' = lr_evictable lr \<Longrightarrow>
     list_agrees (rs(k \<mapsto> lr')) ev"
  by (auto simp: list_agrees_def)

lemma guard_inv_set_record [inv_intros]:
  assumes "guard_inv g" and "map_of (bg_records g) k = Some lr"
  shows "guard_inv (g\<lparr>bg_records := AList.update k (lr\<lparr>lr_record := r\<rparr>) (bg_records g)\<rparr>)"
proof -
  have "heap_agrees ((map_of (bg_records g))(k \<mapsto> lr\<lparr>lr_record := r\<rparr>)) (bg_expiries g)"
    using assms unfolding guard_inv_def by (intro heap_agrees_update [where lr = lr]) simp_all
  moreover have "list_agrees ((map_of (bg_records g))(k \<mapsto> lr\<lparr>lr_record := r\<rparr>)) (bg_evictable g)"
    using assms unfolding guard_inv_def by (intro list_agrees_update [where lr = lr]) simp_all
  ultimately show ?thesis
    using assms records_update_known [OF assms(2)]
    by (simp add: guard_inv_def update_conv' distinct_update del: map_of_eq_Some_iff)
qed

lemma records_mark_evictable:
  "map_of (bg_records (mark_evictable k g)) k' =
     (if k' = k then
        map_option (\<lambda>lr. if lr_evictable lr = None then lr\<lparr>lr_evictable := Some (bg_next g)\<rparr> else lr)
          (map_of (bg_records g) k)
      else map_of (bg_records g) k')"
  by (auto simp: mark_evictable_def update_conv' split: option.splits)

lemma guard_inv_mark_evictable [inv_intros]:
  assumes inv: "guard_inv g"
  shows "guard_inv (mark_evictable k g)"
proof (cases "map_of (bg_records g) k")
  case None
  then show ?thesis using inv by (simp add: mark_evictable_def)
next
  case (Some lr)
  show ?thesis
  proof (cases "lr_evictable lr")
    case (Some el)
    then show ?thesis using inv \<open>map_of (bg_records g) k = Some lr\<close> by (simp add: mark_evictable_def)
  next
    case None
    define n where "n = bg_next g"
    have fresh: "n \<notin> fst ` set (bg_evictable g)" using inv by (auto simp: guard_inv_def n_def)
    have nokey: "(e, k) \<notin> set (bg_evictable g)" for e
      using inv None Some by (auto simp: guard_inv_def list_agrees_def)
    have "list_agrees ((map_of (bg_records g))(k \<mapsto> lr\<lparr>lr_evictable := Some n\<rparr>))
        (bg_evictable g @ [(n, k)])"
      using inv fresh nokey by (auto simp: guard_inv_def list_agrees_def)
    then show ?thesis
      using inv None Some
      by (auto simp: guard_inv_def mark_evictable_def update_conv' distinct_update
          records_update_known heap_agrees_update n_def less_Suc_eq simp del: map_of_eq_Some_iff)
  qed
qed

lemma guard_inv_move_to_back [inv_intros]: "guard_inv g \<Longrightarrow> guard_inv (move_to_back el g)"
proof -
  assume inv: "guard_inv g"
  have "distinct (map fst (filter (\<lambda>(i, _). i \<noteq> el) ev @ filter (\<lambda>(i, _). i = el) ev))"
    if "distinct (map fst ev)" for ev :: "(nat \<times> string) list"
    using that by (auto intro: distinct_map_filter)
  with inv show ?thesis by (auto simp: guard_inv_def move_to_back_def list_agrees_def image_iff)
qed

lemma guard_inv_insert_pending [inv_intros]:
  assumes inv: "guard_inv g" and new: "map_of (bg_records g) k = None"
    and room: "length (bg_records g) < max_broadcast_records"
  shows "guard_inv (insert_pending now k g)"
proof -
  define p where "p = bg_next g"
  define rs where "rs = map_of (bg_records g)"
  define h where "h = (bg_expiries g)\<lparr>eh_obj := (eh_obj (bg_expiries g))
      (p := \<lparr>be_key = k, be_at = now + broadcast_guard_ttl, be_index = 0\<rparr>)\<rparr>"
  have fresh: "p \<notin> set (eh_items (bg_expiries g))" using inv by (auto simp: guard_inv_def p_def)
  have hi: "index_inv h"
    using inv fresh by (auto simp: guard_inv_def heap_agrees_def index_inv_def h_def)
  have ph: "p \<notin> set (eh_items h)" using fresh by (simp add: h_def)
  from heap_push_spec [OF hi ph] have push: "index_inv (heap_push p h)" "same_objects h (heap_push p h)"
    and ms: "mset (eh_items (heap_push p h)) = add_mset p (mset (eh_items h))" by auto
  have st: "set (eh_items (heap_push p h)) = insert p (set (eh_items (bg_expiries g)))"
    using arg_cong [OF ms, of set_mset] by (simp add: h_def)
  have ha: "heap_agrees rs (bg_expiries g)" using inv by (simp add: guard_inv_def rs_def)
  define v where "v = \<lparr>lr_record = pending_record, lr_expires = now + broadcast_guard_ttl,
      lr_expiry = p, lr_evictable = None\<rparr>"
  have obj: "be_key (eh_obj (heap_push p h) q) = be_key (eh_obj h q)"
    "be_at (eh_obj (heap_push p h) q) = be_at (eh_obj h q)" for q
    using push(2) by (auto simp: same_objects_def)
  have "heap_agrees (rs(k \<mapsto> v)) (heap_push p h)"
  proof (rule heap_agreesI)
    show "index_inv (heap_push p h)" by (rule push(1))
    fix k' w
    assume w: "(rs(k \<mapsto> v)) k' = Some w"
    show "lr_expiry w \<in> set (eh_items (heap_push p h)) \<and>
        be_key (eh_obj (heap_push p h) (lr_expiry w)) = k' \<and>
        be_at (eh_obj (heap_push p h) (lr_expiry w)) = lr_expires w"
    proof (cases "k' = k")
      case True
      then show ?thesis using w st obj by (auto simp: v_def h_def)
    next
      case False
      then have "rs k' = Some w" using w by simp
      from heap_agrees_owned [OF ha this] fresh show ?thesis using st obj by (auto simp: h_def)
    qed
  next
    fix q
    assume q: "q \<in> set (eh_items (heap_push p h))"
    show "\<exists>w. (rs(k \<mapsto> v)) (be_key (eh_obj (heap_push p h) q)) = Some w \<and> lr_expiry w = q"
    proof (cases "q = p")
      case True
      then show ?thesis using obj by (simp add: v_def h_def)
    next
      case False
      then have "q \<in> set (eh_items (bg_expiries g))" using q st by simp
      from heap_agrees_held [OF ha this] False new show ?thesis using obj by (auto simp: h_def rs_def)
    qed
  qed
  moreover have "length (AList.update k v (bg_records g)) \<le> max_broadcast_records" for v
    using room records_update_length [of k v "bg_records g"] by simp
  ultimately show ?thesis
    using inv new st
    by (auto simp: guard_inv_def insert_pending_def Let_def update_conv' distinct_update p_def rs_def
        h_def v_def list_agrees_def less_Suc_eq simp del: map_of_eq_Some_iff)
qed

lemma guard_inv_evict_one [inv_intros]: "guard_inv g \<Longrightarrow> guard_inv (evict_one g)"
  by (auto simp: evict_one_def intro: inv_intros)

lemma guard_inv_reserve_local:
  "guard_inv g \<Longrightarrow> map_of (bg_records g) k = None \<Longrightarrow> guard_inv (fst (reserve_local now k g))"
  by (auto simp: reserve_local_def Let_def intro!: inv_intros)
     (auto simp: evict_one_def)

subsection \<open>The locked sections\<close>

lemma guard_inv_sweep [inv_intros]: "guard_inv g \<Longrightarrow> guard_inv (sweep_expired b now g)"
  by (induction b now g rule: sweep_expired.induct) (auto split: list.splits intro: inv_intros)

lemma guard_inv_begin_local [inv_intros]:
  assumes "guard_inv g"
  shows "guard_inv (fst (begin_local now k g))"
proof -
  define s where "s = sweep_expired broadcast_expiry_sweep_budget now g"
  have s: "guard_inv s" using assms by (auto simp: s_def intro: inv_intros)
  have "guard_inv (fst (reserve_local now k (remove_local k s)))"
    using s by (intro guard_inv_reserve_local inv_intros) auto
  then show ?thesis
    using s guard_inv_reserve_local [OF s, of k now]
    by (auto simp: begin_local_def Let_def simp flip: s_def split: option.splits intro: inv_intros)
qed

lemma guard_inv_adopt_shared [inv_intros]:
  "guard_inv g \<Longrightarrow> guard_inv (fst (adopt_shared k r g))"
  by (auto simp: adopt_shared_def Let_def split: option.splits intro!: inv_intros)

lemma read_shared_frame [simp]:
  "guard_inv (fst (read_shared got g)) = guard_inv g"
  "bg_records (fst (read_shared got g)) = bg_records g"
  "bg_shared (fst (read_shared got g)) = bg_shared g"
  by (auto simp: read_shared_def split: get_result.splits option.splits)

lemma guard_inv_begin_guard [inv_intros]:
  assumes "guard_inv g"
  shows "guard_inv (fst (begin_guard now k nx got g))"
proof -
  obtain g1 res where 1: "begin_local now k g = (g1, res)" by (cases "begin_local now k g")
  have g1: "guard_inv g1" using guard_inv_begin_local [OF assms, of now k] by (simp add: 1)
  obtain g2 r where 2: "read_shared got g1 = (g2, r)" by (cases "read_shared got g1")
  have g2: "guard_inv g2" using read_shared_frame(1) [of got g1] g1 by (simp add: 2)
  show ?thesis
    using g1 g2 by (cases res; cases r; cases nx)
      (auto simp: begin_guard_def 1 2 intro: inv_intros)
qed

lemma guard_inv_complete_local [inv_intros]:
  "guard_inv g \<Longrightarrow> guard_inv (fst (complete_local k r g))"
  by (auto simp: complete_local_def Let_def split: option.splits intro!: inv_intros)

lemma guard_inv_complete_publish [inv_intros]:
  "guard_inv g \<Longrightarrow> guard_inv (complete_publish k r p ok g)"
  by (auto simp: complete_publish_def Let_def split: option.splits intro!: inv_intros)

lemma guard_inv_complete_guard [inv_intros]:
  assumes "guard_inv g"
  shows "guard_inv (fst (complete_guard k r ok g))"
proof -
  obtain g1 res where 1: "complete_local k r g = (g1, res)" by (cases "complete_local k r g")
  have "guard_inv g1" using guard_inv_complete_local [OF assms, of k r] by (simp add: 1)
  then show ?thesis
    by (cases res) (auto simp: complete_guard_def 1 intro: inv_intros)
qed

subsection \<open>Sizes\<close>

lemma guard_inv_sizes:
  assumes "guard_inv g"
  shows "length (bg_records g) \<le> max_broadcast_records"
    and "length (eh_items (bg_expiries g)) = length (bg_records g)"
    and "length (bg_evictable g) \<le> length (bg_records g)"
proof -
  let ?rs = "bg_records g" and ?h = "bg_expiries g"
  have d: "distinct (map fst ?rs)" and heap: "heap_agrees (map_of ?rs) ?h"
    and ev: "list_agrees (map_of ?rs) (bg_evictable g)"
    using assms by (auto simp: guard_inv_def)
  show "length ?rs \<le> max_broadcast_records" using assms by (simp add: guard_inv_def)
  have card: "card (dom (map_of ?rs)) = length ?rs"
    using d by (simp add: dom_map_of_conv_image_fst distinct_card flip: set_map)
  have "bij_betw (\<lambda>p. be_key (eh_obj ?h p)) (set (eh_items ?h)) (dom (map_of ?rs))"
  proof (rule bij_betw_imageI)
    show "inj_on (\<lambda>p. be_key (eh_obj ?h p)) (set (eh_items ?h))"
    proof (rule inj_onI)
      fix p q assume "p \<in> set (eh_items ?h)" "q \<in> set (eh_items ?h)"
        and "be_key (eh_obj ?h p) = be_key (eh_obj ?h q)"
      then show "p = q" using heap_agrees_held [OF heap] by (metis option.inject)
    qed
    show "(\<lambda>p. be_key (eh_obj ?h p)) ` set (eh_items ?h) = dom (map_of ?rs)"
    proof (intro set_eqI iffI)
      fix k assume "k \<in> (\<lambda>p. be_key (eh_obj ?h p)) ` set (eh_items ?h)"
      then show "k \<in> dom (map_of ?rs)" using heap_agrees_held [OF heap] by blast
    next
      fix k assume "k \<in> dom (map_of ?rs)"
      then obtain lr where "map_of ?rs k = Some lr" by blast
      from heap_agrees_owned [OF heap this]
      show "k \<in> (\<lambda>p. be_key (eh_obj ?h p)) ` set (eh_items ?h)" by blast
    qed
  qed
  moreover have "distinct (eh_items ?h)"
    using heap by (simp add: heap_agrees_def index_inv_def)
  ultimately show "length (eh_items ?h) = length ?rs"
    using bij_betw_same_card card distinct_card by metis
  have fin: "finite (dom (map_of ?rs))" by (simp add: finite_dom_map_of)
  have mem: "snd p \<in> dom (map_of ?rs)" if "p \<in> set (bg_evictable g)" for p
    using ev that unfolding list_agrees_def by (cases p) auto
  have "inj_on snd (set (bg_evictable g))"
    using ev unfolding list_agrees_def inj_on_def by (metis option.inject prod.collapse)
  moreover have "snd ` set (bg_evictable g) \<subseteq> dom (map_of ?rs)" using mem by blast
  ultimately have "card (set (bg_evictable g)) \<le> card (dom (map_of ?rs))"
    using fin by (metis card_image card_mono)
  moreover have "distinct (bg_evictable g)" using ev by (auto simp: list_agrees_def distinct_map)
  ultimately show "length (bg_evictable g) \<le> length ?rs" by (simp add: card distinct_card)
qed

end
