(* ===== verification/Guard_Once.thy ===== *)
theory Guard_Once
  imports Guard_Inv
begin

section \<open>One process: a payload is claimed at most once per retention window\<close>

text \<open>
  The guarantee of a gateway without a shared store. \<open>local_run evs now g\<close> holds when the
  guard \<open>g\<close> is reached at time \<open>now\<close> by any interleaving of \<open>begin\<close> and \<open>complete\<close> calls, in
  any order and for any keys, with \<open>evs\<close> the claims handed out and the results recorded,
  newest first. \<open>claimed_since evs key\<close> is the time of the newest claim of \<open>key\<close> unless the
  node's explicit rejection was recorded after it: rejection is the one outcome after which
  the record may be evicted and the payload submitted again.
\<close>

datatype guard_event = Claim string instant | Finish string broadcast_record

inductive local_run :: "guard_event list \<Rightarrow> instant \<Rightarrow> broadcast_guard \<Rightarrow> bool" where
  start: "local_run [] now (new_broadcast_guard False)"
| begin_owner: "local_run evs t g \<Longrightarrow> t \<le> now \<Longrightarrow> begin_guard now key nx got g = (g', Owner) \<Longrightarrow>
     local_run (Claim key now # evs) now g'"
| begin_other: "local_run evs t g \<Longrightarrow> t \<le> now \<Longrightarrow> begin_guard now key nx got g = (g', res) \<Longrightarrow>
     res \<noteq> Owner \<Longrightarrow> local_run evs now g'"
| complete_ok: "local_run evs t g \<Longrightarrow> complete_guard key r ok g = (g', True) \<Longrightarrow>
     local_run (Finish key r # evs) t g'"
| complete_err: "local_run evs t g \<Longrightarrow> complete_guard key r ok g = (g', False) \<Longrightarrow>
     local_run evs t g'"

inductive_cases local_runE: "local_run evs now g"

fun claimed_since :: "guard_event list \<Rightarrow> string \<Rightarrow> instant option" where
  "claimed_since [] k = None"
| "claimed_since (Claim k' t # evs) k = (if k' = k then Some t else claimed_since evs k)"
| "claimed_since (Finish k' r # evs) k =
     (if k' = k \<and> br_state r = broadcast_rejected then None else claimed_since evs k)"

text \<open>The guard pins a key until \<open>t\<close>: it has an unevictable record that expires then.\<close>

definition pins :: "broadcast_guard \<Rightarrow> string \<Rightarrow> instant \<Rightarrow> bool" where
  "pins g k t \<longleftrightarrow> (\<exists>lr. map_of (bg_records g) k = Some lr \<and> lr_expires lr = t \<and> lr_evictable lr = None)"

lemma pins_metrics [simp]:
  "pins (count_claim g) = pins g" "pins (count_unavailable g) = pins g" "pins (count_corrupt g) = pins g"
  "pins (count_persist_error g) = pins g" "pins (record_replay r g) = pins g"
  by (simp_all add: fun_eq_iff pins_def)

subsection \<open>What the locked sections keep\<close>

lemma sweep_keeps:
  "guard_inv g \<Longrightarrow> map_of (bg_records g) k = Some lr \<Longrightarrow> now < lr_expires lr \<Longrightarrow>
     map_of (bg_records (sweep_expired b now g)) k = Some lr"
proof (induction b now g rule: sweep_expired.induct)
  case (1 now g)
  then show ?case by simp
next
  case (2 b now g)
  show ?case
  proof (cases "eh_items (bg_expiries g)")
    case Nil
    then show ?thesis using "2.prems" by simp
  next
    case (Cons p ps)
    show ?thesis
    proof (cases "be_at (eh_obj (bg_expiries g) p) > now")
      case True
      then show ?thesis using Cons "2.prems" by simp
    next
      case False
      define k' where "k' = be_key (eh_obj (bg_expiries g) p)"
      have ha: "heap_agrees (map_of (bg_records g)) (bg_expiries g)"
        using "2.prems"(1) by (simp add: guard_inv_def)
      obtain lr' where lr': "map_of (bg_records g) k' = Some lr'" "lr_expiry lr' = p"
        using heap_agrees_held [OF ha, of p] Cons by (auto simp: k'_def)
      then have "lr_expires lr' \<le> now"
        using heap_agrees_owned [OF ha lr'(1)] False by simp
      then have "k' \<noteq> k" using lr'(1) "2.prems"(2,3) by auto
      then have "map_of (bg_records (remove_local k' g)) k = Some lr" using "2.prems"(2) by simp
      with "2.IH" [OF Cons False guard_inv_remove_local [OF "2.prems"(1)]] "2.prems"(3) False
      show ?thesis using Cons by (simp add: k'_def)
    qed
  qed
qed

lemma sweep_only_removes:
  "map_of (bg_records (sweep_expired b now g)) k = Some lr \<Longrightarrow> map_of (bg_records g) k = Some lr"
proof (induction b now g rule: sweep_expired.induct)
  case (1 now g)
  then show ?case by simp
next
  case (2 b now g)
  then show ?case by (cases "eh_items (bg_expiries g)") (auto split: if_splits)
qed

lemma evict_one_keeps:
  assumes "guard_inv g" and "map_of (bg_records g) k = Some lr" and "lr_evictable lr = None"
  shows "map_of (bg_records (evict_one g)) k = Some lr"
proof (cases "bg_evictable g")
  case Nil
  then show ?thesis using assms(2) by (simp add: evict_one_def)
next
  case (Cons x xs)
  obtain e k' where x: "x = (e, k')" by (cases x)
  have "list_agrees (map_of (bg_records g)) (bg_evictable g)" using assms(1) by (simp add: guard_inv_def)
  moreover have "(e, k') \<in> set (bg_evictable g)" using Cons x by simp
  ultimately obtain lr' where "map_of (bg_records g) k' = Some lr'" "lr_evictable lr' = Some e"
    unfolding list_agrees_def by blast
  then have "k' \<noteq> k" using assms(2,3) by auto
  then show ?thesis using assms(2) Cons x by (simp add: evict_one_def)
qed

lemma reserve_local_keeps:
  assumes "guard_inv g" and "pins g k t" and "k \<noteq> key"
  shows "pins (fst (reserve_local now key g)) k t"
proof -
  obtain lr where "map_of (bg_records g) k = Some lr" "lr_expires lr = t" "lr_evictable lr = None"
    using assms(2) unfolding pins_def by blast
  then show ?thesis
    using evict_one_keeps [OF assms(1), of k lr] assms(3)
    by (auto simp: pins_def reserve_local_def Let_def insert_pending_def update_conv')
qed

lemma reserve_local_result:
  "reserve_local now key g = (g', LocalReserved) \<Longrightarrow> pins g' key (now + broadcast_guard_ttl)"
  "reserve_local now key g = (g', res) \<Longrightarrow> res = LocalReserved \<or> res = LocalFull"
  by (auto simp: reserve_local_def Let_def insert_pending_def pins_def update_conv' split: if_splits)

text \<open>
  \<open>begin\<close>'s first section: a key with an unexpired record is never reserved, the reservation is
  pinned for the retention time, and every other unexpired pinned key stays pinned.
\<close>

lemma begin_local_pinned_key:
  assumes inv: "guard_inv g" and pin: "pins g key t" and t: "now < t"
    and step: "begin_local now key g = (g', res)"
  shows "res \<noteq> LocalReserved \<and> res \<noteq> LocalFull \<and> pins g' key t"
proof -
  obtain lr where lr: "map_of (bg_records g) key = Some lr" "lr_expires lr = t" "lr_evictable lr = None"
    using pin unfolding pins_def by blast
  define s where "s = sweep_expired broadcast_expiry_sweep_budget now g"
  have "map_of (bg_records s) key = Some lr"
    unfolding s_def using sweep_keeps [OF inv lr(1)] t lr(2) by simp
  then show ?thesis
    using step lr t unfolding begin_local_def Let_def s_def [symmetric]
    by (auto simp: pins_def split: if_splits)
qed

lemma begin_local_other_key:
  assumes inv: "guard_inv g" and pin: "pins g k t" and t: "now < t" and ne: "k \<noteq> key"
    and step: "begin_local now key g = (g', res)"
  shows "pins g' k t"
proof -
  define s where "s = sweep_expired broadcast_expiry_sweep_budget now g"
  have si: "guard_inv s" using inv by (auto simp: s_def intro: inv_intros)
  have sp: "pins s k t"
    using pin sweep_keeps [OF inv, of k] t unfolding pins_def s_def by blast
  have rp: "pins (remove_local key s) k t" using sp ne by (simp add: pins_def)
  have "pins (fst (reserve_local now key s)) k t" "pins (fst (reserve_local now key (remove_local key s))) k t"
    using reserve_local_keeps [OF si sp ne] reserve_local_keeps [OF _ rp ne] si
    by (auto intro: inv_intros)
  moreover have "pins (move_to_back el s) k t" for el using sp by (simp add: pins_def move_to_back_def)
  ultimately show ?thesis
    using step sp unfolding begin_local_def Let_def s_def [symmetric]
    by (auto split: option.splits if_splits)
qed

lemma begin_local_reserved:
  "begin_local now key g = (g', LocalReserved) \<Longrightarrow> pins g' key (now + broadcast_guard_ttl)"
  by (auto simp: begin_local_def Let_def split: option.splits if_splits dest: reserve_local_result(1))

subsection \<open>Whole calls without a shared store\<close>

lemma begin_local_shared [simp]: "bg_shared (fst (begin_local now key g)) = bg_shared g"
  by (auto simp: begin_local_def reserve_local_def Let_def split: option.splits)

lemma begin_guard_local:
  assumes "\<not> bg_shared g"
  shows "begin_guard now key nx got g =
     (case begin_local now key g of
        (g1, LocalReplay r) \<Rightarrow> (g1, Replay r)
      | (g1, LocalCorrupt) \<Rightarrow> (g1, GuardUnavailable)
      | (g1, LocalFull) \<Rightarrow> (count_unavailable g1, GuardUnavailable)
      | (g1, LocalReserved) \<Rightarrow> (count_claim g1, Owner))"
proof -
  obtain g1 res where 1: "begin_local now key g = (g1, res)" by (cases "begin_local now key g")
  then have "\<not> bg_shared g1" using begin_local_shared [of now key g] assms by simp
  then show ?thesis by (cases res) (simp_all add: begin_guard_def 1)
qed

lemma begin_guard_keeps_pins:
  assumes "guard_inv g" and "\<not> bg_shared g" and "pins g k t" and "now < t"
    and "begin_guard now key nx got g = (g', res)"
  shows "pins g' k t \<and> (k = key \<longrightarrow> res \<noteq> Owner)"
proof -
  obtain g1 r where 1: "begin_local now key g = (g1, r)" by (cases "begin_local now key g")
  have "pins g1 k t \<and> (k = key \<longrightarrow> r \<noteq> LocalReserved)"
  proof (cases "k = key")
    case True
    then show ?thesis using begin_local_pinned_key [OF assms(1) _ assms(4) 1] assms(3) by simp
  next
    case False
    then show ?thesis using begin_local_other_key [OF assms(1,3,4) False 1] by simp
  qed
  then show ?thesis
    using assms(5) unfolding begin_guard_local [OF assms(2)] 1
    by (cases r) auto
qed

lemma begin_guard_owner_pins:
  assumes "\<not> bg_shared g" and "begin_guard now key nx got g = (g', Owner)"
  shows "pins g' key (now + broadcast_guard_ttl)"
  using assms(2) begin_local_reserved unfolding begin_guard_local [OF assms(1)]
  by (auto split: prod.splits begin_local_result.splits)

lemma complete_local_keeps_pins:
  assumes "\<not> bg_shared g" and pin: "pins g k t" and step: "complete_local key r g = (g', c)"
    and safe: "key = k \<longrightarrow> br_state r \<noteq> broadcast_rejected \<or> c \<noteq> CompleteLocal"
  shows "pins g' k t \<and> (\<forall>p. c \<noteq> CompletePublish p)"
proof (cases "\<not> valid_broadcast_record r \<or> br_state r = broadcast_pending \<or> map_of (bg_records g) key = None")
  case True
  then have "g' = count_persist_error g \<and> (c = CompleteInvalid \<or> c = CompleteMissing)"
    using step unfolding complete_local_def
    by (cases "\<not> valid_broadcast_record r \<or> br_state r = broadcast_pending") (auto split: if_splits)
  then show ?thesis using pin by auto
next
  case False
  then obtain entry where e: "map_of (bg_records g) key = Some entry" by auto
  define g1 where "g1 = g\<lparr>bg_records := AList.update key (entry\<lparr>lr_record := r\<rparr>) (bg_records g)\<rparr>"
  have "complete_local key r g =
      (if br_state r = broadcast_rejected then mark_evictable key g1 else g1, CompleteLocal)"
    using False e assms(1) by (simp add: complete_local_def Let_def g1_def)
  then have g': "g' = (if br_state r = broadcast_rejected then mark_evictable key g1 else g1)" "c = CompleteLocal"
    using step by simp_all
  have "pins g1 k t" using pin e by (auto simp: pins_def g1_def update_conv')
  then show ?thesis using g' safe by (auto simp: pins_def records_mark_evictable)
qed

lemma complete_guard_keeps_pins:
  assumes "\<not> bg_shared g" and "pins g k t" and "complete_guard key r ok g = (g', res)"
    and "key = k \<longrightarrow> br_state r \<noteq> broadcast_rejected \<or> \<not> res"
  shows "pins g' k t"
proof -
  obtain g1 c where 1: "complete_local key r g = (g1, c)" by (cases "complete_local key r g")
  have "c = CompleteLocal \<Longrightarrow> res" using assms(3) 1 by (auto simp: complete_guard_def)
  with complete_local_keeps_pins [OF assms(1,2) 1] assms(4)
  have "pins g1 k t" "\<And>p. c \<noteq> CompletePublish p" by auto
  then show ?thesis using assms(3) 1 by (cases c) (auto simp: complete_guard_def)
qed

lemma begin_guard_shared [simp]: "bg_shared (fst (begin_guard now key nx got g)) = bg_shared g"
proof -
  obtain g1 res where 1: "begin_local now key g = (g1, res)" by (cases "begin_local now key g")
  obtain g2 r where 2: "read_shared got g1 = (g2, r)" by (cases "read_shared got g1")
  have "bg_shared g1 = bg_shared g" "bg_shared g2 = bg_shared g"
    using begin_local_shared [of now key g] read_shared_frame(3) [of got g1] 1 2 by auto
  then show ?thesis
    by (cases res; cases r; cases nx)
       (auto simp: begin_guard_def 1 2 adopt_shared_def Let_def split: option.splits)
qed

lemma complete_guard_shared [simp]: "bg_shared (fst (complete_guard key r ok g)) = bg_shared g"
proof -
  obtain g1 c where 1: "complete_local key r g = (g1, c)" by (cases "complete_local key r g")
  have "bg_shared g1 = bg_shared g"
    using 1 by (auto simp: complete_local_def Let_def split: option.splits if_splits)
  then show ?thesis
    by (cases c) (auto simp: complete_guard_def 1 complete_publish_def Let_def split: option.splits)
qed

subsection \<open>The run invariant\<close>

definition run_inv :: "guard_event list \<Rightarrow> instant \<Rightarrow> broadcast_guard \<Rightarrow> bool" where
  "run_inv evs now g \<longleftrightarrow>
     guard_inv g \<and> \<not> bg_shared g \<and>
     (\<forall>k t. claimed_since evs k = Some t \<longrightarrow>
        t + broadcast_guard_ttl \<le> now \<or> pins g k (t + broadcast_guard_ttl))"

lemma local_run_inv: "local_run evs now g \<Longrightarrow> run_inv evs now g"
proof (induction rule: local_run.induct)
  case (start now)
  then show ?case by (simp add: run_inv_def guard_inv_new) (simp add: new_broadcast_guard_def)
next
  case (begin_owner evs t g now key nx got g')
  have g: "guard_inv g" "\<not> bg_shared g" using begin_owner.IH by (auto simp: run_inv_def)
  have g': "guard_inv g'" "\<not> bg_shared g'"
    using guard_inv_begin_guard [OF g(1), of now key nx got] begin_guard_shared [of now key nx got g]
      begin_owner.hyps(3) g(2) by auto
  have "s + broadcast_guard_ttl \<le> now \<or> pins g' k (s + broadcast_guard_ttl)"
    if "claimed_since (Claim key now # evs) k = Some s" for k s
  proof (cases "k = key")
    case True
    then show ?thesis using that begin_guard_owner_pins [OF g(2) begin_owner.hyps(3)] by simp
  next
    case False
    then have "s + broadcast_guard_ttl \<le> t \<or> pins g k (s + broadcast_guard_ttl)"
      using that begin_owner.IH by (auto simp: run_inv_def)
    then show ?thesis
      using begin_guard_keeps_pins [OF g _ _ begin_owner.hyps(3)] begin_owner.hyps(2) by force
  qed
  then show ?case using g' by (simp add: run_inv_def)
next
  case (begin_other evs t g now key nx got g' res)
  have g: "guard_inv g" "\<not> bg_shared g" using begin_other.IH by (auto simp: run_inv_def)
  have g': "guard_inv g'" "\<not> bg_shared g'"
    using guard_inv_begin_guard [OF g(1), of now key nx got] begin_guard_shared [of now key nx got g]
      begin_other.hyps(3) g(2) by auto
  have "s + broadcast_guard_ttl \<le> now \<or> pins g' k (s + broadcast_guard_ttl)"
    if "claimed_since evs k = Some s" for k s
    using that begin_other.IH begin_guard_keeps_pins [OF g _ _ begin_other.hyps(3)] begin_other.hyps(2)
    unfolding run_inv_def by force
  then show ?case using g' by (simp add: run_inv_def)
next
  case (complete_ok evs t g key r ok g')
  have g: "guard_inv g" "\<not> bg_shared g" using complete_ok.IH by (auto simp: run_inv_def)
  have g': "guard_inv g'" "\<not> bg_shared g'"
    using guard_inv_complete_guard [OF g(1), of key r ok] complete_guard_shared [of key r ok g]
      complete_ok.hyps(2) g(2) by auto
  have "s + broadcast_guard_ttl \<le> t \<or> pins g' k (s + broadcast_guard_ttl)"
    if "claimed_since (Finish key r # evs) k = Some s" for k s
    using that complete_ok.IH complete_guard_keeps_pins [OF g(2) _ complete_ok.hyps(2)]
    unfolding run_inv_def by (auto split: if_splits)
  then show ?case using g' by (simp add: run_inv_def)
next
  case (complete_err evs t g key r ok g')
  have g: "guard_inv g" "\<not> bg_shared g" using complete_err.IH by (auto simp: run_inv_def)
  have g': "guard_inv g'" "\<not> bg_shared g'"
    using guard_inv_complete_guard [OF g(1), of key r ok] complete_guard_shared [of key r ok g]
      complete_err.hyps(2) g(2) by auto
  have "s + broadcast_guard_ttl \<le> t \<or> pins g' k (s + broadcast_guard_ttl)"
    if "claimed_since evs k = Some s" for k s
    using that complete_err.IH complete_guard_keeps_pins [OF g(2) _ complete_err.hyps(2)]
    unfolding run_inv_def by auto
  then show ?case using g' by (simp add: run_inv_def)
qed

end
