(* ===== verification/Pool.thy ===== *)
theory Pool
  imports Errors
begin

section \<open>The failover pool of JSON-RPC endpoints\<close>

text \<open>
  \<open>upstream/pool.go\<close>: an ordered list of endpoints, each with a circuit breaker, failure
  counters and a rolling latency window; reads that fail over (\<open>pool_call\<close>) and writes that
  never do (\<open>pool_call_once\<close>). HTTP is outside the code: the environment \<open>pool_env\<close> answers
  each request, depending on everything sent so far, with an outcome and the time it took;
  \<open>world\<close> is the clock and the requests sent, newest last. \<open>net/url\<close>'s host name of a URL is
  part of the environment too; it only labels errors.
\<close>

definition fail_threshold :: nat where "fail_threshold = 3"
definition open_duration :: duration where "open_duration = seconds 30"
definition latency_window_size :: nat where "latency_window_size = 256"

datatype failure_kind =
    FailureRateLimited | FailureTimeout | FailureMalformed | FailureTransport | FailureServer
  | FailureProvider | FailureOther

record failure_counts =
  fc_rate_limited :: "64 word"
  fc_timeouts :: "64 word"
  fc_malformed :: "64 word"
  fc_transport :: "64 word"
  fc_server :: "64 word"
  fc_provider :: "64 word"
  fc_other :: "64 word"

definition zero_counts :: failure_counts where
  "zero_counts = \<lparr>fc_rate_limited = 0, fc_timeouts = 0, fc_malformed = 0, fc_transport = 0,
     fc_server = 0, fc_provider = 0, fc_other = 0\<rparr>"

record endpoint =
  ep_url :: string
  ep_fails :: nat
  ep_open_until :: "instant option"
  ep_successes :: "64 word"
  ep_failures :: "64 word"
  ep_last_latency_ms :: int
  ep_failure_counts :: failure_counts
  ep_latency_samples :: "int list"
  ep_latency_sample_count :: nat
  ep_latency_sample_next :: nat

definition new_endpoint :: "string \<Rightarrow> endpoint" where
  "new_endpoint u = \<lparr>ep_url = u, ep_fails = 0, ep_open_until = None, ep_successes = 0,
     ep_failures = 0, ep_last_latency_ms = 0, ep_failure_counts = zero_counts,
     ep_latency_samples = replicate latency_window_size 0, ep_latency_sample_count = 0,
     ep_latency_sample_next = 0\<rparr>"

record pool =
  pl_name :: string
  pl_eps :: "endpoint list"
  pl_round_robin_prefix :: nat
  pl_next_primary :: nat

definition new_pool :: "string \<Rightarrow> string list \<Rightarrow> int \<Rightarrow> pool" where
  "new_pool name urls prefix_count =
     (let eps = map new_endpoint (filter (\<lambda>u. u \<noteq> '''') urls) in
      \<lparr>pl_name = name, pl_eps = eps,
       pl_round_robin_prefix = nat (min (max prefix_count 0) (int (length eps))),
       pl_next_primary = 0\<rparr>)"

subsection \<open>The environment\<close>

datatype http_outcome =
    RequestInvalid
  | TransportFailed bool
  | Responded int "string option"

record http_reply =
  hr_outcome :: http_outcome
  hr_elapsed :: duration
  hr_ctx_done :: bool

text \<open>A request is the URL and the bytes of its body.\<close>

type_synonym http_request = "string \<times> string"

record world =
  w_now :: instant
  w_sent :: "http_request list"

record pool_env =
  pe_transport :: "world \<Rightarrow> http_request \<Rightarrow> http_reply"
  pe_host_of :: "string \<Rightarrow> string"

definition exchange :: "pool_env \<Rightarrow> http_request \<Rightarrow> world \<Rightarrow> http_reply \<times> world" where
  "exchange env req w =
     (let r = pe_transport env w req in
      (r, \<lparr>w_now = w_now w + max 0 (hr_elapsed r), w_sent = w_sent w @ [req]\<rparr>))"

subsection \<open>One attempt\<close>

definition rpc_request_body :: "string \<Rightarrow> json list \<Rightarrow> string" where
  "rpc_request_body method params =
     json_print (JObj [(''id'', JNum ''1''), (''jsonrpc'', JStr ''2.0''), (''method'', JStr method),
                       (''params'', JArr params)])"

definition provider_routing_error :: "string \<Rightarrow> bool" where
  "provider_routing_error msg =
     (let message = to_lower msg in
      str_contains message ''not enabled for this app'' \<or>
      str_contains message ''api key is not valid'' \<or>
      str_contains message ''invalid api key'' \<or>
      str_contains message ''authentication failed'')"

definition public_failure_message :: "failure_kind \<Rightarrow> string" where
  "public_failure_message kind =
     (case kind of
        FailureRateLimited \<Rightarrow> ''upstream rate limit reached''
      | FailureTimeout \<Rightarrow> ''upstream request timed out''
      | FailureMalformed \<Rightarrow> ''malformed upstream response''
      | FailureTransport \<Rightarrow> ''upstream request failed''
      | FailureServer \<Rightarrow> ''upstream server unavailable''
      | FailureProvider \<Rightarrow> ''provider rejected network routing''
      | FailureOther \<Rightarrow> ''upstream temporarily unavailable'')"

datatype attempt_result = AttemptFailure failure_kind | AttemptNodeError int string | AttemptResult json

definition json_string :: "raw \<Rightarrow> string option" where
  \<comment> \<open>\<open>json.Unmarshal\<close> into a string: null leaves it empty\<close>
  "json_string raw = (case raw of Some (JStr s) \<Rightarrow> Some s | Some JNull \<Rightarrow> Some '''' | _ \<Rightarrow> None)"

definition decode_envelope :: "bool \<Rightarrow> string \<Rightarrow> attempt_result" where
  "decode_envelope extensible data =
     (let members = [''jsonrpc'', ''id'', ''result'', ''error''] in
      case (if extensible then decode_extensible_json_object (json_parse data) members
            else decode_exact_json_object (json_parse data) members) of
        None \<Rightarrow> AttemptFailure FailureMalformed
      | Some obj \<Rightarrow>
          (case json_string (obj ''jsonrpc'') of
             None \<Rightarrow> AttemptFailure FailureMalformed
           | Some version \<Rightarrow>
               if version \<noteq> ''2.0'' \<or> obj ''id'' \<noteq> Some (JNum ''1'') \<or>
                  (obj ''result'' \<noteq> None) = (obj ''error'' \<noteq> None)
               then AttemptFailure FailureMalformed
               else (case obj ''result'' of
                  Some result \<Rightarrow> AttemptResult result
                | None \<Rightarrow>
                    (case (if extensible
                           then decode_extensible_json_object (obj ''error'') [''code'', ''message'']
                           else decode_exact_json_object (obj ''error'') [''code'', ''message'', ''data'']) of
                       None \<Rightarrow> AttemptFailure FailureMalformed
                     | Some eobj \<Rightarrow>
                         (case (eobj ''code'', eobj ''message'') of
                            (Some (JNum lit), Some (JStr message)) \<Rightarrow>
                              (case parse_int64 lit of
                                 None \<Rightarrow> AttemptFailure FailureMalformed
                               | Some code \<Rightarrow> AttemptNodeError code message)
                          | _ \<Rightarrow> AttemptFailure FailureMalformed)))))"

definition attempt :: "bool \<Rightarrow> http_outcome \<Rightarrow> attempt_result" where
  "attempt extensible outcome =
     (case outcome of
        RequestInvalid \<Rightarrow> AttemptFailure FailureOther
      | TransportFailed deadline \<Rightarrow>
          AttemptFailure (if deadline then FailureTimeout else FailureTransport)
      | Responded st bd \<Rightarrow>
          if st = 429 then AttemptFailure FailureRateLimited
          else if st \<ge> 500 then AttemptFailure FailureServer
          else (case Option.bind bd (\<lambda>b. read_bounded_response b (8 * 2 ^ 20)) of
                  None \<Rightarrow> AttemptFailure FailureTransport
                | Some data \<Rightarrow> decode_envelope extensible data))"

subsection \<open>Bookkeeping\<close>

definition circuit_open :: "instant \<Rightarrow> endpoint \<Rightarrow> bool" where
  "circuit_open now ep = opt_after (ep_open_until ep) now"

definition increment_failure :: "failure_kind \<Rightarrow> failure_counts \<Rightarrow> failure_counts" where
  "increment_failure kind c =
     (case kind of
        FailureRateLimited \<Rightarrow> c\<lparr>fc_rate_limited := fc_rate_limited c + 1\<rparr>
      | FailureTimeout \<Rightarrow> c\<lparr>fc_timeouts := fc_timeouts c + 1\<rparr>
      | FailureMalformed \<Rightarrow> c\<lparr>fc_malformed := fc_malformed c + 1\<rparr>
      | FailureTransport \<Rightarrow> c\<lparr>fc_transport := fc_transport c + 1\<rparr>
      | FailureServer \<Rightarrow> c\<lparr>fc_server := fc_server c + 1\<rparr>
      | FailureProvider \<Rightarrow> c\<lparr>fc_provider := fc_provider c + 1\<rparr>
      | FailureOther \<Rightarrow> c\<lparr>fc_other := fc_other c + 1\<rparr>)"

definition add_counts :: "failure_counts \<Rightarrow> failure_counts \<Rightarrow> failure_counts" where
  "add_counts m other =
     \<lparr>fc_rate_limited = fc_rate_limited m + fc_rate_limited other,
      fc_timeouts = fc_timeouts m + fc_timeouts other,
      fc_malformed = fc_malformed m + fc_malformed other,
      fc_transport = fc_transport m + fc_transport other,
      fc_server = fc_server m + fc_server other,
      fc_provider = fc_provider m + fc_provider other,
      fc_other = fc_other m + fc_other other\<rparr>"

definition record_latency :: "int \<Rightarrow> endpoint \<Rightarrow> endpoint" where
  "record_latency latency_ms e =
     e\<lparr>ep_latency_samples := (ep_latency_samples e)[ep_latency_sample_next e := max latency_ms 0],
       ep_latency_sample_next := (ep_latency_sample_next e + 1) mod latency_window_size,
       ep_latency_sample_count :=
         (if ep_latency_sample_count e < latency_window_size then ep_latency_sample_count e + 1
          else ep_latency_sample_count e)\<rparr>"

definition latencies :: "endpoint \<Rightarrow> int list" where
  "latencies e =
     (if ep_latency_sample_count e = 0 then []
      else let start = (if ep_latency_sample_count e = latency_window_size
                        then ep_latency_sample_next e else 0)
           in map (\<lambda>i. ep_latency_samples e ! ((start + i) mod latency_window_size))
                [0..<ep_latency_sample_count e])"

definition record_failure :: "instant \<Rightarrow> duration \<Rightarrow> failure_kind \<Rightarrow> endpoint \<Rightarrow> endpoint" where
  "record_failure now latency kind ep =
     (let ep = ep\<lparr>ep_fails := ep_fails ep + 1, ep_failures := ep_failures ep + 1,
                  ep_last_latency_ms := duration_millis latency\<rparr>;
          ep = record_latency (duration_millis latency) ep;
          ep = ep\<lparr>ep_failure_counts := increment_failure kind (ep_failure_counts ep)\<rparr>
      in if ep_fails ep \<ge> fail_threshold then ep\<lparr>ep_open_until := Some (now + open_duration)\<rparr> else ep)"

definition record_success :: "duration \<Rightarrow> endpoint \<Rightarrow> endpoint" where
  "record_success latency ep =
     (let ep = ep\<lparr>ep_fails := 0, ep_open_until := None, ep_successes := ep_successes ep + 1,
                  ep_last_latency_ms := duration_millis latency\<rparr>
      in record_latency (duration_millis latency) ep)"

definition update_ep :: "nat \<Rightarrow> (endpoint \<Rightarrow> endpoint) \<Rightarrow> pool \<Rightarrow> pool" where
  "update_ep i f p = p\<lparr>pl_eps := (pl_eps p)[i := f (pl_eps p ! i)]\<rparr>"

subsection \<open>Calls\<close>

text \<open>Endpoints are addressed by position, as the code addresses them by pointer.\<close>

definition endpoints_for_call :: "pool \<Rightarrow> pool \<times> nat list" where
  "endpoints_for_call p =
     (if pl_round_robin_prefix p \<le> 1 then (p, [0..<length (pl_eps p)])
      else let k = pl_round_robin_prefix p; start = pl_next_primary p mod k in
           (p\<lparr>pl_next_primary := (pl_next_primary p + 1) mod k\<rparr>,
            map (\<lambda>offset. (start + offset) mod k) [0..<k] @ [k..<length (pl_eps p)]))"

definition circuit_open_error :: "pool \<Rightarrow> go_error" where
  "circuit_open_error p =
     Unavailable (pl_name p) ''all upstreams temporarily unavailable (circuit open)''"

text \<open>
  The loop of \<open>call\<close>: \<open>lerr\<close> is \<open>lastErr\<close>, meaningful once \<open>attempted\<close> holds.
\<close>

fun pool_call_loop ::
  "pool_env \<Rightarrow> bool \<Rightarrow> string \<Rightarrow> nat list \<Rightarrow> pool \<Rightarrow> world \<Rightarrow> bool \<Rightarrow> go_error \<Rightarrow>
   (go_error + json) \<times> pool \<times> world" where
  "pool_call_loop env ext payload [] p w attempted lerr =
     (Inl (if attempted then lerr else circuit_open_error p), p, w)"
| "pool_call_loop env ext payload (i # is) p w attempted lerr =
     (let ep = pl_eps p ! i in
      if circuit_open (w_now w) ep then pool_call_loop env ext payload is p w attempted lerr
      else
        let (reply, w') = exchange env (ep_url ep, payload) w; lat = hr_elapsed reply in
        case attempt ext (hr_outcome reply) of
          AttemptFailure kind \<Rightarrow>
            (let p' = update_ep i (record_failure (w_now w') lat kind) p;
                 err = Unavailable (pe_host_of env (ep_url ep)) (public_failure_message kind)
             in if hr_ctx_done reply then (Inl err, p', w')
                else pool_call_loop env ext payload is p' w' True err)
        | AttemptNodeError code message \<Rightarrow>
            if provider_routing_error message then
              pool_call_loop env ext payload is
                (update_ep i (record_failure (w_now w') lat FailureProvider) p) w' True
                (Unavailable (pe_host_of env (ep_url ep)) ''provider rejected network routing'')
            else (Inl (NodeError code message), update_ep i (record_success lat) p, w')
        | AttemptResult result \<Rightarrow> (Inr result, update_ep i (record_success lat) p, w'))"

definition pool_call ::
  "pool_env \<Rightarrow> bool \<Rightarrow> string \<Rightarrow> json list \<Rightarrow> pool \<Rightarrow> world \<Rightarrow> (go_error + json) \<times> pool \<times> world" where
  "pool_call env ext method params p w =
     (let (p, order) = endpoints_for_call p in
      pool_call_loop env ext (rpc_request_body method params) order p w False (OtherError ''''))"

text \<open>\<open>CallOnce\<close>: endpoints with an open circuit are skipped, the first other one is final.\<close>

fun pool_call_once_loop ::
  "pool_env \<Rightarrow> string \<Rightarrow> nat list \<Rightarrow> pool \<Rightarrow> world \<Rightarrow> (go_error + json) \<times> pool \<times> world" where
  "pool_call_once_loop env payload [] p w = (Inl (circuit_open_error p), p, w)"
| "pool_call_once_loop env payload (i # is) p w =
     (let ep = pl_eps p ! i in
      if circuit_open (w_now w) ep then pool_call_once_loop env payload is p w
      else
        let (reply, w') = exchange env (ep_url ep, payload) w; lat = hr_elapsed reply in
        case attempt False (hr_outcome reply) of
          AttemptFailure kind \<Rightarrow>
            (Inl (Unavailable (pe_host_of env (ep_url ep)) (public_failure_message kind)),
             update_ep i (record_failure (w_now w') lat kind) p, w')
        | AttemptNodeError code message \<Rightarrow>
            if provider_routing_error message then
              (Inl (Unavailable (pe_host_of env (ep_url ep)) ''provider rejected network routing''),
               update_ep i (record_failure (w_now w') lat FailureProvider) p, w')
            else (Inl (NodeError code message), update_ep i (record_success lat) p, w')
        | AttemptResult result \<Rightarrow> (Inr result, update_ep i (record_success lat) p, w'))"

definition pool_call_once ::
  "pool_env \<Rightarrow> string \<Rightarrow> json list \<Rightarrow> pool \<Rightarrow> world \<Rightarrow> (go_error + json) \<times> pool \<times> world" where
  "pool_call_once env method params p w =
     (let (p, order) = endpoints_for_call p in
      pool_call_once_loop env (rpc_request_body method params) order p w)"

subsection \<open>Health\<close>

text \<open>Nearest rank over the sorted samples: \<open>ceil(percent * n / 100)\<close>, one-based.\<close>

definition nearest_rank :: "int list \<Rightarrow> nat \<Rightarrow> int" where
  "nearest_rank ordered percent =
     (let rank = (percent * length ordered + 99) div 100 in ordered ! (max rank 1 - 1))"

definition latency_percentiles :: "int list \<Rightarrow> int \<times> int" where
  "latency_percentiles samples =
     (if samples = [] then (0, 0)
      else let ordered = sort samples in (nearest_rank ordered 50, nearest_rank ordered 95))"

definition endpoint_state :: "endpoint \<Rightarrow> bool \<Rightarrow> string" where
  "endpoint_state ep is_open =
     (if is_open then ''open''
      else if ep_successes ep = 0 \<and> ep_failures ep = 0 then ''unknown''
      else if ep_fails ep > 0 \<or>
              (ep_failures ep > 0 \<and> ep_failures ep * 10 > ep_successes ep + ep_failures ep)
      then ''degraded'' else ''healthy'')"

record endpoint_health =
  eh_position :: nat
  eh_state :: string
  eh_successes :: "64 word"
  eh_failures :: "64 word"
  eh_failure_metrics :: failure_counts
  eh_last_latency_ms :: int
  eh_latency_p50_ms :: int
  eh_latency_p95_ms :: int
  eh_samples :: nat

record pool_health =
  ph_endpoints :: nat
  ph_open_circuits :: nat
  ph_successes :: "64 word"
  ph_failures :: "64 word"
  ph_failure_metrics :: failure_counts
  ph_last_latency_ms :: int
  ph_latency_p50_ms :: int
  ph_latency_p95_ms :: int
  ph_samples :: nat
  ph_endpoint_metrics :: "endpoint_health list"

definition endpoint_health_of :: "instant \<Rightarrow> nat \<Rightarrow> endpoint \<Rightarrow> endpoint_health" where
  "endpoint_health_of now index ep =
     (let (p50, p95) = latency_percentiles (latencies ep) in
      \<lparr>eh_position = index + 1, eh_state = endpoint_state ep (circuit_open now ep),
       eh_successes = ep_successes ep, eh_failures = ep_failures ep,
       eh_failure_metrics = ep_failure_counts ep, eh_last_latency_ms = ep_last_latency_ms ep,
       eh_latency_p50_ms = p50, eh_latency_p95_ms = p95, eh_samples = length (latencies ep)\<rparr>)"

definition pool_health :: "instant \<Rightarrow> pool \<Rightarrow> pool_health" where
  "pool_health now p =
     (let eps = pl_eps p;
          all_latencies = concat (map latencies eps);
          (p50, p95) = latency_percentiles all_latencies
      in \<lparr>ph_endpoints = length eps,
          ph_open_circuits = length (filter (circuit_open now) eps),
          ph_successes = sum_list (map ep_successes eps),
          ph_failures = sum_list (map ep_failures eps),
          ph_failure_metrics = fold (\<lambda>ep m. add_counts m (ep_failure_counts ep)) eps zero_counts,
          ph_last_latency_ms = fold (\<lambda>ep m. if ep_last_latency_ms ep > m then ep_last_latency_ms ep else m) eps 0,
          ph_latency_p50_ms = p50, ph_latency_p95_ms = p95, ph_samples = length all_latencies,
          ph_endpoint_metrics = map (\<lambda>(i, ep). endpoint_health_of now i ep) (enumerate 0 eps)\<rparr>)"

end
