(* ===== verification/Pool_Facts.thy ===== *)
theory Pool_Facts
  imports Pool
begin

section \<open>Correctness of the failover pool\<close>

text \<open>
  Facts about \<open>Pool\<close>: the endpoint invariant and its preservation, the ring buffer of latencies
  as a sliding window, nearest-rank percentiles, the order in which a call visits endpoints, the
  path of requests a failing-over call leaves behind, and the single request of a write.
\<close>

subsection \<open>The endpoint invariant\<close>

definition counts_total :: "failure_counts \<Rightarrow> 64 word" where
  "counts_total c = fc_rate_limited c + fc_timeouts c + fc_malformed c + fc_transport c
     + fc_server c + fc_provider c + fc_other c"

definition window_inv :: "endpoint \<Rightarrow> bool" where
  "window_inv e \<longleftrightarrow>
     length (ep_latency_samples e) = latency_window_size \<and>
     ep_latency_sample_count e \<le> latency_window_size \<and>
     ep_latency_sample_next e < latency_window_size \<and>
     (ep_latency_sample_count e < latency_window_size \<longrightarrow>
        ep_latency_sample_next e = ep_latency_sample_count e)"

definition endpoint_inv :: "endpoint \<Rightarrow> bool" where
  "endpoint_inv e \<longleftrightarrow> window_inv e \<and> counts_total (ep_failure_counts e) = ep_failures e \<and>
     (ep_fails e \<ge> fail_threshold \<longrightarrow> ep_open_until e \<noteq> None)"

definition pool_inv :: "pool \<Rightarrow> bool" where
  "pool_inv p \<longleftrightarrow> (\<forall>e \<in> set (pl_eps p). endpoint_inv e) \<and>
     pl_round_robin_prefix p \<le> length (pl_eps p) \<and> pl_next_primary p \<le> pl_round_robin_prefix p"

lemma window_pos [simp]: "0 < latency_window_size" "latency_window_size \<noteq> 0"
  by (simp_all add: latency_window_size_def)

lemma counts_total_increment [simp]:
  "counts_total (increment_failure kind c) = counts_total c + 1"
  by (cases kind) (simp_all add: counts_total_def increment_failure_def)

lemma counts_total_add [simp]: "counts_total (add_counts a b) = counts_total a + counts_total b"
  by (simp add: counts_total_def add_counts_def)

lemma counts_total_zero [simp]: "counts_total zero_counts = 0"
  by (simp add: counts_total_def zero_counts_def)

lemma record_latency_frames [record_frames]:
  "ep_url (record_latency x e) = ep_url e"
  "ep_fails (record_latency x e) = ep_fails e"
  "ep_open_until (record_latency x e) = ep_open_until e"
  "ep_successes (record_latency x e) = ep_successes e"
  "ep_failures (record_latency x e) = ep_failures e"
  "ep_failure_counts (record_latency x e) = ep_failure_counts e"
  by (simp_all add: record_latency_def)

lemma window_inv_record_latency: "window_inv e \<Longrightarrow> window_inv (record_latency x e)"
  by (auto simp: window_inv_def record_latency_def)

lemma endpoint_inv_window: "endpoint_inv e \<Longrightarrow> window_inv e"
  by (simp add: endpoint_inv_def)

lemma endpoint_inv_record_failure [inv_intros]:
  assumes "endpoint_inv e"
  shows "endpoint_inv (record_failure now l kind e)"
proof -
  have w: "window_inv e" using assms by (rule endpoint_inv_window)
  let ?e = "e\<lparr>ep_fails := ep_fails e + 1, ep_failures := ep_failures e + 1,
             ep_last_latency_ms := duration_millis l\<rparr>"
  have "window_inv ?e" using w by (simp add: window_inv_def)
  then have "window_inv (record_latency (duration_millis l) ?e)" by (rule window_inv_record_latency)
  then have "window_inv (record_failure now l kind e)"
    by (simp add: record_failure_def Let_def window_inv_def)
  moreover have "counts_total (ep_failure_counts (record_failure now l kind e))
      = ep_failures (record_failure now l kind e)"
    using assms by (simp add: record_failure_def Let_def record_frames endpoint_inv_def)
  moreover have "ep_fails (record_failure now l kind e) \<ge> fail_threshold \<Longrightarrow>
      ep_open_until (record_failure now l kind e) \<noteq> None"
    by (simp add: record_failure_def Let_def record_frames split: if_splits)
  ultimately show ?thesis by (simp add: endpoint_inv_def)
qed

lemma endpoint_inv_record_success [inv_intros]:
  assumes "endpoint_inv e"
  shows "endpoint_inv (record_success l e)"
proof -
  let ?e = "e\<lparr>ep_fails := 0, ep_open_until := None, ep_successes := ep_successes e + 1,
             ep_last_latency_ms := duration_millis l\<rparr>"
  have "window_inv ?e" using endpoint_inv_window [OF assms] by (simp add: window_inv_def)
  then have "window_inv (record_success l e)"
    by (simp add: record_success_def window_inv_record_latency)
  then show ?thesis
    using assms by (simp add: endpoint_inv_def record_success_def record_frames fail_threshold_def)
qed

lemma endpoint_inv_new [inv_intros]: "endpoint_inv (new_endpoint u)"
  by (simp add: endpoint_inv_def window_inv_def new_endpoint_def fail_threshold_def)

lemma pool_inv_new: "pool_inv (new_pool name urls k)"
  by (auto simp: pool_inv_def new_pool_def Let_def intro: endpoint_inv_new)

lemma pool_inv_update [inv_intros]:
  assumes "pool_inv p" "i < length (pl_eps p)" "\<And>e. endpoint_inv e \<Longrightarrow> endpoint_inv (f e)"
  shows "pool_inv (update_ep i f p)"
  using assms set_update_subset_insert [of "pl_eps p" i "f (pl_eps p ! i)"]
  by (fastforce simp: pool_inv_def update_ep_def)

lemma update_ep_frames [simp]:
  "length (pl_eps (update_ep i f p)) = length (pl_eps p)"
  "pl_name (update_ep i f p) = pl_name p"
  "pl_round_robin_prefix (update_ep i f p) = pl_round_robin_prefix p"
  "pl_next_primary (update_ep i f p) = pl_next_primary p"
  "i \<noteq> j \<Longrightarrow> pl_eps (update_ep i f p) ! j = pl_eps p ! j"
  "i < length (pl_eps p) \<Longrightarrow> pl_eps (update_ep i f p) ! i = f (pl_eps p ! i)"
  by (simp_all add: update_ep_def)

subsection \<open>The circuit breaker\<close>

lemma circuit_open_record_failure:
  "circuit_open t (record_failure now l kind e) \<longleftrightarrow>
     (if ep_fails e + 1 \<ge> fail_threshold then t < now + open_duration else circuit_open t e)"
  by (auto simp: circuit_open_def record_failure_def Let_def record_frames)

lemma circuit_open_record_success [simp]: "\<not> circuit_open t (record_success l e)"
  by (simp add: circuit_open_def record_success_def record_frames)

lemma ep_fails_record_failure [simp]: "ep_fails (record_failure now l kind e) = ep_fails e + 1"
  by (simp add: record_failure_def Let_def record_frames)

lemma ep_fails_record_success [simp]: "ep_fails (record_success l e) = 0"
  by (simp add: record_success_def record_frames)

lemma ep_url_record [simp]:
  "ep_url (record_failure now l kind e) = ep_url e" "ep_url (record_success l e) = ep_url e"
  by (simp_all add: record_failure_def record_success_def Let_def record_frames)

subsection \<open>The latency window\<close>

definition last_n :: "nat \<Rightarrow> 'a list \<Rightarrow> 'a list" where
  "last_n n xs = drop (length xs - n) xs"

lemma length_latencies [simp]: "length (latencies e) = ep_latency_sample_count e"
  by (simp add: latencies_def Let_def)

lemma latencies_nth:
  "i < ep_latency_sample_count e \<Longrightarrow>
   latencies e ! i = ep_latency_samples e !
     (((if ep_latency_sample_count e = latency_window_size then ep_latency_sample_next e else 0) + i)
        mod latency_window_size)"
  by (simp add: latencies_def Let_def)

lemma latencies_record:
  assumes "window_inv e"
  shows "latencies (record_latency x e) = last_n latency_window_size (latencies e @ [max x 0])"
proof (cases "ep_latency_sample_count e < latency_window_size")
  case True
  let ?W = latency_window_size and ?c = "ep_latency_sample_count e" and ?e = "record_latency x e"
  have nxt: "ep_latency_sample_next e = ?c" and len: "length (ep_latency_samples e) = ?W"
    using assms True by (simp_all add: window_inv_def)
  have cnt: "ep_latency_sample_count ?e = ?c + 1" using True by (simp add: record_latency_def)
  have smp: "ep_latency_samples ?e = (ep_latency_samples e)[?c := max x 0]"
    and nx: "ep_latency_sample_next ?e = (?c + 1) mod ?W"
    by (simp_all add: record_latency_def nxt)
  have "latencies ?e = latencies e @ [max x 0]"
  proof (rule nth_equalityI)
    fix i assume "i < length (latencies ?e)"
    then have i: "i < ?c + 1" by (simp add: cnt)
    have start: "((if ?c + 1 = ?W then (?c + 1) mod ?W else 0) + i) mod ?W = i"
      using i True by auto
    have "latencies ?e ! i = (ep_latency_samples e)[?c := max x 0] ! i"
      using i start latencies_nth [of i ?e] unfolding cnt smp nx by simp
    also have "\<dots> = (latencies e @ [max x 0]) ! i"
      using i True len by (auto simp: nth_append latencies_nth less_Suc_eq)
    finally show "latencies ?e ! i = (latencies e @ [max x 0]) ! i" .
  qed (simp add: cnt)
  then show ?thesis using True by (simp add: last_n_def)
next
  case False
  let ?W = latency_window_size and ?n = "ep_latency_sample_next e" and ?e = "record_latency x e"
  have c: "ep_latency_sample_count e = ?W" and n: "?n < ?W"
    and len: "length (ep_latency_samples e) = ?W"
    using assms False by (simp_all add: window_inv_def)
  have cnt: "ep_latency_sample_count ?e = ?W" using c by (simp add: record_latency_def)
  have "latencies ?e = tl (latencies e @ [max x 0])"
  proof (rule nth_equalityI)
    fix i assume "i < length (latencies ?e)"
    then have i: "i < ?W" by (simp add: cnt)
    have lhs: "latencies ?e ! i = (ep_latency_samples e)[?n := max x 0] ! ((?n + 1 + i) mod ?W)"
      using i c by (simp add: latencies_nth cnt record_latency_def mod_add_left_eq)
    show "latencies ?e ! i = tl (latencies e @ [max x 0]) ! i"
    proof (cases "i + 1 = ?W")
      case True
      then have "?n + 1 + i = ?n + ?W" by simp
      then have "(?n + 1 + i) mod ?W = ?n" using n by (simp only: mod_add_self2 mod_less)
      moreover have "latencies e \<noteq> []" using c by (metis length_latencies list.size(3) window_pos(2))
      ultimately show ?thesis using lhs True len n c
        by (auto simp: nth_append nth_tl)
    next
      case False
      then have i': "i + 1 < ?W" using i by simp
      have "(?n + 1 + i) mod ?W \<noteq> ?n"
        using i' n by (cases "?n + 1 + i < ?W") (simp_all add: le_mod_geq)
      then show ?thesis using lhs i' c
        by (simp add: nth_tl nth_append latencies_nth add.assoc)
    qed
  qed (use c cnt in simp)
  then show ?thesis using c by (simp add: last_n_def drop_Suc del: drop_append)
qed

subsection \<open>Percentiles\<close>

text \<open>How many samples are at most \<open>q\<close>; the nearest rank is the least sample with enough of them.\<close>

definition at_most :: "int list \<Rightarrow> int \<Rightarrow> nat" where
  "at_most samples q = length (filter (\<lambda>x. x \<le> q) samples)"

lemma at_most_sort [simp]: "at_most (sort xs) q = at_most xs q"
  by (simp add: at_most_def filter_sort)

lemma sorted_at_most_nth:
  assumes "sorted xs" "k < length xs"
  shows "k < at_most xs (xs ! k)"
proof -
  have "{0..k} \<subseteq> {i. i < length xs \<and> xs ! i \<le> xs ! k}"
    using assms by (auto intro: sorted_nth_mono)
  then have "card {0..k} \<le> card {i. i < length xs \<and> xs ! i \<le> xs ! k}"
    by (intro card_mono) auto
  then show ?thesis by (simp add: at_most_def length_filter_conv_card)
qed

lemma sorted_at_most_below:
  assumes "sorted xs" "k < length xs" "q < xs ! k"
  shows "at_most xs q \<le> k"
proof -
  have "{i. i < length xs \<and> xs ! i \<le> q} \<subseteq> {0..<k}"
  proof
    fix i assume "i \<in> {i. i < length xs \<and> xs ! i \<le> q}"
    then have "i < length xs" "xs ! i < xs ! k" using assms(3) by auto
    then show "i \<in> {0..<k}" using assms(1) by (metis atLeast0LessThan lessThan_iff not_le sorted_nth_mono)
  qed
  then have "card {i. i < length xs \<and> xs ! i \<le> q} \<le> card {0..<k}" by (intro card_mono) auto
  then show ?thesis by (simp add: at_most_def length_filter_conv_card)
qed

lemma nearest_rank_spec:
  assumes "sorted xs" "xs \<noteq> []" "0 < pct" "pct \<le> 100"
  shows "nearest_rank xs pct \<in> set xs"
    and "pct * length xs \<le> 100 * at_most xs (nearest_rank xs pct)"
    and "q < nearest_rank xs pct \<Longrightarrow> 100 * at_most xs q < pct * length xs"
proof -
  define n where "n = length xs"
  define m where "m = pct * n"
  define rank where "rank = (m + 99) div 100"
  have dm: "rank * 100 + (m + 99) mod 100 = m + 99" "(m + 99) mod 100 < 100"
    by (simp_all add: rank_def)
  have n: "0 < n" using assms(2) by (simp add: n_def)
  have "1 \<le> m" using n assms(3) by (simp add: Suc_le_eq m_def)
  then have r1: "1 \<le> rank" using dm by linarith
  have "m \<le> 100 * n" using assms(4) by (simp add: m_def)
  then have rn: "rank \<le> n" using dm by linarith
  have "max rank 1 = rank" using r1 by simp
  then have nr: "nearest_rank xs pct = xs ! (rank - 1)"
    unfolding nearest_rank_def Let_def n_def [symmetric] m_def [symmetric] rank_def [symmetric] by simp
  have k: "rank - 1 < length xs" using rn n r1 unfolding n_def by linarith
  show "nearest_rank xs pct \<in> set xs" using k by (simp add: nr)
  have "rank \<le> at_most xs (nearest_rank xs pct)"
    using sorted_at_most_nth [OF assms(1) k] r1 by (simp add: nr)
  moreover have "m \<le> 100 * rank" using dm by linarith
  ultimately show "pct * length xs \<le> 100 * at_most xs (nearest_rank xs pct)"
    by (simp add: n_def m_def)
  assume "q < nearest_rank xs pct"
  then have "at_most xs q \<le> rank - 1" using sorted_at_most_below [OF assms(1) k] by (simp add: nr)
  moreover have "100 * (rank - 1) < m" using r1 dm by linarith
  ultimately show "100 * at_most xs q < pct * length xs" by (simp add: n_def m_def)
qed

lemma nearest_rank_mono:
  assumes "sorted xs" "xs \<noteq> []" "0 < a" "a \<le> b" "b \<le> 100"
  shows "nearest_rank xs a \<le> nearest_rank xs b"
proof (rule ccontr)
  assume "\<not> ?thesis"
  then have "100 * at_most xs (nearest_rank xs b) < a * length xs"
    using assms by (intro nearest_rank_spec(3)) auto
  moreover have "b * length xs \<le> 100 * at_most xs (nearest_rank xs b)"
    using assms by (intro nearest_rank_spec(2)) auto
  moreover have "a * length xs \<le> b * length xs" using assms(4) by simp
  ultimately show False by linarith
qed

subsection \<open>The order of a call\<close>

lemma rotation_conv: "0 < k \<Longrightarrow> map (\<lambda>i. (s + i) mod k) [0..<k] = rotate s [0..<k]"
  by (rule nth_equalityI) (simp_all add: nth_rotate)

lemma endpoints_for_call_frames [simp]:
  "pl_eps (fst (endpoints_for_call p)) = pl_eps p"
  "pl_name (fst (endpoints_for_call p)) = pl_name p"
  "pl_round_robin_prefix (fst (endpoints_for_call p)) = pl_round_robin_prefix p"
  by (simp_all add: endpoints_for_call_def Let_def)

lemma endpoints_for_call_order:
  assumes "pool_inv p"
  shows "distinct (snd (endpoints_for_call p))"
    and "set (snd (endpoints_for_call p)) = {0..<length (pl_eps p)}"
proof -
  let ?k = "pl_round_robin_prefix p" and ?n = "length (pl_eps p)"
  have kn: "?k \<le> ?n" using assms by (simp add: pool_inv_def)
  show "distinct (snd (endpoints_for_call p))" "set (snd (endpoints_for_call p)) = {0..<?n}"
    using kn by (auto simp: endpoints_for_call_def Let_def rotation_conv simp del: map_upt_eqI)
qed

lemma pool_inv_endpoints_for_call: "pool_inv p \<Longrightarrow> pool_inv (fst (endpoints_for_call p))"
  by (auto simp: pool_inv_def endpoints_for_call_def Let_def intro: less_imp_le)

fun call_heads :: "nat \<Rightarrow> pool \<Rightarrow> nat list" where
  "call_heads 0 p = []"
| "call_heads (Suc n) p =
     (let (p', order) = endpoints_for_call p in hd order # call_heads n p')"

lemma endpoints_for_call_head:
  "1 < pl_round_robin_prefix p \<Longrightarrow>
   hd (snd (endpoints_for_call p)) = pl_next_primary p mod pl_round_robin_prefix p"
  by (simp add: endpoints_for_call_def Let_def upt_rec)

lemma endpoints_for_call_next:
  "1 < pl_round_robin_prefix p \<Longrightarrow>
   pl_next_primary (fst (endpoints_for_call p)) =
     (pl_next_primary p + 1) mod pl_round_robin_prefix p"
  by (simp add: endpoints_for_call_def Let_def)

lemma call_heads_conv:
  "1 < pl_round_robin_prefix p \<Longrightarrow>
   call_heads n p = map (\<lambda>i. (pl_next_primary p + i) mod pl_round_robin_prefix p) [0..<n]"
proof (induction n arbitrary: p)
  case (Suc n)
  let ?k = "pl_round_robin_prefix p" and ?p = "fst (endpoints_for_call p)"
  have "call_heads n ?p = map (\<lambda>i. (pl_next_primary ?p + i) mod ?k) [0..<n]"
    using Suc by simp
  also have "\<dots> = map (\<lambda>i. (pl_next_primary p + Suc i) mod ?k) [0..<n]"
    using Suc.prems by (simp add: endpoints_for_call_next mod_add_left_eq)
  finally show ?case
    using Suc.prems
    by (simp add: endpoints_for_call_head case_prod_beta upt_conv_Cons map_Suc_upt [symmetric]
        del: upt_Suc)
qed simp

subsection \<open>What a call leaves behind\<close>

text \<open>
  A hop is an endpoint and the world in which the call reached it. \<open>hop_reply\<close> is what the
  endpoint answered, \<open>retryable\<close> whether the call may go on to the next one, \<open>hop_answer\<close> what
  it returns when this was the last.
\<close>

type_synonym hop = "nat \<times> world"

definition hop_request :: "endpoint list \<Rightarrow> string \<Rightarrow> hop \<Rightarrow> http_request" where
  "hop_request eps payload h = (ep_url (eps ! fst h), payload)"

definition hop_reply :: "pool_env \<Rightarrow> endpoint list \<Rightarrow> string \<Rightarrow> hop \<Rightarrow> http_reply" where
  "hop_reply env eps payload h = pe_transport env (snd h) (hop_request eps payload h)"

definition hop_outcome :: "pool_env \<Rightarrow> bool \<Rightarrow> endpoint list \<Rightarrow> string \<Rightarrow> hop \<Rightarrow> attempt_result" where
  "hop_outcome env ext eps payload h = attempt ext (hr_outcome (hop_reply env eps payload h))"

definition retryable :: "attempt_result \<Rightarrow> bool" where
  "retryable r = (case r of AttemptFailure _ \<Rightarrow> True
     | AttemptNodeError _ message \<Rightarrow> provider_routing_error message | AttemptResult _ \<Rightarrow> False)"

definition answer_of :: "string \<Rightarrow> attempt_result \<Rightarrow> go_error + json" where
  "answer_of host r = (case r of
       AttemptFailure kind \<Rightarrow> Inl (Unavailable host (public_failure_message kind))
     | AttemptNodeError code message \<Rightarrow>
         (if provider_routing_error message
          then Inl (Unavailable host ''provider rejected network routing'')
          else Inl (NodeError code message))
     | AttemptResult result \<Rightarrow> Inr result)"

definition hop_answer :: "pool_env \<Rightarrow> bool \<Rightarrow> endpoint list \<Rightarrow> string \<Rightarrow> hop \<Rightarrow> go_error + json" where
  "hop_answer env ext eps payload h =
     answer_of (pe_host_of env (ep_url (eps ! fst h))) (hop_outcome env ext eps payload h)"

lemmas hop_defs = hop_request_def hop_reply_def hop_outcome_def hop_answer_def

definition hops_of ::
  "pool_env \<Rightarrow> bool \<Rightarrow> string \<Rightarrow> endpoint list \<Rightarrow> nat list \<Rightarrow> world \<Rightarrow> hop list \<Rightarrow> world \<Rightarrow> bool" where
  "hops_of env ext payload eps order w hops w' \<longleftrightarrow>
     subseq (map fst hops) order \<and>
     w_sent w' = w_sent w @ map (hop_request eps payload) hops \<and>
     (\<forall>k < length hops. w_sent (snd (hops ! k)) = w_sent w @ map (hop_request eps payload) (take k hops)) \<and>
     (\<forall>h \<in> set hops. \<not> circuit_open (w_now (snd h)) (eps ! fst h)) \<and>
     (\<forall>h \<in> set (butlast hops). retryable (hop_outcome env ext eps payload h))"

lemma hops_of_nil [simp]: "hops_of env ext payload eps order w [] w"
  by (simp add: hops_of_def)

lemma hops_of_skip: "hops_of env ext payload eps order w hops w' \<Longrightarrow>
    hops_of env ext payload eps (i # order) w hops w'"
  by (auto simp: hops_of_def)

lemma hops_of_one:
  assumes "\<not> circuit_open (w_now w) (eps ! i)"
    and "w_sent w1 = w_sent w @ [(ep_url (eps ! i), payload)]"
  shows "hops_of env ext payload eps (i # order) w [(i, w)] w1"
  using assms by (auto simp: hops_of_def hop_request_def)

lemma hops_of_step:
  assumes "\<not> circuit_open (w_now w) (eps ! i)"
    and "w_sent w1 = w_sent w @ [(ep_url (eps ! i), payload)]"
    and "retryable (hop_outcome env ext eps payload (i, w))"
    and "hops_of env ext payload eps order w1 hops w'"
  shows "hops_of env ext payload eps (i # order) w ((i, w) # hops) w'"
  using assms by (auto simp: hops_of_def hop_request_def nth_Cons split: nat.splits)

text \<open>The call gave up on an endpoint only if its circuit was open or the last hop settled it.\<close>

definition settled :: "pool_env \<Rightarrow> bool \<Rightarrow> endpoint list \<Rightarrow> string \<Rightarrow> hop list \<Rightarrow> bool" where
  "settled env ext eps payload hops \<longleftrightarrow> hops \<noteq> [] \<and>
     (\<not> retryable (hop_outcome env ext eps payload (last hops)) \<or>
      hr_ctx_done (hop_reply env eps payload (last hops)))"

definition exhausted ::
  "pool_env \<Rightarrow> bool \<Rightarrow> string \<Rightarrow> endpoint list \<Rightarrow> nat list \<Rightarrow> world \<Rightarrow> hop list \<Rightarrow> bool" where
  "exhausted env ext payload eps order w hops \<longleftrightarrow>
     settled env ext eps payload hops \<or>
     (\<forall>i \<in> set order. i \<in> fst ` set hops \<or> circuit_open (w_now w) (eps ! i))"

lemma circuit_open_antimono: "circuit_open t e \<Longrightarrow> t' \<le> t \<Longrightarrow> circuit_open t' e"
  by (cases "ep_open_until e") (auto simp: circuit_open_def)

lemma exhausted_step:
  assumes "exhausted env ext payload eps order w1 hops" "w_now w \<le> w_now w1"
  shows "exhausted env ext payload eps (i # order) w ((i, w) # hops)"
  using assms by (cases "hops = []")
    (auto simp: exhausted_def settled_def intro: circuit_open_antimono)

lemma exchange_frames:
  assumes "exchange env req w = (reply, w')"
  shows "reply = pe_transport env w req" "w_sent w' = w_sent w @ [req]" "w_now w \<le> w_now w'"
  using assms by (auto simp: exchange_def Let_def)

definition call_result ::
  "pool_env \<Rightarrow> bool \<Rightarrow> string \<Rightarrow> endpoint list \<Rightarrow> nat list \<Rightarrow> world \<Rightarrow> go_error \<Rightarrow>
   (go_error + json) \<Rightarrow> world \<Rightarrow> hop list \<Rightarrow> bool" where
  "call_result env ext payload eps order w fallback r w' hops \<longleftrightarrow>
     hops_of env ext payload eps order w hops w' \<and>
     exhausted env ext payload eps order w hops \<and>
     r = (if hops = [] then Inl fallback else hop_answer env ext eps payload (last hops))"

lemma call_result_nil:
  "call_result env ext payload eps [] w fallback (Inl fallback) w []"
  by (simp add: call_result_def exhausted_def)

lemma call_result_skip:
  assumes "call_result env ext payload eps order w fallback r w' hops"
    and "circuit_open (w_now w) (eps ! i)"
  shows "call_result env ext payload eps (i # order) w fallback r w' hops"
  using assms by (auto simp: call_result_def exhausted_def intro: hops_of_skip)

lemma call_result_stop:
  assumes "exchange env (ep_url (eps ! i), payload) w = (reply, w1)"
    and "\<not> circuit_open (w_now w) (eps ! i)"
    and "\<not> retryable (attempt ext (hr_outcome reply)) \<or> hr_ctx_done reply"
    and "r = answer_of (pe_host_of env (ep_url (eps ! i))) (attempt ext (hr_outcome reply))"
  shows "call_result env ext payload eps (i # order) w fallback r w1 [(i, w)]"
  using assms exchange_frames [OF assms(1)]
  by (auto simp: call_result_def exhausted_def settled_def hop_defs hops_of_def)

lemma call_result_step:
  assumes "exchange env (ep_url (eps ! i), payload) w = (reply, w1)"
    and "\<not> circuit_open (w_now w) (eps ! i)"
    and "retryable (attempt ext (hr_outcome reply))"
    and "call_result env ext payload eps order w1 err r w' hops"
    and "Inl err = answer_of (pe_host_of env (ep_url (eps ! i))) (attempt ext (hr_outcome reply))"
  shows "call_result env ext payload eps (i # order) w fallback r w' ((i, w) # hops)"
proof -
  note ex = exchange_frames [OF assms(1)]
  have "retryable (hop_outcome env ext eps payload (i, w))"
    using assms(3) by (simp add: hop_defs ex(1) [symmetric])
  then have "hops_of env ext payload eps (i # order) w ((i, w) # hops) w'"
    using assms(2,4) ex(2) by (intro hops_of_step) (auto simp: call_result_def)
  moreover have "exhausted env ext payload eps (i # order) w ((i, w) # hops)"
    using assms(4) ex(3) by (intro exhausted_step) (auto simp: call_result_def)
  moreover have "r = hop_answer env ext eps payload (last ((i, w) # hops))"
    using assms(4,5) by (auto simp: call_result_def hop_defs ex(1) [symmetric])
  ultimately show ?thesis by (simp add: call_result_def)
qed

lemma pool_call_loop_result:
  assumes "distinct order" "\<And>i. i \<in> set order \<Longrightarrow> pl_eps p ! i = eps ! i"
    and "fallback = (if attempted then lerr else circuit_open_error p)"
    and "pool_call_loop env ext payload order p w attempted lerr = (r, p', w')"
  shows "\<exists>hops. call_result env ext payload eps order w fallback r w' hops"
  using assms
proof (induction order arbitrary: p w attempted lerr fallback)
  case Nil
  then show ?case using call_result_nil by (intro exI [of _ "[]"]) (auto simp: call_result_nil)
next
  case (Cons i rest)
  have ep: "pl_eps p ! i = eps ! i" using Cons.prems(2) by simp
  have rest: "pl_eps (update_ep i f p) ! j = eps ! j" if "j \<in> set rest" for f j
    using that Cons.prems(1,2) by (metis distinct.simps(2) list.set_intros(2) update_ep_frames(5))
  have d: "distinct rest" using Cons.prems(1) by simp
  obtain reply w1 where ex: "exchange env (ep_url (eps ! i), payload) w = (reply, w1)"
    by (cases "exchange env (ep_url (eps ! i), payload) w")
  show ?case
  proof (cases "circuit_open (w_now w) (eps ! i)")
    case True
    then obtain hops where "call_result env ext payload eps rest w fallback r w' hops"
      using Cons.IH [OF d _ Cons.prems(3), of w] Cons.prems(2,4) ep by auto
    then show ?thesis using call_result_skip True by blast
  next
    case closed: False
    have go: "\<exists>hops. call_result env ext payload eps (i # rest) w fallback r w' hops"
      if "pool_call_loop env ext payload rest (update_ep i f p) w1 True err = (r, p', w')"
        "retryable (attempt ext (hr_outcome reply))"
        "Inl err = answer_of (pe_host_of env (ep_url (eps ! i))) (attempt ext (hr_outcome reply))"
      for f err
      using Cons.IH [OF d rest refl that(1)] call_result_step [OF ex closed that(2) _ that(3)]
      by (simp del: split_paired_Ex) blast
    have stop: ?thesis
      if "w' = w1" "\<not> retryable (attempt ext (hr_outcome reply)) \<or> hr_ctx_done reply"
        "r = answer_of (pe_host_of env (ep_url (eps ! i))) (attempt ext (hr_outcome reply))"
      using call_result_stop [OF ex closed that(2,3)] that(1) by blast
    note run = Cons.prems(4) closed ex ep
    show ?thesis
    proof (cases "attempt ext (hr_outcome reply)")
      case (AttemptFailure kind)
      then show ?thesis
      proof (cases "hr_ctx_done reply")
        case True
        with AttemptFailure run show ?thesis
          by (intro stop) (auto simp: Let_def answer_of_def)
      next
        case False
        with AttemptFailure run show ?thesis
          by (intro go) (auto simp: Let_def retryable_def answer_of_def)
      qed
    next
      case (AttemptNodeError code message)
      then show ?thesis
      proof (cases "provider_routing_error message")
        case True
        with AttemptNodeError run show ?thesis
          by (intro go) (auto simp: Let_def retryable_def answer_of_def)
      next
        case False
        with AttemptNodeError run show ?thesis
          by (intro stop) (auto simp: Let_def retryable_def answer_of_def)
      qed
    next
      case (AttemptResult result)
      with run show ?thesis by (intro stop) (auto simp: Let_def retryable_def answer_of_def)
    qed
  qed
qed

lemma pool_call_result:
  assumes "pool_inv p" "pool_call env ext method params p w = (r, p', w')"
  shows "\<exists>hops. call_result env ext (rpc_request_body method params) (pl_eps p)
     (snd (endpoints_for_call p)) w (circuit_open_error p) r w' hops"
proof (rule pool_call_loop_result)
  show "distinct (snd (endpoints_for_call p))" by (rule endpoints_for_call_order [OF assms(1)])
  show "pool_call_loop env ext (rpc_request_body method params) (snd (endpoints_for_call p))
      (fst (endpoints_for_call p)) w False (OtherError '''') = (r, p', w')"
    using assms(2) by (simp add: pool_call_def case_prod_beta)
qed (simp_all add: circuit_open_error_def)

lemma pool_inv_record [inv_intros]:
  assumes "pool_inv p" "i < length (pl_eps p)"
  shows "pool_inv (update_ep i (record_failure now l kind) p)"
    and "pool_inv (update_ep i (record_success l) p)"
  using assms by (auto intro: pool_inv_update inv_intros)

lemma pool_call_loop_inv:
  "\<lbrakk>pool_inv p; \<forall>i \<in> set order. i < length (pl_eps p);
    pool_call_loop env ext payload order p w att lerr = (r, p', w')\<rbrakk> \<Longrightarrow> pool_inv p'"
proof (induction order arbitrary: p w att lerr)
  case (Cons i rest)
  note inv = pool_inv_record [OF Cons.prems(1), of i]
  from Cons.prems(2) have i: "i < length (pl_eps p)" and rest: "\<forall>j \<in> set rest. j < length (pl_eps p)"
    by simp_all
  have go: "pool_inv p'"
    if "pool_call_loop env ext payload rest (update_ep i (record_failure now l kind) p) w1 a e
        = (r, p', w')" for now l kind w1 a e
    using Cons.IH [OF _ _ that] inv(1) [OF i] rest by simp
  have skip: "pool_inv p'" if "pool_call_loop env ext payload rest p w a e = (r, p', w')" for a e
    using Cons.IH [OF Cons.prems(1) rest that] .
  show ?case
    using Cons.prems(3) inv [OF i]
    by (auto simp: Let_def case_prod_beta split: attempt_result.splits if_splits
        dest: go skip)
qed simp

subsection \<open>A write\<close>

definition record_attempt :: "instant \<Rightarrow> duration \<Rightarrow> attempt_result \<Rightarrow> endpoint \<Rightarrow> endpoint" where
  "record_attempt now l r = (case r of
       AttemptFailure kind \<Rightarrow> record_failure now l kind
     | AttemptNodeError _ message \<Rightarrow>
         (if provider_routing_error message then record_failure now l FailureProvider
          else record_success l)
     | AttemptResult _ \<Rightarrow> record_success l)"

lemma pool_call_once_loop_find:
  "pool_call_once_loop env payload order p w =
     (case find (\<lambda>i. \<not> circuit_open (w_now w) (pl_eps p ! i)) order of
        None \<Rightarrow> (Inl (circuit_open_error p), p, w)
      | Some i \<Rightarrow>
          (let url = ep_url (pl_eps p ! i); (reply, w') = exchange env (url, payload) w;
               r = attempt False (hr_outcome reply)
           in (answer_of (pe_host_of env url) r,
               update_ep i (record_attempt (w_now w') (hr_elapsed reply) r) p, w')))"
proof (induction order)
  case (Cons i rest)
  then show ?case
    by (auto simp: Let_def case_prod_beta record_attempt_def answer_of_def
        split: attempt_result.splits)
qed simp

lemma pool_call_once_sends:
  assumes "pool_call_once env method params p w = (r, p', w')"
  shows "(w_sent w' = w_sent w \<and> r = Inl (circuit_open_error p) \<and>
          (\<forall>i \<in> set (snd (endpoints_for_call p)). circuit_open (w_now w) (pl_eps p ! i))) \<or>
         (\<exists>i \<in> set (snd (endpoints_for_call p)).
            \<not> circuit_open (w_now w) (pl_eps p ! i) \<and>
            w_sent w' = w_sent w @ [(ep_url (pl_eps p ! i), rpc_request_body method params)])"
  using assms
  by (auto simp: pool_call_once_def pool_call_once_loop_find case_prod_beta Let_def exchange_def
      circuit_open_error_def find_None_iff find_Some_iff split: option.splits)

lemma pool_call_once_at_most_one:
  "pool_call_once env method params p w = (r, p', w') \<Longrightarrow>
   length (w_sent w') \<le> length (w_sent w) + 1"
  by (drule pool_call_once_sends) auto

lemma pool_inv_call_once:
  assumes "pool_inv p" "pool_call_once env method params p w = (r, p', w')"
  shows "pool_inv p'"
proof -
  have "pool_inv (fst (endpoints_for_call p))" using assms(1) by (rule pool_inv_endpoints_for_call)
  moreover have "endpoint_inv (record_attempt now l x e)" if "endpoint_inv e" for now l x e
    using that by (auto simp: record_attempt_def intro: inv_intros split: attempt_result.splits)
  moreover have "\<forall>i \<in> set (snd (endpoints_for_call p)). i < length (pl_eps p)"
    using endpoints_for_call_order(2) [OF assms(1)] by auto
  ultimately show ?thesis
    using assms(2)
    by (auto simp: pool_call_once_def pool_call_once_loop_find case_prod_beta Let_def
        find_Some_iff split: option.splits intro!: pool_inv_update)
qed

lemma pool_inv_call:
  assumes "pool_inv p" "pool_call env ext method params p w = (r, p', w')"
  shows "pool_inv p'"
  using assms endpoints_for_call_order(2) [OF assms(1)] pool_inv_endpoints_for_call [OF assms(1)]
  by (auto simp: pool_call_def case_prod_beta elim!: pool_call_loop_inv [rotated 2])

subsection \<open>Aggregated health\<close>

lemma fold_add_counts:
  "counts_total (fold (\<lambda>ep m. add_counts m (ep_failure_counts ep)) eps m) =
     counts_total m + sum_list (map (\<lambda>e. counts_total (ep_failure_counts e)) eps)"
  by (induction eps arbitrary: m) (simp_all add: algebra_simps)

lemma pool_health_failures:
  assumes "pool_inv p"
  shows "ph_failures (pool_health now p) = counts_total (ph_failure_metrics (pool_health now p))"
proof -
  have "sum_list (map (\<lambda>e. counts_total (ep_failure_counts e)) (pl_eps p)) =
      sum_list (map ep_failures (pl_eps p))"
    using assms by (simp add: pool_inv_def endpoint_inv_def cong: map_cong)
  then show ?thesis
    by (simp add: pool_health_def Let_def case_prod_beta fold_add_counts)
qed

lemma sort_eq_nil: "sort xs = [] \<longleftrightarrow> xs = []"
  by (metis length_0_conv length_sort)

lemma latency_percentiles_order:
  "latency_percentiles samples = (p50, p95) \<Longrightarrow> p50 \<le> p95"
  by (auto simp: latency_percentiles_def Let_def sort_eq_nil intro!: nearest_rank_mono split: if_splits)

lemma latency_percentiles_spec:
  assumes "samples \<noteq> []" "latency_percentiles samples = (p50, p95)"
  shows "p50 \<in> set samples" "p95 \<in> set samples"
    and "length samples \<le> 2 * at_most samples p50"
    and "95 * length samples \<le> 100 * at_most samples p95"
    and "q < p50 \<Longrightarrow> 2 * at_most samples q < length samples"
    and "q < p95 \<Longrightarrow> 100 * at_most samples q < 95 * length samples"
proof -
  have p: "p50 = nearest_rank (sort samples) 50" "p95 = nearest_rank (sort samples) 95"
    using assms by (simp_all add: latency_percentiles_def Let_def)
  have s: "sorted (sort samples)" "sort samples \<noteq> []"
    using assms(1) by (simp_all add: sort_eq_nil)
  note spec = nearest_rank_spec [OF s]
  show "p50 \<in> set samples" using spec(1) [of 50] p(1) by simp
  show "p95 \<in> set samples" using spec(1) [of 95] p(2) by simp
  show "length samples \<le> 2 * at_most samples p50" using spec(2) [of 50] p(1) by simp
  show "95 * length samples \<le> 100 * at_most samples p95" using spec(2) [of 95] p(2) by simp
  show "2 * at_most samples q < length samples" if "q < p50"
    using spec(3) [of 50 q] that p(1) by simp
  show "100 * at_most samples q < 95 * length samples" if "q < p95"
    using spec(3) [of 95 q] that p(2) by simp
qed

lemma rotation_distinct: "0 < k \<Longrightarrow> distinct (map (\<lambda>i. (s + i) mod k) [0..<k])"
  by (simp add: rotation_conv)

subsection \<open>A pool whose providers answer\<close>

definition all_closed :: "pool \<Rightarrow> bool" where
  "all_closed p \<longleftrightarrow> pool_inv p \<and> pl_eps p \<noteq> [] \<and> (\<forall>e \<in> set (pl_eps p). ep_open_until e = None)"

lemma pool_call_answered:
  assumes answers: "\<And>w req. attempt ext (hr_outcome (pe_transport env w req)) = AttemptResult r"
    and p: "all_closed p"
  shows "\<exists>p' w'. pool_call env ext method params p w = (Inr r, p', w') \<and> all_closed p'"
proof -
  obtain q order where q: "endpoints_for_call p = (q, order)" by fastforce
  have set: "set order = {0..<length (pl_eps p)}" and eps: "pl_eps q = pl_eps p"
    using endpoints_for_call_order(2) [of p] endpoints_for_call_frames(1) [of p] p q
    by (auto simp: all_closed_def)
  have "order \<noteq> []" using set p by (cases order) (auto simp: all_closed_def)
  then obtain i rest where order: "order = i # rest" by (cases order) auto
  have i: "i < length (pl_eps p)" using set order by auto
  then have closed: "\<not> circuit_open t (pl_eps q ! i)" for t
    using p eps by (simp add: all_closed_def circuit_open_def)
  obtain reply w' where ex: "exchange env (ep_url (pl_eps q ! i), rpc_request_body method params) w = (reply, w')"
    by fastforce
  then have "attempt ext (hr_outcome reply) = AttemptResult r"
    using answers exchange_frames(1) by metis
  then have call: "pool_call env ext method params p w = (Inr r, update_ep i (record_success (hr_elapsed reply)) q, w')"
    using closed ex by (simp add: pool_call_def q order Let_def)
  have "pool_inv (update_ep i (record_success (hr_elapsed reply)) q)"
    using pool_inv_call [OF _ call] p by (simp add: all_closed_def)
  moreover have "ep_open_until (record_success l e) = None" for l e
    by (simp add: record_success_def record_frames)
  ultimately have "all_closed (update_ep i (record_success (hr_elapsed reply)) q)"
    using p eps by (auto simp: all_closed_def update_ep_def dest!: set_update_subset_insert [THEN subsetD])
  then show ?thesis using call by blast
qed

text \<open>
  An endpoint's circuit opens for 30 seconds with its third consecutive failure and not before,
  and one success closes it at once and forgets the failures.
\<close>

theorem circuit_opens_on_third_failure:
  "circuit_open t (record_failure now l kind e) =
     (if ep_fails e \<ge> 2 then t < now + 30000000000 else circuit_open t e) \<and>
   ep_fails (record_failure now l kind e) = ep_fails e + 1 \<and>
   \<not> circuit_open t (record_success l e) \<and> ep_fails (record_success l e) = 0"
  by (auto simp: circuit_open_record_failure fail_threshold_def open_duration_def seconds_def
      nanos_per_second_def)

text \<open>
  The ring buffer refines a sliding window: the samples read out after recording a latency are
  the last 256 of those before it and the new one (negative readings clamped to zero), oldest first.
\<close>

theorem latency_ring_is_sliding_window:
  assumes "window_inv e"
  shows "latencies (record_latency x e) = last_n 256 (latencies e @ [max x 0]) \<and>
    window_inv (record_latency x e)"
  using latencies_record [OF assms] window_inv_record_latency [OF assms]
  by (simp add: latency_window_size_def)

text \<open>
  The reported percentiles are nearest-rank percentiles: p50 and p95 are samples, at least half
  and at least 95 percent of the samples are at most that value, no smaller value has that many, and
  p50 does not exceed p95.
\<close>

theorem percentiles_are_nearest_rank:
  assumes "samples \<noteq> []" and "latency_percentiles samples = (p50, p95)"
  shows "p50 \<in> set samples \<and> p95 \<in> set samples \<and> p50 \<le> p95 \<and>
    length samples \<le> 2 * at_most samples p50 \<and> 95 * length samples \<le> 100 * at_most samples p95 \<and>
    (\<forall>q < p50. 2 * at_most samples q < length samples) \<and>
    (\<forall>q < p95. 100 * at_most samples q < 95 * length samples)"
  using latency_percentiles_spec [OF assms] latency_percentiles_order [OF assms(2)] by blast

end
