(* ===== verification/Breaker.thy ===== *)
theory Breaker
  imports Prelude
begin

section \<open>The contract of a half-open circuit breaker\<close>

text \<open>
  The gateway has two circuit breakers that let one probe through once their open window has
  passed: \<open>handlers/provider_circuit.go\<close> and the one inside \<open>cache/redis.go\<close>. Both hand out
  permits, both are told how a permitted call ended, and calls overlap: permits are outstanding
  in any number and come back in any order. The locale states what such a breaker promises and
  proves once what follows for every interleaving of its two operations; \<open>Provider_Circuit\<close> and
  \<open>Redis_Store\<close> interpret it on their own definitions.

  \<open>ok k out s\<close> relates the state \<open>s\<close> after \<open>k\<close> operations to the permits \<open>out\<close> still
  outstanding; \<open>used_for k\<close> bounds how many operations the breaker is used for, where its counters
  have a fixed width.
\<close>

datatype ('p, 'o) breaker_event = Admitted 'p | Refused | Finished 'p 'o

locale half_open_breaker =
  fixes allow :: "instant \<Rightarrow> 's \<Rightarrow> 's \<times> 'p option"
    and finish :: "instant \<Rightarrow> 'p \<Rightarrow> 'o \<Rightarrow> 's \<Rightarrow> 's"
    and is_probe :: "'p \<Rightarrow> bool"
    and probing :: "'s \<Rightarrow> bool"
    and opened :: "'s \<Rightarrow> instant option"
    and used_for :: "nat \<Rightarrow> bool"
    and ok :: "nat \<Rightarrow> 'p list \<Rightarrow> 's \<Rightarrow> bool"
  assumes refused_ok: "\<lbrakk>ok k out s; used_for (Suc k); allow now s = (s', None)\<rbrakk> \<Longrightarrow> ok (Suc k) out s'"
    and admitted_ok:
      "\<lbrakk>ok k out s; used_for (Suc k); allow now s = (s', Some p)\<rbrakk> \<Longrightarrow> ok (Suc k) (p # out) s'"
    and finish_ok:
      "\<lbrakk>ok k out s; used_for (Suc k); p \<in> set out\<rbrakk> \<Longrightarrow> ok (Suc k) (remove1 p out) (finish now p oc s)"
    and probes_ok: "ok k out s \<Longrightarrow> length (filter is_probe out) = (if probing s then 1 else 0)"
    and open_refuses: "opened s = Some t \<Longrightarrow> now < t \<or> probing s \<Longrightarrow> snd (allow now s) = None"
    and open_probes:
      "\<lbrakk>opened s = Some t; t \<le> now; \<not> probing s\<rbrakk> \<Longrightarrow>
       \<exists>p. snd (allow now s) = Some p \<and> is_probe p \<and> probing (fst (allow now s))"
    and closed_admits: "opened s = None \<Longrightarrow> \<exists>p. snd (allow now s) = Some p \<and> \<not> is_probe p"
    and within_down: "used_for (Suc k) \<Longrightarrow> used_for k"
begin

inductive breaker_run :: "'s \<Rightarrow> nat \<Rightarrow> ('p, 'o) breaker_event list \<Rightarrow> 'p list \<Rightarrow> 's \<Rightarrow> bool"
  for s0 :: 's where
  start: "breaker_run s0 0 [] [] s0"
| refused: "\<lbrakk>breaker_run s0 k es out s; allow now s = (s', None)\<rbrakk> \<Longrightarrow>
    breaker_run s0 (Suc k) (es @ [Refused]) out s'"
| admitted: "\<lbrakk>breaker_run s0 k es out s; allow now s = (s', Some p)\<rbrakk> \<Longrightarrow>
    breaker_run s0 (Suc k) (es @ [Admitted p]) (p # out) s'"
| finished: "\<lbrakk>breaker_run s0 k es out s; p \<in> set out\<rbrakk> \<Longrightarrow>
    breaker_run s0 (Suc k) (es @ [Finished p oc]) (remove1 p out) (finish now p oc s)"

lemma run_ok:
  assumes "breaker_run s0 k es out s" "ok 0 [] s0" "used_for k"
  shows "ok k out s"
  using assms(1,3)
  by (induction rule: breaker_run.induct)
    (auto intro: assms(2) refused_ok admitted_ok finish_ok dest: within_down)

text \<open>In every interleaving at most one probe is in flight, and while it is nothing is admitted.\<close>

lemma at_most_one_probe:
  assumes "breaker_run s0 k es out s" "ok 0 [] s0" "used_for k"
  shows "length (filter is_probe out) \<le> 1"
  using probes_ok [OF run_ok [OF assms]] by simp

lemma probe_excludes:
  assumes "breaker_run s0 k es out s" "ok 0 [] s0" "used_for k"
    and "p \<in> set out" "is_probe p" "opened s = Some t"
  shows "snd (allow now s) = None"
proof -
  have "filter is_probe out \<noteq> []" using assms(4,5) by (auto simp: filter_empty_conv)
  then have "probing s" using probes_ok [OF run_ok [OF assms(1-3)]] by (auto split: if_splits)
  then show ?thesis using open_refuses assms(6) by blast
qed

lemma no_probe_lost:
  assumes "breaker_run s0 k es out s" "ok 0 [] s0" "used_for k"
    and "opened s = Some t" "t \<le> now" "filter is_probe out = []"
  shows "\<exists>p. snd (allow now s) = Some p \<and> is_probe p"
proof -
  have "\<not> probing s" using probes_ok [OF run_ok [OF assms(1-3)]] assms(6) by (auto split: if_splits)
  then show ?thesis using open_probes assms(4,5) by blast
qed

end

end
