(* ===== verification/Provider_Circuit.thy ===== *)
theory Provider_Circuit
  imports Breaker
begin

section \<open>The circuit breaker of the security providers\<close>

text \<open>
  \<open>handlers/provider_circuit.go\<close>. A permit carries the generation of the circuit it was issued
  under; \<open>finish\<close> ignores a permit of another generation, so a success that began before a
  concurrent failure opened the circuit cannot close it. The generation is the code's \<open>uint64\<close>,
  which is why the contract holds for runs of fewer than \<open>2 ^ 64\<close> operations.
\<close>

definition external_provider_failure_threshold :: nat where
  "external_provider_failure_threshold = 3"
definition external_provider_open_duration :: duration where
  "external_provider_open_duration = seconds 30"

record provider_circuit =
  pc_failure_threshold :: nat
  pc_open_duration :: duration
  pc_consecutive_failures :: nat
  pc_open_until :: "instant option"
  pc_probe_in_flight :: bool
  pc_generation :: "64 word"
  pc_short_circuits :: "64 word"

record provider_permit =
  pp_generation :: "64 word"
  pp_probe :: bool

record provider_circuit_snapshot =
  ps_open :: bool
  ps_probe_in_flight :: bool
  ps_short_circuits :: "64 word"

definition new_provider_circuit :: provider_circuit where
  "new_provider_circuit =
     \<lparr>pc_failure_threshold = external_provider_failure_threshold,
      pc_open_duration = external_provider_open_duration, pc_consecutive_failures = 0,
      pc_open_until = None, pc_probe_in_flight = False, pc_generation = 0, pc_short_circuits = 0\<rparr>"

definition circuit_allow :: "instant \<Rightarrow> provider_circuit \<Rightarrow> provider_circuit \<times> provider_permit option" where
  "circuit_allow now c =
     (case pc_open_until c of
        None \<Rightarrow> (c, Some \<lparr>pp_generation = pc_generation c, pp_probe = False\<rparr>)
      | Some open_until \<Rightarrow>
          if now < open_until \<or> pc_probe_in_flight c
          then (c\<lparr>pc_short_circuits := pc_short_circuits c + 1\<rparr>, None)
          else (c\<lparr>pc_probe_in_flight := True\<rparr>,
                Some \<lparr>pp_generation = pc_generation c, pp_probe = True\<rparr>))"

text \<open>\<open>finish\<close>'s outcome is the pair of its flags \<open>succeeded\<close> and \<open>countFailure\<close>.\<close>

definition circuit_finish ::
  "instant \<Rightarrow> provider_permit \<Rightarrow> bool \<times> bool \<Rightarrow> provider_circuit \<Rightarrow> provider_circuit" where
  "circuit_finish now permit oc c =
     (let (succeeded, count_failure) = oc in
      if pp_generation permit \<noteq> pc_generation c then c
      else if \<not> succeeded \<and> \<not> count_failure then
        (if pp_probe permit then c\<lparr>pc_probe_in_flight := False\<rparr> else c)
      else if succeeded then
        (let c = c\<lparr>pc_consecutive_failures := 0, pc_open_until := None, pc_probe_in_flight := False\<rparr>
         in if pp_probe permit then c\<lparr>pc_generation := pc_generation c + 1\<rparr> else c)
      else if pp_probe permit then
        c\<lparr>pc_consecutive_failures := pc_failure_threshold c,
          pc_open_until := Some (now + pc_open_duration c),
          pc_probe_in_flight := False, pc_generation := pc_generation c + 1\<rparr>
      else
        (let c = c\<lparr>pc_consecutive_failures := pc_consecutive_failures c + 1\<rparr>
         in if pc_consecutive_failures c \<ge> pc_failure_threshold c
            then c\<lparr>pc_open_until := Some (now + pc_open_duration c),
                   pc_probe_in_flight := False, pc_generation := pc_generation c + 1\<rparr>
            else c))"

definition circuit_snapshot :: "provider_circuit \<Rightarrow> provider_circuit_snapshot" where
  "circuit_snapshot c =
     \<lparr>ps_open = (pc_open_until c \<noteq> None), ps_probe_in_flight = pc_probe_in_flight c,
      ps_short_circuits = pc_short_circuits c\<rparr>"

subsection \<open>The contract\<close>

text \<open>
  After \<open>k\<close> operations the generation is some \<open>n \<le> k\<close>, every outstanding permit has a generation
  up to \<open>n\<close>, an open circuit's own generation belongs to no ordinary permit, and the probe in
  flight, if any, is the one outstanding probe and has the current generation.
\<close>

definition generation_upto :: "nat \<Rightarrow> provider_permit \<Rightarrow> bool" where
  "generation_upto n p \<longleftrightarrow> (\<exists>m \<le> n. pp_generation p = of_nat m)"

definition current :: "provider_circuit \<Rightarrow> provider_permit \<Rightarrow> bool" where
  "current c p \<longleftrightarrow> pp_generation p = pc_generation c"

definition generations_ok :: "nat \<Rightarrow> provider_permit list \<Rightarrow> provider_circuit \<Rightarrow> bool" where
  "generations_ok k out c \<longleftrightarrow>
     (\<exists>n \<le> k. pc_generation c = of_nat n \<and> (\<forall>p \<in> set out. generation_upto n p))"

definition circuit_ok :: "nat \<Rightarrow> provider_permit list \<Rightarrow> provider_circuit \<Rightarrow> bool" where
  "circuit_ok k out c \<longleftrightarrow>
     generations_ok k out c \<and>
     (\<forall>p \<in> set out. pp_probe p \<longrightarrow> current c p) \<and>
     length (filter pp_probe out) = (if pc_probe_in_flight c then 1 else 0) \<and>
     (pc_open_until c \<noteq> None \<longrightarrow> (\<forall>p \<in> set out. \<not> pp_probe p \<longrightarrow> \<not> current c p)) \<and>
     (pc_open_until c = None \<longrightarrow> \<not> pc_probe_in_flight c)"

lemma generation_upto_mono: "generation_upto n p \<Longrightarrow> n \<le> m \<Longrightarrow> generation_upto m p"
  unfolding generation_upto_def by (meson le_trans)

lemma generation_upto_neq:
  assumes "generation_upto n p" "Suc n < 2 ^ 64"
  shows "pp_generation p \<noteq> of_nat n + 1"
proof -
  obtain m where m: "m \<le> n" "pp_generation p = of_nat m"
    using assms(1) by (auto simp: generation_upto_def)
  have "(of_nat m :: 64 word) \<noteq> of_nat (Suc n)"
    using m(1) assms(2) by (subst word_of_nat_eq_iff) (simp add: take_bit_nat_eq_self)
  then show ?thesis using m(2) by (simp add: add.commute)
qed

lemma circuit_ok_new: "circuit_ok 0 [] new_provider_circuit"
  by (simp add: circuit_ok_def generations_ok_def new_provider_circuit_def)

lemma generations_ok_step:
  "\<lbrakk>generations_ok k out c; set rest \<subseteq> set out; pc_generation c' = pc_generation c\<rbrakk> \<Longrightarrow>
   generations_ok (Suc k) rest c'"
  unfolding generations_ok_def by (metis le_SucI subset_iff)

lemma generations_ok_issue:
  assumes "generations_ok k out c" "pp_generation p = pc_generation c"
    and "pc_generation c' = pc_generation c"
  shows "generations_ok (Suc k) (p # out) c'"
proof -
  obtain n where n: "n \<le> k" "pc_generation c = of_nat n" "\<forall>p \<in> set out. generation_upto n p"
    using assms(1) by (auto simp: generations_ok_def)
  then have "generation_upto n p" using assms(2) by (auto simp: generation_upto_def)
  then have "\<forall>q \<in> set (p # out). generation_upto n q" using n(3) by simp
  then show ?thesis
    unfolding generations_ok_def using n(1,2) assms(3) by (metis le_SucI)
qed

lemma circuit_refused_ok:
  assumes "circuit_ok k out c" "circuit_allow now c = (c', None)"
  shows "circuit_ok (Suc k) out c'"
proof -
  have c': "c' = c\<lparr>pc_short_circuits := pc_short_circuits c + 1\<rparr>"
    using assms(2) by (auto simp: circuit_allow_def split: option.splits if_splits)
  then show ?thesis
    using assms(1) generations_ok_step [of k out c out c'] by (auto simp: circuit_ok_def current_def)
qed

lemma circuit_admitted_cases:
  assumes "circuit_allow now c = (c', Some p)"
  obtains (ordinary) "pc_open_until c = None" "c' = c" "pp_generation p = pc_generation c" "\<not> pp_probe p"
  | (probe) t where "pc_open_until c = Some t" "t \<le> now" "\<not> pc_probe_in_flight c"
      "c' = c\<lparr>pc_probe_in_flight := True\<rparr>" "pp_generation p = pc_generation c" "pp_probe p"
  using assms by (auto simp: circuit_allow_def split: option.splits if_splits)

lemma circuit_admitted_ok:
  assumes "circuit_ok k out c" "circuit_allow now c = (c', Some p)"
  shows "circuit_ok (Suc k) (p # out) c'"
  using assms(2)
proof (cases rule: circuit_admitted_cases)
  case ordinary
  then have "generations_ok (Suc k) (p # out) c'"
    using assms(1) by (intro generations_ok_issue [of k out c]) (simp_all add: circuit_ok_def)
  then show ?thesis using assms(1) ordinary by (simp add: circuit_ok_def)
next
  case probe
  then have "generations_ok (Suc k) (p # out) c'"
    using assms(1) by (intro generations_ok_issue [of k out c]) (simp_all add: circuit_ok_def)
  then show ?thesis using assms(1) probe by (simp add: circuit_ok_def current_def)
qed

lemma probe_unique:
  assumes "circuit_ok k out c" "p \<in> set out" "pp_probe p"
  shows "pc_probe_in_flight c" "filter pp_probe (remove1 p out) = []"
proof -
  have "p \<in> set (filter pp_probe out)" using assms(2,3) by simp
  moreover have len: "length (filter pp_probe out) = (if pc_probe_in_flight c then 1 else 0)"
    using assms(1) by (simp add: circuit_ok_def)
  ultimately show "pc_probe_in_flight c" by (metis empty_iff length_0_conv list.set(1))
  then have "filter pp_probe out = [p]"
    using len \<open>p \<in> set (filter pp_probe out)\<close> by (cases "filter pp_probe out") auto
  then show "filter pp_probe (remove1 p out) = []" by (simp add: filter_remove1)
qed

lemma length_filter_remove1_not: "\<not> P p \<Longrightarrow> length (filter P (remove1 p out)) = length (filter P out)"
  by (simp add: filter_remove1 remove1_idem)

text \<open>Opening or closing under a new generation leaves only permits of earlier ones behind.\<close>

lemma circuit_ok_new_generation:
  assumes ok: "circuit_ok k out c" and lt: "Suc k < 2 ^ 64"
    and rest: "set rest \<subseteq> set out" "filter pp_probe rest = []"
    and c': "pc_generation c' = pc_generation c + 1" "\<not> pc_probe_in_flight c'"
  shows "circuit_ok (Suc k) rest c'"
proof -
  obtain n where n: "n \<le> k" "pc_generation c = of_nat n" "\<forall>p \<in> set out. generation_upto n p"
    using ok by (auto simp: circuit_ok_def generations_ok_def)
  have "Suc n < 2 ^ 64" using n(1) lt by simp
  then have stale: "\<forall>p \<in> set rest. \<not> current c' p"
    using generation_upto_neq [of n] n(2,3) rest(1) c'(1) by (auto simp: current_def)
  have "Suc n \<le> Suc k" "pc_generation c' = of_nat (Suc n)" using n c'(1) by simp_all
  moreover have "\<forall>p \<in> set rest. generation_upto (Suc n) p"
    using n(3) rest(1) generation_upto_mono [of n _ "Suc n"] by auto
  ultimately have "generations_ok (Suc k) rest c'"
    unfolding generations_ok_def by blast
  then show ?thesis
    using stale rest(2) c'(2) by (auto simp: circuit_ok_def filter_empty_conv)
qed

lemma circuit_ok_same_generation:
  assumes ok: "circuit_ok k out c"
    and rest: "set rest \<subseteq> set out"
      "length (filter pp_probe rest) = (if pc_probe_in_flight c' then 1 else 0)"
    and c': "pc_generation c' = pc_generation c" "pc_open_until c' = pc_open_until c"
      "pc_probe_in_flight c' \<longrightarrow> pc_probe_in_flight c"
  shows "circuit_ok (Suc k) rest c'"
proof -
  have "generations_ok (Suc k) rest c'"
    using ok by (intro generations_ok_step [OF _ rest(1) c'(1)]) (simp add: circuit_ok_def)
  then show ?thesis using assms by (auto simp: circuit_ok_def current_def subset_iff)
qed

lemma circuit_finish_ok:
  assumes ok: "circuit_ok k out c" and lt: "Suc k < 2 ^ 64" and p: "p \<in> set out"
  shows "circuit_ok (Suc k) (remove1 p out) (circuit_finish now p oc c)"
proof -
  let ?rest = "remove1 p out"
  have sub: "set ?rest \<subseteq> set out" by (rule set_remove1_subset)
  have len: "length (filter pp_probe out) = (if pc_probe_in_flight c then 1 else 0)"
    and probe_current: "pp_probe p \<Longrightarrow> current c p"
    and closed: "pc_open_until c = None \<Longrightarrow> \<not> pc_probe_in_flight c"
    and open_probe: "\<lbrakk>current c p; \<not> pp_probe p\<rbrakk> \<Longrightarrow> pc_open_until c = None"
    using ok p by (auto simp: circuit_ok_def)
  have ordinary: "circuit_ok (Suc k) ?rest c'"
    if "\<not> pp_probe p" "pc_generation c' = pc_generation c" "pc_open_until c' = pc_open_until c"
      "pc_probe_in_flight c' = pc_probe_in_flight c" for c'
    using that len by (intro circuit_ok_same_generation [OF ok sub]) (simp_all add: length_filter_remove1_not)
  have probe: "filter pp_probe ?rest = []" if "pp_probe p"
    using probe_unique(2) [OF ok p that] .
  have none: "filter pp_probe ?rest = []" if "\<not> pp_probe p" "\<not> pc_probe_in_flight c"
    using that len by (simp add: filter_remove1)
  note gen = circuit_ok_new_generation [OF ok lt sub]
  consider "\<not> current c p" | "current c p" "pp_probe p" | "current c p" "\<not> pp_probe p" by blast
  then show ?thesis
  proof cases
    case 1
    then have "circuit_finish now p oc c = c"
      by (auto simp: circuit_finish_def current_def split: prod.splits)
    then show ?thesis using ordinary [of c] probe_current 1 by auto
  next
    case 2
    then show ?thesis
      using probe by (auto simp: circuit_finish_def current_def Let_def split: prod.splits
          intro: gen circuit_ok_same_generation [OF ok sub])
  next
    case 3
    then have "pc_open_until c = None" by (rule open_probe)
    moreover from this have "\<not> pc_probe_in_flight c" by (rule closed)
    ultimately show ?thesis
      using 3 none by (auto simp: circuit_finish_def current_def Let_def split: prod.splits
          intro: gen ordinary)
  qed
qed

lemma circuit_ok_probes:
  "circuit_ok k out c \<Longrightarrow> length (filter pp_probe out) = (if pc_probe_in_flight c then 1 else 0)"
  by (simp add: circuit_ok_def)

interpretation provider: half_open_breaker circuit_allow circuit_finish pp_probe
  pc_probe_in_flight pc_open_until "\<lambda>k. k < 2 ^ 64" circuit_ok
proof unfold_locales
  show "circuit_ok (Suc k) (remove1 p out) (circuit_finish now p oc s)"
    if "circuit_ok k out s" "Suc k < 2 ^ 64" "p \<in> set out" for k out s p now oc
    using that by (rule circuit_finish_ok)
  show "\<exists>p. snd (circuit_allow now s) = Some p \<and> pp_probe p \<and> pc_probe_in_flight (fst (circuit_allow now s))"
    if "pc_open_until s = Some t" "t \<le> now" "\<not> pc_probe_in_flight s" for s t now
    using that by (simp add: circuit_allow_def)
  show "snd (circuit_allow now s) = None"
    if "pc_open_until s = Some t" "now < t \<or> pc_probe_in_flight s" for s t now
    using that by (auto simp: circuit_allow_def)
  show "\<exists>p. snd (circuit_allow now s) = Some p \<and> \<not> pp_probe p"
    if "pc_open_until s = None" for s now
    using that by (simp add: circuit_allow_def)
qed (erule circuit_refused_ok circuit_admitted_ok circuit_ok_probes; assumption | simp)+

subsection \<open>When the circuit opens\<close>

lemma circuit_finish_stale [simp]:
  "pp_generation p \<noteq> pc_generation c \<Longrightarrow> circuit_finish now p oc c = c"
  by (simp add: circuit_finish_def split: prod.splits)

lemma circuit_finish_abandoned:
  "pc_open_until (circuit_finish now p (False, False) c) = pc_open_until c"
  "pc_consecutive_failures (circuit_finish now p (False, False) c) = pc_consecutive_failures c"
  by (simp_all add: circuit_finish_def)

text \<open>A failed probe reopens the circuit for the full window, whatever failed before.\<close>

lemma circuit_finish_probe_failure:
  "\<lbrakk>pp_probe p; pp_generation p = pc_generation c\<rbrakk> \<Longrightarrow>
   pc_open_until (circuit_finish now p (False, True) c) = Some (now + pc_open_duration c)"
  by (simp add: circuit_finish_def)

lemma circuit_finish_failures:
  assumes "pc_failure_threshold c = external_provider_failure_threshold"
    and "pp_generation p = pc_generation c" "\<not> pp_probe p"
  shows "pc_open_until (circuit_finish now p (False, True) c) =
     (if pc_consecutive_failures c + 1 \<ge> external_provider_failure_threshold
      then Some (now + pc_open_duration c) else pc_open_until c)"
  using assms by (simp add: circuit_finish_def Let_def)

subsection \<open>A provider that keeps failing\<close>

text \<open>The circuit after \<open>n\<close> calls at time 0, one after the other, each of which failed.\<close>

definition after_failures :: "nat \<Rightarrow> provider_circuit" where
  "after_failures n =
     ((\<lambda>c. let (c', p) = circuit_allow 0 c in
        case p of None \<Rightarrow> c' | Some p \<Rightarrow> circuit_finish 0 p (False, True) c') ^^ n) new_provider_circuit"

lemma after_failures_run:
  "\<exists>k es. k \<le> 2 * n \<and> provider.breaker_run new_provider_circuit k es [] (after_failures n)"
proof (induction n)
  case 0
  then show ?case using provider.breaker_run.start by (auto simp: after_failures_def)
next
  case (Suc n)
  then obtain k es where k: "k \<le> 2 * n"
    and run: "provider.breaker_run new_provider_circuit k es [] (after_failures n)" by blast
  obtain c p where cp: "circuit_allow 0 (after_failures n) = (c, p)" by fastforce
  have next_state: "after_failures (Suc n) = (case p of None \<Rightarrow> c | Some p \<Rightarrow> circuit_finish 0 p (False, True) c)"
    using cp by (simp add: after_failures_def)
  show ?case
  proof (cases p)
    case None
    have "provider.breaker_run new_provider_circuit (Suc k) (es @ [Refused]) [] c"
      using provider.breaker_run.refused [OF run] cp None by simp
    then show ?thesis using None k next_state by (intro exI [of _ "Suc k"]) auto
  next
    case (Some q)
    have "provider.breaker_run new_provider_circuit (Suc k) (es @ [Admitted q]) [q] c"
      using provider.breaker_run.admitted [OF run] cp Some by simp
    from provider.breaker_run.finished [OF this, where p = q and now = 0 and oc = "(False, True)"]
    show ?thesis using Some k next_state by (intro exI [of _ "Suc (Suc k)"]) auto
  qed
qed

text \<open>
  A provider that has recovered is found again: once the open window has passed and no probe is
  in flight, the next caller is admitted as the probe, in every interleaving; no outcome, not even
  an abandoned probe, can leave the circuit refusing for ever.
\<close>

theorem provider_recovery_is_probed:
  assumes "provider.breaker_run new_provider_circuit k es out c" and "k < 2 ^ 64"
    and "pc_open_until c = Some t" and "t \<le> now" and "filter pp_probe out = []"
  shows "\<exists>p. snd (circuit_allow now c) = Some p \<and> pp_probe p"
  using provider.no_probe_lost [OF assms(1) circuit_ok_new assms(2-5)] .

end
