(* ===== verification/Redis_Store.thy ===== *)
theory Redis_Store
  imports Breaker
begin

section \<open>The Redis adapter of the shared store\<close>

text \<open>
  \<open>cache/redis.go\<close>: a circuit around the go-redis client. The client itself is not in the
  repository; each operation takes what the client would answer (\<open>client\<close>), which is used only
  if the circuit lets the operation through, and the clock readings before and after it.
  URLs are parsed by \<open>net/url\<close> and by go-redis: \<open>new_redis_store\<close> takes the scheme and host
  the first found and whether the second accepted.
\<close>

datatype redis_error = RedisNil | ContextCanceled | ContextDeadlineExceeded | RedisFailure string

datatype store_error = ErrNotFound | ErrCircuitOpen | ErrRedis redis_error

definition redis_failure_cooldown :: duration where "redis_failure_cooldown = seconds 5"

record redis_store =
  rs_open_until :: "instant option"
  rs_half_open_probe :: bool
  rs_cooldown :: duration

definition redis_store_init :: "duration \<Rightarrow> redis_store" where
  "redis_store_init cooldown =
     \<lparr>rs_open_until = None, rs_half_open_probe = False,
      rs_cooldown = (if cooldown \<le> 0 then redis_failure_cooldown else cooldown)\<rparr>"

definition is_loopback_host :: "string \<Rightarrow> bool" where
  "is_loopback_host host = (to_lower host \<in> {''localhost'', ''127.0.0.1'', ''::1''})"

definition new_redis_store :: "(string \<times> string) option \<Rightarrow> bool \<Rightarrow> string + redis_store" where
  "new_redis_store parsed client_accepts =
     (case parsed of
        None \<Rightarrow> Inl ''invalid redis URL''
      | Some (scheme, hostname) \<Rightarrow>
          if scheme = ''redis'' \<and> \<not> is_loopback_host hostname
          then Inl ''remote shared cache must use rediss TLS''
          else if scheme \<noteq> ''redis'' \<and> scheme \<noteq> ''rediss''
          then Inl ''redis URL must use redis or rediss''
          else if \<not> client_accepts then Inl ''invalid redis URL''
          else Inr (redis_store_init redis_failure_cooldown))"

subsection \<open>The circuit\<close>

definition begin_operation :: "instant \<Rightarrow> redis_store \<Rightarrow> redis_store \<times> bool option" where
  "begin_operation now s =
     (case rs_open_until s of
        None \<Rightarrow> (s, Some False)
      | Some open_until \<Rightarrow>
          if now < open_until \<or> rs_half_open_probe s then (s, None)
          else (s\<lparr>rs_half_open_probe := True\<rparr>, Some True))"

definition finish_operation :: "instant \<Rightarrow> bool \<Rightarrow> redis_error option \<Rightarrow> redis_store \<Rightarrow> redis_store" where
  "finish_operation now probe err s =
     (let s = (if probe then s\<lparr>rs_half_open_probe := False\<rparr> else s) in
      case err of
        Some ContextCanceled \<Rightarrow> s
      | Some ContextDeadlineExceeded \<Rightarrow> s
      | None \<Rightarrow> (if probe then s\<lparr>rs_open_until := None\<rparr> else s)
      | Some _ \<Rightarrow> s\<lparr>rs_open_until := Some (now + rs_cooldown s)\<rparr>)"

subsection \<open>Operations\<close>

text \<open>Bytes the store returns are a \<open>string\<close>; an operation without a result returns \<open>()\<close>.\<close>

definition redis_operation ::
  "instant \<Rightarrow> instant \<Rightarrow> redis_error + 'a \<Rightarrow> redis_store \<Rightarrow> redis_store \<times> (store_error + 'a)" where
  "redis_operation before after client s =
     (case begin_operation before s of
        (s, None) \<Rightarrow> (s, Inl ErrCircuitOpen)
      | (s, Some probe) \<Rightarrow>
          (case client of
             Inl e \<Rightarrow> (finish_operation after probe (Some e) s, Inl (ErrRedis e))
           | Inr r \<Rightarrow> (finish_operation after probe None s, Inr r)))"

definition redis_ping ::
  "instant \<Rightarrow> instant \<Rightarrow> redis_error + unit \<Rightarrow> redis_store \<Rightarrow> redis_store \<times> (store_error + unit)" where
  "redis_ping before after client s = redis_operation before after client s"

definition redis_get ::
  "instant \<Rightarrow> instant \<Rightarrow> redis_error + string \<Rightarrow> redis_store \<Rightarrow> redis_store \<times> (store_error + string)" where
  "redis_get before after client s =
     (case begin_operation before s of
        (s, None) \<Rightarrow> (s, Inl ErrCircuitOpen)
      | (s, Some probe) \<Rightarrow>
          (case client of
             Inl RedisNil \<Rightarrow> (finish_operation after probe None s, Inl ErrNotFound)
           | Inl e \<Rightarrow> (finish_operation after probe (Some e) s, Inl (ErrRedis e))
           | Inr raw \<Rightarrow> (finish_operation after probe None s, Inr raw)))"

definition redis_set ::
  "instant \<Rightarrow> instant \<Rightarrow> redis_error + unit \<Rightarrow> redis_store \<Rightarrow> redis_store \<times> (store_error + unit)" where
  "redis_set before after client s = redis_operation before after client s"

definition redis_setnx ::
  "instant \<Rightarrow> instant \<Rightarrow> redis_error + bool \<Rightarrow> redis_store \<Rightarrow> redis_store \<times> (store_error + bool)" where
  "redis_setnx before after client s = redis_operation before after client s"

text \<open>The start-up check that broadcast claims are never evicted; \<open>config\<close> is \<open>CONFIG GET\<close>'s answer.\<close>

definition validate_broadcast_retention :: "redis_error + (string \<rightharpoonup> string) \<Rightarrow> string option" where
  "validate_broadcast_retention config =
     (case config of
        Inl _ \<Rightarrow> Some ''cannot verify broadcast Redis retention: require CONFIG GET permission for maxmemory-policy''
      | Inr policy \<Rightarrow>
          if policy ''maxmemory-policy'' \<noteq> Some ''noeviction''
          then Some ''broadcast Redis requires maxmemory-policy=noeviction; use a dedicated BROADCAST_REDIS_URL or migrate the shared Redis''
          else None)"

subsection \<open>The contract\<close>

definition redis_ok :: "nat \<Rightarrow> bool list \<Rightarrow> redis_store \<Rightarrow> bool" where
  "redis_ok k out s \<longleftrightarrow>
     length (filter (\<lambda>probe. probe) out) = (if rs_half_open_probe s then 1 else 0) \<and>
     (rs_half_open_probe s \<longrightarrow> rs_open_until s \<noteq> None)"

lemma redis_ok_init: "redis_ok 0 [] (redis_store_init c)"
  by (simp add: redis_ok_def redis_store_init_def)

lemma begin_operation_cases:
  assumes "begin_operation now s = (s', Some probe)"
  obtains (ordinary) "rs_open_until s = None" "s' = s" "\<not> probe"
  | (probe) t where "rs_open_until s = Some t" "t \<le> now" "\<not> rs_half_open_probe s"
      "s' = s\<lparr>rs_half_open_probe := True\<rparr>" "probe"
  using assms by (auto simp: begin_operation_def split: option.splits if_splits)

lemma finish_operation_frames [simp]:
  "rs_half_open_probe (finish_operation now probe err s) = (rs_half_open_probe s \<and> \<not> probe)"
  "rs_cooldown (finish_operation now probe err s) = rs_cooldown s"
  by (auto simp: finish_operation_def Let_def split: option.splits redis_error.splits)

lemma finish_operation_open:
  "rs_open_until (finish_operation now probe err s) =
     (case err of None \<Rightarrow> if probe then None else rs_open_until s
      | Some e \<Rightarrow> if e \<in> {ContextCanceled, ContextDeadlineExceeded} then rs_open_until s
                  else Some (now + rs_cooldown s))"
  by (auto simp: finish_operation_def Let_def split: option.splits redis_error.splits)

lemma redis_finish_ok:
  assumes "redis_ok k out s" "p \<in> set out"
  shows "redis_ok (Suc k) (remove1 p out) (finish_operation now p err s)"
proof (cases p)
  case True
  then have "True \<in> set (filter (\<lambda>b. b) out)" using assms(2) by simp
  then have "rs_half_open_probe s" "length (filter (\<lambda>b. b) out) = 1"
    using assms(1) by (auto simp: redis_ok_def filter_empty_conv split: if_splits)
  then show ?thesis
    using True \<open>True \<in> set (filter (\<lambda>b. b) out)\<close>
    by (auto simp: redis_ok_def filter_remove1 length_remove1)
next
  case False
  then have "filter (\<lambda>b. b) (remove1 p out) = filter (\<lambda>b. b) out"
    by (simp add: filter_remove1 remove1_idem)
  then show ?thesis
    using assms(1) False by (auto simp: redis_ok_def finish_operation_open split: option.splits)
qed

interpretation redis: half_open_breaker begin_operation finish_operation "\<lambda>probe. probe"
  rs_half_open_probe rs_open_until "\<lambda>_. True" redis_ok
proof unfold_locales
  show "redis_ok (Suc k) out s'" if "redis_ok k out s" "begin_operation now s = (s', None)"
    for k out s now s'
    using that by (auto simp: begin_operation_def redis_ok_def split: option.splits if_splits)
  show "redis_ok (Suc k) (p # out) s'" if "redis_ok k out s" "begin_operation now s = (s', Some p)"
    for k out s now s' p
    using that(2) that(1) by (cases rule: begin_operation_cases) (auto simp: redis_ok_def)
  show "redis_ok (Suc k) (remove1 p out) (finish_operation now p oc s)"
    if "redis_ok k out s" "p \<in> set out" for k out s now p oc
    using that by (rule redis_finish_ok)
qed (auto simp: begin_operation_def redis_ok_def)

subsection \<open>Claims through an unhealthy store\<close>

text \<open>
  An operation reports success only with what the client answered, and a claim (\<open>SetNX\<close>) that
  the circuit refused is an error, never \<open>created\<close>.
\<close>

lemma redis_operation_result:
  "snd (redis_operation before after client s) =
     (if snd (begin_operation before s) = None then Inl ErrCircuitOpen
      else case client of Inl e \<Rightarrow> Inl (ErrRedis e) | Inr r \<Rightarrow> Inr r)"
  by (auto simp: redis_operation_def split: prod.splits option.splits sum.splits)

lemma redis_setnx_created:
  "snd (redis_setnx before after client s) = Inr b \<Longrightarrow> client = Inr b"
  by (auto simp: redis_setnx_def redis_operation_result split: if_splits sum.splits)

text \<open>
  The Redis adapter's circuit admits one recovery probe at a time in every interleaving, and
  while it is open and being probed, or still cooling down, every operation is refused without
  touching Redis.
\<close>

theorem redis_admits_one_probe:
  assumes "redis.breaker_run (redis_store_init cooldown) k es out s"
  shows "length (filter (\<lambda>probe. probe) out) \<le> 1 \<and>
    (True \<in> set out \<longrightarrow> rs_open_until s \<noteq> None \<longrightarrow> snd (begin_operation now s) = None)"
proof -
  note run = assms redis_ok_init TrueI
  show ?thesis
    using redis.at_most_one_probe [OF run] redis.probe_excludes [OF run, of True] by fastforce
qed

text \<open>
  A claim is created only by Redis: whatever the circuit's state, \<open>SetNX\<close> reports a claim only
  if the client was really asked and answered so; a refused or failed operation is always an error.
\<close>

theorem setnx_result_is_the_clients:
  "snd (redis_setnx before after client s) =
     (if snd (begin_operation before s) = None then Inl ErrCircuitOpen
      else case client of Inl e \<Rightarrow> Inl (ErrRedis e) | Inr created \<Rightarrow> Inr created)"
  by (simp add: redis_setnx_def redis_operation_result)

end
