(* ===== verification/Cache.thy ===== *)
theory Cache
  imports Schema Redis_Store "HOL-Library.AList"
begin

section \<open>The read cache\<close>

text \<open>
  \<open>cache/cache.go\<close>: a process-local map with a TTL in front of an optional shared store. A
  value of the shared layer travels as \<open>sharedRecord\<close>, JSON with its expiry in milliseconds;
  the codec of a cache turns its Go values into JSON and back (\<open>encode\<close>, \<open>decode\<close>: the types
  are the handlers'). The store is the environment: \<open>cache_get\<close> takes what its \<open>Get\<close> answers,
  \<open>cache_set\<close> returns what it is asked to store and takes whether it did. \<open>sha\<close> is SHA-256.
  An operation reads the clock before (\<open>now\<close>) and after (\<open>later\<close>) it talks to the store.
\<close>

definition max_shared_value_bytes :: nat where "max_shared_value_bytes = 2 ^ 20"
definition local_sweep_size :: nat where "local_sweep_size = 4096"

record 'v codec =
  encode :: "'v \<Rightarrow> json option"
  decode :: "raw \<Rightarrow> 'v option"

record 'v cache =
  ch_ttl :: duration
  ch_namespace :: "string option"
  ch_hits :: "64 word"
  ch_misses :: "64 word"
  ch_errors :: "64 word"
  ch_m :: "(string \<times> 'v \<times> instant) list"

definition new_cache :: "duration \<Rightarrow> 'v cache" where
  "new_cache ttl = \<lparr>ch_ttl = ttl, ch_namespace = None, ch_hits = 0, ch_misses = 0, ch_errors = 0,
     ch_m = []\<rparr>"

text \<open>\<open>ch_namespace\<close> is present exactly when \<open>shared\<close> is not nil.\<close>

definition new_shared_cache :: "duration \<Rightarrow> bool \<Rightarrow> string \<Rightarrow> bool \<Rightarrow> 'v cache" where
  "new_shared_cache ttl has_store namespace has_codec =
     (if \<not> has_store \<or> namespace = '''' \<or> \<not> has_codec then new_cache ttl
      else (new_cache ttl)\<lparr>ch_namespace := Some namespace\<rparr>)"

definition shared_key :: "(byte list \<Rightarrow> byte list) \<Rightarrow> string \<Rightarrow> string \<Rightarrow> string" where
  "shared_key sha namespace key =
     ''ktw:v1:'' @ namespace @ '':'' @
     hex_encode (sha (map of_char (namespace @ [CHR 0x00] @ key)))"

definition shared_record_type :: gtype where
  "shared_record_type = GStruct [field ''expiresAtMs'' GInt, field ''value'' GAny]"

definition shared_record :: "int \<Rightarrow> json \<Rightarrow> json" where
  "shared_record expires_at_ms payload =
     JObj [(''expiresAtMs'', JNum (dec_of_int expires_at_ms)), (''value'', payload)]"

definition decode_shared_record :: "string \<Rightarrow> (int \<times> raw) option" where
  "decode_shared_record bytes =
     (case json_parse bytes of
        None \<Rightarrow> None
      | Some j \<Rightarrow>
          map_option (\<lambda>v. (int_field v ''expiresAtMs'',
              (case get_field v ''value'' of Some (VRaw d) \<Rightarrow> Some d | _ \<Rightarrow> None)))
            (unmarshal False shared_record_type (gzero shared_record_type) j))"

definition set_local :: "instant \<Rightarrow> string \<Rightarrow> 'v \<Rightarrow> instant \<Rightarrow> 'v cache \<Rightarrow> 'v cache" where
  "set_local now key v expires c =
     c\<lparr>ch_m := AList.update key (v, expires)
        (if length (ch_m c) > local_sweep_size
         then filter (\<lambda>(_, _, e). \<not> now > e) (ch_m c) else ch_m c)\<rparr>"

text \<open>The process-local part of \<open>GetContext\<close>: an expired entry is dropped.\<close>

definition get_local :: "instant \<Rightarrow> string \<Rightarrow> 'v cache \<Rightarrow> 'v cache \<times> 'v option" where
  "get_local now key c =
     (case map_of (ch_m c) key of
        None \<Rightarrow> (c, None)
      | Some (v, expires) \<Rightarrow>
          if now > expires then (c\<lparr>ch_m := AList.delete key (ch_m c)\<rparr>, None) else (c, Some v))"

abbreviation count_miss :: "'v cache \<Rightarrow> 'v cache" where
  "count_miss c \<equiv> c\<lparr>ch_misses := ch_misses c + 1\<rparr>"

abbreviation count_error :: "'v cache \<Rightarrow> 'v cache" where
  "count_error c \<equiv> c\<lparr>ch_errors := ch_errors c + 1\<rparr>"

definition get_shared ::
  "'v codec \<Rightarrow> instant \<Rightarrow> string \<Rightarrow> store_error + string \<Rightarrow> 'v cache \<Rightarrow> 'v cache \<times> 'v option" where
  "get_shared codec later key answer c =
     (case answer of
        Inl ErrNotFound \<Rightarrow> (count_miss c, None)
      | Inl _ \<Rightarrow> (count_error c, None)
      | Inr bytes \<Rightarrow>
          if length bytes > max_shared_value_bytes then (count_error c, None)
          else (case decode_shared_record bytes of
             None \<Rightarrow> (count_error c, None)
           | Some (expires_ms, payload) \<Rightarrow>
               (let expires = expires_ms * nanos_per_milli in
                if \<not> expires > later then (count_miss c, None)
                else (case decode codec payload of
                   None \<Rightarrow> (count_error c, None)
                 | Some v \<Rightarrow>
                     (let c = set_local later key v expires c in
                      (c\<lparr>ch_hits := ch_hits c + 1\<rparr>, Some v))))))"

definition cache_get ::
  "'v codec \<Rightarrow> instant \<Rightarrow> instant \<Rightarrow> string \<Rightarrow> store_error + string \<Rightarrow> 'v cache \<Rightarrow> 'v cache \<times> 'v option" where
  "cache_get codec now later key answer c =
     (case get_local now key c of
        (c, Some v) \<Rightarrow> (c, Some v)
      | (c, None) \<Rightarrow> if ch_namespace c = None then (c, None) else get_shared codec later key answer c)"

text \<open>What \<open>SetContext\<close> asks the store to keep: the bytes and their TTL.\<close>

definition cache_set ::
  "'v codec \<Rightarrow> instant \<Rightarrow> string \<Rightarrow> 'v \<Rightarrow> bool \<Rightarrow> 'v cache \<Rightarrow> 'v cache \<times> (string \<times> duration) option" where
  "cache_set codec now key v stored c =
     (let expires = now + ch_ttl c; c = set_local now key v expires c in
      if ch_namespace c = None then (c, None)
      else (case encode codec v of
         None \<Rightarrow> (count_error c, None)
       | Some payload \<Rightarrow>
           (let bytes = json_print (shared_record (unix_milli expires) payload) in
            if length bytes > max_shared_value_bytes then (count_error c, None)
            else (if stored then c else count_error c, Some (bytes, ch_ttl c)))))"

definition cache_len :: "'v cache \<Rightarrow> nat" where "cache_len c = length (ch_m c)"

definition cache_stats :: "'v cache \<Rightarrow> (64 word \<times> 64 word \<times> 64 word)" where
  "cache_stats c = (ch_hits c, ch_misses c, ch_errors c)"

definition shared_enabled :: "'v cache \<Rightarrow> bool" where
  "shared_enabled c = (ch_namespace c \<noteq> None)"

subsection \<open>The cache as a map that forgets\<close>

text \<open>What the local layer answers for a key at an instant.\<close>

definition cache_view :: "'v cache \<Rightarrow> instant \<Rightarrow> string \<Rightarrow> 'v option" where
  "cache_view c t key =
     (case map_of (ch_m c) key of None \<Rightarrow> None | Some (v, expires) \<Rightarrow> if t > expires then None else Some v)"

lemma cache_view_set_local:
  assumes "distinct (map fst (ch_m c))" "now \<le> t"
  shows "cache_view (set_local now key v expires c) t k =
    (if k = key then (if t > expires then None else Some v) else cache_view c t k)"
proof -
  have flt: "(case map_of (filter (\<lambda>(_, _, e). \<not> now > e) m) k of None \<Rightarrow> None
        | Some (v, e) \<Rightarrow> if t > e then None else Some v) =
      (case map_of m k of None \<Rightarrow> None | Some (v, e) \<Rightarrow> if t > e then None else Some v)"
    if "distinct (map fst m)" for m :: "(string \<times> 'a \<times> instant) list"
    using that
  proof (induction m)
    case (Cons x m)
    obtain k' v' e' where x: "x = (k', v', e')" by (cases x)
    have "k = k' \<Longrightarrow> map_of m k = None" using Cons.prems x by (auto simp: map_of_eq_None_iff)
    moreover from this have "k = k' \<Longrightarrow> map_of (filter (\<lambda>(_, _, e). \<not> now > e) m) k = None"
      by (auto simp: map_of_eq_None_iff)
    ultimately show ?case using Cons x assms(2) by auto
  qed simp
  show ?thesis
    using flt [OF assms(1)] by (simp add: cache_view_def set_local_def update_conv')
qed

definition cache_inv :: "'v cache \<Rightarrow> bool" where
  "cache_inv c \<longleftrightarrow> distinct (map fst (ch_m c))"

lemma cache_inv_set_local [inv_intros]: "cache_inv c \<Longrightarrow> cache_inv (set_local now key v e c)"
  by (simp add: cache_inv_def set_local_def distinct_update distinct_map_filter)

lemma cache_inv_get_local [inv_intros]: "cache_inv c \<Longrightarrow> cache_inv (fst (get_local now key c))"
  by (auto simp: cache_inv_def get_local_def distinct_delete split: option.splits)

lemma get_local_view: "snd (get_local t key c) = cache_view c t key"
  by (auto simp: get_local_def cache_view_def split: option.splits)

lemma cache_view_get_local:
  "now \<le> t \<Longrightarrow> cache_view (fst (get_local now key c)) t k = cache_view c t k"
  by (auto simp: get_local_def cache_view_def delete_conv' split: option.splits)

lemma cache_get_local_only:
  "ch_namespace c = None \<Longrightarrow> cache_get codec now later key answer c = get_local now key c"
  by (auto simp: cache_get_def get_local_def split: option.splits)

lemma cache_set_local_only:
  "ch_namespace c = None \<Longrightarrow>
   cache_set codec now key v stored c = (set_local now key v (now + ch_ttl c) c, None)"
  by (simp add: cache_set_def Let_def set_local_def)

lemma cache_frames [simp]:
  "ch_namespace (set_local now key v e c) = ch_namespace c"
  "ch_ttl (set_local now key v e c) = ch_ttl c"
  "ch_namespace (fst (get_local now key c)) = ch_namespace c"
  "ch_ttl (fst (get_local now key c)) = ch_ttl c"
  by (auto simp: set_local_def get_local_def split: option.splits)

datatype 'v cache_op = CSet string 'v | CGet string

fun run_cache :: "'v codec \<Rightarrow> (instant \<times> 'v cache_op) list \<Rightarrow> 'v cache \<Rightarrow> 'v option list" where
  "run_cache codec [] c = []"
| "run_cache codec ((t, CSet k v) # ops) c = run_cache codec ops (fst (cache_set codec t k v True c))"
| "run_cache codec ((t, CGet k) # ops) c =
     (case cache_get codec t t k (Inl ErrNotFound) c of (c', r) \<Rightarrow> r # run_cache codec ops c')"

text \<open>The specification: a map from keys to values with their expiry, nothing ever dropped.\<close>

definition spec_view :: "(string \<rightharpoonup> 'v \<times> instant) \<Rightarrow> instant \<Rightarrow> string \<Rightarrow> 'v option" where
  "spec_view m t k = (case m k of None \<Rightarrow> None | Some (v, e) \<Rightarrow> if t > e then None else Some v)"

fun spec_cache :: "duration \<Rightarrow> (instant \<times> 'v cache_op) list \<Rightarrow> (string \<rightharpoonup> 'v \<times> instant) \<Rightarrow> 'v option list" where
  "spec_cache ttl [] m = []"
| "spec_cache ttl ((t, CSet k v) # ops) m = spec_cache ttl ops (m(k \<mapsto> (v, t + ttl)))"
| "spec_cache ttl ((t, CGet k) # ops) m = spec_view m t k # spec_cache ttl ops m"

lemma run_cache_refines:
  assumes "sorted (map fst ops)" "\<forall>(t, _) \<in> set ops. t0 \<le> t"
    and "cache_inv c" "ch_namespace c = None" "ch_ttl c = ttl"
    and "\<And>t k. t0 \<le> t \<Longrightarrow> cache_view c t k = spec_view m t k"
  shows "run_cache codec ops c = spec_cache ttl ops m"
  using assms
proof (induction ops arbitrary: t0 c m)
  case (Cons x ops)
  obtain t op where x: "x = (t, op)" by (cases x)
  have t: "t0 \<le> t" and later: "sorted (map fst ops)" "\<forall>(t', _) \<in> set ops. t \<le> t'"
    using Cons.prems(1,2) x by auto
  show ?case
  proof (cases op)
    case (CSet k v)
    let ?c = "set_local t k v (t + ttl) c"
    have view: "cache_view ?c t' k' = spec_view (m(k \<mapsto> (v, t + ttl))) t' k'" if "t \<le> t'" for t' k'
      using cache_view_set_local [of c t t'] that Cons.prems(3,6) t
      by (auto simp: cache_inv_def spec_view_def)
    have "run_cache codec ops ?c = spec_cache ttl ops (m(k \<mapsto> (v, t + ttl)))"
      using Cons.prems(3-5) by (intro Cons.IH [OF later _ _ _ view]) (simp_all add: inv_intros)
    then show ?thesis using x CSet Cons.prems(4,5) by (simp add: cache_set_local_only)
  next
    case (CGet k)
    let ?c = "fst (get_local t k c)"
    have "cache_view ?c t' k' = spec_view m t' k'" if "t \<le> t'" for t' k'
      using cache_view_get_local [OF that, of k c k'] Cons.prems(6) [of t' k'] that t by simp
    then have "run_cache codec ops ?c = spec_cache ttl ops m"
      using Cons.prems(3-5) by (intro Cons.IH [OF later]) (simp_all add: inv_intros)
    moreover have "snd (get_local t k c) = spec_view m t k"
      using Cons.prems(6) t by (simp add: get_local_view)
    ultimately show ?thesis
      using x CGet Cons.prems(4) by (simp add: cache_get_local_only case_prod_beta)
  qed
qed simp

text \<open>What the shared layer may answer: nothing expired, nothing oversized, nothing undecodable.\<close>

lemma get_shared_fresh:
  assumes "get_shared codec later key answer c = (c', Some v)"
  shows "\<exists>bytes expires_ms payload. answer = Inr bytes \<and> length bytes \<le> max_shared_value_bytes \<and>
    decode_shared_record bytes = Some (expires_ms, payload) \<and>
    expires_ms * nanos_per_milli > later \<and> decode codec payload = Some v"
  using assms by (auto simp: get_shared_def Let_def split: sum.splits store_error.splits
      option.splits if_splits)

lemma cache_get_sound:
  assumes "cache_get codec now later key answer c = (c', Some v)"
  shows "cache_view c now key = Some v \<or>
    (ch_namespace c \<noteq> None \<and> (\<exists>bytes expires_ms payload. answer = Inr bytes \<and>
       decode_shared_record bytes = Some (expires_ms, payload) \<and>
       later < expires_ms * nanos_per_milli \<and> decode codec payload = Some v))"
proof (cases "get_local now key c")
  case (Pair c1 r)
  then show ?thesis
    using assms get_local_view [of now key c] cache_frames(3) [of now key c]
    by (cases r) (auto simp: cache_get_def dest: get_shared_fresh split: if_splits)
qed

text \<open>
  A cache hit is fresh: what \<open>GetContext\<close> returns is either a local entry that has not expired
  or the decoding of a shared record of at most 1 MiB whose expiry lies after the reading.
\<close>

theorem cache_hit_is_fresh:
  assumes "snd (cache_get codec now later key answer c) = Some v"
  shows "cache_view c now key = Some v \<or>
    (\<exists>bytes expires_ms payload. ch_namespace c \<noteq> None \<and> answer = Inr bytes \<and>
       decode_shared_record bytes = Some (expires_ms, payload) \<and>
       later < expires_ms * nanos_per_milli \<and> decode codec payload = Some v)"
  using cache_get_sound [of codec now later key answer c _ v] assms by (metis prod.collapse)

end
