(* ===== verification/Evm.thy ===== *)
theory Evm
  imports Pool_Facts Registry
begin

section \<open>The EVM client\<close>

text \<open>
  \<open>upstream/evm.go\<close> and \<open>upstream/evm_fee_history.go\<close>: JSON-RPC methods over a failover pool
  with strict checks of what the node answers. A call is a state transformer over its pool and
  the world (\<open>'a io\<close>), composed by \<open>io_bind\<close>, which stops at the first error as the code's
  early returns do. Quantities are unbounded (\<open>big.Int\<close>).
\<close>

type_synonym 'a io = "pool \<Rightarrow> world \<Rightarrow> (go_error + 'a) \<times> pool \<times> world"

definition io_return :: "'a \<Rightarrow> 'a io" where "io_return x p w = (Inr x, p, w)"

definition io_fail :: "go_error \<Rightarrow> 'a io" where "io_fail e p w = (Inl e, p, w)"

definition io_lift :: "go_error + 'a \<Rightarrow> 'a io" where "io_lift r p w = (r, p, w)"

definition io_bind :: "'a io \<Rightarrow> ('a \<Rightarrow> 'b io) \<Rightarrow> 'b io" where
  "io_bind m f p w =
     (case m p w of (Inl e, p, w) \<Rightarrow> (Inl e, p, w) | (Inr x, p, w) \<Rightarrow> f x p w)"

lemma io_simps [simp]:
  "io_bind (io_fail e) f = io_fail e"
  "io_bind (io_return x) f = f x"
  "io_bind (io_lift (Inl e)) f = io_fail e"
  "io_bind (io_lift (Inr x)) f = f x"
  by (simp_all add: fun_eq_iff io_bind_def io_fail_def io_return_def io_lift_def)

subsection \<open>Parsing what the node answers\<close>

definition evm_receipt_hash_re :: "string \<Rightarrow> bool" where
  "evm_receipt_hash_re s \<longleftrightarrow> prefix ''0x'' s \<and> hex_text 64 (drop 2 s)"

text \<open>\<open>^0x(?:0|[1-9a-fA-F][0-9a-fA-F]{0,63})$\<close>\<close>

definition evm_receipt_quantity_re :: "string \<Rightarrow> bool" where
  "evm_receipt_quantity_re s \<longleftrightarrow> prefix ''0x'' s \<and>
     (let ds = drop 2 s in
      ds = ''0'' \<or> (ds \<noteq> [] \<and> hd ds \<noteq> CHR ''0'' \<and> list_all is_hex ds \<and> length ds \<le> 64))"

definition hex_to_big :: "string \<Rightarrow> go_error + int" where
  "hex_to_big s =
     (if \<not> evm_receipt_quantity_re s then Inl (Unavailable ''evm'' ''invalid hex quantity'')
      else Inr (int (nat_of_hex (drop 2 s))))"

definition parse_quantity :: "json \<Rightarrow> go_error + int" where
  "parse_quantity raw =
     (case json_string (Some raw) of
        None \<Rightarrow> Inl (Unavailable ''evm'' ''expected a hex quantity'')
      | Some s \<Rightarrow> hex_to_big s)"

definition parse_abi_uint256 :: "json \<Rightarrow> go_error + int" where
  "parse_abi_uint256 raw =
     (case json_string (Some raw) of
        Some s \<Rightarrow>
          if evm_receipt_hash_re s then Inr (int (nat_of_hex (drop 2 s)))
          else Inl (Unavailable ''evm'' ''invalid ABI uint256 result'')
      | None \<Rightarrow> Inl (Unavailable ''evm'' ''invalid ABI uint256 result''))"

definition valid_evm_balance_block_tag :: "string \<Rightarrow> bool" where
  "valid_evm_balance_block_tag value \<longleftrightarrow> value = ''latest'' \<or> value = ''pending''"

definition valid_hex_bytes :: "string \<Rightarrow> bool" where
  "valid_hex_bytes s \<longleftrightarrow> prefix ''0x'' s \<and> even (length s) \<and> hex_decode (drop 2 s) \<noteq> None"

subsection \<open>Methods\<close>

definition evm_call :: "pool_env \<Rightarrow> string \<Rightarrow> json list \<Rightarrow> json io" where
  "evm_call env method params p w = pool_call env False method params p w"

definition evm_quantity :: "pool_env \<Rightarrow> string \<Rightarrow> json list \<Rightarrow> int io" where
  "evm_quantity env method params =
     io_bind (evm_call env method params) (\<lambda>raw. io_lift (parse_quantity raw))"

definition evm_unavailable :: "string \<Rightarrow> 'a io" where
  "evm_unavailable message p w = (Inl (Unavailable (pl_name p) message), p, w)"

definition evm_chain_id :: "pool_env \<Rightarrow> string io" where
  "evm_chain_id env =
     io_bind (evm_quantity env ''eth_chainId'' [])
       (\<lambda>i. if i \<le> 0 then evm_unavailable ''invalid eth_chainId'' else io_return (dec_of_int i))"

definition evm_get_balance_at :: "pool_env \<Rightarrow> string \<Rightarrow> string \<Rightarrow> int io" where
  "evm_get_balance_at env address block_tag =
     (if \<not> evm_address_re address \<or> \<not> valid_evm_balance_block_tag block_tag
      then evm_unavailable ''invalid balance query identity''
      else evm_quantity env ''eth_getBalance'' [JStr address, JStr block_tag])"

definition evm_get_balance :: "pool_env \<Rightarrow> string \<Rightarrow> int io" where
  "evm_get_balance env address = evm_get_balance_at env address ''latest''"

definition balance_of_selector :: string where "balance_of_selector = ''0x70a08231''"

definition trim_prefix_0x :: "string \<Rightarrow> string" where
  "trim_prefix_0x s = (if prefix ''0x'' s then drop 2 s else s)"

definition evm_token_balance_at :: "pool_env \<Rightarrow> string \<Rightarrow> string \<Rightarrow> string \<Rightarrow> int io" where
  "evm_token_balance_at env contract holder block_tag =
     (if \<not> evm_address_re contract \<or> \<not> evm_address_re holder \<or>
         \<not> valid_evm_balance_block_tag block_tag
      then evm_unavailable ''invalid token balance query identity''
      else
        let data = balance_of_selector @ replicate 24 CHR ''0'' @ to_lower (trim_prefix_0x holder) in
        io_bind (evm_call env ''eth_call''
            [JObj [(''data'', JStr data), (''to'', JStr contract)], JStr block_tag])
          (\<lambda>raw. io_lift (parse_abi_uint256 raw)))"

definition evm_token_balance :: "pool_env \<Rightarrow> string \<Rightarrow> string \<Rightarrow> int io" where
  "evm_token_balance env contract holder = evm_token_balance_at env contract holder ''latest''"

text \<open>The transaction object of \<open>eth_call\<close> and \<open>eth_estimateGas\<close>; a Go map is printed by key.\<close>

definition transaction_object :: "string \<Rightarrow> string \<Rightarrow> string \<Rightarrow> string \<Rightarrow> json" where
  "transaction_object from_addr to_addr value data =
     JObj [(''data'', JStr data), (''from'', JStr from_addr), (''to'', JStr to_addr),
           (''value'', JStr value)]"

definition evm_simulate_transaction ::
  "pool_env \<Rightarrow> string \<Rightarrow> string \<Rightarrow> string \<Rightarrow> string \<Rightarrow> string \<Rightarrow> string io" where
  "evm_simulate_transaction env from_addr to_addr value data block_tag =
     io_bind (evm_call env ''eth_call'' [transaction_object from_addr to_addr value data, JStr block_tag])
       (\<lambda>raw. case json_string (Some raw) of
          Some result \<Rightarrow>
            if valid_hex_bytes result then io_return (to_lower result)
            else evm_unavailable ''malformed eth_call result''
        | None \<Rightarrow> evm_unavailable ''malformed eth_call result'')"

definition evm_estimate_gas ::
  "pool_env \<Rightarrow> string \<Rightarrow> string \<Rightarrow> string \<Rightarrow> string \<Rightarrow> int io" where
  "evm_estimate_gas env from_addr to_addr value data =
     evm_quantity env ''eth_estimateGas''
       [transaction_object from_addr to_addr value data, JStr ''pending'']"

definition evm_transaction_count :: "pool_env \<Rightarrow> string \<Rightarrow> int io" where
  "evm_transaction_count env address =
     evm_quantity env ''eth_getTransactionCount'' [JStr address, JStr ''pending'']"

definition evm_gas_price :: "pool_env \<Rightarrow> int io" where
  "evm_gas_price env = evm_quantity env ''eth_gasPrice'' []"

definition receipt_type :: gtype where
  "receipt_type = GStruct [field ''transactionHash'' GString, field ''blockHash'' GString,
     field ''blockNumber'' GString, field ''transactionIndex'' GString, field ''status'' GString]"

text \<open>What a receipt that is not null says about transaction \<open>hash\<close>.\<close>

definition receipt_status :: "string \<Rightarrow> json \<Rightarrow> string + string" where
  "receipt_status hash raw =
     (case unmarshal False receipt_type (gzero receipt_type) raw of
        None \<Rightarrow> Inl ''malformed transaction receipt''
      | Some receipt \<Rightarrow>
          if \<not> evm_receipt_hash_re hash \<or>
             \<not> evm_receipt_hash_re (str_field receipt ''transactionHash'') \<or>
             \<not> equal_fold (str_field receipt ''transactionHash'') hash \<or>
             \<not> evm_receipt_hash_re (str_field receipt ''blockHash'') \<or>
             \<not> evm_receipt_quantity_re (str_field receipt ''blockNumber'') \<or>
             \<not> evm_receipt_quantity_re (str_field receipt ''transactionIndex'')
          then Inl ''malformed transaction receipt''
          else let status = to_lower (str_field receipt ''status'') in
               if status = ''0x1'' then Inr ''confirmed''
               else if status = ''0x0'' then Inr ''failed''
               else Inl ''transaction receipt has no valid status'')"

definition hash_type :: gtype where "hash_type = GStruct [field ''hash'' GString]"

definition known_transaction :: "string \<Rightarrow> json \<Rightarrow> bool" where
  "known_transaction hash raw =
     (case unmarshal False hash_type (gzero hash_type) raw of
        None \<Rightarrow> False
      | Some tx \<Rightarrow> evm_receipt_hash_re (str_field tx ''hash'') \<and> equal_fold (str_field tx ''hash'') hash)"

definition evm_transaction_status :: "pool_env \<Rightarrow> string \<Rightarrow> string io" where
  "evm_transaction_status env hash =
     io_bind (evm_call env ''eth_getTransactionReceipt'' [JStr hash])
       (\<lambda>raw. if raw \<noteq> JNull then
                (case receipt_status hash raw of
                   Inl message \<Rightarrow> evm_unavailable message | Inr status \<Rightarrow> io_return status)
              else
                io_bind (evm_call env ''eth_getTransactionByHash'' [JStr hash])
                  (\<lambda>raw. if raw = JNull then io_return ''unknown''
                         else if known_transaction hash raw then io_return ''pending''
                         else evm_unavailable ''malformed transaction response''))"

definition evm_send_raw_transaction :: "pool_env \<Rightarrow> string \<Rightarrow> string io" where
  "evm_send_raw_transaction env payload =
     io_bind (pool_call_once env ''eth_sendRawTransaction'' [JStr payload])
       (\<lambda>raw. case json_string (Some raw) of
          Some hash \<Rightarrow>
            if evm_receipt_hash_re hash then io_return hash
            else evm_unavailable ''malformed eth_sendRawTransaction result''
        | None \<Rightarrow> evm_unavailable ''malformed eth_sendRawTransaction result'')"

subsection \<open>Fee history\<close>

definition max_evm_fee_history_blocks :: int where "max_evm_fee_history_blocks = 1024"
definition max_evm_fee_reward_percentiles :: nat where "max_evm_fee_reward_percentiles = 100"

text \<open>\<open>decodeRawJSONArray\<close> (\<open>upstream/goplus_response.go\<close>): null is not an array.\<close>

definition decode_raw_json_array :: "raw \<Rightarrow> nat \<Rightarrow> json list option" where
  "decode_raw_json_array raw maximum =
     (case raw of Some (JArr rows) \<Rightarrow> if length rows > maximum then None else Some rows | _ \<Rightarrow> None)"

text \<open>The percentiles the gateway asks for are whole numbers.\<close>

fun percentiles_ascend :: "int \<Rightarrow> int list \<Rightarrow> bool" where
  "percentiles_ascend previous [] = True"
| "percentiles_ascend previous (x # xs) =
     (if x < 0 \<or> x > 100 \<or> x \<le> previous then False else percentiles_ascend x xs)"

definition validate_evm_fee_history_request :: "int \<Rightarrow> int list \<Rightarrow> bool" where
  "validate_evm_fee_history_request block_count percentiles \<longleftrightarrow>
     \<not> (block_count \<le> 0 \<or> block_count > max_evm_fee_history_blocks \<or>
        percentiles = [] \<or> length percentiles > max_evm_fee_reward_percentiles) \<and>
     percentiles_ascend (-1) percentiles"

definition decode_evm_quantity_array :: "raw \<Rightarrow> nat \<Rightarrow> int list option" where
  "decode_evm_quantity_array raw maximum =
     (case decode_raw_json_array raw maximum of
        None \<Rightarrow> None
      | Some rows \<Rightarrow> map_opt (\<lambda>row. case parse_quantity row of Inl _ \<Rightarrow> None | Inr v \<Rightarrow> Some v) rows)"

text \<open>
  A gas ratio is decoded into a \<open>float64\<close> and must lie in \<open>[0, 1]\<close>. A literal rounds into that
  interval exactly if it is at most half a unit in the last place outside: \<open>2 ^ -53\<close> above 1
  and \<open>2 ^ -1075\<close>, half the least subnormal, below 0 (ties go to the even neighbour, which is
  1 and 0). Null leaves the variable 0.
\<close>

definition evm_ratio_ok :: "json \<Rightarrow> bool" where
  "evm_ratio_ok row =
     (case row of
        JNull \<Rightarrow> True
      | JNum lit \<Rightarrow> (let v = rat_of_literal lit in - (1 / 2 ^ 1075) \<le> v \<and> v \<le> 1 + 1 / 2 ^ 53)
      | _ \<Rightarrow> False)"

text \<open>For evaluation: the tiny bounds are only compared with when they matter.\<close>

lemma evm_ratio_ok_code [code]:
  "evm_ratio_ok row =
     (case row of
        JNull \<Rightarrow> True
      | JNum lit \<Rightarrow>
          (let v = rat_of_literal lit in
           if 0 \<le> v then (if v \<le> 1 then True else v \<le> 1 + 1 / 2 ^ 53)
           else - (1 / 2 ^ 1075) \<le> v)
      | _ \<Rightarrow> False)"
proof -
  have "(- (1 / 2 ^ 1075) \<le> v \<and> v \<le> 1 + 1 / 2 ^ 53) =
      (if 0 \<le> v then (if v \<le> 1 then True else v \<le> 1 + 1 / 2 ^ 53) else - (1 / 2 ^ 1075) \<le> v)" for v :: rat
  proof -
    define a b :: rat where "a = 1 / 2 ^ 1075" and "b = 1 / 2 ^ 53"
    then have "0 < a" "0 < b" by simp_all
    then show ?thesis unfolding a_def [symmetric] b_def [symmetric] by auto
  qed
  then show ?thesis by (simp add: evm_ratio_ok_def Let_def split: json.split)
qed

text \<open>Only the number of ratios matters to the caller.\<close>

definition decode_evm_ratio_array :: "raw \<Rightarrow> nat \<Rightarrow> nat option" where
  "decode_evm_ratio_array raw maximum =
     (case decode_raw_json_array raw maximum of
        None \<Rightarrow> None
      | Some rows \<Rightarrow> if list_all evm_ratio_ok rows then Some (length rows) else None)"

record fee_history_result =
  fh_base_fee_per_gas :: "int list"
  fh_reward :: "int list list"

definition decode_reward_row :: "nat \<Rightarrow> json \<Rightarrow> int list option" where
  "decode_reward_row percentile_count row_raw =
     (case decode_evm_quantity_array (Some row_raw) percentile_count of
        None \<Rightarrow> None
      | Some row \<Rightarrow>
          if length row \<noteq> percentile_count then None
          else if list_ex (\<lambda>i. row ! (i - 1) > row ! i) [1..<length row] then None
          else Some row)"

definition optional_count_ok :: "nat option option \<Rightarrow> nat \<Rightarrow> bool" where
  "optional_count_ok decoded n = (case decoded of None \<Rightarrow> True | Some c \<Rightarrow> c = Some n)"

definition decode_evm_fee_history :: "raw \<Rightarrow> nat \<Rightarrow> nat \<Rightarrow> fee_history_result option" where
  "decode_evm_fee_history raw requested_blocks percentile_count =
     do {
       obj \<leftarrow> decode_exact_json_object raw [''oldestBlock'', ''baseFeePerGas'', ''baseFeePerBlobGas'',
                ''gasUsedRatio'', ''blobGasUsedRatio'', ''reward''];
       guard_opt (obj ''oldestBlock'' \<noteq> None \<and> obj ''baseFeePerGas'' \<noteq> None \<and> obj ''gasUsedRatio'' \<noteq> None);
       oldest \<leftarrow> obj ''oldestBlock'';
       guard_opt (case parse_quantity oldest of Inl _ \<Rightarrow> False | Inr _ \<Rightarrow> True);
       returned_blocks \<leftarrow> decode_evm_ratio_array (obj ''gasUsedRatio'') requested_blocks;
       base_fees \<leftarrow> decode_evm_quantity_array (obj ''baseFeePerGas'') (requested_blocks + 1);
       guard_opt (length base_fees = returned_blocks + 1);
       guard_opt (optional_count_ok
         (map_option (\<lambda>r. map_option length (decode_evm_quantity_array (Some r) (requested_blocks + 1)))
            (obj ''baseFeePerBlobGas'')) (returned_blocks + 1));
       guard_opt (optional_count_ok
         (map_option (\<lambda>r. decode_evm_ratio_array (Some r) requested_blocks) (obj ''blobGasUsedRatio''))
         returned_blocks);
       (case obj ''reward'' of
          None \<Rightarrow> Some \<lparr>fh_base_fee_per_gas = base_fees, fh_reward = []\<rparr>
        | Some reward_raw \<Rightarrow> do {
            reward_rows \<leftarrow> decode_raw_json_array (Some reward_raw) requested_blocks;
            guard_opt (length reward_rows = returned_blocks);
            rows \<leftarrow> map_opt (decode_reward_row percentile_count) reward_rows;
            Some \<lparr>fh_base_fee_per_gas = base_fees, fh_reward = rows\<rparr>
          })
     }"

definition evm_fee_history :: "pool_env \<Rightarrow> int \<Rightarrow> int list \<Rightarrow> fee_history_result io" where
  "evm_fee_history env block_count percentiles =
     (if \<not> validate_evm_fee_history_request block_count percentiles
      then evm_unavailable ''invalid eth_feeHistory request''
      else
        io_bind (evm_call env ''eth_feeHistory''
            [JStr (''0x'' @ hex_of_nat (nat block_count)), JStr ''latest'',
             JArr (map (\<lambda>x. JNum (dec_of_int x)) percentiles)])
          (\<lambda>raw. case decode_evm_fee_history (Some raw) (nat block_count) (length percentiles) of
             None \<Rightarrow> evm_unavailable ''malformed eth_feeHistory result''
           | Some r \<Rightarrow> io_return r))"

subsection \<open>What the checks guarantee\<close>

lemma parse_quantity_nonneg: "parse_quantity raw = Inr v \<Longrightarrow> 0 \<le> v"
  by (auto simp: parse_quantity_def hex_to_big_def split: option.splits if_splits)

lemma quantity_array_nonneg:
  "decode_evm_quantity_array raw n = Some vs \<Longrightarrow> v \<in> set vs \<Longrightarrow> 0 \<le> v"
  by (auto simp: decode_evm_quantity_array_def dest!: map_opt_set parse_quantity_nonneg
      split: option.splits sum.splits)

lemma quantity_array_length: "decode_evm_quantity_array raw n = Some vs \<Longrightarrow> length vs \<le> n"
  by (auto simp: decode_evm_quantity_array_def decode_raw_json_array_def dest!: map_opt_length
      split: option.splits json.splits if_splits)

lemma list_ex_descent: "\<not> list_ex (\<lambda>i. row ! (i - 1) > row ! i) [1..<length row] \<Longrightarrow> sorted row"
  for row :: "int list"
  by (force simp: sorted_iff_nth_Suc list_ex_iff not_less)

lemma decode_reward_row_ok:
  assumes "decode_reward_row n raw = Some row"
  shows "length row = n" "sorted row" "\<forall>v \<in> set row. 0 \<le> v"
  using assms list_ex_descent quantity_array_nonneg
  by (auto simp: decode_reward_row_def split: option.splits if_splits)

definition fee_history_ok :: "nat \<Rightarrow> nat \<Rightarrow> fee_history_result \<Rightarrow> bool" where
  "fee_history_ok blocks percentile_count fh \<longleftrightarrow>
     fh_base_fee_per_gas fh \<noteq> [] \<and> length (fh_base_fee_per_gas fh) \<le> blocks + 1 \<and>
     (\<forall>b \<in> set (fh_base_fee_per_gas fh). 0 \<le> b) \<and>
     (fh_reward fh = [] \<or> length (fh_reward fh) + 1 = length (fh_base_fee_per_gas fh)) \<and>
     (\<forall>row \<in> set (fh_reward fh). length row = percentile_count \<and> sorted row \<and> (\<forall>v \<in> set row. 0 \<le> v))"

lemma decode_evm_fee_history_cases:
  assumes "decode_evm_fee_history raw blocks n = Some fh"
  obtains base_raw k where
    "decode_evm_quantity_array base_raw (blocks + 1) = Some (fh_base_fee_per_gas fh)"
    "length (fh_base_fee_per_gas fh) = k + 1"
    "fh_reward fh = [] \<or>
     (\<exists>rs. length rs = k \<and> map_opt (decode_reward_row n) rs = Some (fh_reward fh))"
  using assms unfolding decode_evm_fee_history_def
  by (auto simp: bind_eq_Some_conv split: option.splits) blast+

lemma decode_evm_fee_history_ok:
  assumes "decode_evm_fee_history raw blocks n = Some fh"
  shows "fee_history_ok blocks n fh"
  using assms
proof (cases rule: decode_evm_fee_history_cases)
  case (1 base_raw k)
  have "fh_base_fee_per_gas fh \<noteq> []" using 1(2) by auto
  moreover have "\<forall>row \<in> set (fh_reward fh). length row = n \<and> sorted row \<and> (\<forall>v \<in> set row. 0 \<le> v)"
    using 1(3) decode_reward_row_ok by (metis empty_iff list.set(1) map_opt_set)
  moreover have "fh_reward fh = [] \<or> length (fh_reward fh) + 1 = length (fh_base_fee_per_gas fh)"
    using 1(2,3) map_opt_length by (metis Suc_eq_plus1)
  ultimately show ?thesis
    unfolding fee_history_ok_def
    using quantity_array_length [OF 1(1)] quantity_array_nonneg [OF 1(1)] by blast
qed

text \<open>
  An accepted fee history is internally consistent: one more base fee than blocks, at most one
  more than requested, every reward row has exactly the requested percentiles in ascending order,
  there is a row per block or none at all, and no value is negative.
\<close>

theorem fee_history_is_consistent:
  assumes "decode_evm_fee_history raw blocks n = Some fh"
  shows "fh_base_fee_per_gas fh \<noteq> [] \<and> length (fh_base_fee_per_gas fh) \<le> blocks + 1 \<and>
    (\<forall>b \<in> set (fh_base_fee_per_gas fh). 0 \<le> b) \<and>
    (fh_reward fh = [] \<or> length (fh_reward fh) + 1 = length (fh_base_fee_per_gas fh)) \<and>
    (\<forall>row \<in> set (fh_reward fh). length row = n \<and> sorted row \<and> (\<forall>v \<in> set row. 0 \<le> v))"
  using decode_evm_fee_history_ok [OF assms] unfolding fee_history_ok_def .

end
