(* ===== verification/Tron.thy ===== *)
theory Tron
  imports Evm Base58
begin

section \<open>The TronGrid client\<close>

text \<open>
  \<open>upstream/tron.go\<close> and \<open>upstream/tron_preflight.go\<close>: REST calls to one TronGrid endpoint.
  There is no failover and no state: an operation sends at most its own requests. A request is
  its URL and body, a GET having none. The decoders bind what the provider answers to what was
  asked: to the account, the contract call or the transaction.
  \<open>printable\<close> is the loop over runes of \<open>decodeTronMessage\<close> (package \<open>unicode\<close>'s tables); it
  only chooses between two spellings of an error text. \<open>sha\<close> is SHA-256.
\<close>

record tron_client =
  tr_base :: string

type_synonym 'a rest = "world \<Rightarrow> (go_error + 'a) \<times> world"

definition rest_bind :: "'a rest \<Rightarrow> ('a \<Rightarrow> 'b rest) \<Rightarrow> 'b rest" where
  "rest_bind m f w = (case m w of (Inl e, w) \<Rightarrow> (Inl e, w) | (Inr x, w) \<Rightarrow> f x w)"

definition rest_lift :: "go_error + 'a \<Rightarrow> 'a rest" where "rest_lift r w = (r, w)"

lemma rest_lift_bind [simp]:
  "rest_bind (rest_lift (Inl e)) f = rest_lift (Inl e)"
  "rest_bind (rest_lift (Inr x)) f = f x"
  by (simp_all add: fun_eq_iff rest_bind_def rest_lift_def)

definition new_tron :: "string \<Rightarrow> tron_client" where
  "new_tron base = \<lparr>tr_base = rev (dropWhile (\<lambda>c. c = CHR ''/'') (rev base))\<rparr>"

definition tron_unavailable :: "pool_env \<Rightarrow> tron_client \<Rightarrow> string \<Rightarrow> go_error" where
  "tron_unavailable env t message = Unavailable (pe_host_of env (tr_base t)) message"

definition err_tron_rate_limited :: go_error where
  "err_tron_rate_limited = OtherError ''TRON provider rate limited''"

text \<open>\<open>safeRequestFailure\<close>: the request's own context and the caller's decide the wording.\<close>

definition safe_request_failure :: "string \<Rightarrow> bool \<Rightarrow> bool \<Rightarrow> go_error" where
  "safe_request_failure upstream timed_out ctx_done =
     Unavailable upstream
       (if timed_out then ''upstream request timed out''
        else if ctx_done then ''upstream request canceled'' else ''upstream request failed'')"

definition tron_fetch :: "pool_env \<Rightarrow> tron_client \<Rightarrow> string \<Rightarrow> string \<Rightarrow> string rest" where
  "tron_fetch env t path payload w =
     (let host = pe_host_of env (tr_base t); (reply, w) = exchange env (tr_base t @ path, payload) w in
      (case hr_outcome reply of
         RequestInvalid \<Rightarrow> Inl (Unavailable host ''could not create upstream request'')
       | TransportFailed timed_out \<Rightarrow> Inl (safe_request_failure host timed_out (hr_ctx_done reply))
       | Responded st bd \<Rightarrow>
           (case Option.bind bd (\<lambda>b. read_bounded_response b (8 * 2 ^ 20)) of
              None \<Rightarrow> Inl (Unavailable host ''could not read upstream response'')
            | Some data \<Rightarrow>
                if st < 200 \<or> st \<ge> 300 then
                  (if st = 429 \<or> st = 403 then Inl err_tron_rate_limited
                   else Inl (tron_unavailable env t (''TronGrid returned HTTP '' @ dec_of_int st)))
                else Inr data), w))"

definition tron_do ::
  "pool_env \<Rightarrow> tron_client \<Rightarrow> string \<Rightarrow> string \<Rightarrow> gtype \<Rightarrow> gval rest" where
  "tron_do env t path payload out =
     rest_bind (tron_fetch env t path payload)
       (\<lambda>data. rest_lift
          (case Option.bind (json_parse data) (unmarshal False out (gzero out)) of
             None \<Rightarrow> Inl (tron_unavailable env t ''malformed TronGrid response'')
           | Some v \<Rightarrow> Inr v))"

subsection \<open>Identities and integers\<close>

definition tron_transaction_id_re :: "string \<Rightarrow> bool" where
  "tron_transaction_id_re s \<longleftrightarrow> hex_text 64 s"

definition tron_hex_address_pattern :: "string \<Rightarrow> bool" where
  "tron_hex_address_pattern s \<longleftrightarrow> prefix ''41'' s \<and> hex_text 40 (drop 2 s)"

definition tron_unsigned_decimal_re :: "string \<Rightarrow> bool" where
  "tron_unsigned_decimal_re s \<longleftrightarrow> s = ''0'' \<or> (all_digits s \<and> hd s \<noteq> CHR ''0'')"

definition max_tron_native_balance :: int where "max_tron_native_balance = 2 ^ 63 - 1"
definition max_tron_token_balance :: int where "max_tron_token_balance = 2 ^ 256 - 1"
definition max_tron_account_rows :: nat where "max_tron_account_rows = 1"
definition max_tron_trc20_rows :: nat where "max_tron_trc20_rows = 5000"

definition parse_tron_unsigned_integer :: "json \<Rightarrow> int \<Rightarrow> bool \<Rightarrow> int option" where
  "parse_tron_unsigned_integer raw maximum quoted =
     (case (if quoted then json_string (Some raw)
            else (case raw of JNum lit \<Rightarrow> Some lit | _ \<Rightarrow> None)) of
        None \<Rightarrow> None
      | Some value \<Rightarrow>
          if \<not> tron_unsigned_decimal_re value then None
          else (case parse_big_dec value of
             None \<Rightarrow> None
           | Some parsed \<Rightarrow> if parsed > maximum then None else Some parsed))"

definition tron_base58_address_hex :: "(byte list \<Rightarrow> byte list) \<Rightarrow> string \<Rightarrow> string option" where
  "tron_base58_address_hex sha address =
     (if length address \<noteq> 34 \<or> \<not> prefix ''T'' address then None
      else (case base58_decode address of
         None \<Rightarrow> None
       | Some decoded \<Rightarrow>
           if length decoded \<noteq> 25 \<or> decoded ! 0 \<noteq> 0x41 then None
           else if drop 21 decoded \<noteq> take 4 (sha (sha (take 21 decoded))) then None
           else Some (hex_encode (take 21 decoded))))"

text \<open>\<open>tronJSONString\<close> (\<open>upstream/tron_history.go\<close>): null is not a string.\<close>

definition tron_json_string :: "raw \<Rightarrow> string option" where
  "tron_json_string raw = (case raw of Some (JStr s) \<Rightarrow> Some s | _ \<Rightarrow> None)"

subsection \<open>Balances\<close>

definition trc20_call_data :: "string \<Rightarrow> string" where
  "trc20_call_data holder_hex = ''70a08231'' @ replicate 24 CHR ''0'' @ drop 2 holder_hex"

text \<open>The answer echoes the call; every part of it must be the call that was made.\<close>

definition decode_tron_trc20_balance :: "raw \<Rightarrow> string \<Rightarrow> string \<Rightarrow> string \<Rightarrow> int option" where
  "decode_tron_trc20_balance data holder contract call_data =
     do {
       response \<leftarrow> decode_extensible_json_object data [''transaction'', ''constant_result'', ''result''];
       result \<leftarrow> decode_extensible_json_object (response ''result'') [''result''];
       guard_opt (result ''result'' = Some (JBool True));
       transaction \<leftarrow> decode_extensible_json_object (response ''transaction'') [''raw_data'', ''visible''];
       guard_opt (transaction ''visible'' = Some (JBool True));
       raw_data \<leftarrow> decode_extensible_json_object (transaction ''raw_data'') [''contract''];
       calls \<leftarrow> decode_raw_json_array (raw_data ''contract'') 1;
       guard_opt (length calls = 1);
       call \<leftarrow> decode_extensible_json_object (Some (hd calls)) [''parameter'', ''type''];
       call_type \<leftarrow> tron_json_string (call ''type'');
       guard_opt (call_type = ''TriggerSmartContract'');
       parameter \<leftarrow> decode_extensible_json_object (call ''parameter'') [''value'', ''type_url''];
       type_url \<leftarrow> tron_json_string (parameter ''type_url'');
       guard_opt (type_url = ''type.googleapis.com/protocol.TriggerSmartContract'');
       value \<leftarrow> decode_extensible_json_object (parameter ''value'')
                  [''owner_address'', ''contract_address'', ''data''];
       owner \<leftarrow> tron_json_string (value ''owner_address'');
       returned_contract \<leftarrow> tron_json_string (value ''contract_address'');
       returned_data \<leftarrow> tron_json_string (value ''data'');
       guard_opt (owner = holder \<and> returned_contract = contract \<and> returned_data = call_data);
       words \<leftarrow> decode_raw_json_array (response ''constant_result'') 1;
       guard_opt (length words = 1);
       word \<leftarrow> tron_json_string (Some (hd words));
       guard_opt (length word = 64);
       decoded \<leftarrow> hex_decode word;
       guard_opt (length decoded = 32);
       Some (int (nat_of_bytes decoded))
     }"

definition tron_trc20_balance ::
  "(byte list \<Rightarrow> byte list) \<Rightarrow> pool_env \<Rightarrow> tron_client \<Rightarrow> string \<Rightarrow> string \<Rightarrow> int rest" where
  "tron_trc20_balance sha env t holder contract =
     (case (tron_base58_address_hex sha holder, tron_base58_address_hex sha contract) of
        (Some holder_hex, Some _) \<Rightarrow>
          (let payload = json_print (JObj
                 [(''contract_address'', JStr contract),
                  (''function_selector'', JStr ''balanceOf(address)''),
                  (''owner_address'', JStr holder),
                  (''parameter'', JStr (replicate 24 CHR ''0'' @ drop 2 holder_hex)),
                  (''visible'', JBool True)])
           in rest_bind (tron_fetch env t ''/wallet/triggerconstantcontract'' payload)
                (\<lambda>data. rest_lift
                   (case decode_tron_trc20_balance (json_parse data) holder contract (trc20_call_data holder_hex) of
                      None \<Rightarrow> Inl (tron_unavailable env t ''malformed or unbound TRC-20 balance response'')
                    | Some b \<Rightarrow> Inr b)))
      | _ \<Rightarrow> rest_lift (Inl (tron_unavailable env t ''invalid TRC-20 balance identity'')))"

record tron_account =
  ta_balance :: int
  ta_trc20 :: "(string \<times> int) list"

text \<open>The loop over the token rows; \<open>seen\<close> holds the canonical contracts of the earlier ones.\<close>

fun decode_trc20_rows ::
  "(byte list \<Rightarrow> byte list) \<Rightarrow> string set \<Rightarrow> json list \<Rightarrow> (string \<times> int) list option" where
  "decode_trc20_rows sha seen [] = Some []"
| "decode_trc20_rows sha seen (row # rows) =
     (case row of
        JObj [(contract, amount_raw)] \<Rightarrow>
          do {
            contract_hex \<leftarrow> tron_base58_address_hex sha contract;
            guard_opt (contract_hex \<notin> seen);
            amount \<leftarrow> parse_tron_unsigned_integer amount_raw max_tron_token_balance True;
            rest \<leftarrow> decode_trc20_rows sha (insert contract_hex seen) rows;
            Some ((contract, amount) # rest)
          }
      | _ \<Rightarrow> None)"

definition decode_tron_account_row ::
  "(byte list \<Rightarrow> byte list) \<Rightarrow> string \<Rightarrow> json \<Rightarrow> tron_account option" where
  "decode_tron_account_row sha requested_hex row =
     do {
       obj \<leftarrow> decode_extensible_json_object (Some row) [''address'', ''balance'', ''trc20''];
       returned_hex \<leftarrow> json_string (obj ''address'');
       guard_opt (tron_hex_address_pattern returned_hex \<and> equal_fold returned_hex requested_hex);
       balance \<leftarrow> (case obj ''balance'' of
           None \<Rightarrow> Some 0
         | Some b \<Rightarrow> parse_tron_unsigned_integer b max_tron_native_balance False);
       tokens \<leftarrow> (case obj ''trc20'' of
           None \<Rightarrow> Some []
         | Some r \<Rightarrow> Option.bind (decode_raw_json_array (Some r) max_tron_trc20_rows)
                       (decode_trc20_rows sha {}));
       Some \<lparr>ta_balance = balance, ta_trc20 = tokens\<rparr>
     }"

definition decode_tron_account ::
  "(byte list \<Rightarrow> byte list) \<Rightarrow> raw \<Rightarrow> string \<Rightarrow> tron_account option" where
  "decode_tron_account sha data requested_address =
     do {
       requested_hex \<leftarrow> tron_base58_address_hex sha requested_address;
       envelope \<leftarrow> decode_exact_json_object data [''data'', ''success'', ''meta''];
       guard_opt (envelope ''data'' \<noteq> None \<and> envelope ''success'' = Some (JBool True));
       rows \<leftarrow> decode_raw_json_array (envelope ''data'') max_tron_account_rows;
       (case rows of
          [] \<Rightarrow> Some \<lparr>ta_balance = 0, ta_trc20 = []\<rparr>
        | row # _ \<Rightarrow> decode_tron_account_row sha requested_hex row)
     }"

text \<open>\<open>escape\<close> is \<open>url.PathEscape\<close>, which leaves a base58 address as it is.\<close>

definition tron_get_account ::
  "(byte list \<Rightarrow> byte list) \<Rightarrow> (string \<Rightarrow> string) \<Rightarrow> pool_env \<Rightarrow> tron_client \<Rightarrow> string \<Rightarrow> tron_account rest" where
  "tron_get_account sha escape env t addr =
     rest_bind (tron_fetch env t (''/v1/accounts/'' @ escape addr) '''')
       (\<lambda>data. rest_lift
          (case decode_tron_account sha (json_parse data) addr of
             None \<Rightarrow> Inl (tron_unavailable env t ''malformed or unbound TronGrid account response'')
           | Some a \<Rightarrow> Inr a))"

subsection \<open>Identity and status\<close>

definition genesis_type :: gtype where
  "genesis_type = GStruct [field ''blockID'' GString,
     field ''block_header'' (GStruct [field ''raw_data'' (GStruct [field ''number'' GInt])])]"

definition sub_struct :: "gval \<Rightarrow> string \<Rightarrow> gval" where
  "sub_struct v k = (case get_field v k of Some s \<Rightarrow> s | None \<Rightarrow> VStruct [])"

definition tron_genesis_block_id :: "pool_env \<Rightarrow> tron_client \<Rightarrow> string rest" where
  "tron_genesis_block_id env t =
     rest_bind (tron_do env t ''/wallet/getblockbynum'' (json_print (JObj [(''num'', JNum ''0'')])) genesis_type)
       (\<lambda>out. rest_lift
          (if (case hex_decode (str_field out ''blockID'') of None \<Rightarrow> True | Some d \<Rightarrow> length d \<noteq> 32) \<or>
              int_field (sub_struct (sub_struct out ''block_header'') ''raw_data'') ''number'' \<noteq> 0
           then Inl (tron_unavailable env t ''malformed genesis block'')
           else Inr (to_lower (str_field out ''blockID''))))"

definition tron_receipt_results :: "string list" where
  "tron_receipt_results =
     [''SUCCESS'', ''REVERT'', ''BAD_JUMP_DESTINATION'', ''OUT_OF_MEMORY'', ''PRECOMPILED_CONTRACT'',
      ''STACK_TOO_SMALL'', ''STACK_TOO_LARGE'', ''ILLEGAL_OPERATION'', ''STACK_OVERFLOW'',
      ''OUT_OF_ENERGY'', ''OUT_OF_TIME'', ''JVM_STACK_OVER_FLOW'', ''TRANSFER_FAILED'', ''INVALID_CODE'']"

definition contract_result_type :: gtype where
  "contract_result_type = GStruct [field ''txID'' GString,
     field ''ret'' (GSlice (GStruct [field ''contractRet'' GString]))]"

text \<open>The loop over \<open>ret\<close>: the last result that is not a success wins.\<close>

fun contract_rows_result :: "string \<Rightarrow> gval list \<Rightarrow> string option" where
  "contract_rows_result acc [] = Some acc"
| "contract_rows_result acc (row # rows) =
     (let normalized = to_upper (str_field row ''contractRet'') in
      if normalized \<notin> set tron_receipt_results then None
      else contract_rows_result (if normalized \<noteq> ''SUCCESS'' then normalized else acc) rows)"

definition tron_transaction_contract_result ::
  "pool_env \<Rightarrow> tron_client \<Rightarrow> string \<Rightarrow> string \<Rightarrow> string rest" where
  "tron_transaction_contract_result env t tx_id payload =
     rest_bind (tron_do env t ''/wallet/gettransactionbyid'' payload contract_result_type)
       (\<lambda>out. rest_lift
          (if \<not> tron_transaction_id_re (str_field out ''txID'') \<or>
              \<not> equal_fold (str_field out ''txID'') tx_id \<or> slice_field out ''ret'' = []
           then Inl (tron_unavailable env t ''malformed transaction result'')
           else (case contract_rows_result ''SUCCESS'' (slice_field out ''ret'') of
              None \<Rightarrow> Inl (tron_unavailable env t ''unknown transaction contract result'')
            | Some result \<Rightarrow> Inr result)))"

definition tron_info_type :: gtype where
  "tron_info_type = GStruct [field ''id'' GString, field ''blockNumber'' (GPtr GInt),
     field ''receipt'' (GStruct [field ''result'' GString]), field ''result'' GString]"

definition tron_status_of_result :: "pool_env \<Rightarrow> tron_client \<Rightarrow> string \<Rightarrow> go_error + string" where
  "tron_status_of_result env t result =
     (if result = ''FAILED'' then Inr ''failed''
      else if result \<notin> set tron_receipt_results
      then Inl (tron_unavailable env t ''unknown transaction receipt result'')
      else if result = ''SUCCESS'' then Inr ''confirmed'' else Inr ''failed'')"

definition tron_transaction_status :: "pool_env \<Rightarrow> tron_client \<Rightarrow> string \<Rightarrow> string rest" where
  "tron_transaction_status env t tx_id =
     (let payload = json_print (JObj [(''value'', JStr tx_id)]) in
      rest_bind (tron_do env t ''/wallet/gettransactioninfobyid'' payload tron_info_type)
        (\<lambda>out. let ident = str_field out ''id''; block = ptr_int_field out ''blockNumber'';
               receipt = str_field (sub_struct out ''receipt'') ''result''; top = str_field out ''result'' in
           if ident = '''' \<and> block = None \<and> receipt = '''' \<and> top = '''' then rest_lift (Inr ''unknown'')
           else if \<not> tron_transaction_id_re tx_id \<or> \<not> tron_transaction_id_re ident \<or>
                   \<not> equal_fold ident tx_id \<or> (case block of None \<Rightarrow> True | Some b \<Rightarrow> b < 0)
           then rest_lift (Inl (tron_unavailable env t ''malformed transaction receipt''))
           else
             (let result = to_upper receipt in
              if result = '''' \<and> top \<noteq> '''' then
                (if \<not> equal_fold top ''FAILED''
                 then rest_lift (Inl (tron_unavailable env t ''unknown transaction result''))
                 else rest_lift (tron_status_of_result env t ''FAILED''))
              else if result = '''' then
                rest_bind (tron_transaction_contract_result env t tx_id payload)
                  (\<lambda>result. rest_lift (tron_status_of_result env t result))
              else rest_lift (tron_status_of_result env t result))))"

subsection \<open>Fee reads\<close>

definition unmarshal_raw_map :: "raw \<Rightarrow> (string \<rightharpoonup> json) option" where
  \<comment> \<open>into a \<open>map[string]json.RawMessage\<close>, null leaving it nil, which the caller rejects\<close>
  "unmarshal_raw_map raw = (case raw of Some (JObj kvs) \<Rightarrow> Some (map_of (rev kvs)) | _ \<Rightarrow> None)"

text \<open>The path and the body of a read, no body for a GET.\<close>

definition fee_data_request ::
  "string \<Rightarrow> string \<Rightarrow> string \<Rightarrow> string \<Rightarrow> string \<Rightarrow> (string \<times> string) option" where
  "fee_data_request operation address contract selector parameter =
     (if operation = ''account'' then Some (''/v1/accounts/'' @ address, '''')
      else if operation = ''block'' then Some (''/wallet/getnowblock'', json_print (JObj []))
      else if operation = ''parameters'' then Some (''/wallet/getchainparameters'', json_print (JObj []))
      else if operation = ''resources'' then
        Some (''/wallet/getaccountresource'',
          json_print (JObj [(''address'', JStr address), (''visible'', JBool True)]))
      else if operation = ''constant'' then
        Some (''/wallet/triggerconstantcontract'',
          json_print (JObj [(''contract_address'', JStr contract), (''function_selector'', JStr selector),
            (''owner_address'', JStr address), (''parameter'', JStr parameter), (''visible'', JBool True)]))
      else None)"

definition tron_fee_data ::
  "pool_env \<Rightarrow> tron_client \<Rightarrow> string \<Rightarrow> string \<Rightarrow> string \<Rightarrow> string \<Rightarrow> string \<Rightarrow> json rest" where
  "tron_fee_data env t operation address contract selector parameter =
     (case fee_data_request operation address contract selector parameter of
        None \<Rightarrow> rest_lift (Inl (OtherError ''unsupported TRON fee read''))
      | Some (path, payload) \<Rightarrow>
          rest_bind (tron_fetch env t path payload)
            (\<lambda>data. rest_lift
               (case (json_parse data, unmarshal_raw_map (json_parse data)) of
                  (Some j, Some envelope) \<Rightarrow>
                    if envelope ''Error'' \<noteq> None \<or> envelope ''error'' \<noteq> None \<or>
                       envelope ''success'' = Some (JBool False)
                    then Inl (tron_unavailable env t ''TRON fee read failed'')
                    else Inr j
                | _ \<Rightarrow> Inl (tron_unavailable env t ''malformed TRON fee response''))))"

subsection \<open>Broadcast\<close>

definition decode_tron_message :: "(string \<Rightarrow> bool) \<Rightarrow> string \<Rightarrow> string" where
  "decode_tron_message printable msg =
     (if msg = '''' then ''''
      else (case hex_decode msg of
         None \<Rightarrow> msg
       | Some b \<Rightarrow> (let text = map (\<lambda>x. char_of (unat x)) b in if printable text then text else msg)))"

definition shape_type :: gtype where "shape_type = GStruct [field ''transaction'' GString]"

text \<open>Where a signed transaction is sent, and what of it.\<close>

definition tron_broadcast_request :: "string \<Rightarrow> string \<times> string" where
  "tron_broadcast_request payload =
     (case Option.bind (json_parse payload) (unmarshal False shape_type (gzero shape_type)) of
        Some shape \<Rightarrow>
          if str_field shape ''transaction'' \<noteq> '''' then
            (''/wallet/broadcasthex'',
             json_print (JObj [(''transaction'', JStr (str_field shape ''transaction''))]))
          else (''/wallet/broadcasttransaction'', payload)
      | None \<Rightarrow> (''/wallet/broadcasttransaction'', payload))"

definition json_bool :: "json \<Rightarrow> bool option" where
  \<comment> \<open>\<open>json.Unmarshal\<close> into a bool: null leaves it false\<close>
  "json_bool j = (case j of JBool b \<Rightarrow> Some b | JNull \<Rightarrow> Some False | _ \<Rightarrow> None)"

definition optional_string :: "raw \<Rightarrow> string option" where
  "optional_string raw = (case raw of None \<Rightarrow> Some '''' | Some j \<Rightarrow> json_string (Some j))"

definition tron_rejection :: "(string \<Rightarrow> bool) \<Rightarrow> string \<Rightarrow> string \<Rightarrow> go_error" where
  "tron_rejection printable code message =
     (let msg = decode_tron_message printable message;
          msg = (if msg = '''' then code else msg);
          msg = (if msg = '''' then ''broadcast rejected'' else msg)
      in NodeError (-1) (if code \<noteq> '''' \<and> msg \<noteq> code then code @ '': '' @ msg else msg))"

text \<open>The answer of the node: a transaction id, a rejection or neither.\<close>

definition tron_broadcast_answer ::
  "(string \<Rightarrow> bool) \<Rightarrow> (string \<Rightarrow> go_error) \<Rightarrow> raw \<Rightarrow> go_error + string" where
  "tron_broadcast_answer printable unavailable data =
     (case decode_exact_json_object data [''result'', ''txid'', ''code'', ''message'', ''Error''] of
        None \<Rightarrow> Inl (unavailable ''malformed TronGrid broadcast response'')
      | Some obj \<Rightarrow>
          (let members = length (object_keys data) in
           case obj ''result'' of
             None \<Rightarrow>
               (case json_string (obj ''Error'') of
                  Some provider_error \<Rightarrow>
                    if members \<noteq> 1 \<or> provider_error = ''''
                    then Inl (unavailable ''malformed TronGrid broadcast response'')
                    else Inl (NodeError (-1) provider_error)
                | None \<Rightarrow> Inl (unavailable ''malformed TronGrid broadcast response''))
           | Some result_raw \<Rightarrow>
               (case json_bool result_raw of
                  None \<Rightarrow> Inl (unavailable ''malformed TronGrid broadcast response'')
                | Some True \<Rightarrow>
                    (case json_string (obj ''txid'') of
                       Some tx_id \<Rightarrow>
                         if members \<noteq> 2 \<or> \<not> tron_transaction_id_re tx_id
                         then Inl (unavailable ''malformed TronGrid broadcast response'')
                         else Inr tx_id
                     | None \<Rightarrow> Inl (unavailable ''malformed TronGrid broadcast response''))
                | Some False \<Rightarrow>
                    if obj ''txid'' \<noteq> None \<or> obj ''Error'' \<noteq> None
                    then Inl (unavailable ''ambiguous TronGrid broadcast response'')
                    else (case (optional_string (obj ''code''), optional_string (obj ''message'')) of
                       (Some code, Some message) \<Rightarrow> Inl (tron_rejection printable code message)
                     | _ \<Rightarrow> Inl (unavailable ''malformed TronGrid broadcast response'')))))"

definition tron_broadcast ::
  "(string \<Rightarrow> bool) \<Rightarrow> pool_env \<Rightarrow> tron_client \<Rightarrow> string \<Rightarrow> string rest" where
  "tron_broadcast printable env t payload =
     (let (path, payload) = tron_broadcast_request payload in
      rest_bind (tron_fetch env t path payload)
        (\<lambda>data. rest_lift (tron_broadcast_answer printable (tron_unavailable env t) (json_parse data))))"

subsection \<open>What the decoders guarantee\<close>

lemma tron_fetch_sends:
  "snd (tron_fetch env t path payload w) = snd (exchange env (tr_base t @ path, payload) w)"
  by (simp add: tron_fetch_def case_prod_beta Let_def)

lemma tron_broadcast_sends:
  "w_sent (snd (tron_broadcast printable env t payload w)) =
     w_sent w @ [(tr_base t @ fst (tron_broadcast_request payload), snd (tron_broadcast_request payload))]"
  by (auto simp: tron_broadcast_def rest_bind_def rest_lift_def case_prod_beta tron_fetch_sends [symmetric]
      split: sum.splits) (simp_all add: tron_fetch_def exchange_def case_prod_beta Let_def)

text \<open>A transaction id is returned only with an unambiguous acceptance.\<close>

lemma tron_broadcast_answer_accepted:
  assumes "tron_broadcast_answer printable unavailable data = Inr tx"
  shows "\<exists>kvs. data = Some (JObj kvs) \<and> distinct (map fst kvs) \<and>
    set kvs = {(''result'', JBool True), (''txid'', JStr tx)} \<and> tron_transaction_id_re tx"
proof -
  let ?members = "[''result'', ''txid'', ''code'', ''message'', ''Error'']"
  obtain obj where obj: "decode_exact_json_object data ?members = Some obj"
    using assms by (auto simp: tron_broadcast_answer_def split: option.splits)
  note run = assms [unfolded tron_broadcast_answer_def obj option.case Let_def]
  obtain r where r: "obj ''result'' = Some r"
    using run by (cases "obj ''result''") (auto split: option.splits if_splits)
  have b: "json_bool r = Some True"
    using run unfolding r option.case
    by (cases "json_bool r") (auto split: option.splits if_splits bool.splits)
  obtain id where id: "json_string (obj ''txid'') = Some id"
    using run unfolding r option.case b by (cases "json_string (obj ''txid'')") auto
  have tx: "length (object_keys data) = 2" "tron_transaction_id_re tx" "id = tx"
    using run unfolding r option.case b id by (auto split: if_splits)
  have members: "obj ''result'' = Some (JBool True)" "obj ''txid'' = Some (JStr tx)"
    using r b id tx(2,3)
    by (auto simp: json_bool_def json_string_def tron_transaction_id_re_def hex_text_def
        split: json.splits option.splits)
  obtain kvs where kvs: "data = Some (JObj kvs)" "distinct (map fst kvs)" "obj = map_of kvs"
    using obj unfolding decode_exact_json_object_iff by blast
  have "(''result'', JBool True) \<in> set kvs" "(''txid'', JStr tx) \<in> set kvs"
    using members kvs(3) by (simp_all add: map_of_SomeD)
  moreover have "card (set kvs) = 2"
    using tx(1) kvs(1,2) by (simp add: object_keys_def distinct_card distinct_map)
  ultimately have "set kvs = {(''result'', JBool True), (''txid'', JStr tx)}"
    by (intro card_seteq [symmetric]) auto
  then show ?thesis using kvs tx(2) by blast
qed

text \<open>
  A TRON broadcast counts as accepted only on an unambiguous answer: an object with exactly the
  members \<open>result: true\<close> and a 64-digit hexadecimal \<open>txid\<close>, each once, and nothing else.
\<close>

theorem tron_acceptance_is_unambiguous:
  assumes "tron_broadcast_answer printable unavailable answer = Inr tx"
  shows "\<exists>kvs. answer = Some (JObj kvs) \<and> distinct (map fst kvs) \<and>
    set kvs = {(''result'', JBool True), (''txid'', JStr tx)} \<and> tron_transaction_id_re tx"
  using assms by (rule tron_broadcast_answer_accepted)

end
