(* ===== verification/Solana.thy ===== *)
theory Solana
  imports Evm Base58
begin

section \<open>The Solana client\<close>

text \<open>
  \<open>upstream/solana_balance.go\<close>, \<open>upstream/solana_status.go\<close> and the methods of
  \<open>upstream/solana.go\<close> that read balances, identity and status or submit. The decoders accept
  an answer only if it is complete, unambiguous, consistent with itself and about the account,
  mint or signature that was asked for.
\<close>

definition max_solana_u64 :: int where "max_solana_u64 = 2 ^ 64 - 1"
definition max_solana_token_account_rows :: nat where "max_solana_token_account_rows = 10000"

definition spl_token_program :: string where
  "spl_token_program = ''TokenkegQfeZyiNwAJbNbGKPFXCWuBvf9Ss623VQ5DA''"
definition spl_token_2022_program :: string where
  "spl_token_2022_program = ''TokenzQdBNbLqP5VEhdkAS6EPFLC1PHnBqCXEpPxuEb''"

definition solana_base58_decoded_length :: "string \<Rightarrow> nat option" where
  "solana_base58_decoded_length value =
     map_option (\<lambda>n. length (takeWhile (\<lambda>c. c = CHR ''1'') value) + length (bytes_of_nat n))
       (base58_value 0 value)"

definition is_valid_solana_public_key :: "string \<Rightarrow> bool" where
  "is_valid_solana_public_key value \<longleftrightarrow>
     \<not> (length value < 32 \<or> length value > 44) \<and> solana_base58_decoded_length value = Some 32"

definition solana_signature_ok :: "string \<Rightarrow> bool" where
  "solana_signature_ok value \<longleftrightarrow>
     \<not> (length value < 64 \<or> length value > 88) \<and> solana_base58_decoded_length value = Some 64"

definition unsigned_decimal_re :: "string \<Rightarrow> bool" where
  "unsigned_decimal_re s \<longleftrightarrow> s = ''0'' \<or> (all_digits s \<and> hd s \<noteq> CHR ''0'')"

definition parse_solana_u64 :: "json \<Rightarrow> bool \<Rightarrow> int option" where
  "parse_solana_u64 raw quoted =
     (case (if quoted then json_string (Some raw)
            else (case raw of JNum lit \<Rightarrow> Some lit | _ \<Rightarrow> None)) of
        None \<Rightarrow> None
      | Some value \<Rightarrow>
          if \<not> unsigned_decimal_re value then None
          else (let parsed = int (nat_of_dec value) in
                if parsed > max_solana_u64 then None else Some parsed))"

definition solana_api_version_re :: "string \<Rightarrow> bool" where
  "solana_api_version_re s \<longleftrightarrow> s \<noteq> [] \<and> is_digit (hd s) \<and> length s \<le> 32 \<and>
     list_all (\<lambda>c. is_digit c \<or> is_upper c \<or> is_lower c \<or> c \<in> set ''.+-'') (tl s)"

text \<open>\<open>requiredSolanaString\<close>\<close>

definition required_solana_string :: "(string \<rightharpoonup> json) \<Rightarrow> string \<Rightarrow> nat \<Rightarrow> string option" where
  "required_solana_string obj key maximum =
     do {
       value \<leftarrow> json_string (obj key);
       guard_opt (value \<noteq> '''' \<and> length value \<le> maximum);
       Some value
     }"

text \<open>An optional size: absent is \<open>Some None\<close>, unreadable \<open>None\<close>.\<close>

definition optional_solana_space :: "(string \<rightharpoonup> json) \<Rightarrow> string \<Rightarrow> int option option" where
  "optional_solana_space obj key =
     (case obj key of None \<Rightarrow> Some None | Some raw \<Rightarrow> map_option Some (parse_solana_u64 raw False))"

text \<open>The decoded context is its slot.\<close>

definition decode_solana_context :: "raw \<Rightarrow> int option" where
  "decode_solana_context raw =
     do {
       obj \<leftarrow> decode_exact_json_object raw [''slot'', ''apiVersion''];
       slot_raw \<leftarrow> obj ''slot'';
       slot \<leftarrow> parse_solana_u64 slot_raw False;
       guard_opt (case obj ''apiVersion'' of
           None \<Rightarrow> True
         | Some v \<Rightarrow> (case json_string (Some v) of None \<Rightarrow> False | Some s \<Rightarrow> solana_api_version_re s));
       Some slot
     }"

definition decode_solana_native_balance :: "raw \<Rightarrow> int option" where
  "decode_solana_native_balance raw =
     do {
       obj \<leftarrow> decode_exact_json_object raw [''context'', ''value''];
       guard_opt (obj ''context'' \<noteq> None \<and> obj ''value'' \<noteq> None);
       decode_solana_context (obj ''context'');
       value \<leftarrow> obj ''value'';
       parse_solana_u64 value False
     }"

subsection \<open>Token accounts\<close>

definition trim_right_zeros :: "string \<Rightarrow> string" where
  "trim_right_zeros s = rev (dropWhile (\<lambda>c. c = CHR ''0'') (rev s))"

definition canonical_solana_ui_amount :: "int \<Rightarrow> nat \<Rightarrow> string" where
  "canonical_solana_ui_amount amount decimals =
     (let digits = dec_of_int amount in
      if decimals = 0 then digits
      else
        let digits = (if length digits \<le> decimals
                      then replicate (decimals - length digits + 1) CHR ''0'' @ digits else digits);
            point = length digits - decimals;
            whole = take point digits;
            fraction = trim_right_zeros (drop point digits)
        in if fraction = '''' then whole else whole @ ''.'' @ fraction)"

text \<open>\<open>^(0|[1-9][0-9]*)(?:\\.[0-9]+)?$\<close>\<close>

definition solana_ui_amount_re :: "string \<Rightarrow> bool" where
  "solana_ui_amount_re s \<longleftrightarrow>
     (let whole = takeWhile is_digit s; rest = drop (length whole) s in
      unsigned_decimal_re whole \<and>
      (rest = '''' \<or> (hd rest = CHR ''.'' \<and> all_digits (tl rest))))"

definition json_int :: "json \<Rightarrow> int option" where
  \<comment> \<open>\<open>json.Unmarshal\<close> into an int: null leaves it zero\<close>
  "json_int j = (case j of JNum lit \<Rightarrow> parse_int64 lit | JNull \<Rightarrow> Some 0 | _ \<Rightarrow> None)"

definition solana_ui_float_ok :: "json \<Rightarrow> bool" where
  "solana_ui_float_ok j =
     (case j of JNull \<Rightarrow> True
      | JNum lit \<Rightarrow> float_finite (rat_of_literal lit) \<and> float_nonneg (rat_of_literal lit)
      | _ \<Rightarrow> False)"

definition decode_solana_token_amount :: "raw \<Rightarrow> int option" where
  "decode_solana_token_amount raw =
     do {
       obj \<leftarrow> decode_exact_json_object raw [''amount'', ''decimals'', ''uiAmount'', ''uiAmountString''];
       amount_raw \<leftarrow> obj ''amount'';
       decimals_raw \<leftarrow> obj ''decimals'';
       ui_raw \<leftarrow> obj ''uiAmount'';
       guard_opt (obj ''uiAmountString'' \<noteq> None);
       amount \<leftarrow> parse_solana_u64 amount_raw True;
       decimals \<leftarrow> json_int decimals_raw;
       guard_opt (0 \<le> decimals \<and> decimals \<le> 255);
       guard_opt (solana_ui_float_ok ui_raw);
       ui_string \<leftarrow> required_solana_string obj ''uiAmountString'' 128;
       guard_opt (solana_ui_amount_re ui_string \<and>
                  ui_string = canonical_solana_ui_amount amount (nat decimals));
       Some amount
     }"

definition decode_solana_token_info :: "raw \<Rightarrow> string \<Rightarrow> string \<Rightarrow> int option" where
  "decode_solana_token_info raw requested_owner requested_mint =
     do {
       let consumed = [''isNative'', ''mint'', ''owner'', ''state'', ''tokenAmount''];
       info \<leftarrow> decode_extensible_json_object raw consumed;
       guard_opt (list_all (\<lambda>k. info k \<noteq> None) consumed);
       native_raw \<leftarrow> info ''isNative'';
       guard_opt (case native_raw of JBool _ \<Rightarrow> True | JNull \<Rightarrow> True | _ \<Rightarrow> False);
       mint \<leftarrow> required_solana_string info ''mint'' 44;
       guard_opt (mint = requested_mint \<and> is_valid_solana_public_key mint);
       owner \<leftarrow> required_solana_string info ''owner'' 44;
       guard_opt (owner = requested_owner \<and> is_valid_solana_public_key owner);
       account_state \<leftarrow> required_solana_string info ''state'' 32;
       guard_opt (account_state = ''initialized'' \<or> account_state = ''frozen'');
       decode_solana_token_amount (info ''tokenAmount'')
     }"

definition spaces_agree :: "int option \<Rightarrow> int option \<Rightarrow> bool" where
  "spaces_agree a b = (case (a, b) of (Some x, Some y) \<Rightarrow> x = y | _ \<Rightarrow> True)"

definition decode_solana_token_account :: "raw \<Rightarrow> string \<Rightarrow> string \<Rightarrow> int option" where
  "decode_solana_token_account raw requested_owner requested_mint =
     do {
       account \<leftarrow> decode_exact_json_object raw
          [''data'', ''executable'', ''lamports'', ''owner'', ''rentEpoch'', ''space''];
       guard_opt (list_all (\<lambda>k. account k \<noteq> None)
          [''data'', ''executable'', ''lamports'', ''owner'', ''rentEpoch'']);
       executable \<leftarrow> account ''executable'';
       guard_opt (executable = JBool False \<or> executable = JNull);
       lamports \<leftarrow> account ''lamports'';
       parse_solana_u64 lamports False;
       rent_epoch \<leftarrow> account ''rentEpoch'';
       parse_solana_u64 rent_epoch False;
       program_owner \<leftarrow> required_solana_string account ''owner'' 44;
       guard_opt (program_owner = spl_token_program \<or> program_owner = spl_token_2022_program);
       account_space \<leftarrow> optional_solana_space account ''space'';
       data \<leftarrow> decode_exact_json_object (account ''data'') [''program'', ''parsed'', ''space''];
       program \<leftarrow> required_solana_string data ''program'' 32;
       guard_opt (program = ''spl-token'' \<or> program = ''spl-token-2022'');
       guard_opt (\<not> (program_owner = spl_token_program \<and> program \<noteq> ''spl-token''));
       data_space \<leftarrow> optional_solana_space data ''space'';
       guard_opt (spaces_agree account_space data_space);
       guard_opt (data ''parsed'' \<noteq> None);
       parsed \<leftarrow> decode_exact_json_object (data ''parsed'') [''info'', ''type''];
       parsed_type \<leftarrow> required_solana_string parsed ''type'' 32;
       guard_opt (parsed_type = ''account'');
       guard_opt (parsed ''info'' \<noteq> None);
       decode_solana_token_info (parsed ''info'') requested_owner requested_mint
     }"

text \<open>The loop over the accounts, with the sum so far and the public keys seen.\<close>

fun sum_solana_token_accounts ::
  "string \<Rightarrow> string \<Rightarrow> string set \<Rightarrow> int \<Rightarrow> json list \<Rightarrow> int option" where
  "sum_solana_token_accounts owner mint seen acc [] = Some acc"
| "sum_solana_token_accounts owner mint seen acc (row_raw # rows) =
     do {
       row \<leftarrow> decode_exact_json_object (Some row_raw) [''pubkey'', ''account''];
       pubkey \<leftarrow> required_solana_string row ''pubkey'' 44;
       guard_opt (is_valid_solana_public_key pubkey);
       guard_opt (pubkey \<notin> seen);
       guard_opt (row ''account'' \<noteq> None);
       amount \<leftarrow> decode_solana_token_account (row ''account'') owner mint;
       guard_opt (acc + amount \<le> max_solana_u64);
       sum_solana_token_accounts owner mint (insert pubkey seen) (acc + amount) rows
     }"

definition decode_solana_token_balance :: "raw \<Rightarrow> string \<Rightarrow> string \<Rightarrow> int option" where
  "decode_solana_token_balance raw requested_owner requested_mint =
     do {
       obj \<leftarrow> decode_exact_json_object raw [''context'', ''value''];
       guard_opt (obj ''context'' \<noteq> None \<and> obj ''value'' \<noteq> None);
       decode_solana_context (obj ''context'');
       rows \<leftarrow> decode_raw_json_array (obj ''value'') max_solana_token_account_rows;
       sum_solana_token_accounts requested_owner requested_mint {} 0 rows
     }"

subsection \<open>Signature status\<close>

text \<open>
  \<open>equivalentSolanaJSON\<close>: both sides decode into \<open>any\<close> with numbers kept as text; equal
  values are those with the same normal form.
\<close>

definition equivalent_solana_json :: "json \<Rightarrow> json \<Rightarrow> bool" where
  "equivalent_solana_json l r \<longleftrightarrow> json_any l = json_any r"

definition valid_solana_transaction_error :: "json \<Rightarrow> bool" where
  "valid_solana_transaction_error raw =
     (case raw of
        JStr name \<Rightarrow> name \<noteq> '''' \<and> length name \<le> 128
      | JObj kvs \<Rightarrow> decode_unique_json_object (Some raw) \<noteq> None \<and> length kvs = 1
      | _ \<Rightarrow> False)"

definition validate_solana_deprecated_status :: "json \<Rightarrow> json \<Rightarrow> bool \<Rightarrow> bool" where
  "validate_solana_deprecated_status raw err_raw failed =
     (case decode_exact_json_object (Some raw) [''Ok'', ''Err''] of
        None \<Rightarrow> False
      | Some obj \<Rightarrow>
          length (object_keys (Some raw)) = 1 \<and>
          (if \<not> failed then obj ''Ok'' = Some JNull
           else (case obj ''Err'' of None \<Rightarrow> False | Some e \<Rightarrow> equivalent_solana_json e err_raw)))"

text \<open>\<open>Some None\<close> is a null status, not known to this node.\<close>

definition decode_solana_confirmation_status :: "json \<Rightarrow> string option option" where
  "decode_solana_confirmation_status raw =
     (case raw of
        JNull \<Rightarrow> Some None
      | JStr status \<Rightarrow>
          if status \<in> {''processed'', ''confirmed'', ''finalized''} then Some (Some status) else None
      | _ \<Rightarrow> None)"

definition confirmations_consistent :: "string option \<Rightarrow> bool \<Rightarrow> bool" where
  "confirmations_consistent confirmation confirmations_null =
     (case confirmation of
        None \<Rightarrow> True
      | Some s \<Rightarrow> \<not> (s = ''finalized'' \<and> \<not> confirmations_null) \<and>
                  \<not> (s \<noteq> ''finalized'' \<and> confirmations_null))"

definition solana_status_entry :: "int \<Rightarrow> json \<Rightarrow> string option" where
  "solana_status_entry context_slot entry_raw =
     do {
       let required = [''slot'', ''confirmations'', ''err'', ''status'', ''confirmationStatus''];
       entry \<leftarrow> decode_exact_json_object (Some entry_raw) required;
       guard_opt (list_all (\<lambda>k. entry k \<noteq> None) required);
       slot_raw \<leftarrow> entry ''slot'';
       slot \<leftarrow> parse_solana_u64 slot_raw False;
       guard_opt (slot \<le> context_slot);
       confirmations \<leftarrow> entry ''confirmations'';
       guard_opt (confirmations = JNull \<or> parse_solana_u64 confirmations False \<noteq> None);
       confirmation_raw \<leftarrow> entry ''confirmationStatus'';
       confirmation \<leftarrow> decode_solana_confirmation_status confirmation_raw;
       guard_opt (confirmations_consistent confirmation (confirmations = JNull));
       err_raw \<leftarrow> entry ''err'';
       guard_opt (err_raw = JNull \<or> valid_solana_transaction_error err_raw);
       status_raw \<leftarrow> entry ''status'';
       guard_opt (validate_solana_deprecated_status status_raw err_raw (err_raw \<noteq> JNull));
       Some (case confirmation of
           None \<Rightarrow> ''unknown''
         | Some s \<Rightarrow> if s = ''processed'' then ''pending''
                     else if err_raw \<noteq> JNull then ''failed'' else ''confirmed'')
     }"

definition decode_solana_signature_status :: "raw \<Rightarrow> string option" where
  "decode_solana_signature_status raw =
     do {
       obj \<leftarrow> decode_exact_json_object raw [''context'', ''value''];
       guard_opt (obj ''context'' \<noteq> None \<and> obj ''value'' \<noteq> None);
       context_slot \<leftarrow> decode_solana_context (obj ''context'');
       entries \<leftarrow> decode_raw_json_array (obj ''value'') 1;
       guard_opt (length entries = 1);
       (if hd entries = JNull then Some ''unknown''
        else solana_status_entry context_slot (hd entries))
     }"

subsection \<open>Methods\<close>

definition solana_fail :: "string \<Rightarrow> 'a io" where
  "solana_fail message = io_fail (Unavailable ''solana'' message)"

definition solana_decoded :: "string \<Rightarrow> 'a option \<Rightarrow> 'a io" where
  "solana_decoded message r = (case r of None \<Rightarrow> solana_fail message | Some x \<Rightarrow> io_return x)"

definition solana_call :: "pool_env \<Rightarrow> string \<Rightarrow> json list \<Rightarrow> json io" where
  "solana_call env method params p w = pool_call env False method params p w"

definition solana_call_extensible :: "pool_env \<Rightarrow> string \<Rightarrow> json list \<Rightarrow> json io" where
  "solana_call_extensible env method params p w = pool_call env True method params p w"

definition solana_genesis_hash :: "pool_env \<Rightarrow> string io" where
  "solana_genesis_hash env =
     io_bind (solana_call env ''getGenesisHash'' [])
       (\<lambda>raw. solana_decoded ''malformed genesis hash''
          (do { hash \<leftarrow> json_string (Some raw);
                guard_opt (\<not> (length hash < 32 \<or> length hash > 128)); Some hash }))"

definition solana_get_balance :: "pool_env \<Rightarrow> string \<Rightarrow> int io" where
  "solana_get_balance env address =
     (if \<not> is_valid_solana_public_key address then solana_fail ''invalid account identity''
      else io_bind (solana_call env ''getBalance'' [JStr address])
        (\<lambda>raw. solana_decoded ''malformed getBalance value'' (decode_solana_native_balance (Some raw))))"

definition json_parsed_options :: json where
  "json_parsed_options = JObj [(''commitment'', JStr ''confirmed''), (''encoding'', JStr ''jsonParsed'')]"

definition solana_get_token_balance :: "pool_env \<Rightarrow> string \<Rightarrow> string \<Rightarrow> int io" where
  "solana_get_token_balance env address mint =
     (if \<not> is_valid_solana_public_key address \<or> \<not> is_valid_solana_public_key mint
      then solana_fail ''invalid token query identity''
      else io_bind (solana_call env ''getTokenAccountsByOwner''
             [JStr address, JObj [(''mint'', JStr mint)], json_parsed_options])
        (\<lambda>raw. solana_decoded ''malformed token account result''
           (decode_solana_token_balance (Some raw) address mint)))"

definition solana_signature_status :: "pool_env \<Rightarrow> string \<Rightarrow> string io" where
  "solana_signature_status env signature =
     (if \<not> solana_signature_ok signature then solana_fail ''invalid transaction signature''
      else io_bind (solana_call env ''getSignatureStatuses''
             [JArr [JStr signature], JObj [(''searchTransactionHistory'', JBool True)]])
        (\<lambda>raw. solana_decoded ''malformed signature status'' (decode_solana_signature_status (Some raw))))"

definition solana_send_transaction :: "pool_env \<Rightarrow> string \<Rightarrow> string io" where
  "solana_send_transaction env payload_base64 =
     io_bind (pool_call_once env ''sendTransaction''
         [JStr payload_base64, JObj [(''encoding'', JStr ''base64'')]])
       (\<lambda>raw. solana_decoded ''malformed sendTransaction result''
          (do { sig \<leftarrow> json_string (Some raw); guard_opt (solana_signature_ok sig); Some sig }))"

definition token_accounts_type :: gtype where
  "token_accounts_type = GStruct [field ''value'' (GSlice (GStruct [field ''pubkey'' GString]))]"

text \<open>The accounts of one program that were not seen before, in order.\<close>

fun new_token_accounts :: "string list \<Rightarrow> gval list \<Rightarrow> string list" where
  "new_token_accounts accounts [] = accounts"
| "new_token_accounts accounts (a # rest) =
     (let pubkey = str_field a ''pubkey'' in
      if pubkey = '''' \<or> pubkey \<in> set accounts then new_token_accounts accounts rest
      else new_token_accounts (accounts @ [pubkey]) rest)"

fun solana_owned_accounts_loop :: "pool_env \<Rightarrow> string \<Rightarrow> string list \<Rightarrow> string list \<Rightarrow> string list io" where
  "solana_owned_accounts_loop env owner [] accounts = io_return accounts"
| "solana_owned_accounts_loop env owner (program # programs) accounts =
     io_bind (solana_call_extensible env ''getTokenAccountsByOwner''
         [JStr owner, JObj [(''programId'', JStr program)], json_parsed_options])
       (\<lambda>raw. case unmarshal False token_accounts_type (gzero token_accounts_type) raw of
          None \<Rightarrow> solana_fail ''malformed token account result''
        | Some out \<Rightarrow>
            solana_owned_accounts_loop env owner programs
              (new_token_accounts accounts (slice_field out ''value'')))"

definition solana_get_owned_token_accounts :: "pool_env \<Rightarrow> string \<Rightarrow> string list io" where
  "solana_get_owned_token_accounts env owner =
     solana_owned_accounts_loop env owner [spl_token_program, spl_token_2022_program] []"

subsection \<open>What the decoders guarantee\<close>

lemma parse_solana_u64_range:
  "parse_solana_u64 raw q = Some v \<Longrightarrow> 0 \<le> v \<and> v \<le> max_solana_u64"
  by (auto simp: parse_solana_u64_def Let_def split: option.splits if_splits)

lemma decode_solana_token_info_range:
  "decode_solana_token_info raw ow m = Some v \<Longrightarrow> 0 \<le> v \<and> v \<le> max_solana_u64"
  by (auto simp: decode_solana_token_info_def decode_solana_token_amount_def bind_eq_Some_conv
      dest: parse_solana_u64_range)

lemma decode_solana_token_account_range:
  "decode_solana_token_account raw ow m = Some v \<Longrightarrow> 0 \<le> v \<and> v \<le> max_solana_u64"
  by (auto simp: decode_solana_token_account_def bind_eq_Some_conv dest: decode_solana_token_info_range)

text \<open>The public key and the amount of a row, as an accepted balance reads it.\<close>

definition token_row :: "string \<Rightarrow> string \<Rightarrow> json \<Rightarrow> (string \<times> int) option" where
  "token_row ow m row_raw =
     do {
       row \<leftarrow> decode_exact_json_object (Some row_raw) [''pubkey'', ''account''];
       pubkey \<leftarrow> required_solana_string row ''pubkey'' 44;
       guard_opt (is_valid_solana_public_key pubkey);
       amount \<leftarrow> decode_solana_token_account (row ''account'') ow m;
       Some (pubkey, amount)
     }"

lemma sum_solana_token_accounts_spec:
  assumes "sum_solana_token_accounts ow m seen acc rows = Some v" "acc \<le> max_solana_u64"
  shows "\<exists>keyed. map_opt (token_row ow m) rows = Some keyed \<and>
    distinct (map fst keyed) \<and> set (map fst keyed) \<inter> seen = {} \<and>
    v = acc + sum_list (map snd keyed) \<and> v \<le> max_solana_u64"
  using assms
proof (induction rows arbitrary: seen acc)
  case (Cons r rows)
  then obtain row key amount where
    row: "decode_exact_json_object (Some r) [''pubkey'', ''account''] = Some row"
    and key: "required_solana_string row ''pubkey'' 44 = Some key" "is_valid_solana_public_key key"
    "key \<notin> seen"
    and amount: "decode_solana_token_account (row ''account'') ow m = Some amount"
    "acc + amount \<le> max_solana_u64"
    and rest: "sum_solana_token_accounts ow m (insert key seen) (acc + amount) rows = Some v"
    by (auto simp: bind_eq_Some_conv)
  have "token_row ow m r = Some (key, amount)" using row key amount by (simp add: token_row_def)
  then show ?case using Cons.IH [OF rest amount(2)] key(3) by auto
qed simp

lemma decode_solana_token_balance_spec:
  assumes "decode_solana_token_balance raw ow m = Some v"
  shows "\<exists>rows keyed. map_opt (token_row ow m) rows = Some keyed \<and> distinct (map fst keyed) \<and>
    v = sum_list (map snd keyed) \<and> v \<le> max_solana_u64"
proof -
  obtain rows where "sum_solana_token_accounts ow m {} 0 rows = Some v"
    using assms by (auto simp: decode_solana_token_balance_def bind_eq_Some_conv)
  from sum_solana_token_accounts_spec [OF this] show ?thesis
    by (auto simp: max_solana_u64_def)
qed

text \<open>The evidence an answer must carry before a signature counts as settled.\<close>

definition settled_entry :: "json \<Rightarrow> (string \<rightharpoonup> json) \<Rightarrow> bool" where
  "settled_entry entry_raw entry \<longleftrightarrow>
     (\<exists>kvs. entry_raw = JObj kvs \<and> distinct (map fst kvs) \<and> entry = map_of kvs) \<and>
     (entry ''confirmationStatus'' = Some (JStr ''confirmed'') \<and> entry ''confirmations'' \<noteq> Some JNull \<or>
      entry ''confirmationStatus'' = Some (JStr ''finalized'') \<and> entry ''confirmations'' = Some JNull)"

lemma confirmation_status_Some:
  "decode_solana_confirmation_status raw = Some (Some s) \<longleftrightarrow>
     raw = JStr s \<and> s \<in> {''processed'', ''confirmed'', ''finalized''}"
  by (auto simp: decode_solana_confirmation_status_def split: json.splits)

lemma solana_status_entry_confirmed:
  assumes "solana_status_entry slot entry_raw = Some ''confirmed''"
  shows "\<exists>entry. settled_entry entry_raw entry \<and> entry ''err'' = Some JNull \<and>
    entry ''status'' = Some (JObj [(''Ok'', JNull)])"
proof -
  obtain entry confirmations c err st where
    entry: "decode_exact_json_object (Some entry_raw)
      [''slot'', ''confirmations'', ''err'', ''status'', ''confirmationStatus''] = Some entry"
    and conf: "entry ''confirmations'' = Some confirmations"
    and raw: "entry ''confirmationStatus'' = Some c"
    and err: "entry ''err'' = Some err" and st: "entry ''status'' = Some st"
    and status: "validate_solana_deprecated_status st err (err \<noteq> JNull)"
    and confirmation: "\<exists>s. decode_solana_confirmation_status c = Some (Some s) \<and>
      confirmations_consistent (Some s) (confirmations = JNull) \<and> s \<noteq> ''processed'' \<and> err = JNull"
    using assms
    by (auto simp: solana_status_entry_def bind_eq_Some_conv split: option.splits if_splits)
  have "settled_entry entry_raw entry"
    using entry conf raw confirmation
    by (auto simp: settled_entry_def decode_exact_json_object_iff confirmation_status_Some
        confirmations_consistent_def)
  moreover have "st = JObj [(''Ok'', JNull)]"
    using status confirmation
    by (auto simp: validate_solana_deprecated_status_def decode_exact_json_object_iff object_keys_def
        length_Suc_conv split: option.splits if_splits)
  ultimately show ?thesis using err st confirmation by blast
qed

text \<open>
  A Solana signature is reported confirmed only on settled evidence: one status entry, whose
  members are unique, at commitment \<open>confirmed\<close> (with a confirmation count) or \<open>finalized\<close> (with
  none), with a null error and a deprecated status of exactly \<open>Ok\<close>.
\<close>

theorem solana_confirmation_needs_evidence:
  assumes "decode_solana_signature_status raw = Some ''confirmed''"
  shows "\<exists>vals entry_raw entry. decode_exact_json_object raw [''context'', ''value''] = Some vals \<and>
    vals ''value'' = Some (JArr [entry_raw]) \<and> settled_entry entry_raw entry \<and>
    entry ''err'' = Some JNull \<and> entry ''status'' = Some (JObj [(''Ok'', JNull)])"
proof -
  obtain vals slot entries where vals: "decode_exact_json_object raw [''context'', ''value''] = Some vals"
    and entries: "decode_raw_json_array (vals ''value'') 1 = Some entries" "length entries = 1"
    and status: "solana_status_entry slot (hd entries) = Some ''confirmed''"
    using assms by (auto simp: decode_solana_signature_status_def bind_eq_Some_conv split: if_splits)
  have "vals ''value'' = Some (JArr [hd entries])"
    using entries by (cases entries)
      (auto simp: decode_raw_json_array_def split: option.splits json.splits if_splits)
  with vals solana_status_entry_confirmed [OF status] show ?thesis by blast
qed

end
