(* ===== verification/Gateway.thy ===== *)
theory Gateway
  imports Tron Solana Guard
begin

section \<open>The gateway and its chain reads\<close>

text \<open>
  The state the \<open>kt_*\<close> handlers share (\<open>gateway\<close>: a client per network and the broadcast guard)
  and the handlers that read a chain without caching: \<open>handlers/chainparams.go\<close>,
  \<open>evm_preflight.go\<close>, \<open>tron_preflight.go\<close>, \<open>transaction_status.go\<close> and \<open>network_identity.go\<close>.
  A handler takes the raw parameters and returns the JSON result or a JSON-RPC error; it is a
  state transformer over the gateway and the world. Everything outside the repository is in
  \<open>gateway_env\<close>: the transport, SHA-256, and two tables of Go's library.
\<close>

record gateway_env =
  ge_net :: pool_env
  ge_sha :: "byte list \<Rightarrow> byte list"
  ge_printable :: "string \<Rightarrow> bool"

record gateway =
  gw_evm :: "string \<Rightarrow> pool"
  gw_sol :: "string \<Rightarrow> pool"
  gw_tron :: "string \<Rightarrow> tron_client"
  gw_guard :: broadcast_guard

type_synonym 'a handler = "gateway \<Rightarrow> world \<Rightarrow> (rpc_error + 'a) \<times> gateway \<times> world"

definition h_return :: "'a \<Rightarrow> 'a handler" where "h_return x g w = (Inr x, g, w)"

definition h_fail :: "rpc_error \<Rightarrow> 'a handler" where "h_fail e g w = (Inl e, g, w)"

definition h_lift :: "rpc_error + 'a \<Rightarrow> 'a handler" where "h_lift r g w = (r, g, w)"

definition h_bind :: "'a handler \<Rightarrow> ('a \<Rightarrow> 'b handler) \<Rightarrow> 'b handler" where
  "h_bind m f g w = (case m g w of (Inl e, g, w) \<Rightarrow> (Inl e, g, w) | (Inr x, g, w) \<Rightarrow> f x g w)"

lemma h_simps [simp]:
  "h_bind (h_fail e) f = h_fail e"
  "h_bind (h_return x) f = f x"
  "h_bind (h_lift (Inl e)) f = h_fail e"
  "h_bind (h_lift (Inr x)) f = f x"
  by (simp_all add: fun_eq_iff h_bind_def h_fail_def h_return_def h_lift_def)

text \<open>Calls through the client of a network; the error stays the client's.\<close>

definition on_evm :: "string \<Rightarrow> 'a io \<Rightarrow> (go_error + 'a) handler" where
  "on_evm network m g w =
     (case m (gw_evm g network) w of
        (r, p, w) \<Rightarrow> (Inr r, g\<lparr>gw_evm := (gw_evm g)(network := p)\<rparr>, w))"

definition on_sol :: "string \<Rightarrow> 'a io \<Rightarrow> (go_error + 'a) handler" where
  "on_sol network m g w =
     (case m (gw_sol g network) w of
        (r, p, w) \<Rightarrow> (Inr r, g\<lparr>gw_sol := (gw_sol g)(network := p)\<rparr>, w))"

definition on_tron :: "string \<Rightarrow> (tron_client \<Rightarrow> 'a rest) \<Rightarrow> (go_error + 'a) handler" where
  "on_tron network m g w = (case m (gw_tron g network) w of (r, w) \<Rightarrow> (Inr r, g, w))"

text \<open>An upstream failure becomes the client-visible error under the given label.\<close>

definition or_upstream_error :: "string \<Rightarrow> (go_error + 'a) handler \<Rightarrow> 'a handler" where
  "or_upstream_error label m =
     h_bind m (\<lambda>r. case r of Inl e \<Rightarrow> h_fail (upstream_error label e) | Inr x \<Rightarrow> h_return x)"

definition or_error :: "'a option \<Rightarrow> rpc_error \<Rightarrow> rpc_error + 'a" where
  "or_error x e = (case x of None \<Rightarrow> Inl e | Some v \<Rightarrow> Inr v)"

definition check :: "rpc_error option \<Rightarrow> rpc_error + unit" where
  "check e = (case e of None \<Rightarrow> Inr () | Some e \<Rightarrow> Inl e)"

definition string_struct :: "string list \<Rightarrow> gtype" where
  "string_struct names = GStruct (map (\<lambda>n. field n GString) names)"

definition decode_params :: "string list \<Rightarrow> string \<Rightarrow> raw \<Rightarrow> rpc_error + gval" where
  "decode_params names message params =
     or_error (decode_strict_json (string_struct names) params) (invalid_params message)"

definition bind_sum :: "'e + 'a \<Rightarrow> ('a \<Rightarrow> 'e + 'b) \<Rightarrow> 'e + 'b" where
  "bind_sum r f = (case r of Inl e \<Rightarrow> Inl e | Inr x \<Rightarrow> f x)"

lemma bind_sum_Inr [simp]: "bind_sum r f = Inr y \<longleftrightarrow> (\<exists>x. r = Inr x \<and> f x = Inr y)"
  by (cases r) (auto simp: bind_sum_def)

subsection \<open>chainparams.go\<close>

record fee_tier =
  ft_max_priority_fee :: int
  ft_max_fee :: int

definition fee_percentiles :: "int list" where "fee_percentiles = [10, 50, 90]"
definition fee_history_blocks :: int where "fee_history_blocks = 5"

text \<open>The sums over the usable reward rows, one per tier.\<close>

definition reward_sums :: "int list list \<Rightarrow> int list" where
  "reward_sums rows = map (\<lambda>i. sum_list (map (\<lambda>row. row ! i) rows)) [0..<length fee_percentiles]"

definition tiers_of_history :: "fee_history_result \<Rightarrow> go_error + fee_tier list" where
  "tiers_of_history fh =
     (if fh_base_fee_per_gas fh = [] \<or> fh_reward fh = []
      then Inl (Unavailable ''evm'' ''empty eth_feeHistory result'')
      else
        let base_fee = last (fh_base_fee_per_gas fh);
            usable = filter (\<lambda>row. \<not> length row < length fee_percentiles) (fh_reward fh)
        in if usable = []
           then Inl (Unavailable ''evm'' ''eth_feeHistory returned no usable reward rows'')
           else Inr (map (\<lambda>s. let prio = s div int (length usable) in
                    \<lparr>ft_max_priority_fee = prio, ft_max_fee = base_fee * 2 + prio\<rparr>) (reward_sums usable)))"

definition fee_tiers_from_history :: "pool_env \<Rightarrow> fee_tier list io" where
  "fee_tiers_from_history env =
     io_bind (evm_fee_history env fee_history_blocks fee_percentiles)
       (\<lambda>fh. io_lift (tiers_of_history fh))"

definition tiers_of_gas_price :: "int \<Rightarrow> fee_tier list" where
  "tiers_of_gas_price gp =
     (let pct = (\<lambda>mul. gp * mul div 100) in
      [\<lparr>ft_max_priority_fee = pct 10, ft_max_fee = pct 100\<rparr>,
       \<lparr>ft_max_priority_fee = pct 15, ft_max_fee = pct 125\<rparr>,
       \<lparr>ft_max_priority_fee = pct 20, ft_max_fee = pct 150\<rparr>])"

definition fee_tiers_from_gas_price :: "pool_env \<Rightarrow> fee_tier list io" where
  "fee_tiers_from_gas_price env =
     io_bind (evm_gas_price env) (\<lambda>gp. io_return (tiers_of_gas_price gp))"

text \<open>The history first; when it is unusable, the gas price.\<close>

definition fee_tiers :: "pool_env \<Rightarrow> fee_tier list io" where
  "fee_tiers env p w =
     (case fee_tiers_from_history env p w of
        (Inr tiers, p, w) \<Rightarrow> (Inr tiers, p, w)
      | (Inl _, p, w) \<Rightarrow> fee_tiers_from_gas_price env p w)"

definition fee_tier_json :: "fee_tier \<Rightarrow> json" where
  "fee_tier_json t =
     JObj [(''maxPriorityFeePerGas'', JStr (dec_of_int (ft_max_priority_fee t))),
           (''maxFeePerGas'', JStr (dec_of_int (ft_max_fee t)))]"

definition chain_params_json :: "string \<Rightarrow> string \<Rightarrow> int \<Rightarrow> fee_tier list \<Rightarrow> json" where
  "chain_params_json network address nonce tiers =
     JObj [(''network'', JStr network), (''address'', JStr address), (''nonce'', JStr (dec_of_int nonce)),
           (''fees'', JObj [(''slow'', fee_tier_json (tiers ! 0)), (''standard'', fee_tier_json (tiers ! 1)),
                           (''fast'', fee_tier_json (tiers ! 2))])]"

definition evm_chain_error :: "string \<Rightarrow> rpc_error" where
  \<open>evm_chain_error purpose =
     invalid_params (''invalid params: "chain" must be an EVM chain ('' @ quoted_list evm_chain_order @ '')'' @ purpose)\<close>

text \<open>The parameter checks of an EVM read: the chain, its network and the address.\<close>

definition checked_evm_network :: "string \<Rightarrow> string \<Rightarrow> string \<Rightarrow> rpc_error + string" where
  "checked_evm_network purpose chain network =
     bind_sum (validate_chain chain)
       (\<lambda>meta. if \<not> cm_evm meta then Inl (evm_chain_error purpose) else resolve_network chain network)"

definition get_chain_params :: "gateway_env \<Rightarrow> raw \<Rightarrow> json handler" where
  \<open>get_chain_params env params =
     h_bind (h_lift (decode_params [''chain'', ''network'', ''address'']
         ''invalid params: expected {"chain", "network"?, "address"}'' params))
       (\<lambda>p. let chain = str_field p ''chain''; address = str_field p ''address'' in
        h_bind (h_lift (checked_evm_network '' for kt_getChainParams'' chain (str_field p ''network'')))
          (\<lambda>network.
           h_bind (h_lift (check (validate_address (ge_sha env) chain address)))
             (\<lambda>_.
              h_bind (or_upstream_error chain (on_evm network (evm_transaction_count (ge_net env) address)))
                (\<lambda>nonce.
                 h_bind (or_upstream_error chain (on_evm network (fee_tiers (ge_net env))))
                   (\<lambda>tiers. h_return (chain_params_json network address nonce tiers))))))\<close>

lemma reward_sums_sorted:
  assumes "\<forall>row \<in> set rows. length row = length fee_percentiles \<and> sorted row"
  shows "sorted (reward_sums rows)"
  unfolding sorted_iff_nth_mono reward_sums_def
  using assms by (auto intro!: sum_list_mono sorted_nth_mono)

definition tier_ok :: "fee_tier \<Rightarrow> bool" where
  "tier_ok t \<longleftrightarrow> 0 \<le> ft_max_priority_fee t \<and> ft_max_priority_fee t \<le> ft_max_fee t"

definition tier_le :: "fee_tier \<Rightarrow> fee_tier \<Rightarrow> bool" where
  "tier_le a b \<longleftrightarrow> ft_max_priority_fee a \<le> ft_max_priority_fee b \<and> ft_max_fee a \<le> ft_max_fee b"

definition tiers_ok :: "fee_tier list \<Rightarrow> bool" where
  "tiers_ok tiers \<longleftrightarrow> length tiers = 3 \<and> (\<forall>t \<in> set tiers. tier_ok t) \<and> sorted_wrt tier_le tiers"

lemma tiers_of_gas_price_ok: "0 \<le> gp \<Longrightarrow> tiers_ok (tiers_of_gas_price gp)"
  by (auto simp: tiers_ok_def tier_ok_def tier_le_def tiers_of_gas_price_def Let_def
      intro!: zdiv_mono1)

lemma tiers_of_history_ok:
  assumes "fee_history_ok n (length fee_percentiles) fh" "tiers_of_history fh = Inr tiers"
  shows "tiers_ok tiers"
proof -
  let ?rows = "fh_reward fh" and ?k = "int (length (fh_reward fh))"
  have rows: "\<forall>row \<in> set ?rows. length row = length fee_percentiles \<and> sorted row"
    and nonneg: "\<forall>row \<in> set ?rows. \<forall>v \<in> set row. 0 \<le> v"
    and base: "\<forall>b \<in> set (fh_base_fee_per_gas fh). 0 \<le> b"
    using assms(1) by (auto simp: fee_history_ok_def)
  have usable: "filter (\<lambda>row. \<not> length row < length fee_percentiles) ?rows = ?rows"
    using rows by (simp add: filter_id_conv)
  have ne: "?rows \<noteq> []" "fh_base_fee_per_gas fh \<noteq> []"
    using assms(2) by (auto simp: tiers_of_history_def split: if_splits)
  then have last: "0 \<le> last (fh_base_fee_per_gas fh)" using base last_in_set by blast
  have tiers: "tiers = map (\<lambda>s. \<lparr>ft_max_priority_fee = s div ?k,
      ft_max_fee = last (fh_base_fee_per_gas fh) * 2 + s div ?k\<rparr>) (reward_sums ?rows)"
    using assms(2) ne unfolding tiers_of_history_def usable by (simp add: Let_def)
  have pos: "\<forall>s \<in> set (reward_sums ?rows). 0 \<le> s"
    using nonneg rows by (auto simp: reward_sums_def intro!: sum_list_nonneg)
  have "sorted_wrt (\<lambda>a b. a div ?k \<le> b div ?k) (reward_sums ?rows)"
    using reward_sums_sorted [OF rows] ne(1)
    by (auto intro!: sorted_wrt_mono_rel [of _ "(\<le>)"] zdiv_mono1)
  then have "sorted_wrt tier_le tiers" by (simp add: tiers tier_le_def sorted_wrt_map)
  moreover have "\<forall>t \<in> set tiers. tier_ok t"
    using pos last ne(1) by (auto simp: tiers tier_ok_def pos_imp_zdiv_nonneg_iff)
  moreover have "length tiers = 3" by (simp add: tiers reward_sums_def fee_percentiles_def)
  ultimately show ?thesis by (simp add: tiers_ok_def)
qed

text \<open>Whatever the node answers, the tiers that reach the client are ordered.\<close>

lemma io_bind_Inr:
  "io_bind m f p w = (Inr y, p', w') \<longleftrightarrow>
     (\<exists>x p1 w1. m p w = (Inr x, p1, w1) \<and> f x p1 w1 = (Inr y, p', w'))"
  by (auto simp: io_bind_def split: prod.splits sum.splits)

lemma evm_quantity_nonneg: "evm_quantity env m ps p w = (Inr v, p', w') \<Longrightarrow> 0 \<le> v"
  by (auto simp: evm_quantity_def io_bind_Inr io_lift_def dest: parse_quantity_nonneg)

lemma evm_fee_history_ok:
  "evm_fee_history env n ps p w = (Inr fh, p', w') \<Longrightarrow> fee_history_ok (nat n) (length ps) fh"
  by (auto simp: evm_fee_history_def evm_unavailable_def io_bind_Inr io_return_def
      intro: decode_evm_fee_history_ok split: if_splits option.splits)

lemma fee_tiers_ok:
  assumes "fee_tiers env p w = (Inr tiers, p', w')"
  shows "tiers_ok tiers"
  using assms
  by (auto simp: fee_tiers_def fee_tiers_from_history_def fee_tiers_from_gas_price_def io_bind_Inr
      io_lift_def io_return_def evm_gas_price_def split: prod.splits sum.splits
      dest!: evm_fee_history_ok tiers_of_history_ok evm_quantity_nonneg intro: tiers_of_gas_price_ok)

subsection \<open>evm_preflight.go\<close>

definition max_evm_call_data_bytes :: nat where "max_evm_call_data_bytes = 128 * 1024"

record evm_call_params =
  ec_chain :: string
  ec_network :: string
  ec_from :: string
  ec_to :: string
  ec_value :: string
  ec_data :: string
  ec_block_tag :: string

definition valid_evm_data :: "string \<Rightarrow> bool" where
  "valid_evm_data data \<longleftrightarrow>
     prefix ''0x'' data \<and> even (length data) \<and>
     \<not> (length data - 2) div 2 > max_evm_call_data_bytes \<and> list_all is_hex (drop 2 data)"

text \<open>The returned record is \<open>p\<close> with the value and the data in canonical form.\<close>

definition validated_evm_call ::
  "(byte list \<Rightarrow> byte list) \<Rightarrow> raw \<Rightarrow> rpc_error + evm_call_params \<times> string" where
  \<open>validated_evm_call sha params =
     bind_sum (decode_params [''chain'', ''network'', ''from'', ''to'', ''value'', ''data'', ''blockTag'']
         ''invalid params: expected {"chain", "network"?, "from", "to", "value", "data"}'' params)
       (\<lambda>p. let chain = str_field p ''chain'' in
        bind_sum (checked_evm_network '''' chain (str_field p ''network''))
          (\<lambda>network.
           if validate_address sha chain (str_field p ''from'') \<noteq> None then
             Inl (invalid_params ''invalid params: "from" must be a 0x-prefixed 20-byte hex address'')
           else if validate_address sha chain (str_field p ''to'') \<noteq> None then
             Inl (invalid_params ''invalid params: "to" must be a 0x-prefixed 20-byte hex address'')
           else (case parse_big_dec (str_field p ''value'') of
              None \<Rightarrow> Inl (invalid_params ''invalid params: "value" must be a non-negative decimal integer'')
            | Some value \<Rightarrow>
                if value < 0 then
                  Inl (invalid_params ''invalid params: "value" must be a non-negative decimal integer'')
                else if \<not> valid_evm_data (str_field p ''data'') then
                  Inl (invalid_params (''invalid params: "data" must be 0x-prefixed even-length hex no larger than '' @
                    dec_of_nat max_evm_call_data_bytes @ '' bytes''))
                else if str_field p ''blockTag'' \<notin> {'''', ''latest'', ''pending''} then
                  Inl (invalid_params ''invalid params: "blockTag" must be "latest" or "pending"'')
                else Inr (\<lparr>ec_chain = chain, ec_network = str_field p ''network'',
                    ec_from = str_field p ''from'', ec_to = str_field p ''to'',
                    ec_value = ''0x'' @ hex_of_nat (nat value), ec_data = to_lower (str_field p ''data''),
                    ec_block_tag = str_field p ''blockTag''\<rparr>, network))))\<close>

definition simulate_evm_transfer :: "gateway_env \<Rightarrow> raw \<Rightarrow> json handler" where
  "simulate_evm_transfer env params =
     h_bind (h_lift (validated_evm_call (ge_sha env) params))
       (\<lambda>(p, network).
        let block_tag = (if ec_block_tag p = '''' then ''pending'' else ec_block_tag p) in
        h_bind (or_upstream_error (ec_chain p) (on_evm network
            (evm_simulate_transaction (ge_net env) (ec_from p) (ec_to p) (ec_value p) (ec_data p) block_tag)))
          (\<lambda>return_data. h_return (JObj
             [(''blockTag'', JStr block_tag), (''data'', JStr (ec_data p)), (''from'', JStr (ec_from p)),
              (''network'', JStr network), (''returnData'', JStr return_data), (''to'', JStr (ec_to p)),
              (''value'', JStr (ec_value p))])))"

definition estimate_evm_gas :: "gateway_env \<Rightarrow> raw \<Rightarrow> json handler" where
  "estimate_evm_gas env params =
     h_bind (h_lift (validated_evm_call (ge_sha env) params))
       (\<lambda>(p, network).
        h_bind (or_upstream_error (ec_chain p) (on_evm network
            (evm_estimate_gas (ge_net env) (ec_from p) (ec_to p) (ec_value p) (ec_data p))))
          (\<lambda>gas. h_return (JObj
             [(''data'', JStr (ec_data p)), (''from'', JStr (ec_from p)), (''gas'', JStr (dec_of_int gas)),
              (''network'', JStr network), (''to'', JStr (ec_to p)), (''value'', JStr (ec_value p))])))"

definition is_pending_state_unavailable :: "go_error \<Rightarrow> bool" where
  "is_pending_state_unavailable err =
     (case err of
        NodeError _ m \<Rightarrow>
          (let message = to_lower m in
           str_contains message ''state not available for pending block'' \<or>
           str_contains message ''pending block is not available'')
      | _ \<Rightarrow> False)"

text \<open>The native balance in the latest and, where the node has one, the pending state.\<close>

definition native_views :: "gateway_env \<Rightarrow> string \<Rightarrow> string \<Rightarrow> string \<Rightarrow> (int \<times> int \<times> bool) handler" where
  "native_views env chain network address =
     h_bind (or_upstream_error chain (on_evm network (evm_get_balance_at (ge_net env) address ''latest'')))
       (\<lambda>native_latest.
        h_bind (on_evm network (evm_get_balance_at (ge_net env) address ''pending''))
          (\<lambda>r. case r of
             Inr native_pending \<Rightarrow> h_return (native_latest, native_pending, True)
           | Inl e \<Rightarrow>
               if \<not> is_pending_state_unavailable e then h_fail (upstream_error chain e)
               else h_return (native_latest, native_latest, False)))"

definition token_view ::
  "gateway_env \<Rightarrow> string \<Rightarrow> string \<Rightarrow> string \<Rightarrow> string \<Rightarrow> bool \<Rightarrow> (int \<times> bool) handler" where
  "token_view env chain network contract address pending_available =
     (let block_tag = (if \<not> pending_available then ''latest'' else ''pending'') in
      h_bind (on_evm network (evm_token_balance_at (ge_net env) contract address block_tag))
        (\<lambda>r. case r of
           Inr token \<Rightarrow> h_return (token, pending_available)
         | Inl e \<Rightarrow>
             if block_tag \<noteq> ''pending'' \<or> \<not> is_pending_state_unavailable e
             then h_fail (upstream_error chain e)
             else h_bind (or_upstream_error chain
                    (on_evm network (evm_token_balance_at (ge_net env) contract address ''latest'')))
                  (\<lambda>token. h_return (token, False))))"

definition spendable_json ::
  "string \<Rightarrow> string \<Rightarrow> int \<times> int \<times> bool \<Rightarrow> (string \<times> int) option \<Rightarrow> json" where
  "spendable_json network address views token =
     (let (native_latest, native_pending, pending_available) = views in
      JObj ([(''address'', JStr address), (''native'', JStr (dec_of_int native_pending)),
             (''nativeLatest'', JStr (dec_of_int native_latest)),
             (''nativePending'', JStr (dec_of_int native_pending)), (''network'', JStr network),
             (''pendingAvailable'', JBool pending_available)] @
            (case token of None \<Rightarrow> []
             | Some (contract, amount) \<Rightarrow>
                 [(''token'', JStr (dec_of_int amount)), (''tokenContract'', JStr contract)])))"

definition get_evm_spendable_balances :: "gateway_env \<Rightarrow> raw \<Rightarrow> json handler" where
  \<open>get_evm_spendable_balances env params =
     h_bind (h_lift (decode_params [''chain'', ''network'', ''address'', ''tokenContract'']
         ''invalid params: expected {"chain", "network"?, "address", "tokenContract"?}'' params))
       (\<lambda>p. let chain = str_field p ''chain''; address = str_field p ''address'';
               contract = str_field p ''tokenContract'' in
        h_bind (h_lift (checked_evm_network '''' chain (str_field p ''network'')))
          (\<lambda>network.
           h_bind (h_lift (check (validate_address (ge_sha env) chain address)))
             (\<lambda>_.
              h_bind (h_lift (if contract \<noteq> '''' \<and> validate_address (ge_sha env) chain contract \<noteq> None
                  then Inl (invalid_params
                    ''invalid params: "tokenContract" must be a 0x-prefixed 20-byte hex address'')
                  else Inr ()))
                (\<lambda>_.
                 h_bind (native_views env chain network address)
                   (\<lambda>(native_latest, native_pending, available).
                    if contract = '''' then
                      h_return (spendable_json network address (native_latest, native_pending, available) None)
                    else
                      h_bind (token_view env chain network contract address available)
                        (\<lambda>(token, available). h_return (spendable_json network address
                           (native_latest, native_pending, available) (Some (contract, token)))))))))\<close>

subsection \<open>tron_preflight.go\<close>

definition invalid_tron_read :: rpc_error where
  "invalid_tron_read = invalid_params ''invalid TRON fee read''"

definition constant_call_ok :: "(byte list \<Rightarrow> byte list) \<Rightarrow> string \<Rightarrow> string \<Rightarrow> string \<Rightarrow> bool" where
  "constant_call_ok sha contract selector parameter \<longleftrightarrow>
     validate_address sha ''tron'' contract = None \<and>
     selector \<in> {''transfer(address,uint256)'', ''balanceOf(address)''} \<and>
     length parameter = (if selector = ''transfer(address,uint256)'' then 128 else 64) \<and>
     (case hex_decode parameter of None \<Rightarrow> False | Some word \<Rightarrow> list_all (\<lambda>b. b = 0) (take 12 word))"

definition tron_operation_ok ::
  "(byte list \<Rightarrow> byte list) \<Rightarrow> string \<Rightarrow> string \<Rightarrow> string \<Rightarrow> string \<Rightarrow> string \<Rightarrow> bool" where
  "tron_operation_ok sha operation address contract selector parameter \<longleftrightarrow>
     (if operation \<in> {''block'', ''parameters''} then address = ''''
      else operation \<in> {''account'', ''resources'', ''constant''} \<and>
           validate_address sha ''tron'' address = None) \<and>
     (if operation = ''constant'' then constant_call_ok sha contract selector parameter
      else contract = '''' \<and> selector = '''' \<and> parameter = '''')"

definition get_tron_fee_data :: "gateway_env \<Rightarrow> raw \<Rightarrow> json handler" where
  "get_tron_fee_data env params =
     h_bind (h_lift (or_error (decode_strict_json
         (string_struct [''network'', ''operation'', ''address'', ''contract'', ''selector'', ''parameter''])
         params) invalid_tron_read))
       (\<lambda>p. let operation = str_field p ''operation''; address = str_field p ''address'';
               contract = str_field p ''contract''; selector = str_field p ''selector'';
               parameter = str_field p ''parameter'' in
        h_bind (h_lift (resolve_network ''tron'' (str_field p ''network'')))
          (\<lambda>network.
           if \<not> tron_operation_ok (ge_sha env) operation address contract selector parameter
           then h_fail invalid_tron_read
           else h_bind (on_tron network
                  (\<lambda>t. tron_fee_data (ge_net env) t operation address contract selector parameter))
             (\<lambda>r. case r of
                Inl e \<Rightarrow>
                  if e = err_tron_rate_limited then h_fail (rpc_errorf CodeRateLimited ''rate_limited'')
                  else h_fail (upstream_error ''tron'' e)
              | Inr data \<Rightarrow> h_return (JObj
                  [(''address'', JStr address), (''contract'', JStr contract), (''data'', data),
                   (''network'', JStr network), (''operation'', JStr operation),
                   (''parameter'', JStr parameter), (''selector'', JStr selector)]))))"

subsection \<open>transaction_status.go\<close>

definition transaction_hash_error :: "chain_meta \<Rightarrow> string \<Rightarrow> string \<Rightarrow> rpc_error option" where
  \<open>transaction_hash_error meta chain hash =
     (if cm_evm meta \<and> \<not> evm_receipt_hash_re hash then
        Some (invalid_params ''invalid params: "hash" must be a 0x-prefixed 32-byte transaction hash'')
      else if chain = ''tron'' \<and> \<not> tron_transaction_id_re hash then
        Some (invalid_params ''invalid params: "hash" must be a 32-byte hex transaction id'')
      else if chain = ''solana'' \<and> \<not> is_valid_solana_signature hash then
        Some (invalid_params ''invalid params: "hash" must be a Solana transaction signature'')
      else None)\<close>

text \<open>Which client of a network answers, by the family of its chain.\<close>

definition by_family :: "chain_meta \<Rightarrow> string \<Rightarrow> 'a \<Rightarrow> 'a \<Rightarrow> 'a \<Rightarrow> 'a" where
  "by_family meta chain evm tron sol =
     (if cm_evm meta then evm else if chain = ''tron'' then tron else sol)"

definition get_transaction_status :: "gateway_env \<Rightarrow> raw \<Rightarrow> json handler" where
  \<open>get_transaction_status env params =
     h_bind (h_lift (decode_params [''chain'', ''network'', ''hash'']
         ''invalid params: expected {"chain", "network"?, "hash"}'' params))
       (\<lambda>p. let chain = str_field p ''chain'' in
        h_bind (h_lift (validate_chain chain))
          (\<lambda>meta.
           h_bind (h_lift (resolve_network chain (str_field p ''network'')))
             (\<lambda>network. let hash = trim_space (str_field p ''hash'') in
              h_bind (h_lift (check (transaction_hash_error meta chain hash)))
                (\<lambda>_.
                 h_bind (or_upstream_error ''transaction_status'' (by_family meta chain
                     (on_evm network (evm_transaction_status (ge_net env) hash))
                     (on_tron network (\<lambda>t. tron_transaction_status (ge_net env) t hash))
                     (on_sol network (solana_signature_status (ge_net env) hash))))
                   (\<lambda>status. h_return (JObj [(''hash'', JStr hash), (''network'', JStr network),
                      (''status'', JStr status)]))))))\<close>

subsection \<open>network_identity.go\<close>

definition registered_identity :: "string \<Rightarrow> string" where
  "registered_identity network = (case networks network of None \<Rightarrow> '''' | Some m \<Rightarrow> nm_identity m)"

definition get_network_identity :: "gateway_env \<Rightarrow> raw \<Rightarrow> json handler" where
  \<open>get_network_identity env params =
     h_bind (h_lift (decode_params [''chain'', ''network'']
         ''invalid params: expected {"chain", "network"?}'' params))
       (\<lambda>p. let chain = str_field p ''chain'' in
        h_bind (h_lift (validate_chain chain))
          (\<lambda>meta.
           h_bind (h_lift (resolve_network chain (str_field p ''network'')))
             (\<lambda>network.
              h_bind (or_upstream_error ''network_identity'' (by_family meta chain
                  (on_evm network (evm_chain_id (ge_net env)))
                  (on_tron network (tron_genesis_block_id (ge_net env)))
                  (on_sol network (solana_genesis_hash (ge_net env)))))
                (\<lambda>identity.
                 if identity \<noteq> registered_identity network
                 then h_fail (upstream_error ''network_identity''
                        (OtherError ''live network identity mismatch''))
                 else h_return (JObj [(''identity'', JStr identity), (''network'', JStr network)])))))\<close>

subsection \<open>What the handlers guarantee\<close>

lemma h_bind_Inr:
  "h_bind m f g w = (Inr y, g', w') \<longleftrightarrow>
     (\<exists>x g1 w1. m g w = (Inr x, g1, w1) \<and> f x g1 w1 = (Inr y, g', w'))"
  by (auto simp: h_bind_def split: prod.splits sum.splits)

lemma h_lift_Inr [simp]: "h_lift r g w = (Inr y, g', w') \<longleftrightarrow> r = Inr y \<and> g' = g \<and> w' = w"
  by (auto simp: h_lift_def)

lemma h_return_Inr [simp]: "h_return x g w = (Inr y, g', w') \<longleftrightarrow> x = y \<and> g' = g \<and> w' = w"
  by (auto simp: h_return_def)

lemma h_fail_Inr [simp]: "h_fail e g w = (Inr y, g', w') \<longleftrightarrow> False"
  by (simp add: h_fail_def)

lemma or_upstream_error_Inr:
  "or_upstream_error label m g w = (Inr y, g', w') \<longleftrightarrow> m g w = (Inr (Inr y), g', w')"
  by (auto simp: or_upstream_error_def h_bind_def h_fail_def h_return_def split: prod.splits sum.splits)

lemma on_evm_Inr:
  "on_evm network m g w = (Inr (Inr y), g', w') \<Longrightarrow>
   \<exists>p. m (gw_evm g network) w = (Inr y, p, w')"
  by (auto simp: on_evm_def split: prod.splits)

lemma resolve_network_registered:
  assumes "chains chain = Some meta" "resolve_network chain network = Inr n"
  shows "\<exists>m. networks n = Some m \<and> nm_chain m = chain"
proof (cases "network = ''''")
  case False
  then show ?thesis using assms(2)
    by (auto simp: resolve_network_def split: option.splits if_splits)
next
  case True
  have "chain \<in> set chain_order"
    using assms(1) by (auto simp: chains_def chain_order_def split: if_splits)
  then have "\<exists>m. networks (mainnet_of chain) = Some m \<and> nm_chain m = chain"
    unfolding chain_order_def
    by (auto simp: mainnet_of_def networks_def network_table_def Let_def)
  then show ?thesis using assms(2) True by (simp add: resolve_network_def)
qed

text \<open>A network identity is reported only when it is the registered one of a network of the chain.\<close>

lemma get_network_identity_registered:
  assumes "get_network_identity env params g w = (Inr j, g', w')"
  shows "\<exists>network m. networks network = Some m \<and>
    j = JObj [(''identity'', JStr (nm_identity m)), (''network'', JStr network)]"
proof -
  obtain chain meta network net where
    "chains chain = Some meta" "resolve_network chain network = Inr net"
    and j: "j = JObj [(''identity'', JStr (registered_identity net)), (''network'', JStr net)]"
    using assms
    by (auto simp: get_network_identity_def h_bind_Inr validate_chain_def Let_def
        split: if_splits option.splits)
  then show ?thesis
    using resolve_network_registered [of chain meta network net] by (auto simp: registered_identity_def)
qed

subsection \<open>Parameters have one reading\<close>

lemma canonical_strings:
  "distinct names \<Longrightarrow> '''' \<notin> set names \<Longrightarrow> ''-'' \<notin> set names \<Longrightarrow> fst ` set acc \<inter> set names = {} \<Longrightarrow>
   canonical_json_fields (map (\<lambda>n. field n GString) names) acc = Some (acc @ map (\<lambda>n. (n, GString)) names)"
proof (induction names arbitrary: acc)
  case (Cons n names)
  have "canonical_json_fields (map (\<lambda>n. field n GString) names) (acc @ [(n, GString)]) =
      Some ((acc @ [(n, GString)]) @ map (\<lambda>n. (n, GString)) names)"
    using Cons.prems by (intro Cons.IH) auto
  then show ?case using Cons.prems by (auto simp: field_def)
qed simp

lemma map_of_strings: "map_of (map (\<lambda>n. (n, GString)) names) k = (if k \<in> set names then Some GString else None)"
  by (induction names) auto

lemma unmarshal_string: "unmarshal strict GString (VString '''') j =
   (case j of JStr s \<Rightarrow> Some (VString s) | JNull \<Rightarrow> Some (VString '''') | _ \<Rightarrow> None)"
  by (cases j) simp_all

lemma unmarshal_members_all:
  assumes "unmarshal_members strict fts acc kvs = Some out" "(k, j) \<in> set kvs" "distinct (map fst kvs)"
    and "\<forall>(k, j) \<in> set kvs. map_of fts k \<noteq> None" "\<forall>k \<in> set (map fst kvs). map_of acc k = None"
  shows "\<exists>v. unmarshal strict (the (map_of fts k)) (gzero (the (map_of fts k))) j = Some v"
  using assms
proof (induction kvs arbitrary: acc)
  case (Cons m kvs)
  obtain n i where m: "m = (n, i)" by (cases m)
  then obtain t v where "map_of fts n = Some t" "unmarshal strict t (gzero t) i = Some v"
    and rest: "unmarshal_members strict fts (set_field n v acc) kvs = Some out"
    using Cons.prems by (auto simp: find_field_exact split: option.splits)
  show ?case
  proof (cases "(k, j) = m")
    case True
    then show ?thesis
      using m \<open>map_of fts n = Some t\<close> \<open>unmarshal strict t (gzero t) i = Some v\<close> by simp
  next
    case False
    then have "(k, j) \<in> set kvs" using Cons.prems(2) by auto
    moreover have "map_of (set_field n v acc) k' = None" if "k' \<in> set (map fst kvs)" for k'
      using that m Cons.prems(3,5) by auto
    ultimately show ?thesis using Cons.IH [OF rest] Cons.prems(3,4) by simp
  qed
qed simp

lemma decode_params_object:
  assumes names: "distinct names" "'''' \<notin> set names" "''-'' \<notin> set names"
    and dec: "decode_params names message params = Inr p"
  shows "params = Some JNull \<and> p = VStruct [] \<or>
    (\<exists>kvs. params = Some (JObj kvs) \<and> distinct (map fst kvs) \<and> set (map fst kvs) \<subseteq> set names \<and>
       (\<forall>(k, j) \<in> set kvs. j = JNull \<or> (\<exists>s. j = JStr s)) \<and>
       (\<forall>n. str_field p n = (case map_of kvs n of Some (JStr s) \<Rightarrow> s | _ \<Rightarrow> '''')))"
proof -
  let ?fs = "map (\<lambda>n. field n GString) names" and ?fts = "map (\<lambda>n. (n, GString)) names"
  have fts: "canonical_json_fields ?fs [] = Some ?fts" "struct_fields ?fs = ?fts"
    using canonical_strings [OF names, of "[]"] by (simp_all add: struct_fields_def)
  obtain j where j: "params = Some j" "reject_duplicate_json_keys j"
    "validate_canonical_json_fields (GStruct ?fs) j" "unmarshal True (GStruct ?fs) (VStruct []) j = Some p"
    using dec by (auto simp: decode_params_def or_error_def decode_strict_json_def string_struct_def
        gzero_def split: option.splits if_splits)
  show ?thesis
  proof (cases j)
    case JNull
    then show ?thesis using j by simp
  next
    case (JObj kvs)
    obtain out where out: "unmarshal_members True ?fts [] kvs = Some out" "p = VStruct out"
      using j(4) JObj fts(2) by auto
    have d: "distinct (map fst kvs)"
      using j(2) JObj by (simp add: reject_duplicate_members_iff)
    have known: "\<forall>(k, j) \<in> set kvs. map_of ?fts k \<noteq> None"
      using j(3) JObj fts(1) by (auto simp: validate_members_iff)
    then have sub: "set (map fst kvs) \<subseteq> set names" by (auto simp: map_of_strings split: if_splits)
    have strings: "j' = JNull \<or> (\<exists>s. j' = JStr s)" if "(k, j') \<in> set kvs" for k j'
      using unmarshal_members_all [OF out(1) that d known] sub that
      by (force simp: map_of_strings gzero_def unmarshal_string split: json.splits)
    have "str_field p n = (case map_of kvs n of Some (JStr s) \<Rightarrow> s | _ \<Rightarrow> '''')" for n
    proof (cases "map_of kvs n")
      case None
      then show ?thesis
        using unmarshal_members_exact [OF out(1) known d, of n] out(2) by (simp add: str_field_def get_field_def)
    next
      case (Some i)
      then have "n \<in> set names" using sub by (force dest: map_of_SomeD)
      then show ?thesis
        using unmarshal_members_exact [OF out(1) known d, of n] out(2) Some
          strings [OF map_of_SomeD [OF Some]]
        by (auto simp: str_field_def get_field_def map_of_strings gzero_def)
    qed
    then show ?thesis using JObj j(1) d sub strings by auto
  qed (use j(4) in auto)
qed

text \<open>
  Fee suggestions are ordered whatever the node answered: the handler's tiers are three, each
  priority fee is non-negative and at most its maximum fee, and both fees do not decrease from slow
  to standard to fast, on the fee-history path and on the gas-price fallback.
\<close>

theorem fee_tiers_are_ordered:
  assumes "fst (fee_tiers env p w) = Inr tiers"
  shows "length tiers = 3 \<and>
    (\<forall>t \<in> set tiers. 0 \<le> ft_max_priority_fee t \<and> ft_max_priority_fee t \<le> ft_max_fee t) \<and>
    sorted (map ft_max_priority_fee tiers) \<and> sorted (map ft_max_fee tiers)"
proof -
  have "tiers_ok tiers" using fee_tiers_ok [of env p w tiers] assms by (metis prod.collapse)
  then show ?thesis
    by (auto simp: tiers_ok_def tier_ok_def tier_le_def sorted_wrt_map elim!: sorted_wrt_mono_rel [rotated])
qed

text \<open>
  A network identity is vouched for only when the live chain agrees with the registry: whenever
  \<open>GetNetworkIdentity\<close> succeeds, it names a registered network and answers exactly the identity
  registered for that network.
\<close>

theorem network_identity_matches_registry:
  assumes "fst (get_network_identity env params g w) = Inr answer"
  shows "\<exists>network m. networks network = Some m \<and>
    answer = JObj [(''identity'', JStr (nm_identity m)), (''network'', JStr network)]"
  using get_network_identity_registered [of env params g w answer] assms by (metis prod.collapse)

end
