(* ===== verification/Broadcast.thy ===== *)
theory Broadcast
  imports Gateway Rlp Guard_Once
begin

section \<open>kt\_broadcast\<close>

text \<open>
  \<open>handlers/broadcast.go\<close> and the rest of \<open>handlers/broadcast_guard.go\<close>: a signed payload is
  checked and brought to a canonical form, claimed in the guard under a key of chain, network
  and canonical payload, submitted by the owner of the claim through the chain's client, and
  its outcome recorded. The shared store's answers (\<open>store_answers\<close>) come from outside.
\<close>

subsection \<open>Replays and metrics\<close>

definition accepted_broadcast_result :: "string \<Rightarrow> string \<Rightarrow> string \<Rightarrow> json" where
  "accepted_broadcast_result chain network tx_hash =
     JObj [(''chain'', JStr chain), (''network'', JStr network), (''txHash'', JStr tx_hash)]"

definition submission_unknown :: "string \<Rightarrow> rpc_error" where
  "submission_unknown message =
     \<lparr>err_code = CodeSubmissionUnknown, err_message = ''submission_unknown'',
      err_data = error_data ''gateway'' message\<rparr>"

definition replay_broadcast :: "broadcast_record \<Rightarrow> string \<Rightarrow> string \<Rightarrow> rpc_error + json" where
  "replay_broadcast r chain network =
     (if br_state r = broadcast_accepted then
        Inr (accepted_broadcast_result chain network (br_tx_hash r))
      else if br_state r \<in> {broadcast_rejected, broadcast_unknown} \<and> br_error r \<noteq> None then
        Inl (the (br_error r))
      else Inl (submission_unknown ''matching signed transaction is already being processed''))"

definition metric_snapshot :: "broadcast_guard \<Rightarrow> broadcast_guard_metrics" where
  "metric_snapshot g = bg_metrics g"

definition guard_shared_enabled :: "broadcast_guard \<Rightarrow> bool" where
  "guard_shared_enabled g = bg_shared g"

definition bytes_of_string :: "string \<Rightarrow> byte list" where
  "bytes_of_string s = map of_char s"

definition guard_preimage :: "string \<Rightarrow> string \<Rightarrow> byte list \<Rightarrow> byte list" where
  "guard_preimage chain network payload =
     bytes_of_string chain @ [0] @ bytes_of_string network @ [0] @ payload"

definition broadcast_guard_key :: "(byte list \<Rightarrow> byte list) \<Rightarrow> string \<Rightarrow> string \<Rightarrow> byte list \<Rightarrow> string" where
  "broadcast_guard_key sha chain network payload =
     ''ktw:v1:broadcast:'' @ hex_encode (sha (guard_preimage chain network payload))"

subsection \<open>encoding/base64\<close>

text \<open>
  \<open>StdEncoding.DecodeString\<close>: line breaks are skipped, padding is required and ends the text,
  and the unused bits before the padding are ignored.
\<close>

definition b64_alphabet :: string where
  "b64_alphabet = ''ABCDEFGHIJKLMNOPQRSTUVWXYZabcdefghijklmnopqrstuvwxyz0123456789+/''"

definition b64_index :: "char \<Rightarrow> nat option" where
  "b64_index c = index_from 0 c b64_alphabet"

definition b64_bytes :: "nat \<Rightarrow> nat \<Rightarrow> byte list" where
  \<comment> \<open>the first \<open>n\<close> bytes of a 24-bit quantum\<close>
  "b64_bytes n v = take n [word_of_nat (v div 65536), word_of_nat (v div 256), word_of_nat v]"

fun b64_decode :: "string \<Rightarrow> byte list option" where
  "b64_decode [] = Some []"
| "b64_decode (a # b # c # d # rest) =
     (case (b64_index a, b64_index b) of
        (Some i, Some j) \<Rightarrow>
          (if c = CHR ''='' then
             (if d = CHR ''='' \<and> rest = [] then Some (b64_bytes 1 (i * 262144 + j * 4096)) else None)
           else (case b64_index c of
              None \<Rightarrow> None
            | Some k \<Rightarrow>
                if d = CHR ''='' then
                  (if rest = [] then Some (b64_bytes 2 (i * 262144 + j * 4096 + k * 64)) else None)
                else (case b64_index d of
                   None \<Rightarrow> None
                 | Some l \<Rightarrow> map_option ((@) (b64_bytes 3 (i * 262144 + j * 4096 + k * 64 + l))) (b64_decode rest))))
      | _ \<Rightarrow> None)"
| "b64_decode _ = None"

definition base64_decode :: "string \<Rightarrow> byte list option" where
  "base64_decode s = b64_decode (filter (\<lambda>c. c \<noteq> CHR 0x0A \<and> c \<noteq> CHR 0x0D) s)"

subsection \<open>The canonical payload\<close>

definition canonical_broadcast_payload :: "chain_meta \<Rightarrow> string \<Rightarrow> string \<Rightarrow> rpc_error + byte list" where
  \<open>canonical_broadcast_payload meta chain payload =
     (if cm_evm meta then
        (if \<not> evm_hex_payload_re payload then
           Inl (invalid_params ''invalid params: "payload" must be a 0x-prefixed even-length hex string for EVM chains'')
         else (case hex_decode (drop 2 payload) of
            None \<Rightarrow> Inl (invalid_params ''invalid signed EVM transaction envelope'')
          | Some raw \<Rightarrow>
              if \<not> valid_evm_broadcast_envelope raw
              then Inl (invalid_params ''invalid signed EVM transaction envelope'')
              else Inr (bytes_of_string (to_lower payload))))
      else if chain = ''solana'' then
        (case base64_decode payload of
           Some raw \<Rightarrow>
             if raw = [] then Inl (invalid_params
               ''invalid params: "payload" must be a base64-encoded signed transaction for solana'')
             else Inr raw
         | None \<Rightarrow> Inl (invalid_params
             ''invalid params: "payload" must be a base64-encoded signed transaction for solana''))
      else
        (let trimmed = trim_space payload;
             err = invalid_params
               ''invalid params: "payload" must be a signed TronGrid transaction JSON object for tron''
         in if \<not> prefix ''{'' trimmed then Inl err
            else (case json_parse trimmed of
               None \<Rightarrow> Inl err
             | Some j \<Rightarrow>
                 if \<not> reject_duplicate_json_keys j then Inl err
                 else Inr (bytes_of_string (json_print (json_any j))))))\<close>

subsection \<open>The handler\<close>

record store_answers =
  sa_setnx :: setnx_result
  sa_get :: get_result
  sa_set_ok :: bool

text \<open>The one call that can move money: the chain's own submission.\<close>

definition submit_payload ::
  "gateway_env \<Rightarrow> chain_meta \<Rightarrow> string \<Rightarrow> string \<Rightarrow> string \<Rightarrow> (go_error + string) handler" where
  "submit_payload env meta chain network payload =
     by_family meta chain
       (on_evm network (evm_send_raw_transaction (ge_net env) payload))
       (on_tron network (\<lambda>t. tron_broadcast (ge_printable env) (ge_net env) t (trim_space payload)))
       (on_sol network (solana_send_transaction (ge_net env) payload))"

definition upstream_name :: "string \<Rightarrow> string" where
  "upstream_name chain = (if chain = ''tron'' then ''trongrid'' else chain)"

text \<open>What a submission's outcome leaves in the guard.\<close>

definition outcome_record :: "string \<Rightarrow> go_error + string \<Rightarrow> broadcast_record" where
  "outcome_record chain outcome =
     (case outcome of
        Inl e \<Rightarrow>
          (let err = broadcast_error (upstream_name chain) e in
           \<lparr>br_state = (if err_code err = CodeUpstream then broadcast_rejected else broadcast_unknown),
            br_tx_hash = '''', br_error = Some err\<rparr>)
      | Inr tx_hash \<Rightarrow> \<lparr>br_state = broadcast_accepted, br_tx_hash = tx_hash, br_error = None\<rparr>)"

definition outcome_response :: "string \<Rightarrow> string \<Rightarrow> go_error + string \<Rightarrow> rpc_error + json" where
  "outcome_response chain network outcome =
     (case outcome of
        Inl e \<Rightarrow> Inl (broadcast_error (upstream_name chain) e)
      | Inr tx_hash \<Rightarrow> Inr (accepted_broadcast_result chain network tx_hash))"

definition with_guard :: "(broadcast_guard \<Rightarrow> broadcast_guard \<times> 'a) \<Rightarrow> 'a handler" where
  "with_guard f g w = (case f (gw_guard g) of (bg, x) \<Rightarrow> (Inr x, g\<lparr>gw_guard := bg\<rparr>, w))"

text \<open>
  The owner's part: submit, record the outcome (a failure to persist is logged, no more) and
  answer.
\<close>

definition submit_as_owner ::
  "gateway_env \<Rightarrow> store_answers \<Rightarrow> chain_meta \<Rightarrow> string \<Rightarrow> string \<Rightarrow> string \<Rightarrow> string \<Rightarrow> json handler" where
  "submit_as_owner env store meta chain network payload key =
     h_bind (submit_payload env meta chain network payload)
       (\<lambda>outcome.
        h_bind (with_guard (complete_guard key (outcome_record chain outcome) (sa_set_ok store)))
          (\<lambda>_. h_lift (outcome_response chain network outcome)))"

definition claim_and_submit ::
  "gateway_env \<Rightarrow> store_answers \<Rightarrow> chain_meta \<Rightarrow> string \<Rightarrow> string \<Rightarrow> string \<Rightarrow> string \<Rightarrow> json handler" where
  "claim_and_submit env store meta chain network payload key g w =
     h_bind (with_guard (begin_guard (w_now w) key (sa_setnx store) (sa_get store)))
       (\<lambda>r. case r of
          GuardUnavailable \<Rightarrow> h_fail (submission_unknown
            ''broadcast idempotency guard unavailable; transaction was not submitted'')
        | Replay r \<Rightarrow> h_lift (replay_broadcast r chain network)
        | Owner \<Rightarrow> submit_as_owner env store meta chain network payload key) g w"

text \<open>The checks before anything is claimed: chain, network, payload and its key.\<close>

definition checked_broadcast ::
  "gateway_env \<Rightarrow> raw \<Rightarrow> rpc_error + (chain_meta \<times> string \<times> string \<times> string \<times> string)" where
  \<open>checked_broadcast env params =
     bind_sum (decode_params [''chain'', ''network'', ''payload'']
         ''invalid params: expected {"chain", "network"?, "payload"}'' params)
       (\<lambda>p. let chain = str_field p ''chain''; payload = str_field p ''payload'' in
        bind_sum (validate_chain chain)
          (\<lambda>meta.
           bind_sum (resolve_network chain (str_field p ''network''))
             (\<lambda>network.
              if payload = '''' then
                Inl (invalid_params ''invalid params: "payload" is required and must not be blank'')
              else bind_sum (canonical_broadcast_payload meta chain payload)
                (\<lambda>canonical. Inr (meta, chain, network, payload,
                   broadcast_guard_key (ge_sha env) chain network canonical)))))\<close>

definition broadcast :: "gateway_env \<Rightarrow> store_answers \<Rightarrow> raw \<Rightarrow> json handler" where
  "broadcast env store params =
     h_bind (h_lift (checked_broadcast env params))
       (\<lambda>(meta, chain, network, payload, key).
          claim_and_submit env store meta chain network payload key)"

end
