(* ===== verification/Broadcast_Once.thy ===== *)
theory Broadcast_Once
  imports Broadcast
begin

section \<open>A signed payload reaches a provider at most once\<close>

text \<open>
  What \<open>broadcast\<close> sends and answers. \<open>submit_payload\<close> sends at most one request; \<open>broadcast\<close>
  sends nothing unless the guard made it the owner of the payload's key; and a gateway without
  a shared store never submits a key twice within the retention time, whatever requests come
  in between, unless the node itself rejected it.
\<close>

subsection \<open>One submission\<close>

definition sends_upto :: "nat \<Rightarrow> world \<Rightarrow> world \<Rightarrow> bool" where
  "sends_upto n w w' \<longleftrightarrow>
     (\<exists>reqs. w_sent w' = w_sent w @ reqs \<and> length reqs \<le> n) \<and> w_now w \<le> w_now w'"

lemma sends_upto_refl [simp]: "sends_upto n w w"
  by (simp add: sends_upto_def)

lemma sends_upto_exchange: "sends_upto 1 w (snd (exchange env req w))"
  by (auto simp: sends_upto_def exchange_def Let_def)

lemma sends_upto_call_once: "sends_upto 1 w (snd (snd (pool_call_once env m ps p w)))"
  using sends_upto_exchange
  by (auto simp: pool_call_once_def pool_call_once_loop_find case_prod_beta Let_def split: option.splits)

definition pure_io :: "('a \<Rightarrow> 'b io) \<Rightarrow> bool" where
  "pure_io f \<longleftrightarrow> (\<forall>x p w. snd (f x p w) = (p, w))"

lemma sends_upto_bind:
  assumes "sends_upto n w (snd (snd (m p w)))" "pure_io f"
  shows "sends_upto n w (snd (snd (io_bind m f p w)))"
  using assms by (auto simp: io_bind_def pure_io_def split: prod.splits sum.splits)

lemma pure_io_intros:
  "pure_io (\<lambda>x. io_return (h x))" "pure_io (\<lambda>x. evm_unavailable (t x))"
  "pure_io (\<lambda>x. solana_decoded m (k x))"
  by (auto simp: pure_io_def io_return_def evm_unavailable_def solana_decoded_def solana_fail_def
      io_fail_def split: option.splits)

lemma sends_upto_evm_send: "sends_upto 1 w (snd (snd (evm_send_raw_transaction env payload p w)))"
proof -
  have "pure_io (\<lambda>raw. case json_string (Some raw) of
          Some hash \<Rightarrow> if evm_receipt_hash_re hash then io_return hash
            else evm_unavailable ''malformed eth_sendRawTransaction result''
        | None \<Rightarrow> evm_unavailable ''malformed eth_sendRawTransaction result'')"
    by (auto simp: pure_io_def io_return_def evm_unavailable_def split: option.splits)
  then show ?thesis
    unfolding evm_send_raw_transaction_def by (intro sends_upto_bind sends_upto_call_once)
qed

lemma sends_upto_solana_send: "sends_upto 1 w (snd (snd (solana_send_transaction env payload p w)))"
  unfolding solana_send_transaction_def
  by (intro sends_upto_bind sends_upto_call_once pure_io_intros)

lemma sends_upto_tron_broadcast: "sends_upto 1 w (snd (tron_broadcast printable env t payload w))"
proof -
  have "snd (tron_broadcast printable env t payload w) =
      snd (exchange env (tr_base t @ fst (tron_broadcast_request payload),
                         snd (tron_broadcast_request payload)) w)"
    by (auto simp: tron_broadcast_def rest_bind_def rest_lift_def case_prod_beta
        tron_fetch_sends [symmetric] split: sum.splits)
  then show ?thesis using sends_upto_exchange by metis
qed

lemma submit_payload_spec:
  assumes "submit_payload env meta chain network payload g w = (r, g', w')"
  shows "gw_guard g' = gw_guard g" "sends_upto 1 w w'" "\<exists>outcome. r = Inr outcome"
  using assms sends_upto_evm_send [of w "ge_net env" payload "gw_evm g network"]
    sends_upto_solana_send [of w "ge_net env" payload "gw_sol g network"]
    sends_upto_tron_broadcast [of w "ge_printable env" "ge_net env" "gw_tron g network" "trim_space payload"]
  by (auto simp: submit_payload_def by_family_def on_evm_def on_sol_def on_tron_def
      split: if_splits prod.splits)

subsection \<open>The handler\<close>

text \<open>What a handled broadcast did to the guard, newest event first.\<close>

definition submission :: "gateway_env \<Rightarrow> chain_meta \<Rightarrow> string \<Rightarrow> string \<Rightarrow> string \<Rightarrow> gateway \<Rightarrow> world \<Rightarrow> go_error + string" where
  "submission env meta chain network payload g w =
     (case submit_payload env meta chain network payload g w of
        (Inr outcome, _, _) \<Rightarrow> outcome | (Inl _, _, _) \<Rightarrow> Inl (OtherError ''''))"

definition broadcast_events ::
  "gateway_env \<Rightarrow> store_answers \<Rightarrow> raw \<Rightarrow> gateway \<Rightarrow> world \<Rightarrow> guard_event list" where
  "broadcast_events env store params g w =
     (case checked_broadcast env params of
        Inl _ \<Rightarrow> []
      | Inr (meta, chain, network, payload, key) \<Rightarrow>
          (case begin_guard (w_now w) key (sa_setnx store) (sa_get store) (gw_guard g) of
             (bg, Owner) \<Rightarrow>
               (let r = outcome_record chain
                      (submission env meta chain network payload (g\<lparr>gw_guard := bg\<rparr>) w)
                in (if snd (complete_guard key r (sa_set_ok store) bg) then [Finish key r] else []) @
                   [Claim key (w_now w)])
           | _ \<Rightarrow> []))"

lemma broadcast_rejected_params:
  "checked_broadcast env params = Inl e \<Longrightarrow> broadcast env store params g w = (Inl e, g, w)"
  by (simp add: broadcast_def h_fail_def)

lemma broadcast_not_owner:
  assumes "checked_broadcast env params = Inr (meta, chain, network, payload, key)"
    and "begin_guard (w_now w) key (sa_setnx store) (sa_get store) (gw_guard g) = (bg, res)"
    and "res \<noteq> Owner"
  shows "snd (broadcast env store params g w) = (g\<lparr>gw_guard := bg\<rparr>, w)"
  using assms
  by (cases res) (auto simp: broadcast_def claim_and_submit_def with_guard_def h_bind_def h_lift_def h_fail_def)

lemma broadcast_owner:
  assumes "checked_broadcast env params = Inr (meta, chain, network, payload, key)"
    and "begin_guard (w_now w) key (sa_setnx store) (sa_get store) (gw_guard g) = (bg, Owner)"
    and "submit_payload env meta chain network payload (g\<lparr>gw_guard := bg\<rparr>) w = (Inr outcome, g1, w1)"
  shows "broadcast env store params g w =
    (outcome_response chain network outcome,
     g1\<lparr>gw_guard := fst (complete_guard key (outcome_record chain outcome) (sa_set_ok store) bg)\<rparr>, w1)"
proof -
  have "gw_guard g1 = bg" using submit_payload_spec(1) [OF assms(3)] by simp
  then show ?thesis
    using assms
    by (auto simp: broadcast_def claim_and_submit_def submit_as_owner_def with_guard_def h_bind_def
        h_lift_def case_prod_beta split: sum.splits)
qed

text \<open>The whole of a handled broadcast, by what the guard decided.\<close>

lemma broadcast_cases:
  assumes "broadcast env store params g w = (r, g', w')"
  obtains (refused) e where "checked_broadcast env params = Inl e" "r = Inl e" "g' = g" "w' = w"
  | (other) meta chain network payload key bg res where
      "checked_broadcast env params = Inr (meta, chain, network, payload, key)"
      "begin_guard (w_now w) key (sa_setnx store) (sa_get store) (gw_guard g) = (bg, res)"
      "res \<noteq> Owner" "g' = g\<lparr>gw_guard := bg\<rparr>" "w' = w"
  | (owner) meta chain network payload key bg outcome g1 where
      "checked_broadcast env params = Inr (meta, chain, network, payload, key)"
      "begin_guard (w_now w) key (sa_setnx store) (sa_get store) (gw_guard g) = (bg, Owner)"
      "submit_payload env meta chain network payload (g\<lparr>gw_guard := bg\<rparr>) w = (Inr outcome, g1, w')"
      "r = outcome_response chain network outcome"
      "gw_guard g' = fst (complete_guard key (outcome_record chain outcome) (sa_set_ok store) bg)"
      "sends_upto 1 w w'"
proof (cases "checked_broadcast env params")
  case (Inl e)
  then show thesis using refused assms broadcast_rejected_params [OF Inl] by auto
next
  case (Inr q)
  obtain meta chain network payload key where q: "q = (meta, chain, network, payload, key)"
    by (cases q)
  obtain bg res where bg: "begin_guard (w_now w) key (sa_setnx store) (sa_get store) (gw_guard g) = (bg, res)"
    by (cases "begin_guard (w_now w) key (sa_setnx store) (sa_get store) (gw_guard g)")
  show thesis
  proof (cases "res = Owner")
    case False
    then show thesis
      using other [OF Inr [unfolded q] bg False] assms broadcast_not_owner [OF Inr [unfolded q] bg False] by simp
  next
    case True
    obtain x g1 w1 where s: "submit_payload env meta chain network payload (g\<lparr>gw_guard := bg\<rparr>) w = (x, g1, w1)"
      by (cases "submit_payload env meta chain network payload (g\<lparr>gw_guard := bg\<rparr>) w")
    then obtain outcome where x: "x = Inr outcome" using submit_payload_spec(3) by blast
    note run = broadcast_owner [OF Inr [unfolded q] bg [unfolded True] s [unfolded x]]
    then have "r = outcome_response chain network outcome" "w' = w1"
      "gw_guard g' = fst (complete_guard key (outcome_record chain outcome) (sa_set_ok store) bg)"
      using assms by auto
    then show thesis
      using owner [OF Inr [unfolded q] bg [unfolded True]] s x submit_payload_spec(2) [OF s] by simp
  qed
qed

lemma broadcast_sends_at_most_one:
  "broadcast env store params g w = (r, g', w') \<Longrightarrow> sends_upto 1 w w'"
  by (erule broadcast_cases) auto

subsection \<open>Runs of a gateway without a shared store\<close>

text \<open>
  \<open>gateway_run env evs g w\<close>: a gateway started with an empty guard has served broadcasts, for
  any parameters, while time passed, other requests changed anything but the guard, and providers
  answered as they liked. \<open>evs\<close> are the claims and recorded results.
\<close>

inductive gateway_run :: "gateway_env \<Rightarrow> guard_event list \<Rightarrow> gateway \<Rightarrow> world \<Rightarrow> bool"
  for env :: gateway_env where
  started: "gw_guard g = new_broadcast_guard False \<Longrightarrow> gateway_run env [] g w"
| elsewhere: "gateway_run env evs g w \<Longrightarrow> gw_guard g' = gw_guard g \<Longrightarrow> w_now w \<le> w_now w' \<Longrightarrow>
    gateway_run env evs g' w'"
| served: "gateway_run env evs g w \<Longrightarrow> broadcast env store params g w = (r, g', w') \<Longrightarrow>
    gateway_run env (broadcast_events env store params g w @ evs) g' w'"

lemma gateway_run_local:
  "gateway_run env evs g w \<Longrightarrow> \<exists>t \<le> w_now w. local_run evs t (gw_guard g)"
proof (induction rule: gateway_run.induct)
  case (started g w)
  then show ?case using local_run.start by auto
next
  case (elsewhere evs g w g' w')
  then show ?case by (auto intro: order_trans)
next
  case (served evs g w store params r g' w')
  obtain t where t: "t \<le> w_now w" "local_run evs t (gw_guard g)" using served.IH by blast
  from served.hyps(2) show ?case
  proof (cases rule: broadcast_cases)
    case refused
    then show ?thesis using t by (auto simp: broadcast_events_def)
  next
    case (other meta chain network payload key bg res)
    then have "local_run evs (w_now w) bg" using local_run.begin_other [OF t(2,1)] by blast
    moreover have "broadcast_events env store params g w = []"
      using other by (cases res) (auto simp: broadcast_events_def)
    ultimately show ?thesis using other by auto
  next
    case (owner meta chain network payload key bg outcome g1)
    let ?r = "outcome_record chain outcome"
    have claimed: "local_run (Claim key (w_now w) # evs) (w_now w) bg"
      using local_run.begin_owner [OF t(2,1) owner(2)] .
    have sub: "submission env meta chain network payload (g\<lparr>gw_guard := bg\<rparr>) w = outcome"
      by (simp add: submission_def owner(3))
    obtain bg' ok where c: "complete_guard key ?r (sa_set_ok store) bg = (bg', ok)"
      by (cases "complete_guard key ?r (sa_set_ok store) bg")
    have "local_run (broadcast_events env store params g w @ evs) (w_now w) bg'"
      using local_run.complete_ok [OF claimed] local_run.complete_err [OF claimed] c
      by (cases ok) (auto simp: broadcast_events_def owner(1,2) sub)
    moreover have "gw_guard g' = bg'" using owner(5) c by simp
    moreover have "w_now w \<le> w_now w'" using owner(6) by (simp add: sends_upto_def)
    ultimately show ?thesis by auto
  qed
qed

text \<open>
  The guarantee: while the newest claim of a key is younger than the retention time and the
  node has not rejected it, no broadcast of that key sends anything.
\<close>

lemma no_second_submission:
  assumes run: "gateway_run env evs g w"
    and key: "checked_broadcast env params = Inr (meta, chain, network, payload, key)"
    and claim: "claimed_since evs key = Some t" "w_now w < t + broadcast_guard_ttl"
    and call: "broadcast env store params g w = (r, g', w')"
  shows "w' = w"
proof -
  obtain now where now: "now \<le> w_now w" "local_run evs now (gw_guard g)"
    using gateway_run_local [OF run] by blast
  have inv: "guard_inv (gw_guard g)" "\<not> bg_shared (gw_guard g)"
    and "t + broadcast_guard_ttl \<le> now \<or> pins (gw_guard g) key (t + broadcast_guard_ttl)"
    using local_run_inv [OF now(2)] claim(1) by (auto simp: run_inv_def)
  then have pin: "pins (gw_guard g) key (t + broadcast_guard_ttl)" using now(1) claim(2) by auto
  from call show ?thesis
  proof (cases rule: broadcast_cases)
    case (owner m c n p k bg outcome g1)
    then have "k = key" using key by simp
    then show ?thesis using begin_guard_keeps_pins [OF inv pin claim(2) owner(2)] by simp
  qed simp_all
qed

subsection \<open>A repeated request gets the recorded answer\<close>

lemma replay_outcome:
  "replay_broadcast (outcome_record chain outcome) chain network = outcome_response chain network outcome"
  by (cases outcome)
    (auto simp: replay_broadcast_def outcome_record_def outcome_response_def Let_def
      broadcast_accepted_def broadcast_rejected_def broadcast_unknown_def)

definition plain_char :: "char \<Rightarrow> bool" where
  "plain_char c \<longleftrightarrow> 33 \<le> byte_of c \<and> byte_of c \<le> 126"

lemma trim_left_plain:
  assumes "plain_char c" "\<And>r. r \<in> set runes \<Longrightarrow> r \<noteq> [] \<and> \<not> plain_char (hd r)"
  shows "trim_left_runes runes (c # cs) = c # cs"
proof -
  have "filter (\<lambda>r. prefix r (c # cs)) runes = []"
    using assms by (metis filter_empty_conv list.collapse list.sel(1) Cons_prefix_Cons)
  then show ?thesis by (simp add: trim_left_runes.simps leading_space_def)
qed

lemma space_runes_not_plain:
  assumes "r \<in> set space_runes"
  shows "r \<noteq> [] \<and> \<not> plain_char (hd r) \<and> \<not> plain_char (last r)"
proof -
  have "list_all (\<lambda>r. r \<noteq> [] \<and> \<not> plain_char (hd r) \<and> \<not> plain_char (last r)) space_runes"
    by (simp add: space_runes_def plain_char_def byte_of_def)
  then show ?thesis using assms by (simp add: list_all_iff)
qed

lemma trim_space_plain:
  assumes "s \<noteq> []" "plain_char (hd s)" "plain_char (last s)"
  shows "trim_space s = s"
proof -
  obtain c cs where s: "s = c # cs" using assms(1) by (cases s) auto
  obtain d ds where r: "rev s = d # ds" "d = last s"
    using assms(1) by (metis hd_rev list.collapse rev_is_Nil_conv)
  have "trim_left_runes space_runes s = s"
    using trim_left_plain [of c] assms(2) space_runes_not_plain s by auto
  moreover have "trim_left_runes (map rev space_runes) (rev s) = rev s"
    unfolding r(1) using assms(3) r(2) space_runes_not_plain
    by (intro trim_left_plain) (auto simp: hd_rev)
  ultimately show ?thesis by (simp add: trim_space_def)
qed

lemma is_hex_plain: "is_hex c \<Longrightarrow> plain_char c"
  by (auto simp: is_hex_def is_digit_def plain_char_def)

lemma hex_text_plain: "hex_text n s \<Longrightarrow> c \<in> set s \<Longrightarrow> plain_char c"
  by (auto simp: hex_text_def list_all_iff intro: is_hex_plain)

lemma index_from_mem: "index_from i x xs = Some k \<Longrightarrow> x \<in> set xs"
  by (induction i x xs rule: index_from.induct) (auto split: if_splits)

lemma base58_value_plain: "base58_value n s = Some v \<Longrightarrow> c \<in> set s \<Longrightarrow> plain_char c"
proof (induction n s rule: base58_value.induct)
  case (2 n d ds)
  have "plain_char d" if "b58_index d = Some i" for i
  proof -
    have "list_all plain_char b58_alphabet"
      by (simp add: b58_alphabet_def plain_char_def byte_of_def)
    then show ?thesis
      using index_from_mem [of 0 d b58_alphabet i] that by (simp add: b58_index_def list_all_iff)
  qed
  then show ?case using 2 by (auto split: option.splits)
qed simp

lemma plain_not_blank: "s \<noteq> [] \<Longrightarrow> \<forall>c \<in> set s. plain_char c \<Longrightarrow> trim_space s \<noteq> ''''"
  using trim_space_plain [of s] by (simp add: hd_in_set last_in_set)

lemma evm_hash_not_blank: "evm_receipt_hash_re h \<Longrightarrow> trim_space h \<noteq> ''''"
proof (rule plain_not_blank)
  assume h: "evm_receipt_hash_re h"
  then obtain t where t: "h = ''0x'' @ t" "hex_text 64 t"
    by (auto simp: evm_receipt_hash_re_def prefix_def)
  then show "h \<noteq> []" "\<forall>c \<in> set h. plain_char c"
    using hex_text_plain by (auto simp: plain_char_def byte_of_def)
qed

lemma tron_id_not_blank: "tron_transaction_id_re h \<Longrightarrow> trim_space h \<noteq> ''''"
  using hex_text_plain [of 64 h] by (intro plain_not_blank) (auto simp: tron_transaction_id_re_def hex_text_def)

lemma solana_signature_not_blank: "solana_signature_ok h \<Longrightarrow> trim_space h \<noteq> ''''"
  using base58_value_plain [of 0 h]
  by (intro plain_not_blank) (auto simp: solana_signature_ok_def solana_base58_decoded_length_def)

text \<open>An accepted submission names its transaction.\<close>

lemma submit_payload_accepted:
  assumes "submit_payload env meta chain network payload g w = (Inr (Inr h), g', w')"
  shows "trim_space h \<noteq> ''''"
proof -
  have evm: "trim_space h \<noteq> ''''" if "evm_send_raw_transaction e payload p w = (Inr h, p', w')" for e p p'
    using that evm_hash_not_blank
    by (auto simp: evm_send_raw_transaction_def io_bind_Inr io_return_def evm_unavailable_def
        split: option.splits if_splits)
  have sol: "trim_space h \<noteq> ''''" if "solana_send_transaction e payload p w = (Inr h, p', w')" for e p p'
    using that solana_signature_not_blank
    by (auto simp: solana_send_transaction_def io_bind_Inr solana_decoded_def io_return_def solana_fail_def
        io_fail_def bind_eq_Some_conv split: option.splits)
  have tron: "trim_space h \<noteq> ''''" if "tron_broadcast pr e t pl w = (Inr h, w')" for pr e t pl
    using that tron_broadcast_answer_accepted tron_id_not_blank
    by (fastforce simp: tron_broadcast_def rest_bind_def rest_lift_def case_prod_beta split: sum.splits prod.splits)
  show ?thesis
    using assms evm sol tron
    by (auto simp: submit_payload_def by_family_def on_evm_def on_sol_def on_tron_def
        split: if_splits prod.splits)
qed

lemma outcome_record_valid:
  assumes "submit_payload env meta chain network payload g w = (Inr outcome, g', w')"
  shows "valid_broadcast_record (outcome_record chain outcome)"
    and "br_state (outcome_record chain outcome) \<noteq> broadcast_pending"
  using assms submit_payload_accepted
  by (cases outcome; auto simp: outcome_record_def valid_broadcast_record_def Let_def broadcast_error_def
      broadcast_accepted_def broadcast_rejected_def broadcast_unknown_def broadcast_pending_def rpc_codes
      split: go_error.splits)+

lemma complete_guard_stores:
  assumes "\<not> bg_shared g" "valid_broadcast_record r" "br_state r \<noteq> broadcast_pending"
    and "map_of (bg_records g) key = Some lr"
  shows "\<exists>lr'. map_of (bg_records (fst (complete_guard key r ok g))) key = Some lr' \<and>
    lr_record lr' = r \<and> lr_expires lr' = lr_expires lr"
  using assms
  by (auto simp: complete_guard_def complete_local_def Let_def records_mark_evictable update_conv')

lemma begin_guard_replays:
  assumes "guard_inv g" "\<not> bg_shared g" "map_of (bg_records g) key = Some lr" "now < lr_expires lr"
    and "valid_broadcast_record (lr_record lr)"
  shows "snd (begin_guard now key nx got g) = Replay (lr_record lr)"
proof -
  have "map_of (bg_records (sweep_expired broadcast_expiry_sweep_budget now g)) key = Some lr"
    using sweep_keeps assms(1,3,4) .
  then have "snd (begin_local now key g) = LocalReplay (lr_record lr)"
    using assms(4,5) by (simp add: begin_local_def Let_def)
  then show ?thesis
    unfolding begin_guard_local [OF assms(2)] by (auto split: prod.splits)
qed

lemma broadcast_replays:
  assumes inv: "guard_inv (gw_guard g)" "\<not> bg_shared (gw_guard g)"
    and first: "broadcast env store params g w = (r, g', w')" "w' \<noteq> w"
    and later: "w_now w' \<le> t" "t < w_now w + broadcast_guard_ttl"
    and again: "broadcast env store' params g' (w'\<lparr>w_now := t\<rparr>) = (r', g'', w'')"
  shows "r' = r \<and> w'' = w'\<lparr>w_now := t\<rparr>"
  using first(1)
proof (cases rule: broadcast_cases)
  case (owner meta chain network payload key bg outcome g1)
  let ?r = "outcome_record chain outcome"
  have bg: "guard_inv bg" "\<not> bg_shared bg" "pins bg key (w_now w + broadcast_guard_ttl)"
    using guard_inv_begin_guard [OF inv(1), of "w_now w" key] begin_guard_shared [of "w_now w" key]
      begin_guard_owner_pins [OF inv(2) owner(2)] inv(2) owner(2) by (metis fst_conv)+
  obtain lr where lr: "map_of (bg_records bg) key = Some lr" "lr_expires lr = w_now w + broadcast_guard_ttl"
    using bg(3) by (auto simp: pins_def)
  have valid: "valid_broadcast_record ?r" "br_state ?r \<noteq> broadcast_pending"
    using outcome_record_valid [OF owner(3)] by auto
  obtain lr' where lr': "map_of (bg_records (gw_guard g')) key = Some lr'" "lr_record lr' = ?r"
    "lr_expires lr' = w_now w + broadcast_guard_ttl"
    using complete_guard_stores [OF bg(2) valid lr(1)] lr(2) owner(5) by metis
  have inv': "guard_inv (gw_guard g')" "\<not> bg_shared (gw_guard g')"
    using guard_inv_complete_guard [OF bg(1)] bg(2) by (simp_all add: owner(5))
  obtain bg2 where begin2: "begin_guard t key (sa_setnx store') (sa_get store') (gw_guard g') = (bg2, Replay ?r)"
    using begin_guard_replays [OF inv' lr'(1)] lr'(2,3) valid(1) later(2)
    by (metis prod.collapse)
  have "broadcast env store' params g' (w'\<lparr>w_now := t\<rparr>) =
      (replay_broadcast ?r chain network, g'\<lparr>gw_guard := bg2\<rparr>, w'\<lparr>w_now := t\<rparr>)"
    using owner(1) begin2
    by (simp add: broadcast_def claim_and_submit_def with_guard_def h_bind_def h_lift_def)
  then show ?thesis using again owner(4) by (simp add: replay_outcome)
qed (use first(2) in simp_all)

end
