(* ===== verification/Float64.thy ===== *)
theory Float64
  imports Prelude "HOL-Library.Log_Nat"
begin

section \<open>float64 arithmetic\<close>

text \<open>
  Go's \<open>float64\<close> operations on finite values, as rationals: every operation is the exact
  one followed by \<open>float64\<close>, the rounding of IEEE 754 binary64 (to nearest, ties to even,
  53 bits of precision, least exponent -1074). A result beyond the largest finite value stays
  a rational here where Go has an infinity; the code only compares such a result and caps
  it, which comes out the same. The lemmas are the ones the callers need: rounding is
  monotone, leaves representable values alone, and subtracting one from a representable
  value between 1 and 2^53 is exact.
\<close>

subsection \<open>The rounding function\<close>

definition ilog2 :: "rat \<Rightarrow> int" where
  \<comment> \<open>the exponent of the greatest power of two that is at most \<open>x\<close>\<close>
  "ilog2 x =
     (let (p, q) = quotient_of x;
          d = int (floorlog 2 (nat p)) - int (floorlog 2 (nat q))
      in if 2 powi d \<le> x then d else d - 1)"

definition round_half_even :: "rat \<Rightarrow> int" where
  "round_half_even x =
     (let n = \<lfloor>x\<rfloor>; r = x - of_int n in
      if r < 1 / 2 then n else if 1 / 2 < r then n + 1 else if even n then n else n + 1)"

definition float_exponent :: "rat \<Rightarrow> int" where
  "float_exponent x = max (ilog2 \<bar>x\<bar> - 52) (- 1074)"

definition float64 :: "rat \<Rightarrow> rat" where
  "float64 x =
     (if x = 0 then 0
      else of_int (round_half_even (x / 2 powi float_exponent x)) * 2 powi float_exponent x)"

subsection \<open>Binades\<close>

lemma floorlog_rat:
  assumes "0 < n"
  shows "(2::rat) powi (int (floorlog 2 n) - 1) \<le> of_nat n" "of_nat n < (2::rat) powi int (floorlog 2 n)"
proof -
  let ?k = "floorlog 2 n"
  have bounds: "2 ^ (?k - 1) \<le> n" "n < 2 ^ ?k" using floorlog_bounds [of n 2] assms by auto
  have "0 < ?k" using assms by (simp add: floorlog_def)
  then have half: "(2::rat) powi (int ?k - 1) = 2 ^ (?k - 1)" by (cases ?k) simp_all
  have "(of_nat (2 ^ (?k - 1)) :: rat) \<le> of_nat n" "(of_nat n :: rat) < of_nat (2 ^ ?k)"
    using bounds by (simp_all only: of_nat_le_iff of_nat_less_iff)
  then show "(2::rat) powi (int ?k - 1) \<le> of_nat n" "of_nat n < (2::rat) powi int ?k"
    by (simp_all add: half)
qed

lemma ilog2_bounds:
  assumes "0 < x"
  shows "2 powi ilog2 x \<le> x" "x < 2 powi (ilog2 x + 1)"
proof -
  obtain p q where pq: "quotient_of x = (p, q)" by force
  have q: "0 < q" and x: "x = of_int p / of_int q"
    using quotient_of_denom_pos [OF pq] quotient_of_div [OF pq] by auto
  have p: "0 < p" using assms q x by (simp add: zero_less_divide_iff)
  define a b where "a = floorlog 2 (nat p)" and "b = floorlog 2 (nat q)"
  define d where "d = int a - int b"
  have A: "(2::rat) powi (int a - 1) \<le> of_int p" "(of_int p :: rat) < 2 powi int a"
    and B: "(2::rat) powi (int b - 1) \<le> of_int q" "(of_int q :: rat) < 2 powi int b"
    using floorlog_rat [of "nat p"] floorlog_rat [of "nat q"] p q by (simp_all add: a_def b_def)
  have lo: "2 powi (d - 1) \<le> x"
  proof -
    have "2 powi (d - 1) = (2 powi (int a - 1) / 2 powi int b :: rat)"
      using power_int_diff [of "2::rat" "int a - 1" "int b"] by (simp add: d_def algebra_simps)
    also have "\<dots> \<le> of_int p / of_int q"
      using A B p q by (intro frac_le) auto
    finally show ?thesis by (simp add: x)
  qed
  have hi: "x < 2 powi (d + 1)"
  proof -
    have "of_int p / of_int q < (2 powi int a / 2 powi (int b - 1) :: rat)"
      using A B p q by (intro frac_less) auto
    also have "\<dots> = 2 powi (d + 1)"
      using power_int_diff [of "2::rat" "int a" "int b - 1"] by (simp add: d_def algebra_simps)
    finally show ?thesis by (simp add: x)
  qed
  have "ilog2 x = (if 2 powi d \<le> x then d else d - 1)"
    by (simp add: ilog2_def pq Let_def d_def a_def b_def)
  then show "2 powi ilog2 x \<le> x" "x < 2 powi (ilog2 x + 1)"
    using lo hi by auto
qed

lemma powi_2_less_iff [simp]: "(2::rat) powi m < 2 powi n \<longleftrightarrow> m < n"
  using power_int_strict_increasing [of m n "2::rat"] power_int_increasing [of n m "2::rat"]
  by (cases "m < n") auto

lemma powi_2_le_iff [simp]: "(2::rat) powi m \<le> 2 powi n \<longleftrightarrow> m \<le> n"
  using powi_2_less_iff [of n m] by (simp add: not_less [symmetric] del: powi_2_less_iff)

lemma ilog2_less: "0 < x \<Longrightarrow> x < 2 powi n \<Longrightarrow> ilog2 x < n"
  using ilog2_bounds(1) [of x] powi_2_less_iff [of "ilog2 x" n] by linarith

lemma ilog2_ge: "0 < x \<Longrightarrow> 2 powi n \<le> x \<Longrightarrow> n \<le> ilog2 x"
  using ilog2_bounds(2) [of x] powi_2_less_iff [of n "ilog2 x + 1"] by linarith

lemma ilog2_mono: "0 < x \<Longrightarrow> x \<le> y \<Longrightarrow> ilog2 x \<le> ilog2 y"
  using ilog2_bounds(1) [of x] ilog2_ge [of y "ilog2 x"] by linarith

subsection \<open>Rounding to an integer\<close>

lemma round_half_even_of_int [simp]: "round_half_even (of_int n) = n"
  by (simp add: round_half_even_def)

lemma round_half_even_mono: "x \<le> y \<Longrightarrow> round_half_even x \<le> round_half_even y"
proof -
  assume le: "x \<le> y"
  show ?thesis
  proof (cases "\<lfloor>x\<rfloor> = \<lfloor>y\<rfloor>")
    case True
    then show ?thesis using le by (simp add: round_half_even_def Let_def)
  next
    case False
    then have "\<lfloor>x\<rfloor> + 1 \<le> \<lfloor>y\<rfloor>" using floor_mono [OF le] by simp
    moreover have "round_half_even x \<le> \<lfloor>x\<rfloor> + 1" "\<lfloor>y\<rfloor> \<le> round_half_even y"
      by (auto simp: round_half_even_def Let_def)
    ultimately show ?thesis by linarith
  qed
qed

lemma round_half_even_minus: "round_half_even (- x) = - round_half_even x"
proof (cases "x \<in> \<int>")
  case True
  then obtain n where "x = of_int n" by (auto elim: Ints_cases)
  then show ?thesis by (metis of_int_minus round_half_even_of_int)
next
  case False
  then have ceil: "\<lfloor>- x\<rfloor> = - \<lfloor>x\<rfloor> - 1"
    by (metis floor_minus ceiling_altdef Ints_of_int minus_add_distrib uminus_add_conv_diff add.commute)
  show ?thesis by (simp add: round_half_even_def Let_def ceil)
qed

subsection \<open>Rounding to binary64\<close>

abbreviation ulp :: "rat \<Rightarrow> rat" where "ulp x \<equiv> 2 powi float_exponent x"

lemma ulp_pos: "0 < ulp x" by simp

lemma float64_zero [simp]: "float64 0 = 0" by (simp add: float64_def)

lemma float64_minus: "float64 (- x) = - float64 x"
  by (simp add: float64_def float_exponent_def round_half_even_minus)

lemma float64_nonneg: "0 \<le> x \<Longrightarrow> 0 \<le> float64 x"
  using round_half_even_mono [of 0 "x / ulp x"] round_half_even_of_int [of 0] by (simp add: float64_def)

lemma float_exponent_mono: "0 < x \<Longrightarrow> x \<le> y \<Longrightarrow> float_exponent x \<le> float_exponent y"
  using ilog2_mono [of x y] by (auto simp: float_exponent_def)

lemma powi_2_split: "(2::rat) powi (m + n) = 2 powi m * 2 powi n"
  by (simp add: power_int_add)

lemma float64_mono_pos:
  assumes "0 < x" "x \<le> y"
  shows "float64 x \<le> float64 y"
proof (cases "float_exponent x = float_exponent y")
  case True
  have "x / ulp x \<le> y / ulp x" using assms by (simp add: divide_right_mono)
  then show ?thesis
    using assms True round_half_even_mono [of "x / ulp x" "y / ulp x"] by (simp add: float64_def)
next
  case False
  let ?e = "float_exponent x" and ?f = "float_exponent y"
  have less: "?e < ?f" using False float_exponent_mono [OF assms] by simp
  have y: "0 < y" using assms by simp
  have f: "?f = ilog2 y - 52" and e: "ilog2 x + 1 \<le> ?e + 53"
    using less assms y by (auto simp: float_exponent_def)
  have "x \<le> 2 powi (ilog2 x + 1)" using ilog2_bounds [OF assms(1)] by simp
  also have "\<dots> \<le> 2 powi (?e + 53)" using e by simp
  finally have "x / ulp x \<le> of_int (2 ^ 53)"
    by (simp add: powi_2_split divide_le_eq mult.commute)
  from round_half_even_mono [OF this] have "round_half_even (x / ulp x) \<le> 2 ^ 53"
    by (simp only: round_half_even_of_int)
  then have "of_int (round_half_even (x / ulp x)) \<le> (of_int (2 ^ 53) :: rat)"
    by (simp only: of_int_le_iff)
  then have "float64 x \<le> 2 powi (?e + 53)"
    using assms by (simp add: float64_def powi_2_split mult.commute mult_left_mono)
  also have "\<dots> \<le> 2 powi (?f + 52)" using less by simp
  also have "\<dots> \<le> float64 y"
  proof -
    have "2 powi (?f + 52) \<le> y" using ilog2_bounds [OF y] by (simp add: f)
    then have "of_int (2 ^ 52) \<le> y / ulp y"
      by (simp add: powi_2_split le_divide_eq mult.commute)
    from round_half_even_mono [OF this] have "2 ^ 52 \<le> round_half_even (y / ulp y)"
      by (simp only: round_half_even_of_int)
    then have "(of_int (2 ^ 52) :: rat) \<le> of_int (round_half_even (y / ulp y))"
      by (simp only: of_int_le_iff)
    then show ?thesis
      using y by (simp add: float64_def powi_2_split mult.commute mult_left_mono)
  qed
  finally show ?thesis .
qed

lemma float64_mono: "x \<le> y \<Longrightarrow> float64 x \<le> float64 y"
proof -
  assume le: "x \<le> y"
  consider "0 < x" | "x \<le> 0" "0 \<le> y" | "y < 0" by linarith
  then show ?thesis
  proof cases
    case 1
    then show ?thesis using le by (rule float64_mono_pos)
  next
    case 2
    then show ?thesis using float64_nonneg [of y] float64_nonneg [of "- x"] by (simp add: float64_minus)
  next
    case 3
    then show ?thesis using le float64_mono_pos [of "- y" "- x"] by (simp add: float64_minus)
  qed
qed

subsection \<open>Representable values\<close>

lemma float64_grid:
  assumes "\<bar>m\<bar> \<le> 2 ^ 53" "- 1074 \<le> e"
  shows "float64 (of_int m * 2 powi e) = of_int m * 2 powi e"
proof (cases "m = 0 \<or> \<bar>m\<bar> = 2 ^ 53")
  case False
  let ?x = "of_int m * 2 powi e :: rat" and ?f = "float_exponent (of_int m * 2 powi e)"
  have m: "(0::rat) < \<bar>of_int m\<bar>" "\<bar>of_int m\<bar> < (of_int (2 ^ 53) :: rat)"
    using False assms(1) unfolding of_int_abs [symmetric] of_int_less_iff by auto
  then have "\<bar>?x\<bar> < 2 powi (e + 53)"
    by (simp add: abs_mult powi_2_split mult.commute)
  then have "ilog2 \<bar>?x\<bar> < e + 53" using m by (intro ilog2_less) auto
  then have f: "?f \<le> e" using assms(2) by (simp add: float_exponent_def)
  have "?x / 2 powi ?f = of_int m * 2 powi (e - ?f)"
    by (simp add: power_int_diff)
  also have "2 powi (e - ?f) = (of_int (2 ^ nat (e - ?f)) :: rat)"
    using f by (simp add: power_int_def)
  finally have "?x / 2 powi ?f = of_int (m * 2 ^ nat (e - ?f))" by simp
  then have "float64 ?x = ?x / 2 powi ?f * 2 powi ?f"
    using False by (simp only: float64_def round_half_even_of_int) simp
  then show ?thesis by simp
next
  case True
  show ?thesis
  proof (cases "m = 0")
    case False
    have *: "float64 (2 ^ 53 * 2 powi e) = 2 ^ 53 * 2 powi e"
    proof -
      have x: "(2::rat) ^ 53 * 2 powi e = 2 powi (e + 53)" by (simp add: powi_2_split mult.commute)
      have "ilog2 (2 powi (e + 53)) = e + 53"
        using ilog2_bounds [of "2 powi (e + 53)"] by (simp del: powi_2_split)
      then have f: "float_exponent (2 powi (e + 53)) = e + 1"
        using assms(2) by (simp add: float_exponent_def)
      have "(2::rat) powi (e + 53) / 2 powi (e + 1) = of_int (2 ^ 52)"
        using power_int_diff [of "2::rat" "e + 53" "e + 1"] by simp
      then have "float64 (2 powi (e + 53)) = of_int (2 ^ 52) * 2 powi (e + 1)"
        by (simp only: float64_def f round_half_even_of_int) simp
      then show ?thesis by (simp add: x [symmetric]) (simp add: powi_2_split)
    qed
    show ?thesis
    proof (cases "m < 0")
      case True
      then have "m = - (2 ^ 53)" using \<open>m = 0 \<or> \<bar>m\<bar> = 2 ^ 53\<close> by auto
      then show ?thesis using * float64_minus [of "2 ^ 53 * 2 powi e"] by simp
    next
      case False
      then have "m = 2 ^ 53" using \<open>m = 0 \<or> \<bar>m\<bar> = 2 ^ 53\<close> \<open>m \<noteq> 0\<close> by auto
      then show ?thesis using * by simp
    qed
  qed simp
qed

lemma float64_form:
  obtains m e where "float64 x = of_int m * 2 powi e" "\<bar>m\<bar> \<le> 2 ^ 53" "- 1074 \<le> e"
proof (cases "x = 0")
  case False
  let ?m = "round_half_even (x / ulp x)"
  have "\<bar>x\<bar> < 2 powi (ilog2 \<bar>x\<bar> + 1)" using ilog2_bounds [of "\<bar>x\<bar>"] False by simp
  also have "\<dots> \<le> 2 powi (float_exponent x + 53)" by (simp add: float_exponent_def)
  also have "\<dots> = of_int (2 ^ 53) * ulp x" by (simp add: powi_2_split mult.commute)
  finally have "\<bar>x / ulp x\<bar> \<le> of_int (2 ^ 53)" by (simp add: abs_divide divide_le_eq order_less_imp_le)
  then have "x / ulp x \<le> of_int (2 ^ 53)" "of_int (- (2 ^ 53)) \<le> x / ulp x" 
    using abs_le_D1 abs_le_D2 by (force simp only: of_int_minus)+
  then have "?m \<le> 2 ^ 53" "- (2 ^ 53) \<le> ?m"
    using round_half_even_mono [of "x / ulp x" "of_int (2 ^ 53)"]
      round_half_even_mono [of "of_int (- (2 ^ 53))" "x / ulp x"] by (simp_all only: round_half_even_of_int)
  then have "\<bar>?m\<bar> \<le> 2 ^ 53" by (simp add: abs_le_iff)
  moreover have "float64 x = of_int ?m * ulp x" using False by (simp add: float64_def)
  moreover have "- 1074 \<le> float_exponent x" by (simp add: float_exponent_def)
  ultimately show ?thesis using that by metis
next
  case True
  then show ?thesis using that [of 0 0] by simp
qed

lemma float64_idem: "float64 (float64 x) = float64 x"
  using float64_form [of x] float64_grid by metis

text \<open>Doubling a representable value is exact.\<close>

lemma float64_double: "float64 (float64 x + float64 x) = float64 x + float64 x"
proof -
  obtain m e where m: "float64 x = of_int m * 2 powi e" "\<bar>m\<bar> \<le> 2 ^ 53" "- 1074 \<le> e" by (rule float64_form)
  have "float64 x + float64 x = of_int m * 2 powi (e + 1)" by (simp add: m(1) power_int_add_1)
  then show ?thesis using float64_grid [of m "e + 1"] m(2,3) by simp
qed

lemma float64_of_int: "\<bar>m\<bar> \<le> 2 ^ 53 \<Longrightarrow> float64 (of_int m) = of_int m"
  using float64_grid [of m 0] by simp

lemma float64_minus_one:
  assumes rep: "float64 t = t" and t: "1 \<le> t" "t \<le> 2 ^ 53"
  shows "float64 (t - 1) = t - 1"
proof (cases "t = 2 ^ 53")
  case True
  then show ?thesis using float64_of_int [of "2 ^ 53 - 1"] by simp
next
  case False
  let ?e = "float_exponent t"
  have l: "0 \<le> ilog2 t" "ilog2 t < 53"
    using t False ilog2_ge [of t 0] ilog2_less [of t 53] by auto
  then have e: "?e = ilog2 t - 52" using t by (simp add: float_exponent_def)
  obtain m where tm: "t = of_int m * 2 powi ?e" using rep t by (metis float64_def float64_zero not_one_le_zero)
  define k where "k = nat (- ?e)"
  have k: "(2::rat) powi ?e = 1 / 2 ^ k" "?e = - int k"
    using l e by (auto simp: k_def power_int_def power_one_over)
  have "of_int m = t * 2 ^ k" using tm k(1) by simp
  moreover have "t * 2 ^ k < 2 ^ 53"
  proof -
    have "t * 2 ^ k < 2 powi (ilog2 t + 1) * 2 powi int k"
      using ilog2_bounds(2) [of t] t by (simp add: mult_strict_right_mono)
    also have "\<dots> = 2 powi (ilog2 t + 1 + int k)" by (simp only: powi_2_split)
    also have "ilog2 t + 1 + int k = 53" using e k(2) by simp
    finally show ?thesis by simp
  qed
  moreover have "2 ^ k \<le> t * 2 ^ k" using t by simp
  ultimately have "(of_int (2 ^ k) :: rat) \<le> of_int m" "(of_int m :: rat) < of_int (2 ^ 53)" by simp_all
  then have "2 ^ k \<le> m" "m < 2 ^ 53" by (simp_all only: of_int_le_iff of_int_less_iff)
  moreover have "(0::int) < 2 ^ k" by simp
  ultimately have "\<bar>m - 2 ^ k\<bar> \<le> 2 ^ 53" by linarith
  moreover have "- 1074 \<le> ?e" by (simp add: float_exponent_def)
  moreover have "t - 1 = of_int (m - 2 ^ k) * 2 powi ?e"
    by (subst tm) (simp add: k(1) diff_divide_distrib)
  ultimately show ?thesis by (metis float64_grid)
qed

end
