(* ===== verification/Limiter.thy ===== *)
theory Limiter
  imports Float64 "HOL-Library.AList"
begin

section \<open>Token buckets: the per-client limiter and the outbound interval\<close>

text \<open>
  \<open>internal/ratelimit/ratelimit.go\<close>. \<open>Limiter\<close> polices inbound requests: a map from a key
  (the client's address) to a bucket refilled lazily at \<open>rate\<close> tokens a second up to \<open>burst\<close>,
  bounded in size by a sweep of the fully refilled buckets and, when that is not enough, one
  overflow bucket shared by every further key. Tokens are \<open>float64\<close> values, rounded as Go
  rounds them. \<open>Interval\<close> spaces outbound calls.

  \<open>reference_allow\<close> is the specification, an unbounded family of private buckets. The lemmas
  show that the map stays within its bound with every bucket between empty and full, that a
  swept bucket is indistinguishable from a fresh one, so that every request served from its own
  bucket is answered as the reference answers it, and that a burst at one instant is admitted
  at most \<open>burst\<close> times.
\<close>

subsection \<open>Limiter\<close>

record bucket =
  bk_tokens :: rat
  bk_last :: instant

record limiter =
  lim_rate :: rat
  lim_burst :: rat
  lim_max_buckets :: int
  lim_buckets :: "(string \<times> bucket) list"

definition default_max_buckets :: int where "default_max_buckets = 65536"

definition overflow_bucket_key :: string where "overflow_bucket_key = CHR 0x00 # ''overflow''"

definition new_limiter_with :: "rat \<Rightarrow> rat \<Rightarrow> int \<Rightarrow> limiter" where
  "new_limiter_with rate burst max_buckets =
     \<lparr>lim_rate = (if rate \<le> 0 then 1 else rate),
      lim_burst = (if burst < 1 then 1 else burst),
      lim_max_buckets = (if max_buckets < 1 then 1 else max_buckets),
      lim_buckets = []\<rparr>"

definition new_limiter :: "rat \<Rightarrow> rat \<Rightarrow> limiter" where
  "new_limiter rate burst = new_limiter_with rate burst default_max_buckets"

text \<open>\<open>time.Time.Sub\<close> saturates; \<open>Duration.Seconds\<close> adds whole seconds and nanoseconds.\<close>

definition time_sub :: "instant \<Rightarrow> instant \<Rightarrow> duration" where
  "time_sub a b = max (- (2 ^ 63)) (min (2 ^ 63 - 1) (a - b))"

definition duration_seconds :: "duration \<Rightarrow> rat" where
  "duration_seconds d =
     (let sec = sgn d * (\<bar>d\<bar> div nanos_per_second); nsec = d - sec * nanos_per_second in
      float64 (float64 (of_int sec) + float64 (float64 (of_int nsec) / 1000000000)))"

definition fully_refilled :: "limiter \<Rightarrow> instant \<Rightarrow> bucket \<Rightarrow> bool" where
  "fully_refilled l now b \<longleftrightarrow>
     lim_burst l \<le> float64 (duration_seconds (time_sub now (bk_last b)) * lim_rate l)"

definition sweep :: "limiter \<Rightarrow> instant \<Rightarrow> limiter" where
  "sweep l now =
     l\<lparr>lim_buckets :=
        filter (\<lambda>p. \<not> (fst p \<noteq> overflow_bucket_key \<and> fully_refilled l now (snd p))) (lim_buckets l)\<rparr>"

text \<open>The bound on memory: the key whose bucket serves the request, and the swept limiter.\<close>

definition route_key :: "limiter \<Rightarrow> instant \<Rightarrow> string \<Rightarrow> string \<times> limiter" where
  "route_key l now key =
     (let regular_capacity = lim_max_buckets l - 1 in
      if map_of (lim_buckets l) key = None \<and> regular_capacity \<le> int (length (lim_buckets l)) then
        (let l1 = sweep l now in
         (if regular_capacity \<le> int (length (lim_buckets l1)) then overflow_bucket_key else key, l1))
      else (key, l))"

definition refill :: "limiter \<Rightarrow> instant \<Rightarrow> bucket option \<Rightarrow> bucket" where
  "refill l now found =
     (case found of
        None \<Rightarrow> \<lparr>bk_tokens = lim_burst l, bk_last = now\<rparr>
      | Some b \<Rightarrow>
          (let elapsed = duration_seconds (time_sub now (bk_last b)) in
           if 0 < elapsed then
             (let tokens = float64 (bk_tokens b + float64 (elapsed * lim_rate l)) in
              \<lparr>bk_tokens = (if lim_burst l < tokens then lim_burst l else tokens), bk_last = now\<rparr>)
           else b))"

definition take_token :: "bucket \<Rightarrow> bool \<times> bucket" where
  "take_token b =
     (if 1 \<le> bk_tokens b then (True, b\<lparr>bk_tokens := float64 (bk_tokens b - 1)\<rparr>) else (False, b))"

definition allow :: "limiter \<Rightarrow> instant \<Rightarrow> string \<Rightarrow> bool \<times> limiter" where
  "allow l now key =
     (let (k, l1) = route_key l now key;
          (ok, b) = take_token (refill l1 now (map_of (lim_buckets l1) k))
      in (ok, l1\<lparr>lim_buckets := AList.update k b (lim_buckets l1)\<rparr>))"

subsection \<open>Interval\<close>

text \<open>
  \<open>Wait\<close> reads the clock (\<open>now\<close>), sleeps on a timer when the previous release is too close,
  and reads the clock again (\<open>later\<close>) to record its own release. \<open>cancelled\<close> says that the
  select took \<open>ctx.Done()\<close>; then the call fails and the record is kept.
\<close>

record interval =
  iv_interval :: duration
  iv_last :: "instant option"

definition new_interval :: "duration \<Rightarrow> interval" where
  "new_interval d = \<lparr>iv_interval = d, iv_last = None\<rparr>"

definition interval_delay :: "interval \<Rightarrow> instant \<Rightarrow> duration" where
  "interval_delay i now =
     (case iv_last i of
        None \<Rightarrow> 0
      | Some t \<Rightarrow> (let wait = iv_interval i - time_sub now t in if 0 < wait then wait else 0))"

definition interval_wait :: "interval \<Rightarrow> instant \<Rightarrow> instant \<Rightarrow> bool \<Rightarrow> bool \<times> interval" where
  "interval_wait i now later cancelled =
     (if 0 < interval_delay i now \<and> cancelled then (False, i) else (True, i\<lparr>iv_last := Some later\<rparr>))"

subsection \<open>The map stays within its bound\<close>

abbreviation overflow :: string where "overflow \<equiv> overflow_bucket_key"

definition bucket_ok :: "limiter \<Rightarrow> bucket \<Rightarrow> bool" where
  "bucket_ok l b \<longleftrightarrow>
     0 \<le> bk_tokens b \<and> bk_tokens b \<le> lim_burst l \<and> float64 (bk_tokens b) = bk_tokens b"

definition regular_keys :: "limiter \<Rightarrow> (string \<times> bucket) list" where
  "regular_keys l = filter (\<lambda>p. fst p \<noteq> overflow) (lim_buckets l)"

definition limiter_inv :: "limiter \<Rightarrow> bool" where
  "limiter_inv l \<longleftrightarrow>
     0 < lim_rate l \<and> 1 \<le> lim_burst l \<and> float64 (lim_burst l) = lim_burst l \<and>
     1 \<le> lim_max_buckets l \<and> distinct (map fst (lim_buckets l)) \<and>
     int (length (regular_keys l)) \<le> lim_max_buckets l - 1 \<and>
     (\<forall>(k, b) \<in> set (lim_buckets l). bucket_ok l b)"

lemma route_key_cases:
  assumes "route_key l now key = (k, l1)"
  obtains (known) "k = key" "l1 = l" "map_of (lim_buckets l) key \<noteq> None"
  | (room) "k = key" "l1 = l" "map_of (lim_buckets l) key = None"
      "int (length (lim_buckets l)) < lim_max_buckets l - 1"
  | (swept) "map_of (lim_buckets l) key = None" "l1 = sweep l now"
      "k = (if lim_max_buckets l - 1 \<le> int (length (lim_buckets l1)) then overflow else key)"
proof -
  have "k = key \<and> l1 = l \<and> map_of (lim_buckets l) key \<noteq> None \<or>
        k = key \<and> l1 = l \<and> map_of (lim_buckets l) key = None \<and>
          int (length (lim_buckets l)) < lim_max_buckets l - 1 \<or>
        map_of (lim_buckets l) key = None \<and> l1 = sweep l now \<and>
          k = (if lim_max_buckets l - 1 \<le> int (length (lim_buckets l1)) then overflow else key)"
    using assms unfolding route_key_def Let_def by (cases "map_of (lim_buckets l) key") (auto split: if_splits)
  then show thesis using known room swept by blast
qed

lemma length_regular_keys:
  assumes "distinct (map fst (lim_buckets l))"
  shows "length (lim_buckets l) \<le> length (regular_keys l) + 1"
proof -
  have "length (filter (\<lambda>p. \<not> fst p \<noteq> overflow) xs) \<le> 1" if "distinct (map fst xs)"
    for xs :: "(string \<times> bucket) list"
    using that by (induction xs) (force simp: filter_empty_conv)+
  then show ?thesis
    using assms sum_length_filter_compl [of "\<lambda>p. fst p \<noteq> overflow" "lim_buckets l"]
    by (fastforce simp: regular_keys_def)
qed

lemma limiter_inv_new:
  "float64 burst = burst \<Longrightarrow> limiter_inv (new_limiter_with rate burst m)"
  using float64_of_int [of 1] by (auto simp: limiter_inv_def new_limiter_with_def regular_keys_def)

lemma limiter_inv_size: "limiter_inv l \<Longrightarrow> int (length (lim_buckets l)) \<le> lim_max_buckets l"
  using length_regular_keys [of l] by (simp add: limiter_inv_def)

lemma sweep_frames [record_frames, simp]:
  "lim_rate (sweep l now) = lim_rate l" "lim_burst (sweep l now) = lim_burst l"
  "lim_max_buckets (sweep l now) = lim_max_buckets l"
  by (simp_all add: sweep_def)

lemma sweep_subset: "set (lim_buckets (sweep l now)) \<subseteq> set (lim_buckets l)"
  by (auto simp: sweep_def)

lemma bucket_ok_frame [simp]:
  "bucket_ok (sweep l now) = bucket_ok l" "bucket_ok (l\<lparr>lim_buckets := bs\<rparr>) = bucket_ok l"
  by (auto simp: bucket_ok_def fun_eq_iff)

lemma filter_conj_length: "length (filter (\<lambda>x. P x \<and> Q x) xs) \<le> length (filter Q xs)"
  by (induction xs) auto

lemma limiter_inv_sweep [inv_intros]: "limiter_inv l \<Longrightarrow> limiter_inv (sweep l now)"
proof -
  assume inv: "limiter_inv l"
  have "distinct (map fst (filter P xs))" if "distinct (map fst xs)" for P and xs :: "(string \<times> bucket) list"
    using that by (induction xs) auto
  moreover have "length (regular_keys (sweep l now)) \<le> length (regular_keys l)"
    by (simp add: regular_keys_def sweep_def) (rule filter_conj_length)
  ultimately show ?thesis using inv sweep_subset [of l now]
    by (auto simp: limiter_inv_def sweep_def)
qed


subsection \<open>Buckets between empty and full\<close>

lemma time_sub_mono: "a \<le> b \<Longrightarrow> time_sub a c \<le> time_sub b c"
  by (simp add: time_sub_def)

lemma duration_seconds_mono:
  assumes "0 \<le> d" "d \<le> e" "e \<le> 2 ^ 63"
  shows "duration_seconds d \<le> duration_seconds e"
proof -
  let ?s = "\<lambda>d :: int. d div nanos_per_second" and ?n = "\<lambda>d :: int. d mod nanos_per_second"
  have eq: "duration_seconds d =
      float64 (float64 (of_int (?s d)) + float64 (float64 (of_int (?n d)) / 1000000000))" if "0 \<le> d" for d
  proof -
    have "sgn d * (\<bar>d\<bar> div nanos_per_second) = ?s d" using that by (cases "d = 0") simp_all
    then show ?thesis by (simp add: duration_seconds_def Let_def minus_div_mult_eq_mod del: of_int_diff)
  qed
  have frac: "0 \<le> float64 (float64 (of_int (?n d)) / 1000000000)"
    "float64 (float64 (of_int (?n d)) / 1000000000) \<le> 1" for d
  proof -
    have "0 \<le> ?n d" "?n d \<le> 1000000000" by (simp_all add: nanos_per_second_def order_less_imp_le)
    then have "float64 (of_int (?n d)) \<le> float64 (of_int 1000000000)"
      by (intro float64_mono) (simp add: nanos_per_second_def)
    then have le: "float64 (of_int (?n d)) / 1000000000 \<le> of_int 1"
      using float64_of_int [of 1000000000] by simp
    have "0 \<le> float64 (of_int (?n d)) / 1000000000"
      using \<open>0 \<le> ?n d\<close> by (simp add: float64_nonneg)
    then show "0 \<le> float64 (float64 (of_int (?n d)) / 1000000000)" by (rule float64_nonneg)
    show "float64 (float64 (of_int (?n d)) / 1000000000) \<le> 1"
      using float64_mono [OF le] float64_of_int [of 1] by simp
  qed
  show ?thesis
  proof (cases "?s d = ?s e")
    case True
    have "?n d \<le> ?n e"
      using assms(2) True by (simp add: minus_div_mult_eq_mod [symmetric])
    then have "float64 (of_int (?n d)) \<le> float64 (of_int (?n e))"
      by (intro float64_mono) simp
    then show ?thesis
      using assms by (simp add: eq True float64_mono divide_right_mono)
  next
    case False
    then have less: "?s d + 1 \<le> ?s e" using assms(2) by (simp add: zdiv_mono1 nanos_per_second_def)
    have "0 \<le> ?s d" "?s e \<le> 2 ^ 53" using assms by (auto simp: nanos_per_second_def)
    then have "float64 (of_int (?s d)) = of_int (?s d)" "float64 (of_int (?s e)) = of_int (?s e)"
      using less by (auto intro!: float64_of_int)
    moreover have "(of_int (?s d) :: rat) + 1 \<le> of_int (?s e)"
      using less by (metis of_int_1 of_int_add of_int_le_iff)
    ultimately have "float64 (of_int (?s d)) + float64 (float64 (of_int (?n d)) / 1000000000)
        \<le> float64 (of_int (?s e)) + float64 (float64 (of_int (?n e)) / 1000000000)"
      using frac [of d] frac [of e] by linarith
    then show ?thesis using assms by (simp add: eq float64_mono)
  qed
qed


lemma duration_seconds_zero [simp]: "duration_seconds 0 = 0"
  by (simp add: duration_seconds_def)

lemma refill_ok:
  assumes "0 < lim_rate l" "1 \<le> lim_burst l" "float64 (lim_burst l) = lim_burst l"
    and found: "\<And>b. found = Some b \<Longrightarrow> bucket_ok l b"
  shows "bucket_ok l (refill l now found)"
proof (cases found)
  case None
  then show ?thesis using assms by (simp add: refill_def bucket_ok_def)
next
  case (Some b)
  let ?e = "duration_seconds (time_sub now (bk_last b))"
  let ?t = "bk_tokens b + float64 (?e * lim_rate l)"
  have "0 \<le> float64 ?t" if "0 < ?e"
    using that assms found [OF Some] by (auto simp: bucket_ok_def intro!: float64_nonneg add_nonneg_nonneg)
  moreover have "float64 (float64 x) = float64 x" for x by (rule float64_idem)
  ultimately show ?thesis
    using assms found [OF Some] by (simp add: refill_def Some Let_def bucket_ok_def)
qed

lemma take_token_ok:
  assumes "bucket_ok l b" "take_token b = (ok, b')"
  shows "bucket_ok l b'"
proof -
  have "float64 (bk_tokens b - 1) \<le> float64 (bk_tokens b)" by (intro float64_mono) simp
  then show ?thesis
    using assms float64_nonneg [of "bk_tokens b - 1"]
    by (auto simp: take_token_def bucket_ok_def float64_idem split: if_splits)
qed


lemma allow_step:
  assumes "allow l now key = (ok, l2)"
  obtains k l1 b where "route_key l now key = (k, l1)"
    "take_token (refill l1 now (map_of (lim_buckets l1) k)) = (ok, b)"
    "l2 = l1\<lparr>lim_buckets := AList.update k b (lim_buckets l1)\<rparr>"
  using assms by (auto simp: allow_def split: prod.splits)

lemma route_key_inv:
  assumes "limiter_inv l" "route_key l now key = (k, l1)"
  shows "limiter_inv l1" "lim_rate l1 = lim_rate l" "lim_burst l1 = lim_burst l"
    "map_of (lim_buckets l1) k = None \<Longrightarrow> k \<noteq> overflow \<Longrightarrow> int (length (lim_buckets l1)) < lim_max_buckets l1 - 1"
  using assms(2) limiter_inv_sweep [OF assms(1)] assms(1)
  by (cases rule: route_key_cases; auto split: if_splits)+

lemma length_update: "length (AList.update k b xs) = (if map_of xs k = None then length xs + 1 else length xs)"
  by (induction xs) auto

lemma set_update_subset: "set (AList.update k b xs) \<subseteq> insert (k, b) (set xs)"
  by (induction xs) auto

lemma map_of_filter_key: "k \<noteq> c \<Longrightarrow> map_of (filter (\<lambda>p. fst p \<noteq> c) xs) k = map_of xs k"
  by (induction xs) auto

lemma regular_keys_update:
  "filter (\<lambda>p. fst p \<noteq> c) (AList.update k b xs) =
     (if k = c then filter (\<lambda>p. fst p \<noteq> c) xs else AList.update k b (filter (\<lambda>p. fst p \<noteq> c) xs))"
  by (induction xs) auto

lemma limiter_inv_update:
  assumes inv: "limiter_inv l" and b: "bucket_ok l b"
    and room: "map_of (lim_buckets l) k = None \<Longrightarrow> k \<noteq> overflow \<Longrightarrow> int (length (lim_buckets l)) < lim_max_buckets l - 1"
  shows "limiter_inv (l\<lparr>lim_buckets := AList.update k b (lim_buckets l)\<rparr>)"
proof -
  let ?bs = "AList.update k b (lim_buckets l)"
  have "set ?bs \<subseteq> insert (k, b) (set (lim_buckets l))" by (rule set_update_subset)
  moreover have "int (length (filter (\<lambda>p. fst p \<noteq> overflow) ?bs)) \<le> lim_max_buckets l - 1"
  proof (cases "k = overflow \<or> map_of (lim_buckets l) k \<noteq> None")
    case True
    then have "length (filter (\<lambda>p. fst p \<noteq> overflow) ?bs) = length (filter (\<lambda>p. fst p \<noteq> overflow) (lim_buckets l))"
      by (auto simp: regular_keys_update length_update map_of_filter_key)
    then show ?thesis using inv by (simp add: limiter_inv_def regular_keys_def)
  next
    case False
    then have "length ?bs = length (lim_buckets l) + 1" by (simp add: length_update)
    then show ?thesis
      using room False length_filter_le [of "\<lambda>p. fst p \<noteq> overflow" ?bs] by simp
  qed
  ultimately show ?thesis
    using inv b by (auto simp: limiter_inv_def regular_keys_def distinct_update)
qed


lemma limiter_inv_found: "limiter_inv l \<Longrightarrow> map_of (lim_buckets l) k = Some b \<Longrightarrow> bucket_ok l b"
  by (auto simp: limiter_inv_def dest: map_of_SomeD)

lemma limiter_inv_allow [inv_intros]:
  assumes inv: "limiter_inv l" and step: "allow l now key = (ok, l2)"
  shows "limiter_inv l2"
  using step
proof (cases rule: allow_step)
  case (1 k l1 b)
  note inv1 = route_key_inv [OF inv 1(1)]
  have "bucket_ok l1 (refill l1 now (map_of (lim_buckets l1) k))"
    using inv1(1) limiter_inv_found [OF inv1(1)] by (intro refill_ok) (auto simp: limiter_inv_def)
  then have "bucket_ok l1 b" using 1(2) by (rule take_token_ok)
  then show ?thesis unfolding 1(3) using inv1(1,4) by (intro limiter_inv_update) auto
qed

subsection \<open>The reference: one private bucket per key\<close>

definition reference_allow ::
  "limiter \<Rightarrow> (string \<Rightarrow> bucket option) \<Rightarrow> instant \<Rightarrow> string \<Rightarrow> bool \<times> (string \<Rightarrow> bucket option)" where
  "reference_allow l s now key =
     (let (ok, b) = take_token (refill l now (s key)) in (ok, s(key \<mapsto> b)))"

fun reference_run :: "limiter \<Rightarrow> (string \<Rightarrow> bucket option) \<Rightarrow> (instant \<times> string) list \<Rightarrow> bool list" where
  "reference_run l s [] = []"
| "reference_run l s ((now, key) # reqs) =
     (let (ok, s1) = reference_allow l s now key in ok # reference_run l s1 reqs)"

text \<open>A run of the limiter: for each request the key of the bucket that served it, and the answer.\<close>

fun allow_run :: "limiter \<Rightarrow> (instant \<times> string) list \<Rightarrow> (string \<times> bool) list" where
  "allow_run l [] = []"
| "allow_run l ((now, key) # reqs) =
     (let (ok, l1) = allow l now key in (fst (route_key l now key), ok) # allow_run l1 reqs)"

definition served :: "(instant \<times> string) list \<Rightarrow> (string \<times> bool) list \<Rightarrow> ((instant \<times> string) \<times> bool) list" where
  \<comment> \<open>the requests answered from a bucket of their own, with their answers\<close>
  "served reqs answers =
     map (\<lambda>(r, k, ok). (r, ok)) (filter (\<lambda>(r, k, ok). k \<noteq> overflow) (zip reqs answers))"

text \<open>A bucket the sweep may drop: full again, and so for any later reading of the clock.\<close>

definition full_at :: "limiter \<Rightarrow> instant \<Rightarrow> bucket \<Rightarrow> bool" where
  "full_at l now b \<longleftrightarrow> bucket_ok l b \<and> bk_last b \<le> now \<and> fully_refilled l now b"

lemma time_sub_range: "time_sub a b \<le> 2 ^ 63" "b \<le> a \<Longrightarrow> 0 \<le> time_sub a b"
  by (auto simp: time_sub_def)

lemma full_at_mono:
  assumes "full_at l now b" "now \<le> later" "0 < lim_rate l"
  shows "full_at l later b"
proof -
  have "duration_seconds (time_sub now (bk_last b)) \<le> duration_seconds (time_sub later (bk_last b))"
    using assms by (intro duration_seconds_mono time_sub_mono time_sub_range) (auto simp: full_at_def)
  then have "float64 (duration_seconds (time_sub now (bk_last b)) * lim_rate l)
      \<le> float64 (duration_seconds (time_sub later (bk_last b)) * lim_rate l)"
    using assms(3) by (intro float64_mono mult_right_mono) auto
  then show ?thesis using assms by (auto simp: full_at_def fully_refilled_def)
qed

lemma refill_full:
  assumes "full_at l now b" "0 < lim_rate l" "1 \<le> lim_burst l"
  shows "refill l now (Some b) = refill l now None"
proof -
  let ?e = "duration_seconds (time_sub now (bk_last b))"
  have full: "lim_burst l \<le> float64 (?e * lim_rate l)" and ok: "bucket_ok l b"
    using assms by (auto simp: full_at_def fully_refilled_def)
  have "0 < ?e"
  proof (rule ccontr)
    assume "\<not> 0 < ?e"
    then have "?e * lim_rate l \<le> 0" using assms(2) by (simp add: mult_le_0_iff)
    then have "float64 (?e * lim_rate l) \<le> float64 0" by (rule float64_mono)
    then show False using full assms(3) by simp
  qed
  have "float64 (float64 (?e * lim_rate l)) \<le> float64 (bk_tokens b + float64 (?e * lim_rate l))"
    using ok by (intro float64_mono) (simp add: bucket_ok_def)
  then have "lim_burst l \<le> float64 (bk_tokens b + float64 (?e * lim_rate l))"
    using full by (simp add: float64_idem)
  then show ?thesis using \<open>0 < ?e\<close> by (auto simp: refill_def Let_def)
qed


definition simulates :: "limiter \<Rightarrow> (string \<Rightarrow> bucket option) \<Rightarrow> instant \<Rightarrow> bool" where
  "simulates l s t \<longleftrightarrow>
     (\<forall>k b. k \<noteq> overflow \<longrightarrow>
        (map_of (lim_buckets l) k = Some b \<longrightarrow> s k = Some b \<and> bk_last b \<le> t) \<and>
        (map_of (lim_buckets l) k = None \<longrightarrow> s k = Some b \<longrightarrow> full_at l t b))"

lemma full_at_frame [simp]:
  "full_at (sweep l now) = full_at l" "full_at (l\<lparr>lim_buckets := bs\<rparr>) = full_at l"
  "refill (sweep l now) = refill l" "refill (l\<lparr>lim_buckets := bs\<rparr>) = refill l"
  by (intro ext, simp add: full_at_def fully_refilled_def refill_def Let_def split: option.split)+

lemma map_of_filter_distinct:
  "distinct (map fst xs) \<Longrightarrow>
     map_of (filter P xs) k = (case map_of xs k of None \<Rightarrow> None | Some b \<Rightarrow> if P (k, b) then Some b else None)"
  by (induction xs) (auto split: option.splits simp: map_of_eq_None_iff)

lemma simulates_later:
  assumes "simulates l s t" "t \<le> now" "0 < lim_rate l"
  shows "simulates l s now"
  using assms full_at_mono [of l t _ now]
  unfolding simulates_def by (meson order_trans)

lemma simulates_sweep:
  assumes "simulates l s now" "limiter_inv l"
  shows "simulates (sweep l now) s now"
proof -
  have found: "map_of (lim_buckets (sweep l now)) k =
      (case map_of (lim_buckets l) k of None \<Rightarrow> None
       | Some b \<Rightarrow> if fully_refilled l now b then None else Some b)" if "k \<noteq> overflow" for k
    using assms(2) that by (auto simp: sweep_def map_of_filter_distinct limiter_inv_def split: option.split)
  show ?thesis
    unfolding simulates_def
  proof (intro allI impI conjI)
    fix k b assume k: "k \<noteq> overflow" and "map_of (lim_buckets (sweep l now)) k = Some b"
    then have "map_of (lim_buckets l) k = Some b" by (simp add: found split: option.splits if_splits)
    then show "s k = Some b" "bk_last b \<le> now" using assms(1) k by (auto simp: simulates_def)
  next
    fix k b assume k: "k \<noteq> overflow" and gone: "map_of (lim_buckets (sweep l now)) k = None" and s: "s k = Some b"
    show "full_at (sweep l now) now b"
    proof (cases "map_of (lim_buckets l) k")
      case None
      then show ?thesis using assms(1) k s by (auto simp: simulates_def)
    next
      case (Some c)
      then have "c = b" "bk_last b \<le> now" using assms(1) k s by (auto simp: simulates_def)
      moreover have "fully_refilled l now c" using gone Some k by (simp add: found split: if_splits)
      moreover have "bucket_ok l c" using assms(2) Some by (rule limiter_inv_found)
      ultimately show ?thesis by (simp add: full_at_def)
    qed
  qed
qed

lemma route_key_simulates:
  assumes "simulates l s t" "t \<le> now" "limiter_inv l" "route_key l now key = (k, l1)"
  shows "simulates l1 s now" "k \<noteq> overflow \<Longrightarrow> k = key"
    "full_at l1 = full_at l" "refill l1 = refill l"
proof -
  have sim: "simulates l s now" using assms by (auto intro: simulates_later simp: limiter_inv_def)
  show "simulates l1 s now" "k \<noteq> overflow \<Longrightarrow> k = key" "full_at l1 = full_at l" "refill l1 = refill l"
    using assms(4) sim simulates_sweep [OF sim assms(3)]
    by (cases rule: route_key_cases; auto split: if_splits)+
qed

lemma refill_last: "bk_last (refill l now found) \<le> now"
  if "\<And>b. found = Some b \<Longrightarrow> bk_last b \<le> now"
  using that by (auto simp: refill_def Let_def split: option.splits)

lemma allow_simulates:
  assumes sim: "simulates l s t" and t: "t \<le> now" and inv: "limiter_inv l"
    and step: "allow l now key = (ok, l2)"
  shows "fst (route_key l now key) = overflow \<Longrightarrow> simulates l2 s now"
    and "fst (route_key l now key) \<noteq> overflow \<Longrightarrow>
           \<exists>s'. reference_allow l s now key = (ok, s') \<and> simulates l2 s' now"
proof -
  obtain k l1 b where r: "route_key l now key = (k, l1)"
    and tk: "take_token (refill l1 now (map_of (lim_buckets l1) k)) = (ok, b)"
    and l2: "l2 = l1\<lparr>lim_buckets := AList.update k b (lim_buckets l1)\<rparr>"
    using step by (rule allow_step)
  note sim1 = route_key_simulates [OF sim t inv r] and inv1 = route_key_inv [OF inv r]
  {
    assume "fst (route_key l now key) = overflow"
    then have "k = overflow" using r by simp
    then show "simulates l2 s now"
      using sim1(1) by (simp add: l2 simulates_def update_conv')
  next
    assume "fst (route_key l now key) \<noteq> overflow"
    then have k: "k = key" "k \<noteq> overflow" using r sim1(2) by auto
    have last: "\<And>c. map_of (lim_buckets l1) k = Some c \<Longrightarrow> bk_last c \<le> now"
      using sim1(1) k by (auto simp: simulates_def)
    have same: "refill l now (s key) = refill l1 now (map_of (lim_buckets l1) k)"
    proof (cases "map_of (lim_buckets l1) k")
      case None
      then show ?thesis
        using sim1(1) k refill_full [of l now] inv
        by (cases "s key") (auto simp: simulates_def limiter_inv_def sim1(3,4))
    next
      case (Some c)
      then show ?thesis using sim1(1) k by (auto simp: simulates_def sim1(4))
    qed
    have "bk_last b = bk_last (refill l1 now (map_of (lim_buckets l1) k))"
      using tk by (auto simp: take_token_def split: if_splits)
    then have "bk_last b \<le> now" using refill_last [OF last] by simp
    then have "simulates l2 (s(key \<mapsto> b)) now"
      using sim1(1) k by (simp add: l2 simulates_def update_conv')
    moreover have "reference_allow l s now key = (ok, s(key \<mapsto> b))"
      using tk same by (simp add: reference_allow_def)
    ultimately show "\<exists>s'. reference_allow l s now key = (ok, s') \<and> simulates l2 s' now" by blast
  }
qed


lemma reference_run_params:
  assumes "lim_rate l2 = lim_rate l" "lim_burst l2 = lim_burst l"
  shows "reference_run l2 s reqs = reference_run l s reqs"
proof -
  have "refill l2 = refill l" using assms by (intro ext) (simp add: refill_def Let_def split: option.split)
  then have "reference_allow l2 = reference_allow l" by (intro ext) (simp add: reference_allow_def)
  then show ?thesis by (induction l2 s reqs rule: reference_run.induct) (auto split: prod.splits)
qed

lemma allow_run_simulates:
  "simulates l s t \<Longrightarrow> limiter_inv l \<Longrightarrow> sorted (map fst reqs) \<Longrightarrow> \<forall>r \<in> set reqs. t \<le> fst r \<Longrightarrow>
     map snd (served reqs (allow_run l reqs)) = reference_run l s (map fst (served reqs (allow_run l reqs)))"
proof (induction reqs arbitrary: l s t)
  case Nil
  then show ?case by (simp add: served_def)
next
  case (Cons r reqs)
  obtain now key where r: "r = (now, key)" by force
  obtain ok l2 where step: "allow l now key = (ok, l2)" by force
  have t: "t \<le> now" and later: "\<forall>r \<in> set reqs. now \<le> fst r" using Cons.prems r by auto
  have inv2: "limiter_inv l2" using Cons.prems(2) step by (rule limiter_inv_allow)
  have params: "lim_rate l2 = lim_rate l" "lim_burst l2 = lim_burst l"
    using step Cons.prems(2) by (auto elim!: allow_step dest: route_key_inv(2,3))
  have ref: "reference_run l2 s' qs = reference_run l s' qs" for s' qs
    using reference_run_params [OF params] by simp
  note sim = allow_simulates [OF Cons.prems(1) t Cons.prems(2) step]
  show ?case
  proof (cases "fst (route_key l now key) = overflow")
    case True
    have "map snd (served reqs (allow_run l2 reqs)) = reference_run l2 s (map fst (served reqs (allow_run l2 reqs)))"
      using Cons.IH [OF sim(1) [OF True] inv2] Cons.prems(3) later by simp
    then show ?thesis by (simp add: r step True served_def ref)
  next
    case False
    from sim(2) [OF False] obtain s' where s': "reference_allow l s now key = (ok, s')" "simulates l2 s' now" by blast
    have "map snd (served reqs (allow_run l2 reqs)) = reference_run l2 s' (map fst (served reqs (allow_run l2 reqs)))"
      using Cons.IH [OF s'(2) inv2] Cons.prems(3) later by simp
    then show ?thesis by (simp add: r step False served_def ref s'(1))
  qed
qed

lemma simulates_empty: "lim_buckets l = [] \<Longrightarrow> simulates l (\<lambda>_. None) t"
  by (simp add: simulates_def)

subsection \<open>A burst at one instant\<close>

lemma reference_same_instant:
  assumes "s key = Some b" "bk_last b = now"
  shows "reference_allow l s now key = (let (ok, b') = take_token b in (ok, s(key \<mapsto> b')))"
  using assms by (simp add: reference_allow_def refill_def time_sub_def)

lemma reference_burst_from:
  "s key = Some b \<Longrightarrow> bk_last b = now \<Longrightarrow> float64 (bk_tokens b) = bk_tokens b \<Longrightarrow>
     0 \<le> bk_tokens b \<Longrightarrow> bk_tokens b \<le> 2 ^ 53 \<Longrightarrow>
     reference_run l s (replicate n (now, key)) =
       map (\<lambda>i. of_nat (Suc i) \<le> bk_tokens b) [0..<n]"
proof (induction n arbitrary: s b)
  case 0
  then show ?case by simp
next
  case (Suc n)
  have upt: "[0..<Suc n] = 0 # map Suc [0..<n]" by (simp add: upt_conv_Cons map_Suc_upt del: upt_Suc)
  show ?case
  proof (cases "1 \<le> bk_tokens b")
    case True
    let ?b = "b\<lparr>bk_tokens := bk_tokens b - 1\<rparr>"
    have tk: "take_token b = (True, ?b)"
      using True Suc.prems by (simp add: take_token_def float64_minus_one)
    have "float64 (bk_tokens b - 1) = bk_tokens b - 1"
      using True Suc.prems by (intro float64_minus_one) auto
    then have "reference_run l (s(key \<mapsto> ?b)) (replicate n (now, key)) =
        map (\<lambda>i. of_nat (Suc i) \<le> bk_tokens ?b) [0..<n]"
      using True Suc.prems by (intro Suc.IH) auto
    then show ?thesis
      using True Suc.prems
      by (simp add: upt reference_same_instant tk le_diff_eq add.commute o_def del: upt_Suc)
  next
    case False
    have tk: "take_token b = (False, b)" using False by (simp add: take_token_def)
    have "reference_run l (s(key \<mapsto> b)) (replicate n (now, key)) =
        map (\<lambda>i. of_nat (Suc i) \<le> bk_tokens b) [0..<n]"
      using Suc.prems by (intro Suc.IH) auto
    moreover have "\<not> of_nat (Suc i) \<le> bk_tokens b" for i using False by (simp add: not_le add_increasing2)
    ultimately show ?thesis
      using False Suc.prems by (simp add: upt reference_same_instant tk o_def del: upt_Suc)
  qed
qed

subsection \<open>Interval\<close>

lemma interval_wait_spacing:
  assumes "interval_wait i now later False = (ok, i')" "iv_last i = Some t"
    and "t \<le> now" "now + interval_delay i now \<le> later" "iv_interval i < 2 ^ 63"
  shows "ok" "iv_last i' = Some later" "t + iv_interval i \<le> later"
  using assms by (auto simp: interval_wait_def interval_delay_def Let_def time_sub_def split: if_splits)


text \<open>A client alone on the limiter is always served from its own bucket.\<close>

definition owns_bucket :: "limiter \<Rightarrow> string \<Rightarrow> bool" where
  "owns_bucket l key \<longleftrightarrow>
     map_of (lim_buckets l) key \<noteq> None \<or> int (length (lim_buckets l)) < lim_max_buckets l - 1"

lemma owns_bucket_route: "owns_bucket l key \<Longrightarrow> route_key l now key = (key, l)"
  by (auto simp: owns_bucket_def route_key_def Let_def)

lemma owns_bucket_allow: "owns_bucket l key \<Longrightarrow> allow l now key = (ok, l2) \<Longrightarrow> owns_bucket l2 key"
  by (auto elim!: allow_step simp: owns_bucket_route) (simp add: owns_bucket_def update_conv')

lemma allow_run_alone:
  "owns_bucket l key \<Longrightarrow> key \<noteq> overflow \<Longrightarrow> \<forall>r \<in> set reqs. snd r = key \<Longrightarrow>
     served reqs (allow_run l reqs) = zip reqs (map snd (allow_run l reqs))"
proof (induction reqs arbitrary: l)
  case Nil
  then show ?case by (simp add: served_def)
next
  case (Cons r reqs)
  obtain now where r: "r = (now, key)" using Cons.prems(3) by (cases r) auto
  obtain ok l2 where step: "allow l now key = (ok, l2)" by force
  have "served reqs (allow_run l2 reqs) = zip reqs (map snd (allow_run l2 reqs))"
    using Cons.IH owns_bucket_allow [OF Cons.prems(1) step] Cons.prems(2,3) by simp
  then show ?case
    using Cons.prems(2) by (simp add: r step served_def owns_bucket_route [OF Cons.prems(1)])
qed

lemma length_allow_run [simp]: "length (allow_run l reqs) = length reqs"
  by (induction l reqs rule: allow_run.induct) (auto split: prod.splits)

lemma reference_run_burst:
  assumes "s key = None" "float64 (lim_burst l) = lim_burst l" "1 \<le> lim_burst l" "lim_burst l \<le> 2 ^ 53"
  shows "reference_run l s (replicate n (now, key)) = map (\<lambda>i. of_nat (Suc i) \<le> lim_burst l) [0..<n]"
proof (cases n)
  case (Suc m)
  let ?b = "\<lparr>bk_tokens = lim_burst l, bk_last = now\<rparr>"
  have "refill l now (Some ?b) = ?b" by (simp add: refill_def time_sub_def)
  then have "reference_allow l s now key = reference_allow l (s(key \<mapsto> ?b)) now key"
    using assms(1) by (simp add: reference_allow_def refill_def)
  then have "reference_run l s (replicate n (now, key)) = reference_run l (s(key \<mapsto> ?b)) (replicate n (now, key))"
    by (simp add: Suc)
  also have "\<dots> = map (\<lambda>i. of_nat (Suc i) \<le> bk_tokens ?b) [0..<n]"
    using assms by (intro reference_burst_from) auto
  finally show ?thesis by simp
qed simp

lemma burst_is_the_capacity:
  assumes "float64 burst = burst" "1 \<le> burst" "burst \<le> 2 ^ 53" and "key \<noteq> overflow_bucket_key"
  shows "map snd (allow_run (new_limiter rate burst) (replicate n (now, key))) =
    map (\<lambda>i. of_nat (Suc i) \<le> burst) [0..<n]"
proof -
  let ?l = "new_limiter rate burst" and ?reqs = "replicate n (now, key)"
  have owns: "owns_bucket ?l key"
    by (simp add: owns_bucket_def new_limiter_def new_limiter_with_def default_max_buckets_def)
  have own: "served ?reqs (allow_run ?l ?reqs) = zip ?reqs (map snd (allow_run ?l ?reqs))"
    using owns assms(4) by (intro allow_run_alone) auto
  have "simulates ?l (\<lambda>_. None) now" by (simp add: simulates_empty new_limiter_def new_limiter_with_def)
  then have "map snd (served ?reqs (allow_run ?l ?reqs)) =
      reference_run ?l (\<lambda>_. None) (map fst (served ?reqs (allow_run ?l ?reqs)))"
    using limiter_inv_new [OF assms(1)]
    by (intro allow_run_simulates) (auto simp: new_limiter_def sorted_replicate)
  then have "map snd (allow_run ?l ?reqs) = reference_run ?l (\<lambda>_. None) ?reqs"
    by (simp add: own)
  also have "\<dots> = map (\<lambda>i. of_nat (Suc i) \<le> lim_burst ?l) [0..<n]"
    using assms by (intro reference_run_burst) (auto simp: new_limiter_def new_limiter_with_def)
  also have "lim_burst ?l = burst" using assms by (simp add: new_limiter_def new_limiter_with_def)
  finally show ?thesis .
qed

end
