(* ===== verification/Net.thy ===== *)
theory Net
  imports Prelude
begin

section \<open>package net: addresses and networks\<close>

text \<open>
  What \<open>internal/rpc\<close> uses of Go's \<open>net\<close> and \<open>net/netip\<close>: \<open>ParseIP\<close> (an address is its 16 bytes,
  an IPv4 one in the v4-mapped range), \<open>IP.String\<close>, \<open>SplitHostPort\<close>, \<open>ParseCIDR\<close> and
  \<open>IPNet.Contains\<close>. An address with a zone is refused, as \<open>ParseIP\<close> does.
\<close>

type_synonym ip = "byte list"

record ip_net =
  net_ip :: ip
  net_mask :: "byte list"

subsection \<open>strings.Split, strings.Trim\<close>

fun split_on :: "char \<Rightarrow> string \<Rightarrow> string list" where
  "split_on sep [] = [[]]"
| "split_on sep (c # cs) =
     (if c = sep then [] # split_on sep cs
      else (case split_on sep cs of [] \<Rightarrow> [[c]] | p # ps \<Rightarrow> (c # p) # ps))"

definition trim_chars :: "char list \<Rightarrow> string \<Rightarrow> string" where
  "trim_chars cutset s =
     rev (dropWhile (\<lambda>c. c \<in> set cutset) (rev (dropWhile (\<lambda>c. c \<in> set cutset) s)))"

subsection \<open>ParseIP\<close>

definition ipv4_field :: "string \<Rightarrow> byte option" where
  "ipv4_field s =
     (if all_digits s \<and> (hd s = CHR ''0'' \<longrightarrow> length s = 1) \<and> nat_of_dec s \<le> 255
      then Some (word_of_nat (nat_of_dec s)) else None)"

definition parse_ipv4 :: "string \<Rightarrow> byte list option" where
  "parse_ipv4 s = (let fs = split_on CHR ''.'' s in if length fs = 4 then map_opt ipv4_field fs else None)"

text \<open>
  The loop over 16-bit groups: the bytes so far, where the ellipsis was, the rest. The result
  keeps what is left of the text, which has to be empty.
\<close>

function ipv6_groups :: "byte list \<Rightarrow> nat option \<Rightarrow> string \<Rightarrow> (byte list \<times> nat option \<times> string) option" where
  "ipv6_groups acc ell s =
     (if 16 \<le> length acc then Some (acc, ell, s)
      else
        (let ds = takeWhile is_hex s; rest = drop (length ds) s in
         if ds = [] \<or> 4 < length ds then None
         else case rest of
             [] \<Rightarrow> Some (acc @ [word_of_nat (nat_of_hex ds div 256), word_of_nat (nat_of_hex ds)], ell, [])
           | c # cs \<Rightarrow>
               (if c = CHR ''.'' then
                  (if ell = None \<and> length acc \<noteq> 12 \<or> 12 < length acc then None
                   else map_option (\<lambda>v4. (acc @ v4, ell, [])) (parse_ipv4 s))
                else if c \<noteq> CHR '':'' \<or> cs = [] then None
                else
                  (let acc1 = acc @ [word_of_nat (nat_of_hex ds div 256), word_of_nat (nat_of_hex ds)] in
                   if hd cs = CHR '':'' then
                     (if ell \<noteq> None then None
                      else if tl cs = [] then Some (acc1, Some (length acc1), [])
                      else ipv6_groups acc1 (Some (length acc1)) (tl cs))
                   else ipv6_groups acc1 ell cs))))"
  by pat_completeness auto
termination
  by (relation "measure (\<lambda>(acc, ell, s). 16 - length acc)") (auto simp: Let_def)

declare ipv6_groups.simps [simp del]

definition parse_ipv6 :: "string \<Rightarrow> byte list option" where
  "parse_ipv6 s =
     (let leading = prefix ''::'' s; s1 = (if leading then drop 2 s else s) in
      if leading \<and> s1 = [] then Some (replicate 16 0)
      else
        (case ipv6_groups [] (if leading then Some 0 else None) s1 of
           None \<Rightarrow> None
         | Some (bytes, ell, rest) \<Rightarrow>
             if rest \<noteq> [] then None
             else if length bytes < 16 then
               (case ell of
                  None \<Rightarrow> None
                | Some e \<Rightarrow> Some (take e bytes @ replicate (16 - length bytes) 0 @ drop e bytes))
             else if ell \<noteq> None then None
             else Some bytes))"

datatype netip_addr = Addr4 "byte list" | Addr6 "byte list"

definition v4_prefix :: "byte list" where
  "v4_prefix = replicate 10 0 @ [255, 255]"

text \<open>\<open>netip.ParseAddr\<close> of a text without a zone: the first of \<open>.\<close>, \<open>:\<close> and \<open>%\<close> decides.\<close>

definition parse_addr :: "string \<Rightarrow> netip_addr option" where
  "parse_addr s =
     (if CHR ''%'' \<in> set s then None
      else case dropWhile (\<lambda>c. c \<noteq> CHR ''.'' \<and> c \<noteq> CHR '':'') s of
          [] \<Rightarrow> None
        | c # _ \<Rightarrow>
            if c = CHR ''.'' then map_option Addr4 (parse_ipv4 s)
            else map_option Addr6 (parse_ipv6 s))"

fun as16 :: "netip_addr \<Rightarrow> ip" where
  "as16 (Addr4 bs) = v4_prefix @ bs"
| "as16 (Addr6 bs) = bs"

definition net_parse_ip :: "string \<Rightarrow> ip option" where
  "net_parse_ip s = map_option as16 (parse_addr s)"

subsection \<open>IP.String\<close>

definition to4 :: "ip \<Rightarrow> byte list option" where
  "to4 ip = (if length ip = 4 then Some ip
             else if length ip = 16 \<and> take 12 ip = v4_prefix then Some (drop 12 ip) else None)"

fun groups16 :: "byte list \<Rightarrow> nat list" where
  "groups16 (a # b # bs) = (unat a * 256 + unat b) # groups16 bs"
| "groups16 _ = []"

definition zero_run :: "nat list \<Rightarrow> nat \<Rightarrow> nat" where
  "zero_run gs i = length (takeWhile (\<lambda>g. g = 0) (drop i gs))"

text \<open>The first longest run of at least two zero groups, as a start and an end.\<close>

definition longest_zeros :: "nat list \<Rightarrow> (nat \<times> nat) option" where
  "longest_zeros gs =
     foldl (\<lambda>best i.
         let l = zero_run gs i in
         if 2 \<le> l \<and> (case best of None \<Rightarrow> True | Some (a, b) \<Rightarrow> b - a < l) then Some (i, i + l) else best)
       None [0..<length gs]"

definition ip_string :: "ip \<Rightarrow> string" where
  "ip_string ip =
     (case to4 ip of
        Some v4 \<Rightarrow> join ''.'' (map (\<lambda>b. dec_of_nat (unat b)) v4)
      | None \<Rightarrow>
          (let gs = groups16 ip; hex = (\<lambda>l. join '':'' (map hex_of_nat l)) in
           case longest_zeros gs of
             None \<Rightarrow> hex gs
           | Some (a, b) \<Rightarrow> hex (take a gs) @ ''::'' @ hex (drop b gs)))"

subsection \<open>SplitHostPort\<close>

definition index_of :: "char \<Rightarrow> string \<Rightarrow> nat option" where
  "index_of c s = (let n = length (takeWhile (\<lambda>d. d \<noteq> c) s) in if n < length s then Some n else None)"

definition last_index_of :: "char \<Rightarrow> string \<Rightarrow> nat option" where
  "last_index_of c s = map_option (\<lambda>n. length s - 1 - n) (index_of c (rev s))"

definition split_host_port :: "string \<Rightarrow> (string \<times> string) option" where
  "split_host_port s =
     (case last_index_of CHR '':'' s of
        None \<Rightarrow> None
      | Some i \<Rightarrow>
          (case (if hd s = CHR ''['' then
                   (case index_of CHR '']'' s of
                      None \<Rightarrow> None
                    | Some e \<Rightarrow> if e + 1 = i then Some (drop 1 (take e s), 1, e + 1) else None)
                 else if CHR '':'' \<in> set (take i s) then None
                 else Some (take i s, 0, 0)) of
             None \<Rightarrow> None
           | Some (host, j, k) \<Rightarrow>
               if CHR ''['' \<in> set (drop j s) \<or> CHR '']'' \<in> set (drop k s) then None
               else Some (host, drop (i + 1) s)))"

subsection \<open>Networks\<close>

definition cidr_mask :: "nat \<Rightarrow> nat \<Rightarrow> byte list" where
  "cidr_mask ones bytes =
     map (\<lambda>i. let n = min 8 (ones - 8 * i) in word_of_nat (256 - 2 ^ (8 - n))) [0..<bytes]"

definition parse_cidr :: "string \<Rightarrow> ip_net option" where
  "parse_cidr s =
     (case index_of CHR ''/'' s of
        None \<Rightarrow> None
      | Some i \<Rightarrow>
          (case parse_addr (take i s) of
             None \<Rightarrow> None
           | Some addr \<Rightarrow>
               (let mask = drop (i + 1) s;
                    len = (case addr of Addr4 _ \<Rightarrow> 4 | Addr6 _ \<Rightarrow> 16);
                    bytes = (case addr of Addr4 bs \<Rightarrow> bs | Addr6 bs \<Rightarrow> bs) in
                if all_digits mask \<and> nat_of_dec mask \<le> 8 * len then
                  (let m = cidr_mask (nat_of_dec mask) len in
                   Some \<lparr>net_ip = map2 and bytes m, net_mask = m\<rparr>)
                else None)))"

text \<open>\<open>networkNumberAndMask\<close> and \<open>Contains\<close>.\<close>

definition network_number_and_mask :: "ip_net \<Rightarrow> (byte list \<times> byte list) option" where
  "network_number_and_mask n =
     (let number = (case to4 (net_ip n) of Some v4 \<Rightarrow> v4 | None \<Rightarrow> net_ip n) in
      if length (net_mask n) = 4 then (if length number = 4 then Some (number, net_mask n) else None)
      else if length (net_mask n) = 16 then
        Some (number, if length number = 4 then drop 12 (net_mask n) else net_mask n)
      else None)"

definition net_contains :: "ip_net \<Rightarrow> ip \<Rightarrow> bool" where
  "net_contains n ip =
     (let addr = (case to4 ip of Some v4 \<Rightarrow> v4 | None \<Rightarrow> ip) in
      case network_number_and_mask n of
        None \<Rightarrow> False
      | Some (number, m) \<Rightarrow>
          length addr = length number \<and> map2 and number m = map2 and addr m)"

end
