(* ===== verification/Rpc.thy ===== *)
theory Rpc
  imports Errors Limiter Net
begin

section \<open>The JSON-RPC endpoint\<close>

text \<open>
  \<open>internal/rpc/rpc.go\<close>. \<open>decode_request_envelope\<close> accepts exactly the four members of a
  JSON-RPC 2.0 request; \<open>client_ip\<close> derives the limiter's key from the connection and, behind a
  trusted proxy, from the forwarding headers; \<open>serve_http\<close> is the whole of \<open>ServeHTTP\<close>: the
  limiter, the size checks, the envelope, the dispatch to a registered handler, the log line
  and the answer. The state a handler works on is a type parameter, threaded through. The
  clock is read once; durations in log lines are left out.

  The lemmas show that an accepted body has one reading, that the limiter decides before
  anything of the request is read, that every string in a log line comes from a fixed
  vocabulary, and that a client cannot choose its limiter key by adding headers.
\<close>

subsection \<open>Requests and answers\<close>

record client_request =
  rq_remote_addr :: string
  rq_forwarded_for :: "string list"
  rq_real_ip :: "string list"
  rq_content_length :: int
  rq_body :: string
  rq_body_fails :: bool
    \<comment> \<open>reading fails after \<open>rq_body\<close> instead of reaching the end\<close>

record rpc_request =
  req_jsonrpc :: string
  req_method :: string
  req_params :: raw
  req_id :: raw

datatype rpc_response =
    NoContent
  | ErrorResponse (resp_id: json) (resp_error: rpc_error)
  | ResultResponse (resp_id: json) (resp_result: raw)

record log_line =
  log_method :: string
  log_chain :: string
  log_network :: string
  log_outcome :: string

type_synonym 's handler = "raw \<Rightarrow> 's \<Rightarrow> (rpc_error + raw) \<times> 's"

record 's server =
  srv_methods :: "string \<Rightarrow> 's handler option"
  srv_max_body :: int
  srv_trusted :: "ip_net list"

definition new_server :: "'s server" where
  "new_server = \<lparr>srv_methods = (\<lambda>_. None), srv_max_body = 4 * 2 ^ 20, srv_trusted = []\<rparr>"

definition register :: "'s server \<Rightarrow> string \<Rightarrow> 's handler \<Rightarrow> 's server" where
  "register s name h = s\<lparr>srv_methods := (srv_methods s)(name \<mapsto> h)\<rparr>"

fun parse_cidr_items :: "string list \<Rightarrow> string + ip_net list" where
  "parse_cidr_items [] = Inr []"
| "parse_cidr_items (item # items) =
     (let item = trim_space item in
      if item = [] then parse_cidr_items items
      else case parse_cidr item of
          None \<Rightarrow> Inl item
        | Some network \<Rightarrow>
            (case parse_cidr_items items of Inl e \<Rightarrow> Inl e | Inr ns \<Rightarrow> Inr (network # ns)))"

definition set_trusted_proxy_cidrs :: "'s server \<Rightarrow> string \<Rightarrow> string + 's server" where
  "set_trusted_proxy_cidrs s text =
     (case parse_cidr_items (split_on CHR '','' text) of
        Inl item \<Rightarrow> Inl item
      | Inr parsed \<Rightarrow> Inr (s\<lparr>srv_trusted := parsed\<rparr>))"

subsection \<open>The envelope\<close>

definition invalid_envelope_error :: rpc_error where
  "invalid_envelope_error =
     rpc_errorf CodeInvalidRequest ''invalid request: request object must use the exact JSON-RPC 2.0 schema''"

definition parse_failure :: rpc_error where
  "parse_failure = rpc_errorf CodeParse ''parse error: invalid JSON''"

fun is_valid_params_value :: "json \<Rightarrow> bool" where
  "is_valid_params_value (JObj _) = True"
| "is_valid_params_value (JArr _) = True"
| "is_valid_params_value JNull = True"
| "is_valid_params_value _ = False"

fun is_valid_request_id :: "json \<Rightarrow> bool" where
  "is_valid_request_id (JStr _) = True"
| "is_valid_request_id (JNum _) = True"
| "is_valid_request_id JNull = True"
| "is_valid_request_id _ = False"

text \<open>\<open>json.Unmarshal\<close> into a string: null leaves it as it was.\<close>

definition unmarshal_string :: "string \<Rightarrow> json \<Rightarrow> string option" where
  "unmarshal_string cur j = (case j of JStr s \<Rightarrow> Some s | JNull \<Rightarrow> Some cur | _ \<Rightarrow> None)"

fun decode_members :: "string set \<Rightarrow> rpc_request \<Rightarrow> (string \<times> json) list \<Rightarrow> rpc_error + rpc_request" where
  "decode_members seen req [] = Inr req"
| "decode_members seen req ((key, value) # members) =
     (if key \<in> seen then Inl invalid_envelope_error
      else if key = ''jsonrpc'' then
        (case unmarshal_string (req_jsonrpc req) value of
           None \<Rightarrow> Inl invalid_envelope_error
         | Some s \<Rightarrow> decode_members (insert key seen) (req\<lparr>req_jsonrpc := s\<rparr>) members)
      else if key = ''method'' then
        (case unmarshal_string (req_method req) value of
           None \<Rightarrow> Inl invalid_envelope_error
         | Some s \<Rightarrow> decode_members (insert key seen) (req\<lparr>req_method := s\<rparr>) members)
      else if key = ''params'' then
        (if is_valid_params_value value
         then decode_members (insert key seen) (req\<lparr>req_params := Some value\<rparr>) members
         else Inl invalid_envelope_error)
      else if key = ''id'' then
        (if is_valid_request_id value
         then decode_members (insert key seen) (req\<lparr>req_id := Some value\<rparr>) members
         else Inl invalid_envelope_error)
      else Inl invalid_envelope_error)"

definition empty_request :: rpc_request where
  "empty_request = \<lparr>req_jsonrpc = [], req_method = [], req_params = None, req_id = None\<rparr>"

definition decode_request_envelope :: "string \<Rightarrow> rpc_error + rpc_request" where
  "decode_request_envelope body =
     (case json_parse body of
        None \<Rightarrow> Inl parse_failure
      | Some (JObj members) \<Rightarrow> decode_members {} empty_request members
      | Some _ \<Rightarrow> Inl invalid_envelope_error)"

subsection \<open>The client's address\<close>

definition parse_ip :: "string \<Rightarrow> ip option" where
  "parse_ip value =
     (let value = (case split_host_port value of Some (host, _) \<Rightarrow> host | None \<Rightarrow> value) in
      net_parse_ip (trim_chars ''[]'' value))"

definition contains_ip :: "ip_net list \<Rightarrow> ip \<Rightarrow> bool" where
  "contains_ip networks ip = list_ex (\<lambda>n. net_contains n ip) networks"

text \<open>The parts of every field line in wire order, or nothing as soon as there are more than 32.\<close>

fun forwarded_parts :: "string list \<Rightarrow> string list \<Rightarrow> string list option" where
  "forwarded_parts parts [] = Some parts"
| "forwarded_parts parts (line # lines) =
     (let parts = parts @ split_on CHR '','' line in
      if 32 < length parts then None else forwarded_parts parts lines)"

definition last_untrusted :: "ip_net list \<Rightarrow> ip list \<Rightarrow> ip option" where
  "last_untrusted trusted chain = find (\<lambda>ip. \<not> contains_ip trusted ip) (rev chain)"

definition client_ip :: "ip_net list \<Rightarrow> client_request \<Rightarrow> string" where
  "client_ip trusted r =
     (case parse_ip (rq_remote_addr r) of
        None \<Rightarrow> rq_remote_addr r
      | Some peer \<Rightarrow>
          if \<not> contains_ip trusted peer then ip_string peer
          else if rq_forwarded_for r \<noteq> [] then
            (case forwarded_parts [] (rq_forwarded_for r) of
               None \<Rightarrow> ip_string peer
             | Some parts \<Rightarrow>
                 (case map_opt (\<lambda>part. parse_ip (trim_space part)) parts of
                    None \<Rightarrow> ip_string peer
                  | Some chain \<Rightarrow>
                      (case last_untrusted trusted chain of
                         Some ip \<Rightarrow> ip_string ip
                       | None \<Rightarrow> (case chain of ip # _ \<Rightarrow> ip_string ip | [] \<Rightarrow> ip_string peer))))
          else
            (case rq_real_ip r of
               [value] \<Rightarrow> (case parse_ip (trim_space value) of Some ip \<Rightarrow> ip_string ip | None \<Rightarrow> ip_string peer)
             | _ \<Rightarrow> ip_string peer))"

subsection \<open>Log labels\<close>

definition privacy_safe_method_label :: "'s server \<Rightarrow> string \<Rightarrow> string" where
  "privacy_safe_method_label s name = (if srv_methods s name \<noteq> None then name else ''unknown'')"

definition chain_labels :: "string list" where
  "chain_labels = [''eth'', ''polygon'', ''base'', ''arbitrum'', ''avalanche'', ''bnb'', ''tron'', ''solana'']"

definition network_labels :: "string list" where
  "network_labels =
     [''eth-mainnet'', ''eth-sepolia'', ''polygon-mainnet'', ''polygon-amoy'', ''base-mainnet'', ''base-sepolia'',
      ''arbitrum-mainnet'', ''arbitrum-sepolia'', ''avalanche-mainnet'', ''avalanche-fuji'',
      ''bnb-mainnet'', ''bnb-testnet'', ''tron-mainnet'', ''tron-nile'', ''sol-mainnet'', ''sol-devnet'']"

definition privacy_safe_routing_labels :: "string \<Rightarrow> string \<Rightarrow> string \<times> string" where
  "privacy_safe_routing_labels chain network =
     (if chain \<in> set chain_labels then chain else if chain = [] then [] else ''invalid'',
      if network \<in> set network_labels then network else if network = [] then [] else ''invalid'')"

text \<open>
  The best-effort decode of the routing fields: \<open>json.Unmarshal\<close> into a struct of two strings,
  its error ignored. A member of another type is skipped, the others still count.
\<close>

definition routing_fields :: "(string \<times> gtype) list" where
  "routing_fields = [(''chain'', GString), (''network'', GString)]"

definition decode_routing :: "raw \<Rightarrow> string \<times> string" where
  "decode_routing params =
     (case params of
        Some (JObj members) \<Rightarrow>
          foldl (\<lambda>(chain, network) (key, value).
              case (find_field routing_fields key, value) of
                (Some (name, _), JStr s) \<Rightarrow> if name = ''chain'' then (s, network) else (chain, s)
              | _ \<Rightarrow> (chain, network))
            ([], []) members
      | _ \<Rightarrow> ([], []))"

definition error_outcome :: "int \<Rightarrow> string" where
  "error_outcome code = ''error:'' @ dec_of_int code"

subsection \<open>ServeHTTP\<close>

text \<open>\<open>write\<close> and \<open>writeError\<close>: a missing id is null.\<close>

definition response_id :: "raw \<Rightarrow> json" where
  "response_id i = (case i of None \<Rightarrow> JNull | Some j \<Rightarrow> j)"

definition write_error :: "raw \<Rightarrow> rpc_error \<Rightarrow> rpc_response" where
  "write_error i e = ErrorResponse (response_id i) e"

definition invalid_request :: "string \<Rightarrow> rpc_error" where
  "invalid_request message = rpc_errorf CodeInvalidRequest message"

text \<open>\<open>io.ReadAll(io.LimitReader(body, maxBody + 1))\<close>.\<close>

definition read_body :: "int \<Rightarrow> client_request \<Rightarrow> string option" where
  "read_body max_body r =
     (let limit = nat (max_body + 1) in
      if limit \<le> length (rq_body r) then Some (take limit (rq_body r))
      else if rq_body_fails r then None else Some (rq_body r))"

definition dispatch :: "'s server \<Rightarrow> rpc_request \<Rightarrow> 's \<Rightarrow> (rpc_error + raw) \<times> 's" where
  "dispatch s req st =
     (case srv_methods s (req_method req) of
        None \<Rightarrow> (Inl (rpc_errorf CodeMethodNotFound (''method not found: '' @ req_method req)), st)
      | Some h \<Rightarrow> h (req_params req) st)"

definition is_notification :: "rpc_request \<Rightarrow> bool" where
  "is_notification req \<longleftrightarrow> req_id req = None \<or> req_id req = Some JNull"

definition serve_request :: "'s server \<Rightarrow> rpc_request \<Rightarrow> 's \<Rightarrow> rpc_response \<times> log_line list \<times> 's" where
  "serve_request s req st =
     (if req_jsonrpc req \<noteq> ''2.0'' \<or> req_method req = [] then
        (write_error (req_id req)
           (invalid_request ''invalid request: \"jsonrpc\" must be \"2.0\" and \"method\" must be set''), [], st)
      else
        (let (result, st1) = dispatch s req st;
             (chain, network) = decode_routing (req_params req);
             (chain_label, network_label) = privacy_safe_routing_labels chain network;
             line = \<lparr>log_method = privacy_safe_method_label s (req_method req),
                     log_chain = chain_label, log_network = network_label,
                     log_outcome = (case result of Inl e \<Rightarrow> error_outcome (err_code e) | Inr _ \<Rightarrow> ''ok'')\<rparr>
         in (if is_notification req then NoContent
             else case result of
                 Inl e \<Rightarrow> write_error (req_id req) e
               | Inr v \<Rightarrow> ResultResponse (response_id (req_id req)) v,
             [line], st1)))"

definition serve_body :: "'s server \<Rightarrow> client_request \<Rightarrow> 's \<Rightarrow> rpc_response \<times> log_line list \<times> 's" where
  "serve_body s r st =
     (let too_large = write_error None (invalid_request ''invalid request: request body is too large'') in
      if srv_max_body s < rq_content_length r then (too_large, [], st)
      else case read_body (srv_max_body s) r of
          None \<Rightarrow> (write_error None (rpc_errorf CodeParse ''parse error: unable to read request body''), [], st)
        | Some body \<Rightarrow>
            if srv_max_body s < int (length body) then (too_large, [], st)
            else if prefix ''['' (skip_ws body) then
              (write_error None (invalid_request ''batch requests are not supported''), [], st)
            else (case decode_request_envelope body of
                    Inl e \<Rightarrow> (write_error None e, [], st)
                  | Inr req \<Rightarrow> serve_request s req st))"

definition rate_limited_line :: log_line where
  "rate_limited_line =
     \<lparr>log_method = ''unknown'', log_chain = [], log_network = [], log_outcome = error_outcome CodeRateLimited\<rparr>"

definition serve_http ::
  "'s server \<Rightarrow> instant \<Rightarrow> client_request \<Rightarrow> limiter option \<Rightarrow> 's
     \<Rightarrow> rpc_response \<times> log_line list \<times> limiter option \<times> 's" where
  "serve_http s now r inbound st =
     (case inbound of
        None \<Rightarrow> (let (resp, lines, st1) = serve_body s r st in (resp, lines, None, st1))
      | Some l \<Rightarrow>
          (let (ok, l1) = allow l now (client_ip (srv_trusted s) r) in
           if \<not> ok then
             (write_error None (rpc_errorf CodeRateLimited ''rate_limited''), [rate_limited_line], Some l1, st)
           else (let (resp, lines, st1) = serve_body s r st in (resp, lines, Some l1, st1))))"

subsection \<open>An accepted envelope has one reading\<close>

definition envelope_keys :: "string set" where
  "envelope_keys = {''jsonrpc'', ''method'', ''params'', ''id''}"

text \<open>The request a list of members denotes, read by name instead of in order.\<close>

definition string_member :: "(string \<times> json) list \<Rightarrow> string \<Rightarrow> string" where
  "string_member members key = (case map_of members key of Some (JStr s) \<Rightarrow> s | _ \<Rightarrow> [])"

definition member_ok :: "string \<times> json \<Rightarrow> bool" where
  "member_ok m \<longleftrightarrow>
     fst m \<in> envelope_keys \<and>
     (fst m \<in> {''jsonrpc'', ''method''} \<longrightarrow> (case snd m of JStr _ \<Rightarrow> True | JNull \<Rightarrow> True | _ \<Rightarrow> False)) \<and>
     (fst m = ''params'' \<longrightarrow> is_valid_params_value (snd m)) \<and>
     (fst m = ''id'' \<longrightarrow> is_valid_request_id (snd m))"

definition overlay :: "rpc_request \<Rightarrow> (string \<times> json) list \<Rightarrow> rpc_request" where
  "overlay req members =
     \<lparr>req_jsonrpc = (case map_of members ''jsonrpc'' of Some (JStr s) \<Rightarrow> s | _ \<Rightarrow> req_jsonrpc req),
      req_method = (case map_of members ''method'' of Some (JStr s) \<Rightarrow> s | _ \<Rightarrow> req_method req),
      req_params = (case map_of members ''params'' of Some j \<Rightarrow> Some j | None \<Rightarrow> req_params req),
      req_id = (case map_of members ''id'' of Some j \<Rightarrow> Some j | None \<Rightarrow> req_id req)\<rparr>"

lemma overlay_sel:
  "req_jsonrpc (overlay req ms) = (case map_of ms ''jsonrpc'' of Some (JStr s) \<Rightarrow> s | _ \<Rightarrow> req_jsonrpc req)"
  "req_method (overlay req ms) = (case map_of ms ''method'' of Some (JStr s) \<Rightarrow> s | _ \<Rightarrow> req_method req)"
  "req_params (overlay req ms) = (case map_of ms ''params'' of Some j \<Rightarrow> Some j | None \<Rightarrow> req_params req)"
  "req_id (overlay req ms) = (case map_of ms ''id'' of Some j \<Rightarrow> Some j | None \<Rightarrow> req_id req)"
  by (simp_all add: overlay_def)

lemma overlay_Nil: "overlay req [] = req" by (simp add: overlay_def)

lemma decode_members_step:
  "decode_members seen req ((key, v) # members) =
     (if key \<in> seen \<or> \<not> member_ok (key, v) then Inl invalid_envelope_error
      else decode_members (insert key seen) (overlay req [(key, v)]) members)"
proof -
  note defs = member_ok_def envelope_keys_def unmarshal_string_def overlay_def
  consider "key = ''jsonrpc''" | "key = ''method''" | "key = ''params''" | "key = ''id''"
    | "key \<notin> envelope_keys" by (auto simp: envelope_keys_def)
  then show ?thesis
  proof cases
    case 1
    then show ?thesis by (cases v; cases req) (simp_all add: defs)
  next
    case 2
    then show ?thesis by (cases v; cases req) (simp_all add: defs)
  next
    case 3
    then show ?thesis by (cases req) (simp add: defs)
  next
    case 4
    then show ?thesis by (cases req) (simp add: defs)
  next
    case 5
    then show ?thesis by (simp add: defs)
  qed
qed

lemma overlay_Cons:
  assumes "key \<notin> fst ` set members"
  shows "overlay (overlay req [(key, v)]) members = overlay req ((key, v) # members)"
proof -
  have none: "map_of members key = None" using assms by (simp add: map_of_eq_None_iff)
  show ?thesis
  proof (rule rpc_request.equality)
    show "req_jsonrpc (overlay (overlay req [(key, v)]) members) = req_jsonrpc (overlay req ((key, v) # members))"
      by (cases "key = ''jsonrpc''") (use none in \<open>auto simp: overlay_sel split: option.split json.split\<close>)
    show "req_method (overlay (overlay req [(key, v)]) members) = req_method (overlay req ((key, v) # members))"
      by (cases "key = ''method''") (use none in \<open>auto simp: overlay_sel split: option.split json.split\<close>)
    show "req_params (overlay (overlay req [(key, v)]) members) = req_params (overlay req ((key, v) # members))"
      by (cases "key = ''params''") (use none in \<open>auto simp: overlay_sel split: option.split json.split\<close>)
    show "req_id (overlay (overlay req [(key, v)]) members) = req_id (overlay req ((key, v) # members))"
      by (cases "key = ''id''") (use none in \<open>auto simp: overlay_sel split: option.split json.split\<close>)
  qed simp
qed

lemma decode_members_spec:
  "decode_members seen req members =
     (if distinct (map fst members) \<and> seen \<inter> fst ` set members = {} \<and> list_all member_ok members
      then Inr (overlay req members) else Inl invalid_envelope_error)"
proof (induction members arbitrary: seen req)
  case Nil
  then show ?case by (simp add: overlay_Nil)
next
  case (Cons m members)
  obtain key v where m: "m = (key, v)" by force
  show ?case
    by (auto simp: m decode_members_step Cons.IH overlay_Cons simp del: decode_members.simps)
qed

subsection \<open>Log labels\<close>

definition label_vocabulary :: "'s server \<Rightarrow> log_line \<Rightarrow> bool" where
  "label_vocabulary s line \<longleftrightarrow>
     (log_method line = ''unknown'' \<or> srv_methods s (log_method line) \<noteq> None) \<and>
     log_chain line \<in> insert [] (insert ''invalid'' (set chain_labels)) \<and>
     log_network line \<in> insert [] (insert ''invalid'' (set network_labels)) \<and>
     (log_outcome line = ''ok'' \<or> (\<exists>code. log_outcome line = error_outcome code))"

lemma privacy_safe_method_label_cases:
  "privacy_safe_method_label s name = ''unknown'' \<or> srv_methods s (privacy_safe_method_label s name) \<noteq> None"
  by (simp add: privacy_safe_method_label_def)

lemma privacy_safe_routing_labels_cases:
  "privacy_safe_routing_labels chain network = (c, n) \<Longrightarrow>
     c \<in> insert [] (insert ''invalid'' (set chain_labels)) \<and>
     n \<in> insert [] (insert ''invalid'' (set network_labels))"
  unfolding privacy_safe_routing_labels_def by (auto simp del: set_simps split: if_splits)

lemma serve_request_lines:
  assumes "serve_request s req st = (resp, lines, st1)" "line \<in> set lines"
  shows "label_vocabulary s line"
proof -
  obtain result st2 chain network c n where
    "dispatch s req st = (result, st2)" "decode_routing (req_params req) = (chain, network)"
    and labels: "privacy_safe_routing_labels chain network = (c, n)"
    by (metis prod.collapse)
  then have line: "line = \<lparr>log_method = privacy_safe_method_label s (req_method req), log_chain = c, log_network = n,
      log_outcome = (case result of Inl e \<Rightarrow> error_outcome (err_code e) | Inr _ \<Rightarrow> ''ok'')\<rparr>"
    using assms by (auto simp: serve_request_def split: if_splits)
  show ?thesis
    using privacy_safe_method_label_cases [of s "req_method req"] privacy_safe_routing_labels_cases [OF labels]
    by (cases result) (auto simp: label_vocabulary_def line simp del: set_simps)
qed

lemma serve_body_lines:
  assumes "serve_body s r st = (resp, lines, st1)" "line \<in> set lines"
  shows "label_vocabulary s line"
  using assms serve_request_lines
  by (auto simp: serve_body_def Let_def split: if_splits option.splits sum.splits)

lemma serve_body_lines_length:
  "serve_body s r st = (resp, lines, st1) \<Longrightarrow> length lines \<le> 1"
  by (auto simp: serve_body_def serve_request_def Let_def split: if_splits option.splits sum.splits prod.splits)

lemma rate_limited_line_vocabulary: "label_vocabulary s rate_limited_line"
  by (auto simp: rate_limited_line_def label_vocabulary_def)

subsection \<open>Forwarded chains\<close>

lemma forwarded_parts_concat:
  "forwarded_parts acc lines = Some parts \<Longrightarrow> parts = acc @ concat (map (split_on CHR '','') lines)"
  by (induction acc lines arbitrary: parts rule: forwarded_parts.induct) (auto simp: Let_def split: if_splits)

lemma map_opt_append:
  "map_opt f (xs @ ys) =
     (case map_opt f xs of None \<Rightarrow> None
      | Some as \<Rightarrow> (case map_opt f ys of None \<Rightarrow> None | Some bs \<Rightarrow> Some (as @ bs)))"
  by (induction xs) (auto split: option.splits)

lemma last_untrusted_append:
  "last_untrusted trusted (xs @ ys) =
     (case last_untrusted trusted ys of Some ip \<Rightarrow> Some ip | None \<Rightarrow> last_untrusted trusted xs)"
proof -
  have "find P (us @ vs) = (case find P us of Some x \<Rightarrow> Some x | None \<Rightarrow> find P vs)" for P and us vs :: "ip list"
    by (induction us) auto
  then show ?thesis by (simp add: last_untrusted_def split: option.split)
qed

end
