(* ===== verification/Samples.thy ===== *)
theory Samples
  imports Broadcast_Once Rpc
begin

section \<open>A concrete gateway\<close>

text \<open>
  One environment, one gateway and one request on which the properties are applied. Every request
  of this environment times out after five nanoseconds, so a submission is never answered; the
  hash is the identity, which keeps distinct payloads apart.
\<close>

definition sample_net :: pool_env where
  "sample_net = \<lparr>pe_transport = (\<lambda>w req. \<lparr>hr_outcome = TransportFailed True, hr_elapsed = 5,
       hr_ctx_done = False\<rparr>), pe_host_of = (\<lambda>u. ''host'')\<rparr>"

definition sample_env :: gateway_env where
  "sample_env = \<lparr>ge_net = sample_net, ge_sha = (\<lambda>bs. bs), ge_printable = (\<lambda>s. True)\<rparr>"

definition sample_pool :: pool where
  "sample_pool = new_pool ''eth'' [''https://a'', ''https://b'', ''https://c''] 2"

definition sample_gateway :: gateway where
  "sample_gateway = \<lparr>gw_evm = (\<lambda>n. sample_pool), gw_sol = (\<lambda>n. new_pool ''solana'' [''https://s''] 0),
     gw_tron = (\<lambda>n. new_tron ''https://t''), gw_guard = new_broadcast_guard False\<rparr>"

definition sample_world :: world where "sample_world = \<lparr>w_now = 1000, w_sent = []\<rparr>"

definition sample_params :: raw where
  "sample_params = Some (JObj [(''chain'', JStr ''tron''), (''payload'', JStr ''{}'')])"

definition sample_store :: store_answers where
  "sample_store = \<lparr>sa_setnx = NxCreated, sa_get = GetError, sa_set_ok = True\<rparr>"

definition sample_meta :: chain_meta where
  "sample_meta = \<lparr>cm_symbol = ''TRX'', cm_decimals = 6, cm_evm = False\<rparr>"

definition sample_key :: string where
  "sample_key = ''ktw:v1:broadcast:74726f6e0074726f6e2d6d61696e6e6574007b7d''"

definition sample_after :: "(rpc_error + json) \<times> gateway \<times> world" where
  "sample_after = broadcast sample_env sample_store sample_params sample_gateway sample_world"

abbreviation after_gateway :: gateway where "after_gateway \<equiv> fst (snd sample_after)"
abbreviation after_world :: world where "after_world \<equiv> snd (snd sample_after)"

lemma sample_checked:
  "checked_broadcast sample_env sample_params =
     Inr (sample_meta, ''tron'', ''tron-mainnet'', ''{}'', sample_key)"
  by code_simp

lemma sample_submit:
  assumes "gw_tron g = (\<lambda>n. new_tron ''https://t'')"
  shows "submit_payload sample_env sample_meta ''tron'' ''tron-mainnet'' ''{}'' g sample_world =
    (Inr (Inl (Unavailable ''host'' ''upstream request timed out'')), g,
     \<lparr>w_now = 1005, w_sent = [(''https://t/wallet/broadcasttransaction'', ''{}'')]\<rparr>)"
proof -
  have "trim_space ''{}'' = ''{}''" "new_tron ''https://t'' = \<lparr>tr_base = ''https://t''\<rparr>"
    "tron_broadcast_request ''{}'' = (''/wallet/broadcasttransaction'', ''{}'')" by code_simp+
  then show ?thesis using assms
    by (simp add: submit_payload_def by_family_def sample_meta_def on_tron_def tron_broadcast_def
        rest_bind_def rest_lift_def tron_fetch_def exchange_def sample_env_def sample_net_def
        sample_world_def safe_request_failure_def)
qed

definition claimed_guard :: broadcast_guard where
  "claimed_guard = fst (begin_guard 1000 sample_key NxCreated GetError (new_broadcast_guard False))"

lemma sample_begin:
  "begin_guard 1000 sample_key NxCreated GetError (new_broadcast_guard False) = (claimed_guard, Owner)"
proof -
  have "snd (begin_guard 1000 sample_key NxCreated GetError (new_broadcast_guard False)) = Owner"
    by code_simp
  then show ?thesis unfolding claimed_guard_def by (metis prod.collapse)
qed

lemma sample_start: "w_now sample_world = 1000"
  by (simp add: sample_world_def)

lemma sample_owned:
  "begin_guard (w_now sample_world) sample_key (sa_setnx sample_store) (sa_get sample_store)
     (gw_guard sample_gateway) = (claimed_guard, Owner)"
  using sample_begin by (simp add: sample_world_def sample_store_def sample_gateway_def)

lemma sample_submitted:
  "submit_payload sample_env sample_meta ''tron'' ''tron-mainnet'' ''{}''
     (sample_gateway\<lparr>gw_guard := claimed_guard\<rparr>) sample_world =
   (Inr (Inl (Unavailable ''host'' ''upstream request timed out'')), sample_gateway\<lparr>gw_guard := claimed_guard\<rparr>,
    \<lparr>w_now = 1005, w_sent = [(''https://t/wallet/broadcasttransaction'', ''{}'')]\<rparr>)"
  by (rule sample_submit) (simp add: sample_gateway_def)

lemma sample_claimed:
  "claimed_since (broadcast_events sample_env sample_store sample_params sample_gateway sample_world)
     sample_key = Some 1000"
  by (simp add: broadcast_events_def sample_checked sample_owned [unfolded sample_start] submission_def sample_submitted
      outcome_record_def broadcast_error_def rpc_codes broadcast_unknown_def broadcast_rejected_def
      Let_def sample_start)

lemma sample_sent: "w_sent after_world = [(''https://t/wallet/broadcasttransaction'', ''{}'')]"
  and sample_now: "w_now after_world = 1005"
  unfolding sample_after_def broadcast_owner [OF sample_checked sample_owned sample_submitted] by simp_all

lemma sample_run:
  "gateway_run sample_env
     (broadcast_events sample_env sample_store sample_params sample_gateway sample_world)
     after_gateway after_world"
proof -
  have "gateway_run sample_env [] sample_gateway sample_world"
    by (rule gateway_run.started) (simp add: sample_gateway_def)
  moreover have "broadcast sample_env sample_store sample_params sample_gateway sample_world =
      (fst sample_after, after_gateway, after_world)"
    by (simp add: sample_after_def)
  ultimately show ?thesis using gateway_run.served by fastforce
qed

lemma sample_pool_inv: "pool_inv sample_pool"
  by (simp add: sample_pool_def pool_inv_new)

subsection \<open>Answers\<close>

definition one_body :: string where
  "one_body = json_print (JObj [(''id'', JNum ''1''), (''jsonrpc'', JStr ''2.0''), (''result'', JStr ''0x1'')])"

definition one_net :: pool_env where
  "one_net = \<lparr>pe_transport = (\<lambda>w req. \<lparr>hr_outcome = Responded 200 (Some one_body), hr_elapsed = 5,
       hr_ctx_done = False\<rparr>), pe_host_of = (\<lambda>u. ''host'')\<rparr>"

definition sample_fee_history :: raw where
  "sample_fee_history = Some (JObj
     [(''oldestBlock'', JStr ''0x1''), (''baseFeePerGas'', JArr [JStr ''0x1'', JStr ''0x2'']),
      (''gasUsedRatio'', JArr [JNum ''0.5'']), (''reward'', JArr [JArr [JStr ''0x1'', JStr ''0x2'']])])"

definition zero_key :: string where "zero_key = replicate 32 CHR ''1''"

definition sample_token_accounts :: raw where
  "sample_token_accounts =
     (let amount = JObj [(''amount'', JStr ''1500''), (''decimals'', JNum ''2''), (''uiAmount'', JNum ''15.0''),
                         (''uiAmountString'', JStr ''15'')];
          info = JObj [(''isNative'', JBool False), (''mint'', JStr zero_key), (''owner'', JStr zero_key),
                       (''state'', JStr ''initialized''), (''tokenAmount'', amount)];
          data = JObj [(''program'', JStr ''spl-token''),
                       (''parsed'', JObj [(''info'', info), (''type'', JStr ''account'')]), (''space'', JNum ''165'')];
          account = JObj [(''data'', data), (''executable'', JBool False), (''lamports'', JNum ''1''),
                          (''owner'', JStr spl_token_program), (''rentEpoch'', JNum ''0'')]
      in Some (JObj [(''context'', JObj [(''slot'', JNum ''5'')]),
                     (''value'', JArr [JObj [(''pubkey'', JStr zero_key), (''account'', account)]])]))"

definition sample_signature_status :: raw where
  "sample_signature_status = Some (JObj
     [(''context'', JObj [(''slot'', JNum ''9'')]),
      (''value'', JArr [JObj [(''slot'', JNum ''5''), (''confirmations'', JNull), (''err'', JNull),
         (''status'', JObj [(''Ok'', JNull)]), (''confirmationStatus'', JStr ''finalized'')]])])"

text \<open>One signed TRON transaction, alone and with a member the node never sees.\<close>

definition tron_plain :: string where \<open>tron_plain = ''{"transaction":"aa"}''\<close>
definition tron_padded :: string where \<open>tron_padded = ''{"transaction":"aa","x":1}''\<close>

lemma tron_plain_request: "tron_broadcast_request tron_plain = (''/wallet/broadcasthex'', tron_plain)"
  by code_simp

lemma tron_padded_request: "tron_broadcast_request tron_padded = (''/wallet/broadcasthex'', tron_plain)"
  by code_simp

lemma tron_plain_canonical:
  "canonical_broadcast_payload sample_meta ''tron'' tron_plain = Inr (bytes_of_string tron_plain)"
  by code_simp

lemma tron_padded_canonical:
  "canonical_broadcast_payload sample_meta ''tron'' tron_padded = Inr (bytes_of_string tron_padded)"
  by code_simp

lemma tron_payloads_differ: "bytes_of_string tron_plain \<noteq> bytes_of_string tron_padded"
  by code_simp
subsection \<open>A node that answers one to everything\<close>

definition identity_env :: gateway_env where
  "identity_env = \<lparr>ge_net = one_net, ge_sha = (\<lambda>bs. bs), ge_printable = (\<lambda>s. True)\<rparr>"

definition identity_params :: raw where
  "identity_params = Some (JObj [(''chain'', JStr ''eth'')])"

lemma sample_pool_closed: "all_closed sample_pool"
  by (simp add: all_closed_def sample_pool_inv) (simp add: sample_pool_def new_pool_def Let_def new_endpoint_def)

lemma one_net_answers:
  "attempt False (hr_outcome (pe_transport one_net w req)) = AttemptResult (JStr ''0x1'')"
proof -
  have "int (length one_body) \<le> 8388608" "decode_envelope False one_body = AttemptResult (JStr ''0x1'')"
    by code_simp+
  then show ?thesis
    using read_bounded_response_iff [of one_body 8388608 one_body] by (simp add: one_net_def attempt_def)
qed

lemma evm_call_one:
  "all_closed p \<Longrightarrow> \<exists>p' w'. evm_call one_net m ps p w = (Inr (JStr ''0x1''), p', w') \<and> all_closed p'"
  unfolding evm_call_def using pool_call_answered [OF one_net_answers] by blast

lemma evm_quantity_one:
  "all_closed p \<Longrightarrow> \<exists>p' w'. evm_quantity one_net m ps p w = (Inr 1, p', w') \<and> all_closed p'"
proof -
  have "parse_quantity (JStr ''0x1'') = Inr 1" by code_simp
  then show "all_closed p \<Longrightarrow> ?thesis"
    using evm_call_one [of p m ps w] by (auto simp: evm_quantity_def io_bind_def io_lift_def)
qed

lemma fee_tiers_one: "\<not> isl (fst (fee_tiers one_net sample_pool sample_world))"
proof -
  have valid: "validate_evm_fee_history_request fee_history_blocks fee_percentiles" by code_simp
  have malformed: "decode_evm_fee_history (Some (JStr s)) n k = None" for s n k
    by (simp add: decode_evm_fee_history_def decode_exact_json_object_def decode_unique_json_object_def)
  obtain p w where "evm_call one_net ''eth_feeHistory'' [JStr (''0x'' @ hex_of_nat (nat fee_history_blocks)),
      JStr ''latest'', JArr (map (\<lambda>x. JNum (dec_of_int x)) fee_percentiles)] sample_pool sample_world =
      (Inr (JStr ''0x1''), p, w)" "all_closed p"
    using evm_call_one [OF sample_pool_closed] by blast
  moreover from this obtain p' w' where
    "evm_quantity one_net ''eth_gasPrice'' [] p w = (Inr 1, p', w')" using evm_quantity_one by blast
  ultimately show ?thesis
    by (simp add: fee_tiers_def fee_tiers_from_history_def evm_fee_history_def valid io_bind_def malformed
        evm_unavailable_def fee_tiers_from_gas_price_def evm_gas_price_def io_return_def)
qed

lemma identity_one: "\<not> isl (fst (get_network_identity identity_env identity_params sample_gateway sample_world))"
proof -
  define v where "v = the (decode_strict_json (string_struct [''chain'', ''network'']) identity_params)"
  have params: "decode_strict_json (string_struct [''chain'', ''network'']) identity_params = Some v"
    unfolding v_def by code_simp
  have strs: "str_field v ''chain'' = ''eth''" "str_field v ''network'' = ''''" unfolding v_def by code_simp+
  have reg: "validate_chain ''eth'' = Inr \<lparr>cm_symbol = ''ETH'', cm_decimals = 18, cm_evm = True\<rparr>"
    "resolve_network ''eth'' '''' = Inr ''eth-mainnet''" "registered_identity ''eth-mainnet'' = dec_of_int 1"
    by code_simp+
  obtain p w where "evm_quantity one_net ''eth_chainId'' [] sample_pool sample_world = (Inr 1, p, w)"
    using evm_quantity_one [OF sample_pool_closed] by blast
  then have "evm_chain_id one_net sample_pool sample_world = (Inr (dec_of_int 1), p, w)"
    by (simp add: evm_chain_id_def io_bind_def io_return_def)
  then show ?thesis
    by (simp add: get_network_identity_def decode_params_def or_error_def params h_bind_def h_lift_def strs reg by_family_def
        or_upstream_error_def on_evm_def identity_env_def sample_gateway_def h_return_def Let_def)
qed

subsection \<open>A forged forwarding header\<close>

definition sample_proxies :: "ip_net list" where
  "sample_proxies = [\<lparr>net_ip = [10, 0, 0, 0], net_mask = [255, 0, 0, 0]\<rparr>]"

definition sample_forged :: client_request where
  "sample_forged =
     \<lparr>rq_remote_addr = ''10.0.0.2:4711'', rq_forwarded_for = [''evil, 198.51.100.7, 10.0.0.9''],
      rq_real_ip = [], rq_content_length = 2, rq_body = ''{}'', rq_body_fails = False\<rparr>"

end
