(* ===== verification/Provider_Rows.thy ===== *)
theory Provider_Rows
  imports Tron Solana Net
begin

section \<open>Pages of rows from indexers\<close>

text \<open>
  What the history decoders of package \<open>upstream\<close> share: the execution status, the rule for a page
  (a malformed row is skipped, but a page with malformed rows and no usable one is an error), the
  text and integer checks, and the URL escapes of \<open>net/url\<close>.
\<close>

datatype execution_status = ExecutionUnknown | ExecutionConfirmed | ExecutionFailed

text \<open>
  The loop over a page's rows: \<open>f\<close> decodes one row into the values it contributes, \<open>None\<close> being a
  malformed row.
\<close>

definition page_rows :: "(json \<Rightarrow> 'a list option) \<Rightarrow> json list \<Rightarrow> 'a list option" where
  "page_rows f rows =
     (let found = concat (map (\<lambda>r. case f r of None \<Rightarrow> [] | Some xs \<Rightarrow> xs) rows) in
      if list_ex (\<lambda>r. f r = None) rows \<and> found = [] then None else Some found)"

lemma page_rows_concat:
  "page_rows f rows =
     (if (\<exists>r \<in> set rows. f r = None) \<and> (\<forall>r \<in> set rows. f r = None \<or> f r = Some []) then None
      else Some (concat (List.map_filter f rows)))"
proof -
  have found: "concat (map (\<lambda>r. case f r of None \<Rightarrow> [] | Some xs \<Rightarrow> xs) rs) = concat (List.map_filter f rs)" for rs
    by (induction rs) (auto simp: map_filter_simps split: option.splits)
  have "concat (List.map_filter f rs) = [] \<longleftrightarrow> (\<forall>r \<in> set rs. f r = None \<or> f r = Some [])" for rs
    by (induction rs) (auto simp: map_filter_simps split: option.splits)
  then show ?thesis by (auto simp: page_rows_def Let_def found list_ex_iff)
qed

lemma map_filter_set: "set (List.map_filter f rows) = {y. \<exists>r \<in> set rows. f r = Some y}"
  by (induction rows) (auto simp: map_filter_simps split: option.splits)

lemma page_rows_Some:
  "page_rows f rows = Some xs \<Longrightarrow> x \<in> set xs \<Longrightarrow> \<exists>r \<in> set rows. \<exists>ys. f r = Some ys \<and> x \<in> set ys"
  unfolding page_rows_concat by (auto simp: map_filter_set split: if_splits) blast+

text \<open>\<open>json.Unmarshal\<close> into \<open>[]json.RawMessage\<close> and into pointers; null leaves nil.\<close>

definition raw_rows :: "raw \<Rightarrow> json list option" where
  "raw_rows raw = (case raw of Some (JArr rows) \<Rightarrow> Some rows | _ \<Rightarrow> None)"

definition raw_flag :: "raw \<Rightarrow> bool option" where
  "raw_flag raw = (case raw of Some (JBool b) \<Rightarrow> Some b | _ \<Rightarrow> None)"

text \<open>A pointer to a value that null leaves nil: the outer option is the decoder's error.\<close>

definition opt_string :: "raw \<Rightarrow> string option option" where
  "opt_string raw =
     (case raw of Some (JStr s) \<Rightarrow> Some (Some s) | Some JNull \<Rightarrow> Some None | _ \<Rightarrow> None)"

definition opt_int :: "raw \<Rightarrow> int option option" where
  "opt_int raw =
     (case raw of Some (JNum lit) \<Rightarrow> map_option Some (parse_int64 lit) | Some JNull \<Rightarrow> Some None | _ \<Rightarrow> None)"

subsection \<open>Text\<close>

function valid_utf8 :: "string \<Rightarrow> bool" where
  "valid_utf8 s =
     (if s = [] then True else if utf8_len s = 0 then False else valid_utf8 (drop (utf8_len s) s))"
  by pat_completeness auto
termination
  by (relation "measure length") auto

declare valid_utf8.simps [simp del]

definition no_controls :: "string \<Rightarrow> bool" where
  "no_controls s \<longleftrightarrow> list_all (\<lambda>c. \<not> byte_of c < 32 \<and> byte_of c \<noteq> 127) s"

text \<open>At most 78 decimal digits whose value has at most \<open>bits\<close> bits.\<close>

definition unsigned_decimal :: "nat \<Rightarrow> string \<Rightarrow> bool" where
  "unsigned_decimal bits s \<longleftrightarrow> length s \<le> 78 \<and> all_digits s \<and> nat_of_dec s < 2 ^ bits"

text \<open>\<open>strconv.ParseUint(s, 10, 64)\<close> and \<open>ParseInt(s, 10, 64)\<close>.\<close>

definition parse_uint64 :: "string \<Rightarrow> nat option" where
  "parse_uint64 s = (if all_digits s \<and> nat_of_dec s < 2 ^ 64 then Some (nat_of_dec s) else None)"

definition parse_decimal64 :: "string \<Rightarrow> int option" where
  "parse_decimal64 s =
     (case parse_big_dec s of
        Some i \<Rightarrow> if - (2 ^ 63) \<le> i \<and> i < 2 ^ 63 then Some i else None
      | None \<Rightarrow> None)"

subsection \<open>net/url\<close>

definition unreserved :: "char \<Rightarrow> bool" where
  "unreserved c \<longleftrightarrow> is_digit c \<or> is_upper c \<or> is_lower c \<or> c \<in> set ''-_.~''"

definition percent :: "char \<Rightarrow> string" where
  "percent c =
     CHR ''%'' # map char_upper [hex_digit (byte_of c div 16), hex_digit (byte_of c mod 16)]"

definition path_escape :: "string \<Rightarrow> string" where
  "path_escape s = concat (map (\<lambda>c. if unreserved c \<or> c \<in> set ''$&+:=@'' then [c] else percent c) s)"

definition query_escape :: "string \<Rightarrow> string" where
  "query_escape s =
     concat (map (\<lambda>c. if unreserved c then [c] else if c = CHR '' '' then ''+'' else percent c) s)"

text \<open>\<open>url.Values.Encode\<close> of parameters given in the order of their keys.\<close>

definition query_string :: "(string \<times> string) list \<Rightarrow> string" where
  "query_string ps = join ''&'' (map (\<lambda>(k, v). query_escape k @ ''='' @ query_escape v) ps)"

end
