(* ===== verification/Explorer.thy ===== *)
theory Explorer
  imports Provider_Rows
begin

section \<open>Explorers and Helius\<close>

text \<open>
  \<open>upstream/history.go\<close>: Etherscan-compatible account listings (normal, token and internal
  transactions) and Helius transfers. Every row is validated field by field before it is used;
  execution evidence that is missing or contradictory stays unknown.
\<close>

subsection \<open>One bounded HTTP exchange\<close>

text \<open>
  The shape all indexer clients share: a request, a body of at most 8 MiB, status 200. \<open>label\<close>
  names the upstream in errors, \<open>product\<close> in the message about the status.
\<close>

definition indexer_fetch ::
  "pool_env \<Rightarrow> string \<Rightarrow> string \<Rightarrow> string \<Rightarrow> string \<Rightarrow> string rest" where
  "indexer_fetch env label product url body w =
     (let (reply, w1) = exchange env (url, body) w in
      (case hr_outcome reply of
         RequestInvalid \<Rightarrow> Inl (Unavailable label ''could not create upstream request'')
       | TransportFailed timed_out \<Rightarrow> Inl (safe_request_failure label timed_out (hr_ctx_done reply))
       | Responded st bd \<Rightarrow>
           (case Option.bind bd (\<lambda>b. read_bounded_response b (8 * 2 ^ 20)) of
              None \<Rightarrow> Inl (Unavailable label ''could not read upstream response'')
            | Some data \<Rightarrow>
                if st \<noteq> 200 then Inl (Unavailable label (product @ '' returned HTTP '' @ dec_of_int st))
                else Inr data), w1))"

text \<open>
  A loop over sources that stops at the first success, and after a failure whose exchange left the
  request's context done (\<open>ctx.Err() != nil\<close>); it returns the last error. No source at all is
  no error and \<open>none\<close>.
\<close>

definition context_done :: "pool_env \<Rightarrow> world \<Rightarrow> world \<Rightarrow> bool" where
  "context_done env w w1 \<longleftrightarrow>
     w_sent w1 \<noteq> w_sent w \<and> hr_ctx_done (pe_transport env w (last (w_sent w1)))"

fun first_success ::
  "pool_env \<Rightarrow> ('s \<Rightarrow> 'a rest) \<Rightarrow> 'a \<Rightarrow> 's list \<Rightarrow> go_error option \<Rightarrow> 'a rest" where
  "first_success env call none [] last_err w =
     (case last_err of None \<Rightarrow> Inr none | Some e \<Rightarrow> Inl e, w)"
| "first_success env call none (source # sources) last_err w =
     (case call source w of
        (Inr x, w1) \<Rightarrow> (Inr x, w1)
      | (Inl e, w1) \<Rightarrow>
          if context_done env w w1 then (Inl e, w1)
          else first_success env call none sources (Some e) w1)"

definition trim_right_slashes :: "string \<Rightarrow> string" where
  "trim_right_slashes s = rev (dropWhile (\<lambda>c. c = CHR ''/'') (rev s))"

text \<open>A decoder's three results: malformed, an explicit refusal by the provider, or the rows.\<close>

datatype 'a page = Malformed | Rejected | Page 'a

subsection \<open>Execution status\<close>

definition etherscan_execution_status :: "string \<Rightarrow> string \<Rightarrow> execution_status" where
  "etherscan_execution_status is_error rstatus =
     (let e = trim_space is_error; r = trim_space rstatus;
          confirmed = (e = ''0'' \<or> r = ''1''); failed = (e = ''1'' \<or> r = ''0'')
      in if confirmed = failed then ExecutionUnknown
         else if confirmed then ExecutionConfirmed else ExecutionFailed)"

record etherscan_tx =
  et_hash :: string
  et_from :: string
  et_to :: string
  et_value :: string
  et_time_stamp :: string
  et_is_error :: string
  et_receipt_status :: string

record etherscan_token_tx = etherscan_tx +
  tt_log_index :: string
  tt_token_decimal :: string
  tt_token_symbol :: string
  tt_contract_address :: string
  tt_block_number :: string
  tt_block_hash :: string
  tt_transaction_index :: string
  tt_confirmations :: string

record etherscan_internal_tx = etherscan_tx +
  ei_trace_id :: string
  ei_transaction_hash :: string
  ei_index :: string

definition etherscan_token_execution_status :: "etherscan_token_tx \<Rightarrow> execution_status" where
  "etherscan_token_execution_status t =
     (if trim_space (et_is_error t) \<noteq> [] \<or> trim_space (et_receipt_status t) \<noteq> []
      then etherscan_execution_status (et_is_error t) (et_receipt_status t)
      else
        (let hash = trim_space (tt_block_hash t);
             bare = (if prefix ''0x'' hash then drop 2 hash else hash) in
         if (case parse_uint64 (trim_space (tt_block_number t)) of None \<Rightarrow> True | Some n \<Rightarrow> n = 0) \<or>
            parse_uint64 (trim_space (tt_transaction_index t)) = None \<or>
            parse_uint64 (trim_space (tt_confirmations t)) = None \<or>
            length hash \<noteq> 66 \<or> \<not> prefix ''0x'' hash \<or>
            (case hex_decode bare of None \<Rightarrow> True | Some d \<Rightarrow> length d \<noteq> 32)
         then ExecutionUnknown else ExecutionConfirmed))"

definition canonical_hash :: "etherscan_internal_tx \<Rightarrow> string" where
  "canonical_hash t = (if trim_space (et_hash t) \<noteq> [] then et_hash t else ei_transaction_hash t)"

definition canonical_trace_id :: "etherscan_internal_tx \<Rightarrow> string" where
  "canonical_trace_id t = (if trim_space (ei_trace_id t) \<noteq> [] then ei_trace_id t else ei_index t)"

subsection \<open>Checks\<close>

definition valid_explorer_hash :: "string \<Rightarrow> bool" where
  "valid_explorer_hash s \<longleftrightarrow> length s = 66 \<and> valid_hex_bytes s"

definition valid_explorer_address :: "string \<Rightarrow> bool \<Rightarrow> bool" where
  "valid_explorer_address s allow_empty \<longleftrightarrow>
     (allow_empty \<and> s = []) \<or> (length s = 42 \<and> valid_hex_bytes s)"

definition valid_evm_unsigned_decimal :: "string \<Rightarrow> bool" where
  "valid_evm_unsigned_decimal s = unsigned_decimal 256 s"

definition valid_explorer_timestamp :: "string \<Rightarrow> bool" where
  "valid_explorer_timestamp s \<longleftrightarrow>
     (case parse_decimal64 s of Some t \<Rightarrow> 0 < t \<and> t \<le> 9223372036854775 | None \<Rightarrow> False)"

definition parse_explorer_uint :: "string \<Rightarrow> nat option" where
  "parse_explorer_uint s = parse_uint64 s"

definition valid_explorer_index :: "string \<Rightarrow> bool" where
  "valid_explorer_index s \<longleftrightarrow> parse_explorer_uint s \<noteq> None"

definition valid_explorer_execution_flag :: "string \<Rightarrow> bool" where
  "valid_explorer_execution_flag s \<longleftrightarrow> s = [] \<or> s = ''0'' \<or> s = ''1''"

definition valid_explorer_trace_id :: "string \<Rightarrow> bool" where
  "valid_explorer_trace_id s \<longleftrightarrow>
     s \<noteq> [] \<and> length s \<le> 128 \<and> list_all all_digits (split_on CHR ''_'' s)"

definition valid_explorer_text :: "string \<Rightarrow> nat \<Rightarrow> bool" where
  "valid_explorer_text s max_bytes \<longleftrightarrow> length s \<le> max_bytes \<and> valid_utf8 s \<and> no_controls s"

definition first_non_empty :: "string \<Rightarrow> string \<Rightarrow> string" where
  "first_non_empty a b = (if a \<noteq> [] then a else b)"

definition present_explorer_string :: "(string \<rightharpoonup> json) \<Rightarrow> string \<Rightarrow> (string \<times> bool) option" where
  "present_explorer_string obj key =
     (case obj key of
        None \<Rightarrow> Some ([], False)
      | Some (JStr s) \<Rightarrow> Some (s, True)
      | Some _ \<Rightarrow> None)"

definition required_explorer_string :: "(string \<rightharpoonup> json) \<Rightarrow> string \<Rightarrow> string option" where
  "required_explorer_string obj key =
     (case present_explorer_string obj key of Some (s, True) \<Rightarrow> Some s | _ \<Rightarrow> None)"

definition optional_explorer_string :: "(string \<rightharpoonup> json) \<Rightarrow> string \<Rightarrow> string option" where
  "optional_explorer_string obj key = map_option fst (present_explorer_string obj key)"

subsection \<open>Rows\<close>

definition explorer_empty_history_message :: "string \<Rightarrow> bool" where
  "explorer_empty_history_message message \<longleftrightarrow>
     trim_space message \<in>
       {''No transactions found'', ''No internal transactions found'', ''No token transfers found''}"

definition decode_explorer_account_envelope :: "raw \<Rightarrow> json list page" where
  "decode_explorer_account_envelope data =
     (case decode_extensible_json_object data [''status'', ''message'', ''result''] of
        None \<Rightarrow> Malformed
      | Some obj \<Rightarrow>
          (case (obj ''status'', obj ''message'') of
             (Some (JStr status), Some (JStr message)) \<Rightarrow>
               if 256 < length message \<or> obj ''result'' = None then Malformed
               else (case raw_rows (obj ''result'') of
                   None \<Rightarrow> Rejected
                 | Some entries \<Rightarrow>
                     if status = ''1'' \<and> message = ''OK'' then Page entries
                     else if status = ''0'' \<and> explorer_empty_history_message message \<and> entries = []
                     then Page entries
                     else Rejected)
           | _ \<Rightarrow> Malformed))"

definition decode_etherscan_tx :: "json \<Rightarrow> etherscan_tx option" where
  "decode_etherscan_tx row =
     do {
       obj \<leftarrow> decode_extensible_json_object (Some row)
          [''timeStamp'', ''hash'', ''from'', ''to'', ''value'', ''isError'', ''txreceipt_status''];
       hash \<leftarrow> required_explorer_string obj ''hash'';
       sender \<leftarrow> required_explorer_string obj ''from'';
       recipient \<leftarrow> required_explorer_string obj ''to'';
       amount \<leftarrow> required_explorer_string obj ''value'';
       timestamp \<leftarrow> required_explorer_string obj ''timeStamp'';
       is_error \<leftarrow> optional_explorer_string obj ''isError'';
       rstatus \<leftarrow> optional_explorer_string obj ''txreceipt_status'';
       guard_opt (valid_explorer_hash hash \<and> valid_explorer_address sender False \<and>
         valid_explorer_address recipient True \<and> valid_evm_unsigned_decimal amount \<and>
         valid_explorer_timestamp timestamp \<and> valid_explorer_execution_flag is_error \<and>
         valid_explorer_execution_flag rstatus);
       Some \<lparr>et_hash = hash, et_from = sender, et_to = recipient, et_value = amount,
             et_time_stamp = timestamp, et_is_error = is_error, et_receipt_status = rstatus\<rparr>
     }"

definition decode_etherscan_token_tx :: "json \<Rightarrow> etherscan_token_tx option" where
  "decode_etherscan_token_tx row =
     do {
       obj \<leftarrow> decode_extensible_json_object (Some row)
          [''blockNumber'', ''timeStamp'', ''hash'', ''blockHash'', ''from'', ''contractAddress'', ''to'', ''value'',
           ''tokenSymbol'', ''tokenDecimal'', ''transactionIndex'', ''confirmations'', ''logIndex'', ''isError'',
           ''txreceipt_status''];
       block_number \<leftarrow> required_explorer_string obj ''blockNumber'';
       timestamp \<leftarrow> required_explorer_string obj ''timeStamp'';
       hash \<leftarrow> required_explorer_string obj ''hash'';
       block_hash \<leftarrow> required_explorer_string obj ''blockHash'';
       sender \<leftarrow> required_explorer_string obj ''from'';
       recipient \<leftarrow> required_explorer_string obj ''to'';
       amount \<leftarrow> required_explorer_string obj ''value'';
       symbol \<leftarrow> required_explorer_string obj ''tokenSymbol'';
       token_decimal \<leftarrow> required_explorer_string obj ''tokenDecimal'';
       contract \<leftarrow> required_explorer_string obj ''contractAddress'';
       transaction_index \<leftarrow> required_explorer_string obj ''transactionIndex'';
       confirmations \<leftarrow> required_explorer_string obj ''confirmations'';
       log_index \<leftarrow> optional_explorer_string obj ''logIndex'';
       is_error \<leftarrow> optional_explorer_string obj ''isError'';
       rstatus \<leftarrow> optional_explorer_string obj ''txreceipt_status'';
       decimals \<leftarrow> parse_explorer_uint token_decimal;
       block \<leftarrow> parse_explorer_uint block_number;
       guard_opt (parse_explorer_uint transaction_index \<noteq> None \<and> parse_explorer_uint confirmations \<noteq> None);
       guard_opt (valid_explorer_hash hash \<and> valid_explorer_hash block_hash \<and>
         valid_explorer_address sender False \<and> valid_explorer_address recipient False \<and>
         valid_explorer_address contract False \<and> valid_evm_unsigned_decimal amount \<and>
         valid_explorer_timestamp timestamp \<and> valid_explorer_text symbol 128 \<and>
         decimals \<le> 255 \<and> block \<noteq> 0 \<and> (log_index = [] \<or> valid_explorer_index log_index) \<and>
         valid_explorer_execution_flag is_error \<and> valid_explorer_execution_flag rstatus);
       Some \<lparr>et_hash = hash, et_from = sender, et_to = recipient, et_value = amount,
             et_time_stamp = timestamp, et_is_error = is_error, et_receipt_status = rstatus,
             tt_log_index = log_index, tt_token_decimal = token_decimal, tt_token_symbol = symbol,
             tt_contract_address = contract, tt_block_number = block_number, tt_block_hash = block_hash,
             tt_transaction_index = transaction_index, tt_confirmations = confirmations\<rparr>
     }"

definition decode_etherscan_internal_tx :: "json \<Rightarrow> etherscan_internal_tx option" where
  "decode_etherscan_internal_tx row =
     do {
       obj \<leftarrow> decode_extensible_json_object (Some row)
          [''timeStamp'', ''hash'', ''transactionHash'', ''from'', ''to'', ''value'', ''traceId'', ''index'',
           ''isError'', ''txreceipt_status''];
       sender \<leftarrow> required_explorer_string obj ''from'';
       recipient \<leftarrow> required_explorer_string obj ''to'';
       amount \<leftarrow> required_explorer_string obj ''value'';
       timestamp \<leftarrow> required_explorer_string obj ''timeStamp'';
       (hash, has_hash) \<leftarrow> present_explorer_string obj ''hash'';
       (transaction_hash, has_transaction_hash) \<leftarrow> present_explorer_string obj ''transactionHash'';
       (trace_id, has_trace_id) \<leftarrow> present_explorer_string obj ''traceId'';
       (index, has_index) \<leftarrow> present_explorer_string obj ''index'';
       is_error \<leftarrow> optional_explorer_string obj ''isError'';
       rstatus \<leftarrow> optional_explorer_string obj ''txreceipt_status'';
       guard_opt (has_hash \<noteq> has_transaction_hash \<and> has_trace_id \<noteq> has_index \<and>
         valid_explorer_hash (first_non_empty hash transaction_hash) \<and>
         valid_explorer_trace_id (first_non_empty trace_id index) \<and>
         valid_explorer_address sender False \<and> valid_explorer_address recipient True \<and>
         valid_evm_unsigned_decimal amount \<and> valid_explorer_timestamp timestamp \<and>
         valid_explorer_execution_flag is_error \<and> valid_explorer_execution_flag rstatus);
       Some \<lparr>et_hash = hash, et_from = sender, et_to = recipient, et_value = amount,
             et_time_stamp = timestamp, et_is_error = is_error, et_receipt_status = rstatus,
             ei_trace_id = trace_id, ei_transaction_hash = transaction_hash, ei_index = index\<rparr>
     }"

subsection \<open>Listings\<close>

record etherscan_client =
  es_base :: string
  es_key :: string

definition new_etherscan :: "string \<Rightarrow> string \<Rightarrow> etherscan_client" where
  "new_etherscan base key = \<lparr>es_base = trim_right_slashes base, es_key = key\<rparr>"

definition account_list ::
  "pool_env \<Rightarrow> etherscan_client \<Rightarrow> int \<Rightarrow> string \<Rightarrow> int \<Rightarrow> string \<Rightarrow> json list rest" where
  "account_list env e chain_id address limit action =
     rest_bind (indexer_fetch env ''etherscan'' ''Etherscan''
         (es_base e @ ''?'' @ query_string
            [(''action'', action), (''address'', address), (''apikey'', es_key e),
             (''chainid'', dec_of_int chain_id), (''module'', ''account''), (''offset'', dec_of_int limit),
             (''page'', ''1''), (''sort'', ''desc'')]) [])
       (\<lambda>data. rest_lift
          (case decode_explorer_account_envelope (json_parse data) of
             Malformed \<Rightarrow> Inl (Unavailable ''etherscan'' ''malformed Etherscan response'')
           | Rejected \<Rightarrow> Inl (Unavailable ''etherscan'' ''explorer rejected request'')
           | Page rows \<Rightarrow> Inr rows))"

definition one_row :: "('a \<Rightarrow> 'b option) \<Rightarrow> 'a \<Rightarrow> 'b list option" where
  "one_row f r = map_option (\<lambda>x. [x]) (f r)"

definition tx_list :: "pool_env \<Rightarrow> etherscan_client \<Rightarrow> int \<Rightarrow> string \<Rightarrow> int \<Rightarrow> etherscan_tx list rest" where
  "tx_list env e chain_id address limit =
     rest_bind (account_list env e chain_id address limit ''txlist'')
       (\<lambda>rows. rest_lift
          (case page_rows (one_row decode_etherscan_tx) rows of
             None \<Rightarrow> Inl (Unavailable ''etherscan'' ''explorer page has no valid transaction rows'')
           | Some xs \<Rightarrow> Inr xs))"

definition token_tx_list ::
  "pool_env \<Rightarrow> etherscan_client \<Rightarrow> int \<Rightarrow> string \<Rightarrow> int \<Rightarrow> etherscan_token_tx list rest" where
  "token_tx_list env e chain_id address limit =
     rest_bind (account_list env e chain_id address limit ''tokentx'')
       (\<lambda>rows. rest_lift
          (case page_rows (one_row decode_etherscan_token_tx) rows of
             None \<Rightarrow> Inl (Unavailable ''etherscan'' ''explorer page has no valid token rows'')
           | Some xs \<Rightarrow> Inr xs))"

definition internal_tx_list ::
  "pool_env \<Rightarrow> etherscan_client \<Rightarrow> int \<Rightarrow> string \<Rightarrow> int \<Rightarrow> etherscan_internal_tx list rest" where
  "internal_tx_list env e chain_id address limit =
     rest_bind (account_list env e chain_id address limit ''txlistinternal'')
       (\<lambda>rows. rest_lift
          (case page_rows (one_row decode_etherscan_internal_tx) rows of
             None \<Rightarrow> Inl (Unavailable ''etherscan'' ''explorer page has no valid internal rows'')
           | Some xs \<Rightarrow> Inr xs))"

subsection \<open>Helius\<close>

record helius_transfer =
  ht_signature :: string
  ht_block_time :: int
  ht_type :: string
  ht_from_user_account :: string
  ht_to_user_account :: string
  ht_mint :: string
  ht_amount :: string
  ht_decimals :: int
  ht_confirmation_status :: string
  ht_transaction_index :: int
  ht_instruction_index :: int
  ht_inner_instruction_index :: "int option"

definition valid_unsigned_provider_integer :: "string \<Rightarrow> bool" where
  "valid_unsigned_provider_integer s \<longleftrightarrow> length s \<le> 128 \<and> all_digits s"

text \<open>The fields of a wire struct of pointers: absent and null are both nil.\<close>

definition wire_string :: "(string \<rightharpoonup> json) \<Rightarrow> string \<Rightarrow> string option option" where
  "wire_string obj key = (case obj key of None \<Rightarrow> Some None | Some j \<Rightarrow> opt_string (Some j))"

definition wire_int :: "(string \<rightharpoonup> json) \<Rightarrow> string \<Rightarrow> int option option" where
  "wire_int obj key = (case obj key of None \<Rightarrow> Some None | Some j \<Rightarrow> opt_int (Some j))"

definition helius_types :: "string list" where
  "helius_types = [''transfer'', ''mint'', ''burn'', ''wrap'', ''unwrap'', ''changeOwner'', ''withdrawWithheldFee'']"

definition decode_helius_transfer :: "json \<Rightarrow> helius_transfer option" where
  "decode_helius_transfer row =
     do {
       let required = [''signature'', ''blockTime'', ''type'', ''fromUserAccount'', ''toUserAccount'', ''mint'',
         ''amount'', ''decimals'', ''confirmationStatus'', ''transactionIdx'', ''instructionIdx''];
       obj \<leftarrow> decode_extensible_json_object (Some row) (required @ [''innerInstructionIdx'']);
       guard_opt (list_all (\<lambda>k. obj k \<noteq> None) required);
       sender \<leftarrow> wire_string obj ''fromUserAccount'';
       recipient \<leftarrow> wire_string obj ''toUserAccount'';
       inner \<leftarrow> wire_int obj ''innerInstructionIdx'';
       signature \<leftarrow> Option.bind (wire_string obj ''signature'') id;
       block_time \<leftarrow> Option.bind (wire_int obj ''blockTime'') id;
       kind \<leftarrow> Option.bind (wire_string obj ''type'') id;
       mint \<leftarrow> Option.bind (wire_string obj ''mint'') id;
       amount \<leftarrow> Option.bind (wire_string obj ''amount'') id;
       decimals \<leftarrow> Option.bind (wire_int obj ''decimals'') id;
       confirmation_status \<leftarrow> Option.bind (wire_string obj ''confirmationStatus'') id;
       transaction_index \<leftarrow> Option.bind (wire_int obj ''transactionIdx'') id;
       instruction_index \<leftarrow> Option.bind (wire_int obj ''instructionIdx'') id;
       guard_opt (sender \<noteq> None \<or> recipient \<noteq> None);
       guard_opt (signature \<noteq> [] \<and> mint \<noteq> [] \<and> valid_unsigned_provider_integer amount \<and>
         0 \<le> decimals \<and> decimals \<le> 36 \<and> 0 \<le> block_time \<and> 0 \<le> transaction_index \<and>
         0 \<le> instruction_index \<and> (case inner of None \<Rightarrow> True | Some i \<Rightarrow> 0 \<le> i));
       guard_opt (kind \<in> set helius_types);
       guard_opt (sender \<noteq> Some [] \<and> recipient \<noteq> Some []);
       Some \<lparr>ht_signature = signature, ht_block_time = block_time, ht_type = kind,
             ht_from_user_account = (case sender of None \<Rightarrow> [] | Some a \<Rightarrow> a),
             ht_to_user_account = (case recipient of None \<Rightarrow> [] | Some a \<Rightarrow> a),
             ht_mint = mint, ht_amount = amount, ht_decimals = decimals,
             ht_confirmation_status = confirmation_status, ht_transaction_index = transaction_index,
             ht_instruction_index = instruction_index, ht_inner_instruction_index = inner\<rparr>
     }"

text \<open>The JSON-RPC error object of an indexer: a code and a message, both present.\<close>

definition provider_error_object :: "raw \<Rightarrow> bool" where
  "provider_error_object raw \<longleftrightarrow>
     (case decode_extensible_json_object raw [''code'', ''message''] of
        None \<Rightarrow> False
      | Some obj \<Rightarrow>
          (case (opt_int (obj ''code''), opt_string (obj ''message'')) of
             (Some (Some _), Some (Some _)) \<Rightarrow> True
           | _ \<Rightarrow> False))"

definition decode_helius_transfers :: "raw \<Rightarrow> helius_transfer list page" where
  "decode_helius_transfers data =
     (case decode_extensible_json_object data [''jsonrpc'', ''id'', ''result'', ''error''] of
        None \<Rightarrow> Malformed
      | Some obj \<Rightarrow>
          if json_string (obj ''jsonrpc'') \<noteq> Some ''2.0'' \<or> json_string (obj ''id'') \<noteq> Some ''kt-wallet'' \<or>
             (obj ''result'' \<noteq> None) = (obj ''error'' \<noteq> None) then Malformed
          else if obj ''error'' \<noteq> None then
            (if provider_error_object (obj ''error'') then Rejected else Malformed)
          else
            (case decode_extensible_json_object (obj ''result'') [''data''] of
               None \<Rightarrow> Malformed
             | Some result \<Rightarrow>
                 (case raw_rows (result ''data'') of
                    None \<Rightarrow> Malformed
                  | Some entries \<Rightarrow>
                      (case page_rows (one_row decode_helius_transfer) entries of
                         None \<Rightarrow> Malformed | Some xs \<Rightarrow> Page xs))))"

record helius_client =
  hel_base :: string
  hel_key :: string

definition new_helius :: "string \<Rightarrow> string \<Rightarrow> helius_client" where
  "new_helius base key = \<lparr>hel_base = trim_right_slashes base, hel_key = key\<rparr>"

definition helius_transfers :: "pool_env \<Rightarrow> helius_client \<Rightarrow> string \<Rightarrow> int \<Rightarrow> helius_transfer list rest" where
  "helius_transfers env h address limit =
     (let body = json_print (JObj
            [(''id'', JStr ''kt-wallet''), (''jsonrpc'', JStr ''2.0''), (''method'', JStr ''getTransfersByAddress''),
             (''params'', JArr [JStr address, JObj
                [(''commitment'', JStr ''finalized''), (''limit'', JNum (dec_of_int limit)),
                 (''solMode'', JStr ''merged''), (''sortOrder'', JStr ''desc'')]])]) in
      rest_bind (indexer_fetch env ''helius'' ''Helius''
          (hel_base h @ ''?'' @ query_string [(''api-key'', hel_key h)]) body)
        (\<lambda>data. rest_lift
           (case decode_helius_transfers (json_parse data) of
              Malformed \<Rightarrow> Inl (Unavailable ''helius'' ''malformed Helius response'')
            | Rejected \<Rightarrow> Inl (Unavailable ''helius'' ''history provider rejected request'')
            | Page xs \<Rightarrow> Inr xs)))"

end
