(* ===== verification/Civil_Time.thy ===== *)
theory Civil_Time
  imports Prelude
begin

section \<open>Civil time\<close>

text \<open>
  What the gateway uses of package \<open>time\<close>: the calendar, \<open>Format(time.RFC3339Nano)\<close> of a whole
  second in UTC, and \<open>time.Parse(time.RFC3339Nano, \<dots>)\<close>, which accepts more than RFC 3339 asks
  for (an hour of one digit, a comma before the fraction, a zone offset of up to 24:60). The
  lemmas relate the two: a formatted second is read back exactly as long as its year has four
  digits.
\<close>

subsection \<open>The calendar\<close>

definition leap_year :: "int \<Rightarrow> bool" where
  "leap_year y \<longleftrightarrow> y mod 4 = 0 \<and> (y mod 100 \<noteq> 0 \<or> y mod 400 = 0)"

definition days_before_month :: "bool \<Rightarrow> int list" where
  "days_before_month leap =
     (if leap then [0, 31, 60, 91, 121, 152, 182, 213, 244, 274, 305, 335, 366]
      else [0, 31, 59, 90, 120, 151, 181, 212, 243, 273, 304, 334, 365])"

definition days_in_month :: "int \<Rightarrow> nat \<Rightarrow> int" where
  "days_in_month y m =
     days_before_month (leap_year y) ! m - days_before_month (leap_year y) ! (m - 1)"

text \<open>Days from the first of January of year 0 to that of year \<open>y\<close>, and the Unix epoch.\<close>

definition year_start :: "int \<Rightarrow> int" where
  "year_start y = 365 * y + (y + 3) div 4 - (y + 99) div 100 + (y + 399) div 400"

definition epoch_days :: int where "epoch_days = 719528"

definition days_of_date :: "int \<Rightarrow> nat \<Rightarrow> int \<Rightarrow> int" where
  "days_of_date y m d = year_start y + days_before_month (leap_year y) ! (m - 1) + d - 1 - epoch_days"

definition year_of_days :: "int \<Rightarrow> int" where
  "year_of_days n =
     (let y = n * 400 div 146097 in
      if year_start (y + 1) \<le> n then y + 1 else if n < year_start y then y - 1 else y)"

definition month_of :: "bool \<Rightarrow> int \<Rightarrow> nat" where
  "month_of leap yday =
     length (filter (\<lambda>b. b \<le> yday) (days_before_month leap))"

definition date_of_days :: "int \<Rightarrow> int \<times> nat \<times> int" where
  "date_of_days days =
     (let n = days + epoch_days; y = year_of_days n; yday = n - year_start y;
          m = month_of (leap_year y) yday
      in (y, m, yday - days_before_month (leap_year y) ! (m - 1) + 1))"

subsection \<open>Format\<close>

definition pad :: "nat \<Rightarrow> int \<Rightarrow> string" where
  "pad w i = (let s = dec_of_nat (nat i) in replicate (w - length s) CHR ''0'' @ s)"

text \<open>\<open>time.Unix(sec, 0).UTC().Format(time.RFC3339Nano)\<close> of a second not before the epoch.\<close>

definition format_rfc3339 :: "int \<Rightarrow> string" where
  "format_rfc3339 sec =
     (let (y, m, d) = date_of_days (sec div 86400); s = sec mod 86400 in
      pad 4 y @ ''-'' @ pad 2 (int m) @ ''-'' @ pad 2 d @ ''T'' @
      pad 2 (s div 3600) @ '':'' @ pad 2 (s div 60 mod 60) @ '':'' @ pad 2 (s mod 60) @ ''Z'')"

subsection \<open>Parse\<close>

text \<open>\<open>getnum\<close>: two digits, or one when \<open>fixed\<close> is false.\<close>

definition getnum :: "bool \<Rightarrow> string \<Rightarrow> (int \<times> string) option" where
  "getnum fixed s =
     (case s of
        a # b # cs \<Rightarrow>
          if \<not> is_digit a then None
          else if is_digit b then Some (int (nat_of_dec [a, b]), cs)
          else if fixed then None else Some (int (nat_of_dec [a]), b # cs)
      | [a] \<Rightarrow> if is_digit a \<and> \<not> fixed then Some (int (nat_of_dec [a]), []) else None
      | [] \<Rightarrow> None)"

definition skip_char :: "char \<Rightarrow> string \<Rightarrow> string option" where
  "skip_char c s = (case s of x # xs \<Rightarrow> if x = c then Some xs else None | [] \<Rightarrow> None)"

definition parse_year :: "string \<Rightarrow> (int \<times> string) option" where
  "parse_year s =
     (if length s < 4 \<or> \<not> all_digits (take 4 s) then None
      else Some (int (nat_of_dec (take 4 s)), drop 4 s))"

text \<open>The optional fraction; digits beyond nanoseconds are dropped.\<close>

definition parse_fraction :: "string \<Rightarrow> int \<times> string" where
  "parse_fraction s =
     (case s of
        p # d # _ \<Rightarrow>
          if (p = CHR ''.'' \<or> p = CHR '','') \<and> is_digit d then
            (let ds = takeWhile is_digit (tl s); used = take 9 ds in
             (int (nat_of_dec used) * 10 ^ (9 - length used), drop (length ds) (tl s)))
          else (0, s)
      | _ \<Rightarrow> (0, s))"

text \<open>The zone offset in seconds east of UTC.\<close>

definition parse_zone :: "string \<Rightarrow> (int \<times> string) option" where
  "parse_zone s =
     (if prefix ''Z'' s then Some (0, tl s)
      else if length s < 6 \<or> s ! 3 \<noteq> CHR '':'' then None
      else do {
        (hr, _) \<leftarrow> getnum True (take 2 (drop 1 s));
        (mm, _) \<leftarrow> getnum True (take 2 (drop 4 s));
        guard_opt (hr \<le> 24 \<and> mm \<le> 60);
        let off = (hr * 60 + mm) * 60;
        if s ! 0 = CHR ''+'' then Some (off, drop 6 s)
        else if s ! 0 = CHR ''-'' then Some (- off, drop 6 s)
        else None
      })"

text \<open>The instant in nanoseconds since the epoch.\<close>

definition parse_rfc3339 :: "string \<Rightarrow> int option" where
  "parse_rfc3339 s =
     do {
       (y, s) \<leftarrow> parse_year s;
       s \<leftarrow> skip_char CHR ''-'' s;
       (m, s) \<leftarrow> getnum True s;
       guard_opt (1 \<le> m \<and> m \<le> 12);
       s \<leftarrow> skip_char CHR ''-'' s;
       (d, s) \<leftarrow> getnum True s;
       s \<leftarrow> skip_char CHR ''T'' s;
       (hour, s) \<leftarrow> getnum False s;
       guard_opt (hour < 24);
       s \<leftarrow> skip_char CHR '':'' s;
       (minute, s) \<leftarrow> getnum True s;
       guard_opt (minute < 60);
       s \<leftarrow> skip_char CHR '':'' s;
       (sec, s) \<leftarrow> getnum True s;
       guard_opt (sec < 60);
       let (nsec, s) = parse_fraction s;
       (off, s) \<leftarrow> parse_zone s;
       guard_opt (s = []);
       guard_opt (1 \<le> d \<and> d \<le> days_in_month y (nat m));
       Some ((days_of_date y (nat m) d * 86400 + hour * 3600 + minute * 60 + sec - off) * 10 ^ 9 + nsec)
     }"


subsection \<open>The calendar is consistent\<close>

lemma year_start_Suc: "year_start (y + 1) = year_start y + (if leap_year y then 366 else 365)"
proof -
  have step: "(y + c) div n = (y + (c - 1)) div n + (if n dvd y then 1 else 0)"
    if "c = n" "0 < n" for c n :: int
  proof -
    define q r where "q = y div n" and "r = y mod n"
    have y: "y = n * q + r" and r: "0 \<le> r" "r < n" "r = y mod n"
      using that unfolding q_def r_def by (simp_all only: mult_div_mod_eq pos_mod_sign pos_mod_bound)
    have "(y + n) div n = q + 1" unfolding q_def using that by simp
    moreover have "(y + (n - 1)) div n = q + (r + (n - 1)) div n" using y that by (simp add: add.assoc)
    moreover have "(r + (n - 1)) div n = (if r = 0 then 0 else 1)"
    proof (cases "r = 0")
      case False
      then have "(r + (n - 1)) div n = (r - 1 + n) div n" by (simp add: algebra_simps)
      also have "\<dots> = 1" using False r by (simp add: div_pos_pos_trivial)
      finally show ?thesis using False by simp
    qed (use that in simp)
    ultimately show ?thesis using that r(3) by (simp add: dvd_eq_mod_eq_0)
  qed
  have "year_start (y + 1) = year_start y + 365 + (if 4 dvd y then 1 else 0) -
      (if 100 dvd y then 1 else 0) + (if 400 dvd y then 1 else 0)"
    using step [of 4 4] step [of 100 100] step [of 400 400]
    by (simp add: year_start_def algebra_simps)
  moreover have "400 dvd y \<Longrightarrow> 100 dvd y" "100 dvd y \<Longrightarrow> 4 dvd y"
    by (rule dvd_trans; simp)+
  ultimately show ?thesis
    unfolding leap_year_def mod_eq_0_iff_dvd by (cases "4 dvd y"; cases "100 dvd y"; cases "400 dvd y") simp_all
qed

lemma year_start_bounds:
  "146097 * y - 396 \<le> 400 * year_start y" "400 * year_start y \<le> 146097 * y + 699"
proof -
  have div_bounds: "y \<le> n * ((y + (n - 1)) div n) \<and> n * ((y + (n - 1)) div n) \<le> y + (n - 1)"
    if "0 < n" for n :: int
  proof -
    have "n * ((y + (n - 1)) div n) = y + (n - 1) - (y + (n - 1)) mod n"
      by (simp add: minus_mod_eq_mult_div)
    moreover have "0 \<le> (y + (n - 1)) mod n" "(y + (n - 1)) mod n < n" using that by simp_all
    ultimately show ?thesis by linarith
  qed
  show "146097 * y - 396 \<le> 400 * year_start y" "400 * year_start y \<le> 146097 * y + 699"
    using div_bounds [of 4] div_bounds [of 100] div_bounds [of 400]
    by (simp_all add: year_start_def)
qed

lemma year_of_days_bounds:
  "year_start (year_of_days n) \<le> n" "n < year_start (year_of_days n + 1)"
proof -
  define y where "y = n * 400 div 146097"
  have "146097 * y \<le> n * 400" "n * 400 < 146097 * y + 146097"
    using pos_mod_bound [of 146097 "n * 400"] pos_mod_sign [of 146097 "n * 400"]
      div_mult_mod_eq [of "n * 400" 146097] unfolding y_def by linarith+
  then have "year_start (y - 1) \<le> n" using year_start_bounds(2) [of "y - 1"] \<open>146097 * y \<le> _\<close> by (simp add: algebra_simps)
  moreover have "n < year_start (y + 2)"
    using year_start_bounds(1) [of "y + 2"] \<open>n * 400 < _\<close> by (simp add: algebra_simps)
  ultimately show "year_start (year_of_days n) \<le> n" "n < year_start (year_of_days n + 1)"
    unfolding year_of_days_def y_def [symmetric] Let_def by (auto simp: algebra_simps)
qed

lemma year_start_mono: "x \<le> y \<Longrightarrow> year_start x \<le> year_start y"
proof (induction rule: int_ge_induct)
  case (step i)
  then show ?case by (simp add: year_start_Suc)
qed simp

lemma sorted_days_before_month: "sorted (days_before_month leap)"
  by (simp add: days_before_month_def)

lemma count_le_bounds:
  fixes xs :: "int list"
  assumes "sorted xs" "xs \<noteq> []" "hd xs \<le> v" "v < last xs"
  defines "k \<equiv> length (filter (\<lambda>b. b \<le> v) xs)"
  shows "0 < k" "k < length xs" "xs ! (k - 1) \<le> v" "v < xs ! k"
proof -
  have tw: "filter (\<lambda>b. b \<le> v) xs = takeWhile (\<lambda>b. b \<le> v) xs"
    using \<open>sorted xs\<close>
  proof (induction xs)
    case (Cons x xs)
    have "\<not> x \<le> v \<Longrightarrow> \<forall>b \<in> set xs. \<not> b \<le> v" using Cons.prems by auto
    then show ?case using Cons by (auto simp: filter_empty_conv)
  qed simp
  have "last xs \<notin> set (takeWhile (\<lambda>b. b \<le> v) xs)" using assms(4) by (auto dest: set_takeWhileD)
  then have "takeWhile (\<lambda>b. b \<le> v) xs \<noteq> xs" using assms(2) last_in_set by metis
  then show k: "k < length xs"
    unfolding k_def tw by (metis le_neq_implies_less length_takeWhile_le takeWhile_eq_take take_all_iff order_refl)
  then show "v < xs ! k" using nth_length_takeWhile [of "\<lambda>b. b \<le> v" xs] by (auto simp: k_def tw)
  show pos: "0 < k" using assms(2,3) by (cases xs) (auto simp: k_def)
  have "takeWhile (\<lambda>b. b \<le> v) xs ! (k - 1) \<in> set (takeWhile (\<lambda>b. b \<le> v) xs)"
    using pos unfolding k_def tw by (intro nth_mem) simp
  moreover have "takeWhile (\<lambda>b. b \<le> v) xs ! (k - 1) = xs ! (k - 1)"
    using pos unfolding k_def tw by (intro takeWhile_nth) simp
  ultimately show "xs ! (k - 1) \<le> v" by (auto dest: set_takeWhileD)
qed

lemma month_of_bounds:
  assumes "0 \<le> yday" "yday < (if leap then 366 else 365)"
  defines "m \<equiv> month_of leap yday"
  shows "1 \<le> m" "m \<le> 12" "days_before_month leap ! (m - 1) \<le> yday" "yday < days_before_month leap ! m"
proof -
  let ?xs = "days_before_month leap"
  have "?xs \<noteq> []" "hd ?xs \<le> yday" "yday < last ?xs" "length ?xs = 13"
    using assms(1,2) by (auto simp: days_before_month_def)
  then show "1 \<le> m" "m \<le> 12" "?xs ! (m - 1) \<le> yday" "yday < ?xs ! m"
    using count_le_bounds [of ?xs yday] sorted_days_before_month [of leap]
    unfolding m_def month_of_def by linarith+
qed

text \<open>A day number denotes a valid date, and its date has that day number.\<close>

lemma date_of_days:
  assumes "date_of_days k = (y, m, d)"
  shows "days_of_date y m d = k" "1 \<le> m" "m \<le> 12" "1 \<le> d" "d \<le> days_in_month y m"
    "y = year_of_days (k + epoch_days)"
proof -
  let ?n = "k + epoch_days"
  let ?yd = "?n - year_start (year_of_days ?n)"
  have yd: "0 \<le> ?yd" "?yd < (if leap_year (year_of_days ?n) then 366 else 365)"
    using year_of_days_bounds [of ?n] year_start_Suc [of "year_of_days ?n"] by (auto split: if_splits)
  show "days_of_date y m d = k" "1 \<le> m" "m \<le> 12" "1 \<le> d" "d \<le> days_in_month y m"
    "y = year_of_days ?n"
    using assms month_of_bounds [OF yd]
    by (auto simp: date_of_days_def Let_def days_of_date_def days_in_month_def)
qed

lemma year_of_days_range:
  assumes "year_start a \<le> n" "n < year_start b"
  shows "a \<le> year_of_days n" "year_of_days n < b"
proof -
  show "a \<le> year_of_days n"
    using year_of_days_bounds(2) [of n] year_start_mono [of "year_of_days n + 1" a] assms(1)
    by (meson not_le order_trans zless_imp_add1_zle leD)
  show "year_of_days n < b"
    using year_of_days_bounds(1) [of n] year_start_mono [of b "year_of_days n"] assms(2)
    by linarith
qed


subsection \<open>What is formatted can be read back\<close>

lemma nat_of_dec_snoc: "nat_of_dec (s @ [c]) = 10 * nat_of_dec s + (byte_of c - 48)"
  by (simp add: nat_of_dec_def)

lemma byte_of_digit: "k < 10 \<Longrightarrow> byte_of (char_of (48 + k)) = 48 + k"
  by (simp add: byte_of_def)

lemma dec_of_nat_digits:
  "list_all is_digit (dec_of_nat n) \<and> nat_of_dec (dec_of_nat n) = n \<and> dec_of_nat n \<noteq> []"
proof (induction n rule: dec_of_nat.induct)
  case (1 n)
  then show ?case
    by (subst (1 2 3) dec_of_nat.simps)
       (auto simp: nat_of_dec_snoc byte_of_digit is_digit_def nat_of_dec_def [of "[_]"] list_all_iff)
qed

lemma length_dec_of_nat: "n < 10 ^ w \<Longrightarrow> 0 < w \<Longrightarrow> length (dec_of_nat n) \<le> w"
proof (induction w arbitrary: n)
  case (Suc w)
  show ?case
  proof (cases "n < 10")
    case False
    then have "0 < w" using Suc.prems by (cases w) auto
    moreover have "n div 10 < 10 ^ w" using Suc.prems(1) by (simp add: less_mult_imp_div_less mult.commute)
    ultimately show ?thesis using Suc.IH [of "n div 10"] False by (subst dec_of_nat.simps) simp
  qed (simp add: dec_of_nat.simps)
qed simp

lemma nat_of_dec_zeros: "nat_of_dec (replicate k CHR ''0'' @ s) = nat_of_dec s"
  by (induction k) (simp_all add: nat_of_dec_def byte_of_def)

lemma pad:
  assumes "0 \<le> i" "i < 10 ^ w" "0 < w"
  shows "length (pad w i) = w" "list_all is_digit (pad w i)" "int (nat_of_dec (pad w i)) = i"
proof -
  have "int (nat i) < int (10 ^ w)" using assms by simp
  then have "length (dec_of_nat (nat i)) \<le> w" by (intro length_dec_of_nat) (use assms in simp_all)
  then show "length (pad w i) = w" by (simp add: pad_def Let_def)
  show "list_all is_digit (pad w i)" "int (nat_of_dec (pad w i)) = i"
    using dec_of_nat_digits [of "nat i"] assms(1)
    by (auto simp: pad_def Let_def nat_of_dec_zeros list_all_iff is_digit_def byte_of_def)
qed

lemma getnum_pad: "0 \<le> i \<Longrightarrow> i < 100 \<Longrightarrow> getnum f (pad 2 i @ s) = Some (i, s)"
  using pad [of i 2] by (auto simp: getnum_def length_Suc_conv numeral_2_eq_2)

lemma parse_year_pad: "0 \<le> y \<Longrightarrow> y < 10000 \<Longrightarrow> parse_year (pad 4 y @ s) = Some (y, s)"
  using pad [of y 4] by (auto simp: parse_year_def all_digits_def)

lemma skip_char_Cons [simp]: "skip_char c (c # s) = Some s"
  by (simp add: skip_char_def)

lemma parse_tail: "parse_fraction ''Z'' = (0, ''Z'')" "parse_zone ''Z'' = Some (0, [])"
  by (simp_all add: parse_fraction_def parse_zone_def)

theorem parse_format_rfc3339:
  assumes "0 \<le> sec" "sec < 253402300800"
  shows "parse_rfc3339 (format_rfc3339 sec) = Some (sec * 10 ^ 9)"
proof -
  obtain y m d where date: "date_of_days (sec div 86400) = (y, m, d)" by (metis prod_cases3)
  note D = date_of_days [OF date]
  have "year_start 0 \<le> sec div 86400 + epoch_days" "sec div 86400 + epoch_days < year_start 10000"
    using assms by (simp_all add: year_start_def epoch_days_def pos_imp_zdiv_nonneg_iff add_nonneg_nonneg)
  then have y: "0 \<le> y" "y < 10000" using year_of_days_range D(6) by blast+
  have "days_in_month y m < 100" using D(2,3)
    by (auto simp: days_in_month_def days_before_month_def nth_Cons' split: if_splits)
  then have d: "0 \<le> d" "d < 100" using D(4,5) by simp_all
  let ?s = "sec mod 86400"
  have t: "0 \<le> ?s div 3600" "?s div 3600 < 24" "0 \<le> ?s div 60 mod 60" "?s div 60 mod 60 < 60"
    "0 \<le> ?s mod 60" "?s mod 60 < 60"
    by (simp_all add: pos_imp_zdiv_nonneg_iff div_less_iff_less_mult)
  have "?s div 3600 = ?s div 60 div 60" using zdiv_zmult2_eq [of 60 ?s 60] by simp
  then have s: "?s div 3600 * 3600 + ?s div 60 mod 60 * 60 + ?s mod 60 = ?s"
    using div_mult_mod_eq [of ?s 60] div_mult_mod_eq [of "?s div 60" 60] by linarith
  have sec: "sec div 86400 * 86400 + ?s = sec" by simp
  define hh mi se where "hh = ?s div 3600" and "mi = ?s div 60 mod 60" and "se = ?s mod 60"
  have "parse_rfc3339 (format_rfc3339 sec) =
      Some ((sec div 86400 * 86400 + hh * 3600 + mi * 60 + se) * 10 ^ 9)"
    using D(1-5) y d t
    unfolding format_rfc3339_def date Let_def prod.case hh_def [symmetric] mi_def [symmetric] se_def [symmetric]
    by (simp add: parse_rfc3339_def parse_year_pad getnum_pad parse_tail)
  then show ?thesis using s sec unfolding hh_def mi_def se_def by (simp only: add.assoc)
qed

end
