(* ===== verification/Alchemy.thy ===== *)
theory Alchemy
  imports Explorer Civil_Time
begin

section \<open>Alchemy transfers\<close>

text \<open>
  \<open>upstream/alchemy.go\<close>: \<open>alchemy_getAssetTransfers\<close> in both directions, over a rotating list of
  endpoints, and the block times the provider left out, fetched in one JSON-RPC batch. The client's
  state is its rotation counter (\<open>atomic.Uint64\<close>; the conversion to \<open>int\<close> is exact for the first
  \<open>2 ^ 63\<close> calls, hence a natural number).

  \<open>Transfers\<close> runs one goroutine per direction. \<open>order\<close> is the order in which they run and
  answer: their results are appended in that order. Each runs as a whole; an interleaving of
  their attempts would only start an attempt at another endpoint. \<open>key_order\<close> is the order in which
  Go ranges over a map with the given keys.
\<close>

record alchemy_client =
  al_endpoints :: "string list"
  al_next :: nat

definition new_alchemy :: "string list \<Rightarrow> alchemy_client" where
  "new_alchemy endpoints = \<lparr>al_endpoints = endpoints, al_next = 0\<rparr>"

record alchemy_raw_contract =
  rc_value :: string
  rc_address :: string
  rc_decimal :: string

record alchemy_transfer =
  at_unique_id :: string
  at_block_num :: string
  at_hash :: string
  at_from :: string
  at_to :: string
  at_asset :: string
  at_category :: string
  at_raw :: alchemy_raw_contract
  at_block_time :: string

subsection \<open>Rows\<close>

definition valid_alchemy_event_id :: "string \<Rightarrow> bool" where
  "valid_alchemy_event_id s \<longleftrightarrow>
     s \<noteq> [] \<and> length s \<le> 512 \<and> list_all (\<lambda>c. 0x21 \<le> byte_of c \<and> byte_of c \<le> 0x7e) s"

definition valid_alchemy_hash :: "string \<Rightarrow> bool" where
  "valid_alchemy_hash s \<longleftrightarrow> length s = 66 \<and> valid_hex_bytes s"

definition valid_alchemy_address :: "string \<Rightarrow> bool" where
  "valid_alchemy_address s \<longleftrightarrow> length s = 42 \<and> valid_hex_bytes s"

definition valid_alchemy_quantity :: "string \<Rightarrow> bool" where
  "valid_alchemy_quantity s \<longleftrightarrow>
     3 \<le> length s \<and> length s \<le> 66 \<and> prefix ''0x'' s \<and> list_all is_hex (drop 2 s)"

definition alchemy_categories :: "string list" where
  "alchemy_categories = [''external'', ''internal'', ''erc20'']"

text \<open>\<open>rawContract\<close>: a positive amount, at most 255 decimals, and a contract exactly for tokens.\<close>

definition decode_alchemy_raw_contract :: "string \<Rightarrow> raw \<Rightarrow> alchemy_raw_contract option" where
  "decode_alchemy_raw_contract category raw =
     do {
       obj \<leftarrow> decode_extensible_json_object raw [''value'', ''address'', ''decimal''];
       guard_opt (list_all (\<lambda>k. obj k \<noteq> None) [''value'', ''address'', ''decimal'']);
       amount \<leftarrow> Option.bind (wire_string obj ''value'') id;
       address \<leftarrow> wire_string obj ''address'';
       decimal \<leftarrow> Option.bind (wire_string obj ''decimal'') id;
       guard_opt (valid_alchemy_quantity amount \<and> valid_alchemy_quantity decimal);
       guard_opt (0 < nat_of_hex (drop 2 amount) \<and> nat_of_hex (drop 2 decimal) \<le> 255);
       contract \<leftarrow>
         (if category = ''erc20'' then
            (case address of
               None \<Rightarrow> None
             | Some a \<Rightarrow> if valid_alchemy_address a then Some a else None)
          else if address = None then Some [] else None);
       Some \<lparr>rc_value = amount, rc_address = contract, rc_decimal = decimal\<rparr>
     }"

text \<open>\<open>metadata\<close>: an unusable time is left empty, to be filled in later.\<close>

definition decode_alchemy_block_time :: "raw \<Rightarrow> string option" where
  "decode_alchemy_block_time raw =
     (case raw of
        None \<Rightarrow> Some []
      | Some JNull \<Rightarrow> Some []
      | Some j \<Rightarrow>
          do {
            obj \<leftarrow> decode_extensible_json_object (Some j) [''blockTimestamp''];
            Some (case obj ''blockTimestamp'' of
                Some (JStr s) \<Rightarrow> if parse_rfc3339 s \<noteq> None then s else []
              | _ \<Rightarrow> [])
          })"

definition decode_alchemy_transfer :: "json \<Rightarrow> alchemy_transfer option" where
  "decode_alchemy_transfer row =
     do {
       obj \<leftarrow> decode_extensible_json_object (Some row)
         [''blockNum'', ''uniqueId'', ''hash'', ''from'', ''to'', ''asset'', ''category'', ''rawContract'', ''metadata''];
       guard_opt (list_all (\<lambda>k. obj k \<noteq> None)
         [''blockNum'', ''uniqueId'', ''hash'', ''from'', ''to'', ''category'', ''rawContract'']);
       recipient \<leftarrow> wire_string obj ''to'';
       asset \<leftarrow> wire_string obj ''asset'';
       block_num \<leftarrow> Option.bind (wire_string obj ''blockNum'') id;
       unique_id \<leftarrow> Option.bind (wire_string obj ''uniqueId'') id;
       hash \<leftarrow> Option.bind (wire_string obj ''hash'') id;
       sender \<leftarrow> Option.bind (wire_string obj ''from'') id;
       category \<leftarrow> Option.bind (wire_string obj ''category'') id;
       guard_opt (valid_alchemy_quantity block_num \<and> valid_alchemy_event_id unique_id \<and>
         valid_alchemy_hash hash \<and> valid_alchemy_address sender);
       guard_opt (case recipient of None \<Rightarrow> True | Some a \<Rightarrow> valid_alchemy_address a);
       guard_opt (category \<in> set alchemy_categories);
       contract \<leftarrow> decode_alchemy_raw_contract category (obj ''rawContract'');
       block_time \<leftarrow> decode_alchemy_block_time (obj ''metadata'');
       Some \<lparr>at_unique_id = unique_id, at_block_num = block_num, at_hash = hash, at_from = sender,
             at_to = (case recipient of None \<Rightarrow> [] | Some a \<Rightarrow> a),
             at_asset = (case asset of None \<Rightarrow> [] | Some a \<Rightarrow> a),
             at_category = category, at_raw = contract, at_block_time = block_time\<rparr>
     }"

definition decode_alchemy_transfers :: "raw \<Rightarrow> alchemy_transfer list page" where
  "decode_alchemy_transfers data =
     (case decode_extensible_json_object data [''jsonrpc'', ''id'', ''result'', ''error''] of
        None \<Rightarrow> Malformed
      | Some obj \<Rightarrow>
          if json_string (obj ''jsonrpc'') \<noteq> Some ''2.0'' \<or> obj ''id'' \<noteq> Some (JNum ''1'') \<or>
             (obj ''result'' \<noteq> None) = (obj ''error'' \<noteq> None) then Malformed
          else if obj ''error'' \<noteq> None then
            (if provider_error_object (obj ''error'') then Rejected else Malformed)
          else
            (case decode_extensible_json_object (obj ''result'') [''transfers''] of
               None \<Rightarrow> Malformed
             | Some result \<Rightarrow>
                 (case raw_rows (result ''transfers'') of
                    None \<Rightarrow> Malformed
                  | Some entries \<Rightarrow>
                      (case page_rows (one_row decode_alchemy_transfer) entries of
                         None \<Rightarrow> Malformed | Some xs \<Rightarrow> Page xs))))"

subsection \<open>Requests\<close>

definition alchemy_page :: "string \<Rightarrow> string \<Rightarrow> 'a page \<Rightarrow> 'a rest" where
  "alchemy_page malformed rejected p =
     rest_lift (case p of
        Malformed \<Rightarrow> Inl (Unavailable ''alchemy'' malformed)
      | Rejected \<Rightarrow> Inl (Unavailable ''alchemy'' rejected)
      | Page x \<Rightarrow> Inr x)"

definition request_endpoint :: "pool_env \<Rightarrow> string \<Rightarrow> string \<Rightarrow> alchemy_transfer list rest" where
  "request_endpoint env payload endpoint =
     rest_bind (indexer_fetch env ''alchemy'' ''Alchemy'' endpoint payload)
       (\<lambda>data. alchemy_page ''malformed Alchemy response'' ''Alchemy rejected history request''
          (decode_alchemy_transfers (json_parse data)))"

definition rotation :: "nat \<Rightarrow> 'a list \<Rightarrow> 'a list" where
  "rotation start xs = map (\<lambda>offset. xs ! ((start + offset) mod length xs)) [0..<length xs]"

text \<open>The loop both request kinds share: every endpoint once, starting where the counter points.\<close>

type_synonym 'a alchemy = "alchemy_client \<Rightarrow> world \<Rightarrow> (go_error + 'a) \<times> alchemy_client \<times> world"

definition over_endpoints :: "pool_env \<Rightarrow> (string \<Rightarrow> 'a rest) \<Rightarrow> 'a \<Rightarrow> 'a alchemy" where
  "over_endpoints env call none a w =
     (if al_endpoints a = [] then (Inl (Unavailable ''alchemy'' ''no Alchemy endpoints configured''), a, w)
      else
        (let start = al_next a mod length (al_endpoints a);
             (r, w1) = first_success env call none (rotation start (al_endpoints a)) None w
         in (r, a\<lparr>al_next := al_next a + 1\<rparr>, w1)))"

datatype transfer_direction = FromAddress | ToAddress

definition transfers_payload :: "string \<Rightarrow> int \<Rightarrow> transfer_direction \<Rightarrow> bool \<Rightarrow> string" where
  "transfers_payload address limit direction include_internal =
     rpc_request_body ''alchemy_getAssetTransfers''
       [JObj ([(''category'', JArr (map JStr ([''external'', ''erc20''] @
                   (if include_internal then [''internal''] else [])))),
               (''excludeZeroValue'', JBool True)] @
              (if direction = FromAddress then [(''fromAddress'', JStr address)] else []) @
              [(''fromBlock'', JStr ''0x0''),
               (''maxCount'', JStr (''0x'' @ hex_of_nat (nat limit))),
               (''order'', JStr ''desc'')] @
              (if direction = ToAddress then [(''toAddress'', JStr address)] else []) @
              [(''toBlock'', JStr ''latest''), (''withMetadata'', JBool True)])]"

definition transfers_for ::
  "pool_env \<Rightarrow> string \<Rightarrow> int \<Rightarrow> transfer_direction \<Rightarrow> bool \<Rightarrow> alchemy_transfer list alchemy" where
  "transfers_for env address limit direction include_internal =
     over_endpoints env
       (request_endpoint env (transfers_payload address limit direction include_internal)) []"

subsection \<open>Block times\<close>

text \<open>The loop over the batch: ids seen so far and the times found, latest first.\<close>

fun decode_block_entries ::
  "string list \<Rightarrow> int list \<Rightarrow> (string \<times> string) list \<Rightarrow> json list \<Rightarrow> (string \<times> string) list page" where
  "decode_block_entries blocks seen ts [] =
     (if length (remdups (map fst ts)) = length blocks then Page ts else Malformed)"
| "decode_block_entries blocks seen ts (entry # entries) =
     (case decode_extensible_json_object (Some entry) [''jsonrpc'', ''id'', ''result'', ''error''] of
        None \<Rightarrow> Malformed
      | Some obj \<Rightarrow>
          (case opt_int (obj ''id'') of
             Some (Some ident) \<Rightarrow>
               if json_string (obj ''jsonrpc'') \<noteq> Some ''2.0'' \<or> ident \<le> 0 \<or> int (length blocks) < ident \<or>
                  ident \<in> set seen \<or> (obj ''result'' \<noteq> None) = (obj ''error'' \<noteq> None) then Malformed
               else if obj ''error'' \<noteq> None then
                 (if provider_error_object (obj ''error'') then Rejected else Malformed)
               else
                 (case decode_unique_json_object (obj ''result'') of
                    None \<Rightarrow> Malformed
                  | Some block \<Rightarrow>
                      if list_ex (\<lambda>k. equal_fold k ''timestamp'' \<and> k \<noteq> ''timestamp'')
                           (object_keys (obj ''result'')) then Malformed
                      else
                        (case block ''timestamp'' of
                           Some (JStr s) \<Rightarrow>
                             if \<not> valid_alchemy_quantity s \<or> 2 ^ 63 \<le> nat_of_hex (drop 2 s) then Malformed
                             else
                               decode_block_entries blocks (ident # seen)
                                 ((blocks ! nat (ident - 1), format_rfc3339 (int (nat_of_hex (drop 2 s)))) # ts)
                                 entries
                         | _ \<Rightarrow> Malformed))
           | _ \<Rightarrow> Malformed))"

definition decode_alchemy_block_timestamps :: "raw \<Rightarrow> string list \<Rightarrow> (string \<times> string) list page" where
  "decode_alchemy_block_timestamps data blocks =
     (case raw_rows data of
        None \<Rightarrow> Malformed
      | Some entries \<Rightarrow>
          if length entries \<noteq> length blocks then Malformed
          else decode_block_entries blocks [] [] entries)"

definition request_block_timestamps ::
  "pool_env \<Rightarrow> string \<Rightarrow> string list \<Rightarrow> string \<Rightarrow> (string \<times> string) list rest" where
  "request_block_timestamps env payload blocks endpoint =
     rest_bind (indexer_fetch env ''alchemy'' ''Alchemy'' endpoint payload)
       (\<lambda>data. alchemy_page ''malformed Alchemy batch response'' ''Alchemy rejected block request''
          (decode_alchemy_block_timestamps (json_parse data) blocks))"

definition block_batch :: "string list \<Rightarrow> string" where
  "block_batch blocks =
     json_print (JArr (map (\<lambda>(i, block).
        JObj [(''id'', JNum (dec_of_nat (i + 1))), (''jsonrpc'', JStr ''2.0''),
              (''method'', JStr ''eth_getBlockByNumber''), (''params'', JArr [JStr block, JBool False])])
        (enumerate 0 blocks)))"

definition block_timestamps :: "pool_env \<Rightarrow> string list \<Rightarrow> (string \<times> string) list alchemy" where
  "block_timestamps env blocks =
     over_endpoints env (request_block_timestamps env (block_batch blocks) blocks) []"

definition lacks_block_time :: "alchemy_transfer \<Rightarrow> bool" where
  "lacks_block_time t \<longleftrightarrow> at_block_time t = [] \<and> at_block_num t \<noteq> []"

definition set_block_time :: "(string \<times> string) list \<Rightarrow> alchemy_transfer \<Rightarrow> alchemy_transfer" where
  "set_block_time ts t =
     (if lacks_block_time t then
        (case map_of ts (at_block_num t) of Some s \<Rightarrow> t\<lparr>at_block_time := s\<rparr> | None \<Rightarrow> t)
      else t)"

definition fill_missing_block_times ::
  "pool_env \<Rightarrow> (string list \<Rightarrow> string list) \<Rightarrow> alchemy_transfer list \<Rightarrow> alchemy_transfer list alchemy" where
  "fill_missing_block_times env key_order transfers a w =
     (let missing = key_order (remdups (map at_block_num (filter lacks_block_time transfers))) in
      if missing = [] then (Inr transfers, a, w)
      else
        (case block_timestamps env missing a w of
           (Inl e, a1, w1) \<Rightarrow> (Inl e, a1, w1)
         | (Inr ts, a1, w1) \<Rightarrow>
             (if list_all (\<lambda>b. map_of ts b \<noteq> None) missing
              then Inr (map (set_block_time ts) transfers)
              else Inl (Unavailable ''alchemy'' ''Alchemy block timestamp response is incomplete''),
              a1, w1)))"

subsection \<open>Transfers\<close>

text \<open>One goroutine: all categories, then again without the internal one.\<close>

definition direction_feed ::
  "pool_env \<Rightarrow> string \<Rightarrow> int \<Rightarrow> transfer_direction \<Rightarrow> alchemy_transfer list alchemy" where
  "direction_feed env address limit direction a w =
     (case transfers_for env address limit direction True a w of
        (Inr items, a1, w1) \<Rightarrow> (Inr items, a1, w1)
      | (Inl _, a1, w1) \<Rightarrow> transfers_for env address limit direction False a1 w1)"

text \<open>What the loop over the two results keeps: the rows, the first error, the successes.\<close>

fun merge_feeds :: "(go_error + 'a list) list \<Rightarrow> 'a list \<times> go_error option \<times> nat" where
  "merge_feeds [] = ([], None, 0)"
| "merge_feeds (Inl e # rs) = (let (xs, err, n) = merge_feeds rs in (xs, Some e, n))"
| "merge_feeds (Inr ys # rs) = (let (xs, err, n) = merge_feeds rs in (ys @ xs, err, n + 1))"

definition alchemy_transfers ::
  "pool_env \<Rightarrow> transfer_direction \<times> transfer_direction \<Rightarrow> (string list \<Rightarrow> string list) \<Rightarrow> string \<Rightarrow> int
     \<Rightarrow> alchemy_transfer list alchemy" where
  "alchemy_transfers env order key_order address limit a w =
     (let (r1, a1, w1) = direction_feed env address limit (fst order) a w;
          (r2, a2, w2) = direction_feed env address limit (snd order) a1 w1;
          (all_rows, first_err, succeeded) = merge_feeds [r1, r2]
      in case first_err of
           Some e \<Rightarrow>
             if succeeded < 2 \<and> all_rows = [] then (Inl e, a2, w2)
             else fill_missing_block_times env key_order all_rows a2 w2
         | None \<Rightarrow> fill_missing_block_times env key_order all_rows a2 w2)"

end
