(* ===== verification/Tron_History.thy ===== *)
theory Tron_History
  imports Provider_Rows
begin

section \<open>TronGrid histories\<close>

text \<open>
  \<open>upstream/tron_history.go\<close> and the three listings of \<open>upstream/tron.go\<close>: TRC-20 transfers,
  protocol transfers (TRX and TRC-10) and value moved by contract execution. \<open>sha\<close> is SHA-256,
  which the address checksum uses. The lemmas show what a decoded row always satisfies.
\<close>

definition decode_tron_history_envelope :: "raw \<Rightarrow> json list option" where
  "decode_tron_history_envelope data =
     do {
       obj \<leftarrow> decode_extensible_json_object data [''data'', ''success''];
       success \<leftarrow> raw_flag (obj ''success'');
       guard_opt success;
       raw_rows (obj ''data'')
     }"

subsection \<open>Fields\<close>

definition required_tron_string :: "(string \<rightharpoonup> json) \<Rightarrow> string \<Rightarrow> string option" where
  "required_tron_string obj key = tron_json_string (obj key)"

definition valid_tron_unsigned_decimal :: "string \<Rightarrow> nat \<Rightarrow> bool" where
  "valid_tron_unsigned_decimal s bits = unsigned_decimal bits s"

text \<open>A number is read from a string or from the literal itself.\<close>

definition tron_json_uint :: "json \<Rightarrow> nat \<Rightarrow> nat option" where
  "tron_json_uint j bits =
     do {
       encoded \<leftarrow> (case j of JStr s \<Rightarrow> Some s | JNum lit \<Rightarrow> Some lit | _ \<Rightarrow> None);
       guard_opt (valid_tron_unsigned_decimal encoded bits);
       Some (nat_of_dec encoded)
     }"

definition required_tron_int64 :: "(string \<rightharpoonup> json) \<Rightarrow> string \<Rightarrow> int option" where
  "required_tron_int64 obj key =
     do { j \<leftarrow> obj key; n \<leftarrow> tron_json_uint j 63; Some (int n) }"

definition required_tron_uint_string :: "(string \<rightharpoonup> json) \<Rightarrow> string \<Rightarrow> nat \<Rightarrow> string option" where
  "required_tron_uint_string obj key bits =
     do { j \<leftarrow> obj key; n \<leftarrow> tron_json_uint j bits; Some (dec_of_nat n) }"

definition optional_tron_scalar :: "raw \<Rightarrow> nat \<Rightarrow> string option" where
  "optional_tron_scalar raw bits =
     (case raw of
        None \<Rightarrow> Some []
      | Some JNull \<Rightarrow> Some []
      | Some (JObj kvs) \<Rightarrow>
          do {
            obj \<leftarrow> decode_extensible_json_object raw [''_''];
            j \<leftarrow> obj ''_'';
            n \<leftarrow> tron_json_uint j bits;
            Some (dec_of_nat n)
          }
      | Some j \<Rightarrow> do { n \<leftarrow> tron_json_uint j bits; Some (dec_of_nat n) })"

definition valid_tron_text :: "string \<Rightarrow> nat \<Rightarrow> bool \<Rightarrow> bool" where
  "valid_tron_text s max_bytes allow_empty \<longleftrightarrow>
     (allow_empty \<or> s \<noteq> []) \<and> length s \<le> max_bytes \<and> valid_utf8 s \<and> no_controls s"

definition decode_tron_base58 :: "string \<Rightarrow> byte list option" where
  "decode_tron_base58 s = (if s = [] then None else base58_decode s)"

definition valid_tron_address :: "(byte list \<Rightarrow> byte list) \<Rightarrow> string \<Rightarrow> bool" where
  "valid_tron_address sha s \<longleftrightarrow>
     (if length s = 42 \<and> prefix ''41'' (to_lower s) then
        (case hex_decode s of Some d \<Rightarrow> length d = 21 | None \<Rightarrow> False)
      else
        (case decode_tron_base58 s of
           None \<Rightarrow> False
         | Some d \<Rightarrow> length d = 25 \<and> d ! 0 = 0x41 \<and> drop 21 d = take 4 (sha (sha (take 21 d)))))"

subsection \<open>TRC-20 transfers\<close>

record trc20_transfer =
  t20_transaction_id :: string
  t20_from :: string
  t20_to :: string
  t20_value :: string
  t20_block_timestamp :: int
  t20_symbol :: string
  t20_decimals :: int
  t20_contract :: string

text \<open>A row that is not a transfer event contributes nothing.\<close>

definition decode_tron_trc20_transfer :: "(byte list \<Rightarrow> byte list) \<Rightarrow> json \<Rightarrow> trc20_transfer list option" where
  "decode_tron_trc20_transfer sha row =
     do {
       obj \<leftarrow> decode_extensible_json_object (Some row)
          [''transaction_id'', ''token_info'', ''block_timestamp'', ''from'', ''to'', ''type'', ''value''];
       type_name \<leftarrow> required_tron_string obj ''type'';
       guard_opt (valid_tron_text type_name 64 False);
       if type_name \<noteq> ''Transfer'' then Some []
       else do {
         tx_id \<leftarrow> required_tron_string obj ''transaction_id'';
         guard_opt (tron_transaction_id_re tx_id);
         sender \<leftarrow> required_tron_string obj ''from'';
         guard_opt (valid_tron_address sha sender);
         recipient \<leftarrow> required_tron_string obj ''to'';
         guard_opt (valid_tron_address sha recipient);
         amount \<leftarrow> required_tron_string obj ''value'';
         guard_opt (valid_tron_unsigned_decimal amount 256);
         timestamp \<leftarrow> required_tron_int64 obj ''block_timestamp'';
         guard_opt (0 < timestamp);
         token_raw \<leftarrow> obj ''token_info'';
         token \<leftarrow> decode_extensible_json_object (Some token_raw) [''symbol'', ''address'', ''decimals''];
         symbol \<leftarrow> required_tron_string token ''symbol'';
         guard_opt (valid_tron_text symbol 128 True);
         contract \<leftarrow> required_tron_string token ''address'';
         guard_opt (valid_tron_address sha contract);
         decimals \<leftarrow> required_tron_int64 token ''decimals'';
         guard_opt (0 \<le> decimals \<and> decimals \<le> 255);
         Some [\<lparr>t20_transaction_id = tx_id, t20_from = sender, t20_to = recipient, t20_value = amount,
                t20_block_timestamp = timestamp, t20_symbol = symbol, t20_decimals = decimals,
                t20_contract = contract\<rparr>]
       }
     }"

definition decode_tron_trc20_history :: "(byte list \<Rightarrow> byte list) \<Rightarrow> raw \<Rightarrow> trc20_transfer list option" where
  "decode_tron_trc20_history sha data =
     do { rows \<leftarrow> decode_tron_history_envelope data; page_rows (decode_tron_trc20_transfer sha) rows }"

subsection \<open>Protocol transfers\<close>

record native_transfer =
  nt_tx_id :: string
  nt_owner :: string
  nt_to :: string
  nt_amount :: string
  nt_token_id :: string
  nt_contract_index :: nat
  nt_block_timestamp :: int
  nt_status :: execution_status

fun receipt_rows_status :: "execution_status \<Rightarrow> json list \<Rightarrow> execution_status option" where
  "receipt_rows_status st [] = Some st"
| "receipt_rows_status st (row # rows) =
     do {
       obj \<leftarrow> decode_extensible_json_object (Some row) [''contractRet''];
       result \<leftarrow> required_tron_string obj ''contractRet'';
       let result = to_upper (trim_space result);
       guard_opt (result \<in> set tron_receipt_results);
       receipt_rows_status (if result \<noteq> ''SUCCESS'' then ExecutionFailed else st) rows
     }"

definition decode_tron_native_status :: "raw \<Rightarrow> execution_status option" where
  "decode_tron_native_status raw =
     (case raw of
        None \<Rightarrow> Some ExecutionUnknown
      | Some _ \<Rightarrow>
          (case raw_rows raw of
             None \<Rightarrow> None
           | Some [] \<Rightarrow> Some ExecutionUnknown
           | Some rows \<Rightarrow> receipt_rows_status ExecutionConfirmed rows))"

definition decode_tron_contract ::
  "(byte list \<Rightarrow> byte list) \<Rightarrow> string \<Rightarrow> int \<Rightarrow> execution_status \<Rightarrow> nat \<Rightarrow> json \<Rightarrow> native_transfer list option" where
  "decode_tron_contract sha tx_id timestamp status index contract_raw =
     do {
       contract \<leftarrow> decode_extensible_json_object (Some contract_raw) [''parameter'', ''type''];
       contract_type \<leftarrow> required_tron_string contract ''type'';
       guard_opt (valid_tron_text contract_type 128 False);
       if contract_type \<noteq> ''TransferContract'' \<and> contract_type \<noteq> ''TransferAssetContract'' then Some []
       else do {
         parameter_raw \<leftarrow> contract ''parameter'';
         parameter \<leftarrow> decode_extensible_json_object (Some parameter_raw) [''value'', ''type_url''];
         value_raw \<leftarrow> parameter ''value'';
         guard_opt (parameter ''type_url'' = None \<or>
           tron_json_string (parameter ''type_url'') = Some (''type.googleapis.com/protocol.'' @ contract_type));
         obj \<leftarrow> decode_extensible_json_object (Some value_raw)
            [''amount'', ''owner_address'', ''to_address'', ''asset_name''];
         amount \<leftarrow> required_tron_uint_string obj ''amount'' 63;
         owner \<leftarrow> required_tron_string obj ''owner_address'';
         guard_opt (valid_tron_address sha owner);
         recipient \<leftarrow> required_tron_string obj ''to_address'';
         guard_opt (valid_tron_address sha recipient);
         token_id \<leftarrow>
           (if contract_type = ''TransferAssetContract'' then
              do {
                t \<leftarrow> required_tron_string obj ''asset_name'';
                guard_opt (valid_tron_unsigned_decimal t 64);
                Some t
              }
            else if obj ''asset_name'' \<noteq> None then None else Some []);
         Some [\<lparr>nt_tx_id = tx_id, nt_owner = owner, nt_to = recipient, nt_amount = amount,
                nt_token_id = token_id, nt_contract_index = index, nt_block_timestamp = timestamp,
                nt_status = status\<rparr>]
       }
     }"

fun decode_tron_contracts ::
  "(byte list \<Rightarrow> byte list) \<Rightarrow> string \<Rightarrow> int \<Rightarrow> execution_status \<Rightarrow> nat \<Rightarrow> json list \<Rightarrow> native_transfer list option" where
  "decode_tron_contracts sha tx_id timestamp status index [] = Some []"
| "decode_tron_contracts sha tx_id timestamp status index (c # cs) =
     do {
       xs \<leftarrow> decode_tron_contract sha tx_id timestamp status index c;
       ys \<leftarrow> decode_tron_contracts sha tx_id timestamp status (Suc index) cs;
       Some (xs @ ys)
     }"

definition decode_tron_native_transaction ::
  "(byte list \<Rightarrow> byte list) \<Rightarrow> json \<Rightarrow> native_transfer list option" where
  "decode_tron_native_transaction sha row =
     do {
       obj \<leftarrow> decode_extensible_json_object (Some row) [''ret'', ''txID'', ''block_timestamp'', ''raw_data''];
       tx_id \<leftarrow> required_tron_string obj ''txID'';
       guard_opt (tron_transaction_id_re tx_id);
       timestamp \<leftarrow> required_tron_int64 obj ''block_timestamp'';
       guard_opt (0 < timestamp);
       status \<leftarrow> decode_tron_native_status (obj ''ret'');
       raw_data \<leftarrow> obj ''raw_data'';
       raw_fields \<leftarrow> decode_extensible_json_object (Some raw_data) [''contract''];
       contracts \<leftarrow> raw_rows (raw_fields ''contract'');
       decode_tron_contracts sha tx_id timestamp status 0 contracts
     }"

definition decode_tron_native_history :: "(byte list \<Rightarrow> byte list) \<Rightarrow> raw \<Rightarrow> native_transfer list option" where
  "decode_tron_native_history sha data =
     do { rows \<leftarrow> decode_tron_history_envelope data; page_rows (decode_tron_native_transaction sha) rows }"

subsection \<open>Value moved by contracts\<close>

record internal_transfer =
  it_tx_id :: string
  it_internal_tx_id :: string
  it_from :: string
  it_to :: string
  it_amount :: string
  it_token_id :: string
  it_asset_index :: nat
  it_block_timestamp :: int
  it_status :: execution_status

definition positive_scalar :: "string \<Rightarrow> bool" where
  "positive_scalar s \<longleftrightarrow> s \<noteq> [] \<and> s \<noteq> ''0''"

definition decode_tron_internal_transaction ::
  "(byte list \<Rightarrow> byte list) \<Rightarrow> json \<Rightarrow> internal_transfer list option" where
  "decode_tron_internal_transaction sha row =
     do {
       obj \<leftarrow> decode_extensible_json_object (Some row)
          [''internal_tx_id'', ''data'', ''block_timestamp'', ''to_address'', ''tx_id'', ''from_address''];
       tx_id \<leftarrow> required_tron_string obj ''tx_id'';
       guard_opt (tron_transaction_id_re tx_id);
       internal_id \<leftarrow> required_tron_string obj ''internal_tx_id'';
       guard_opt (tron_transaction_id_re internal_id);
       sender \<leftarrow> required_tron_string obj ''from_address'';
       guard_opt (valid_tron_address sha sender);
       recipient \<leftarrow> required_tron_string obj ''to_address'';
       guard_opt (valid_tron_address sha recipient);
       timestamp \<leftarrow> required_tron_int64 obj ''block_timestamp'';
       guard_opt (0 < timestamp);
       data_raw \<leftarrow> obj ''data'';
       data \<leftarrow> decode_extensible_json_object (Some data_raw)
          [''rejected'', ''call_value'', ''call_token_value'', ''token_id''];
       status \<leftarrow>
         (case data ''rejected'' of
            None \<Rightarrow> Some ExecutionUnknown
          | Some r \<Rightarrow>
              (case raw_flag (Some r) of
                 None \<Rightarrow> None
               | Some rejected \<Rightarrow> Some (if rejected then ExecutionFailed else ExecutionConfirmed)));
       call_value \<leftarrow> optional_tron_scalar (data ''call_value'') 63;
       token_value \<leftarrow> optional_tron_scalar (data ''call_token_value'') 63;
       token_id \<leftarrow> optional_tron_scalar (data ''token_id'') 64;
       guard_opt (\<not> (positive_scalar token_value \<and> \<not> positive_scalar token_id));
       let base = \<lparr>it_tx_id = tx_id, it_internal_tx_id = internal_id, it_from = sender, it_to = recipient,
                   it_amount = [], it_token_id = [], it_asset_index = 0, it_block_timestamp = timestamp,
                   it_status = status\<rparr>;
       Some ((if positive_scalar call_value then [base\<lparr>it_amount := call_value\<rparr>] else []) @
             (if positive_scalar token_value
              then [base\<lparr>it_amount := token_value, it_token_id := token_id, it_asset_index := 1\<rparr>] else []))
     }"

definition decode_tron_internal_history :: "(byte list \<Rightarrow> byte list) \<Rightarrow> raw \<Rightarrow> internal_transfer list option" where
  "decode_tron_internal_history sha data =
     do { rows \<leftarrow> decode_tron_history_envelope data; page_rows (decode_tron_internal_transaction sha) rows }"

subsection \<open>The listings\<close>

definition tron_listing_path :: "string \<Rightarrow> string \<Rightarrow> int \<Rightarrow> string" where
  "tron_listing_path address resource limit =
     ''/v1/accounts/'' @ path_escape address @ resource @ ''?limit='' @ dec_of_int limit @
     ''&only_confirmed=true&order_by=block_timestamp,desc''"

definition tron_trc20_transfers ::
  "(byte list \<Rightarrow> byte list) \<Rightarrow> pool_env \<Rightarrow> tron_client \<Rightarrow> string \<Rightarrow> int \<Rightarrow> trc20_transfer list rest" where
  "tron_trc20_transfers sha env t address limit =
     rest_bind (tron_fetch env t (tron_listing_path address ''/transactions/trc20'' limit) [])
       (\<lambda>data. rest_lift
          (case decode_tron_trc20_history sha (json_parse data) of
             None \<Rightarrow> Inl (tron_unavailable env t ''malformed TronGrid TRC-20 history response'')
           | Some xs \<Rightarrow> Inr xs))"

definition tron_native_transactions ::
  "(byte list \<Rightarrow> byte list) \<Rightarrow> pool_env \<Rightarrow> tron_client \<Rightarrow> string \<Rightarrow> int \<Rightarrow> native_transfer list rest" where
  "tron_native_transactions sha env t address limit =
     rest_bind (tron_fetch env t (tron_listing_path address ''/transactions'' limit) [])
       (\<lambda>data. rest_lift
          (case decode_tron_native_history sha (json_parse data) of
             None \<Rightarrow> Inl (tron_unavailable env t ''malformed TronGrid native history response'')
           | Some xs \<Rightarrow> Inr xs))"

definition tron_internal_transactions ::
  "(byte list \<Rightarrow> byte list) \<Rightarrow> pool_env \<Rightarrow> tron_client \<Rightarrow> string \<Rightarrow> int \<Rightarrow> internal_transfer list rest" where
  "tron_internal_transactions sha env t address limit =
     rest_bind (tron_fetch env t (tron_listing_path address ''/internal-transactions'' limit) [])
       (\<lambda>data. rest_lift
          (case decode_tron_internal_history sha (json_parse data) of
             None \<Rightarrow> Inl (tron_unavailable env t ''malformed TronGrid internal history response'')
           | Some xs \<Rightarrow> Inr xs))"

end
