(* ===== verification/Solana_Impact.thy ===== *)
theory Solana_Impact
  imports Provider_Rows "HOL-Library.AList"
begin

section \<open>What a Solana transaction did to a wallet\<close>

text \<open>
  The history half of \<open>upstream/solana.go\<close>: the signatures touching an address and
  \<open>GetTransactionAccountImpact\<close>, which reads the wallet's lamport and token deltas out of one
  parsed transaction. The loops over slices are folds; \<open>key_order\<close> is the order in which Go ranges
  over the map of token deltas. A \<open>json.Number\<close> is decoded after the struct that holds it: a
  number, a string spelling one, or null.
\<close>

subsection \<open>Signatures\<close>

record solana_sig =
  sg_signature :: string
  sg_block_time :: "int option"
  sg_err :: raw

definition signature_rows_type :: gtype where
  "signature_rows_type =
     GSlice (GStruct [field ''signature'' GString, field ''blockTime'' (GPtr GInt), field ''err'' GAny])"

definition raw_field :: "gval \<Rightarrow> string \<Rightarrow> raw" where
  "raw_field v k = (case get_field v k of Some (VRaw j) \<Rightarrow> Some j | _ \<Rightarrow> None)"

definition solana_sig_of :: "gval \<Rightarrow> solana_sig" where
  "solana_sig_of v =
     \<lparr>sg_signature = str_field v ''signature'', sg_block_time = ptr_int_field v ''blockTime'',
      sg_err = raw_field v ''err''\<rparr>"

definition solana_signatures_for_address :: "pool_env \<Rightarrow> string \<Rightarrow> int \<Rightarrow> solana_sig list io" where
  "solana_signatures_for_address env address limit =
     io_bind (solana_call_extensible env ''getSignaturesForAddress''
         [JStr address, JObj [(''limit'', JNum (dec_of_int limit))]])
       (\<lambda>raw. case unmarshal False signature_rows_type VNil raw of
          None \<Rightarrow> solana_fail ''malformed getSignaturesForAddress result''
        | Some (VSlice rows) \<Rightarrow> io_return (map solana_sig_of rows)
        | Some _ \<Rightarrow> io_return [])"

text \<open>A null \<open>err\<close> is success; a missing one is no evidence.\<close>

definition signature_execution_status :: "solana_sig \<Rightarrow> execution_status" where
  "signature_execution_status s =
     (case sg_err s of None \<Rightarrow> ExecutionUnknown | Some JNull \<Rightarrow> ExecutionConfirmed | Some _ \<Rightarrow> ExecutionFailed)"

subsection \<open>The parsed transaction\<close>

definition token_balance_type :: gtype where
  "token_balance_type =
     GStruct [field ''accountIndex'' (GPtr GInt), field ''mint'' GString, field ''owner'' GString,
              field ''uiTokenAmount'' (GStruct [field ''amount'' GString, field ''decimals'' GInt])]"

record token_balance =
  tb_account_index :: "int option"
  tb_mint :: string
  tb_owner :: string
  tb_amount :: string
  tb_decimals :: int

definition sub_field :: "gval \<Rightarrow> string \<Rightarrow> gval" where
  "sub_field v k = (case get_field v k of Some x \<Rightarrow> x | None \<Rightarrow> VStruct [])"

definition token_balance_of :: "gval \<Rightarrow> token_balance" where
  "token_balance_of v =
     \<lparr>tb_account_index = ptr_int_field v ''accountIndex'', tb_mint = str_field v ''mint'',
      tb_owner = str_field v ''owner'', tb_amount = str_field (sub_field v ''uiTokenAmount'') ''amount'',
      tb_decimals = int_field (sub_field v ''uiTokenAmount'') ''decimals''\<rparr>"

definition transaction_type :: gtype where
  "transaction_type =
     GStruct
       [field ''meta'' (GPtr (GStruct
          [field ''preBalances'' (GSlice GAny), field ''postBalances'' (GSlice GAny),
           field ''preTokenBalances'' (GSlice token_balance_type),
           field ''postTokenBalances'' (GSlice token_balance_type)])),
        field ''transaction'' (GStruct
          [field ''message'' (GStruct
             [field ''accountKeys'' (GSlice GAny), field ''instructions'' (GSlice GAny)])])]"

definition number_literal :: "string \<Rightarrow> bool" where
  "number_literal s = (case json_parse s of Some (JNum lit) \<Rightarrow> lit = s | _ \<Rightarrow> False)"

fun json_number :: "json \<Rightarrow> string option" where
  "json_number (JNum lit) = Some lit"
| "json_number (JStr s) = (if number_literal s then Some s else None)"
| "json_number JNull = Some []"
| "json_number _ = None"

definition raw_elements :: "gval \<Rightarrow> string \<Rightarrow> json list" where
  "raw_elements v k = List.map_filter (\<lambda>x. case x of VRaw j \<Rightarrow> Some j | _ \<Rightarrow> None) (slice_field v k)"

record parsed_transaction =
  px_pre_balances :: "string list"
  px_post_balances :: "string list"
  px_pre_tokens :: "token_balance list"
  px_post_tokens :: "token_balance list"
  px_account_keys :: "json list"
  px_instructions :: "json list"

definition parse_transaction :: "json \<Rightarrow> parsed_transaction option" where
  "parse_transaction raw =
     do {
       out \<leftarrow> unmarshal False transaction_type (gzero transaction_type) raw;
       meta \<leftarrow> (case get_field out ''meta'' of Some (VPtr m) \<Rightarrow> Some m | _ \<Rightarrow> None);
       pre \<leftarrow> map_opt json_number (raw_elements meta ''preBalances'');
       post \<leftarrow> map_opt json_number (raw_elements meta ''postBalances'');
       let message = sub_field (sub_field out ''transaction'') ''message'';
       Some \<lparr>px_pre_balances = pre, px_post_balances = post,
             px_pre_tokens = map token_balance_of (slice_field meta ''preTokenBalances''),
             px_post_tokens = map token_balance_of (slice_field meta ''postTokenBalances''),
             px_account_keys = raw_elements message ''accountKeys'',
             px_instructions = raw_elements message ''instructions''\<rparr>
     }"

definition account_key_type :: gtype where
  "account_key_type = GStruct [field ''pubkey'' GString, field ''signer'' GBool]"

text \<open>An account key is a string or an object; an unreadable one keeps the empty key and is skipped.\<close>

definition account_key :: "json \<Rightarrow> (string \<times> bool) option" where
  "account_key raw =
     (case json_string (Some raw) of
        Some key \<Rightarrow> Some (key, False)
      | None \<Rightarrow>
          map_option (\<lambda>v. (str_field v ''pubkey'', get_field v ''signer'' = Some (VBool True)))
            (unmarshal False account_key_type (gzero account_key_type) raw))"

definition account_keys :: "json list \<Rightarrow> string list" where
  "account_keys raws = map (\<lambda>raw. case account_key raw of Some (key, _) \<Rightarrow> key | None \<Rightarrow> []) raws"

text \<open>The last readable occurrence of the address: its index and whether it signed.\<close>

definition locate_account :: "string \<Rightarrow> json list \<Rightarrow> (nat \<times> bool) option" where
  "locate_account address raws =
     foldl (\<lambda>found (i, raw).
        case account_key raw of
          Some (key, signer) \<Rightarrow> if key = address then Some (i, signer) else found
        | None \<Rightarrow> found) None (enumerate 0 raws)"

subsection \<open>Deltas\<close>

datatype movement = MoveIn | MoveOut

definition movement_text :: "movement \<Rightarrow> string" where
  "movement_text d = (case d of MoveIn \<Rightarrow> ''in'' | MoveOut \<Rightarrow> ''out'')"

text \<open>The lamport delta at the account's index, when both balance lists reach it.\<close>

definition native_delta :: "parsed_transaction \<Rightarrow> (nat \<times> bool) option \<Rightarrow> string + (movement \<times> int)" where
  "native_delta px found =
     (case found of
        None \<Rightarrow> Inr (MoveIn, 0)
      | Some (i, signer) \<Rightarrow>
          if length (px_pre_balances px) \<le> i \<or> length (px_post_balances px) \<le> i then Inr (MoveIn, 0)
          else
            (case parse_big_dec (px_pre_balances px ! i) of
               None \<Rightarrow> Inl ''malformed preBalance''
             | Some pre \<Rightarrow>
                 (case parse_big_dec (px_post_balances px ! i) of
                    None \<Rightarrow> Inl ''malformed postBalance''
                  | Some post \<Rightarrow>
                      (let delta = post - pre in
                       if delta < 0 then Inr (MoveOut, - delta)
                       else if delta = 0 \<and> signer then Inr (MoveOut, 0)
                       else Inr (MoveIn, delta)))))"

text \<open>\<open>applyTokenBalances\<close>: the delta and the decimals of each mint, in one association list.\<close>

fun apply_token_balances ::
  "string \<Rightarrow> int \<Rightarrow> token_balance list \<Rightarrow> (string \<times> int \<times> int) list \<Rightarrow> (string \<times> int \<times> int) list" where
  "apply_token_balances address sign [] deltas = deltas"
| "apply_token_balances address sign (row # rows) deltas =
     (if tb_owner row \<noteq> address \<or> tb_mint row = [] then apply_token_balances address sign rows deltas
      else
        (case parse_big_dec (tb_amount row) of
           None \<Rightarrow> apply_token_balances address sign rows deltas
         | Some v \<Rightarrow>
             (let old = (case map_of deltas (tb_mint row) of Some (d, _) \<Rightarrow> d | None \<Rightarrow> 0) in
              apply_token_balances address sign rows
                (AList.update (tb_mint row) (old + (if sign < 0 then - v else v), tb_decimals row) deltas))))"

definition token_deltas :: "string \<Rightarrow> parsed_transaction \<Rightarrow> (string \<times> int \<times> int) list" where
  "token_deltas address px =
     apply_token_balances address 1 (px_post_tokens px)
       (apply_token_balances address (- 1) (px_pre_tokens px) [])"

text \<open>Token accounts by key: their owner and mint, a later row winning.\<close>

definition token_account_owners ::
  "string list \<Rightarrow> parsed_transaction \<Rightarrow> (string \<rightharpoonup> string \<times> string)" where
  "token_account_owners keys px =
     foldl (\<lambda>m row.
        case tb_account_index row of
          None \<Rightarrow> m
        | Some i \<Rightarrow>
            if 0 \<le> i \<and> i < int (length keys) \<and> tb_owner row \<noteq> [] \<and> tb_mint row \<noteq> []
            then m(keys ! nat i \<mapsto> (tb_owner row, tb_mint row)) else m)
       Map.empty (px_pre_tokens px @ px_post_tokens px)"

subsection \<open>Parties\<close>

definition instruction_type :: gtype where
  "instruction_type =
     GStruct [field ''program'' GString,
              field ''parsed'' (GPtr (GStruct
                [field ''info'' (GStruct
                   [field ''source'' GString, field ''destination'' GString, field ''authority'' GString])]))]"

record instruction =
  ins_program :: string
  ins_source :: string
  ins_destination :: string
  ins_authority :: string

definition parse_instruction :: "json \<Rightarrow> instruction option" where
  "parse_instruction raw =
     do {
       v \<leftarrow> unmarshal False instruction_type (gzero instruction_type) raw;
       parsed \<leftarrow> (case get_field v ''parsed'' of Some (VPtr p) \<Rightarrow> Some p | _ \<Rightarrow> None);
       let info = sub_field parsed ''info'';
       Some \<lparr>ins_program = str_field v ''program'', ins_source = str_field info ''source'',
             ins_destination = str_field info ''destination'', ins_authority = str_field info ''authority''\<rparr>
     }"

record parties =
  pt_native :: "string \<times> string"
  pt_by_mint :: "string \<rightharpoonup> string \<times> string"

definition note_instruction ::
  "string \<Rightarrow> (string \<rightharpoonup> string \<times> string) \<Rightarrow> parties \<Rightarrow> json \<Rightarrow> parties" where
  "note_instruction address owners p raw =
     (case parse_instruction raw of
        None \<Rightarrow> p
      | Some i \<Rightarrow>
          if ins_source i = [] \<or> ins_destination i = [] then p
          else if ins_program i = ''system'' then
            (if ins_source i = address \<or> ins_destination i = address
             then p\<lparr>pt_native := (ins_source i, ins_destination i)\<rparr> else p)
          else
            (let (source_owner, source_mint) = (case owners (ins_source i) of Some x \<Rightarrow> x | None \<Rightarrow> ([], []));
                 (destination_owner, destination_mint) =
                   (case owners (ins_destination i) of Some x \<Rightarrow> x | None \<Rightarrow> ([], []));
                 sender = (if source_owner = [] then ins_authority i else source_owner);
                 mint = (if source_mint = [] then destination_mint else source_mint)
             in if (sender = address \<or> destination_owner = address) \<and> mint \<noteq> []
                then p\<lparr>pt_by_mint := (pt_by_mint p)(mint \<mapsto> (sender, destination_owner))\<rparr> else p))"

definition transaction_parties :: "string \<Rightarrow> string list \<Rightarrow> parsed_transaction \<Rightarrow> parties" where
  "transaction_parties address keys px =
     foldl (note_instruction address (token_account_owners keys px))
       \<lparr>pt_native = ([], []), pt_by_mint = Map.empty\<rparr> (px_instructions px)"

subsection \<open>The impact\<close>

record token_impact =
  ti_mint :: string
  ti_direction :: movement
  ti_amount :: int
  ti_decimals :: int
  ti_from :: string
  ti_to :: string

record account_impact =
  ai_direction :: movement
  ai_amount :: int
  ai_from :: string
  ai_to :: string
  ai_tokens :: "token_impact list"

definition token_impact_of :: "parties \<Rightarrow> (string \<times> int \<times> int) list \<Rightarrow> string \<Rightarrow> token_impact list" where
  "token_impact_of p deltas mint =
     (case map_of deltas mint of
        None \<Rightarrow> []
      | Some (delta, decimals) \<Rightarrow>
          if delta = 0 then []
          else
            (let (sender, recipient) = (case pt_by_mint p mint of Some x \<Rightarrow> x | None \<Rightarrow> ([], [])) in
             [\<lparr>ti_mint = mint, ti_direction = (if delta < 0 then MoveOut else MoveIn), ti_amount = \<bar>delta\<bar>,
               ti_decimals = decimals, ti_from = sender, ti_to = recipient\<rparr>]))"

definition account_impact_of ::
  "(string list \<Rightarrow> string list) \<Rightarrow> string \<Rightarrow> parsed_transaction \<Rightarrow> string + account_impact" where
  "account_impact_of key_order address px =
     (let found = locate_account address (px_account_keys px);
          keys = account_keys (px_account_keys px)
      in case native_delta px found of
           Inl e \<Rightarrow> Inl e
         | Inr (direction, amount) \<Rightarrow>
             (let deltas = token_deltas address px;
                  p = transaction_parties address keys px;
                  tokens = concat (map (token_impact_of p deltas) (key_order (map fst deltas)))
              in if found = None \<and> tokens = [] then Inl ''address missing from transaction balances''
                 else Inr \<lparr>ai_direction = direction, ai_amount = amount, ai_from = fst (pt_native p),
                           ai_to = snd (pt_native p), ai_tokens = tokens\<rparr>))"

definition solana_transaction_account_impact ::
  "pool_env \<Rightarrow> (string list \<Rightarrow> string list) \<Rightarrow> string \<Rightarrow> string \<Rightarrow> account_impact io" where
  "solana_transaction_account_impact env key_order signature address =
     io_bind (solana_call_extensible env ''getTransaction''
         [JStr signature,
          JObj [(''encoding'', JStr ''jsonParsed''), (''maxSupportedTransactionVersion'', JNum ''0'')]])
       (\<lambda>raw.
          if raw = JNull then solana_fail ''transaction details unavailable''
          else case parse_transaction raw of
              None \<Rightarrow> solana_fail ''malformed getTransaction result''
            | Some px \<Rightarrow>
                (case account_impact_of key_order address px of
                   Inl e \<Rightarrow> solana_fail e
                 | Inr impact \<Rightarrow> io_return impact))"

end
