(* ===== verification/History.thy ===== *)
theory History
  imports Alchemy Tron_History Solana_Impact Gateway Cache
begin

section \<open>Transaction history\<close>

text \<open>
  \<open>handlers/history.go\<close>: \<open>kt_getHistory\<close> merges what the indexers of a chain family list into one
  page of value movements of the requested wallet. Each family has a pure part, from provider rows
  to the page, and an effectful one that asks the providers and falls back.

  Goroutines: the independent listings run one after the other here; the transport may depend on
  everything sent before, so every order of their answers is covered. Where the order of completion
  reaches the result it is a parameter (\<open>sd_directions\<close> for Alchemy's two feeds; \<open>sd_key_order\<close>
  orders the keys of a map that Go ranges over, and the token accounts whose signatures arrive
  concurrently).
\<close>

record token_meta =
  tm_symbol :: string
  tm_decimals :: int

type_synonym token_registry = "string \<rightharpoonup> token_meta"

record history_record =
  hi_id :: string
  hi_hash :: string
  hi_direction :: string
  hi_from :: string
  hi_to :: string
  hi_amount_raw :: string
  hi_decimals :: int
  hi_symbol :: string
  hi_contract :: string
  hi_verified :: bool
  hi_timestamp_ms :: int
  hi_status :: string

record history_result =
  hx_chain :: string
  hx_network :: string
  hx_address :: string
  hx_status :: string
  hx_records :: "history_record list"

definition history_page :: "history_record list \<Rightarrow> history_result" where
  "history_page rs = \<lparr>hx_chain = [], hx_network = [], hx_address = [], hx_status = ''ok'', hx_records = rs\<rparr>"

definition unsupported_history :: history_result where
  "unsupported_history = (history_page [])\<lparr>hx_status := ''unsupported''\<rparr>"

definition history_execution_status :: "execution_status \<Rightarrow> string" where
  "history_execution_status st =
     (case st of ExecutionConfirmed \<Rightarrow> ''ok'' | ExecutionFailed \<Rightarrow> ''failed'' | ExecutionUnknown \<Rightarrow> ''unknown'')"

definition default_history_limit :: int where "default_history_limit = 20"
definition max_history_limit :: int where "max_history_limit = 100"
definition native_sol_mint :: string where
  "native_sol_mint = ''So11111111111111111111111111111111111111111''"

text \<open>Multiplication of \<open>int64\<close> seconds by 1000.\<close>

definition millis :: "int \<Rightarrow> int" where
  "millis s = sint (word_of_int (s * 1000) :: 64 word)"

subsection \<open>The page\<close>

text \<open>
  \<open>sort.SliceStable\<close> by descending time, then the loop that keeps the first record of each ID and
  breaks when \<open>limit\<close> are kept: \<open>left\<close> counts down, so a limit of zero would never stop it.
\<close>

definition newest_first :: "history_record list \<Rightarrow> history_record list" where
  "newest_first rs = sort_key (\<lambda>r. - hi_timestamp_ms r) rs"

fun take_distinct :: "nat \<Rightarrow> string set \<Rightarrow> history_record list \<Rightarrow> history_record list" where
  "take_distinct left seen [] = []"
| "take_distinct left seen (r # rs) =
     (if hi_id r \<in> seen then take_distinct left seen rs
      else if left = 1 then [r]
      else r # take_distinct (left - 1) (insert (hi_id r) seen) rs)"

definition page_of :: "int \<Rightarrow> history_record list \<Rightarrow> history_record list" where
  "page_of limit rs = take_distinct (nat limit) {} (newest_first rs)"

subsection \<open>Token metadata\<close>

definition symbol_char :: "char \<Rightarrow> bool" where
  "symbol_char c \<longleftrightarrow> is_upper c \<or> is_digit c \<or> c \<in> set ''.-_''"

text \<open>
  The registry decides; an unregistered token gets its claimed symbol, if harmless, and decimals.
\<close>

definition history_token_meta :: "token_registry \<Rightarrow> string \<Rightarrow> string \<Rightarrow> int \<Rightarrow> string \<times> int \<times> bool" where
  "history_token_meta registry contract claimed_symbol claimed_decimals =
     (let key = (if prefix ''0x'' (to_lower contract) then to_lower contract else contract) in
      case registry key of
        Some m \<Rightarrow> (tm_symbol m, tm_decimals m, True)
      | None \<Rightarrow>
          (let symbol = to_upper (trim_space claimed_symbol);
               symbol = (if symbol = [] \<or> 12 < length symbol then ''TOKEN'' else symbol);
               symbol = (if list_all symbol_char symbol then symbol else ''TOKEN'')
           in (symbol, if claimed_decimals < 0 \<or> 36 < claimed_decimals then 0 else claimed_decimals, False)))"

definition direction_of :: "bool \<Rightarrow> string" where
  "direction_of outgoing = (if outgoing then ''out'' else ''in'')"

subsection \<open>TRON\<close>

definition tron_trc20_event_id :: "(byte list \<Rightarrow> byte list) \<Rightarrow> trc20_transfer \<Rightarrow> string" where
  "tron_trc20_event_id sha t =
     (let semantic = join [CHR 0x00]
            [to_lower (t20_transaction_id t), t20_contract t, t20_from t, t20_to t, t20_value t] in
      t20_transaction_id t @ '':trc20:'' @ t20_contract t @ '':'' @
      hex_encode (take 8 (sha (map of_char semantic))))"

definition tron_trc20_record ::
  "(byte list \<Rightarrow> byte list) \<Rightarrow> token_registry \<Rightarrow> string \<Rightarrow> trc20_transfer \<Rightarrow> history_record option" where
  "tron_trc20_record sha registry self_hex t =
     (let sender = tron_addr_hex sha (t20_from t); recipient = tron_addr_hex sha (t20_to t) in
      if sender \<noteq> self_hex \<and> recipient \<noteq> self_hex then None
      else
        (let (symbol, decimals, verified) =
             history_token_meta registry (t20_contract t) (t20_symbol t) (t20_decimals t) in
         Some \<lparr>hi_id = tron_trc20_event_id sha t, hi_hash = t20_transaction_id t,
               hi_direction = direction_of (sender = self_hex), hi_from = t20_from t, hi_to = t20_to t,
               hi_amount_raw = t20_value t, hi_decimals = decimals, hi_symbol = symbol,
               hi_contract = t20_contract t, hi_verified = verified,
               hi_timestamp_ms = t20_block_timestamp t, hi_status = ''ok''\<rparr>))"

text \<open>What a protocol or internal movement is denominated in: TRX, or an unverified TRC-10 token.\<close>

definition trx_or_trc10 :: "string \<Rightarrow> int \<times> string \<times> bool" where
  "trx_or_trc10 token_id = (if token_id \<noteq> [] then (0, ''TRC10'', False) else (6, ''TRX'', True))"

definition tron_native_record ::
  "(byte list \<Rightarrow> byte list) \<Rightarrow> string \<Rightarrow> native_transfer \<Rightarrow> history_record option" where
  "tron_native_record sha self_hex t =
     (let sender = tron_addr_hex sha (nt_owner t); recipient = tron_addr_hex sha (nt_to t) in
      if sender \<noteq> self_hex \<and> recipient \<noteq> self_hex then None
      else
        (let (decimals, symbol, verified) = trx_or_trc10 (nt_token_id t) in
         Some \<lparr>hi_id = nt_tx_id t @
                 (if 0 < nt_contract_index t then '':contract:'' @ dec_of_nat (nt_contract_index t) else []) @
                 (if nt_token_id t \<noteq> [] then '':trc10:'' @ nt_token_id t else []),
               hi_hash = nt_tx_id t, hi_direction = direction_of (sender = self_hex),
               hi_from = tron_addr_display sha (nt_owner t), hi_to = tron_addr_display sha (nt_to t),
               hi_amount_raw = nt_amount t, hi_decimals = decimals, hi_symbol = symbol,
               hi_contract = nt_token_id t, hi_verified = verified,
               hi_timestamp_ms = nt_block_timestamp t, hi_status = history_execution_status (nt_status t)\<rparr>))"

definition tron_internal_record ::
  "(byte list \<Rightarrow> byte list) \<Rightarrow> string \<Rightarrow> internal_transfer \<Rightarrow> history_record option" where
  "tron_internal_record sha self_hex t =
     (let sender = tron_addr_hex sha (it_from t); recipient = tron_addr_hex sha (it_to t) in
      if sender \<noteq> self_hex \<and> recipient \<noteq> self_hex then None
      else
        (let (decimals, symbol, verified) = trx_or_trc10 (it_token_id t) in
         Some \<lparr>hi_id = it_tx_id t @ '':internal:'' @ it_internal_tx_id t @
                 (if 0 < it_asset_index t \<or> it_token_id t \<noteq> [] then '':trc10:'' @ it_token_id t else []),
               hi_hash = it_tx_id t, hi_direction = direction_of (sender = self_hex),
               hi_from = tron_addr_display sha (it_from t), hi_to = tron_addr_display sha (it_to t),
               hi_amount_raw = it_amount t, hi_decimals = decimals, hi_symbol = symbol,
               hi_contract = it_token_id t, hi_verified = verified,
               hi_timestamp_ms = it_block_timestamp t, hi_status = history_execution_status (it_status t)\<rparr>))"

definition tron_records ::
  "(byte list \<Rightarrow> byte list) \<Rightarrow> token_registry \<Rightarrow> string \<Rightarrow> trc20_transfer list \<Rightarrow> native_transfer list
     \<Rightarrow> internal_transfer list \<Rightarrow> history_record list" where
  "tron_records sha registry address trc20 native internal =
     (let self_hex = tron_addr_hex sha address in
      List.map_filter (tron_trc20_record sha registry self_hex) trc20 @
      List.map_filter (tron_native_record sha self_hex) native @
      List.map_filter (tron_internal_record sha self_hex) internal)"

text \<open>A listing that failed contributes no rows.\<close>

definition rows_of :: "go_error + 'a list \<Rightarrow> 'a list" where
  "rows_of r = (case r of Inl _ \<Rightarrow> [] | Inr xs \<Rightarrow> xs)"

definition error_of :: "go_error + 'a \<Rightarrow> go_error option" where
  "error_of r = (case r of Inl e \<Rightarrow> Some e | Inr _ \<Rightarrow> None)"

definition first_error :: "go_error option list \<Rightarrow> go_error option" where
  "first_error es = (case filter (\<lambda>e. e \<noteq> None) es of [] \<Rightarrow> None | e # _ \<Rightarrow> e)"

definition tron_history_result ::
  "(byte list \<Rightarrow> byte list) \<Rightarrow> token_registry \<Rightarrow> string \<Rightarrow> int \<Rightarrow> go_error + trc20_transfer list
     \<Rightarrow> go_error + native_transfer list \<Rightarrow> go_error + internal_transfer list \<Rightarrow> rpc_error + history_result" where
  "tron_history_result sha registry address limit trc20 native internal =
     (let errs = [error_of trc20, error_of native, error_of internal];
          page = page_of limit
            (tron_records sha registry address (rows_of trc20) (rows_of native) (rows_of internal))
      in case first_error errs of
           Some e \<Rightarrow>
             if list_all (\<lambda>x. x \<noteq> None) errs \<or> page = [] then Inl (upstream_error ''trongrid'' e)
             else Inr (history_page page)
         | None \<Rightarrow> Inr (history_page page))"


subsection \<open>EVM\<close>

definition evm_movement_key :: "string \<Rightarrow> string \<Rightarrow> string \<Rightarrow> string \<Rightarrow> string \<Rightarrow> string" where
  "evm_movement_key hash sender recipient amount timestamp =
     join ''|'' [hash, to_lower sender, to_lower recipient, amount, timestamp]"

definition touches :: "string \<Rightarrow> string \<Rightarrow> string \<Rightarrow> bool" where
  "touches self sender recipient \<longleftrightarrow> to_lower sender = self \<or> to_lower recipient = self"

definition chain_symbol :: "string \<Rightarrow> string" where
  "chain_symbol chain = (case chains chain of Some m \<Rightarrow> cm_symbol m | None \<Rightarrow> [])"

definition chain_decimals :: "string \<Rightarrow> int" where
  "chain_decimals chain = (case chains chain of Some m \<Rightarrow> cm_decimals m | None \<Rightarrow> 0)"

definition normal_movements :: "string \<Rightarrow> etherscan_tx list \<Rightarrow> string list" where
  "normal_movements self txs =
     map (\<lambda>t. evm_movement_key (et_hash t) (et_from t) (et_to t) (et_value t) (et_time_stamp t))
       (filter (\<lambda>t. touches self (et_from t) (et_to t)) txs)"

definition evm_token_record ::
  "token_registry \<Rightarrow> string \<Rightarrow> nat \<Rightarrow> etherscan_token_tx \<Rightarrow> history_record option" where
  "evm_token_record registry self i t =
     do {
       decimals \<leftarrow> parse_decimal64 (tt_token_decimal t);
       guard_opt (0 \<le> decimals \<and> et_hash t \<noteq> [] \<and> tt_contract_address t \<noteq> []);
       guard_opt (touches self (et_from t) (et_to t));
       ts \<leftarrow> parse_decimal64 (et_time_stamp t);
       let contract = to_lower (tt_contract_address t);
       let (symbol, token_decimals, verified) =
         history_token_meta registry contract (tt_token_symbol t) decimals;
       let event_index = (if tt_log_index t = [] then dec_of_nat i else tt_log_index t);
       Some \<lparr>hi_id = et_hash t @ '':'' @ event_index, hi_hash = et_hash t,
             hi_direction = direction_of (to_lower (et_from t) = self), hi_from = et_from t,
             hi_to = et_to t, hi_amount_raw = et_value t, hi_decimals = token_decimals,
             hi_symbol = symbol, hi_contract = contract, hi_verified = verified,
             hi_timestamp_ms = millis ts,
             hi_status = history_execution_status (etherscan_token_execution_status t)\<rparr>
     }"

text \<open>The record of a native movement: the chain's own symbol, 18 decimals, verified.\<close>

definition evm_native_record ::
  "string \<Rightarrow> string \<Rightarrow> string \<Rightarrow> string \<Rightarrow> 'a etherscan_tx_scheme \<Rightarrow> history_record option" where
  "evm_native_record chain self ident hash t =
     do {
       ts \<leftarrow> parse_decimal64 (et_time_stamp t);
       Some \<lparr>hi_id = ident, hi_hash = hash, hi_direction = direction_of (to_lower (et_from t) = self),
             hi_from = et_from t, hi_to = et_to t, hi_amount_raw = et_value t, hi_decimals = 18,
             hi_symbol = chain_symbol chain, hi_contract = [], hi_verified = True,
             hi_timestamp_ms = millis ts,
             hi_status = history_execution_status (etherscan_execution_status (et_is_error t) (et_receipt_status t))\<rparr>
     }"

definition evm_internal_record ::
  "string \<Rightarrow> string \<Rightarrow> string list \<Rightarrow> nat \<Rightarrow> etherscan_internal_tx \<Rightarrow> history_record option" where
  "evm_internal_record chain self movements i t =
     do {
       let hash = canonical_hash t;
       guard_opt (hash \<noteq> [] \<and> et_value t \<noteq> [] \<and> et_value t \<noteq> ''0'');
       guard_opt (evm_movement_key hash (et_from t) (et_to t) (et_value t) (et_time_stamp t) \<notin> set movements);
       guard_opt (touches self (et_from t) (et_to t));
       let trace_id = (if canonical_trace_id t = [] then dec_of_nat i else canonical_trace_id t);
       evm_native_record chain self (hash @ '':internal:'' @ trace_id) hash t
     }"

definition evm_transaction_record :: "string \<Rightarrow> string \<Rightarrow> etherscan_tx \<Rightarrow> history_record option" where
  "evm_transaction_record chain self t =
     do {
       guard_opt (et_value t \<noteq> [] \<and> et_value t \<noteq> ''0'');
       guard_opt (touches self (et_from t) (et_to t));
       evm_native_record chain self (et_hash t) (et_hash t) t
     }"

definition map_filter_indexed :: "(nat \<Rightarrow> 'a \<Rightarrow> 'b option) \<Rightarrow> 'a list \<Rightarrow> 'b list" where
  "map_filter_indexed f xs = List.map_filter (\<lambda>(i, x). f i x) (enumerate 0 xs)"

definition evm_records ::
  "token_registry \<Rightarrow> string \<Rightarrow> string \<Rightarrow> etherscan_tx list \<Rightarrow> etherscan_token_tx list
     \<Rightarrow> etherscan_internal_tx list \<Rightarrow> history_record list" where
  "evm_records registry chain address txs token_txs internal_txs =
     (let self = to_lower address; movements = normal_movements self txs in
      map_filter_indexed (evm_token_record registry self) token_txs @
      map_filter_indexed (evm_internal_record chain self movements) internal_txs @
      List.map_filter (evm_transaction_record chain self) txs)"

definition evm_history_result ::
  "token_registry \<Rightarrow> string \<Rightarrow> string \<Rightarrow> int \<Rightarrow> etherscan_tx list \<Rightarrow> etherscan_token_tx list
     \<Rightarrow> etherscan_internal_tx list \<Rightarrow> history_result" where
  "evm_history_result registry chain address limit txs token_txs internal_txs =
     history_page (page_of limit (evm_records registry chain address txs token_txs internal_txs))"

text \<open>\<open>big.Int.SetString\<close> in base 16 after the prefix: an optional sign and digits.\<close>

definition parse_alchemy_hex_integer :: "string \<Rightarrow> int option" where
  "parse_alchemy_hex_integer s =
     (if length s < 3 \<or> \<not> prefix ''0x'' s then None
      else
        (let body = drop 2 s; neg = (hd body = CHR ''-'');
             ds = (if neg \<or> hd body = CHR ''+'' then tl body else body) in
         if ds = [] \<or> \<not> list_all is_hex ds then None
         else Some (if neg then - int (nat_of_hex ds) else int (nat_of_hex ds))))"

definition parse_alchemy_hex_int :: "string \<Rightarrow> int option" where
  "parse_alchemy_hex_int s =
     (case parse_alchemy_hex_integer s of
        Some n \<Rightarrow> if - (2 ^ 63) \<le> n \<and> n < 2 ^ 63 then Some n else None
      | None \<Rightarrow> None)"

definition alchemy_record ::
  "token_registry \<Rightarrow> string \<Rightarrow> string \<Rightarrow> nat \<Rightarrow> alchemy_transfer \<Rightarrow> history_record option" where
  "alchemy_record registry chain self i t =
     do {
       guard_opt (touches self (at_from t) (at_to t));
       amount \<leftarrow> parse_alchemy_hex_integer (rc_value (at_raw t));
       guard_opt (amount \<noteq> 0 \<and> at_hash t \<noteq> []);
       claimed \<leftarrow> parse_alchemy_hex_int (rc_decimal (at_raw t));
       guard_opt (0 \<le> claimed);
       time \<leftarrow> parse_rfc3339 (at_block_time t);
       let contract = (if at_category t = ''erc20'' then to_lower (rc_address (at_raw t)) else []);
       guard_opt (at_category t = ''erc20'' \<longrightarrow> contract \<noteq> []);
       let (symbol, decimals, verified) =
         (if at_category t = ''erc20'' then history_token_meta registry contract (at_asset t) claimed
          else (chain_symbol chain, chain_decimals chain, True));
       Some \<lparr>hi_id = (if at_unique_id t = [] then at_hash t @ '':'' @ at_category t @ '':'' @ dec_of_nat i
                     else at_unique_id t),
             hi_hash = at_hash t, hi_direction = direction_of (to_lower (at_from t) = self),
             hi_from = at_from t, hi_to = at_to t, hi_amount_raw = dec_of_int amount,
             hi_decimals = decimals, hi_symbol = symbol, hi_contract = contract, hi_verified = verified,
             hi_timestamp_ms = time div 10 ^ 6, hi_status = ''ok''\<rparr>
     }"

definition alchemy_history_result ::
  "token_registry \<Rightarrow> string \<Rightarrow> string \<Rightarrow> int \<Rightarrow> alchemy_transfer list \<Rightarrow> history_result" where
  "alchemy_history_result registry chain address limit transfers =
     history_page (page_of limit (map_filter_indexed (alchemy_record registry chain (to_lower address)) transfers))"

subsection \<open>Solana\<close>

definition helius_status :: "string \<Rightarrow> string" where
  "helius_status s =
     (if s = ''confirmed'' \<or> s = ''finalized'' then ''ok'' else if s = ''processed'' then ''pending'' else ''unknown'')"

definition helius_record :: "token_registry \<Rightarrow> string \<Rightarrow> helius_transfer \<Rightarrow> history_record option" where
  "helius_record registry address t =
     (if (ht_from_user_account t \<noteq> address \<and> ht_to_user_account t \<noteq> address) \<or>
         ht_signature t = [] \<or> ht_amount t = [] then None
      else
        (let (symbol, decimals, verified, contract) =
             (if ht_mint t = native_sol_mint then (''SOL'', 9, True, [])
              else
                (let (s, d, v) = history_token_meta registry (ht_mint t) ''SPL'' (ht_decimals t)
                 in (s, d, v, ht_mint t)));
             inner = (case ht_inner_instruction_index t of Some i \<Rightarrow> i | None \<Rightarrow> - 1) in
         Some \<lparr>hi_id = join '':'' [ht_signature t, dec_of_int (ht_transaction_index t),
                          dec_of_int (ht_instruction_index t), dec_of_int inner],
               hi_hash = ht_signature t, hi_direction = direction_of (ht_from_user_account t = address),
               hi_from = ht_from_user_account t, hi_to = ht_to_user_account t,
               hi_amount_raw = ht_amount t, hi_decimals = decimals, hi_symbol = symbol,
               hi_contract = contract, hi_verified = verified,
               hi_timestamp_ms = millis (ht_block_time t),
               hi_status = helius_status (ht_confirmation_status t)\<rparr>))"

text \<open>The loop appends and breaks when \<open>limit\<close> records are there; it neither sorts nor deduplicates.\<close>

definition helius_history_result ::
  "token_registry \<Rightarrow> string \<Rightarrow> int \<Rightarrow> helius_transfer list \<Rightarrow> history_result" where
  "helius_history_result registry address limit transfers =
     history_page (take (nat limit) (List.map_filter (helius_record registry address) transfers))"

text \<open>The records of one signature's impact.\<close>

definition solana_time :: "solana_sig \<Rightarrow> int" where
  "solana_time s = (case sg_block_time s of Some t \<Rightarrow> millis t | None \<Rightarrow> 0)"

definition own_parties :: "string \<Rightarrow> movement \<Rightarrow> string \<Rightarrow> string \<Rightarrow> string \<times> string" where
  "own_parties address d sender recipient =
     (if d = MoveOut \<and> sender = [] then address else sender,
      if d = MoveIn \<and> recipient = [] then address else recipient)"

definition solana_token_record ::
  "token_registry \<Rightarrow> string \<Rightarrow> solana_sig \<Rightarrow> token_impact \<Rightarrow> history_record" where
  "solana_token_record registry address s t =
     (let (sender, recipient) = own_parties address (ti_direction t) (ti_from t) (ti_to t);
          (symbol, decimals, verified) = history_token_meta registry (ti_mint t) ''SPL'' (ti_decimals t) in
      \<lparr>hi_id = sg_signature s @ '':spl:'' @ ti_mint t, hi_hash = sg_signature s,
       hi_direction = movement_text (ti_direction t), hi_from = sender, hi_to = recipient,
       hi_amount_raw = dec_of_int (ti_amount t), hi_decimals = decimals, hi_symbol = symbol,
       hi_contract = ti_mint t, hi_verified = verified, hi_timestamp_ms = solana_time s,
       hi_status = history_execution_status (signature_execution_status s)\<rparr>)"

definition solana_native_record :: "string \<Rightarrow> solana_sig \<Rightarrow> account_impact \<Rightarrow> history_record" where
  "solana_native_record address s i =
     (let (sender, recipient) = own_parties address (ai_direction i) (ai_from i) (ai_to i) in
      \<lparr>hi_id = sg_signature s, hi_hash = sg_signature s, hi_direction = movement_text (ai_direction i),
       hi_from = sender, hi_to = recipient, hi_amount_raw = dec_of_int (ai_amount i), hi_decimals = 9,
       hi_symbol = ''SOL'', hi_contract = [], hi_verified = True, hi_timestamp_ms = solana_time s,
       hi_status = history_execution_status (signature_execution_status s)\<rparr>)"

text \<open>Appending one by one until the list has exactly \<open>limit\<close> elements.\<close>

fun append_until :: "int \<Rightarrow> 'a list \<Rightarrow> 'a list \<Rightarrow> 'a list" where
  "append_until limit acc [] = acc"
| "append_until limit acc (x # xs) =
     (if int (length acc) + 1 = limit then acc @ [x] else append_until limit (acc @ [x]) xs)"

text \<open>
  One turn of the loop over signatures: the records so far with the impact's records, and whether
  the loop ends. Only the token branch compares the length with the limit.
\<close>

definition add_impact ::
  "token_registry \<Rightarrow> string \<Rightarrow> int \<Rightarrow> solana_sig \<Rightarrow> account_impact \<Rightarrow> history_record list
     \<Rightarrow> history_record list \<times> bool" where
  "add_impact registry address limit s impact records =
     (if ai_tokens impact \<noteq> [] then
        (let rs = append_until limit records (map (solana_token_record registry address s) (ai_tokens impact))
         in (rs, int (length rs) = limit))
      else if ai_amount impact = 0 then (records, False)
      else (records @ [solana_native_record address s impact], False))"

text \<open>Newest first, a signature without a block time last.\<close>

definition sort_signatures :: "solana_sig list \<Rightarrow> solana_sig list" where
  "sort_signatures ss =
     sort_key (\<lambda>s. - the (sg_block_time s)) (filter (\<lambda>s. sg_block_time s \<noteq> None) ss) @
     filter (\<lambda>s. sg_block_time s = None) ss"

definition note_signatures :: "(string \<times> solana_sig) list \<Rightarrow> solana_sig list \<Rightarrow> (string \<times> solana_sig) list" where
  "note_signatures m rows =
     foldl (\<lambda>m s. if sg_signature s \<noteq> [] then AList.update (sg_signature s) s m else m) m rows"

definition candidate_signatures ::
  "(string list \<Rightarrow> string list) \<Rightarrow> int \<Rightarrow> (string \<times> solana_sig) list \<Rightarrow> solana_sig list" where
  "candidate_signatures key_order limit m =
     take (nat (limit * 4)) (sort_signatures (List.map_filter (map_of m) (key_order (map fst m))))"

end
