(* ===== verification/History_Handler.thy ===== *)
theory History_Handler
  imports History
begin

section \<open>kt_getHistory\<close>

text \<open>
  The effectful half of \<open>handlers/history.go\<close>: which provider is asked, what happens when it fails,
  and the handler itself with its parameter checks and its cache. The state is the gateway's
  clients, the Alchemy clients with their counters, and the history cache; the configuration says
  which explorers and keys exist.
\<close>

record history_config =
  hc_env :: gateway_env
  hc_scan :: "etherscan_client option"
    \<comment> \<open>present exactly when an Etherscan key is configured\<close>
  hc_history_scan :: "string \<rightharpoonup> etherscan_client"
  hc_helius_key :: bool
  hc_helius :: "string \<Rightarrow> helius_client"
  hc_official :: "string \<Rightarrow> token_registry"
  sd_directions :: "transfer_direction \<times> transfer_direction"
  sd_key_order :: "string list \<Rightarrow> string list"

record history_state =
  hs_gateway :: gateway
  hs_alchemy :: "string \<rightharpoonup> alchemy_client"
  hs_cache :: "history_result cache"

type_synonym 'a history = "history_state \<Rightarrow> world \<Rightarrow> (rpc_error + 'a) \<times> history_state \<times> world"

abbreviation hc_net :: "history_config \<Rightarrow> pool_env" where "hc_net c \<equiv> ge_net (hc_env c)"

subsection \<open>TRON\<close>

definition tron_history :: "history_config \<Rightarrow> string \<Rightarrow> string \<Rightarrow> int \<Rightarrow> history_result history" where
  "tron_history c network address limit st w =
     (let t = gw_tron (hs_gateway st) network; sha = ge_sha (hc_env c);
          (trc20, w1) = tron_trc20_transfers sha (hc_net c) t address limit w;
          (native, w2) = tron_native_transactions sha (hc_net c) t address limit w1;
          (internal, w3) = tron_internal_transactions sha (hc_net c) t address limit w2
      in (tron_history_result sha (hc_official c network) address limit trc20 native internal, st, w3))"

subsection \<open>EVM\<close>

definition first_explorer_tx_list ::
  "pool_env \<Rightarrow> etherscan_client list \<Rightarrow> int \<Rightarrow> string \<Rightarrow> int \<Rightarrow> etherscan_tx list rest" where
  "first_explorer_tx_list env sources chain_id address limit =
     first_success env (\<lambda>s. tx_list env s chain_id address limit) [] sources None"

definition first_explorer_token_tx_list ::
  "pool_env \<Rightarrow> etherscan_client list \<Rightarrow> int \<Rightarrow> string \<Rightarrow> int \<Rightarrow> etherscan_token_tx list rest" where
  "first_explorer_token_tx_list env sources chain_id address limit =
     first_success env (\<lambda>s. token_tx_list env s chain_id address limit) [] sources None"

definition first_explorer_internal_tx_list ::
  "pool_env \<Rightarrow> etherscan_client list \<Rightarrow> int \<Rightarrow> string \<Rightarrow> int \<Rightarrow> etherscan_internal_tx list rest" where
  "first_explorer_internal_tx_list env sources chain_id address limit =
     first_success env (\<lambda>s. internal_tx_list env s chain_id address limit) [] sources None"

record evm_lists =
  el_txs :: "etherscan_tx list"
  el_token_txs :: "etherscan_token_tx list"
  el_internal_txs :: "etherscan_internal_tx list"
  el_error :: "go_error option"

text \<open>The internal traces are an enrichment: their failure is not an error of the page.\<close>

definition evm_history_lists ::
  "pool_env \<Rightarrow> etherscan_client list \<Rightarrow> int \<Rightarrow> string \<Rightarrow> int \<Rightarrow> bool \<Rightarrow> world \<Rightarrow> evm_lists \<times> world" where
  "evm_history_lists env sources chain_id address limit include_internal w =
     (let (txs, w1) = first_explorer_tx_list env sources chain_id address limit w;
          (tokens, w2) = first_explorer_token_tx_list env sources chain_id address limit w1;
          (internals, w3) =
            (if include_internal then first_explorer_internal_tx_list env sources chain_id address limit w2
             else (Inr [], w2))
      in (\<lparr>el_txs = rows_of txs, el_token_txs = rows_of tokens, el_internal_txs = rows_of internals,
           el_error = first_error [error_of txs, error_of tokens]\<rparr>, w3))"

definition history_chain_id :: "string \<Rightarrow> int" where
  "history_chain_id network = (case networks network of Some m \<Rightarrow> nm_etherscan_chain_id m | None \<Rightarrow> 0)"

text \<open>The explorers of a network: Etherscan when a key is configured, then the keyless fallback.\<close>

definition history_explorers :: "history_config \<Rightarrow> string \<Rightarrow> etherscan_client list" where
  "history_explorers c network =
     (case hc_scan c of Some s \<Rightarrow> [s] | None \<Rightarrow> []) @
     (case hc_history_scan c network of Some s \<Rightarrow> [s] | None \<Rightarrow> [])"

text \<open>After Alchemy: \<open>primary_err\<close> is its failure, if it was asked.\<close>

definition explorer_history ::
  "history_config \<Rightarrow> string \<Rightarrow> string \<Rightarrow> string \<Rightarrow> int \<Rightarrow> go_error option \<Rightarrow> history_result history" where
  "explorer_history c chain network address limit primary_err st w =
     (let explorers = history_explorers c network in
      if explorers \<noteq> [] then
        (let (l, w1) = evm_history_lists (hc_net c) explorers (history_chain_id network) address limit True w;
             result = evm_history_result (hc_official c network) chain address limit
               (el_txs l) (el_token_txs l) (el_internal_txs l)
         in (case el_error l of
               None \<Rightarrow> Inr result
             | Some e \<Rightarrow>
                 if hx_records result \<noteq> [] then Inr result
                 else Inl (upstream_error ''history_explorer''
                        (case primary_err of Some p \<Rightarrow> p | None \<Rightarrow> e)), st, w1))
      else
        (case primary_err of
           Some e \<Rightarrow> Inl (upstream_error ''history_explorer'' e)
         | None \<Rightarrow> Inr unsupported_history, st, w))"

definition evm_history :: "history_config \<Rightarrow> string \<Rightarrow> string \<Rightarrow> string \<Rightarrow> int \<Rightarrow> history_result history" where
  "evm_history c chain network address limit st w =
     (case hs_alchemy st network of
        None \<Rightarrow> explorer_history c chain network address limit None st w
      | Some a \<Rightarrow>
          (let (r, a1, w1) = alchemy_transfers (hc_net c) (sd_directions c) (sd_key_order c) address limit a w;
               st1 = st\<lparr>hs_alchemy := (hs_alchemy st)(network \<mapsto> a1)\<rparr>
           in case r of
                Inr transfers \<Rightarrow>
                  (Inr (alchemy_history_result (hc_official c network) chain address limit transfers), st1, w1)
              | Inl e \<Rightarrow> explorer_history c chain network address limit (Some e) st1 w1))"

subsection \<open>Solana\<close>

text \<open>A call through the network's pool.\<close>

definition with_sol :: "string \<Rightarrow> 'a io \<Rightarrow> history_state \<Rightarrow> world \<Rightarrow> (go_error + 'a) \<times> history_state \<times> world" where
  "with_sol network m st w =
     (let (r, p, w1) = m (gw_sol (hs_gateway st) network) w in
      (r, st\<lparr>hs_gateway := (hs_gateway st)\<lparr>gw_sol := (gw_sol (hs_gateway st))(network := p)\<rparr>\<rparr>, w1))"

fun account_signatures ::
  "history_config \<Rightarrow> string \<Rightarrow> int \<Rightarrow> string list \<Rightarrow> (string \<times> solana_sig) list \<Rightarrow> history_state \<Rightarrow> world
     \<Rightarrow> (string \<times> solana_sig) list \<times> history_state \<times> world" where
  "account_signatures c network limit [] m st w = (m, st, w)"
| "account_signatures c network limit (account # accounts) m st w =
     (let (r, st1, w1) = with_sol network (solana_signatures_for_address (hc_net c) account limit) st w in
      account_signatures c network limit accounts (note_signatures m (rows_of r)) st1 w1)"

text \<open>
  The owner's signatures and those of at most 32 of its token accounts. A goroutine that finds the
  request's context done gives up before asking; here it asks in vain.
\<close>

definition solana_history_signatures ::
  "history_config \<Rightarrow> string \<Rightarrow> string \<Rightarrow> int \<Rightarrow> history_state \<Rightarrow> world
     \<Rightarrow> (go_error + solana_sig list) \<times> history_state \<times> world" where
  "solana_history_signatures c network owner limit st w =
     (case with_sol network (solana_signatures_for_address (hc_net c) owner limit) st w of
        (Inl e, st1, w1) \<Rightarrow> (Inl e, st1, w1)
      | (Inr owned, st1, w1) \<Rightarrow>
          (let (accounts, st2, w2) = with_sol network (solana_get_owned_token_accounts (hc_net c) owner) st1 w1;
               (m, st3, w3) = account_signatures c network limit
                 (sd_key_order c (take 32 (rows_of accounts))) (note_signatures [] owned) st2 w2
           in (Inr (candidate_signatures (sd_key_order c) limit m), st3, w3)))"

fun impact_loop ::
  "history_config \<Rightarrow> string \<Rightarrow> string \<Rightarrow> int \<Rightarrow> solana_sig list \<Rightarrow> history_record list \<Rightarrow> go_error option
     \<Rightarrow> history_state \<Rightarrow> world \<Rightarrow> (history_record list \<times> go_error option) \<times> history_state \<times> world" where
  "impact_loop c network address limit [] records detail_err st w = ((records, detail_err), st, w)"
| "impact_loop c network address limit (s # ss) records detail_err st w =
     (if sg_signature s = [] then impact_loop c network address limit ss records detail_err st w
      else
        (case with_sol network
            (solana_transaction_account_impact (hc_net c) (sd_key_order c) (sg_signature s) address) st w of
           (Inl e, st1, w1) \<Rightarrow> impact_loop c network address limit ss records (Some e) st1 w1
         | (Inr impact, st1, w1) \<Rightarrow>
             (let (records1, stop) = add_impact (hc_official c network) address limit s impact records in
              if stop then ((records1, detail_err), st1, w1)
              else impact_loop c network address limit ss records1 detail_err st1 w1)))"

definition signature_history :: "history_config \<Rightarrow> string \<Rightarrow> string \<Rightarrow> int \<Rightarrow> history_result history" where
  "signature_history c network address limit st w =
     (case solana_history_signatures c network address limit st w of
        (Inl e, st1, w1) \<Rightarrow> (Inl (upstream_error ''solana'' e), st1, w1)
      | (Inr signatures, st1, w1) \<Rightarrow>
          (let ((records, detail_err), st2, w2) =
               impact_loop c network address limit signatures [] None st1 w1
           in (case detail_err of
                 Some e \<Rightarrow>
                   if signatures \<noteq> [] \<and> records = [] then Inl (upstream_error ''solana'' e)
                   else Inr (history_page records)
               | None \<Rightarrow> Inr (history_page records), st2, w2)))"

definition solana_history :: "history_config \<Rightarrow> string \<Rightarrow> string \<Rightarrow> int \<Rightarrow> history_result history" where
  "solana_history c network address limit st w =
     (if \<not> hc_helius_key c then signature_history c network address limit st w
      else
        (case helius_transfers (hc_net c) (hc_helius c network) address limit w of
           (Inr transfers, w1) \<Rightarrow>
             (Inr (helius_history_result (hc_official c network) address limit transfers), st, w1)
         | (Inl _, w1) \<Rightarrow> signature_history c network address limit st w1))"

subsection \<open>The result as JSON\<close>

definition non_empty :: "string \<Rightarrow> string \<Rightarrow> (string \<times> json) list" where
  "non_empty key s = (if s = [] then [] else [(key, JStr s)])"

definition history_record_json :: "history_record \<Rightarrow> json" where
  "history_record_json r =
     JObj ([(''id'', JStr (hi_id r)), (''hash'', JStr (hi_hash r)), (''direction'', JStr (hi_direction r))] @
       non_empty ''from'' (hi_from r) @ non_empty ''to'' (hi_to r) @
       [(''amountRaw'', JStr (hi_amount_raw r)), (''decimals'', JNum (dec_of_int (hi_decimals r))),
        (''symbol'', JStr (hi_symbol r))] @ non_empty ''contract'' (hi_contract r) @
       [(''verified'', JBool (hi_verified r)), (''timestampMs'', JNum (dec_of_int (hi_timestamp_ms r))),
        (''status'', JStr (hi_status r))])"

definition history_json :: "history_result \<Rightarrow> json" where
  "history_json r =
     JObj [(''chain'', JStr (hx_chain r)), (''network'', JStr (hx_network r)),
           (''address'', JStr (hx_address r)), (''status'', JStr (hx_status r)),
           (''records'', JArr (map history_record_json (hx_records r)))]"

definition history_record_type :: gtype where
  "history_record_type =
     GStruct [field ''id'' GString, field ''hash'' GString, field ''direction'' GString, field ''from'' GString,
       field ''to'' GString, field ''amountRaw'' GString, field ''decimals'' GInt, field ''symbol'' GString,
       field ''contract'' GString, field ''verified'' GBool, field ''timestampMs'' GInt, field ''status'' GString]"

definition history_type :: gtype where
  "history_type =
     GStruct [field ''chain'' GString, field ''network'' GString, field ''address'' GString,
       field ''status'' GString, field ''records'' (GSlice history_record_type)]"

definition history_record_of :: "gval \<Rightarrow> history_record" where
  "history_record_of v =
     \<lparr>hi_id = str_field v ''id'', hi_hash = str_field v ''hash'', hi_direction = str_field v ''direction'',
      hi_from = str_field v ''from'', hi_to = str_field v ''to'', hi_amount_raw = str_field v ''amountRaw'',
      hi_decimals = int_field v ''decimals'', hi_symbol = str_field v ''symbol'',
      hi_contract = str_field v ''contract'', hi_verified = (get_field v ''verified'' = Some (VBool True)),
      hi_timestamp_ms = int_field v ''timestampMs'', hi_status = str_field v ''status''\<rparr>"

definition history_of :: "gval \<Rightarrow> history_result" where
  "history_of v =
     \<lparr>hx_chain = str_field v ''chain'', hx_network = str_field v ''network'',
      hx_address = str_field v ''address'', hx_status = str_field v ''status'',
      hx_records = map history_record_of (slice_field v ''records'')\<rparr>"

text \<open>\<open>cache.JSONPointerCodec[historyResult]()\<close>.\<close>

definition history_codec :: "history_result codec" where
  "history_codec =
     \<lparr>encode = (\<lambda>r. Some (history_json r)),
      decode = (\<lambda>raw. Option.bind raw
        (\<lambda>j. map_option history_of (unmarshal False history_type (gzero history_type) j)))\<rparr>"

subsection \<open>The handler\<close>

definition history_params_type :: gtype where
  "history_params_type =
     GStruct [field ''chain'' GString, field ''network'' GString, field ''address'' GString,
              field ''limit'' (GPtr GInt)]"

record history_request =
  hq_chain :: string
  hq_meta :: chain_meta
  hq_network :: string
  hq_address :: string
  hq_limit :: int

definition history_limit :: "int option \<Rightarrow> rpc_error + int" where
  \<open>history_limit given =
     (case given of
        None \<Rightarrow> Inr default_history_limit
      | Some l \<Rightarrow>
          if l \<le> 0 then Inl (invalid_params ''invalid params: "limit" must be a positive integer'')
          else Inr (min l max_history_limit))\<close>

definition checked_history :: "gateway_env \<Rightarrow> raw \<Rightarrow> rpc_error + history_request" where
  \<open>checked_history env params =
     bind_sum (or_error (decode_strict_json history_params_type params)
         (invalid_params ''invalid params: expected {"chain", "network"?, "address", "limit"?}''))
       (\<lambda>p. let chain = str_field p ''chain''; address = str_field p ''address'' in
        bind_sum (validate_chain chain)
          (\<lambda>meta. bind_sum (resolve_network chain (str_field p ''network''))
             (\<lambda>network. bind_sum (check (validate_address (ge_sha env) chain address))
                (\<lambda>_. bind_sum (history_limit (ptr_int_field p ''limit''))
                   (\<lambda>limit. Inr \<lparr>hq_chain = chain, hq_meta = meta, hq_network = network,
                                 hq_address = address, hq_limit = limit\<rparr>)))))\<close>

definition history_key :: "history_request \<Rightarrow> string" where
  "history_key q = join ''|'' [hq_network q, hq_address q, dec_of_int (hq_limit q)]"

definition fetch_history :: "history_config \<Rightarrow> history_request \<Rightarrow> history_result history" where
  "fetch_history c q =
     (if hq_chain q = ''tron'' then tron_history c (hq_network q) (hq_address q) (hq_limit q)
      else if cm_evm (hq_meta q) then evm_history c (hq_chain q) (hq_network q) (hq_address q) (hq_limit q)
      else solana_history c (hq_network q) (hq_address q) (hq_limit q))"

text \<open>A page is bound to the request it answers before it is cached or returned.\<close>

definition bind_result :: "history_request \<Rightarrow> history_result \<Rightarrow> history_result" where
  "bind_result q r = r\<lparr>hx_chain := hq_chain q, hx_network := hq_network q, hx_address := hq_address q\<rparr>"

text \<open>\<open>answer\<close> and \<open>stored\<close> are what the shared store of the cache replies, if there is one.\<close>

definition get_history ::
  "history_config \<Rightarrow> store_error + string \<Rightarrow> bool \<Rightarrow> raw \<Rightarrow> history_result history" where
  "get_history c answer stored params st w =
     (case checked_history (hc_env c) params of
        Inl e \<Rightarrow> (Inl e, st, w)
      | Inr q \<Rightarrow>
          (let (ch, hit) = cache_get history_codec (w_now w) (w_now w) (history_key q) answer (hs_cache st);
               st1 = st\<lparr>hs_cache := ch\<rparr>
           in case hit of
                Some r \<Rightarrow> (Inr r, st1, w)
              | None \<Rightarrow>
                  (case fetch_history c q st1 w of
                     (Inl e, st2, w2) \<Rightarrow> (Inl e, st2, w2)
                   | (Inr r, st2, w2) \<Rightarrow>
                       (let r = bind_result q r;
                            (ch2, _) = cache_set history_codec (w_now w2) (history_key q) r stored (hs_cache st2)
                        in (Inr r, st2\<lparr>hs_cache := ch2\<rparr>, w2)))))"

end
