(* ===== verification/History_Facts.thy ===== *)
theory History_Facts
  imports History_Handler
begin

section \<open>What a history page guarantees\<close>

text \<open>
  Lemmas on \<open>handlers/history.go\<close>: the page is the newest part of the records, one per event; a
  verified record carries registered metadata and an unverified one only a harmless claim; an empty
  page is never a disguised failure; an answer names the request it answers, cached or not.
\<close>

subsection \<open>The page\<close>

lemma newest_first [simp]:
  "set (newest_first rs) = set rs"
  "sorted_wrt (\<lambda>p q. hi_timestamp_ms q \<le> hi_timestamp_ms p) (newest_first rs)"
proof -
  have "sorted (map (\<lambda>r. - hi_timestamp_ms r) (newest_first rs))" by (simp add: newest_first_def)
  then show "sorted_wrt (\<lambda>p q. hi_timestamp_ms q \<le> hi_timestamp_ms p) (newest_first rs)"
    by (simp add: sorted_map)
qed (simp add: newest_first_def)

lemma take_distinct_set: "set (take_distinct n seen rs) \<subseteq> set rs"
  by (induction n seen rs rule: take_distinct.induct) auto

lemma take_distinct_sorted: "sorted_wrt P rs \<Longrightarrow> sorted_wrt P (take_distinct n seen rs)"
proof (induction n seen rs rule: take_distinct.induct)
  case (2 left seen r rs)
  then show ?case using take_distinct_set [of "left - 1" "insert (hi_id r) seen" rs] by auto
qed simp

lemma take_distinct_ids:
  "distinct (map hi_id (take_distinct n seen rs)) \<and> hi_id ` set (take_distinct n seen rs) \<inter> seen = {}"
  by (induction n seen rs rule: take_distinct.induct) auto

lemma take_distinct_length: "0 < n \<Longrightarrow> length (take_distinct n seen rs) \<le> n"
proof (induction n seen rs rule: take_distinct.induct)
  case (2 left seen r rs)
  then show ?case by (cases "left = 1") auto
qed simp

text \<open>A record whose event is missing was cut off: the page is full and nothing in it is older.\<close>

lemma take_distinct_complete:
  assumes "sorted_wrt (\<lambda>p q. hi_timestamp_ms q \<le> hi_timestamp_ms p) rs" "0 < n" "r \<in> set rs"
    "hi_id r \<notin> seen \<union> hi_id ` set (take_distinct n seen rs)"
  shows "length (take_distinct n seen rs) = n \<and>
    (\<forall>p \<in> set (take_distinct n seen rs). hi_timestamp_ms r \<le> hi_timestamp_ms p)"
  using assms
proof (induction n seen rs rule: take_distinct.induct)
  case (2 left seen x rs)
  show ?case
  proof (cases "hi_id x \<in> seen")
    case True
    then show ?thesis using 2 by auto
  next
    case False
    then have "r \<noteq> x" using "2.prems"(4) by (auto split: if_splits)
    then have r: "r \<in> set rs" "hi_timestamp_ms r \<le> hi_timestamp_ms x" using "2.prems" by auto
    show ?thesis
    proof (cases "left = 1")
      case True
      then show ?thesis using False r by simp
    next
      case one: False
      then show ?thesis using "2.IH"(2) [OF False one] "2.prems" False r by auto
    qed
  qed
qed simp

lemma page_of:
  fixes limit :: int and rs
  defines "page \<equiv> page_of limit rs"
  assumes "0 < limit"
  shows "set page \<subseteq> set rs" "sorted_wrt (\<lambda>p q. hi_timestamp_ms q \<le> hi_timestamp_ms p) page"
    "distinct (map hi_id page)" "int (length page) \<le> limit"
    "r \<in> set rs \<Longrightarrow> hi_id r \<notin> hi_id ` set page \<Longrightarrow>
       int (length page) = limit \<and> (\<forall>p \<in> set page. hi_timestamp_ms r \<le> hi_timestamp_ms p)"
proof -
  have n: "0 < nat limit" using assms(2) by simp
  note defs = page_def page_of_def
  show "set page \<subseteq> set rs" using take_distinct_set [of "nat limit" "{}" "newest_first rs"] by (simp add: defs)
  show "sorted_wrt (\<lambda>p q. hi_timestamp_ms q \<le> hi_timestamp_ms p) page"
    unfolding defs by (intro take_distinct_sorted newest_first)
  show "distinct (map hi_id page)" using take_distinct_ids by (simp add: defs)
  show "int (length page) \<le> limit"
    using take_distinct_length [OF n, of "{}" "newest_first rs"] n by (simp add: defs le_nat_iff)
  show "int (length page) = limit \<and> (\<forall>p \<in> set page. hi_timestamp_ms r \<le> hi_timestamp_ms p)"
    if "r \<in> set rs" "hi_id r \<notin> hi_id ` set page"
    using take_distinct_complete [OF newest_first(2) n, of r rs "{}"] that n by (auto simp: defs)
qed

lemma page_of_empty [simp]: "0 < limit \<Longrightarrow> page_of limit rs = [] \<longleftrightarrow> rs = []"
proof
  assume "0 < limit" "page_of limit rs = []"
  then have "r \<notin> set rs" for r using page_of(5) [of limit r rs] by auto
  then show "rs = []" by (cases rs) auto
qed (simp add: page_of_def newest_first_def)

subsection \<open>Token metadata\<close>

text \<open>What an unverified record may claim: a short symbol of a fixed alphabet, sane decimals.\<close>

definition harmless_claim :: "string \<Rightarrow> int \<Rightarrow> bool" where
  "harmless_claim symbol decimals \<longleftrightarrow>
     symbol \<noteq> [] \<and> length symbol \<le> 12 \<and> list_all symbol_char symbol \<and> 0 \<le> decimals \<and> decimals \<le> 36"

definition registry_key :: "string \<Rightarrow> string" where
  "registry_key contract = (if prefix ''0x'' (to_lower contract) then to_lower contract else contract)"

lemma history_token_meta:
  assumes "history_token_meta registry contract claimed d = (symbol, decimals, verified)"
  shows "verified \<Longrightarrow> registry (registry_key contract) = Some \<lparr>tm_symbol = symbol, tm_decimals = decimals\<rparr>"
    "\<not> verified \<Longrightarrow> registry (registry_key contract) = None \<and> harmless_claim symbol decimals"
proof -
  have "list_all symbol_char ''TOKEN''" by code_simp
  then show "verified \<Longrightarrow> registry (registry_key contract) = Some \<lparr>tm_symbol = symbol, tm_decimals = decimals\<rparr>"
    "\<not> verified \<Longrightarrow> registry (registry_key contract) = None \<and> harmless_claim symbol decimals"
    using assms
    by (auto simp: history_token_meta_def registry_key_def Let_def harmless_claim_def split: option.splits if_splits)
qed

text \<open>
  A record that is marked verified is denominated in the chain's own coin or in a token of the
  network's registry, with the registry's symbol and decimals; any other carries a harmless claim.
\<close>

definition honest_record :: "token_registry \<Rightarrow> string \<Rightarrow> history_record \<Rightarrow> bool" where
  "honest_record registry chain r \<longleftrightarrow>
     (if hi_verified r then
        (hi_contract r = [] \<and> hi_symbol r = chain_symbol chain \<and> hi_decimals r = chain_decimals chain) \<or>
        registry (registry_key (hi_contract r)) = Some \<lparr>tm_symbol = hi_symbol r, tm_decimals = hi_decimals r\<rparr>
      else harmless_claim (hi_symbol r) (hi_decimals r))"

lemma honest_token:
  assumes "history_token_meta registry (hi_contract r) claimed d = (hi_symbol r, hi_decimals r, hi_verified r)"
  shows "honest_record registry chain r"
  using history_token_meta [OF assms] by (auto simp: honest_record_def)

lemma native_coins:
  "chain_symbol ''tron'' = ''TRX'' \<and> chain_decimals ''tron'' = 6"
  "chain_symbol ''solana'' = ''SOL'' \<and> chain_decimals ''solana'' = 9"
  by (simp_all add: chain_symbol_def chain_decimals_def chains_def)

lemma evm_decimals: "chains chain = Some m \<Longrightarrow> cm_evm m \<Longrightarrow> chain_decimals chain = 18"
  by (auto simp: chain_decimals_def chains_def split: if_splits)

lemma harmless_trc10: "harmless_claim ''TRC10'' 0"
  by (simp add: harmless_claim_def) code_simp

subsubsection \<open>Every kind of record is honest\<close>

lemma honest_trc20: "tron_trc20_record sha registry self t = Some r \<Longrightarrow> honest_record registry chain r"
  by (rule honest_token [of _ _ "t20_symbol t" "t20_decimals t"])
     (auto simp: tron_trc20_record_def Let_def split: prod.splits if_splits)

lemma honest_trx:
  "tron_native_record sha self t = Some r \<Longrightarrow> honest_record registry ''tron'' r"
  "tron_internal_record sha self u = Some r \<Longrightarrow> honest_record registry ''tron'' r"
  using harmless_trc10 native_coins
  by (auto simp: tron_native_record_def tron_internal_record_def trx_or_trc10_def Let_def honest_record_def
      split: if_splits)

lemma honest_evm_token: "evm_token_record registry self i t = Some r \<Longrightarrow> honest_record registry chain r"
  by (rule honest_token [of _ _ "tt_token_symbol t" "the (parse_decimal64 (tt_token_decimal t))"])
     (auto simp: evm_token_record_def Let_def bind_eq_Some_conv case_prod_beta)

lemma honest_evm_native:
  "evm_native_record chain self ident hash t = Some r \<Longrightarrow> chain_decimals chain = 18 \<Longrightarrow>
   honest_record registry chain r"
  by (auto simp: evm_native_record_def bind_eq_Some_conv honest_record_def)

lemma honest_alchemy: "alchemy_record registry chain self i t = Some r \<Longrightarrow> honest_record registry chain r"
proof (cases "at_category t = ''erc20''")
  case True
  assume "alchemy_record registry chain self i t = Some r"
  then show ?thesis using True
    by (intro honest_token [of _ _ "at_asset t" "the (parse_alchemy_hex_int (rc_decimal (at_raw t)))"])
       (auto simp: alchemy_record_def Let_def bind_eq_Some_conv case_prod_beta)
next
  case False
  assume "alchemy_record registry chain self i t = Some r"
  then show ?thesis using False
    by (auto simp: alchemy_record_def Let_def bind_eq_Some_conv honest_record_def)
qed

lemma honest_helius: "helius_record registry address t = Some r \<Longrightarrow> honest_record registry ''solana'' r"
proof (cases "ht_mint t = native_sol_mint")
  case True
  assume "helius_record registry address t = Some r"
  then show ?thesis using True native_coins
    by (auto simp: helius_record_def Let_def honest_record_def split: if_splits)
next
  case False
  assume "helius_record registry address t = Some r"
  then show ?thesis using False
    by (intro honest_token [of _ _ "''SPL''" "ht_decimals t"])
       (auto simp: helius_record_def Let_def split: prod.splits if_splits)
qed

lemma honest_spl: "honest_record registry chain (solana_token_record registry address s t)"
  by (rule honest_token [of _ _ "''SPL''" "ti_decimals t"])
     (simp add: solana_token_record_def Let_def split: prod.splits)

lemma honest_sol: "honest_record registry ''solana'' (solana_native_record address s i)"
  using native_coins by (simp add: solana_native_record_def honest_record_def Let_def split: prod.splits)


subsubsection \<open>Every page is honest\<close>

lemma page_of_set: "set (page_of limit rs) \<subseteq> set rs"
  using take_distinct_set [of "nat limit" "{}" "newest_first rs"] by (simp add: page_of_def)

lemma set_map_filter: "r \<in> set (List.map_filter f xs) \<longleftrightarrow> (\<exists>x \<in> set xs. f x = Some r)"
  by (simp add: map_filter_set)

lemma set_map_filter_indexed: "r \<in> set (map_filter_indexed f xs) \<Longrightarrow> \<exists>i. \<exists>x \<in> set xs. f i x = Some r"
  by (fastforce simp: map_filter_indexed_def set_map_filter in_set_enumerate_eq)

lemmas page_members = set_map_filter set_append Un_iff

lemma honest_tron_records:
  "r \<in> set (tron_records sha registry address trc20 native internal) \<Longrightarrow> honest_record registry ''tron'' r"
  by (auto simp: tron_records_def Let_def page_members intro: honest_trc20 honest_trx)

lemma evm_record_cases:
  assumes "r \<in> set (evm_records registry chain address txs token_txs internal_txs)"
  obtains (token) i t where "evm_token_record registry (to_lower address) i t = Some r"
  | (internal) i t movements where "evm_internal_record chain (to_lower address) movements i t = Some r"
  | (transaction) t where "evm_transaction_record chain (to_lower address) t = Some r"
  using assms unfolding evm_records_def Let_def page_members
  by (blast dest: set_map_filter_indexed)

lemma honest_evm_records:
  assumes "r \<in> set (evm_records registry chain address txs token_txs internal_txs)" "chain_decimals chain = 18"
  shows "honest_record registry chain r"
  using assms(1)
proof (cases rule: evm_record_cases)
  case (internal i t movements)
  then show ?thesis using assms(2)
    by (auto simp: evm_internal_record_def Let_def bind_eq_Some_conv intro: honest_evm_native)
next
  case (transaction t)
  then show ?thesis using assms(2)
    by (auto simp: evm_transaction_record_def bind_eq_Some_conv intro: honest_evm_native)
qed (rule honest_evm_token)

lemma set_append_until: "set (append_until limit acc xs) \<subseteq> set acc \<union> set xs"
  by (induction limit acc xs rule: append_until.induct) auto

lemma honest_add_impact:
  assumes "add_impact registry address limit s impact records = (records', stop)"
    "\<forall>r \<in> set records. honest_record registry ''solana'' r"
  shows "\<forall>r \<in> set records'. honest_record registry ''solana'' r"
  using assms set_append_until [of limit records "map (solana_token_record registry address s) (ai_tokens impact)"]
  by (auto simp: add_impact_def Let_def honest_sol honest_spl split: if_splits)

lemma honest_impact_loop:
  assumes "impact_loop c network address limit ss records e st w = ((records', e'), st', w')"
    "\<forall>r \<in> set records. honest_record (hc_official c network) ''solana'' r"
  shows "\<forall>r \<in> set records'. honest_record (hc_official c network) ''solana'' r"
  using assms
proof (induction ss arbitrary: records e st w)
  case (Cons s ss)
  show ?case
  proof (cases "sg_signature s = []")
    case True
    then show ?thesis using Cons.IH Cons.prems by simp
  next
    case False
    obtain r st1 w1 where call: "with_sol network (solana_transaction_account_impact (hc_net c)
        (sd_key_order c) (sg_signature s) address) st w = (r, st1, w1)" by (metis prod_cases3)
    show ?thesis
    proof (cases r)
      case (Inl err)
      then show ?thesis using Cons.IH Cons.prems False call by simp
    next
      case (Inr impact)
      obtain records1 stop where add:
        "add_impact (hc_official c network) address limit s impact records = (records1, stop)" by fastforce
      note honest_add_impact [OF add Cons.prems(2)]
      moreover have "(if stop then ((records1, e), st1, w1)
          else impact_loop c network address limit ss records1 e st1 w1) = ((records', e'), st', w')"
        using Cons.prems(1) False call Inr add by simp
      ultimately show ?thesis using Cons.IH by (cases stop) auto
    qed
  qed
qed simp

lemma honest_tron_history:
  assumes "tron_history_result sha registry address limit trc20 native internal = Inr res"
  shows "\<forall>r \<in> set (hx_records res). honest_record registry ''tron'' r"
  using assms page_of_set honest_tron_records
  by (fastforce simp: tron_history_result_def Let_def history_page_def split: option.splits if_splits)

lemma honest_explorer_history:
  assumes "explorer_history c chain network address limit e st w = (Inr res, st', w')"
    "chain_decimals chain = 18" "r \<in> set (hx_records res)"
  shows "honest_record (hc_official c network) chain r"
proof -
  obtain l w1 where l: "evm_history_lists (hc_net c) (history_explorers c network)
      (history_chain_id network) address limit True w = (l, w1)" by fastforce
  have "res = unsupported_history \<or> res = evm_history_result (hc_official c network) chain address limit
      (el_txs l) (el_token_txs l) (el_internal_txs l)"
    using assms(1) l by (auto simp: explorer_history_def Let_def split: if_splits option.splits)
  then show ?thesis using assms(2,3) page_of_set honest_evm_records
    by (fastforce simp: evm_history_result_def history_page_def unsupported_history_def)
qed

lemma honest_alchemy_history:
  "r \<in> set (hx_records (alchemy_history_result registry chain address limit transfers)) \<Longrightarrow>
   honest_record registry chain r"
  using page_of_set honest_alchemy
  by (fastforce simp: alchemy_history_result_def history_page_def dest: set_map_filter_indexed)

lemma honest_signature_history:
  assumes "signature_history c network address limit st w = (Inr res, st', w')"
  shows "\<forall>r \<in> set (hx_records res). honest_record (hc_official c network) ''solana'' r"
  using assms honest_impact_loop [where records = "[]"]
  by (fastforce simp: signature_history_def Let_def history_page_def split: prod.splits sum.splits option.splits if_splits)

lemma honest_solana_history:
  assumes "solana_history c network address limit st w = (Inr res, st', w')"
  shows "\<forall>r \<in> set (hx_records res). honest_record (hc_official c network) ''solana'' r"
  using assms honest_signature_history honest_helius
  by (auto simp: solana_history_def helius_history_result_def history_page_def page_members
      split: if_splits prod.splits sum.splits dest!: in_set_takeD)

lemma checked_history_chain:
  assumes "checked_history env params = Inr q"
  shows "chains (hq_chain q) = Some (hq_meta q)"
    "validate_address (ge_sha env) (hq_chain q) (hq_address q) = None"
    "0 < hq_limit q" "hq_limit q \<le> 100"
  using assms
  by (auto simp: checked_history_def Let_def validate_chain_def check_def history_limit_def
      default_history_limit_def max_history_limit_def split: option.splits if_splits)

lemma family_of_chain:
  assumes "chains chain = Some m"
  shows "chain = ''tron'' \<or> (cm_evm m \<and> chain_decimals chain = 18) \<or> (\<not> cm_evm m \<and> chain = ''solana'')"
  using assms by (auto simp: chains_def chain_decimals_def split: if_splits)

theorem honest_fetch_history:
  assumes "checked_history env params = Inr q" "fetch_history c q st w = (Inr res, st', w')"
    "r \<in> set (hx_records res)"
  shows "honest_record (hc_official c (hq_network q)) (hq_chain q) r"
proof -
  consider (tron) "hq_chain q = ''tron''" | (evm) "hq_chain q \<noteq> ''tron''" "cm_evm (hq_meta q)" "chain_decimals (hq_chain q) = 18"
    | (solana) "hq_chain q = ''solana''" "\<not> cm_evm (hq_meta q)"
    using family_of_chain [OF checked_history_chain(1) [OF assms(1)]] by auto
  then show ?thesis
  proof cases
    case tron
    then show ?thesis using assms(2,3) honest_tron_history
      by (fastforce simp: fetch_history_def tron_history_def Let_def split: prod.splits)
  next
    case evm
    then show ?thesis using assms(2,3) honest_explorer_history honest_alchemy_history
      by (fastforce simp: fetch_history_def evm_history_def Let_def split: prod.splits option.splits sum.splits)
  next
    case solana
    then show ?thesis using assms(2,3) honest_solana_history by (auto simp: fetch_history_def)
  qed
qed

subsection \<open>An empty page\<close>

lemma first_error_None: "first_error es = None \<longleftrightarrow> list_all (\<lambda>e. e = None) es"
  by (induction es) (auto simp: first_error_def)

lemma empty_tron_history:
  assumes "0 < limit" "hx_records res = []"
    "tron_history_result sha registry address limit trc20 native internal = Inr res"
  shows "error_of trc20 = None \<and> error_of native = None \<and> error_of internal = None"
  using assms first_error_None [of "[error_of trc20, error_of native, error_of internal]"]
  by (auto simp: tron_history_result_def Let_def history_page_def split: option.splits if_splits)

lemma empty_explorer_history:
  assumes "hx_records res = []" "hx_status res = ''ok''"
    "explorer_history c chain network address limit e st w = (Inr res, st', w')"
  shows "el_error (fst (evm_history_lists (hc_net c) (history_explorers c network) (history_chain_id network)
    address limit True w)) = None"
  using assms
  by (auto simp: explorer_history_def Let_def unsupported_history_def split: prod.splits option.splits if_splits)

lemma empty_alchemy_transfers:
  assumes "alchemy_transfers env order key_order address limit a w = (Inr [], a', w')"
  shows "\<exists>r1 a1 w1 r2. direction_feed env address limit (fst order) a w = (Inr r1, a1, w1) \<and>
    fst (direction_feed env address limit (snd order) a1 w1) = Inr r2"
proof -
  obtain r1 a1 w1 where 1: "direction_feed env address limit (fst order) a w = (r1, a1, w1)" by (metis prod_cases3)
  obtain r2 a2 w2 where 2: "direction_feed env address limit (snd order) a1 w1 = (r2, a2, w2)" by (metis prod_cases3)
  have "\<exists>x y. r1 = Inr x \<and> r2 = Inr y"
    using assms 1 2
    by (cases r1; cases r2) (auto simp: alchemy_transfers_def fill_missing_block_times_def Let_def
        split: if_splits prod.splits sum.splits)
  then show ?thesis using 1 2 by auto
qed

subsection \<open>Block times\<close>

text \<open>The batch states a time for a block: the text of the timestamp under the block's identifier.\<close>

definition states_block_time :: "json list \<Rightarrow> int \<Rightarrow> string \<Rightarrow> bool" where
  "states_block_time entries ident stamp \<longleftrightarrow>
     (\<exists>entry \<in> set entries. \<exists>obj block.
        decode_extensible_json_object (Some entry) [''jsonrpc'', ''id'', ''result'', ''error''] = Some obj \<and>
        opt_int (obj ''id'') = Some (Some ident) \<and> decode_unique_json_object (obj ''result'') = Some block \<and>
        block ''timestamp'' = Some (JStr stamp))"

definition block_time_of :: "json list \<Rightarrow> string list \<Rightarrow> string \<Rightarrow> string \<Rightarrow> bool" where
  "block_time_of entries blocks b s \<longleftrightarrow>
     (\<exists>ident stamp. 0 < ident \<and> ident \<le> int (length blocks) \<and> b = blocks ! nat (ident - 1) \<and>
        states_block_time entries ident stamp \<and> s = format_rfc3339 (int (nat_of_hex (drop 2 stamp))))"

lemma decode_block_entries_times:
  assumes "decode_block_entries blocks seen ts entries = Page out" "set entries \<subseteq> set es"
    "\<forall>(b, s) \<in> set ts. block_time_of es blocks b s"
  shows "(\<forall>(b, s) \<in> set out. block_time_of es blocks b s) \<and>
    length (remdups (map fst out)) = length blocks"
  using assms
proof (induction blocks seen ts entries rule: decode_block_entries.induct)
  case (2 blocks seen ts entry entries)
  from "2.prems"(1) obtain obj ident block stamp where o:
    "decode_extensible_json_object (Some entry) [''jsonrpc'', ''id'', ''result'', ''error''] = Some obj"
    "opt_int (obj ''id'') = Some (Some ident)" "0 < ident" "ident \<le> int (length blocks)"
    "decode_unique_json_object (obj ''result'') = Some block" "block ''timestamp'' = Some (JStr stamp)"
    and rest: "decode_block_entries blocks (ident # seen)
      ((blocks ! nat (ident - 1), format_rfc3339 (int (nat_of_hex (drop 2 stamp)))) # ts) entries = Page out"
    by (fastforce split: option.splits if_splits json.splits)
  have "states_block_time es ident stamp"
    using o "2.prems"(2) unfolding states_block_time_def by auto
  then have "block_time_of es blocks (blocks ! nat (ident - 1)) (format_rfc3339 (int (nat_of_hex (drop 2 stamp))))"
    using o unfolding block_time_of_def by blast
  then show ?case using "2.IH" "2.prems" o rest by (fastforce split: option.splits if_splits json.splits)
qed (auto split: if_splits)

lemma alchemy_block_times:
  assumes "decode_alchemy_block_timestamps data blocks = Page ts"
  shows "\<exists>entries. data = Some (JArr entries) \<and> (\<forall>(b, s) \<in> set ts. block_time_of entries blocks b s)"
    "set (map fst ts) = set blocks"
proof -
  obtain es where es: "data = Some (JArr es)" and run: "decode_block_entries blocks [] [] es = Page ts"
    using assms by (auto simp: decode_alchemy_block_timestamps_def raw_rows_def split: option.splits json.splits if_splits)
  note times = decode_block_entries_times [OF run subset_refl]
  with es show "\<exists>entries. data = Some (JArr entries) \<and> (\<forall>(b, s) \<in> set ts. block_time_of entries blocks b s)"
    by auto
  have sub: "set (map fst ts) \<subseteq> set blocks"
    using times by (fastforce simp: block_time_of_def intro!: nth_mem)
  have "card (set (map fst ts)) = length blocks"
    using times by (simp add: length_remdups_card_conv)
  then show "set (map fst ts) = set blocks"
    using sub card_length [of blocks] by (metis List.finite_set card_seteq)
qed

text \<open>
  An empty history is never a disguised failure: an empty page that is reported as \<open>ok\<close> means
  that every TRON listing succeeded, that an explorer answered both the transaction and the token
  listing, or that Alchemy answered for both directions.
\<close>

theorem empty_history_is_no_failure:
  assumes "0 < limit" and "hx_records res = []" and "hx_status res = ''ok''"
  shows "(tron_history_result sha registry address limit trc20 native internal = Inr res \<longrightarrow>
      error_of trc20 = None \<and> error_of native = None \<and> error_of internal = None) \<and>
    (explorer_history c chain network address limit e st w = (Inr res, st', w') \<longrightarrow>
      el_error (fst (evm_history_lists (hc_net c) (history_explorers c network) (history_chain_id network)
        address limit True w)) = None) \<and>
    (alchemy_transfers env order key_order address limit a w = (Inr [], a', w') \<longrightarrow>
      (\<exists>r1 a1 w1 r2. direction_feed env address limit (fst order) a w = (Inr r1, a1, w1) \<and>
         fst (direction_feed env address limit (snd order) a1 w1) = Inr r2))"
  by (intro conjI impI)
    (use empty_tron_history [OF assms(1,2)] empty_explorer_history [OF assms(2,3)]
      empty_alchemy_transfers [of env order key_order address limit a w a' w'] in auto)

end
