(* ===== verification/Cached_Answers.thy ===== *)
theory Cached_Answers
  imports Cache
begin

section \<open>Caches of answers\<close>

text \<open>
  The handlers that cache share one contract: an answer is stored under the text of the request it
  was made for, and a hit is used to answer whatever request has that text. \<open>keeps_answers\<close> says that
  every entry of a local cache answers some accepted request with its key; the locale proves that
  the cache operations keep this and that a hit answers the request at hand, from the one law the
  client owes: requests with the same key accept the same answers.
\<close>

definition keeps_answers ::
  "('q \<Rightarrow> bool) \<Rightarrow> ('q \<Rightarrow> string) \<Rightarrow> ('v \<Rightarrow> 'q \<Rightarrow> bool) \<Rightarrow> 'v cache \<Rightarrow> bool" where
  "keeps_answers accepted key answers ch \<longleftrightarrow>
     ch_namespace ch = None \<and>
     (\<forall>(k, v, e) \<in> set (ch_m ch). \<exists>q. accepted q \<and> k = key q \<and> answers v q)"

lemma in_set_update: "x \<in> set (AList.update k v m) \<Longrightarrow> x = (k, v) \<or> x \<in> set m"
  by (induction m) (auto split: if_splits)

lemma get_local_subset:
  "get_local now k ch = (ch', hit) \<Longrightarrow> set (ch_m ch') \<subseteq> set (ch_m ch) \<and> ch_namespace ch' = ch_namespace ch"
  by (auto simp: get_local_def AList.delete_eq split: option.splits if_splits)

lemma get_local_hit:
  "get_local now k ch = (ch', Some v) \<Longrightarrow> \<exists>e. (k, v, e) \<in> set (ch_m ch)"
  by (auto simp: get_local_def split: option.splits if_splits dest!: map_of_SomeD)

lemma set_local_subset:
  "set (ch_m (set_local now k v e ch)) \<subseteq> insert (k, v, e) (set (ch_m ch))"
  "ch_namespace (set_local now k v e ch) = ch_namespace ch"
  by (auto simp: set_local_def dest!: in_set_update split: if_splits)

locale cached_answers =
  fixes accepted :: "'q \<Rightarrow> bool" and key :: "'q \<Rightarrow> string" and answers :: "'v \<Rightarrow> 'q \<Rightarrow> bool"
  assumes same_key: "accepted q \<Longrightarrow> accepted q' \<Longrightarrow> key q = key q' \<Longrightarrow> answers v q \<Longrightarrow> answers v q'"
begin

abbreviation kept :: "'v cache \<Rightarrow> bool" where "kept \<equiv> keeps_answers accepted key answers"

lemma kept_new: "kept (new_cache ttl)"
  by (simp add: keeps_answers_def new_cache_def)

lemma kept_get_local: "kept ch \<Longrightarrow> get_local now k ch = (ch', hit) \<Longrightarrow> kept ch'"
  using get_local_subset [of now k ch ch' hit] unfolding keeps_answers_def by (fastforce simp: subset_eq)

lemma kept_hit_local:
  assumes "kept ch" "accepted q" "get_local now (key q) ch = (ch', Some v)"
  shows "answers v q"
proof -
  obtain e where "(key q, v, e) \<in> set (ch_m ch)" using get_local_hit [OF assms(3)] by blast
  with assms(1) obtain q' where "accepted q'" "key q = key q'" "answers v q'"
    unfolding keeps_answers_def by auto
  with assms(2) show ?thesis using same_key [of q' q] by simp
qed

lemma kept_set_local:
  assumes "kept ch" "accepted q" "answers v q"
  shows "kept (set_local now (key q) v e ch)"
  using assms set_local_subset [of now "key q" v e ch] unfolding keeps_answers_def by fastforce

lemma kept_get:
  assumes "kept ch" "cache_get codec now later k answer ch = (ch', hit)"
  shows "kept ch'"
proof -
  have "ch_namespace ch = None" using assms(1) by (simp add: keeps_answers_def)
  with assms kept_get_local show ?thesis by (metis cache_get_local_only)
qed

lemma kept_hit:
  assumes "kept ch" "accepted q" "cache_get codec now later (key q) answer ch = (ch', Some v)"
  shows "answers v q"
proof -
  have "ch_namespace ch = None" using assms(1) by (simp add: keeps_answers_def)
  with assms kept_hit_local show ?thesis by (metis cache_get_local_only)
qed

lemma kept_set:
  assumes "kept ch" "accepted q" "answers v q" "cache_set codec now (key q) v stored ch = (ch', x)"
  shows "kept ch'"
proof -
  have "ch_namespace ch = None" using assms(1) by (simp add: keeps_answers_def)
  with assms kept_set_local show ?thesis by (metis cache_set_local_only prod.inject)
qed

end

end
