(* ===== verification/History_Bound.thy ===== *)
theory History_Bound
  imports History_Facts Broadcast_Once Cached_Answers
begin

section \<open>A history answer names its request\<close>

text \<open>
  The cache is keyed by a text, \<open>network|address|limit\<close>. Networks and accepted addresses contain
  no bar, so the key determines the network, the address and the limit, and the network its chain:
  a page found under a request's key was made for that request.
\<close>

lemma join_bar_inj:
  assumes "CHR ''|'' \<notin> set a" "CHR ''|'' \<notin> set b" "CHR ''|'' \<notin> set a'" "CHR ''|'' \<notin> set b'"
    "join ''|'' [a, b, c] = join ''|'' [a', b', c']"
  shows "a = a' \<and> b = b' \<and> c = c'"
proof -
  have cut: "takeWhile (\<lambda>c. c \<noteq> CHR ''|'') (x @ CHR ''|'' # y) = x" if "CHR ''|'' \<notin> set x" for x y
    using that by (induction x) auto
  from assms(5) have "a @ CHR ''|'' # b @ CHR ''|'' # c = a' @ CHR ''|'' # b' @ CHR ''|'' # c'" by simp
  moreover from this have a: "a = a'"
    using cut [of a "b @ CHR ''|'' # c"] cut [of a' "b' @ CHR ''|'' # c'"] assms(1,3) by simp
  ultimately have "b @ CHR ''|'' # c = b' @ CHR ''|'' # c'" by simp
  moreover from this have "b = b'" using cut [of b c] cut [of b' c'] assms(2,4) by simp
  ultimately show ?thesis using a by simp
qed

lemma hex_text_no_bar: "hex_text n s \<Longrightarrow> CHR ''|'' \<notin> set s"
proof -
  have "\<not> is_hex CHR ''|''" by code_simp
  then show "hex_text n s \<Longrightarrow> CHR ''|'' \<notin> set s" by (auto simp: hex_text_def list_all_iff)
qed

lemma base58_no_bar: "base58_decode s = Some p \<Longrightarrow> CHR ''|'' \<notin> set s"
proof -
  have "base58_value n s = Some v \<Longrightarrow> set s \<subseteq> set b58_alphabet" for n v
    by (induction s arbitrary: n) (auto simp: b58_index_def dest: index_from_mem split: option.splits)
  moreover have "CHR ''|'' \<notin> set b58_alphabet" by code_simp
  ultimately show "base58_decode s = Some p \<Longrightarrow> CHR ''|'' \<notin> set s"
    by (fastforce simp: base58_decode_def split: option.splits)
qed

lemma tron_address_decodes:
  assumes "is_valid_tron_base58_address sha a"
  shows "base58_decode a \<noteq> None"
proof
  assume "base58_decode a = None"
  moreover obtain cs where a: "a = CHR ''T'' # cs" "length a = 34"
    using assms by (auto simp: is_valid_tron_base58_address_def prefix_def split: if_splits)
  ultimately have "tron_addr_hex sha a = to_lower a" by (simp add: tron_addr_hex_def)
  then have "prefix ''41'' (to_lower a)"
    using assms by (simp add: is_valid_tron_base58_address_def Let_def split: if_splits)
  moreover have "char_lower CHR ''T'' = CHR ''t''" by code_simp
  ultimately show False using a by (simp add: byte_of_def)
qed

lemma valid_address_no_bar:
  assumes "chains chain = Some m" "validate_address sha chain a = None"
  shows "CHR ''|'' \<notin> set a"
proof -
  have "evm_address_re a \<or> is_valid_tron_base58_address sha a \<or> is_valid_solana_address a"
    using assms by (auto simp: validate_address_def chains_def split: if_splits)
  then show ?thesis
  proof (elim disjE)
    assume "evm_address_re a"
    then obtain t where "a = ''0x'' @ t" "hex_text 40 t"
      by (auto simp: evm_address_re_def prefix_def)
    then show ?thesis using hex_text_no_bar by auto
  next
    assume "is_valid_tron_base58_address sha a"
    then show ?thesis using tron_address_decodes base58_no_bar by blast
  next
    assume "is_valid_solana_address a"
    then show ?thesis using base58_no_bar
      by (auto simp: is_valid_solana_address_def split: if_splits option.splits)
  qed
qed

lemma network_no_bar: "networks n = Some m \<Longrightarrow> CHR ''|'' \<notin> set n"
proof -
  have "\<forall>n \<in> set (map fst network_table). CHR ''|'' \<notin> set n" by code_simp
  moreover assume "networks n = Some m"
  then have "n \<in> set (map fst network_table)" unfolding networks_def by (metis domI dom_map_of_conv_image_fst list.set_map)
  ultimately show ?thesis by blast
qed

definition accepted_request :: "gateway_env \<Rightarrow> history_request \<Rightarrow> bool" where
  "accepted_request env q \<longleftrightarrow> (\<exists>params. checked_history env params = Inr q)"

lemma accepted_request_network:
  assumes "accepted_request env q"
  shows "\<exists>m. networks (hq_network q) = Some m \<and> nm_chain m = hq_chain q"
proof -
  obtain meta n where "chains (hq_chain q) = Some meta" "resolve_network (hq_chain q) n = Inr (hq_network q)"
    using assms by (auto simp: accepted_request_def checked_history_def Let_def validate_chain_def
        split: option.splits)
  then show ?thesis by (rule resolve_network_registered)
qed

lemma accepted_request_parts:
  assumes "accepted_request env q"
  shows "CHR ''|'' \<notin> set (hq_network q)" "CHR ''|'' \<notin> set (hq_address q)" "0 < hq_limit q"
    "chains (hq_chain q) = Some (hq_meta q)"
proof -
  obtain params where q: "checked_history env params = Inr q" using assms by (auto simp: accepted_request_def)
  show "CHR ''|'' \<notin> set (hq_network q)" using accepted_request_network [OF assms] network_no_bar by blast
  show "chains (hq_chain q) = Some (hq_meta q)" "0 < hq_limit q" using checked_history_chain [OF q] by simp_all
  then show "CHR ''|'' \<notin> set (hq_address q)"
    using valid_address_no_bar checked_history_chain(2) [OF q] by blast
qed

lemma dec_of_int_inj: "dec_of_int i = dec_of_int j \<Longrightarrow> 0 \<le> i \<Longrightarrow> 0 \<le> j \<Longrightarrow> i = j"
  using dec_of_nat_digits by (auto simp: dec_of_int_def) (metis eq_nat_nat_iff)

theorem history_key_inj:
  assumes "accepted_request env q" "accepted_request env q'" "history_key q = history_key q'"
  shows "q = q'"
proof -
  have eq: "hq_network q = hq_network q'" "hq_address q = hq_address q'"
    "dec_of_int (hq_limit q) = dec_of_int (hq_limit q')"
    using join_bar_inj [of "hq_network q" "hq_address q" "hq_network q'" "hq_address q'"]
      accepted_request_parts(1,2) [OF assms(1)] accepted_request_parts(1,2) [OF assms(2)] assms(3)
    unfolding history_key_def by blast+
  then have "hq_limit q = hq_limit q'" using dec_of_int_inj accepted_request_parts(3) assms(1,2) by (metis less_imp_le)
  moreover have "hq_chain q = hq_chain q'" using accepted_request_network [OF assms(1)] accepted_request_network [OF assms(2)] eq(1) by auto
  moreover from this have "hq_meta q = hq_meta q'"
    using accepted_request_parts(4) assms(1,2) by (metis option.inject)
  ultimately show ?thesis using eq by (cases q; cases q') simp
qed

subsection \<open>The cache keeps pages under the request they answer\<close>

text \<open>
  What an answer owes its request: it names it, its records are honest, and, except for Solana, there
  are no more of them than were asked for.
\<close>

definition answers :: "history_config \<Rightarrow> history_result \<Rightarrow> history_request \<Rightarrow> bool" where
  "answers c r q \<longleftrightarrow>
     hx_chain r = hq_chain q \<and> hx_network r = hq_network q \<and> hx_address r = hq_address q \<and>
     (hq_chain q \<noteq> ''solana'' \<longrightarrow> int (length (hx_records r)) \<le> hq_limit q) \<and>
     (\<forall>x \<in> set (hx_records r). honest_record (hc_official c (hq_network q)) (hq_chain q) x)"

interpretation pages: cached_answers "accepted_request (hc_env c)" history_key "answers c" for c
proof unfold_locales
  fix q q' v
  assume "accepted_request (hc_env c) q" "accepted_request (hc_env c) q'" "history_key q = history_key q'"
    "answers c v q"
  then show "answers c v q'" using history_key_inj by blast
qed

abbreviation cache_bound :: "history_config \<Rightarrow> history_state \<Rightarrow> bool" where
  "cache_bound c st \<equiv> keeps_answers (accepted_request (hc_env c)) history_key (answers c) (hs_cache st)"

lemma hs_cache_with_sol [simp]: "hs_cache (fst (snd (with_sol network m st w))) = hs_cache st"
  by (simp add: with_sol_def split: prod.split)

lemma fetch_history_cache:
  "hs_cache (fst (snd (fetch_history c q st w))) = hs_cache st"
proof -
  have sigs: "hs_cache (fst (snd (account_signatures c network limit as m st w))) = hs_cache st"
    for network limit as m st w
  proof (induction as arbitrary: m st w)
    case (Cons a as)
    then show ?case by (simp add: split_beta Let_def)
  qed simp
  have imp: "hs_cache (fst (snd (impact_loop c network address limit ss rs e st w))) = hs_cache st"
    for network address limit ss rs e st w
  proof (induction ss arbitrary: rs e st w)
    case (Cons s ss)
    then show ?case
      using hs_cache_with_sol
        [of network "solana_transaction_account_impact (hc_net c) (sd_key_order c) (sg_signature s) address" st w]
      by (auto simp: Let_def simp del: hs_cache_with_sol split: prod.splits sum.splits)
  qed simp
  have hsig: "hs_cache (fst (snd (solana_history_signatures c network owner limit st w))) = hs_cache st"
    for network owner limit st w
    using sigs by (auto simp: solana_history_signatures_def Let_def split_beta split: sum.split)
  have sig: "hs_cache (fst (snd (signature_history c network address limit st w))) = hs_cache st"
    for network address limit st w
    using hsig [of network address limit st w] imp
    by (auto simp: signature_history_def Let_def split_beta split: sum.split)
  show ?thesis
    using sig by (auto simp: fetch_history_def tron_history_def evm_history_def explorer_history_def
        solana_history_def Let_def split_beta split: sum.split option.split)
qed


lemma fetched_page_fits:
  assumes "checked_history env params = Inr q" "fetch_history c q st w = (Inr res, st', w')"
    "hq_chain q \<noteq> ''solana''"
  shows "int (length (hx_records res)) \<le> hq_limit q"
proof -
  note limit = checked_history_chain(3) [OF assms(1)]
  have "hq_chain q = ''tron'' \<or> hq_chain q \<noteq> ''tron'' \<and> cm_evm (hq_meta q)"
    using family_of_chain [OF checked_history_chain(1) [OF assms(1)]] assms(3) by auto
  then show ?thesis
    using assms(2) page_of(4) [OF limit] limit
    by (auto simp: fetch_history_def tron_history_def tron_history_result_def evm_history_def
        explorer_history_def alchemy_history_result_def evm_history_result_def history_page_def
        unsupported_history_def Let_def split_beta split: option.splits sum.splits if_splits)
qed

lemma fetched_answers:
  assumes "checked_history (hc_env c) params = Inr q" "fetch_history c q st w = (Inr res, st', w')"
  shows "answers c (bind_result q res) q"
  using fetched_page_fits [OF assms] honest_fetch_history [OF assms]
  by (simp add: answers_def bind_result_def)

lemma get_history_answers:
  assumes "cache_bound c st" "get_history c answer stored params st w = (r, st', w')"
  shows "cache_bound c st'"
    "checked_history (hc_env c) params = Inr q \<Longrightarrow> r = Inr res \<Longrightarrow> answers c res q"
proof -
  have "cache_bound c st' \<and> (checked_history (hc_env c) params = Inr q \<longrightarrow> r = Inr res \<longrightarrow> answers c res q)"
  proof (cases "checked_history (hc_env c) params")
    case (Inl e)
    then show ?thesis using assms by (simp add: get_history_def)
  next
    case (Inr q')
    then have acc: "accepted_request (hc_env c) q'" by (auto simp: accepted_request_def)
    obtain ch hit where get: "cache_get history_codec (w_now w) (w_now w) (history_key q') answer (hs_cache st) = (ch, hit)"
      by fastforce
    note kept = pages.kept_get [OF assms(1) get]
    show ?thesis
    proof (cases hit)
      case (Some v)
      then show ?thesis
        using assms(2) Inr get kept pages.kept_hit [OF assms(1) acc, of _ _ _ _ _ v]
        by (auto simp: get_history_def)
    next
      case None
      let ?st1 = "st\<lparr>hs_cache := ch\<rparr>"
      obtain f st2 w2 where fetch: "fetch_history c q' ?st1 w = (f, st2, w2)" by (metis prod_cases3)
      have same: "hs_cache st2 = ch" using fetch_history_cache [of c q' ?st1 w] fetch by simp
      show ?thesis
      proof (cases f)
        case (Inl e)
        then show ?thesis using assms(2) \<open>checked_history _ _ = Inr q'\<close> get None fetch kept same
          by (auto simp: get_history_def)
      next
        case (Inr res')
        then have "answers c (bind_result q' res') q'"
          using fetched_answers \<open>checked_history _ _ = Inr q'\<close> fetch by blast
        then show ?thesis
          using assms(2) \<open>checked_history _ _ = Inr q'\<close> get None fetch Inr same pages.kept_set [OF kept acc]
          by (auto simp: get_history_def Let_def split: prod.splits)
      qed
    qed
  qed
  then show "cache_bound c st'"
    "checked_history (hc_env c) params = Inr q \<Longrightarrow> r = Inr res \<Longrightarrow> answers c res q" by blast+
qed

text \<open>
  The runs of a gateway whose history cache has no shared store: requests, and anything else that
  leaves the history cache alone.
\<close>

inductive history_run :: "history_config \<Rightarrow> history_state \<Rightarrow> bool" where
  start: "hs_cache st = new_cache ttl \<Longrightarrow> history_run c st"
| request: "history_run c st \<Longrightarrow> get_history c answer stored params st w = (r, st', w') \<Longrightarrow> history_run c st'"
| other: "history_run c st \<Longrightarrow> hs_cache st' = hs_cache st \<Longrightarrow> history_run c st'"

lemma history_run_bound: "history_run c st \<Longrightarrow> cache_bound c st"
proof (induction rule: history_run.induct)
  case (start st ttl c)
  then show ?case by (simp add: pages.kept_new)
next
  case (request c st answer stored params w r st' w')
  then show ?case using get_history_answers(1) by blast
next
  case (other c st st')
  then show ?case by simp
qed

end
