(* ===== verification/History_Cost.thy ===== *)
theory History_Cost
  imports History_Bound Pool_Facts
begin

section \<open>What a history request costs\<close>

text \<open>
  A bound on the upstream requests one \<open>kt_getHistory\<close> sends, whatever the providers answer: every
  loop over endpoints, explorers, token accounts and signatures is bounded by the configuration and
  the limit. \<open>sends_upto n w w'\<close> says that at most \<open>n\<close> requests were sent between two worlds.
\<close>

subsection \<open>Composition\<close>

lemma sends_upto_trans: "sends_upto m w w1 \<Longrightarrow> sends_upto n w1 w2 \<Longrightarrow> sends_upto (m + n) w w2"
  by (fastforce simp: sends_upto_def)

lemma sends_upto_mono: "sends_upto m w w' \<Longrightarrow> m \<le> n \<Longrightarrow> sends_upto n w w'"
  by (auto simp: sends_upto_def)

lemma sends_upto_step: "sends_upto (Suc 0) w w1 \<Longrightarrow> sends_upto n w1 w2 \<Longrightarrow> sends_upto (Suc n) w w2"
  using sends_upto_trans [of "Suc 0" w w1 n w2] by simp

text \<open>Clients without state, and clients with a pool: a call keeps the pool's width.\<close>

definition rest_cost :: "nat \<Rightarrow> 'a rest \<Rightarrow> bool" where
  "rest_cost n m \<longleftrightarrow> (\<forall>w. sends_upto n w (snd (m w)))"

lemma rest_costD: "rest_cost n m \<Longrightarrow> m w = (r, w') \<Longrightarrow> sends_upto n w w'"
  unfolding rest_cost_def by (metis snd_conv)

lemma rest_cost_bind: "rest_cost m f \<Longrightarrow> (\<And>x. rest_cost n (g x)) \<Longrightarrow> rest_cost (m + n) (rest_bind f g)"
  unfolding rest_cost_def rest_bind_def
  by (auto split: prod.splits sum.splits intro: sends_upto_mono) (metis sends_upto_mono le_add1 snd_conv, metis sends_upto_trans snd_conv)

lemma rest_cost_lift [simp]: "rest_cost n (rest_lift r)"
  by (simp add: rest_cost_def rest_lift_def sends_upto_def)

lemma rest_cost_then_lift: "rest_cost n f \<Longrightarrow> rest_cost n (rest_bind f (\<lambda>x. rest_lift (g x)))"
  using rest_cost_bind [of n f 0 "\<lambda>x. rest_lift (g x)"] by simp

lemma rest_cost_exchange: "snd (f w) = snd (exchange env req w) \<Longrightarrow> sends_upto (Suc 0) w (snd (f w))"
  using sends_upto_exchange [of w env req] by simp

lemma indexer_fetch_cost: "rest_cost (Suc 0) (indexer_fetch env label product url body)"
  unfolding rest_cost_def
  by (auto intro: rest_cost_exchange simp: indexer_fetch_def Let_def split_beta)

lemma tron_fetch_cost: "rest_cost (Suc 0) (tron_fetch env t path payload)"
  unfolding rest_cost_def
  by (auto intro: rest_cost_exchange simp: tron_fetch_def Let_def split_beta split: http_outcome.splits)


lemma first_success_cost:
  assumes "\<And>s. rest_cost (Suc 0) (call s)"
  shows "rest_cost (length sources) (first_success env call none sources e)"
  unfolding rest_cost_def
proof (intro allI)
  fix w show "sends_upto (length sources) w (snd (first_success env call none sources e w))"
  proof (induction sources arbitrary: e w)
    case (Cons s sources)
    obtain r w1 where call: "call s w = (r, w1)" by fastforce
    then have step: "sends_upto (Suc 0) w w1" using assms [of s] by (metis rest_cost_def snd_conv)
    show ?case
    proof (cases r)
      case (Inl err)
      then show ?thesis
        using call step Cons.IH sends_upto_mono [OF step, of "Suc (length sources)"]
        by (auto intro: sends_upto_step)
    next
      case (Inr x)
      then show ?thesis using call sends_upto_mono [OF step, of "Suc (length sources)"] by simp
    qed
  qed simp
qed

subsection \<open>TRON and the explorers\<close>

lemma tron_listing_costs:
  "rest_cost (Suc 0) (tron_trc20_transfers sha env t a l)"
  "rest_cost (Suc 0) (tron_native_transactions sha env t a l)"
  "rest_cost (Suc 0) (tron_internal_transactions sha env t a l)"
  using tron_fetch_cost
  by (auto simp: tron_trc20_transfers_def tron_native_transactions_def tron_internal_transactions_def
      intro!: rest_cost_then_lift)

lemma tron_history_cost:
  assumes "tron_history c network address limit st w = (r, st', w')"
  shows "sends_upto 3 w w'"
proof -
  let ?t = "gw_tron (hs_gateway st) network" and ?sha = "ge_sha (hc_env c)"
  obtain x1 w1 where 1: "tron_trc20_transfers ?sha (hc_net c) ?t address limit w = (x1, w1)" by fastforce
  obtain x2 w2 where 2: "tron_native_transactions ?sha (hc_net c) ?t address limit w1 = (x2, w2)" by fastforce
  obtain x3 w3 where 3: "tron_internal_transactions ?sha (hc_net c) ?t address limit w2 = (x3, w3)" by fastforce
  note s = rest_costD [OF tron_listing_costs(1) 1] rest_costD [OF tron_listing_costs(2) 2]
    rest_costD [OF tron_listing_costs(3) 3]
  have "w' = w3" using assms 1 2 3 by (simp add: tron_history_def Let_def)
  then show ?thesis
    using sends_upto_trans [OF sends_upto_trans [OF s(1,2)] s(3)] by (simp add: numeral_3_eq_3)
qed

lemma explorer_costs:
  "rest_cost (Suc 0) (tx_list env s chain_id a l)"
  "rest_cost (Suc 0) (token_tx_list env s chain_id a l)"
  "rest_cost (Suc 0) (internal_tx_list env s chain_id a l)"
  using indexer_fetch_cost
  by (auto simp: tx_list_def token_tx_list_def internal_tx_list_def account_list_def
      intro!: rest_cost_then_lift)

lemma first_explorer_costs:
  "rest_cost (length sources) (first_explorer_tx_list env sources chain_id a l)"
  "rest_cost (length sources) (first_explorer_token_tx_list env sources chain_id a l)"
  "rest_cost (length sources) (first_explorer_internal_tx_list env sources chain_id a l)"
  unfolding first_explorer_tx_list_def [abs_def] first_explorer_token_tx_list_def [abs_def]
    first_explorer_internal_tx_list_def [abs_def]
  by (rule first_success_cost, rule explorer_costs)+

lemma evm_history_lists_cost:
  assumes "evm_history_lists env sources chain_id address limit internal w = (l, w')"
  shows "sends_upto (3 * length sources) w w'"
proof -
  let ?n = "length sources"
  obtain x1 w1 where 1: "first_explorer_tx_list env sources chain_id address limit w = (x1, w1)" by fastforce
  obtain x2 w2 where 2: "first_explorer_token_tx_list env sources chain_id address limit w1 = (x2, w2)"
    by fastforce
  obtain x3 w3 where 3: "first_explorer_internal_tx_list env sources chain_id address limit w2 = (x3, w3)"
    by fastforce
  note s = rest_costD [OF first_explorer_costs(1) 1] rest_costD [OF first_explorer_costs(2) 2]
    rest_costD [OF first_explorer_costs(3) 3]
  have two: "sends_upto (?n + ?n) w w2" by (rule sends_upto_trans [OF s(1,2)])
  have "sends_upto (?n + ?n + ?n) w w3" by (rule sends_upto_trans [OF two s(3)])
  with two have "sends_upto (3 * ?n) w w2" "sends_upto (3 * ?n) w w3" by (auto intro: sends_upto_mono)
  moreover have "w' = w2 \<or> w' = w3"
    using assms 1 2 3 by (auto simp: evm_history_lists_def Let_def split: if_splits)
  ultimately show ?thesis by auto
qed

lemma explorer_history_cost:
  assumes "explorer_history c chain network address limit e st w = (r, st', w')"
  shows "sends_upto 6 w w'"
proof -
  have "length (history_explorers c network) \<le> 2"
    by (auto simp: history_explorers_def split: option.splits)
  moreover obtain l w1 where "evm_history_lists (hc_net c) (history_explorers c network)
      (history_chain_id network) address limit True w = (l, w1)" by fastforce
  moreover from this have "w' = w1 \<or> w' = w"
    using assms by (auto simp: explorer_history_def Let_def split: if_splits)
  ultimately show ?thesis
    using evm_history_lists_cost by (fastforce intro: sends_upto_mono)
qed

subsection \<open>Alchemy\<close>

definition alchemy_cost :: "nat \<Rightarrow> 'a alchemy \<Rightarrow> bool" where
  "alchemy_cost n f \<longleftrightarrow>
     (\<forall>a w r a' w'. f a w = (r, a', w') \<longrightarrow>
        sends_upto (n * length (al_endpoints a)) w w' \<and> al_endpoints a' = al_endpoints a)"

lemma alchemy_costD:
  "alchemy_cost n f \<Longrightarrow> f a w = (r, a', w') \<Longrightarrow>
   sends_upto (n * length (al_endpoints a)) w w' \<and> al_endpoints a' = al_endpoints a"
  by (simp add: alchemy_cost_def)

lemma over_endpoints_cost:
  assumes "\<And>s. rest_cost (Suc 0) (call s)"
  shows "alchemy_cost 1 (over_endpoints env call none)"
proof -
  have "sends_upto (length (al_endpoints a)) w
      (snd (first_success env call none (rotation start (al_endpoints a)) None w))" for a start w
    using first_success_cost [of call "rotation start (al_endpoints a)" env none None] assms
    by (simp add: rest_cost_def rotation_def)
  then show ?thesis
    by (auto simp: alchemy_cost_def over_endpoints_def Let_def split_beta)
qed

lemma transfers_for_cost: "alchemy_cost 1 (transfers_for env address limit direction internal)"
  unfolding transfers_for_def request_endpoint_def alchemy_page_def
  by (intro over_endpoints_cost rest_cost_then_lift indexer_fetch_cost)

lemma block_timestamps_cost: "alchemy_cost 1 (block_timestamps env blocks)"
  unfolding block_timestamps_def request_block_timestamps_def alchemy_page_def
  by (intro over_endpoints_cost rest_cost_then_lift indexer_fetch_cost)

lemma direction_feed_cost: "alchemy_cost 2 (direction_feed env address limit direction)"
  unfolding alchemy_cost_def
proof (intro allI impI)
  fix a w r a' w' assume run: "direction_feed env address limit direction a w = (r, a', w')"
  let ?n = "length (al_endpoints a)"
  obtain r1 a1 w1 where first: "transfers_for env address limit direction True a w = (r1, a1, w1)"
    by (metis prod_cases3)
  note c1 = alchemy_costD [OF transfers_for_cost first]
  show "sends_upto (2 * ?n) w w' \<and> al_endpoints a' = al_endpoints a"
  proof (cases r1)
    case (Inl e)
    then have "transfers_for env address limit direction False a1 w1 = (r, a', w')"
      using run first by (simp add: direction_feed_def)
    from alchemy_costD [OF transfers_for_cost this] c1
    have "sends_upto (?n + ?n) w w'" "al_endpoints a' = al_endpoints a"
      using sends_upto_trans by auto
    then show ?thesis by (simp add: mult_2)
  next
    case (Inr x)
    then show ?thesis using run first c1
      by (auto simp: direction_feed_def intro: sends_upto_mono)
  qed
qed

lemma fill_missing_block_times_cost:
  "alchemy_cost 1 (fill_missing_block_times env key_order transfers)"
  using alchemy_costD [OF block_timestamps_cost]
  by (auto simp: alchemy_cost_def fill_missing_block_times_def Let_def sends_upto_def
      split: prod.splits sum.splits if_splits)

lemma alchemy_transfers_cost: "alchemy_cost 5 (alchemy_transfers env order key_order address limit)"
  unfolding alchemy_cost_def
proof (intro allI impI)
  fix a w r a' w' assume run: "alchemy_transfers env order key_order address limit a w = (r, a', w')"
  let ?n = "length (al_endpoints a)"
  obtain r1 a1 w1 where 1: "direction_feed env address limit (fst order) a w = (r1, a1, w1)"
    by (metis prod_cases3)
  obtain r2 a2 w2 where 2: "direction_feed env address limit (snd order) a1 w1 = (r2, a2, w2)"
    by (metis prod_cases3)
  obtain r3 a3 w3 where 3: "fill_missing_block_times env key_order (fst (merge_feeds [r1, r2])) a2 w2 = (r3, a3, w3)"
    by (metis prod_cases3)
  note c = alchemy_costD [OF direction_feed_cost 1] alchemy_costD [OF direction_feed_cost 2]
    alchemy_costD [OF fill_missing_block_times_cost 3]
  then have s2: "sends_upto (2 * ?n + 2 * ?n) w w2" and s3: "sends_upto (2 * ?n + 2 * ?n + 1 * ?n) w w3"
    using sends_upto_trans by (metis)+
  moreover have "(a', w') = (a2, w2) \<or> (a', w') = (a3, w3)"
    using run 1 2 3 by (auto simp: alchemy_transfers_def Let_def split_beta split: option.splits if_splits)
  ultimately show "sends_upto (5 * ?n) w w' \<and> al_endpoints a' = al_endpoints a"
    using c by (auto intro: sends_upto_mono)
qed


subsection \<open>Solana\<close>

definition pool_width :: "pool \<Rightarrow> nat" where
  "pool_width p = max (pl_round_robin_prefix p) (length (pl_eps p))"

definition io_cost :: "nat \<Rightarrow> 'a io \<Rightarrow> bool" where
  "io_cost n m \<longleftrightarrow>
     (\<forall>p w r p' w'. m p w = (r, p', w') \<longrightarrow>
        sends_upto (n * pool_width p) w w' \<and> pool_width p' = pool_width p)"

lemma io_costD:
  "io_cost n m \<Longrightarrow> m p w = (r, p', w') \<Longrightarrow> sends_upto (n * pool_width p) w w' \<and> pool_width p' = pool_width p"
  by (simp add: io_cost_def)

lemma pool_width_update [simp]: "pool_width (update_ep i f p) = pool_width p"
  by (simp add: pool_width_def)

lemma pool_call_loop_cost:
  "pool_call_loop env ext payload order p w attempted lerr = (r, p', w') \<Longrightarrow>
   sends_upto (length order) w w' \<and> pool_width p' = pool_width p"
proof (induction order arbitrary: p w attempted lerr)
  case (Cons i order)
  obtain reply w1 where ex: "exchange env (ep_url (pl_eps p ! i), payload) w = (reply, w1)" by fastforce
  then have step: "sends_upto (Suc 0) w w1" using sends_upto_exchange [of w env] by (metis One_nat_def snd_conv)
  have next_ep: "sends_upto (Suc (length order)) w w' \<and> pool_width p' = pool_width p"
    if "pool_call_loop env ext payload order (update_ep i f p) w1 True e = (r, p', w')" for f e
    using Cons.IH [OF that] sends_upto_step [OF step] by simp
  have stop: "sends_upto (Suc (length order)) w w1" using sends_upto_mono [OF step] by simp
  show ?case
  proof (cases "circuit_open (w_now w) (pl_eps p ! i)")
    case True
    then have "pool_call_loop env ext payload order p w attempted lerr = (r, p', w')"
      using Cons.prems by simp
    from Cons.IH [OF this] show ?thesis by (auto intro: sends_upto_mono)
  next
    case False
    then show ?thesis
      using Cons.prems ex stop by (auto simp: Let_def split: attempt_result.splits if_splits dest: next_ep)
  qed
qed simp

lemma pool_call_cost: "io_cost 1 (pool_call env ext method params)"
proof -
  have "length (snd (endpoints_for_call p)) \<le> pool_width p" for p
    by (auto simp: endpoints_for_call_def pool_width_def Let_def max_def)
  moreover have "pool_width (fst (endpoints_for_call p)) = pool_width p" for p
    by (simp add: pool_width_def)
  ultimately show ?thesis
    unfolding io_cost_def pool_call_def split_beta Let_def
    by (metis mult_1 pool_call_loop_cost sends_upto_mono)
qed

lemma io_cost_bind:
  assumes "io_cost m f" "\<And>x. io_cost n (g x)"
  shows "io_cost (m + n) (io_bind f g)"
  unfolding io_cost_def
proof (intro allI impI)
  fix p w r p' w' assume run: "io_bind f g p w = (r, p', w')"
  obtain x p1 w1 where f: "f p w = (x, p1, w1)" by (metis prod_cases3)
  note c = io_costD [OF assms(1) f]
  show "sends_upto ((m + n) * pool_width p) w w' \<and> pool_width p' = pool_width p"
  proof (cases x)
    case (Inl e)
    then show ?thesis using run f c by (auto simp: io_bind_def intro: sends_upto_mono)
  next
    case (Inr y)
    then have "g y p1 w1 = (r, p', w')" using run f by (simp add: io_bind_def)
    from io_costD [OF assms(2) this] c show ?thesis
      using sends_upto_trans by (auto simp: add_mult_distrib)
  qed
qed

lemma io_cost_pure [simp]: "io_cost 0 (io_return x)" "io_cost 0 (solana_fail e)"
  by (simp_all add: io_cost_def io_return_def solana_fail_def io_fail_def sends_upto_def)

lemma solana_call_extensible_cost: "io_cost 1 (solana_call_extensible env method params)"
  using pool_call_cost unfolding solana_call_extensible_def [abs_def] .

lemma io_cost_then_pure:
  assumes "io_cost n f" "\<And>x. io_cost 0 (g x)"
  shows "io_cost n (io_bind f g)"
  using io_cost_bind [OF assms] by simp

lemma solana_read_costs:
  "io_cost 1 (solana_signatures_for_address env a l)"
  "io_cost 1 (solana_transaction_account_impact env ko s a)"
  unfolding solana_signatures_for_address_def solana_transaction_account_impact_def
  by (rule io_cost_then_pure [OF solana_call_extensible_cost];
      simp split: option.split gval.split sum.split if_split)+

lemma owned_accounts_cost: "io_cost 2 (solana_get_owned_token_accounts env owner)"
proof -
  have "io_cost (length programs) (solana_owned_accounts_loop env owner programs accounts)"
    for programs accounts
  proof (induction programs arbitrary: accounts)
    case (Cons program programs)
    have "io_cost (1 + length programs) (solana_owned_accounts_loop env owner (program # programs) accounts)"
      unfolding solana_owned_accounts_loop.simps
    proof (rule io_cost_bind [OF solana_call_extensible_cost])
      fix raw
      have "io_cost (length programs) (solana_fail e)" for e
        by (simp add: io_cost_def solana_fail_def io_fail_def sends_upto_def)
      then show "io_cost (length programs)
         (case unmarshal False token_accounts_type (gzero token_accounts_type) raw of
            None \<Rightarrow> solana_fail ''malformed token account result''
          | Some out \<Rightarrow> solana_owned_accounts_loop env owner programs
              (new_token_accounts accounts (slice_field out ''value'')))"
        using Cons.IH by (auto split: option.split)
    qed
    then show ?case by simp
  qed simp
  from this [of "[spl_token_program, spl_token_2022_program]" "[]"] show ?thesis
    by (simp add: solana_get_owned_token_accounts_def numeral_2_eq_2)
qed

text \<open>A network's pool, seen from the history state.\<close>

definition sol_width :: "string \<Rightarrow> history_state \<Rightarrow> nat" where
  "sol_width network st = pool_width (gw_sol (hs_gateway st) network)"

lemma with_sol_cost:
  assumes "io_cost n m" "with_sol network m st w = (r, st', w')"
  shows "sends_upto (n * sol_width network st) w w' \<and> sol_width network st' = sol_width network st"
proof -
  obtain x p w1 where m: "m (gw_sol (hs_gateway st) network) w = (x, p, w1)" by (metis prod_cases3)
  from io_costD [OF assms(1) m] assms(2) m show ?thesis
    by (auto simp: with_sol_def sol_width_def)
qed

lemma account_signatures_cost:
  "account_signatures c network limit accounts m st w = (m', st', w') \<Longrightarrow>
   sends_upto (length accounts * sol_width network st) w w' \<and> sol_width network st' = sol_width network st"
proof (induction accounts arbitrary: m st w)
  case (Cons account accounts)
  obtain r st1 w1 where
    call: "with_sol network (solana_signatures_for_address (hc_net c) account limit) st w = (r, st1, w1)"
    by (metis prod_cases3)
  note c = with_sol_cost [OF solana_read_costs(1) call]
  have "account_signatures c network limit accounts (note_signatures m (rows_of r)) st1 w1 = (m', st', w')"
    using Cons.prems call by simp
  from Cons.IH [OF this] c show ?case using sends_upto_trans by (auto simp: add_mult_distrib)
qed simp

lemma impact_loop_cost:
  "impact_loop c network address limit ss records e st w = (r, st', w') \<Longrightarrow>
   sends_upto (length ss * sol_width network st) w w' \<and> sol_width network st' = sol_width network st"
proof (induction ss arbitrary: records e st w)
  case (Cons s ss)
  let ?read = "solana_transaction_account_impact (hc_net c) (sd_key_order c) (sg_signature s) address"
  let ?W = "sol_width network st"
  obtain x st1 w1 where call: "with_sol network ?read st w = (x, st1, w1)" by (metis prod_cases3)
  note c = with_sol_cost [OF solana_read_costs(2) call]
  have rest: "sends_upto (?W + length ss * ?W) w w' \<and> sol_width network st' = ?W"
    if "impact_loop c network address limit ss records1 e1 st1 w1 = (r, st', w')" for records1 e1
    using Cons.IH [OF that] c sends_upto_trans by auto
  have stop: "sends_upto (?W + length ss * ?W) w w1" using c sends_upto_mono by auto
  show ?case
  proof (cases "sg_signature s = []")
    case True
    then show ?thesis using Cons.IH [of records e st w] Cons.prems by (auto intro: sends_upto_mono)
  next
    case False
    then show ?thesis
      using Cons.prems call c stop
      by (auto simp: add_mult_distrib split_beta Let_def split: sum.splits if_splits dest: rest)
  qed
qed simp

lemma candidate_signatures_length: "length (candidate_signatures order limit m) \<le> nat (4 * limit)"
  by (simp add: candidate_signatures_def mult.commute)

lemma solana_history_signatures_cost:
  assumes order: "\<And>ks. mset (sd_key_order c ks) = mset ks"
    and run: "solana_history_signatures c network owner limit st w = (r, st', w')"
  shows "sends_upto (35 * sol_width network st) w w'" "sol_width network st' = sol_width network st"
    "r = Inr signatures \<Longrightarrow> length signatures \<le> nat (4 * limit)"
proof -
  let ?W = "sol_width network st"
  obtain x st1 w1 where 1: "with_sol network (solana_signatures_for_address (hc_net c) owner limit) st w = (x, st1, w1)"
    by (metis prod_cases3)
  note c1 = with_sol_cost [OF solana_read_costs(1) 1]
  have "sends_upto (35 * ?W) w w' \<and> sol_width network st' = ?W \<and>
     (r = Inr signatures \<longrightarrow> length signatures \<le> nat (4 * limit))"
  proof (cases x)
    case (Inl e)
    then show ?thesis using run 1 c1 by (auto simp: solana_history_signatures_def intro: sends_upto_mono)
  next
    case (Inr owned)
    obtain y st2 w2 where 2: "with_sol network (solana_get_owned_token_accounts (hc_net c) owner) st1 w1 = (y, st2, w2)"
      by (metis prod_cases3)
    note c2 = with_sol_cost [OF owned_accounts_cost 2]
    let ?accounts = "sd_key_order c (take 32 (rows_of y))"
    obtain m st3 w3 where 3: "account_signatures c network limit ?accounts (note_signatures [] owned) st2 w2 = (m, st3, w3)"
      by (metis prod_cases3)
    note c3 = account_signatures_cost [OF 3]
    have "length ?accounts = length (take 32 (rows_of y))" by (rule mset_eq_length [OF order])
    then have "length ?accounts \<le> 32" by simp
    then have "length ?accounts * ?W \<le> 32 * ?W" by (rule mult_le_mono1)
    with c1 c2 c3 have third: "sends_upto (32 * ?W) w2 w3" by (auto intro: sends_upto_mono)
    have "sends_upto (1 * ?W + 2 * ?W + 32 * ?W) w w3"
      by (rule sends_upto_trans [OF sends_upto_trans third]) (use c1 c2 in auto)
    moreover have "r = Inr (candidate_signatures (sd_key_order c) limit m)" "st' = st3" "w' = w3"
      using run 1 2 3 Inr by (auto simp: solana_history_signatures_def Let_def)
    ultimately show ?thesis using c1 c2 c3 candidate_signatures_length by auto
  qed
  then show "sends_upto (35 * ?W) w w'" "sol_width network st' = ?W"
    "r = Inr signatures \<Longrightarrow> length signatures \<le> nat (4 * limit)" by auto
qed

lemma signature_history_cost:
  assumes order: "\<And>ks. mset (sd_key_order c ks) = mset ks"
    and run: "signature_history c network address limit st w = (r, st', w')"
  shows "sends_upto ((35 + nat (4 * limit)) * sol_width network st) w w'"
proof -
  let ?W = "sol_width network st"
  obtain x st1 w1 where 1: "solana_history_signatures c network address limit st w = (x, st1, w1)"
    by (metis prod_cases3)
  note c1 = solana_history_signatures_cost [OF order 1]
  show ?thesis
  proof (cases x)
    case (Inl e)
    then show ?thesis using run 1 c1(1) by (auto simp: signature_history_def intro: sends_upto_mono)
  next
    case (Inr signatures)
    obtain y st2 w2 where 2: "impact_loop c network address limit signatures [] None st1 w1 = (y, st2, w2)"
      by (metis prod_cases3)
    have "length signatures * ?W \<le> nat (4 * limit) * ?W" by (rule mult_le_mono1 [OF c1(3) [OF Inr]])
    then have "sends_upto (nat (4 * limit) * ?W) w1 w2"
      using impact_loop_cost [OF 2] c1(2) by (auto intro: sends_upto_mono)
    from sends_upto_trans [OF c1(1) this]
    have "sends_upto ((35 + nat (4 * limit)) * ?W) w w2" by (simp add: add_mult_distrib)
    moreover have "w' = w2" using run 1 2 Inr by (simp add: signature_history_def Let_def split_beta)
    ultimately show ?thesis by simp
  qed
qed

lemma helius_transfers_cost: "rest_cost (Suc 0) (helius_transfers env s address limit)"
  unfolding helius_transfers_def Let_def by (intro rest_cost_then_lift indexer_fetch_cost)

lemma solana_history_cost:
  assumes order: "\<And>ks. mset (sd_key_order c ks) = mset ks"
    and run: "solana_history c network address limit st w = (r, st', w')"
  shows "sends_upto (Suc ((35 + nat (4 * limit)) * sol_width network st)) w w'"
proof (cases "hc_helius_key c")
  case False
  then show ?thesis
    using run sends_upto_mono [OF signature_history_cost [OF order, of network address limit st w r st' w']]
    by (simp add: solana_history_def)
next
  case True
  obtain x w1 where 1: "helius_transfers (hc_net c) (hc_helius c network) address limit w = (x, w1)" by fastforce
  note c = rest_costD [OF helius_transfers_cost 1]
  show ?thesis
  proof (cases x)
    case (Inl e)
    then have "signature_history c network address limit st w1 = (r, st', w')"
      using run True 1 by (simp add: solana_history_def)
    from sends_upto_step [OF c signature_history_cost [OF order this]] show ?thesis .
  next
    case (Inr t)
    then show ?thesis using run True 1 c by (auto simp: solana_history_def intro: sends_upto_mono)
  qed
qed

subsection \<open>The handler\<close>

text \<open>The most requests one history read may send, by the chain's family.\<close>

definition history_budget :: "history_state \<Rightarrow> history_request \<Rightarrow> nat" where
  "history_budget st q =
     (if hq_chain q = ''tron'' then 3
      else if cm_evm (hq_meta q) then
        6 + (case hs_alchemy st (hq_network q) of None \<Rightarrow> 0 | Some a \<Rightarrow> 5 * length (al_endpoints a))
      else Suc ((35 + nat (4 * hq_limit q)) * sol_width (hq_network q) st))"

lemma evm_history_cost:
  assumes "evm_history c chain network address limit st w = (r, st', w')"
  shows "sends_upto (6 + (case hs_alchemy st network of None \<Rightarrow> 0 | Some a \<Rightarrow> 5 * length (al_endpoints a))) w w'"
proof (cases "hs_alchemy st network")
  case None
  then show ?thesis using assms explorer_history_cost by (simp add: evm_history_def)
next
  case (Some a)
  obtain x a1 w1 where 1: "alchemy_transfers (hc_net c) (sd_directions c) (sd_key_order c) address limit a w = (x, a1, w1)"
    by (metis prod_cases3)
  note c = alchemy_costD [OF alchemy_transfers_cost 1]
  show ?thesis
  proof (cases x)
    case (Inl e)
    then have "explorer_history c chain network address limit (Some e)
        (st\<lparr>hs_alchemy := (hs_alchemy st)(network \<mapsto> a1)\<rparr>) w1 = (r, st', w')"
      using assms Some 1 by (simp add: evm_history_def)
    from sends_upto_trans [OF conjunct1 [OF c] explorer_history_cost [OF this]] Some
    show ?thesis by (simp add: add.commute)
  next
    case (Inr t)
    then show ?thesis using assms Some 1 c by (auto simp: evm_history_def intro: sends_upto_mono)
  qed
qed

lemma fetch_history_cost:
  assumes "\<And>ks. mset (sd_key_order c ks) = mset ks" "fetch_history c q st w = (r, st', w')"
  shows "sends_upto (history_budget st q) w w'"
  using tron_history_cost evm_history_cost
    solana_history_cost [OF assms(1), of "hq_network q" "hq_address q" "hq_limit q" st w] assms(2)
  by (auto simp: fetch_history_def history_budget_def split: if_splits)

lemma get_history_cost:
  assumes order: "\<And>ks. mset (sd_key_order c ks) = mset ks"
    and q: "checked_history (hc_env c) params = Inr q"
    and run: "get_history c answer stored params st w = (r, st', w')"
  shows "sends_upto (history_budget st q) w w'"
proof -
  obtain ch hit where get: "cache_get history_codec (w_now w) (w_now w) (history_key q) answer (hs_cache st) = (ch, hit)"
    by fastforce
  have same: "history_budget (st\<lparr>hs_cache := ch\<rparr>) q = history_budget st q"
    by (simp add: history_budget_def sol_width_def)
  show ?thesis
  proof (cases hit)
    case (Some x)
    then show ?thesis using run q get by (simp add: get_history_def sends_upto_def)
  next
    case None
    obtain x st2 w2 where fetch: "fetch_history c q (st\<lparr>hs_cache := ch\<rparr>) w = (x, st2, w2)" by (metis prod_cases3)
    have "w' = w2" using run q get None fetch
      by (auto simp: get_history_def Let_def split_beta split: sum.splits)
    then show ?thesis using fetch_history_cost [OF order fetch] same by simp
  qed
qed

text \<open>A hit, and a request that is refused, send nothing.\<close>

lemma get_history_refused_cost:
  "checked_history (hc_env c) params = Inl e \<Longrightarrow> get_history c answer stored params st w = (Inl e, st, w)"
  by (simp add: get_history_def)

end
