(* ===== verification/History_Samples.thy ===== *)
theory History_Samples
  imports History_Cost Samples
begin

section \<open>Two history requests, answered\<close>

text \<open>
  Concrete providers on which the history properties are applied: an explorer that lists one
  transaction and then stops answering, and a Solana node that shows two lamport transfers.
\<close>

definition replies :: "string list \<Rightarrow> pool_env" where
  "replies bodies = \<lparr>pe_transport = (\<lambda>w req. \<lparr>hr_outcome = Responded 200
       (Some (if length (w_sent w) < length bodies then bodies ! length (w_sent w) else [])),
     hr_elapsed = 5, hr_ctx_done = False\<rparr>), pe_host_of = (\<lambda>u. ''host'')\<rparr>"

definition history_setup :: "pool_env \<Rightarrow> etherscan_client option \<Rightarrow> history_config" where
  "history_setup net scan =
     \<lparr>hc_env = \<lparr>ge_net = net, ge_sha = (\<lambda>bs. bs), ge_printable = (\<lambda>s. True)\<rparr>,
      hc_scan = scan, hc_history_scan = Map.empty, hc_helius_key = False,
      hc_helius = (\<lambda>n. new_helius [] []), hc_official = (\<lambda>n. Map.empty),
      sd_directions = (ToAddress, FromAddress), sd_key_order = (\<lambda>ks. ks)\<rparr>"

definition history_start :: history_state where
  "history_start = \<lparr>hs_gateway = \<lparr>gw_evm = (\<lambda>n. new_pool ''eth'' [] 0),
     gw_sol = (\<lambda>n. new_pool ''solana'' [''s''] 0), gw_tron = (\<lambda>n. new_tron ''t''),
     gw_guard = new_broadcast_guard False\<rparr>, hs_alchemy = Map.empty, hs_cache = new_cache 60000000000\<rparr>"

lemma history_start_run: "history_run c history_start"
  by (rule history_run.start [of _ 60000000000]) (simp add: history_start_def)

definition history_params :: "string \<Rightarrow> string \<Rightarrow> string \<Rightarrow> raw" where
  "history_params chain address limit =
     Some (JObj [(''chain'', JStr chain), (''address'', JStr address), (''limit'', JNum limit)])"

subsection \<open>An explorer\<close>

definition wallet :: string where "wallet = ''0x'' @ replicate 40 CHR ''a''"

text \<open>A transaction that creates a contract.\<close>

definition explorer_page :: string where
  \<open>explorer_page =
     ''{"message":"OK","result":[{"from":"0xaaaaaaaaaaaaaaaaaaaaaaaaaaaaaaaaaaaaaaaa",'' @
     ''"hash":"0x1111111111111111111111111111111111111111111111111111111111111111",'' @
     ''"timeStamp":"1700000000","to":"","value":"25"}],"status":"1"}''\<close>

definition explorer_config :: history_config where
  "explorer_config = history_setup (replies [explorer_page])
     (Some (new_etherscan ''https://e'' ''k''))"

definition explorer_run :: "(rpc_error + history_result) \<times> history_state \<times> world" where
  "explorer_run = get_history explorer_config (Inl ErrNotFound) True (history_params ''polygon'' wallet ''5'')
     history_start sample_world"

lemma explorer_checked:
  "checked_history (hc_env explorer_config) (history_params ''polygon'' wallet ''5'') =
     Inr \<lparr>hq_chain = ''polygon'', hq_meta = \<lparr>cm_symbol = ''POL'', cm_decimals = 18, cm_evm = True\<rparr>,
          hq_network = ''polygon-mainnet'', hq_address = wallet, hq_limit = 5\<rparr>"
  by code_simp

lemma explorer_answered:
  "map_sum (\<lambda>e. ()) (\<lambda>r. map (\<lambda>x. (hi_direction x, hi_amount_raw x, hi_timestamp_ms x)) (hx_records r))
     (fst explorer_run) = Inr [(''out'', ''25'', 1700000000000)]"
  by code_simp

definition sample_block_batch :: raw where
  "sample_block_batch = Some (JArr [JObj [(''id'', JNum ''1''), (''jsonrpc'', JStr ''2.0''),
     (''result'', JObj [(''timestamp'', JStr ''0x65e11a7f'')])]])"

subsection \<open>A Solana node\<close>

definition sol_wallet :: string where "sol_wallet = replicate 32 CHR ''1''"

definition node_answer :: "string \<Rightarrow> string" where
  \<open>node_answer result = ''{"id":1,"jsonrpc":"2.0","result":'' @ result @ ''}''\<close>

definition lamport_transfer :: string where
  \<open>lamport_transfer =
     ''{"meta":{"preBalances":[1],"postBalances":[6]},'' @
     ''"transaction":{"message":{"accountKeys":["11111111111111111111111111111111"]}}}''\<close>

definition solana_config :: history_config where
  "solana_config = history_setup (replies [node_answer lamport_transfer, node_answer lamport_transfer]) None"

definition lamport_signature :: "string \<Rightarrow> solana_sig" where
  "lamport_signature s = \<lparr>sg_signature = s, sg_block_time = Some 1700000000, sg_err = Some JNull\<rparr>"

lemma two_lamport_transfers:
  "map hi_id (fst (fst (impact_loop solana_config ''solana-mainnet'' sol_wallet 1
     [lamport_signature ''a'', lamport_signature ''b''] [] None history_start sample_world))) = [''a'', ''b'']"
  by code_simp

end
