(* ===== verification/Json_Raw.thy ===== *)
theory Json_Raw
  imports Schema
begin

section \<open>Raw JSON values\<close>

text \<open>
  A \<open>json.RawMessage\<close> keeps the text of a value. For the decoders that look at that text
  (\<open>parseBinaryFlag\<close> accepts a quoted digit only when it is written without an escape) a string is
  kept as the body of its literal: \<open>json_parse_raw\<close> reads a text like \<open>json_parse\<close> but leaves the
  escapes of string values alone, \<open>unescape\<close> resolves them, and the two agree
  (\<open>json_parse_unescape\<close>). A number keeps its literal in both.
\<close>

fun unescape :: "json \<Rightarrow> json" where
  "unescape (JStr b) = JStr (unquote b)"
| "unescape (JArr js) = JArr (map unescape js)"
| "unescape (JObj kvs) = JObj (map (\<lambda>(k, v). (k, unescape v)) kvs)"
| "unescape j = j"

function parse_raw_value :: "nat \<Rightarrow> string \<Rightarrow> (json \<times> string) option"
  and parse_raw_elements :: "nat \<Rightarrow> string \<Rightarrow> (json list \<times> string) option"
  and parse_raw_members :: "nat \<Rightarrow> string \<Rightarrow> ((string \<times> json) list \<times> string) option"
where
  "parse_raw_value d s =
     (case skip_ws s of
        [] \<Rightarrow> None
      | c # cs \<Rightarrow>
          if c = CHR 0x22 then map_option (\<lambda>(b, r). (JStr b, r)) (scan_string cs)
          else if c = CHR ''{'' then
            (if d = 0 then None
             else case skip_ws cs of
                    [] \<Rightarrow> None
                  | c2 # cs2 \<Rightarrow>
                      if c2 = CHR ''}'' then Some (JObj [], cs2)
                      else map_option (\<lambda>(kvs, r). (JObj kvs, r)) (parse_raw_members (d - 1) cs))
          else if c = CHR ''['' then
            (if d = 0 then None
             else case skip_ws cs of
                    [] \<Rightarrow> None
                  | c2 # cs2 \<Rightarrow>
                      if c2 = CHR '']'' then Some (JArr [], cs2)
                      else map_option (\<lambda>(vs, r). (JArr vs, r)) (parse_raw_elements (d - 1) cs))
          else if c = CHR ''t'' then strip_literal ''true'' (JBool True) (c # cs)
          else if c = CHR ''f'' then strip_literal ''false'' (JBool False) (c # cs)
          else if c = CHR ''n'' then strip_literal ''null'' JNull (c # cs)
          else map_option (\<lambda>(n, r). (JNum n, r)) (scan_number (c # cs)))"
| "parse_raw_elements d s =
     (case shrink s (parse_raw_value d s) of
        None \<Rightarrow> None
      | Some (v, rest) \<Rightarrow>
          (case skip_ws rest of
             [] \<Rightarrow> None
           | c # cs \<Rightarrow>
               if c = CHR '','' then map_option (\<lambda>(vs, r). (v # vs, r)) (parse_raw_elements d cs)
               else if c = CHR '']'' then Some ([v], cs)
               else None))"
| "parse_raw_members d s =
     (case skip_ws s of
        [] \<Rightarrow> None
      | q # qs \<Rightarrow>
          if q \<noteq> CHR 0x22 then None
          else (case scan_string qs of
             None \<Rightarrow> None
           | Some (b, rest) \<Rightarrow>
               (case skip_ws rest of
                  [] \<Rightarrow> None
                | c # cs \<Rightarrow>
                    if c \<noteq> CHR '':'' then None
                    else (case shrink cs (parse_raw_value d cs) of
                       None \<Rightarrow> None
                     | Some (v, rest2) \<Rightarrow>
                         (case skip_ws rest2 of
                            [] \<Rightarrow> None
                          | c2 # cs2 \<Rightarrow>
                              if c2 = CHR '','' then
                                map_option (\<lambda>(kvs, r). ((unquote b, v) # kvs, r)) (parse_raw_members d cs2)
                              else if c2 = CHR ''}'' then Some ([(unquote b, v)], cs2)
                              else None)))))"
  by pat_completeness auto

termination
  by (relation "measure (\<lambda>x. case x of Inl (d, s) \<Rightarrow> 2 * length s
       | Inr (Inl (d, s)) \<Rightarrow> 2 * length s + 1 | Inr (Inr (d, s)) \<Rightarrow> 2 * length s + 1)")
     (auto simp: shrink_Some dest!: skip_ws_Cons_length scan_string_length)

declare parse_raw_value.simps [simp del] parse_raw_elements.simps [simp del] parse_raw_members.simps [simp del]

definition json_parse_raw :: "string \<Rightarrow> raw" where
  "json_parse_raw s =
     (case parse_raw_value max_nesting s of
        None \<Rightarrow> None
      | Some (v, rest) \<Rightarrow> if skip_ws rest = [] then Some v else None)"

lemma shrink_map:
  "shrink s (map_option (\<lambda>p. (f (fst p), snd p)) x) = map_option (\<lambda>p. (f (fst p), snd p)) (shrink s x)"
  by (auto simp: shrink_def split: option.splits)

lemma strip_literal_map:
  "unescape v = v \<Longrightarrow> map_option (\<lambda>p. (unescape (fst p), snd p)) (strip_literal lit v s) = strip_literal lit v s"
  by (simp add: strip_literal_def)

lemma parse_raw_agrees:
  "parse_value d s = map_option (\<lambda>(v, r). (unescape v, r)) (parse_raw_value d s)"
  "parse_elements d s = map_option (\<lambda>(vs, r). (map unescape vs, r)) (parse_raw_elements d s)"
  "parse_members d s = map_option (\<lambda>(kvs, r). (map (\<lambda>(k, v). (k, unescape v)) kvs, r)) (parse_raw_members d s)"
proof (induction d s and d s and d s rule: parse_raw_value_parse_raw_elements_parse_raw_members.induct)
  case (1 d s)
  show ?case
  proof (cases "skip_ws s")
    case (Cons c cs)
    show ?thesis
    proof (cases "skip_ws cs")
      case Nil
      with Cons 1 show ?thesis
        by (subst parse_value.simps, subst parse_raw_value.simps)
          (simp add: option.map_comp comp_def split_def strip_literal_map)
    next
      case (Cons c2 cs2)
      with \<open>skip_ws s = c # cs\<close> 1 show ?thesis
        by (subst parse_value.simps, subst parse_raw_value.simps)
          (simp add: option.map_comp comp_def split_def strip_literal_map)
    qed
  qed (subst parse_value.simps, subst parse_raw_value.simps, simp)
next
  case (2 d s)
  then show ?case
    by (subst parse_elements.simps, subst parse_raw_elements.simps)
      (auto simp: shrink_map option.map_comp comp_def split_def split: option.splits list.splits intro!: map_option_cong)
next
  case (3 d s)
  then show ?case
    by (subst parse_members.simps, subst parse_raw_members.simps)
      (auto simp: shrink_map option.map_comp comp_def split_def split: option.splits list.splits intro!: map_option_cong)
qed

theorem json_parse_unescape: "json_parse s = map_option unescape (json_parse_raw s)"
  by (auto simp: json_parse_def json_parse_raw_def parse_raw_agrees(1) split: option.split)

text \<open>\<open>json.Unmarshal\<close> of a raw value into a string variable that is empty: null leaves it so.\<close>

definition decoded_string :: "raw \<Rightarrow> string option" where
  "decoded_string raw =
     (case raw of Some (JStr b) \<Rightarrow> Some (unquote b) | Some JNull \<Rightarrow> Some [] | _ \<Rightarrow> None)"

end
