(* ===== verification/Goplus.thy ===== *)
theory Goplus
  imports Json_Raw Explorer Net Gateway
begin

section \<open>GoPlus: the decoders\<close>

text \<open>
  \<open>upstream/goplus_response.go\<close>, and the decoders of \<open>goplus.go\<close>, \<open>goplus_solana.go\<close> and
  \<open>goplus_approvals.go\<close>. Every value below is a raw one: a string is the body of its literal. All
  errors of these decoders are reported alike, so they are \<open>None\<close>; where the caller distinguishes
  them, it is a message.
\<close>

record goplus_envelope =
  ge_code :: int
  ge_result :: raw

definition max_goplus_message_bytes :: nat where "max_goplus_message_bytes = 256"
definition max_goplus_authority_rows :: nat where "max_goplus_authority_rows = 100"
definition max_goplus_behavior_rows :: nat where "max_goplus_behavior_rows = 100"
definition max_goplus_behavior_length :: nat where "max_goplus_behavior_length = 96"
definition max_goplus_approval_rows :: nat where "max_goplus_approval_rows = 500"

text \<open>An unsigned integer literal; the text of an absent value is empty.\<close>

definition parse_exact_json_int64 :: "raw \<Rightarrow> int \<Rightarrow> int \<Rightarrow> int option" where
  "parse_exact_json_int64 raw minimum maximum =
     (case raw of
        Some (JNum lit) \<Rightarrow>
          if \<not> all_digits lit then None
          else (let v = int (nat_of_dec lit) in
                if 2 ^ 63 \<le> v \<or> v < minimum \<or> maximum < v then None else Some v)
      | _ \<Rightarrow> None)"

definition decode_goplus_envelope :: "raw \<Rightarrow> goplus_envelope option" where
  "decode_goplus_envelope data =
     do {
       obj \<leftarrow> decode_exact_json_object data [''code'', ''message'', ''result''];
       guard_opt (obj ''code'' \<noteq> None \<and> obj ''result'' \<noteq> None);
       code \<leftarrow> parse_exact_json_int64 (obj ''code'') 0 1000000;
       (if obj ''message'' = None then Some () else
          do { message \<leftarrow> decoded_string (obj ''message'');
               guard_opt (length message \<le> max_goplus_message_bytes) });
       Some \<lparr>ge_code = code, ge_result = obj ''result''\<rparr>
     }"

text \<open>\<open>decodeBoundGoPlusRecord\<close>: an error, no record, or the record of the requested identity.\<close>

definition decode_bound_goplus_record :: "raw \<Rightarrow> string \<Rightarrow> bool \<Rightarrow> json option option" where
  "decode_bound_goplus_record raw identity case_insensitive =
     do {
       obj \<leftarrow> decode_unique_json_object raw;
       (case object_keys raw of
          [] \<Rightarrow> Some None
        | [key] \<Rightarrow>
            if \<not> (if case_insensitive then equal_fold key identity else key = identity) then None
            else (case obj key of
                Some record \<Rightarrow> if record = JNull then Some None else Some (Some record)
              | None \<Rightarrow> Some None)
        | _ \<Rightarrow> None)
     }"

definition reject_consumed_field_aliases :: "raw \<Rightarrow> string list \<Rightarrow> bool" where
  "reject_consumed_field_aliases raw consumed \<longleftrightarrow>
     \<not> list_ex (\<lambda>k. list_ex (\<lambda>e. k \<noteq> e \<and> equal_fold k e) consumed) (object_keys raw)"

definition require_json_fields :: "(string \<rightharpoonup> json) \<Rightarrow> string list \<Rightarrow> bool" where
  "require_json_fields obj required \<longleftrightarrow> list_all (\<lambda>k. obj k \<noteq> None) required"

text \<open>The flag's text is one of \<open>0\<close>, \<open>"0"\<close>, \<open>1\<close>, \<open>"1"\<close>.\<close>

definition parse_binary_flag :: "raw \<Rightarrow> bool option" where
  "parse_binary_flag raw =
     (if raw = Some (JNum ''0'') \<or> raw = Some (JStr ''0'') then Some False
      else if raw = Some (JNum ''1'') \<or> raw = Some (JStr ''1'') then Some True
      else None)"

definition parse_optional_binary_flag :: "(string \<rightharpoonup> json) \<Rightarrow> string \<Rightarrow> (bool \<times> bool) option" where
  "parse_optional_binary_flag obj key =
     (if obj key = None then Some (False, False)
      else map_option (\<lambda>enabled. (True, enabled)) (parse_binary_flag (obj key)))"

definition decode_bounded_string :: "raw \<Rightarrow> nat \<Rightarrow> bool \<Rightarrow> string option" where
  "decode_bounded_string raw maximum nullable =
     (if nullable \<and> raw = Some JNull then Some []
      else (case decoded_string raw of
          Some s \<Rightarrow> if maximum < length s then None else Some s
        | None \<Rightarrow> None))"

fun malicious_behaviors :: "string list \<Rightarrow> json list \<Rightarrow> string list option" where
  "malicious_behaviors seen [] = Some (rev seen)"
| "malicious_behaviors seen (row # rows) =
     do {
       s \<leftarrow> decode_bounded_string (Some row) max_goplus_behavior_length False;
       let value = trim_space s;
       guard_opt (value \<noteq> [] \<and> value \<notin> set seen);
       malicious_behaviors (value # seen) rows
     }"

definition decode_malicious_behaviors :: "raw \<Rightarrow> string list option" where
  "decode_malicious_behaviors raw =
     do { rows \<leftarrow> decode_raw_json_array raw max_goplus_behavior_rows; malicious_behaviors [] rows }"

subsection \<open>Identities\<close>

definition goplus_chain_id_pattern :: "string \<Rightarrow> bool" where
  "goplus_chain_id_pattern s \<longleftrightarrow> all_digits s \<and> length s \<le> 20 \<and> hd s \<noteq> CHR ''0''"

definition base58_text :: "string \<Rightarrow> bool" where
  "base58_text s \<longleftrightarrow> list_all (\<lambda>c. c \<in> set b58_alphabet) s"

definition tron_contract_pattern :: "string \<Rightarrow> bool" where
  "tron_contract_pattern s \<longleftrightarrow> length s = 34 \<and> hd s = CHR ''T'' \<and> base58_text (tl s)"

definition solana_mint_pattern :: "string \<Rightarrow> bool" where
  "solana_mint_pattern s \<longleftrightarrow> 32 \<le> length s \<and> length s \<le> 44 \<and> base58_text s"

definition tx_hash_pattern :: "string \<Rightarrow> bool" where
  "tx_hash_pattern s \<longleftrightarrow> prefix ''0x'' s \<and> hex_text 64 (drop 2 s)"

definition validate_goplus_token_identity :: "string \<Rightarrow> string \<Rightarrow> bool" where
  "validate_goplus_token_identity chain_id contract \<longleftrightarrow>
     (if chain_id = ''tron'' then tron_contract_pattern contract
      else goplus_chain_id_pattern chain_id \<and> evm_address_re contract)"

definition validate_goplus_approval_identity :: "string \<Rightarrow> string \<Rightarrow> bool" where
  "validate_goplus_approval_identity chain_id address \<longleftrightarrow>
     goplus_chain_id_pattern chain_id \<and> evm_address_re address"

definition validate_solana_mint :: "string \<Rightarrow> bool" where
  "validate_solana_mint mint = solana_mint_pattern mint"

subsection \<open>Token risk\<close>

record token_threat =
  th_found :: bool
  th_unsafe :: bool
  th_category :: string

definition no_threat_data :: token_threat where
  "no_threat_data = \<lparr>th_found = False, th_unsafe = False, th_category = []\<rparr>"

definition parse_goplus_fake_token :: "raw \<Rightarrow> bool option" where
  "parse_goplus_fake_token raw =
     (if raw = None then Some False
      else do {
        obj \<leftarrow> decode_exact_json_object raw [''true_token_address'', ''value''];
        guard_opt (obj ''true_token_address'' \<noteq> None \<and> obj ''value'' \<noteq> None);
        decode_bounded_string (obj ''true_token_address'') 1024 False;
        parse_binary_flag (obj ''value'')
      })"

text \<open>The category, empty for none, and whether the record says enough to conclude anything.\<close>

definition explicit_token_threat_category :: "json \<Rightarrow> (string \<times> bool) option" where
  "explicit_token_threat_category record =
     do {
       obj \<leftarrow> decode_unique_json_object (Some record);
       guard_opt (reject_consumed_field_aliases (Some record)
         [''is_honeypot'', ''fake_token'', ''malicious_address'', ''gas_abuse'']);
       (honeypot_present, honeypot) \<leftarrow> parse_optional_binary_flag obj ''is_honeypot'';
       (_, malicious_address) \<leftarrow> parse_optional_binary_flag obj ''malicious_address'';
       (_, gas_abuse) \<leftarrow> parse_optional_binary_flag obj ''gas_abuse'';
       fake_token \<leftarrow> parse_goplus_fake_token (obj ''fake_token'');
       Some (if honeypot then (''honeypot'', True)
             else if fake_token then (''impersonation'', True)
             else if malicious_address \<or> gas_abuse then (''malicious'', True)
             else ([], honeypot_present))
     }"

subsection \<open>Solana authorities\<close>

definition parse_solana_authority :: "json \<Rightarrow> bool option" where
  "parse_solana_authority row =
     do {
       obj \<leftarrow> decode_exact_json_object (Some row) [''address'', ''malicious_address''];
       guard_opt (obj ''address'' \<noteq> None \<and> obj ''malicious_address'' \<noteq> None);
       address \<leftarrow> decode_bounded_string (obj ''address'') 44 False;
       guard_opt (validate_solana_mint address);
       parse_binary_flag (obj ''malicious_address'')
     }"

definition parse_solana_authority_array :: "raw \<Rightarrow> bool option" where
  "parse_solana_authority_array raw =
     do {
       rows \<leftarrow> decode_raw_json_array raw max_goplus_authority_rows;
       flags \<leftarrow> map_opt parse_solana_authority rows;
       Some (list_ex (\<lambda>b. b) flags)
     }"

definition parse_solana_capability :: "raw \<Rightarrow> string \<Rightarrow> bool option" where
  "parse_solana_capability raw authority_key =
     do {
       obj \<leftarrow> decode_exact_json_object raw [''status'', authority_key];
       guard_opt (obj ''status'' \<noteq> None \<and> obj authority_key \<noteq> None);
       parse_binary_flag (obj ''status'');
       parse_solana_authority_array (obj authority_key)
     }"

text \<open>A field's name, and the key of its authority list; \<open>None\<close> marks the fields that are a list.\<close>

definition solana_privileged_risk_fields :: "(string \<times> string option) list" where
  "solana_privileged_risk_fields =
     [(''creators'', None), (''metadata_mutable'', Some ''metadata_upgrade_authority''),
      (''mintable'', Some ''authority''), (''freezable'', Some ''authority''),
      (''closable'', Some ''authority''), (''transfer_fee_upgradable'', Some ''authority''),
      (''default_account_state_upgradable'', Some ''authority''),
      (''balance_mutable_authority'', Some ''authority''), (''transfer_hook'', None),
      (''transfer_hook_upgradable'', Some ''authority'')]"

definition solana_field_threat :: "(string \<rightharpoonup> json) \<Rightarrow> string \<times> string option \<Rightarrow> bool option" where
  "solana_field_threat obj f =
     do {
       guard_opt (obj (fst f) \<noteq> None \<and> obj (fst f) \<noteq> Some JNull);
       (case snd f of
          None \<Rightarrow> parse_solana_authority_array (obj (fst f))
        | Some authority_key \<Rightarrow> parse_solana_capability (obj (fst f)) authority_key)
     }"

definition explicit_solana_authority_threat :: "json \<Rightarrow> bool option" where
  "explicit_solana_authority_threat record =
     do {
       obj \<leftarrow> decode_unique_json_object (Some record);
       guard_opt (reject_consumed_field_aliases (Some record) (map fst solana_privileged_risk_fields));
       threats \<leftarrow> map_opt (solana_field_threat obj) solana_privileged_risk_fields;
       Some (list_ex (\<lambda>b. b) threats)
     }"

subsection \<open>From the body to the conclusion\<close>

text \<open>
  What the two risk clients share after a body was read; \<open>conclude\<close> reads the bound record.
\<close>

definition goplus_conclusion ::
  "string \<Rightarrow> string \<Rightarrow> bool \<Rightarrow> (json \<Rightarrow> token_threat option) \<Rightarrow> raw \<Rightarrow> go_error + token_threat" where
  "goplus_conclusion label identity case_insensitive conclude data =
     (let malformed = Inl (Unavailable label ''malformed or incomplete provider response'') in
      case decode_goplus_envelope data of
        None \<Rightarrow> malformed
      | Some e \<Rightarrow>
          if ge_code e = 2020 \<or> ge_code e = 2021 then
            (if ge_result e \<noteq> Some JNull then malformed else Inr no_threat_data)
          else if ge_code e \<noteq> 1 then malformed
          else
            (case decode_bound_goplus_record (ge_result e) identity case_insensitive of
               None \<Rightarrow> malformed
             | Some None \<Rightarrow> Inr no_threat_data
             | Some (Some record) \<Rightarrow>
                 (case conclude record of
                    None \<Rightarrow> Inl (Unavailable label ''malformed token risk record'')
                  | Some threat \<Rightarrow> Inr threat)))"

definition evm_threat :: "json \<Rightarrow> token_threat option" where
  "evm_threat record =
     map_option (\<lambda>(category, evaluated).
        if \<not> evaluated then no_threat_data
        else \<lparr>th_found = True, th_unsafe = (category \<noteq> []), th_category = category\<rparr>)
      (explicit_token_threat_category record)"

definition solana_threat :: "json \<Rightarrow> token_threat option" where
  "solana_threat record =
     map_option (\<lambda>b. \<lparr>th_found = True, th_unsafe = b, th_category = (if b then ''malicious'' else [])\<rparr>)
      (explicit_solana_authority_threat record)"

end
