(* ===== verification/Runes.thy ===== *)
theory Runes
  imports Json
begin

section \<open>Strings as runes\<close>

text \<open>
  Ranging over a Go string decodes UTF-8. The lemmas show that encoding code points and decoding
  them again is the identity, so a text filtered rune by rune contains only what was kept.
\<close>

text \<open>The code points of a string, an invalid byte counting as U+FFFD.\<close>

fun rune_value :: "nat list \<Rightarrow> nat" where
  "rune_value [b, c] = (b - 192) * 64 + (c - 128)"
| "rune_value [b, c, d] = ((b - 224) * 64 + (c - 128)) * 64 + (d - 128)"
| "rune_value [b, c, d, e] = (((b - 240) * 64 + (c - 128)) * 64 + (d - 128)) * 64 + (e - 128)"
| "rune_value bs = (case bs of b # _ \<Rightarrow> b | [] \<Rightarrow> 0)"

function runes :: "string \<Rightarrow> nat list" where
  "runes s =
     (case s of
        [] \<Rightarrow> []
      | c # cs \<Rightarrow>
          (let n = utf8_len s in
           if n = 0 then 65533 # runes cs else rune_value (map byte_of (take n s)) # runes (drop n s)))"
  by pat_completeness auto
termination
  by (relation "measure length") (auto simp: Let_def)

declare runes.simps [simp del]

definition scalar :: "nat \<Rightarrow> bool" where
  "scalar r \<longleftrightarrow> r < 1114112 \<and> \<not> (55296 \<le> r \<and> r \<le> 57343)"

lemma byte_of_char_of: "n < 256 \<Longrightarrow> byte_of (char_of n) = n"
  by (simp add: byte_of_def)

lemma runes_step:
  assumes "utf8_len s = n" "0 < n"
  shows "runes s = rune_value (map byte_of (take n s)) # runes (drop n s)"
proof -
  have "s \<noteq> []" using assms by (auto simp: utf8_len_def)
  then show ?thesis using assms by (subst runes.simps) (auto simp: Let_def split: list.split)
qed

lemma runes_encode:
  assumes "scalar r"
  shows "runes (utf8_encode r @ s) = r # runes s"
proof -
  consider (1) "r < 128" | (2) "128 \<le> r" "r < 2048" | (3) "2048 \<le> r" "r < 65536" | (4) "65536 \<le> r"
    by linarith
  then show ?thesis
  proof cases
    case 1
    then have e: "utf8_encode r = [char_of r]" by (simp add: utf8_encode_def)
    have "utf8_len (char_of r # s) = 1" using 1 by (simp add: utf8_len_def byte_of_char_of Let_def)
    from runes_step [OF this] show ?thesis using 1 by (simp add: e byte_of_char_of)
  next
    case 2
    define b c where bc: "b = 192 + r div 64" "c = 128 + r mod 64"
    have e: "utf8_encode r = [char_of b, char_of c]" using 2 by (simp add: utf8_encode_def bc)
    have r: "194 \<le> b" "b \<le> 223" "128 \<le> c" "c \<le> 191" using 2 by (auto simp: bc)
    then have "utf8_len (char_of b # char_of c # s) = 2"
      by (simp add: utf8_len_def byte_of_char_of Let_def)
    from runes_step [OF this] show ?thesis using r by (simp add: e byte_of_char_of) (simp add: bc)
  next
    case 3
    define b c d where bcd: "b = 224 + r div 4096" "c = 128 + r div 64 mod 64" "d = 128 + r mod 64"
    have e: "utf8_encode r = [char_of b, char_of c, char_of d]" using 3 by (simp add: utf8_encode_def bcd)
    have "c \<le> 159" if "b = 237"
    proof -
      have "r < 55296" using 3 assms that by (auto simp: bcd scalar_def)
      then have "r div 64 < 864" "r div 64 div 64 = 13" using that by (auto simp: bcd div_mult2_eq [symmetric])
      then show ?thesis using div_mult_mod_eq [of "r div 64" 64] by (simp add: bcd)
    qed
    then have r: "224 \<le> b" "b \<le> 239" "128 \<le> c" "c \<le> 191" "128 \<le> d" "d \<le> 191"
      "b = 224 \<longrightarrow> 160 \<le> c" "b = 237 \<longrightarrow> c \<le> 159"
      using 3 assms by (auto simp: bcd scalar_def)
    then have "utf8_len (char_of b # char_of c # char_of d # s) = 3"
      by (simp add: utf8_len_def byte_of_char_of Let_def)
    moreover have "((b - 224) * 64 + (c - 128)) * 64 + (d - 128) = r"
      using div_mult_mod_eq [of r 64] div_mult_mod_eq [of "r div 64" 64]
      by (simp add: bcd div_mult2_eq [of r 64 64, simplified])
    ultimately show ?thesis using r by (simp add: e byte_of_char_of runes_step)
  next
    case 4
    define b c d f where bcdf: "b = 240 + r div 262144" "c = 128 + r div 4096 mod 64"
      "d = 128 + r div 64 mod 64" "f = 128 + r mod 64"
    have e: "utf8_encode r = [char_of b, char_of c, char_of d, char_of f]"
      using 4 by (simp add: utf8_encode_def bcdf)
    have "c \<le> 143" if "b = 244"
    proof -
      have "r div 4096 < 272" "r div 4096 div 64 = 4"
        using assms that by (auto simp: bcdf scalar_def div_mult2_eq [symmetric])
      then show ?thesis using div_mult_mod_eq [of "r div 4096" 64] by (simp add: bcdf)
    qed
    then have r: "240 \<le> b" "b \<le> 244" "128 \<le> c" "c \<le> 191" "128 \<le> d" "d \<le> 191" "128 \<le> f" "f \<le> 191"
      "b = 240 \<longrightarrow> 144 \<le> c" "b = 244 \<longrightarrow> c \<le> 143"
      using 4 assms by (auto simp: bcdf scalar_def)
    then have "utf8_len (char_of b # char_of c # char_of d # char_of f # s) = 4"
      by (simp add: utf8_len_def byte_of_char_of Let_def)
    moreover have "(((b - 240) * 64 + (c - 128)) * 64 + (d - 128)) * 64 + (f - 128) = r"
      using div_mult_mod_eq [of r 64] div_mult_mod_eq [of "r div 64" 64] div_mult_mod_eq [of "r div 4096" 64]
      by (simp add: bcdf div_mult2_eq [of r 64 64, simplified] div_mult2_eq [of r 4096 64, simplified])
    ultimately show ?thesis using r by (simp add: e byte_of_char_of runes_step)
  qed
qed

lemma runes_Nil [simp]: "runes [] = []"
  by (subst runes.simps) simp

lemma runes_concat_encode: "list_all scalar rs \<Longrightarrow> runes (concat (map utf8_encode rs)) = rs"
  by (induction rs) (simp_all add: runes_encode)


text \<open>Decoding yields code points only.\<close>

lemma utf8_len_le: "utf8_len s \<le> 4"
  by (auto simp: utf8_len_def Let_def split: list.split)

lemma utf8_len_1: "utf8_len s = Suc 0 \<Longrightarrow> \<exists>c. map byte_of (take 1 s) = [c] \<and> c < 128"
  by (cases s) (auto simp: utf8_len_def Let_def split: if_splits)

lemma utf8_len_2:
  "utf8_len s = 2 \<Longrightarrow>
   \<exists>b c. map byte_of (take 2 s) = [b, c] \<and> 194 \<le> b \<and> b \<le> 223 \<and> 128 \<le> c \<and> c \<le> 191"
  by (cases s; cases "tl s") (auto simp: utf8_len_def Let_def split: if_splits)

lemma utf8_len_3:
  "utf8_len s = 3 \<Longrightarrow>
   \<exists>b c d. map byte_of (take 3 s) = [b, c, d] \<and> 224 \<le> b \<and> b \<le> 239 \<and> 128 \<le> c \<and> c \<le> 191 \<and>
     128 \<le> d \<and> d \<le> 191 \<and> (b = 224 \<longrightarrow> 160 \<le> c) \<and> (b = 237 \<longrightarrow> c \<le> 159)"
  by (cases s; cases "tl s"; cases "tl (tl s)") (simp_all add: utf8_len_def Let_def split: if_splits)

lemma utf8_len_4:
  "utf8_len s = 4 \<Longrightarrow>
   \<exists>b c d e. map byte_of (take 4 s) = [b, c, d, e] \<and> 240 \<le> b \<and> b \<le> 244 \<and> 128 \<le> c \<and> c \<le> 191 \<and>
     128 \<le> d \<and> d \<le> 191 \<and> 128 \<le> e \<and> e \<le> 191 \<and> (b = 240 \<longrightarrow> 144 \<le> c) \<and> (b = 244 \<longrightarrow> c \<le> 143)"
  by (cases s; cases "tl s"; cases "tl (tl s)"; cases "tl (tl (tl s))")
    (simp_all add: utf8_len_def Let_def split: if_splits)

lemma rune_value_scalar:
  assumes "0 < utf8_len s"
  shows "scalar (rune_value (map byte_of (take (utf8_len s) s)))"
proof -
  consider "utf8_len s = 1" | "utf8_len s = 2" | "utf8_len s = 3" | "utf8_len s = 4"
    using assms utf8_len_le [of s] by linarith
  then show ?thesis
  proof cases
    case 3
    then obtain b c d where r: "map byte_of (take 3 s) = [b, c, d]" "224 \<le> b" "b \<le> 239" "128 \<le> c" "c \<le> 191"
      "128 \<le> d" "d \<le> 191" "b = 237 \<longrightarrow> c \<le> 159" using utf8_len_3 [of s] by auto
    consider "b \<le> 236" | "b = 237" | "238 \<le> b" by linarith
    then show ?thesis using r 3 by cases (auto simp: scalar_def)
  qed (auto simp: scalar_def dest: utf8_len_1 utf8_len_2 utf8_len_4)
qed

lemma runes_scalar: "list_all scalar (runes s)"
proof (induction s rule: runes.induct)
  case (1 s)
  show ?case
  proof (cases s)
    case (Cons c cs)
    then show ?thesis
      using 1 rune_value_scalar [of s]
      by (subst runes.simps) (auto simp: Let_def scalar_def [of 65533])
  qed simp
qed

end
