(* ===== verification/Goplus_Client.thy ===== *)
theory Goplus_Client
  imports Goplus Runes
begin

section \<open>GoPlus: approvals and the clients\<close>

text \<open>
  The rest of \<open>goplus_approvals.go\<close>, and the three clients. URLs are parsed and rendered by
  \<open>net/url\<close>, which is a parameter: \<open>ue_parse\<close> is \<open>url.Parse\<close>, \<open>ue_with_query\<close> the text of a parsed
  endpoint after \<open>Query().Set(key, value)\<close>. The bearer token goes into a header, which requests of
  the model do not have; redirects are not followed, so an answer is the first one.
\<close>

subsection \<open>Display text\<close>

definition unsafe_display_rune :: "nat \<Rightarrow> bool" where
  "unsafe_display_rune r \<longleftrightarrow>
     (8203 \<le> r \<and> r \<le> 8207) \<or> (8234 \<le> r \<and> r \<le> 8238) \<or> (8288 \<le> r \<and> r \<le> 8297) \<or> r = 65279"

definition display_rune :: "nat \<Rightarrow> bool" where
  "display_rune r \<longleftrightarrow> \<not> (r < 32 \<or> r = 127 \<or> unsafe_display_rune r)"

text \<open>The loop stops when \<open>max_runes\<close>, which is positive, are kept.\<close>

definition bounded_display_text :: "string \<Rightarrow> nat \<Rightarrow> string" where
  "bounded_display_text s max_runes =
     concat (map utf8_encode (take max_runes (filter display_rune (runes (trim_space s)))))"

subsection \<open>Approvals\<close>

record token_approval =
  ap_token_address :: string
  ap_token_name :: string
  ap_token_symbol :: string
  ap_decimals :: int
  ap_balance :: string
  ap_token_risky :: bool
  ap_spender :: string
  ap_spender_name :: string
  ap_spender_tag :: string
  ap_spender_risky :: bool
  ap_spender_trusted :: bool
  ap_amount :: string
  ap_unlimited :: bool
  ap_approved_at :: int
  ap_transaction :: string

text \<open>\<open>decimalPattern\<close>: digits, a fraction, an exponent.\<close>

definition decimal_pattern :: "string \<Rightarrow> bool" where
  "decimal_pattern s =
     (let ip = takeWhile is_digit s; s1 = dropWhile is_digit s;
          (fraction_ok, s2) =
            (case s1 of
               c # cs \<Rightarrow> if c = CHR ''.'' then (takeWhile is_digit cs \<noteq> [], dropWhile is_digit cs) else (True, s1)
             | [] \<Rightarrow> (True, s1))
      in ip \<noteq> [] \<and> fraction_ok \<and>
         (case s2 of
            [] \<Rightarrow> True
          | e # es \<Rightarrow>
              (e = CHR ''e'' \<or> e = CHR ''E'') \<and>
              all_digits (case es of c # cs \<Rightarrow> if c = CHR ''+'' \<or> c = CHR ''-'' then cs else es | [] \<Rightarrow> [])))"

definition valid_provider_decimal :: "string \<Rightarrow> bool" where
  "valid_provider_decimal s =
     (let v = trim_space s in v \<noteq> [] \<and> length v \<le> 128 \<and> decimal_pattern v)"

record approval_address_info =
  ai_name :: string
  ai_tag :: string
  ai_risky :: bool
  ai_trusted :: bool

definition address_info_fields :: "string list" where
  "address_info_fields = [''contract_name'', ''tag'', ''creator_address'', ''is_contract'', ''doubt_list'',
     ''malicious_behavior'', ''deployed_time'', ''trust_list'', ''is_open_source'']"

definition parse_approval_address_info :: "raw \<Rightarrow> int \<Rightarrow> approval_address_info option" where
  "parse_approval_address_info raw max_evidence_time =
     do {
       obj \<leftarrow> decode_exact_json_object raw address_info_fields;
       guard_opt (require_json_fields obj address_info_fields);
       name \<leftarrow> decode_bounded_string (obj ''contract_name'') 512 True;
       tag \<leftarrow> decode_bounded_string (obj ''tag'') 512 True;
       creator \<leftarrow> decode_bounded_string (obj ''creator_address'') 42 True;
       guard_opt (creator = [] \<or> evm_address_re creator);
       parse_binary_flag (obj ''is_contract'');
       parse_binary_flag (obj ''is_open_source'');
       doubt \<leftarrow> parse_binary_flag (obj ''doubt_list'');
       trusted \<leftarrow> parse_binary_flag (obj ''trust_list'');
       malicious \<leftarrow> decode_malicious_behaviors (obj ''malicious_behavior'');
       guard_opt (obj ''deployed_time'' = Some JNull \<or>
         parse_exact_json_int64 (obj ''deployed_time'') 0 max_evidence_time \<noteq> None);
       Some \<lparr>ai_name = bounded_display_text name 80, ai_tag = bounded_display_text tag 80,
             ai_risky = (doubt \<or> malicious \<noteq> []), ai_trusted = trusted\<rparr>
     }"

definition approval_row_fields :: "string list" where
  "approval_row_fields = [''approved_contract'', ''approved_amount'', ''approved_time'',
     ''initial_approval_time'', ''initial_approval_hash'', ''hash'', ''address_info'']"

text \<open>The facts of the token are passed as a row whose own fields are still empty.\<close>

definition parse_approval_contract :: "json \<Rightarrow> token_approval \<Rightarrow> int \<Rightarrow> token_approval option" where
  "parse_approval_contract raw token max_evidence_time =
     do {
       obj \<leftarrow> decode_exact_json_object (Some raw) approval_row_fields;
       guard_opt (require_json_fields obj approval_row_fields);
       contract \<leftarrow> decode_bounded_string (obj ''approved_contract'') 42 False;
       guard_opt (evm_address_re contract);
       text \<leftarrow> decode_bounded_string (obj ''approved_amount'') 128 False;
       let amount = trim_space text;
       let unlimited = equal_fold amount ''Unlimited'';
       guard_opt (unlimited \<or> valid_provider_decimal amount);
       approved_at \<leftarrow> parse_exact_json_int64 (obj ''approved_time'') 0 max_evidence_time;
       initial_at \<leftarrow> parse_exact_json_int64 (obj ''initial_approval_time'') 0 max_evidence_time;
       guard_opt (\<not> (0 < approved_at \<and> approved_at < initial_at));
       transaction \<leftarrow> decode_bounded_string (obj ''hash'') 66 False;
       guard_opt (transaction = [] \<or> tx_hash_pattern transaction);
       initial_hash \<leftarrow> decode_bounded_string (obj ''initial_approval_hash'') 66 False;
       guard_opt (initial_hash = [] \<or> tx_hash_pattern initial_hash);
       info \<leftarrow> parse_approval_address_info (obj ''address_info'') max_evidence_time;
       Some (token\<lparr>ap_spender := to_lower contract, ap_spender_name := ai_name info,
             ap_spender_tag := ai_tag info, ap_spender_risky := ai_risky info,
             ap_spender_trusted := ai_trusted info, ap_amount := amount, ap_unlimited := unlimited,
             ap_approved_at := approved_at, ap_transaction := to_lower transaction\<rparr>)
     }"

definition approval_token_fields :: "string list" where
  "approval_token_fields = [''token_address'', ''chain_id'', ''token_name'', ''token_symbol'', ''decimals'',
     ''balance'', ''is_open_source'', ''malicious_address'', ''malicious_behavior'', ''approved_list'']"

definition parse_approval_token :: "json \<Rightarrow> string \<Rightarrow> int \<Rightarrow> token_approval list option" where
  "parse_approval_token raw expected_chain_id max_evidence_time =
     do {
       obj \<leftarrow> decode_exact_json_object (Some raw) approval_token_fields;
       guard_opt (require_json_fields obj approval_token_fields);
       token_address \<leftarrow> decode_bounded_string (obj ''token_address'') 42 False;
       guard_opt (evm_address_re token_address);
       chain_id \<leftarrow> decode_bounded_string (obj ''chain_id'') 20 False;
       guard_opt (chain_id = expected_chain_id);
       token_name \<leftarrow> decode_bounded_string (obj ''token_name'') 512 False;
       token_symbol \<leftarrow> decode_bounded_string (obj ''token_symbol'') 256 False;
       decimals \<leftarrow> parse_exact_json_int64 (obj ''decimals'') 0 36;
       balance \<leftarrow> decode_bounded_string (obj ''balance'') 128 False;
       guard_opt (valid_provider_decimal balance);
       parse_binary_flag (obj ''is_open_source'');
       malicious_address \<leftarrow> parse_binary_flag (obj ''malicious_address'');
       malicious \<leftarrow> decode_malicious_behaviors (obj ''malicious_behavior'');
       approved \<leftarrow> decode_raw_json_array (obj ''approved_list'') max_goplus_approval_rows;
       let token =
         \<lparr>ap_token_address = to_lower token_address, ap_token_name = bounded_display_text token_name 80,
          ap_token_symbol = bounded_display_text token_symbol 32, ap_decimals = decimals,
          ap_balance = trim_space balance, ap_token_risky = (malicious_address \<or> malicious \<noteq> []),
          ap_spender = [], ap_spender_name = [], ap_spender_tag = [], ap_spender_risky = False,
          ap_spender_trusted = False, ap_amount = [], ap_unlimited = False, ap_approved_at = 0,
          ap_transaction = []\<rparr>;
       map_opt (\<lambda>row. parse_approval_contract row token max_evidence_time) approved
     }"

definition approval_token_identity :: "json \<Rightarrow> string option" where
  "approval_token_identity raw =
     do {
       obj \<leftarrow> decode_unique_json_object (Some raw);
       address_raw \<leftarrow> obj ''token_address'';
       address \<leftarrow> decode_bounded_string (Some address_raw) 42 False;
       guard_opt (evm_address_re address);
       Some (to_lower address)
     }"

definition approval_key :: "token_approval \<Rightarrow> string" where
  "approval_key row = ap_token_address row @ ''|'' @ ap_spender row"

text \<open>The rows of one token, appended unless a token and spender repeat.\<close>

fun append_approvals :: "token_approval list \<Rightarrow> token_approval list \<Rightarrow> token_approval list option" where
  "append_approvals rows [] = Some rows"
| "append_approvals rows (row # rest) =
     (if approval_key row \<in> set (map approval_key rows) then None else append_approvals (rows @ [row]) rest)"

text \<open>The loop over the tokens: their identities so far, the rows so far; an error is its message.\<close>

fun collect_approvals ::
  "string \<Rightarrow> int \<Rightarrow> string list \<Rightarrow> token_approval list \<Rightarrow> json list \<Rightarrow> string + token_approval list" where
  "collect_approvals chain_id max_time seen rows [] = Inr rows"
| "collect_approvals chain_id max_time seen rows (token # tokens) =
     (case approval_token_identity token of
        None \<Rightarrow> Inl ''malformed approval record''
      | Some identity \<Rightarrow>
          if identity \<in> set seen then Inl ''duplicate approval token''
          else
            (case parse_approval_token token chain_id max_time of
               None \<Rightarrow> Inl ''malformed approval record''
             | Some parsed \<Rightarrow>
                 if max_goplus_approval_rows < length rows + length parsed
                 then Inl ''provider returned too many approvals''
                 else
                   (case append_approvals rows parsed of
                      None \<Rightarrow> Inl ''duplicate approval record''
                    | Some rows1 \<Rightarrow> collect_approvals chain_id max_time (identity # seen) rows1 tokens)))"

definition goplus_approvals_of :: "string \<Rightarrow> int \<Rightarrow> raw \<Rightarrow> go_error + token_approval list" where
  "goplus_approvals_of chain_id max_time data =
     (let malformed = Inl (Unavailable ''goplus-approvals'' ''malformed or incomplete provider response'') in
      case decode_goplus_envelope data of
        None \<Rightarrow> malformed
      | Some e \<Rightarrow>
          if ge_code e \<noteq> 1 then malformed
          else
            (case decode_raw_json_array (ge_result e) max_goplus_approval_rows of
               None \<Rightarrow> malformed
             | Some tokens \<Rightarrow>
                 (case collect_approvals chain_id max_time [] [] tokens of
                    Inl message \<Rightarrow> Inl (Unavailable ''goplus-approvals'' message)
                  | Inr rows \<Rightarrow> Inr rows)))"

subsection \<open>Endpoints\<close>

record parsed_url =
  pu_scheme :: string
  pu_host :: string
  pu_hostname :: string
  pu_user :: bool
  pu_raw_query :: string

record url_env =
  ue_parse :: "string \<Rightarrow> parsed_url option"
  ue_with_query :: "string \<Rightarrow> string \<Rightarrow> string \<Rightarrow> string"

definition is_loopback :: "ip \<Rightarrow> bool" where
  "is_loopback ip =
     (case to4 ip of Some v4 \<Rightarrow> hd v4 = 127 | None \<Rightarrow> ip = replicate 15 0 @ [1])"

definition validate_goplus_url :: "url_env \<Rightarrow> string \<Rightarrow> bool" where
  "validate_goplus_url ue raw =
     (let trimmed = trim_space raw in
      case ue_parse ue trimmed of
        None \<Rightarrow> False
      | Some u \<Rightarrow>
          if pu_host u = [] \<or> pu_scheme u = [] \<or> pu_user u then False
          else if CHR ''#'' \<in> set trimmed \<or> pu_raw_query u \<noteq> [] then False
          else
            (let scheme = to_lower (pu_scheme u); host = to_lower (pu_hostname u) in
             scheme = ''https'' \<or>
             scheme = ''http'' \<and>
               (host = ''localhost'' \<or>
                (case net_parse_ip host of Some ip \<Rightarrow> is_loopback ip | None \<Rightarrow> False))))"

record goplus_client =
  gp_base :: string
  gp_access_token :: string

definition new_goplus :: "string \<Rightarrow> string \<Rightarrow> goplus_client" where
  "new_goplus base token = \<lparr>gp_base = trim_right_slashes (trim_space base), gp_access_token = trim_space token\<rparr>"

definition new_goplus_solana :: "string \<Rightarrow> string \<Rightarrow> goplus_client" where
  "new_goplus_solana base token = \<lparr>gp_base = trim_space base, gp_access_token = trim_space token\<rparr>"

definition new_goplus_approvals :: "string \<Rightarrow> string \<Rightarrow> goplus_client" where
  "new_goplus_approvals base token =
     \<lparr>gp_base = trim_right_slashes (trim_space base), gp_access_token = trim_space token\<rparr>"

definition goplus_fetch :: "pool_env \<Rightarrow> string \<Rightarrow> string \<Rightarrow> string rest" where
  "goplus_fetch env label url w =
     (let (reply, w1) = exchange env (url, []) w in
      (case hr_outcome reply of
         RequestInvalid \<Rightarrow> Inl (Unavailable label ''could not create request'')
       | TransportFailed _ \<Rightarrow> Inl (Unavailable label ''request failed'')
       | Responded st bd \<Rightarrow>
           if st \<noteq> 200 then Inl (Unavailable label (''provider returned HTTP '' @ dec_of_int st))
           else
             (case bd of
                None \<Rightarrow> Inl (Unavailable label ''could not read provider response'')
              | Some body \<Rightarrow>
                  (case read_bounded_response body (2 * 2 ^ 20) of
                     None \<Rightarrow> Inl (Unavailable label ''provider response too large'')
                   | Some data \<Rightarrow> Inr data)), w1))"

text \<open>The second parse of an endpoint and its request, shared by the clients.\<close>

definition goplus_request ::
  "pool_env \<Rightarrow> url_env \<Rightarrow> string \<Rightarrow> string \<Rightarrow> string \<times> string \<Rightarrow> string rest" where
  "goplus_request env ue label endpoint query =
     (let invalid = rest_lift (Inl (Unavailable label ''invalid provider endpoint'')) in
      case ue_parse ue endpoint of
        None \<Rightarrow> invalid
      | Some u \<Rightarrow>
          if pu_scheme u = [] \<or> pu_host u = [] then invalid
          else goplus_fetch env label (ue_with_query ue endpoint (fst query) (snd query)))"

definition goplus_token_risk ::
  "pool_env \<Rightarrow> url_env \<Rightarrow> goplus_client \<Rightarrow> string \<Rightarrow> string \<Rightarrow> token_threat rest" where
  "goplus_token_risk env ue g chain_id contract =
     (if \<not> validate_goplus_url ue (gp_base g)
      then rest_lift (Inl (Unavailable ''goplus'' ''invalid provider endpoint''))
      else if \<not> validate_goplus_token_identity chain_id contract
      then rest_lift (Inl (Unavailable ''goplus'' ''invalid token identity''))
      else rest_bind
        (goplus_request env ue ''goplus'' (gp_base g @ ''/'' @ path_escape chain_id)
           (''contract_addresses'', contract))
        (\<lambda>data. rest_lift
           (goplus_conclusion ''goplus'' contract (chain_id \<noteq> ''tron'') evm_threat (json_parse_raw data))))"

definition goplus_solana_token_risk ::
  "pool_env \<Rightarrow> url_env \<Rightarrow> goplus_client \<Rightarrow> string \<Rightarrow> token_threat rest" where
  "goplus_solana_token_risk env ue g mint =
     (if \<not> validate_goplus_url ue (gp_base g)
      then rest_lift (Inl (Unavailable ''goplus-solana'' ''invalid provider endpoint''))
      else if \<not> validate_solana_mint mint
      then rest_lift (Inl (Unavailable ''goplus-solana'' ''invalid token identity''))
      else rest_bind (goplus_request env ue ''goplus-solana'' (gp_base g) (''contract_addresses'', mint))
        (\<lambda>data. rest_lift (goplus_conclusion ''goplus-solana'' mint False solana_threat (json_parse_raw data))))"

text \<open>\<open>time.Now()\<close> is read after the answer: evidence may be dated at most a day ahead.\<close>

definition max_evidence_time :: "instant \<Rightarrow> int" where
  "max_evidence_time now = (now + seconds (24 * 60 * 60)) div nanos_per_second"

definition goplus_token_approvals ::
  "pool_env \<Rightarrow> url_env \<Rightarrow> goplus_client \<Rightarrow> string \<Rightarrow> string \<Rightarrow> token_approval list rest" where
  "goplus_token_approvals env ue g chain_id address =
     (if \<not> validate_goplus_url ue (gp_base g)
      then rest_lift (Inl (Unavailable ''goplus-approvals'' ''invalid provider endpoint''))
      else if \<not> validate_goplus_approval_identity chain_id address
      then rest_lift (Inl (OtherError ''invalid EVM approval identity''))
      else rest_bind
        (goplus_request env ue ''goplus-approvals'' (gp_base g @ ''/'' @ path_escape chain_id)
           (''addresses'', to_lower address))
        (\<lambda>data w. (goplus_approvals_of chain_id (max_evidence_time (w_now w)) (json_parse_raw data), w)))"

end
