(* ===== verification/Goplus_Facts.thy ===== *)
theory Goplus_Facts
  imports Goplus_Client
begin

section \<open>What GoPlus answers may claim\<close>

subsection \<open>Display text\<close>

lemma bounded_display_text_safe:
  "list_all display_rune (runes (bounded_display_text s n))"
  "length (runes (bounded_display_text s n)) \<le> n"
proof -
  let ?rs = "take n (filter display_rune (runes (trim_space s)))"
  have "list_all scalar ?rs"
    using runes_scalar [of "trim_space s"] by (auto simp: list_all_iff dest: in_set_takeD)
  then have "runes (bounded_display_text s n) = ?rs"
    by (simp add: bounded_display_text_def runes_concat_encode)
  then show "list_all display_rune (runes (bounded_display_text s n))"
    "length (runes (bounded_display_text s n)) \<le> n"
    by (auto simp: list_all_iff dest: in_set_takeD)
qed

subsection \<open>Approvals\<close>

lemma append_approvals_Some:
  "append_approvals rows new = Some out \<Longrightarrow> distinct (map approval_key rows) \<Longrightarrow>
   out = rows @ new \<and> distinct (map approval_key out)"
proof (induction rows new rule: append_approvals.induct)
  case (2 rows row rest)
  then have new: "approval_key row \<notin> set (map approval_key rows)"
    and run: "append_approvals (rows @ [row]) rest = Some out" by (auto split: if_splits)
  have "distinct (map approval_key (rows @ [row]))" using new "2.prems"(2) by simp
  from "2.IH" [OF new run this] show ?case
    by (metis append.assoc append_Cons append_Nil)
qed simp

text \<open>The collected rows are the rows of all tokens, in order, no token and no pair twice.\<close>

lemma collect_approvals_Inr:
  assumes "collect_approvals chain_id max_time seen rows tokens = Inr out"
    "distinct (map approval_key rows)" "length rows \<le> max_goplus_approval_rows"
  shows "\<exists>parts. map_opt (\<lambda>t. parse_approval_token t chain_id max_time) tokens = Some parts \<and>
    out = rows @ concat parts \<and> distinct (map approval_key out) \<and> length out \<le> max_goplus_approval_rows"
  using assms
proof (induction chain_id max_time seen rows tokens rule: collect_approvals.induct)
  case (2 chain_id max_time seen rows token tokens)
  from "2.prems"(1) obtain identity parsed rows1 where s:
    "approval_token_identity token = Some identity" "identity \<notin> set seen"
    "parse_approval_token token chain_id max_time = Some parsed"
    "length rows + length parsed \<le> max_goplus_approval_rows" "append_approvals rows parsed = Some rows1"
    "collect_approvals chain_id max_time (identity # seen) rows1 tokens = Inr out"
    by (fastforce split: option.splits if_splits)
  from append_approvals_Some [OF s(5) "2.prems"(2)]
  have rows1: "rows1 = rows @ parsed" "distinct (map approval_key rows1)" by blast+
  with s "2.IH" [OF s(1,2,3) _ s(5,6) rows1(2)] show ?case by fastforce
qed simp

text \<open>What every row satisfies.\<close>

definition approval_ok :: "int \<Rightarrow> token_approval \<Rightarrow> bool" where
  "approval_ok max_time r \<longleftrightarrow>
     (\<exists>a. evm_address_re a \<and> ap_token_address r = to_lower a) \<and>
     (\<exists>a. evm_address_re a \<and> ap_spender r = to_lower a) \<and>
     0 \<le> ap_decimals r \<and> ap_decimals r \<le> 36 \<and> decimal_pattern (ap_balance r) \<and>
     (if ap_unlimited r then equal_fold (ap_amount r) ''Unlimited'' else valid_provider_decimal (ap_amount r)) \<and>
     0 \<le> ap_approved_at r \<and> ap_approved_at r \<le> max_time \<and>
     (\<forall>t \<in> {ap_token_name r, ap_token_symbol r, ap_spender_name r, ap_spender_tag r}.
        list_all display_rune (runes t) \<and> length (runes t) \<le> 80)"

lemma parse_exact_json_int64_range:
  "parse_exact_json_int64 raw lo hi = Some v \<Longrightarrow> lo \<le> v \<and> v \<le> hi"
  by (auto simp: parse_exact_json_int64_def Let_def split: option.splits json.splits if_splits)

lemma address_info_text:
  assumes "parse_approval_address_info raw m = Some info"
  shows "list_all display_rune (runes (ai_name info)) \<and> length (runes (ai_name info)) \<le> 80"
    "list_all display_rune (runes (ai_tag info)) \<and> length (runes (ai_tag info)) \<le> 80"
  using assms bounded_display_text_safe
  by (auto simp: parse_approval_address_info_def bind_eq_Some_conv)

lemma parse_approval_contract_ok:
  assumes "parse_approval_contract raw token m = Some r"
    "\<exists>a. evm_address_re a \<and> ap_token_address token = to_lower a"
    "0 \<le> ap_decimals token" "ap_decimals token \<le> 36" "decimal_pattern (ap_balance token)"
    "\<forall>t \<in> {ap_token_name token, ap_token_symbol token}.
       list_all display_rune (runes t) \<and> length (runes t) \<le> 80"
  shows "approval_ok m r"
proof -
  from assms(1) obtain contract amount since hash info raw_info raw_at where
    r: "r = token\<lparr>ap_spender := to_lower contract, ap_spender_name := ai_name info,
         ap_spender_tag := ai_tag info, ap_spender_risky := ai_risky info,
         ap_spender_trusted := ai_trusted info, ap_amount := amount,
         ap_unlimited := equal_fold amount ''Unlimited'', ap_approved_at := since, ap_transaction := hash\<rparr>"
      "evm_address_re contract" "equal_fold amount ''Unlimited'' \<or> valid_provider_decimal amount"
      "parse_exact_json_int64 raw_at 0 m = Some since" "parse_approval_address_info raw_info m = Some info"
    unfolding parse_approval_contract_def Let_def bind_eq_Some_conv guard_opt_Some option.inject
    by (elim exE conjE, intro that) (erule sym | assumption)+
  show ?thesis
    using assms(2-6) r(2,3) address_info_text [OF r(5)] parse_exact_json_int64_range [OF r(4)]
    unfolding approval_ok_def r(1) by (auto split: if_splits)
qed

lemma parse_approval_token_ok:
  assumes "parse_approval_token raw chain_id m = Some rows" "r \<in> set rows"
  shows "approval_ok m r"
proof -
  from assms(1) obtain token approved address balance name symbol where
    rows: "map_opt (\<lambda>row. parse_approval_contract row token m) approved = Some rows"
    and t: "evm_address_re address" "ap_token_address token = to_lower address"
      "0 \<le> ap_decimals token" "ap_decimals token \<le> 36" "valid_provider_decimal balance"
      "ap_balance token = trim_space balance" "ap_token_name token = bounded_display_text name 80"
      "ap_token_symbol token = bounded_display_text symbol 32"
    by (fastforce simp: parse_approval_token_def Let_def bind_eq_Some_conv
        dest: parse_exact_json_int64_range)
  from map_opt_set [OF rows assms(2)] obtain row where "parse_approval_contract row token m = Some r" by blast
  moreover have "length (runes (bounded_display_text symbol 32)) \<le> 80"
    using bounded_display_text_safe(2) [of symbol 32] by simp
  ultimately show ?thesis
    using t bounded_display_text_safe
    by (intro parse_approval_contract_ok) (auto simp: valid_provider_decimal_def Let_def)
qed

theorem goplus_approvals_complete:
  assumes "goplus_approvals_of chain_id m data = Inr rows"
  shows "\<exists>obj tokens parts. decode_exact_json_object data [''code'', ''message'', ''result''] = Some obj \<and>
    parse_exact_json_int64 (obj ''code'') 0 1000000 = Some 1 \<and> obj ''result'' = Some (JArr tokens) \<and>
    map_opt (\<lambda>t. parse_approval_token t chain_id m) tokens = Some parts \<and> rows = concat parts"
    "distinct (map approval_key rows)" "length rows \<le> max_goplus_approval_rows"
    "\<forall>r \<in> set rows. approval_ok m r"
proof -
  from assms obtain e tokens where e: "decode_goplus_envelope data = Some e" "ge_code e = 1"
    "decode_raw_json_array (ge_result e) max_goplus_approval_rows = Some tokens"
    and run: "collect_approvals chain_id m [] [] tokens = Inr rows"
    by (auto simp: goplus_approvals_of_def Let_def split: option.splits if_splits sum.splits)
  obtain parts where p: "map_opt (\<lambda>t. parse_approval_token t chain_id m) tokens = Some parts"
    "rows = concat parts" "distinct (map approval_key rows)" "length rows \<le> max_goplus_approval_rows"
    using collect_approvals_Inr [OF run] by auto
  have "ge_result e = Some (JArr tokens)"
    using e(3) by (auto simp: decode_raw_json_array_def split: option.splits json.splits if_splits)
  then show "\<exists>obj tokens parts. decode_exact_json_object data [''code'', ''message'', ''result''] = Some obj \<and>
    parse_exact_json_int64 (obj ''code'') 0 1000000 = Some 1 \<and> obj ''result'' = Some (JArr tokens) \<and>
    map_opt (\<lambda>t. parse_approval_token t chain_id m) tokens = Some parts \<and> rows = concat parts"
    using e p by (auto simp: decode_goplus_envelope_def bind_eq_Some_conv)
  show "distinct (map approval_key rows)" "length rows \<le> max_goplus_approval_rows" by (fact p)+
  show "\<forall>r \<in> set rows. approval_ok m r"
    using p parse_approval_token_ok map_opt_set [OF p(1)] by fastforce
qed

end
