(* ===== verification/Official_Tokens.thy ===== *)
theory Official_Tokens
  imports Runes "HOL-Library.Multiset" Goplus_Client History "HOL-Library.List_Lexorder" "HOL-Library.Char_ord"
begin

section \<open>The official token catalog\<close>

text \<open>
  \<open>handlers/official_tokens.go\<close>: validation of the operator's catalog, the index the other handlers
  look tokens up in, and the search. Upper and lower case of arbitrary letters, the classes of the
  symbol check and \<open>strconv.Quote\<close> depend on Go's Unicode tables, which are a parameter.
\<close>

record unicode_env =
  uc_upper :: "string \<Rightarrow> string"
  uc_lower :: "string \<Rightarrow> string"
  uc_is_upper :: "nat \<Rightarrow> bool"
  uc_is_digit :: "nat \<Rightarrow> bool"
  uc_quote :: "string \<Rightarrow> string"

record official_token =
  ot_network :: string
  ot_symbol :: string
  ot_name :: string
  ot_contract :: string
  ot_decimals :: int
  ot_popular :: bool
  ot_verified :: bool

datatype registry_error =
    NotAnArray
  | UndecodableFile
  | UnsupportedNetwork string
  | InvalidSymbol
  | InvalidName
  | InvalidContract
  | InvalidTronContract
  | InvalidSolanaMint
  | InvalidDecimals
  | UnsupportedCategory string
  | DuplicateIdentity

definition default_token_search_limit :: int where "default_token_search_limit = 50"
definition max_token_search_limit :: int where "max_token_search_limit = 100"
definition max_token_search_query_runes :: nat where "max_token_search_query_runes = 128"
definition max_official_token_name_runes :: nat where "max_official_token_name_runes = 80"

definition base58_token_address_re :: "string \<Rightarrow> bool" where
  "base58_token_address_re s \<longleftrightarrow> s \<noteq> [] \<and> base58_text s"

definition chain_is_evm :: "string \<Rightarrow> bool" where
  "chain_is_evm chain = (case chains chain of Some m \<Rightarrow> cm_evm m | None \<Rightarrow> False)"

subsection \<open>Safe text\<close>

function utf8_valid :: "string \<Rightarrow> bool" where
  "utf8_valid s =
     (if s = [] then True
      else if utf8_len s = 0 then False
      else utf8_valid (drop (utf8_len s) s))"
  by pat_completeness auto
termination by (relation "measure length") auto

declare utf8_valid.simps [simp del]

definition is_control :: "nat \<Rightarrow> bool" where
  "is_control r \<longleftrightarrow> r < 32 \<or> 127 \<le> r \<and> r < 160"

definition safe_display_rune :: "nat \<Rightarrow> bool" where
  "safe_display_rune r \<longleftrightarrow>
     \<not> (is_control r \<or> 8203 \<le> r \<and> r \<le> 8207 \<or> 8234 \<le> r \<and> r \<le> 8238 \<or> 8288 \<le> r \<and> r \<le> 8297 \<or> r = 65279)"

definition is_safe_bounded_display_text :: "string \<Rightarrow> nat \<Rightarrow> bool \<Rightarrow> bool" where
  "is_safe_bounded_display_text s max_runes allow_empty =
     (if \<not> utf8_valid s \<or> max_runes < length (runes s) then False
      else if s = [] then allow_empty
      else list_all safe_display_rune (runes s))"

subsection \<open>Validation\<close>

text \<open>The checks on a contract or mint that the two registries share, on trimmed text.\<close>

definition registry_contract ::
  "(byte list \<Rightarrow> byte list) \<Rightarrow> network_meta \<Rightarrow> string \<Rightarrow> registry_error option" where
  "registry_contract sha meta contract =
     (if validate_address sha (nm_chain meta) contract \<noteq> None then Some InvalidContract
      else if nm_chain meta = ''tron'' \<and>
        (length contract \<noteq> 34 \<or> \<not> prefix ''T'' contract \<or> \<not> base58_token_address_re contract)
      then Some InvalidTronContract
      else if nm_chain meta = ''solana'' \<and>
        (length contract < 32 \<or> 44 < length contract \<or> \<not> base58_token_address_re contract)
      then Some InvalidSolanaMint
      else None)"

definition symbol_rune :: "unicode_env \<Rightarrow> nat \<Rightarrow> bool" where
  "symbol_rune uc r \<longleftrightarrow> uc_is_upper uc r \<or> uc_is_digit uc r \<or> r = 46 \<or> r = 45 \<or> r = 95"

text \<open>One entry without the check for duplicates.\<close>

definition normalize_official_token ::
  "unicode_env \<Rightarrow> (byte list \<Rightarrow> byte list) \<Rightarrow> official_token \<Rightarrow> registry_error + official_token" where
  "normalize_official_token uc sha token =
     (let network = trim_space (ot_network token); symbol = uc_upper uc (trim_space (ot_symbol token));
          name = trim_space (ot_name token); contract = trim_space (ot_contract token) in
      case networks network of
        None \<Rightarrow> Inl (UnsupportedNetwork network)
      | Some meta \<Rightarrow>
          if symbol = [] \<or> 12 < length symbol then Inl InvalidSymbol
          else if \<not> list_all (symbol_rune uc) (runes symbol) then Inl InvalidSymbol
          else if \<not> is_safe_bounded_display_text name max_official_token_name_runes False then Inl InvalidName
          else
            (case registry_contract sha meta contract of
               Some e \<Rightarrow> Inl e
             | None \<Rightarrow>
                 if ot_decimals token < 0 \<or> 36 < ot_decimals token then Inl InvalidDecimals
                 else Inr \<lparr>ot_network = network, ot_symbol = symbol, ot_name = name,
                   ot_contract = (if chain_is_evm (nm_chain meta) then to_lower contract else contract),
                   ot_decimals = ot_decimals token, ot_popular = ot_popular token, ot_verified = True\<rparr>))"

definition official_identity :: "official_token \<Rightarrow> string" where
  "official_identity t = ot_network t @ ''|'' @ ot_contract t"

fun add_official_tokens ::
  "unicode_env \<Rightarrow> (byte list \<Rightarrow> byte list) \<Rightarrow> official_token list \<Rightarrow> official_token list
     \<Rightarrow> registry_error + official_token list" where
  "add_official_tokens uc sha out [] = Inr out"
| "add_official_tokens uc sha out (token # tokens) =
     (case normalize_official_token uc sha token of
        Inl e \<Rightarrow> Inl e
      | Inr t \<Rightarrow>
          if official_identity t \<in> set (map official_identity out) then Inl DuplicateIdentity
          else add_official_tokens uc sha (out @ [t]) tokens)"

text \<open>\<open>None\<close> is the nil slice.\<close>

definition normalize_official_tokens ::
  "unicode_env \<Rightarrow> (byte list \<Rightarrow> byte list) \<Rightarrow> official_token list option
     \<Rightarrow> registry_error + official_token list" where
  "normalize_official_tokens uc sha tokens =
     (case tokens of None \<Rightarrow> Inl NotAnArray | Some ts \<Rightarrow> add_official_tokens uc sha [] ts)"

definition official_token_config_type :: gtype where
  "official_token_config_type =
     GStruct [field ''network'' GString, field ''symbol'' GString, field ''name'' GString,
              field ''contract'' GString, field ''decimals'' GInt, field ''popular'' GBool]"

definition bool_field :: "gval \<Rightarrow> string \<Rightarrow> bool" where
  "bool_field v k = (get_field v k = Some (VBool True))"

definition official_token_of :: "gval \<Rightarrow> official_token" where
  "official_token_of v =
     \<lparr>ot_network = str_field v ''network'', ot_symbol = str_field v ''symbol'', ot_name = str_field v ''name'',
      ot_contract = str_field v ''contract'', ot_decimals = int_field v ''decimals'',
      ot_popular = bool_field v ''popular'', ot_verified = False\<rparr>"

text \<open>
  The content of the file as it was read. The loop appends to a slice that starts as nil, so no
  entry leaves it nil.
\<close>

definition load_official_tokens_file ::
  "unicode_env \<Rightarrow> (byte list \<Rightarrow> byte list) \<Rightarrow> string \<Rightarrow> registry_error + official_token list" where
  "load_official_tokens_file uc sha content =
     (case decode_strict_json (GSlice official_token_config_type) (json_parse content) of
        None \<Rightarrow> Inl UndecodableFile
      | Some v \<Rightarrow>
          (let configs = (case v of VSlice vs \<Rightarrow> map official_token_of vs | _ \<Rightarrow> []) in
           normalize_official_tokens uc sha (if configs = [] then None else Some configs)))"

text \<open>\<open>officialTokenIndex\<close>: network, then contract; a later entry replaces an earlier one.\<close>

fun official_token_index :: "official_token list \<Rightarrow> (string \<Rightarrow> token_registry) \<Rightarrow> string \<Rightarrow> token_registry" where
  "official_token_index [] index = index"
| "official_token_index (t # ts) index =
     official_token_index ts
       (index(ot_network t := (index (ot_network t))
          (ot_contract t \<mapsto> \<lparr>tm_symbol = ot_symbol t, tm_decimals = ot_decimals t\<rparr>)))"

text \<open>The built-in catalog, before validation.\<close>

definition default_official_tokens :: "official_token list" where
  "default_official_tokens =
     (let token = (\<lambda>network symbol name contract decimals popular.
            \<lparr>ot_network = network, ot_symbol = symbol, ot_name = name, ot_contract = contract,
             ot_decimals = decimals, ot_popular = popular, ot_verified = False\<rparr>) in
     [token ''eth-mainnet'' ''USDT'' ''Tether USD''
        ''0xdac17f958d2ee523a2206206994597c13d831ec7'' 6 True,
      token ''eth-mainnet'' ''USDC'' ''USD Coin''
        ''0xa0b86991c6218b36c1d19d4a2e9eb0ce3606eb48'' 6 True,
      token ''eth-mainnet'' ''BUSD'' ''Binance USD''
        ''0x4fabb145d64652a948d72533023f6e7a623c7c53'' 18 False,
      token ''eth-mainnet'' ''DAI'' ''Dai Stablecoin''
        ''0x6b175474e89094c44da98b954eedeac495271d0f'' 18 True,
      token ''eth-mainnet'' ''WETH'' ''Wrapped Ether''
        ''0xc02aaa39b223fe8d0a0e5c4f27ead9083c756cc2'' 18 True,
      token ''eth-mainnet'' ''WBTC'' ''Wrapped BTC''
        ''0x2260fac5e5542a773aa44fbcfedf7c193bc2c599'' 8 True,
      token ''eth-mainnet'' ''LINK'' ''Chainlink''
        ''0x514910771af9ca656af840dff83e8264ecf986ca'' 18 True,
      token ''eth-mainnet'' ''UNI'' ''Uniswap''
        ''0x1f9840a85d5af5bf1d1762f925bdaddc4201f984'' 18 True,
      token ''eth-mainnet'' ''SHIB'' ''Shiba Inu''
        ''0x95ad61b0a150d79219dcf64e1e6cc01f0b64c4ce'' 18 True,
      token ''eth-mainnet'' ''PEPE'' ''Pepe''
        ''0x6982508145454ce325ddbe47a25d4ec3d2311933'' 18 True,
      token ''eth-mainnet'' ''PYUSD'' ''PayPal USD''
        ''0x6c3ea9036406852006290770bedfcaba0e23a0e8'' 6 True,
      token ''eth-sepolia'' ''USDT'' ''Test Tether USD''
        ''0xc4dcc311c028e341fd8602d8eb89c5de94625927'' 6 False,
      token ''polygon-mainnet'' ''USDC'' ''USD Coin''
        ''0x3c499c542cef5e3811e1192ce70d8cc03d5c3359'' 6 True,
      token ''polygon-mainnet'' ''USDT'' ''Tether USD''
        ''0xc2132d05d31c914a87c6611c10748aeb04b58e8f'' 6 True,
      token ''polygon-amoy'' ''USDC'' ''Test USD Coin''
        ''0x41e94eb019c0762f9bfcf9fb1e58725bfb0e7582'' 6 False,
      token ''base-mainnet'' ''USDC'' ''USD Coin''
        ''0x833589fcd6edb6e08f4c7c32d4f71b54bda02913'' 6 True,
      token ''base-mainnet'' ''USDT'' ''Tether USD''
        ''0xfde4c96c8593536e31f229ea8f37b2ada2699bb2'' 6 True,
      token ''base-sepolia'' ''USDC'' ''Test USD Coin''
        ''0x036cbd53842c5426634e7929541ec2318f3dcf7e'' 6 False,
      token ''arbitrum-mainnet'' ''USDC'' ''USD Coin''
        ''0xaf88d065e77c8cc2239327c5edb3a432268e5831'' 6 True,
      token ''arbitrum-mainnet'' ''USDT'' ''Tether USD''
        ''0xfd086bc7cd5c481dcc9c85ebe478a1c0b69fcbb9'' 6 True,
      token ''arbitrum-sepolia'' ''USDC'' ''Test USD Coin''
        ''0x75faf114eafb1bdbe2f0316df893fd58ce46aa4d'' 6 False,
      token ''avalanche-mainnet'' ''USDC'' ''USD Coin''
        ''0xb97ef9ef8734c71904d8002f8b6bc66dd9c48a6e'' 6 True,
      token ''avalanche-mainnet'' ''USDT'' ''Tether USD''
        ''0x9702230a8ea53601f5cd2dc00fdbc13d4df4a8c7'' 6 True,
      token ''avalanche-fuji'' ''USDC'' ''Test USD Coin''
        ''0x5425890298aed601595a70ab815c96711a31bc65'' 6 False,
      token ''bnb-mainnet'' ''BUSD'' ''Binance-Peg BUSD''
        ''0xe9e7cea3dedca5984780bafc599bd69add087d56'' 18 True,
      token ''bnb-testnet'' ''BUSD'' ''Test Binance USD''
        ''0xed24fc36d5ee211ea25a80239fb8c4cfd80f12ee'' 18 False,
      token ''tron-mainnet'' ''USDT'' ''Tether USD''
        ''TR7NHqjeKQxGTCi8q8ZY4pL8otSzgjLj6t'' 6 True,
      token ''tron-nile'' ''USDT'' ''Test Tether USD''
        ''TXYZopYRdj2D9XRtbG411XZZ3kM5VkAeBf'' 6 False,
      token ''sol-mainnet'' ''USDC'' ''USD Coin''
        ''EPjFWdd5AufqSSqeM2qN1xzybapC8G4wEGGkZwyTDt1v'' 6 True,
      token ''sol-mainnet'' ''USDT'' ''Tether USD''
        ''Es9vMFrzaCERmJfrF4H2FYD4KCoNkY11McCe8BenwNYB'' 6 True,
      token ''sol-mainnet'' ''JUP'' ''Jupiter''
        ''JUPyiwrYJFskUPiHa7hkeR8VUtAeFoSYbKedZNsDvCN'' 6 True,
      token ''sol-mainnet'' ''BONK'' ''Bonk''
        ''DezXAZ8z7PnrnRJjz3wXBoRgixCa6xjnB7YaB1pPB263'' 5 True,
      token ''sol-mainnet'' ''PYUSD'' ''PayPal USD''
        ''2b1kV6DkPAnxd5ixfnxCpjxmKwqjjaYmCZfHsFu24GXo'' 6 True,
      token ''sol-devnet'' ''USDC'' ''Test USD Coin''
        ''4zMMC9srt5Ri5X14GAgXhaHii3GnPAEERYPJgZJDncDU'' 6 False,
      token ''sol-devnet'' ''PYUSD'' ''Test PayPal USD''
        ''CXk2AMBfi3TwaEL2468s6zP8xq9NxTXjp9gjMgzeUynM'' 6 False])"

subsection \<open>Search\<close>

definition token_search_rank :: "unicode_env \<Rightarrow> official_token \<Rightarrow> string \<Rightarrow> int" where
  "token_search_rank uc token query =
     (if query = [] then (if ot_popular token then 0 else 1)
      else
        let folded = uc_lower uc query; symbol = uc_lower uc (ot_symbol token);
            name = uc_lower uc (ot_name token);
            evm = (case networks (ot_network token) of Some m \<Rightarrow> chain_is_evm (nm_chain m) | None \<Rightarrow> False);
            contract = (if evm then uc_lower uc (ot_contract token) else ot_contract token);
            contract_query = (if evm then folded else query)
        in if contract_query = contract then 0
           else if folded = symbol then 1
           else if prefix folded symbol \<or> prefix folded name then 2
           else if str_contains symbol folded \<or> str_contains name folded \<or> str_contains contract contract_query
           then 3 else - 1)"

text \<open>The order of the results is the comparison the code passes to \<open>sort.SliceStable\<close>.\<close>

datatype search_key = SearchKey (sk_rank: int) (sk_popular: bool) (sk_symbol: string) (sk_network: string)

instantiation search_key :: linorder
begin

definition less_search_key :: "search_key \<Rightarrow> search_key \<Rightarrow> bool" where
  "less_search_key a b =
     (if sk_rank a \<noteq> sk_rank b then sk_rank a < sk_rank b
      else if sk_popular a \<noteq> sk_popular b then sk_popular a
      else if sk_symbol a \<noteq> sk_symbol b then sk_symbol a < sk_symbol b
      else sk_network a < sk_network b)"

definition less_eq_search_key :: "search_key \<Rightarrow> search_key \<Rightarrow> bool" where
  "less_eq_search_key a b = (a < b \<or> a = b)"

instance
proof
  fix a b c :: search_key
  show irrefl: "(a < b) = (a \<le> b \<and> \<not> b \<le> a)"
    by (cases a; cases b) (auto simp: less_eq_search_key_def less_search_key_def)
  show "a \<le> a" by (simp add: less_eq_search_key_def)
  show "a \<le> b \<Longrightarrow> b \<le> c \<Longrightarrow> a \<le> c"
    by (cases a; cases b; cases c) (auto simp: less_eq_search_key_def less_search_key_def split: if_splits)
  show "a \<le> b \<Longrightarrow> b \<le> a \<Longrightarrow> a = b"
    by (cases a; cases b) (auto simp: less_eq_search_key_def less_search_key_def split: if_splits)
  show "a \<le> b \<or> b \<le> a"
    by (cases a; cases b) (auto simp: less_eq_search_key_def less_search_key_def)
qed

end

definition search_key_of :: "unicode_env \<Rightarrow> string \<Rightarrow> official_token \<Rightarrow> search_key" where
  "search_key_of uc query t =
     SearchKey (token_search_rank uc t query) (ot_popular t) (ot_symbol t) (ot_network t)"

text \<open>The tokens that pass the filter and match.\<close>

definition search_matches ::
  "unicode_env \<Rightarrow> string list \<Rightarrow> string \<Rightarrow> official_token list \<Rightarrow> official_token list" where
  "search_matches uc network_filter query tokens =
     filter (\<lambda>t. (network_filter = [] \<or> ot_network t \<in> set network_filter) \<and>
       0 \<le> token_search_rank uc t query) tokens"

definition ranked_tokens ::
  "unicode_env \<Rightarrow> string list \<Rightarrow> string \<Rightarrow> int \<Rightarrow> official_token list \<Rightarrow> official_token list" where
  "ranked_tokens uc network_filter query limit tokens =
     take (nat limit) (sort_key (search_key_of uc query) (search_matches uc network_filter query tokens))"

definition search_params_type :: gtype where
  "search_params_type =
     GStruct [field ''query'' GString, field ''networks'' (GSlice GString), field ''limit'' (GPtr GInt)]"

definition search_limit :: "int option \<Rightarrow> rpc_error + int" where
  \<open>search_limit given =
     (case given of
        None \<Rightarrow> Inr default_token_search_limit
      | Some l \<Rightarrow>
          if l \<le> 0 \<or> max_token_search_limit < l
          then Inl (invalid_params (''"limit" must be between 1 and '' @ dec_of_int max_token_search_limit))
          else Inr l)\<close>

fun network_filter :: "unicode_env \<Rightarrow> string list \<Rightarrow> string list \<Rightarrow> rpc_error + string list" where
  "network_filter uc seen [] = Inr seen"
| \<open>network_filter uc seen (network # rest) =
     (if networks network = None
      then Inl (invalid_params (''unknown "networks" value '' @ uc_quote uc network))
      else if network \<in> set seen
      then Inl (invalid_params (''duplicate "networks" value '' @ uc_quote uc network))
      else network_filter uc (seen @ [network]) rest)\<close>

definition string_items :: "gval \<Rightarrow> string \<Rightarrow> string list" where
  "string_items v k = map (\<lambda>x. case x of VString s \<Rightarrow> s | _ \<Rightarrow> []) (slice_field v k)"

text \<open>The limit, the networks and the query of a search; absent parameters are the defaults.\<close>

definition checked_search :: "unicode_env \<Rightarrow> raw \<Rightarrow> rpc_error + int \<times> string list \<times> string" where
  \<open>checked_search uc params =
     bind_sum
       (case params of
          None \<Rightarrow> Inr (gzero search_params_type)
        | Some _ \<Rightarrow> or_error (decode_strict_json search_params_type params)
            (invalid_params ''invalid params: expected {"query"?, "networks"?, "limit"?}''))
       (\<lambda>p. bind_sum (search_limit (ptr_int_field p ''limit''))
          (\<lambda>limit. bind_sum (network_filter uc [] (string_items p ''networks''))
             (\<lambda>nets.
                let query = trim_space (str_field p ''query'') in
                if \<not> is_safe_bounded_display_text query max_token_search_query_runes True
                then Inl (invalid_params
                  (''"query" must be at most '' @ dec_of_nat max_token_search_query_runes @ '' visible characters''))
                else Inr (limit, nets, query))))\<close>

definition official_token_json :: "official_token \<Rightarrow> json" where
  "official_token_json t =
     JObj ([(''network'', JStr (ot_network t)), (''symbol'', JStr (ot_symbol t)), (''name'', JStr (ot_name t)),
       (''contract'', JStr (ot_contract t)), (''decimals'', JNum (dec_of_int (ot_decimals t)))] @
      (if ot_popular t then [(''popular'', JBool True)] else []) @ [(''verified'', JBool (ot_verified t))])"

definition search_official_tokens ::
  "unicode_env \<Rightarrow> official_token list \<Rightarrow> raw \<Rightarrow> rpc_error + official_token list" where
  "search_official_tokens uc tokens params =
     bind_sum (checked_search uc params)
       (\<lambda>(limit, nets, query). Inr (ranked_tokens uc nets query limit tokens))"

definition search_result_json :: "official_token list \<Rightarrow> json" where
  "search_result_json ts = JObj [(''tokens'', JArr (map official_token_json ts))]"

subsection \<open>What the catalog guarantees\<close>

definition official_ok :: "(byte list \<Rightarrow> byte list) \<Rightarrow> official_token \<Rightarrow> bool" where
  "official_ok sha t \<longleftrightarrow> ot_verified t \<and> 0 \<le> ot_decimals t \<and> ot_decimals t \<le> 36 \<and>
     ot_symbol t \<noteq> [] \<and> length (ot_symbol t) \<le> 12 \<and> ot_name t \<noteq> [] \<and>
     length (runes (ot_name t)) \<le> 80 \<and> list_all safe_display_rune (runes (ot_name t)) \<and>
     (\<exists>meta contract. networks (ot_network t) = Some meta \<and>
        validate_address sha (nm_chain meta) contract = None \<and>
        ot_contract t = (if chain_is_evm (nm_chain meta) then to_lower contract else contract))"

lemma normalize_official_token_ok:
  "normalize_official_token uc sha token = Inr t \<Longrightarrow> official_ok sha t"
  by (auto simp: normalize_official_token_def official_ok_def registry_contract_def Let_def
      is_safe_bounded_display_text_def max_official_token_name_runes_def
      split: option.splits if_splits)

lemma add_official_tokens_Inr:
  "add_official_tokens uc sha out es = Inr res \<Longrightarrow> distinct (map official_identity out) \<Longrightarrow>
   list_all (official_ok sha) out \<Longrightarrow>
   distinct (map official_identity res) \<and> list_all (official_ok sha) res \<and>
   length res = length out + length es \<and>
   (\<forall>e \<in> set es. \<exists>t \<in> set res. normalize_official_token uc sha e = Inr t) \<and> set out \<subseteq> set res"
proof (induction uc sha out es rule: add_official_tokens.induct)
  case (2 uc sha out token tokens)
  from "2.prems"(1) obtain t where t: "normalize_official_token uc sha token = Inr t"
    "official_identity t \<notin> set (map official_identity out)"
    "add_official_tokens uc sha (out @ [t]) tokens = Inr res"
    by (auto split: sum.splits if_splits)
  from "2.IH" [OF t] "2.prems"(2,3) t(1,2) normalize_official_token_ok [OF t(1)] show ?case by auto
qed simp

lemma accepted_catalog:
  assumes "normalize_official_tokens uc sha tokens = Inr res"
  shows "distinct (map official_identity res)" "list_all (official_ok sha) res"
    "\<forall>es. tokens = Some es \<longrightarrow> length res = length es \<and>
      (\<forall>e \<in> set es. \<exists>t \<in> set res. normalize_official_token uc sha e = Inr t)"
  using assms
  by (auto simp: normalize_official_tokens_def split: option.splits dest!: add_official_tokens_Inr)

lemma official_token_index_lookup:
  "distinct (map official_identity ts) \<Longrightarrow>
   official_token_index ts index n c =
     (case filter (\<lambda>t. ot_network t = n \<and> ot_contract t = c) ts of
        [] \<Rightarrow> index n c
      | t # _ \<Rightarrow> Some \<lparr>tm_symbol = ot_symbol t, tm_decimals = ot_decimals t\<rparr>)"
proof (induction ts arbitrary: index)
  case (Cons t ts)
  show ?case
  proof (cases "ot_network t = n \<and> ot_contract t = c")
    case True
    then have "filter (\<lambda>t. ot_network t = n \<and> ot_contract t = c) ts = []"
      using Cons.prems by (fastforce simp: filter_empty_conv official_identity_def image_iff)
    with True Cons show ?thesis by simp
  next
    case False
    with Cons show ?thesis by (auto split: list.splits)
  qed
qed simp

text \<open>The index knows exactly the identities of the catalog.\<close>

lemma official_index_iff:
  assumes "distinct (map official_identity ts)"
  shows "official_token_index ts (\<lambda>n. Map.empty) n c = Some m \<longleftrightarrow>
    (\<exists>t \<in> set ts. ot_network t = n \<and> ot_contract t = c \<and> m = \<lparr>tm_symbol = ot_symbol t, tm_decimals = ot_decimals t\<rparr>)"
proof -
  have one: "t = t'" if "t \<in> set ts" "t' \<in> set ts" "ot_network t = ot_network t'" "ot_contract t = ot_contract t'"
    for t t' using assms that by (metis distinct_map inj_onD official_identity_def)
  show ?thesis
  proof (cases "filter (\<lambda>t. ot_network t = n \<and> ot_contract t = c) ts")
    case Nil
    then show ?thesis by (auto simp: official_token_index_lookup [OF assms] filter_empty_conv)
  next
    case (Cons t rest)
    then have "t \<in> set (filter (\<lambda>t. ot_network t = n \<and> ot_contract t = c) ts)" by simp
    then have t: "t \<in> set ts" "ot_network t = n" "ot_contract t = c" by auto
    with Cons one [OF _ t(1)] show ?thesis
      by (fastforce simp: official_token_index_lookup [OF assms])
  qed
qed

text \<open>A search returns the best matches: everything left out comes after everything returned.\<close>

lemma ranked_tokens_best:
  fixes uc query
  defines "key \<equiv> search_key_of uc query"
  shows "\<exists>rest. mset (search_matches uc nets query tokens) =
      mset (ranked_tokens uc nets query limit tokens) + mset rest \<and>
    sorted (map key (ranked_tokens uc nets query limit tokens)) \<and>
    (\<forall>a \<in> set (ranked_tokens uc nets query limit tokens). \<forall>b \<in> set rest. key a \<le> key b) \<and>
    (rest \<noteq> [] \<longrightarrow> length (ranked_tokens uc nets query limit tokens) = nat limit)"
proof -
  let ?all = "sort_key key (search_matches uc nets query tokens)"
  have s: "sorted (map key (take (nat limit) ?all @ drop (nat limit) ?all))" by simp
  have "mset ?all = mset (take (nat limit) ?all) + mset (drop (nat limit) ?all)"
    by (metis append_take_drop_id mset_append)
  then have m: "mset (search_matches uc nets query tokens) = mset (take (nat limit) ?all) + mset (drop (nat limit) ?all)"
    by simp
  show ?thesis
    unfolding ranked_tokens_def key_def [symmetric]
    using m s [unfolded map_append sorted_append] by (intro exI [of _ "drop (nat limit) ?all"]) auto
qed

text \<open>The file of an empty catalog is refused, although it is a JSON array.\<close>

lemma empty_catalog_file_refused: "load_official_tokens_file uc sha ''[]'' = Inl NotAnArray"
proof -
  have "decode_strict_json (GSlice official_token_config_type) (json_parse ''[]'') = Some (VSlice [])" by code_simp
  then show ?thesis by (simp add: load_official_tokens_file_def normalize_official_tokens_def)
qed

lemma default_catalog_distinct: "distinct (map official_identity default_official_tokens)"
  by code_simp

end
