(* ===== verification/Token_Security.thy ===== *)
theory Token_Security
  imports Goplus_Facts Cache Provider_Circuit Official_Tokens
begin

section \<open>kt_checkTokenRisk and kt_getEvmTokenApprovals\<close>

text \<open>
  \<open>handlers/token_risk.go\<close> and \<open>handlers/token_approvals.go\<close>. The state is the two local caches,
  the three provider circuits and the counters; the configuration says which providers exist and
  holds the operator's registries. \<open>time.Now\<close> and the circuits' clock are the clock of the world.
\<close>

subsection \<open>The operator's risk registry\<close>

record token_risk =
  tr_network :: string
  tr_contract :: string
  tr_category :: string

definition allowed_token_risk_categories :: "string list" where
  "allowed_token_risk_categories =
     [''malicious'', ''phishing'', ''spam'', ''impersonation'', ''honeypot'', ''suspicious'']"

definition normalize_token_risk ::
  "(byte list \<Rightarrow> byte list) \<Rightarrow> token_risk \<Rightarrow> registry_error + token_risk" where
  "normalize_token_risk sha entry =
     (let network = trim_space (tr_network entry); contract = trim_space (tr_contract entry);
          category = to_lower (trim_space (tr_category entry)) in
      case networks network of
        None \<Rightarrow> Inl (UnsupportedNetwork network)
      | Some meta \<Rightarrow>
          (case registry_contract sha meta contract of
             Some e \<Rightarrow> Inl e
           | None \<Rightarrow>
               if category \<notin> set allowed_token_risk_categories then Inl (UnsupportedCategory category)
               else Inr \<lparr>tr_network = network,
                 tr_contract = (if chain_is_evm (nm_chain meta) then to_lower contract else contract),
                 tr_category = category\<rparr>))"

definition token_identity_key :: "string \<Rightarrow> string \<Rightarrow> string" where
  "token_identity_key network contract =
     network @ ''|'' @
     (case networks network of
        Some meta \<Rightarrow> if chain_is_evm (nm_chain meta) then to_lower contract else contract
      | None \<Rightarrow> contract)"

text \<open>\<open>normalizeTokenRisks\<close>: the loop; \<open>acc\<close> is the map built so far.\<close>

fun add_token_risks ::
  "(byte list \<Rightarrow> byte list) \<Rightarrow> (string \<rightharpoonup> token_risk) \<Rightarrow> token_risk list
     \<Rightarrow> registry_error + (string \<rightharpoonup> token_risk)" where
  "add_token_risks sha acc [] = Inr acc"
| "add_token_risks sha acc (entry # entries) =
     (case normalize_token_risk sha entry of
        Inl e \<Rightarrow> Inl e
      | Inr n \<Rightarrow>
          (let key = token_identity_key (tr_network n) (tr_contract n) in
           if acc key \<noteq> None then Inl DuplicateIdentity
           else add_token_risks sha (acc(key \<mapsto> n)) entries))"

text \<open>\<open>None\<close> is the nil slice.\<close>

definition normalize_token_risks ::
  "(byte list \<Rightarrow> byte list) \<Rightarrow> token_risk list option \<Rightarrow> registry_error + (string \<rightharpoonup> token_risk)" where
  "normalize_token_risks sha entries =
     (case entries of None \<Rightarrow> Inl NotAnArray | Some es \<Rightarrow> add_token_risks sha Map.empty es)"

definition token_risk_type :: gtype where
  "token_risk_type = string_struct [''network'', ''contract'', ''category'']"

definition token_risk_of :: "gval \<Rightarrow> token_risk" where
  "token_risk_of v = \<lparr>tr_network = str_field v ''network'', tr_contract = str_field v ''contract'',
     tr_category = str_field v ''category''\<rparr>"

text \<open>The file's content as it was read; an unreadable file is the caller's error.\<close>

definition load_token_risks_file ::
  "(byte list \<Rightarrow> byte list) \<Rightarrow> string \<Rightarrow> registry_error + token_risk list" where
  "load_token_risks_file sha content =
     (case decode_strict_json (GSlice token_risk_type) (json_parse content) of
        None \<Rightarrow> Inl UndecodableFile
      | Some v \<Rightarrow>
          (let entries = (case v of VSlice vs \<Rightarrow> Some (map token_risk_of vs) | _ \<Rightarrow> None) in
           bind_sum (normalize_token_risks sha entries)
             (\<lambda>_. Inr (map (\<lambda>e. case normalize_token_risk sha e of Inr n \<Rightarrow> n | Inl _ \<Rightarrow> e)
                (case entries of Some es \<Rightarrow> es | None \<Rightarrow> [])))))"

subsection \<open>State and configuration\<close>

record token_config =
  tk_env :: gateway_env
  tk_urls :: url_env
  tk_official :: "string \<Rightarrow> token_registry"
  tk_risks :: "string \<rightharpoonup> token_risk"
  tk_registry_ok :: bool
  tk_goplus :: "goplus_client option"
  tk_goplus_solana :: "goplus_client option"
  tk_goplus_approvals :: "goplus_client option"

record token_risk_metrics =
  rm_lookups :: "64 word"
  rm_unsafe :: "64 word"
  rm_unknown :: "64 word"
  rm_errors :: "64 word"
  rm_cache_hits :: "64 word"

record token_approval_metrics =
  am_lookups :: "64 word"
  am_errors :: "64 word"
  am_cache_hits :: "64 word"
  am_rows :: "64 word"
  am_risky_rows :: "64 word"

record token_state =
  ts_risk_cache :: "token_threat cache"
  ts_approvals_cache :: "token_approval list cache"
  ts_goplus_circuit :: provider_circuit
  ts_solana_circuit :: provider_circuit
  ts_approvals_circuit :: provider_circuit
  ts_risk_metrics :: token_risk_metrics
  ts_approval_metrics :: token_approval_metrics

type_synonym 'a token_handler = "token_state \<Rightarrow> world \<Rightarrow> (rpc_error + 'a) \<times> token_state \<times> world"

abbreviation tk_net :: "token_config \<Rightarrow> pool_env" where "tk_net c \<equiv> ge_net (tk_env c)"
abbreviation tk_sha :: "token_config \<Rightarrow> byte list \<Rightarrow> byte list" where "tk_sha c \<equiv> ge_sha (tk_env c)"

definition token_risk_ttl :: duration where "token_risk_ttl = minutes 5"
definition token_approvals_ttl :: duration where "token_approvals_ttl = seconds 30"

definition new_token_state :: token_state where
  "new_token_state =
     \<lparr>ts_risk_cache = new_cache token_risk_ttl, ts_approvals_cache = new_cache token_approvals_ttl,
      ts_goplus_circuit = new_provider_circuit, ts_solana_circuit = new_provider_circuit,
      ts_approvals_circuit = new_provider_circuit,
      ts_risk_metrics = \<lparr>rm_lookups = 0, rm_unsafe = 0, rm_unknown = 0, rm_errors = 0, rm_cache_hits = 0\<rparr>,
      ts_approval_metrics = \<lparr>am_lookups = 0, am_errors = 0, am_cache_hits = 0, am_rows = 0, am_risky_rows = 0\<rparr>\<rparr>"

text \<open>\<open>Get\<close> and \<open>Set\<close> of a cache that has no shared store.\<close>

definition plain_get :: "instant \<Rightarrow> string \<Rightarrow> 'v cache \<Rightarrow> 'v cache \<times> 'v option" where
  "plain_get now key c = get_local now key c"

definition plain_set :: "instant \<Rightarrow> string \<Rightarrow> 'v \<Rightarrow> 'v cache \<Rightarrow> 'v cache" where
  "plain_set now key v c = set_local now key v (now + ch_ttl c) c"

text \<open>The error of a circuit that does not admit the call.\<close>

definition provider_circuit_open :: "string \<Rightarrow> rpc_error" where
  "provider_circuit_open provider = upstream_error provider (Unavailable provider ''provider circuit open'')"

text \<open>
  One admitted call: the permit, the call, the verdict for the circuit. \<open>ctx.Err()\<close> is read right
  after the call. The result is \<open>None\<close> when the circuit refused it.
\<close>

definition with_circuit ::
  "pool_env \<Rightarrow> 'a rest \<Rightarrow> provider_circuit \<Rightarrow> world
     \<Rightarrow> (go_error + 'a) option \<times> provider_circuit \<times> world" where
  "with_circuit env lookup circuit w =
     (case circuit_allow (w_now w) circuit of
        (c1, None) \<Rightarrow> (None, c1, w)
      | (c1, Some permit) \<Rightarrow>
          (let (r, w1) = lookup w in
           (Some r,
            circuit_finish (w_now w1) permit
              (case r of Inl _ \<Rightarrow> False | Inr _ \<Rightarrow> True, \<not> context_done env w w1) c1,
            w1)))"

subsection \<open>Token risk\<close>

definition goplus_chain_ids :: "string \<rightharpoonup> string" where
  "goplus_chain_ids = map_of
     [(''eth-mainnet'', ''1''), (''polygon-mainnet'', ''137''), (''base-mainnet'', ''8453''),
      (''arbitrum-mainnet'', ''42161''), (''avalanche-mainnet'', ''43114''), (''bnb-mainnet'', ''56''),
      (''tron-mainnet'', ''tron'')]"

definition token_risk_result :: "string \<Rightarrow> string \<Rightarrow> string \<Rightarrow> string \<Rightarrow> string \<Rightarrow> json" where
  "token_risk_result network contract status source category =
     JObj ((if category \<noteq> [] then [(''category'', JStr category)] else []) @
       [(''contract'', JStr contract), (''network'', JStr network), (''source'', JStr source),
        (''status'', JStr status)])"

definition external_token_risk_result :: "string \<Rightarrow> string \<Rightarrow> token_threat \<Rightarrow> bool \<Rightarrow> json" where
  "external_token_risk_result network contract threat official =
     (if th_unsafe threat then token_risk_result network contract ''unsafe'' ''goplus'' (th_category threat)
      else if official \<and> th_found threat
      then token_risk_result network contract ''safe'' ''official_catalog+goplus'' []
      else token_risk_result network contract ''unknown'' ''goplus'' [])"

text \<open>Which circuit a provider has in the state.\<close>

definition risk_circuit :: "bool \<Rightarrow> token_state \<Rightarrow> provider_circuit" where
  "risk_circuit solana st = (if solana then ts_solana_circuit st else ts_goplus_circuit st)"

definition set_risk_circuit :: "bool \<Rightarrow> provider_circuit \<Rightarrow> token_state \<Rightarrow> token_state" where
  "set_risk_circuit solana c st =
     (if solana then st\<lparr>ts_solana_circuit := c\<rparr> else st\<lparr>ts_goplus_circuit := c\<rparr>)"

definition count_risk :: "(token_risk_metrics \<Rightarrow> token_risk_metrics) \<Rightarrow> token_state \<Rightarrow> token_state" where
  "count_risk f st = st\<lparr>ts_risk_metrics := f (ts_risk_metrics st)\<rparr>"

definition lookup_external_token_risk ::
  "pool_env \<Rightarrow> string \<Rightarrow> string \<Rightarrow> bool \<Rightarrow> string \<Rightarrow> bool \<Rightarrow> token_threat rest \<Rightarrow> json token_handler" where
  "lookup_external_token_risk env network contract official provider solana lookup st w =
     (let key = token_identity_key network contract;
          (ch, hit) = plain_get (w_now w) key (ts_risk_cache st);
          st1 = st\<lparr>ts_risk_cache := ch\<rparr>
      in case hit of
           Some threat \<Rightarrow>
             (Inr (external_token_risk_result network contract threat official),
              count_risk (rm_cache_hits_update (\<lambda>n. n + 1)) st1, w)
         | None \<Rightarrow>
             (case with_circuit env lookup (risk_circuit solana st1) w of
                (None, c, w1) \<Rightarrow> (Inl (provider_circuit_open provider), set_risk_circuit solana c st1, w1)
              | (Some r, c, w1) \<Rightarrow>
                  (let st2 = count_risk (rm_lookups_update (\<lambda>n. n + 1)) (set_risk_circuit solana c st1) in
                   case r of
                     Inl e \<Rightarrow>
                       (Inl (upstream_error provider e), count_risk (rm_errors_update (\<lambda>n. n + 1)) st2, w1)
                   | Inr threat \<Rightarrow>
                       (Inr (external_token_risk_result network contract threat official),
                        count_risk
                          (if th_unsafe threat then rm_unsafe_update (\<lambda>n. n + 1)
                           else rm_unknown_update (\<lambda>n. n + 1))
                          (st2\<lparr>ts_risk_cache := plain_set (w_now w1) key threat (ts_risk_cache st2)\<rparr>),
                        w1))))"

text \<open>The parameter checks: the network and the contract in canonical form.\<close>

definition checked_token_risk :: "token_config \<Rightarrow> raw \<Rightarrow> rpc_error + string \<times> string" where
  \<open>checked_token_risk c params =
     bind_sum (decode_params [''chain'', ''network'', ''contract'']
         ''invalid params: expected {"chain", "network"?, "contract"}'' params)
       (\<lambda>p. bind_sum (resolve_network (str_field p ''chain'') (str_field p ''network''))
          (\<lambda>network.
             case normalize_token_risk (tk_sha c) \<lparr>tr_network = network,
               tr_contract = str_field p ''contract'', tr_category = ''suspicious''\<rparr> of
               Inl _ \<Rightarrow> Inl (invalid_params (''invalid params: "contract" is not valid for '' @ network))
             | Inr entry \<Rightarrow> Inr (network, tr_contract entry)))\<close>

definition official_token :: "token_config \<Rightarrow> string \<Rightarrow> string \<Rightarrow> bool" where
  "official_token c network contract \<longleftrightarrow> tk_official c network contract \<noteq> None"

text \<open>Who is asked about a network: the Solana client, the EVM and TRON client, or nobody.\<close>

definition risk_provider :: "token_config \<Rightarrow> string \<Rightarrow> string \<Rightarrow> (string \<times> bool \<times> token_threat rest) option" where
  "risk_provider c network contract =
     (case (if network = ''sol-mainnet'' then tk_goplus_solana c else None) of
        Some g \<Rightarrow> Some (''goplus-solana'', True, goplus_solana_token_risk (tk_net c) (tk_urls c) g contract)
      | None \<Rightarrow>
          (case (tk_goplus c, goplus_chain_ids network) of
             (Some g, Some chain_id) \<Rightarrow>
               Some (''goplus'', False, goplus_token_risk (tk_net c) (tk_urls c) g chain_id contract)
           | _ \<Rightarrow> None))"

definition check_token_risk :: "token_config \<Rightarrow> raw \<Rightarrow> json token_handler" where
  "check_token_risk c params st w =
     (case checked_token_risk c params of
        Inl e \<Rightarrow> (Inl e, st, w)
      | Inr (network, contract) \<Rightarrow>
          if \<not> tk_registry_ok c then
            (Inl (upstream_error ''operator_registry''
               (Unavailable ''operator_registry'' ''invalid operator risk registry'')), st, w)
          else
            (case tk_risks c (token_identity_key network contract) of
               Some risk \<Rightarrow>
                 (Inr (token_risk_result network contract ''unsafe'' ''operator_registry'' (tr_category risk)), st, w)
             | None \<Rightarrow>
                 (case risk_provider c network contract of
                    Some (provider, solana, lookup) \<Rightarrow>
                      lookup_external_token_risk (tk_net c) network contract (official_token c network contract)
                        provider solana lookup st w
                  | None \<Rightarrow>
                      (if official_token c network contract
                       then Inr (token_risk_result network contract ''safe'' ''official_catalog'' [])
                       else Inr (token_risk_result network contract ''unknown'' ''operator_registry'' []),
                       st, w))))"

subsection \<open>Token approvals\<close>

definition goplus_approval_chain_ids :: "string \<rightharpoonup> string" where
  "goplus_approval_chain_ids = map_of
     [(''eth-mainnet'', ''1''), (''polygon-mainnet'', ''137''), (''base-mainnet'', ''8453''),
      (''arbitrum-mainnet'', ''42161''), (''bnb-mainnet'', ''56'')]"

definition risky_approval :: "token_approval \<Rightarrow> bool" where
  "risky_approval row \<longleftrightarrow> ap_token_risky row \<or> ap_spender_risky row"

definition approval_json :: "token_approval \<Rightarrow> json" where
  "approval_json row =
     JObj [(''amount'', JStr (ap_amount row)), (''approvedAt'', JNum (dec_of_int (ap_approved_at row))),
       (''balance'', JStr (ap_balance row)), (''decimals'', JNum (dec_of_int (ap_decimals row))),
       (''risk'', JStr (if risky_approval row then ''unsafe'' else ''unknown'')),
       (''spender'', JStr (ap_spender row)), (''spenderName'', JStr (ap_spender_name row)),
       (''spenderTag'', JStr (ap_spender_tag row)), (''spenderTrusted'', JBool (ap_spender_trusted row)),
       (''tokenAddress'', JStr (ap_token_address row)), (''tokenName'', JStr (ap_token_name row)),
       (''tokenSymbol'', JStr (ap_token_symbol row)), (''transaction'', JStr (ap_transaction row)),
       (''unlimited'', JBool (ap_unlimited row))]"

definition token_approvals_result :: "string \<Rightarrow> token_approval list \<Rightarrow> json" where
  "token_approvals_result network rows =
     JObj [(''approvals'', JArr (map approval_json rows)), (''network'', JStr network),
       (''source'', JStr ''goplus''), (''status'', JStr ''ok'')]"

definition approval_cache_key :: "(byte list \<Rightarrow> byte list) \<Rightarrow> string \<Rightarrow> string \<Rightarrow> string" where
  "approval_cache_key sha network address =
     hex_encode (sha (map of_char (network @ ''|'' @ to_lower address)))"

definition approvals_params_type :: gtype where
  "approvals_params_type =
     GStruct [field ''chain'' GString, field ''network'' GString, field ''address'' GString,
              field ''privacyConsent'' GBool]"

text \<open>The checks up to the consent and the support for the network: network, chain id, address.\<close>

definition checked_token_approvals ::
  "token_config \<Rightarrow> raw \<Rightarrow> rpc_error + (string \<times> string \<times> string \<times> goplus_client)" where
  \<open>checked_token_approvals c params =
     bind_sum (or_error (decode_strict_json approvals_params_type params)
         (invalid_params ''invalid params: expected {"chain", "network"?, "address", "privacyConsent":true}''))
       (\<lambda>p. let address = str_field p ''address''; chain = str_field p ''chain'' in
        bind_sum (checked_evm_network [] chain (str_field p ''network''))
          (\<lambda>network.
             if validate_address (tk_sha c) chain address \<noteq> None
             then Inl (invalid_params ''invalid params: "address" must be a 0x-prefixed 20-byte hex address'')
             else if \<not> bool_field p ''privacyConsent''
             then Inl (invalid_params ''invalid params: "privacyConsent" must be true'')
             else (case (goplus_approval_chain_ids network, tk_goplus_approvals c) of
                 (Some chain_id, Some g) \<Rightarrow> Inr (network, chain_id, address, g)
               | _ \<Rightarrow> Inl (rpc_errorf CodeUnsupported (''token approvals are unsupported for '' @ network)))))\<close>

definition count_approvals ::
  "(token_approval_metrics \<Rightarrow> token_approval_metrics) \<Rightarrow> token_state \<Rightarrow> token_state" where
  "count_approvals f st = st\<lparr>ts_approval_metrics := f (ts_approval_metrics st)\<rparr>"

definition get_evm_token_approvals :: "token_config \<Rightarrow> raw \<Rightarrow> json token_handler" where
  "get_evm_token_approvals c params st w =
     (case checked_token_approvals c params of
        Inl e \<Rightarrow> (Inl e, st, w)
      | Inr (network, chain_id, address, g) \<Rightarrow>
          (let key = approval_cache_key (tk_sha c) network address;
               (ch, hit) = plain_get (w_now w) key (ts_approvals_cache st);
               st1 = st\<lparr>ts_approvals_cache := ch\<rparr>
           in case hit of
                Some rows \<Rightarrow>
                  (Inr (token_approvals_result network rows),
                   count_approvals (am_cache_hits_update (\<lambda>n. n + 1)) st1, w)
              | None \<Rightarrow>
                  (case with_circuit (tk_net c)
                      (goplus_token_approvals (tk_net c) (tk_urls c) g chain_id address)
                      (ts_approvals_circuit st1) w of
                     (None, ci, w1) \<Rightarrow>
                       (Inl (provider_circuit_open ''goplus-approvals''), st1\<lparr>ts_approvals_circuit := ci\<rparr>, w1)
                   | (Some r, ci, w1) \<Rightarrow>
                       (let st2 = count_approvals (am_lookups_update (\<lambda>n. n + 1))
                              (st1\<lparr>ts_approvals_circuit := ci\<rparr>) in
                        case r of
                          Inl e \<Rightarrow>
                            (Inl (upstream_error ''goplus-approvals'' e),
                             count_approvals (am_errors_update (\<lambda>n. n + 1)) st2, w1)
                        | Inr rows \<Rightarrow>
                            (Inr (token_approvals_result network rows),
                             count_approvals
                               (\<lambda>m. m\<lparr>am_rows := am_rows m + of_nat (length rows),
                                      am_risky_rows := am_risky_rows m +
                                        of_nat (length (filter risky_approval rows))\<rparr>)
                               (st2\<lparr>ts_approvals_cache :=
                                  plain_set (w_now w1) key rows (ts_approvals_cache st2)\<rparr>),
                             w1)))))"

end
