(* ===== verification/Token_Facts.thy ===== *)
theory Token_Facts
  imports Token_Security Cached_Answers
begin

section \<open>What a risk verdict rests on\<close>

subsection \<open>The operator's registry\<close>

lemma add_token_risks_Inr:
  "add_token_risks sha acc es = Inr m \<Longrightarrow>
   \<exists>ns. map_opt (\<lambda>e. case normalize_token_risk sha e of Inr n \<Rightarrow> Some n | Inl _ \<Rightarrow> None) es = Some ns \<and>
     distinct (map (\<lambda>n. token_identity_key (tr_network n) (tr_contract n)) ns) \<and>
     m = acc ++ map_of (map (\<lambda>n. (token_identity_key (tr_network n) (tr_contract n), n)) ns) \<and>
     (\<forall>n \<in> set ns. acc (token_identity_key (tr_network n) (tr_contract n)) = None)"
proof (induction sha acc es rule: add_token_risks.induct)
  case (2 sha acc entry entries)
  let ?key = "\<lambda>n. token_identity_key (tr_network n) (tr_contract n)"
  from "2.prems" obtain n where n: "normalize_token_risk sha entry = Inr n" "acc (?key n) = None"
    "add_token_risks sha (acc(?key n \<mapsto> n)) entries = Inr m"
    by (auto simp: Let_def split: sum.splits if_splits)
  from "2.IH" [OF n(1) refl _ n(3)] n(2) obtain ns where ns:
    "map_opt (\<lambda>e. case normalize_token_risk sha e of Inr n \<Rightarrow> Some n | Inl _ \<Rightarrow> None) entries = Some ns"
    "distinct (map ?key ns)" "m = acc(?key n \<mapsto> n) ++ map_of (map (\<lambda>n. (?key n, n)) ns)"
    "\<forall>x \<in> set ns. (acc(?key n \<mapsto> n)) (?key x) = None" by blast
  have new: "?key n \<notin> ?key ` set ns" and old: "\<forall>x \<in> set ns. acc (?key x) = None"
    using ns(4) by (auto simp: fun_upd_def split: if_splits)
  have "m = acc ++ map_of (map (\<lambda>n. (?key n, n)) (n # ns))"
  proof -
    have "map_of (map (\<lambda>n. (?key n, n)) ns) (?key n) = None"
      using new by (auto simp: map_of_eq_None_iff)
    then show ?thesis by (auto simp: ns(3) fun_eq_iff map_add_def split: option.split)
  qed
  then show ?case
    using n ns(1,2) new old by (intro exI [of _ "n # ns"] conjI) (simp_all del: map_add_upd add: fun_upd_def)
qed simp

text \<open>An accepted registry protects every row: none is lost, none shadows another.\<close>

lemma accepted_registry_is_complete:
  assumes "normalize_token_risks sha entries = Inr m" "entries = Some es"
  shows "\<forall>e \<in> set es. \<exists>n. normalize_token_risk sha e = Inr n \<and>
      m (token_identity_key (tr_network n) (tr_contract n)) = Some n"
    "card (dom m) = length es"
proof -
  let ?key = "\<lambda>n. token_identity_key (tr_network n) (tr_contract n)"
  obtain ns where ns:
    "map_opt (\<lambda>e. case normalize_token_risk sha e of Inr n \<Rightarrow> Some n | Inl _ \<Rightarrow> None) es = Some ns"
    "distinct (map ?key ns)" "m = map_of (map (\<lambda>n. (?key n, n)) ns)"
    using assms by (auto simp: normalize_token_risks_def dest!: add_token_risks_Inr)
  show "\<forall>e \<in> set es. \<exists>n. normalize_token_risk sha e = Inr n \<and> m (?key n) = Some n"
  proof
    fix e assume "e \<in> set es"
    then obtain i where i: "i < length es" "e = es ! i" by (auto simp: in_set_conv_nth)
    then have "normalize_token_risk sha e = Inr (ns ! i)" "ns ! i \<in> set ns"
      using map_opt_nth [OF ns(1) i(1)] map_opt_length [OF ns(1)] by (auto split: sum.splits)
    moreover have "m (?key (ns ! i)) = Some (ns ! i)"
      unfolding ns(3) using ns(2) \<open>ns ! i \<in> set ns\<close> by (intro map_of_is_SomeI) (auto simp: comp_def)
    ultimately show "\<exists>n. normalize_token_risk sha e = Inr n \<and> m (?key n) = Some n" by blast
  qed
  have "card (dom m) = length ns"
    using ns(2) distinct_card [OF ns(2)] by (simp add: ns(3) dom_map_of_conv_image_fst image_image)
  then show "card (dom m) = length es" using map_opt_length [OF ns(1)] by simp
qed

subsection \<open>Verdicts\<close>

text \<open>
  What a verdict should be: the registry first, then the provider's evidence, then the catalog.
  \<open>evidence\<close> is absent when nobody was to be asked.
\<close>

definition risk_verdict :: "token_risk option \<Rightarrow> token_threat option \<Rightarrow> bool \<Rightarrow> string" where
  "risk_verdict registered evidence official =
     (case (registered, evidence) of
        (Some _, _) \<Rightarrow> ''unsafe''
      | (None, None) \<Rightarrow> if official then ''safe'' else ''unknown''
      | (None, Some t) \<Rightarrow>
          if th_unsafe t then ''unsafe'' else if official \<and> th_found t then ''safe'' else ''unknown'')"

definition status_of :: "json \<Rightarrow> string" where
  "status_of j = (case j of JObj kvs \<Rightarrow> (case map_of kvs ''status'' of Some (JStr s) \<Rightarrow> s | _ \<Rightarrow> []) | _ \<Rightarrow> [])"

lemma status_of_result [simp]: "status_of (token_risk_result network contract s source category) = s"
  by (simp add: status_of_def token_risk_result_def)

text \<open>
  A run of the two handlers: \<open>ev\<close> holds what the risk providers answered, under the identity that
  was asked for, with the time of the answer.
\<close>

type_synonym evidence_log = "(string \<times> token_threat \<times> instant) list"

definition new_evidence :: "token_config \<Rightarrow> raw \<Rightarrow> token_state \<Rightarrow> world \<Rightarrow> evidence_log" where
  "new_evidence c params st w =
     (case checked_token_risk c params of
        Inl _ \<Rightarrow> []
      | Inr (network, contract) \<Rightarrow>
          (case risk_provider c network contract of
             None \<Rightarrow> []
           | Some (_, _, lookup) \<Rightarrow>
               (case lookup w of
                  (Inr threat, w1) \<Rightarrow> [(token_identity_key network contract, threat, w_now w1)]
                | _ \<Rightarrow> [])))"

inductive token_run :: "token_config \<Rightarrow> evidence_log \<Rightarrow> token_state \<Rightarrow> world \<Rightarrow> bool" for c where
  start: "token_run c [] new_token_state w"
| check: "token_run c ev st w \<Longrightarrow> check_token_risk c params st w = (r, st', w') \<Longrightarrow>
    token_run c (if w_sent w' = w_sent w then ev else new_evidence c params st w @ ev) st' w'"
| approvals: "token_run c ev st w \<Longrightarrow> get_evm_token_approvals c params st w = (r, st', w') \<Longrightarrow>
    token_run c ev st' w'"
| wait: "token_run c ev st w \<Longrightarrow> w_now w \<le> w_now w' \<Longrightarrow> token_run c ev st w'"


text \<open>What the world looks like after an answer of GoPlus.\<close>

lemma goplus_request_sent:
  assumes "goplus_request env ue label endpoint q w = (Inr data, w')"
  shows "w_sent w' = w_sent w @ [(ue_with_query ue endpoint (fst q) (snd q), [])]"
  using assms
  by (auto simp: goplus_request_def goplus_fetch_def rest_lift_def exchange_def Let_def case_prod_beta
      split: option.splits if_splits http_outcome.splits)

lemma lookup_success_sends:
  assumes "risk_provider c network contract = Some (p, s, lookup)" "lookup w = (Inr threat, w')"
  shows "w_sent w' \<noteq> w_sent w"
  using assms
  by (auto simp: risk_provider_def goplus_token_risk_def goplus_solana_token_risk_def rest_bind_def
      rest_lift_def dest!: goplus_request_sent split: option.splits if_splits sum.splits prod.splits)

definition risk_cache_ok :: "evidence_log \<Rightarrow> token_threat cache \<Rightarrow> bool" where
  "risk_cache_ok ev ch \<longleftrightarrow> ch_ttl ch = token_risk_ttl \<and>
     (\<forall>(k, v, e) \<in> set (ch_m ch). \<exists>t. (k, v, t) \<in> set ev \<and> e = t + token_risk_ttl)"

lemma risk_cache_ok_get:
  "risk_cache_ok ev ch \<Longrightarrow> risk_cache_ok ev (fst (plain_get now key ch))"
  by (auto simp: plain_get_def get_local_def risk_cache_ok_def AList.delete_eq split: option.splits)

lemma risk_cache_hit:
  assumes "risk_cache_ok ev ch" "snd (plain_get now key ch) = Some threat"
  shows "\<exists>t. (key, threat, t) \<in> set ev \<and> now \<le> t + token_risk_ttl"
  using assms
  by (fastforce simp: plain_get_def get_local_def risk_cache_ok_def split: option.splits if_splits
      dest!: map_of_SomeD)

lemma risk_cache_ok_set:
  assumes "risk_cache_ok ev ch"
  shows "risk_cache_ok ((key, threat, now) # ev) (plain_set now key threat ch)"
proof -
  have "set (ch_m (plain_set now key threat ch)) \<subseteq> insert (key, threat, now + token_risk_ttl) (set (ch_m ch))"
    using assms
    by (auto simp: plain_set_def set_local_def risk_cache_ok_def dest!: in_set_update split: if_splits)
  then show ?thesis using assms by (fastforce simp: risk_cache_ok_def plain_set_def set_local_def)
qed

lemma risk_cache_ok_mono: "risk_cache_ok ev ch \<Longrightarrow> set ev \<subseteq> set ev' \<Longrightarrow> risk_cache_ok ev' ch"
  by (fastforce simp: risk_cache_ok_def)


lemma get_local_frames: "ch_ttl (fst (plain_get now key ch)) = ch_ttl ch"
  by (simp add: plain_get_def get_local_def split: option.split prod.split)

text \<open>One check: the world, the state and the answer in each case.\<close>

lemma risk_state_frames [simp, record_frames]:
  "ts_risk_cache (set_risk_circuit s c st) = ts_risk_cache st"
  "ts_risk_cache (count_risk f st) = ts_risk_cache st"
  by (simp_all add: set_risk_circuit_def count_risk_def)

lemma with_circuit_cases:
  assumes "with_circuit env lookup circuit w = (r, c', w')"
  shows "r = None \<and> w' = w \<or> (\<exists>x. r = Some x \<and> lookup w = (x, w'))"
  using assms by (auto simp: with_circuit_def Let_def split: option.splits prod.splits)

definition fresh_evidence :: "evidence_log \<Rightarrow> world \<Rightarrow> string \<Rightarrow> token_threat \<Rightarrow> bool" where
  "fresh_evidence ev w key threat \<longleftrightarrow> (\<exists>t. (key, threat, t) \<in> set ev \<and> w_now w \<le> t + token_risk_ttl)"

lemma external_status:
  "status_of (external_token_risk_result network contract threat official) =
   risk_verdict None (Some threat) official"
  by (simp add: external_token_risk_result_def risk_verdict_def)

lemma lookup_external_token_risk_ok:
  assumes "lookup_external_token_risk env network contract official provider solana lookup st w = (r, st', w')"
    and "risk_cache_ok ev (ts_risk_cache st)"
    and "\<And>threat w1. lookup w = (Inr threat, w1) \<Longrightarrow> w_sent w1 \<noteq> w_sent w"
  defines "key \<equiv> token_identity_key network contract"
  defines "ev' \<equiv> if w_sent w' = w_sent w then ev
    else (case lookup w of (Inr threat, w1) \<Rightarrow> [(key, threat, w_now w1)] | _ \<Rightarrow> []) @ ev"
  shows "risk_cache_ok ev' (ts_risk_cache st')"
    "r = Inr j \<Longrightarrow> \<exists>threat. status_of j = risk_verdict None (Some threat) official \<and>
       (fresh_evidence ev w key threat \<or> lookup w = (Inr threat, w'))"
proof -
  obtain ch hit where g: "plain_get (w_now w) key (ts_risk_cache st) = (ch, hit)" by fastforce
  have ch: "risk_cache_ok ev ch" using risk_cache_ok_get [OF assms(2)] g by (metis fst_conv)
  have "risk_cache_ok ev' (ts_risk_cache st') \<and> (r = Inr j \<longrightarrow>
     (\<exists>threat. status_of j = risk_verdict None (Some threat) official \<and>
       (fresh_evidence ev w key threat \<or> lookup w = (Inr threat, w'))))"
  proof (cases hit)
    case (Some threat)
    have "fresh_evidence ev w key threat"
      using risk_cache_hit [OF assms(2)] g Some by (metis fresh_evidence_def snd_conv)
    with Some g ch assms(1) show ?thesis
      by (auto simp: lookup_external_token_risk_def key_def ev'_def external_status)
  next
    case None
    obtain x c w1 where x: "with_circuit env lookup (risk_circuit solana (st\<lparr>ts_risk_cache := ch\<rparr>)) w = (x, c, w1)"
      by (metis prod.collapse)
    have mono: "risk_cache_ok (l @ ev) ch" for l using risk_cache_ok_mono [OF ch] by simp
    show ?thesis
    proof (cases x)
      case None
      with x with_circuit_cases [OF x] g \<open>hit = None\<close> ch assms(1) show ?thesis
        by (auto simp: lookup_external_token_risk_def key_def ev'_def)
    next
      case (Some res)
      then have l: "lookup w = (res, w1)" using with_circuit_cases [OF x] by auto
      show ?thesis
      proof (cases res)
        case (Inl e)
        with Some x l g \<open>hit = None\<close> mono ch assms(1) show ?thesis
          by (auto simp: lookup_external_token_risk_def key_def ev'_def)
      next
        case (Inr threat)
        with assms(3) l have "w_sent w1 \<noteq> w_sent w" by blast
        with Inr Some x l g \<open>hit = None\<close> risk_cache_ok_set [OF ch] assms(1) show ?thesis
          by (auto simp: lookup_external_token_risk_def key_def ev'_def external_status)
      qed
    qed
  qed
  then show "risk_cache_ok ev' (ts_risk_cache st')"
    "r = Inr j \<Longrightarrow> \<exists>threat. status_of j = risk_verdict None (Some threat) official \<and>
       (fresh_evidence ev w key threat \<or> lookup w = (Inr threat, w'))" by blast+
qed

text \<open>
  The whole handler against \<open>risk_verdict\<close>: what it takes as evidence is nothing exactly when the
  registry decided or nobody is to be asked, and otherwise a provider's own answer about this
  identity, from this call or not older than five minutes.
\<close>

definition verdict_justified ::
  "token_config \<Rightarrow> raw \<Rightarrow> evidence_log \<Rightarrow> world \<Rightarrow> world \<Rightarrow> string \<Rightarrow> bool" where
  "verdict_justified c params ev w w' status \<longleftrightarrow>
     (\<exists>network contract evidence.
        checked_token_risk c params = Inr (network, contract) \<and> tk_registry_ok c \<and>
        (let key = token_identity_key network contract; registered = tk_risks c key;
             provider = risk_provider c network contract in
         status = risk_verdict registered evidence (official_token c network contract) \<and>
         (evidence = None \<longleftrightarrow> registered \<noteq> None \<or> provider = None) \<and>
         (\<forall>threat. evidence = Some threat \<longrightarrow> fresh_evidence ev w key threat \<or>
            (\<exists>p s lookup. provider = Some (p, s, lookup) \<and> lookup w = (Inr threat, w')))))"

lemma check_token_risk_ok:
  assumes run: "check_token_risk c params st w = (r, st', w')" and ok: "risk_cache_ok ev (ts_risk_cache st)"
  shows "risk_cache_ok (if w_sent w' = w_sent w then ev else new_evidence c params st w @ ev) (ts_risk_cache st')"
    "r = Inr j \<Longrightarrow> verdict_justified c params ev w w' (status_of j)"
proof -
  have "risk_cache_ok (if w_sent w' = w_sent w then ev else new_evidence c params st w @ ev) (ts_risk_cache st') \<and>
    (r = Inr j \<longrightarrow> verdict_justified c params ev w w' (status_of j))"
  proof (cases "checked_token_risk c params")
    case (Inl e)
    with run ok show ?thesis by (auto simp: check_token_risk_def)
  next
    case (Inr nc)
    obtain network contract where nc: "nc = (network, contract)" by fastforce
    let ?key = "token_identity_key network contract"
    show ?thesis
    proof (cases "tk_registry_ok c \<and> tk_risks c ?key = None")
      case False
      with run ok Inr nc show ?thesis
        by (auto simp: check_token_risk_def verdict_justified_def risk_verdict_def Let_def split: if_splits)
    next
      case True
      show ?thesis
      proof (cases "risk_provider c network contract")
        case None
        with True run ok Inr nc show ?thesis
          by (auto simp: check_token_risk_def verdict_justified_def risk_verdict_def Let_def)
      next
        case (Some provider)
        obtain p s lookup where p: "provider = (p, s, lookup)" by (metis prod.collapse)
        have ext: "lookup_external_token_risk (tk_net c) network contract (official_token c network contract)
            p s lookup st w = (r, st', w')"
          using run True Inr nc Some p by (simp add: check_token_risk_def)
        have sent: "\<And>threat w1. lookup w = (Inr threat, w1) \<Longrightarrow> w_sent w1 \<noteq> w_sent w"
          using lookup_success_sends Some p by blast
        have "new_evidence c params st w =
            (case lookup w of (Inr threat, w1) \<Rightarrow> [(?key, threat, w_now w1)] | _ \<Rightarrow> [])"
          using Inr nc Some p by (simp add: new_evidence_def)
        with lookup_external_token_risk_ok [OF ext ok sent] True Inr nc Some p show ?thesis
          by (fastforce simp: verdict_justified_def Let_def)
      qed
    qed
  qed
  then show "risk_cache_ok (if w_sent w' = w_sent w then ev else new_evidence c params st w @ ev) (ts_risk_cache st')"
    "r = Inr j \<Longrightarrow> verdict_justified c params ev w w' (status_of j)" by blast+
qed

lemma approvals_keep_risk_cache:
  assumes "get_evm_token_approvals c params st w = (r, st', w')"
  shows "ts_risk_cache st' = ts_risk_cache st"
  using assms
  by (auto simp: get_evm_token_approvals_def count_approvals_def Let_def split: sum.splits prod.splits option.splits)

lemma token_run_cache: "token_run c ev st w \<Longrightarrow> risk_cache_ok ev (ts_risk_cache st)"
proof (induction rule: token_run.induct)
  case (start w)
  then show ?case by (simp add: risk_cache_ok_def new_token_state_def new_cache_def)
next
  case (check ev st w params r st' w')
  then show ?case using check_token_risk_ok(1) by blast
qed (simp_all add: approvals_keep_risk_cache)

theorem token_run_justified:
  "token_run c ev st w \<Longrightarrow> check_token_risk c params st w = (Inr j, st', w') \<Longrightarrow>
   verdict_justified c params ev w w' (status_of j)"
  using check_token_risk_ok(2) token_run_cache by blast

subsection \<open>Approvals\<close>

text \<open>Nothing is sent before the consent, and then one request about the address in the call.\<close>

lemma checked_token_approvals_Inr:
  assumes "checked_token_approvals c params = Inr (network, chain_id, address, g)"
  shows "\<exists>p. decode_strict_json approvals_params_type params = Some p \<and>
    bool_field p ''privacyConsent'' \<and> address = str_field p ''address'' \<and>
    resolve_network (str_field p ''chain'') (str_field p ''network'') = Inr network \<and>
    goplus_approval_chain_ids network = Some chain_id \<and> tk_goplus_approvals c = Some g"
  using assms
  by (auto simp: checked_token_approvals_def or_error_def checked_evm_network_def Let_def
      split: option.splits if_splits)

lemma goplus_request_sends:
  "goplus_request env ue label endpoint q w = (r, w') \<Longrightarrow>
   w_sent w' = w_sent w \<or> w_sent w' = w_sent w @ [(ue_with_query ue endpoint (fst q) (snd q), [])]"
  by (auto simp: goplus_request_def goplus_fetch_def rest_lift_def exchange_def Let_def case_prod_beta
      split: option.splits if_splits)

lemma goplus_token_approvals_sends:
  assumes "goplus_token_approvals env ue g chain_id address w = (r, w')"
  shows "w_sent w' = w_sent w \<or> w_sent w' = w_sent w @
    [(ue_with_query ue (gp_base g @ ''/'' @ path_escape chain_id) ''addresses'' (to_lower address), [])]"
  using assms
  by (auto simp: goplus_token_approvals_def rest_bind_def rest_lift_def dest!: goplus_request_sends
      split: if_splits prod.splits sum.splits)

lemma approvals_request:
  assumes "get_evm_token_approvals c params st w = (r, st', w')" "w_sent w' \<noteq> w_sent w"
  shows "\<exists>p network chain_id g. decode_strict_json approvals_params_type params = Some p \<and>
    bool_field p ''privacyConsent'' \<and>
    resolve_network (str_field p ''chain'') (str_field p ''network'') = Inr network \<and>
    goplus_approval_chain_ids network = Some chain_id \<and> tk_goplus_approvals c = Some g \<and>
    w_sent w' = w_sent w @ [(ue_with_query (tk_urls c) (gp_base g @ ''/'' @ path_escape chain_id)
      ''addresses'' (to_lower (str_field p ''address'')), [])]"
proof (cases "checked_token_approvals c params")
  case (Inr q)
  obtain network chain_id address g where q: "q = (network, chain_id, address, g)" by (metis prod.collapse)
  have "\<exists>r. goplus_token_approvals (tk_net c) (tk_urls c) g chain_id address w = (r, w')"
    using assms Inr q
    by (auto simp: get_evm_token_approvals_def Let_def dest!: with_circuit_cases
        split: prod.splits option.splits sum.splits)
  then show ?thesis
    using goplus_token_approvals_sends assms(2) checked_token_approvals_Inr Inr q by fastforce
qed (use assms in \<open>simp add: get_evm_token_approvals_def\<close>)

text \<open>Every list that is returned, from the provider or the cache, is one complete provider answer.\<close>

definition complete_approvals :: "token_approval list \<Rightarrow> bool" where
  "complete_approvals rows \<longleftrightarrow>
     (\<exists>chain_id m data. goplus_approvals_of chain_id m data = Inr rows) \<and>
     distinct (map approval_key rows) \<and> length rows \<le> max_goplus_approval_rows \<and>
     (\<exists>m. \<forall>row \<in> set rows. approval_ok m row)"

lemma goplus_token_approvals_complete:
  assumes "goplus_token_approvals env ue g chain_id address w = (Inr rows, w')"
  shows "complete_approvals rows"
proof -
  from assms obtain m data where "goplus_approvals_of chain_id m data = Inr rows"
    by (auto simp: goplus_token_approvals_def rest_bind_def rest_lift_def split: if_splits prod.splits sum.splits)
  with goplus_approvals_complete [OF this] show ?thesis by (auto simp: complete_approvals_def)
qed

interpretation lists: cached_answers "\<lambda>_. True" "\<lambda>key. key" "\<lambda>rows _. complete_approvals rows"
  by unfold_locales

abbreviation approvals_cache_ok :: "token_approval list cache \<Rightarrow> bool" where
  "approvals_cache_ok \<equiv> keeps_answers (\<lambda>_. True) (\<lambda>key. key) (\<lambda>rows _. complete_approvals rows)"

lemma approvals_cache_ok_get:
  assumes "approvals_cache_ok ch" "plain_get now key ch = (ch', hit)"
  shows "approvals_cache_ok ch'" "hit = Some rows \<Longrightarrow> complete_approvals rows"
  using lists.kept_get_local [OF assms(1)] lists.kept_hit_local [OF assms(1)] assms(2)
  by (auto simp: plain_get_def)

lemma approvals_cache_ok_set:
  "approvals_cache_ok ch \<Longrightarrow> complete_approvals rows \<Longrightarrow> approvals_cache_ok (plain_set now key rows ch)"
  using lists.kept_set_local by (simp add: plain_set_def)

lemma get_evm_token_approvals_ok:
  assumes run: "get_evm_token_approvals c params st w = (r, st', w')"
    and ok: "approvals_cache_ok (ts_approvals_cache st)"
  shows "approvals_cache_ok (ts_approvals_cache st') \<and>
    (\<forall>j. r = Inr j \<longrightarrow> (\<exists>network rows. j = token_approvals_result network rows \<and> complete_approvals rows))"
proof (cases "checked_token_approvals c params")
  case (Inl e)
  with run ok show ?thesis by (auto simp: get_evm_token_approvals_def)
next
  case (Inr q)
  obtain network chain_id address g where q: "q = (network, chain_id, address, g)" by (metis prod.collapse)
  let ?key = "approval_cache_key (tk_sha c) network address"
  obtain ch hit where get: "plain_get (w_now w) ?key (ts_approvals_cache st) = (ch, hit)" by fastforce
  note cached = approvals_cache_ok_get [OF ok get]
  show ?thesis
  proof (cases hit)
    case (Some rows)
    with run Inr q get cached show ?thesis by (auto simp: get_evm_token_approvals_def count_approvals_def)
  next
    case None
    obtain x ci w1 where x: "with_circuit (tk_net c) (goplus_token_approvals (tk_net c) (tk_urls c) g chain_id address)
        (ts_approvals_circuit (st\<lparr>ts_approvals_cache := ch\<rparr>)) w = (x, ci, w1)"
      by (metis prod.collapse)
    have complete: "complete_approvals rows" if "x = Some (Inr rows)" for rows
      using with_circuit_cases [OF x] that goplus_token_approvals_complete by blast
    show ?thesis
      using run Inr q get None x cached(1) complete approvals_cache_ok_set [OF cached(1)]
      by (auto simp: get_evm_token_approvals_def count_approvals_def Let_def split: option.splits sum.splits)
  qed
qed

lemma risk_keeps_approvals_cache:
  assumes "check_token_risk c params st w = (r, st', w')"
  shows "ts_approvals_cache st' = ts_approvals_cache st"
  using assms
  by (auto simp: check_token_risk_def lookup_external_token_risk_def set_risk_circuit_def count_risk_def Let_def
      split: sum.splits prod.splits option.splits if_splits)

lemma token_run_approvals: "token_run c ev st w \<Longrightarrow> approvals_cache_ok (ts_approvals_cache st)"
proof (induction rule: token_run.induct)
  case (start w)
  then show ?case by (simp add: new_token_state_def lists.kept_new)
next
  case (approvals ev st w params r st' w')
  then show ?case using get_evm_token_approvals_ok by blast
qed (simp_all add: risk_keeps_approvals_cache)

theorem token_run_approvals_complete:
  "token_run c ev st w \<Longrightarrow> get_evm_token_approvals c params st w = (Inr j, st', w') \<Longrightarrow>
   \<exists>network rows. j = token_approvals_result network rows \<and> complete_approvals rows"
  using get_evm_token_approvals_ok token_run_approvals by blast

end
