(* ===== verification/Token_Samples.thy ===== *)
theory Token_Samples
  imports Token_Facts History_Samples
begin

section \<open>A token check and an approval listing, answered\<close>

definition sample_urls :: url_env where
  "sample_urls = \<lparr>ue_parse = (\<lambda>s. Some \<lparr>pu_scheme = ''https'', pu_host = ''h'', pu_hostname = ''h'',
       pu_user = False, pu_raw_query = []\<rparr>),
     ue_with_query = (\<lambda>e k v. e @ ''?'' @ k @ ''='' @ v)\<rparr>"

definition token_setup :: "string \<Rightarrow> token_config" where
  "token_setup body =
     \<lparr>tk_env = \<lparr>ge_net = replies [body], ge_sha = (\<lambda>bs. bs), ge_printable = (\<lambda>s. True)\<rparr>,
      tk_urls = sample_urls,
      tk_official = (\<lambda>n. Map.empty(wallet \<mapsto> \<lparr>tm_symbol = ''T'', tm_decimals = 6\<rparr>)),
      tk_risks = Map.empty, tk_registry_ok = True, tk_goplus = Some (new_goplus ''https://g'' []),
      tk_goplus_solana = None, tk_goplus_approvals = Some (new_goplus_approvals ''https://g'' [])\<rparr>"

definition clean_record :: string where
  \<open>clean_record = ''{"code":1,"result":{"0xAaaaaaaaaaaaaaaaaaaaaaaaaaaaaaaaaaaaaaaa":{"is_honeypot":"0"}}}''\<close>

definition clean_config :: token_config where "clean_config = token_setup clean_record"

definition token_params :: raw where
  "token_params = Some (JObj [(''chain'', JStr ''eth''), (''contract'', JStr wallet)])"

definition clean_run :: "(rpc_error + json) \<times> token_state \<times> world" where
  "clean_run = check_token_risk clean_config token_params new_token_state sample_world"

lemma clean_answer:
  "fst clean_run = Inr (token_risk_result ''eth-mainnet'' wallet ''safe'' ''official_catalog+goplus'' [])"
  by code_simp

definition no_approvals :: string where
  \<open>no_approvals = ''{"code":1,"message":"ok","result":[]}''\<close>

definition approvals_config :: token_config where "approvals_config = token_setup no_approvals"

definition approvals_params :: raw where
  "approvals_params = Some (JObj [(''chain'', JStr ''eth''), (''address'', JStr wallet),
     (''privacyConsent'', JBool True)])"

definition approvals_run :: "(rpc_error + json) \<times> token_state \<times> world" where
  "approvals_run = get_evm_token_approvals approvals_config approvals_params new_token_state sample_world"

lemma approvals_answer:
  "(case approvals_run of (r, st, w) \<Rightarrow> (r, length (w_sent w))) =
   (Inr (token_approvals_result ''eth-mainnet'' []), 1)"
  by code_simp

definition plain_unicode :: unicode_env where
  "plain_unicode = \<lparr>uc_upper = (\<lambda>s. s), uc_lower = to_lower, uc_is_upper = (\<lambda>r. 65 \<le> r \<and> r \<le> 90),
     uc_is_digit = (\<lambda>r. 48 \<le> r \<and> r \<le> 57), uc_quote = quote\<rparr>"

definition one_token :: "official_token list" where
  "one_token = [\<lparr>ot_network = ''eth-mainnet'', ot_symbol = ''USDT'', ot_name = ''Tether'',
     ot_contract = wallet, ot_decimals = 6, ot_popular = True, ot_verified = False\<rparr>]"

definition one_risk :: "token_risk list" where
  "one_risk = [\<lparr>tr_network = ''eth-mainnet'', tr_contract = wallet, tr_category = ''Phishing ''\<rparr>]"

lemma one_token_accepted: "\<not> isl (normalize_official_tokens plain_unicode (\<lambda>b. b) (Some one_token))"
  by code_simp

lemma one_risk_accepted: "\<not> isl (normalize_token_risks (\<lambda>b. b) (Some one_risk))"
  by code_simp

end
