(* ===== verification/Balances.thy ===== *)
theory Balances
  imports Gateway Cache Explorer "HOL-Library.Multiset" "HOL-Library.List_Lexorder" "HOL-Library.Char_ord"
begin

section \<open>kt_getBalances and kt_getPortfolio\<close>

text \<open>
  \<open>handlers/balances.go\<close> and \<open>tokenSetHash\<close> (\<open>validate.go\<close>). The goroutines that read the tokens
  (and the accounts of a portfolio) finish in any order and each writes its own place of the result:
  the order is a parameter, a schedule of indices, and a whole token read is one step of it. The
  shared store of the cache answers depending on the key and the world.
\<close>

record token_ref =
  tk_contract :: string
  tk_decimals :: int
  tk_symbol :: string

record balance_entry =
  be_raw :: string
  be_decimals :: int
  be_symbol :: string

record token_balance_entry =
  te_contract :: string
  te_raw :: string
  te_decimals :: int
  te_symbol :: string
  te_error :: string

record balances_result =
  br_chain :: string
  br_network :: string
  br_address :: string
  br_native :: balance_entry
  br_tokens :: "token_balance_entry list"

record balance_config =
  bc_env :: gateway_env
  bc_store_get :: "string \<Rightarrow> world \<Rightarrow> store_error + string"
  bc_store_set :: "string \<Rightarrow> world \<Rightarrow> bool"
  bc_schedule :: "nat \<Rightarrow> nat list"
    \<comment> \<open>the order in which \<open>n\<close> goroutines run: a permutation of the indices below \<open>n\<close>\<close>

record balance_state =
  bs_gateway :: gateway
  bs_cache :: "balances_result cache"

type_synonym 'a balances = "balance_state \<Rightarrow> world \<Rightarrow> (rpc_error + 'a) \<times> balance_state \<times> world"

subsection \<open>The fingerprint of a token list\<close>

definition token_item :: "token_ref \<Rightarrow> string" where
  "token_item t = tk_contract t @ [CHR 0x00] @ dec_of_int (tk_decimals t) @ [CHR 0x00] @ tk_symbol t"

text \<open>The loop is an insertion sort of a copy.\<close>

definition token_set_text :: "token_ref list \<Rightarrow> string" where
  "token_set_text tokens = join [CHR 0x0A] (sort (map token_item tokens))"

definition token_set_hash :: "(byte list \<Rightarrow> byte list) \<Rightarrow> token_ref list \<Rightarrow> string" where
  "token_set_hash sha tokens = hex_encode (sha (map of_char (token_set_text tokens)))"

subsection \<open>The reads\<close>

definition new_token_entry :: "token_ref \<Rightarrow> token_balance_entry" where
  "new_token_entry t = \<lparr>te_contract = tk_contract t, te_raw = ''0'', te_decimals = tk_decimals t,
     te_symbol = tk_symbol t, te_error = []\<rparr>"

definition zero_token_entry :: token_balance_entry where
  "zero_token_entry = \<lparr>te_contract = [], te_raw = [], te_decimals = 0, te_symbol = [], te_error = []\<rparr>"

text \<open>What became of one token: the error text replaces the balance, never the identity.\<close>

definition token_entry :: "token_ref \<Rightarrow> go_error + int \<Rightarrow> token_balance_entry" where
  "token_entry t r =
     (case r of
        Inl _ \<Rightarrow> (new_token_entry t)\<lparr>te_error := ''token balance temporarily unavailable''\<rparr>
      | Inr balance \<Rightarrow> (new_token_entry t)\<lparr>te_raw := dec_of_int balance\<rparr>)"

text \<open>The goroutines: each index of the schedule reads its token and writes its entry.\<close>

fun read_tokens ::
  "(token_ref \<Rightarrow> token_balance_entry handler) \<Rightarrow> token_ref list \<Rightarrow> nat list \<Rightarrow> token_balance_entry list
     \<Rightarrow> token_balance_entry list handler" where
  "read_tokens rd tokens [] entries = h_return entries"
| "read_tokens rd tokens (i # is) entries =
     h_bind (rd (tokens ! i)) (\<lambda>e. read_tokens rd tokens is (entries[i := e]))"

definition native_entry :: "chain_meta \<Rightarrow> int \<Rightarrow> balance_entry" where
  "native_entry meta balance =
     \<lparr>be_raw = dec_of_int balance, be_decimals = cm_decimals meta, be_symbol = cm_symbol meta\<rparr>"

text \<open>The result before \<open>GetBalances\<close> binds it to its request.\<close>

definition account_balances ::
  "nat list \<Rightarrow> chain_meta \<Rightarrow> int handler \<Rightarrow> (token_ref \<Rightarrow> token_balance_entry handler) \<Rightarrow> token_ref list
     \<Rightarrow> balances_result handler" where
  "account_balances schedule meta native rd tokens =
     h_bind native
       (\<lambda>balance. h_bind (read_tokens rd tokens schedule (replicate (length tokens) zero_token_entry))
          (\<lambda>entries. h_return \<lparr>br_chain = [], br_network = [], br_address = [],
             br_native = native_entry meta balance, br_tokens = entries\<rparr>))"

definition evm_token_entry :: "gateway_env \<Rightarrow> string \<Rightarrow> string \<Rightarrow> token_ref \<Rightarrow> token_balance_entry handler" where
  "evm_token_entry env network address t =
     (if \<not> evm_address_re (tk_contract t)
      then h_return ((new_token_entry t)\<lparr>te_error := ''invalid contract address''\<rparr>)
      else h_bind (on_evm network (evm_token_balance (ge_net env) (tk_contract t) address))
        (\<lambda>r. h_return (token_entry t r)))"

definition evm_balances ::
  "gateway_env \<Rightarrow> nat list \<Rightarrow> string \<Rightarrow> string \<Rightarrow> chain_meta \<Rightarrow> string \<Rightarrow> token_ref list
     \<Rightarrow> balances_result handler" where
  "evm_balances env schedule chain network meta address tokens =
     account_balances schedule meta
       (or_upstream_error chain (on_evm network (evm_get_balance (ge_net env) address)))
       (evm_token_entry env network address) tokens"

definition tron_balances ::
  "gateway_env \<Rightarrow> nat list \<Rightarrow> string \<Rightarrow> chain_meta \<Rightarrow> string \<Rightarrow> token_ref list \<Rightarrow> balances_result handler" where
  "tron_balances env schedule network meta address tokens =
     account_balances schedule meta
       (or_upstream_error ''trongrid''
          (on_tron network
             (\<lambda>t. rest_bind (tron_get_account (ge_sha env) path_escape (ge_net env) t address)
                (\<lambda>a. rest_lift (Inr (ta_balance a))))))
       (\<lambda>token. h_bind
          (on_tron network (\<lambda>t. tron_trc20_balance (ge_sha env) (ge_net env) t address (tk_contract token)))
          (\<lambda>r. h_return (token_entry token r))) tokens"

definition solana_balances ::
  "gateway_env \<Rightarrow> nat list \<Rightarrow> string \<Rightarrow> chain_meta \<Rightarrow> string \<Rightarrow> token_ref list \<Rightarrow> balances_result handler" where
  "solana_balances env schedule network meta address tokens =
     account_balances schedule meta
       (or_upstream_error ''solana'' (on_sol network (solana_get_balance (ge_net env) address)))
       (\<lambda>token. h_bind (on_sol network (solana_get_token_balance (ge_net env) address (tk_contract token)))
          (\<lambda>r. h_return (token_entry token r))) tokens"

subsection \<open>The cached value\<close>

definition token_entry_json :: "token_balance_entry \<Rightarrow> json" where
  "token_entry_json e =
     JObj ([(''contract'', JStr (te_contract e)), (''raw'', JStr (te_raw e)),
       (''decimals'', JNum (dec_of_int (te_decimals e))), (''symbol'', JStr (te_symbol e))] @
       (if te_error e = [] then [] else [(''error'', JStr (te_error e))]))"

definition balances_json :: "balances_result \<Rightarrow> json" where
  "balances_json r =
     JObj [(''chain'', JStr (br_chain r)), (''network'', JStr (br_network r)),
       (''address'', JStr (br_address r)),
       (''native'', JObj [(''raw'', JStr (be_raw (br_native r))),
          (''decimals'', JNum (dec_of_int (be_decimals (br_native r)))),
          (''symbol'', JStr (be_symbol (br_native r)))]),
       (''tokens'', JArr (map token_entry_json (br_tokens r)))]"

definition balance_entry_type :: gtype where
  "balance_entry_type = GStruct [field ''raw'' GString, field ''decimals'' GInt, field ''symbol'' GString]"

definition balances_type :: gtype where
  "balances_type =
     GStruct [field ''chain'' GString, field ''network'' GString, field ''address'' GString,
       field ''native'' balance_entry_type,
       field ''tokens'' (GSlice (GStruct [field ''contract'' GString, field ''raw'' GString,
         field ''decimals'' GInt, field ''symbol'' GString, field ''error'' GString]))]"

definition balances_of :: "gval \<Rightarrow> balances_result" where
  "balances_of v =
     (let n = sub_struct v ''native'' in
      \<lparr>br_chain = str_field v ''chain'', br_network = str_field v ''network'',
       br_address = str_field v ''address'',
       br_native = \<lparr>be_raw = str_field n ''raw'', be_decimals = int_field n ''decimals'',
         be_symbol = str_field n ''symbol''\<rparr>,
       br_tokens = map (\<lambda>e. \<lparr>te_contract = str_field e ''contract'', te_raw = str_field e ''raw'',
         te_decimals = int_field e ''decimals'', te_symbol = str_field e ''symbol'',
         te_error = str_field e ''error''\<rparr>) (slice_field v ''tokens'')\<rparr>)"

definition balances_codec :: "balances_result codec" where
  "balances_codec =
     \<lparr>encode = (\<lambda>r. Some (balances_json r)),
      decode = (\<lambda>raw. Option.bind raw
        (\<lambda>j. map_option balances_of (unmarshal False balances_type (gzero balances_type) j)))\<rparr>"

subsection \<open>The handler\<close>

definition token_ref_type :: gtype where
  "token_ref_type = GStruct [field ''contract'' GString, field ''decimals'' GInt, field ''symbol'' GString]"

definition balances_params_type :: gtype where
  "balances_params_type =
     GStruct [field ''chain'' GString, field ''network'' GString, field ''address'' GString,
              field ''tokens'' (GSlice token_ref_type)]"

definition token_ref_of :: "gval \<Rightarrow> token_ref" where
  "token_ref_of v =
     \<lparr>tk_contract = str_field v ''contract'', tk_decimals = int_field v ''decimals'',
      tk_symbol = str_field v ''symbol''\<rparr>"

record balances_request =
  bq_chain :: string
  bq_meta :: chain_meta
  bq_network :: string
  bq_address :: string
  bq_tokens :: "token_ref list"

fun check_tokens :: "nat \<Rightarrow> token_ref list \<Rightarrow> rpc_error option" where
  "check_tokens i [] = None"
| \<open>check_tokens i (t # ts) =
     (if trim_space (tk_contract t) = []
      then Some (invalid_params (''invalid params: "tokens['' @ dec_of_nat i @ ''].contract" must not be blank''))
      else if tk_decimals t < 0 \<or> 77 < tk_decimals t
      then Some (invalid_params (''invalid params: "tokens['' @ dec_of_nat i @ ''].decimals" out of range''))
      else check_tokens (Suc i) ts)\<close>

definition checked_balances :: "gateway_env \<Rightarrow> raw \<Rightarrow> rpc_error + balances_request" where
  \<open>checked_balances env params =
     bind_sum (or_error (decode_strict_json balances_params_type params)
         (invalid_params ''invalid params: expected {"chain", "network"?, "address", "tokens"?}''))
       (\<lambda>p. let chain = str_field p ''chain''; address = str_field p ''address'';
                tokens = map token_ref_of (slice_field p ''tokens'') in
        bind_sum (validate_chain chain)
          (\<lambda>meta. bind_sum (resolve_network chain (str_field p ''network''))
             (\<lambda>network. bind_sum (check (validate_address (ge_sha env) chain address))
                (\<lambda>_. bind_sum (check (check_tokens 0 tokens))
                   (\<lambda>_. Inr \<lparr>bq_chain = chain, bq_meta = meta, bq_network = network,
                              bq_address = address, bq_tokens = tokens\<rparr>)))))\<close>

definition balances_key :: "(byte list \<Rightarrow> byte list) \<Rightarrow> balances_request \<Rightarrow> string" where
  "balances_key sha q = bq_network q @ ''|'' @ bq_address q @ ''|'' @ token_set_hash sha (bq_tokens q)"

definition fetch_balances :: "balance_config \<Rightarrow> balances_request \<Rightarrow> balances_result handler" where
  "fetch_balances c q =
     (let env = bc_env c; schedule = bc_schedule c (length (bq_tokens q)) in
      if cm_evm (bq_meta q)
      then evm_balances env schedule (bq_chain q) (bq_network q) (bq_meta q) (bq_address q) (bq_tokens q)
      else if bq_chain q = ''tron''
      then tron_balances env schedule (bq_network q) (bq_meta q) (bq_address q) (bq_tokens q)
      else solana_balances env schedule (bq_network q) (bq_meta q) (bq_address q) (bq_tokens q))"

definition bind_balances :: "balances_request \<Rightarrow> balances_result \<Rightarrow> balances_result" where
  "bind_balances q r = r\<lparr>br_chain := bq_chain q, br_network := bq_network q, br_address := bq_address q\<rparr>"

definition get_balances :: "balance_config \<Rightarrow> raw \<Rightarrow> balances_result balances" where
  "get_balances c params st w =
     (case checked_balances (bc_env c) params of
        Inl e \<Rightarrow> (Inl e, st, w)
      | Inr q \<Rightarrow>
          (let key = balances_key (ge_sha (bc_env c)) q;
               (ch, hit) = cache_get balances_codec (w_now w) (w_now w) key (bc_store_get c key w) (bs_cache st);
               st1 = st\<lparr>bs_cache := ch\<rparr>
           in case hit of
                Some r \<Rightarrow> (Inr r, st1, w)
              | None \<Rightarrow>
                  (case fetch_balances c q (bs_gateway st1) w of
                     (Inl e, g, w1) \<Rightarrow> (Inl e, st1\<lparr>bs_gateway := g\<rparr>, w1)
                   | (Inr r, g, w1) \<Rightarrow>
                       (let r = bind_balances q r;
                            (ch2, _) = cache_set balances_codec (w_now w1) key r (bc_store_set c key w1) ch
                        in (Inr r, st1\<lparr>bs_gateway := g, bs_cache := ch2\<rparr>, w1)))))"

subsection \<open>The portfolio\<close>

record portfolio_account =
  pa_chain :: string
  pa_network :: string
  pa_address :: string
  pa_tokens :: "token_ref list option"

record portfolio_entry =
  pe_chain :: string
  pe_network :: string
  pe_address :: string
  pe_result :: "balances_result option"
  pe_error :: string

definition portfolio_account_type :: gtype where
  "portfolio_account_type = balances_params_type"

definition portfolio_account_of :: "gval \<Rightarrow> portfolio_account" where
  "portfolio_account_of v =
     \<lparr>pa_chain = str_field v ''chain'', pa_network = str_field v ''network'',
      pa_address = str_field v ''address'',
      pa_tokens = (case get_field v ''tokens'' of Some (VSlice ts) \<Rightarrow> Some (map token_ref_of ts) | _ \<Rightarrow> None)\<rparr>"

text \<open>\<open>json.Marshal(account)\<close>; a nil slice is null.\<close>

definition account_json :: "portfolio_account \<Rightarrow> json" where
  "account_json a =
     JObj [(''chain'', JStr (pa_chain a)), (''network'', JStr (pa_network a)),
       (''address'', JStr (pa_address a)),
       (''tokens'', case pa_tokens a of
          None \<Rightarrow> JNull
        | Some ts \<Rightarrow> JArr (map (\<lambda>t. JObj [(''contract'', JStr (tk_contract t)),
            (''decimals'', JNum (dec_of_int (tk_decimals t))), (''symbol'', JStr (tk_symbol t))]) ts))]"

definition portfolio_row :: "balance_config \<Rightarrow> portfolio_account \<Rightarrow> balance_state \<Rightarrow> world
    \<Rightarrow> portfolio_entry \<times> balance_state \<times> world" where
  "portfolio_row c a st w =
     (let entry = \<lparr>pe_chain = pa_chain a, pe_network = pa_network a, pe_address = pa_address a,
            pe_result = None, pe_error = []\<rparr> in
      case validate_chain (pa_chain a) of
        Inl e \<Rightarrow> (entry\<lparr>pe_error := err_message e\<rparr>, st, w)
      | Inr _ \<Rightarrow>
          (case resolve_network (pa_chain a) (pa_network a) of
             Inl e \<Rightarrow> (entry\<lparr>pe_error := err_message e\<rparr>, st, w)
           | Inr network \<Rightarrow>
               (case get_balances c (json_parse (json_print (account_json a))) st w of
                  (Inl e, st1, w1) \<Rightarrow> (entry\<lparr>pe_network := network, pe_error := err_message e\<rparr>, st1, w1)
                | (Inr r, st1, w1) \<Rightarrow> (entry\<lparr>pe_network := network, pe_result := Some r\<rparr>, st1, w1))))"

fun portfolio_rows :: "balance_config \<Rightarrow> portfolio_account list \<Rightarrow> nat list \<Rightarrow> portfolio_entry list
    \<Rightarrow> balance_state \<Rightarrow> world \<Rightarrow> portfolio_entry list \<times> balance_state \<times> world" where
  "portfolio_rows c accounts [] entries st w = (entries, st, w)"
| "portfolio_rows c accounts (i # is) entries st w =
     (case portfolio_row c (accounts ! i) st w of
        (e, st1, w1) \<Rightarrow> portfolio_rows c accounts is (entries[i := e]) st1 w1)"

definition zero_portfolio_entry :: portfolio_entry where
  "zero_portfolio_entry =
     \<lparr>pe_chain = [], pe_network = [], pe_address = [], pe_result = None, pe_error = []\<rparr>"

definition get_portfolio :: "balance_config \<Rightarrow> raw \<Rightarrow> portfolio_entry list balances" where
  \<open>get_portfolio c params st w =
     (case decode_strict_json (GStruct [field ''accounts'' (GSlice portfolio_account_type)]) params of
        None \<Rightarrow> (Inl (invalid_params ''invalid params: expected non-empty {"accounts":[...]}''), st, w)
      | Some p \<Rightarrow>
          (let accounts = map portfolio_account_of (slice_field p ''accounts'') in
           if accounts = []
           then (Inl (invalid_params ''invalid params: expected non-empty {"accounts":[...]}''), st, w)
           else if 16 < length accounts
           then (Inl (invalid_params ''invalid params: "accounts" exceeds 16''), st, w)
           else
             (case portfolio_rows c accounts (bc_schedule c (length accounts))
                (replicate (length accounts) zero_portfolio_entry) st w of
                (entries, st1, w1) \<Rightarrow> (Inr entries, st1, w1))))\<close>

end
