(* ===== verification/Balances_Facts.thy ===== *)
theory Balances_Facts
  imports Balances History_Bound
begin

section \<open>What a balance answer rests on\<close>

subsection \<open>The fingerprint\<close>

text \<open>The order of a token list does not matter for its fingerprint.\<close>

lemma token_set_hash_order:
  assumes "mset ts = mset us"
  shows "token_set_hash sha ts = token_set_hash sha us"
proof -
  have "mset (sort (map token_item us)) = mset (map token_item ts)" using assms by simp
  then have "sort (map token_item ts) = sort (map token_item us)" by (rule properties_for_sort) simp
  then show ?thesis by (simp add: token_set_hash_def token_set_text_def)
qed

text \<open>
  Without separators in contracts and symbols the text under the hash determines the tokens, as a
  multiset. With them it does not, which the samples show.
\<close>

definition plain_token :: "token_ref \<Rightarrow> bool" where
  "plain_token t \<longleftrightarrow> CHR 0x00 \<notin> set (tk_contract t) \<and> CHR 0x0A \<notin> set (tk_contract t) \<and>
     CHR 0x00 \<notin> set (tk_symbol t) \<and> CHR 0x0A \<notin> set (tk_symbol t)"

lemma cut_at: "c \<notin> set x \<Longrightarrow> c \<notin> set x' \<Longrightarrow> x @ c # y = x' @ c # y' \<longleftrightarrow> x = x' \<and> y = y'"
proof (induction x arbitrary: x')
  case Nil
  then show ?case by (cases x') auto
next
  case (Cons a x)
  then show ?case by (cases x') auto
qed

lemma join_Cons: "xs \<noteq> [] \<Longrightarrow> join [c] (x # xs) = x @ c # join [c] xs"
  by (cases xs) simp_all

lemma join_inj:
  "join [c] xs = join [c] ys \<Longrightarrow> \<forall>x \<in> set xs \<union> set ys. c \<notin> set x \<and> x \<noteq> [] \<Longrightarrow> xs = ys"
proof (induction xs arbitrary: ys)
  case Nil
  then show ?case by (cases ys; cases "tl ys") auto
next
  case (Cons x xs)
  obtain y ys' where ys: "ys = y # ys'" using Cons.prems by (cases ys; cases xs) (auto simp: join_Cons)
  have c: "c \<notin> set x" "c \<notin> set y" using Cons.prems(2) ys by auto
  show ?case
  proof (cases "xs = [] \<or> ys' = []")
    case True
    have "c \<in> set (join [c] (x # xs)) \<longleftrightarrow> xs \<noteq> []" "c \<in> set (join [c] ys) \<longleftrightarrow> ys' \<noteq> []"
      using c by (cases xs; simp add: join_Cons) (cases ys'; simp add: ys join_Cons c)
    with True Cons.prems(1) have "xs = []" "ys' = []" by auto
    then show ?thesis using Cons.prems(1) ys by simp
  next
    case False
    then have "x @ c # join [c] xs = y @ c # join [c] ys'" using Cons.prems(1) ys by (simp add: join_Cons)
    then have "x = y" "join [c] xs = join [c] ys'" using cut_at [OF c] by blast+
    then show ?thesis using Cons.IH [of ys'] Cons.prems(2) ys by simp
  qed
qed

lemma dec_of_int_no_nul: "0 \<le> i \<Longrightarrow> c \<in> set (dec_of_int i) \<Longrightarrow> is_digit c"
  using dec_of_nat_digits [of "nat i"] by (auto simp: dec_of_int_def list_all_iff)

lemma token_item_inj:
  assumes "plain_token t" "plain_token u" "0 \<le> tk_decimals t" "0 \<le> tk_decimals u" "token_item t = token_item u"
  shows "t = u"
proof -
  have nul: "CHR 0x00 \<notin> set (dec_of_int i)" if "0 \<le> i" for i
    using dec_of_int_no_nul [OF that, of "CHR 0x00"] by (auto simp: is_digit_def byte_of_def)
  have "tk_contract t = tk_contract u \<and> dec_of_int (tk_decimals t) = dec_of_int (tk_decimals u) \<and> tk_symbol t = tk_symbol u"
    using assms nul [OF assms(3)] nul [OF assms(4)] by (simp add: token_item_def plain_token_def cut_at)
  with dec_of_int_inj assms(3,4) show ?thesis by (cases t; cases u) auto
qed

lemma token_item_text:
  assumes "plain_token t" "0 \<le> tk_decimals t"
  shows "CHR 0x0A \<notin> set (token_item t)" "token_item t \<noteq> []"
proof -
  have "CHR 0x0A \<notin> set (dec_of_int (tk_decimals t))"
    using dec_of_int_no_nul [OF assms(2), of "CHR 0x0A"] by (auto simp: is_digit_def byte_of_def)
  then show "CHR 0x0A \<notin> set (token_item t)" "token_item t \<noteq> []"
    using assms(1) by (auto simp: token_item_def plain_token_def)
qed

lemma token_set_text_inj:
  assumes "token_set_text ts = token_set_text us"
    and "\<forall>t \<in> set ts \<union> set us. plain_token t \<and> 0 \<le> tk_decimals t"
  shows "mset ts = mset us"
proof -
  have "sort (map token_item ts) = sort (map token_item us)"
    using assms(1) unfolding token_set_text_def by (rule join_inj) (use assms(2) token_item_text in auto)
  then have "mset (map token_item ts) = mset (map token_item us)" by (metis mset_sort)
  moreover let ?inv = "inv_into (set ts \<union> set us) token_item"
  have "inj_on token_item (set ts \<union> set us)"
    using assms(2) token_item_inj by (auto intro!: inj_onI)
  then have "map ?inv (map token_item ts) = ts" "map ?inv (map token_item us) = us"
    by (auto simp: map_idI)
  ultimately show ?thesis by (metis mset_map)
qed

subsection \<open>Reading the tokens\<close>

lemma read_tokens_nth:
  assumes "read_tokens rd tokens is entries g w = (Inr out, g', w')"
  shows "length out = length entries"
    "i \<in> set is \<Longrightarrow> i < length entries \<Longrightarrow> \<exists>g1 w1 g2 w2. rd (tokens ! i) g1 w1 = (Inr (out ! i), g2, w2)"
    "i \<notin> set is \<Longrightarrow> out ! i = entries ! i"
proof -
  have "length out = length entries \<and>
    (\<forall>i. (i \<in> set is \<longrightarrow> i < length entries \<longrightarrow> (\<exists>g1 w1 g2 w2. rd (tokens ! i) g1 w1 = (Inr (out ! i), g2, w2))) \<and>
       (i \<notin> set is \<longrightarrow> out ! i = entries ! i))"
    using assms
  proof (induction "is" arbitrary: entries g w)
    case Nil
    then show ?case by (simp add: h_return_def)
  next
    case (Cons k "is")
    then obtain e g1 w1 where e: "rd (tokens ! k) g w = (Inr e, g1, w1)"
      "read_tokens rd tokens is (entries[k := e]) g1 w1 = (Inr out, g', w')"
      by (auto simp: h_bind_def split: prod.splits sum.splits)
    note ih = Cons.IH [OF e(2)]
    show ?case
    proof (cases "k \<in> set is")
      case True
      with ih show ?thesis by (auto simp: nth_list_update)
    next
      case False
      with ih have "k < length entries \<Longrightarrow> out ! k = e" by simp
      with ih e(1) show ?thesis by (auto simp: nth_list_update)
    qed
  qed
  then show "length out = length entries"
    "i \<in> set is \<Longrightarrow> i < length entries \<Longrightarrow> \<exists>g1 w1 g2 w2. rd (tokens ! i) g1 w1 = (Inr (out ! i), g2, w2)"
    "i \<notin> set is \<Longrightarrow> out ! i = entries ! i" by blast+
qed

text \<open>A schedule that runs every goroutine.\<close>

definition schedule_ok :: "(nat \<Rightarrow> nat list) \<Rightarrow> bool" where
  "schedule_ok schedule \<longleftrightarrow> (\<forall>n. distinct (schedule n) \<and> set (schedule n) = {..<n})"

text \<open>
  What an entry owes its token: its identity, and either an error with the balance zero or a balance
  the client of the chain read for this token and address.
\<close>

definition token_ref_of_entry :: "token_balance_entry \<Rightarrow> token_ref" where
  "token_ref_of_entry e =
     \<lparr>tk_contract = te_contract e, tk_decimals = te_decimals e, tk_symbol = te_symbol e\<rparr>"

definition balance_read :: "gateway_env \<Rightarrow> balances_request \<Rightarrow> string \<Rightarrow> int \<Rightarrow> bool" where
  "balance_read env q contract n \<longleftrightarrow>
     (if cm_evm (bq_meta q)
      then \<exists>p w p' w'. evm_token_balance (ge_net env) contract (bq_address q) p w = (Inr n, p', w')
      else if bq_chain q = ''tron''
      then \<exists>t w w'. tron_trc20_balance (ge_sha env) (ge_net env) t (bq_address q) contract w = (Inr n, w')
      else \<exists>p w p' w'. solana_get_token_balance (ge_net env) (bq_address q) contract p w = (Inr n, p', w'))"

definition entry_ok :: "gateway_env \<Rightarrow> balances_request \<Rightarrow> token_balance_entry \<Rightarrow> bool" where
  "entry_ok env q e \<longleftrightarrow>
     (if te_error e \<noteq> [] then te_raw e = ''0''
      else \<exists>n. te_raw e = dec_of_int n \<and> balance_read env q (te_contract e) n)"

lemma token_entry_facts [simp]:
  "token_ref_of_entry (token_entry t r) = t"
  "te_error (token_entry t r) = [] \<longleftrightarrow> \<not> isl r"
  "te_error (token_entry t r) \<noteq> [] \<Longrightarrow> te_raw (token_entry t r) = ''0''"
  "te_contract (token_entry t r) = tk_contract t"
  "te_raw (token_entry t (Inr n)) = dec_of_int n"
  by (auto simp: token_entry_def token_ref_of_entry_def new_token_entry_def split: sum.splits)

lemma token_entry_ok:
  assumes "\<And>n. r = Inr n \<Longrightarrow> balance_read env q (tk_contract t) n"
  shows "token_ref_of_entry (token_entry t r) = t \<and> entry_ok env q (token_entry t r)"
  using assms by (cases r) (auto simp: entry_ok_def)

lemma evm_entry_ok:
  assumes "evm_token_entry env network (bq_address q) t g w = (Inr e, g', w')" "cm_evm (bq_meta q)"
  shows "token_ref_of_entry e = t \<and> entry_ok env q e"
proof (cases "evm_address_re (tk_contract t)")
  case False
  with assms show ?thesis
    by (auto simp: evm_token_entry_def h_return_def entry_ok_def new_token_entry_def token_ref_of_entry_def)
next
  case True
  then obtain r p w1 where r: "evm_token_balance (ge_net env) (tk_contract t) (bq_address q) (gw_evm g network) w = (r, p, w1)"
    "e = token_entry t r"
    using assms(1) by (auto simp: evm_token_entry_def h_bind_def on_evm_def h_return_def split: prod.splits)
  show ?thesis unfolding r(2) by (rule token_entry_ok) (use r(1) assms(2) in \<open>auto simp: balance_read_def\<close>)
qed

lemma tron_entry_ok:
  assumes "h_bind (on_tron network (\<lambda>t. tron_trc20_balance (ge_sha env) (ge_net env) t (bq_address q) (tk_contract token)))
      (\<lambda>r. h_return (token_entry token r)) g w = (Inr e, g', w')"
    "\<not> cm_evm (bq_meta q)" "bq_chain q = ''tron''"
  shows "token_ref_of_entry e = token \<and> entry_ok env q e"
proof -
  obtain r w1 where r: "tron_trc20_balance (ge_sha env) (ge_net env) (gw_tron g network) (bq_address q) (tk_contract token) w = (r, w1)"
    "e = token_entry token r"
    using assms(1) by (auto simp: h_bind_def on_tron_def h_return_def split: prod.splits)
  show ?thesis unfolding r(2) by (rule token_entry_ok) (use r(1) assms(2,3) in \<open>auto simp: balance_read_def\<close>)
qed

lemma solana_entry_ok:
  assumes "h_bind (on_sol network (solana_get_token_balance (ge_net env) (bq_address q) (tk_contract token)))
      (\<lambda>r. h_return (token_entry token r)) g w = (Inr e, g', w')"
    "\<not> cm_evm (bq_meta q)" "bq_chain q \<noteq> ''tron''"
  shows "token_ref_of_entry e = token \<and> entry_ok env q e"
proof -
  obtain r p w1 where r: "solana_get_token_balance (ge_net env) (bq_address q) (tk_contract token) (gw_sol g network) w = (r, p, w1)"
    "e = token_entry token r"
    using assms(1) by (auto simp: h_bind_def on_sol_def h_return_def split: prod.splits)
  show ?thesis unfolding r(2) by (rule token_entry_ok) (use r(1) assms(2,3) in \<open>auto simp: balance_read_def\<close>)
qed

text \<open>The native balance, and the rows in the order of the request whatever the schedule was.\<close>

definition native_read :: "gateway_env \<Rightarrow> balances_request \<Rightarrow> int \<Rightarrow> bool" where
  "native_read env q n \<longleftrightarrow>
     (if cm_evm (bq_meta q) then \<exists>p w p' w'. evm_get_balance (ge_net env) (bq_address q) p w = (Inr n, p', w')
      else if bq_chain q = ''tron''
      then \<exists>t w a w'. tron_get_account (ge_sha env) path_escape (ge_net env) t (bq_address q) w = (Inr a, w') \<and>
        n = ta_balance a
      else \<exists>p w p' w'. solana_get_balance (ge_net env) (bq_address q) p w = (Inr n, p', w'))"

definition balances_match :: "gateway_env \<Rightarrow> balances_request \<Rightarrow> balances_result \<Rightarrow> bool" where
  "balances_match env q r \<longleftrightarrow>
     map token_ref_of_entry (br_tokens r) = bq_tokens q \<and> list_all (entry_ok env q) (br_tokens r) \<and>
     (\<exists>n. br_native r = native_entry (bq_meta q) n \<and> native_read env q n)"

lemma tokens_irrelevant [simp]:
  "entry_ok env (q\<lparr>bq_tokens := ts\<rparr>) = entry_ok env q"
  "native_read env (q\<lparr>bq_tokens := ts\<rparr>) = native_read env q"
  by (auto simp: fun_eq_iff entry_ok_def balance_read_def native_read_def)

lemma account_balances_match:
  assumes "account_balances (schedule (length (bq_tokens q))) (bq_meta q) native rd (bq_tokens q) g w = (Inr r, g', w')"
    and "schedule_ok schedule"
    and "\<And>t g w e g' w'. rd t g w = (Inr e, g', w') \<Longrightarrow> token_ref_of_entry e = t \<and> entry_ok env q e"
    and "\<And>n g w g' w'. native g w = (Inr n, g', w') \<Longrightarrow> native_read env q n"
  shows "balances_match env q r"
proof -
  let ?tokens = "bq_tokens q"
  obtain n g1 w1 entries where s: "native g w = (Inr n, g1, w1)"
    "read_tokens rd ?tokens (schedule (length ?tokens)) (replicate (length ?tokens) zero_token_entry) g1 w1 = (Inr entries, g', w')"
    "r = \<lparr>br_chain = [], br_network = [], br_address = [], br_native = native_entry (bq_meta q) n, br_tokens = entries\<rparr>"
    using assms(1) by (auto simp: account_balances_def h_bind_def h_return_def split: prod.splits sum.splits)
  have len: "length entries = length ?tokens" using read_tokens_nth(1) [OF s(2)] by simp
  have "token_ref_of_entry (entries ! i) = ?tokens ! i \<and> entry_ok env q (entries ! i)" if "i < length ?tokens" for i
    using read_tokens_nth(2) [OF s(2), of i] that assms(2,3) by (fastforce simp: schedule_ok_def)
  then have "map token_ref_of_entry entries = ?tokens" "list_all (entry_ok env q) entries"
    using len by (auto simp: list_all_length intro!: nth_equalityI)
  then show ?thesis using s assms(4) by (auto simp: balances_match_def)
qed

theorem fetch_balances_match:
  assumes run: "fetch_balances c q g w = (Inr r, g', w')" and sched: "schedule_ok (bc_schedule c)"
  shows "balances_match (bc_env c) q r"
proof -
  consider (evm) "cm_evm (bq_meta q)" | (tron) "\<not> cm_evm (bq_meta q)" "bq_chain q = ''tron''"
    | (solana) "\<not> cm_evm (bq_meta q)" "bq_chain q \<noteq> ''tron''" by blast
  then show ?thesis
  proof cases
    case evm
    note run1 = run [unfolded fetch_balances_def Let_def if_P [OF evm] evm_balances_def]
    show ?thesis
      by (rule account_balances_match [OF run1 sched])
        (use evm evm_entry_ok in \<open>auto simp: native_read_def or_upstream_error_Inr on_evm_def split: prod.splits\<close>)
  next
    case tron
    note run1 = run [unfolded fetch_balances_def Let_def if_not_P [OF tron(1)] if_P [OF tron(2)] tron_balances_def]
    show ?thesis
      by (rule account_balances_match [OF run1 sched])
        (use tron tron_entry_ok in \<open>auto simp: native_read_def or_upstream_error_Inr on_tron_def rest_bind_def
           rest_lift_def split: prod.splits sum.splits\<close>)
  next
    case solana
    note run1 = run [unfolded fetch_balances_def Let_def if_not_P [OF solana(1)] if_not_P [OF solana(2)] solana_balances_def]
    show ?thesis
      by (rule account_balances_match [OF run1 sched])
        (use solana solana_entry_ok in \<open>auto simp: native_read_def or_upstream_error_Inr on_sol_def split: prod.splits\<close>)
  qed
qed

subsection \<open>Through the cache\<close>

definition accepted_balances :: "gateway_env \<Rightarrow> balances_request \<Rightarrow> bool" where
  "accepted_balances env q \<longleftrightarrow> (\<exists>params. checked_balances env params = Inr q)"

text \<open>
  What an answer owes a request: chain, network and address; the native coin's denomination; and rows
  for a token list with the fingerprint of the one requested.
\<close>

definition answers_balances :: "gateway_env \<Rightarrow> balances_result \<Rightarrow> balances_request \<Rightarrow> bool" where
  "answers_balances env r q \<longleftrightarrow>
     br_chain r = bq_chain q \<and> br_network r = bq_network q \<and> br_address r = bq_address q \<and>
     (\<exists>tokens. token_set_hash (ge_sha env) tokens = token_set_hash (ge_sha env) (bq_tokens q) \<and>
        balances_match env (q\<lparr>bq_tokens := tokens\<rparr>) r)"

lemma accepted_balances_parts:
  assumes "accepted_balances env q"
  shows "CHR ''|'' \<notin> set (bq_network q)" "CHR ''|'' \<notin> set (bq_address q)"
    "chains (bq_chain q) = Some (bq_meta q)" "\<exists>m. networks (bq_network q) = Some m \<and> nm_chain m = bq_chain q"
    "\<forall>t \<in> set (bq_tokens q). 0 \<le> tk_decimals t"
proof -
  have tokens: "check_tokens i ts = None \<Longrightarrow> \<forall>t \<in> set ts. 0 \<le> tk_decimals t" for i ts
    by (induction ts arbitrary: i) (auto split: if_splits)
  obtain n where q: "chains (bq_chain q) = Some (bq_meta q)" "resolve_network (bq_chain q) n = Inr (bq_network q)"
    "validate_address (ge_sha env) (bq_chain q) (bq_address q) = None" "check_tokens 0 (bq_tokens q) = None"
    using assms by (auto simp: accepted_balances_def checked_balances_def Let_def validate_chain_def check_def
        split: option.splits)
  show "chains (bq_chain q) = Some (bq_meta q)" by (fact q)
  show net: "\<exists>m. networks (bq_network q) = Some m \<and> nm_chain m = bq_chain q"
    using resolve_network_registered [OF q(1,2)] by blast
  show "CHR ''|'' \<notin> set (bq_network q)" using net network_no_bar by blast
  show "CHR ''|'' \<notin> set (bq_address q)" using valid_address_no_bar q(1,3) by blast
  show "\<forall>t \<in> set (bq_tokens q). 0 \<le> tk_decimals t" using tokens q(4) by blast
qed

lemma balances_key_inj:
  assumes "accepted_balances env q" "accepted_balances env q'" "balances_key sha q = balances_key sha q'"
  shows "bq_network q = bq_network q'" "bq_address q = bq_address q'" "bq_chain q = bq_chain q'"
    "bq_meta q = bq_meta q'" "token_set_hash sha (bq_tokens q) = token_set_hash sha (bq_tokens q')"
proof -
  note p = accepted_balances_parts [OF assms(1)] and p' = accepted_balances_parts [OF assms(2)]
  have "join ''|'' [bq_network q, bq_address q, token_set_hash sha (bq_tokens q)] =
      join ''|'' [bq_network q', bq_address q', token_set_hash sha (bq_tokens q')]"
    using assms(3) by (simp add: balances_key_def)
  from join_bar_inj [OF p(1,2) p'(1,2) this]
  show n: "bq_network q = bq_network q'" "bq_address q = bq_address q'"
    "token_set_hash sha (bq_tokens q) = token_set_hash sha (bq_tokens q')" by blast+
  then show c: "bq_chain q = bq_chain q'" using p(4) p'(4) by auto
  then show "bq_meta q = bq_meta q'" using p(3) p'(3) by simp
qed

interpretation rows: cached_answers "accepted_balances env" "balances_key (ge_sha env)" "answers_balances env" for env
proof unfold_locales
  fix q q' v
  assume a: "accepted_balances env q" "accepted_balances env q'"
    "balances_key (ge_sha env) q = balances_key (ge_sha env) q'" "answers_balances env v q"
  note k = balances_key_inj [OF a(1-3)]
  have "q\<lparr>bq_tokens := ts\<rparr> = q'\<lparr>bq_tokens := ts\<rparr>" for ts using k by (cases q; cases q') simp
  with a(4) k show "answers_balances env v q'" unfolding answers_balances_def by metis
qed

abbreviation balances_kept :: "balance_config \<Rightarrow> balance_state \<Rightarrow> bool" where
  "balances_kept c st \<equiv>
     keeps_answers (accepted_balances (bc_env c)) (balances_key (ge_sha (bc_env c))) (answers_balances (bc_env c)) (bs_cache st)"

lemma bind_balances_answers:
  "balances_match env q r \<Longrightarrow> answers_balances env (bind_balances q r) q"
  by (auto simp: answers_balances_def bind_balances_def balances_match_def intro!: exI [of _ "bq_tokens q"])

lemma get_balances_answers:
  assumes "balances_kept c st" "schedule_ok (bc_schedule c)" "get_balances c params st w = (res, st', w')"
  shows "balances_kept c st'"
    "checked_balances (bc_env c) params = Inr q \<Longrightarrow> res = Inr r \<Longrightarrow> answers_balances (bc_env c) r q"
proof -
  have "balances_kept c st' \<and>
    (checked_balances (bc_env c) params = Inr q \<longrightarrow> res = Inr r \<longrightarrow> answers_balances (bc_env c) r q)"
  proof (cases "checked_balances (bc_env c) params")
    case (Inl e)
    then show ?thesis using assms by (simp add: get_balances_def)
  next
    case (Inr q')
    then have acc: "accepted_balances (bc_env c) q'" by (auto simp: accepted_balances_def)
    let ?key = "balances_key (ge_sha (bc_env c)) q'"
    obtain ch hit where get: "cache_get balances_codec (w_now w) (w_now w) ?key (bc_store_get c ?key w) (bs_cache st) = (ch, hit)"
      by fastforce
    note kept = rows.kept_get [OF assms(1) get]
    show ?thesis
    proof (cases hit)
      case (Some v)
      then show ?thesis
        using assms(3) Inr get kept rows.kept_hit [OF assms(1) acc, of _ _ _ _ _ v]
        by (auto simp: get_balances_def)
    next
      case None
      obtain f g w2 where fetch: "fetch_balances c q' (bs_gateway st) w = (f, g, w2)" by (metis prod_cases3)
      show ?thesis
      proof (cases f)
        case (Inl e)
        then show ?thesis using assms(3) \<open>checked_balances _ _ = Inr q'\<close> get None fetch kept
          by (auto simp: get_balances_def)
      next
        case (Inr r')
        then have "answers_balances (bc_env c) (bind_balances q' r') q'"
          using fetch_balances_match [OF _ assms(2)] fetch bind_balances_answers by blast
        then show ?thesis
          using assms(3) \<open>checked_balances _ _ = Inr q'\<close> get None fetch Inr rows.kept_set [OF kept acc]
          by (auto simp: get_balances_def Let_def split: prod.splits)
      qed
    qed
  qed
  then show "balances_kept c st'"
    "checked_balances (bc_env c) params = Inr q \<Longrightarrow> res = Inr r \<Longrightarrow> answers_balances (bc_env c) r q" by blast+
qed

text \<open>Runs of a gateway whose balance cache has no shared store.\<close>

inductive balances_run :: "balance_config \<Rightarrow> balance_state \<Rightarrow> bool" for c where
  start: "bs_cache st = new_cache ttl \<Longrightarrow> balances_run c st"
| request: "balances_run c st \<Longrightarrow> get_balances c params st w = (r, st', w') \<Longrightarrow> balances_run c st'"
| other: "balances_run c st \<Longrightarrow> bs_cache st' = bs_cache st \<Longrightarrow> balances_run c st'"

lemma balances_run_kept:
  assumes "balances_run c st" "schedule_ok (bc_schedule c)"
  shows "balances_kept c st"
  using assms
proof (induction rule: balances_run.induct)
  case (start st ttl)
  then show ?case by (simp add: rows.kept_new)
next
  case (request st params w r st' w')
  then show ?case using get_balances_answers(1) by blast
qed simp

subsection \<open>What a later request with the same fingerprint is told\<close>

lemma get_balances_stored:
  assumes "get_balances c params st w = (Inr r, st', w')" "checked_balances (bc_env c) params = Inr q"
    and "ch_namespace (bs_cache st) = None"
    and "snd (get_local (w_now w) (balances_key (ge_sha (bc_env c)) q) (bs_cache st)) = None"
  shows "ch_namespace (bs_cache st') = None"
    "map_of (ch_m (bs_cache st')) (balances_key (ge_sha (bc_env c)) q) = Some (r, w_now w' + ch_ttl (bs_cache st))"
proof -
  let ?key = "balances_key (ge_sha (bc_env c)) q"
  obtain ch where get: "get_local (w_now w) ?key (bs_cache st) = (ch, None)"
    using assms(4) by (metis prod.collapse)
  have ch: "ch_namespace ch = None" "ch_ttl ch = ch_ttl (bs_cache st)"
    using get assms(3) by (auto simp: get_local_def split: option.splits if_splits)
  obtain f g w2 where fetch: "fetch_balances c q (bs_gateway st) w = (f, g, w2)" by (metis prod_cases3)
  obtain r0 where "f = Inr r0" using assms(1-3) get fetch
    by (cases f) (auto simp: get_balances_def cache_get_local_only)
  then have "bs_cache st' = set_local (w_now w') ?key r (w_now w' + ch_ttl ch) ch"
    using assms(1-3) get fetch ch
    by (auto simp: get_balances_def cache_get_local_only cache_set_local_only Let_def)
  then show "ch_namespace (bs_cache st') = None"
    "map_of (ch_m (bs_cache st')) ?key = Some (r, w_now w' + ch_ttl (bs_cache st))"
    using ch by (simp_all add: set_local_def update_conv')
qed

theorem same_fingerprint_same_answer:
  assumes "get_balances c params st w = (Inr r, st', w')" "checked_balances (bc_env c) params = Inr q"
    and "ch_namespace (bs_cache st) = None"
    and "snd (get_local (w_now w) (balances_key (ge_sha (bc_env c)) q) (bs_cache st)) = None"
    and "checked_balances (bc_env c) params' = Inr (q\<lparr>bq_tokens := ts\<rparr>)"
    and "token_set_hash (ge_sha (bc_env c)) ts = token_set_hash (ge_sha (bc_env c)) (bq_tokens q)"
    and "w_now w2 \<le> w_now w' + ch_ttl (bs_cache st)"
  shows "fst (get_balances c params' st' w2) = Inr r"
proof -
  note stored = get_balances_stored [OF assms(1-4)]
  have "balances_key (ge_sha (bc_env c)) (q\<lparr>bq_tokens := ts\<rparr>) = balances_key (ge_sha (bc_env c)) q"
    using assms(6) by (simp add: balances_key_def)
  with stored assms(5,7) show ?thesis
    by (simp add: get_balances_def cache_get_local_only get_local_def)
qed

lemma get_balances_rows:
  assumes "get_balances c params st w = (Inr r, st', w')" "checked_balances (bc_env c) params = Inr q"
    and "ch_namespace (bs_cache st) = None" "schedule_ok (bc_schedule c)"
    and "snd (get_local (w_now w) (balances_key (ge_sha (bc_env c)) q) (bs_cache st)) = None"
  shows "map token_ref_of_entry (br_tokens r) = bq_tokens q"
proof -
  obtain ch where get: "get_local (w_now w) (balances_key (ge_sha (bc_env c)) q) (bs_cache st) = (ch, None)"
    using assms(5) by (metis prod.collapse)
  obtain f g w2 where fetch: "fetch_balances c q (bs_gateway st) w = (f, g, w2)" by (metis prod_cases3)
  obtain r0 where r0: "f = Inr r0" "r = bind_balances q r0" using assms(1-3) get fetch
    by (cases f) (auto simp: get_balances_def cache_get_local_only Let_def split: prod.splits)
  then show ?thesis
    using fetch_balances_match [OF _ assms(4)] fetch by (fastforce simp: balances_match_def bind_balances_def)
qed

text \<open>One symbol can spell the separators and a second token.\<close>

lemma fingerprint_collision:
  "token_set_text [\<lparr>tk_contract = ''a'', tk_decimals = 6,
     tk_symbol = ''A'' @ [CHR 0x0A] @ ''b'' @ [CHR 0x00] @ ''6'' @ [CHR 0x00] @ ''B''\<rparr>] =
   token_set_text [\<lparr>tk_contract = ''a'', tk_decimals = 6, tk_symbol = ''A''\<rparr>,
     \<lparr>tk_contract = ''b'', tk_decimals = 6, tk_symbol = ''B''\<rparr>]"
  by code_simp

subsection \<open>The portfolio\<close>

lemma portfolio_rows_nth:
  assumes "portfolio_rows c accounts is entries st w = (out, st', w')"
  shows "length out = length entries"
    "distinct is \<Longrightarrow> i \<in> set is \<Longrightarrow> i < length entries \<Longrightarrow>
       \<exists>st1 w1. out ! i = fst (portfolio_row c (accounts ! i) st1 w1)"
proof -
  have "length out = length entries \<and> (\<forall>i. i \<notin> set is \<longrightarrow> out ! i = entries ! i) \<and>
    (distinct is \<longrightarrow> (\<forall>i \<in> set is. i < length entries \<longrightarrow>
       (\<exists>st1 w1. out ! i = fst (portfolio_row c (accounts ! i) st1 w1))))"
    using assms
  proof (induction "is" arbitrary: entries st w)
    case Nil
    then show ?case by simp
  next
    case (Cons k "is")
    obtain e st1 w1 where e: "portfolio_row c (accounts ! k) st w = (e, st1, w1)" by (metis prod_cases3)
    then have run: "portfolio_rows c accounts is (entries[k := e]) st1 w1 = (out, st', w')"
      using Cons.prems by simp
    from Cons.IH [OF run] have "k \<notin> set is \<Longrightarrow> k < length entries \<Longrightarrow> out ! k = e" by simp
    with Cons.IH [OF run] e show ?case by (auto simp: nth_list_update) (metis fst_conv)
  qed
  then show "length out = length entries"
    "distinct is \<Longrightarrow> i \<in> set is \<Longrightarrow> i < length entries \<Longrightarrow>
       \<exists>st1 w1. out ! i = fst (portfolio_row c (accounts ! i) st1 w1)" by blast+
qed

theorem portfolio_row_per_account:
  assumes "get_portfolio c params st w = (Inr entries, st', w')" "schedule_ok (bc_schedule c)"
  shows "\<exists>p. decode_strict_json (GStruct [field ''accounts'' (GSlice portfolio_account_type)]) params = Some p \<and>
    (let accounts = map portfolio_account_of (slice_field p ''accounts'') in
     length entries = length accounts \<and> length entries \<le> 16 \<and>
     (\<forall>i < length entries. \<exists>st1 w1. entries ! i = fst (portfolio_row c (accounts ! i) st1 w1)))"
  using assms portfolio_rows_nth
  by (fastforce simp: get_portfolio_def Let_def schedule_ok_def split: option.splits if_splits prod.splits)

text \<open>
  Apart from the order, the fingerprint determines the tokens as long as no contract or symbol
  contains the two separator characters, which no check of the request excludes: with them, one
  token can have the fingerprint text of two others.
\<close>

theorem token_fingerprint_determines_tokens:
  "(\<forall>ts us. token_set_text ts = token_set_text us \<longrightarrow>
      (\<forall>t \<in> set ts \<union> set us. plain_token t \<and> 0 \<le> tk_decimals t) \<longrightarrow> mset ts = mset us) \<and>
   (\<exists>ts us. token_set_text ts = token_set_text us \<and> check_tokens 0 ts = None \<and> check_tokens 0 us = None \<and>
      length ts = 1 \<and> length us = 2)"
proof (intro conjI allI impI)
  fix ts us
  assume "token_set_text ts = token_set_text us" "\<forall>t \<in> set ts \<union> set us. plain_token t \<and> 0 \<le> tk_decimals t"
  then show "mset ts = mset us" by (rule token_set_text_inj)
next
  let ?one = "[\<lparr>tk_contract = ''a'', tk_decimals = 6,
     tk_symbol = ''A'' @ [CHR 0x0A] @ ''b'' @ [CHR 0x00] @ ''6'' @ [CHR 0x00] @ ''B''\<rparr>]"
  let ?two = "[\<lparr>tk_contract = ''a'', tk_decimals = 6, tk_symbol = ''A''\<rparr>,
     \<lparr>tk_contract = ''b'', tk_decimals = 6, tk_symbol = ''B''\<rparr>]"
  have "check_tokens 0 ?one = None" "check_tokens 0 ?two = None" by code_simp+
  then show "\<exists>ts us. token_set_text ts = token_set_text us \<and> check_tokens 0 ts = None \<and>
      check_tokens 0 us = None \<and> length ts = 1 \<and> length us = 2"
    using fingerprint_collision by (intro exI [of _ ?one] exI [of _ ?two]) simp
qed

end
