(* ===== verification/Balances_Samples.thy ===== *)
theory Balances_Samples
  imports Balances_Facts History_Samples
begin

section \<open>A balance request, answered and repeated\<close>

text \<open>A Polygon account holding five wei, and two tokens whose contracts are no addresses.\<close>

definition five_wei :: string where
  \<open>five_wei = ''{"jsonrpc":"2.0","id":1,"result":"0x5"}''\<close>

definition balance_config_sample :: balance_config where
  "balance_config_sample =
     \<lparr>bc_env = \<lparr>ge_net = replies [five_wei], ge_sha = (\<lambda>bs. bs),
        ge_printable = (\<lambda>s. True)\<rparr>,
      bc_store_get = (\<lambda>k w. Inl ErrNotFound), bc_store_set = (\<lambda>k w. True), bc_schedule = (\<lambda>n. rev [0..<n])\<rparr>"

definition balance_start :: balance_state where
  "balance_start = \<lparr>bs_gateway = (hs_gateway history_start)\<lparr>gw_evm := (\<lambda>n. new_pool ''eth'' [''p''] 0)\<rparr>,
      bs_cache = new_cache (seconds 10)\<rparr>"

definition token_param :: "string \<Rightarrow> json" where
  "token_param c = JObj [(''contract'', JStr c), (''decimals'', JNum ''6''), (''symbol'', JStr ''S'')]"

definition balance_params :: "string list \<Rightarrow> raw" where
  "balance_params contracts =
     Some (JObj [(''chain'', JStr ''polygon''), (''address'', JStr wallet),
       (''tokens'', JArr (map token_param contracts))])"

definition token_ref_s :: "string \<Rightarrow> token_ref" where
  "token_ref_s c = \<lparr>tk_contract = c, tk_decimals = 6, tk_symbol = ''S''\<rparr>"

definition balance_request :: "string list \<Rightarrow> balances_request" where
  "balance_request contracts =
     \<lparr>bq_chain = ''polygon'', bq_meta = \<lparr>cm_symbol = ''POL'', cm_decimals = 18, cm_evm = True\<rparr>,
      bq_network = ''polygon-mainnet'', bq_address = wallet, bq_tokens = map token_ref_s contracts\<rparr>"

lemma balance_checked:
  "checked_balances (bc_env balance_config_sample) (balance_params [''b'', ''a'']) = Inr (balance_request [''b'', ''a''])"
  "checked_balances (bc_env balance_config_sample) (balance_params [''a'', ''b'']) = Inr (balance_request [''a'', ''b''])"
  by code_simp+

definition balance_run :: "(rpc_error + balances_result) \<times> balance_state \<times> world" where
  "balance_run = get_balances balance_config_sample (balance_params [''b'', ''a'']) balance_start sample_world"

lemma balance_answer:
  "(case balance_run of (Inr r, st, w) \<Rightarrow> (map te_contract (br_tokens r), be_raw (br_native r), w_now w)
     | _ \<Rightarrow> ([], [], 0)) = ([''b'', ''a''], ''5'', 1005)"
  by code_simp

lemma sample_schedule: "schedule_ok (bc_schedule balance_config_sample)"
  by (auto simp: schedule_ok_def balance_config_sample_def)

end
