(* ===== verification/App_Diagnostics.thy ===== *)
theory App_Diagnostics
  imports Gateway Official_Tokens
begin

section \<open>kt_reportDiagnostics\<close>

text \<open>
  \<open>handlers/app_diagnostics.go\<close>. The state is one row of five 64-bit counters per platform and
  metric name, and an upload counter per platform. Go's \<open>int\<close> has 64 bits, so the sum of two
  fields of a row wraps.
\<close>

definition app_diagnostic_metric_order :: "string list" where
  "app_diagnostic_metric_order =
     [''app.startup'', ''app.flutterError'', ''app.platformError'', ''app.nativeFatal'', ''app.nativeAnr'',
      ''market.refresh'', ''history.refresh'', ''history.loadMore'', ''transaction.prepare'',
      ''transaction.sign'', ''transaction.broadcast'', ''transaction.finality'']"

definition app_diagnostic_platforms :: "string list" where
  "app_diagnostic_platforms = [''android'', ''ios'']"

definition version_number :: "string \<Rightarrow> bool" where
  "version_number ds \<longleftrightarrow> 1 \<le> length ds \<and> length ds \<le> 4"

definition version_char :: "char \<Rightarrow> bool" where
  "version_char c \<longleftrightarrow> is_digit c \<or> is_upper c \<or> is_lower c \<or> c = CHR ''.'' \<or> c = CHR ''-''"

text \<open>
  \<open>appVersionRE\<close>. No dot is a digit, so the longest run of digits is the only way to match a number.
\<close>

definition app_version_re :: "string \<Rightarrow> bool" where
  "app_version_re s =
     (let major = takeWhile is_digit s; s1 = dropWhile is_digit s;
          minor = takeWhile is_digit (drop 1 s1); s2 = dropWhile is_digit (drop 1 s1);
          patch = takeWhile is_digit (drop 1 s2); s3 = dropWhile is_digit (drop 1 s2)
      in version_number major \<and> version_number minor \<and> version_number patch \<and>
         s1 \<noteq> [] \<and> hd s1 = CHR ''.'' \<and> s2 \<noteq> [] \<and> hd s2 = CHR ''.'' \<and>
         (case s3 of
            [] \<Rightarrow> True
          | c # tail \<Rightarrow> (c = CHR ''-'' \<or> c = CHR ''+'') \<and> 1 \<le> length tail \<and> length tail \<le> 32 \<and>
              list_all version_char tail))"

record diagnostic_counters =
  dc_reports :: "64 word"
  dc_success :: "64 word"
  dc_failure :: "64 word"
  dc_p50_sum :: "64 word"
  dc_p95_sum :: "64 word"

record diagnostic_metrics =
  dm_uploads :: "(string \<times> 64 word) list"
  dm_rows :: "((string \<times> string) \<times> diagnostic_counters) list"

definition zero_counters :: diagnostic_counters where
  "zero_counters = \<lparr>dc_reports = 0, dc_success = 0, dc_failure = 0, dc_p50_sum = 0, dc_p95_sum = 0\<rparr>"

definition diagnostic_labels :: "(string \<times> string) list" where
  "diagnostic_labels = List.product app_diagnostic_platforms app_diagnostic_metric_order"

definition new_app_diagnostic_metrics :: diagnostic_metrics where
  "new_app_diagnostic_metrics =
     \<lparr>dm_uploads = map (\<lambda>p. (p, 0)) app_diagnostic_platforms,
      dm_rows = map (\<lambda>l. (l, zero_counters)) diagnostic_labels\<rparr>"

record diagnostic_row =
  dr_name :: string
  dr_count :: int
  dr_success :: int
  dr_failure :: int
  dr_p50 :: int
  dr_p95 :: int

record diagnostic_report =
  ds_schema :: int
  ds_consent :: bool
  ds_version :: string
  ds_platform :: string
  ds_locale :: string
  ds_build_mode :: string
  ds_metrics :: "diagnostic_row list"

definition diagnostic_report_type :: gtype where
  "diagnostic_report_type =
     GStruct [field ''schemaVersion'' GInt, field ''consent'' GBool, field ''appVersion'' GString,
       field ''platform'' GString, field ''locale'' GString, field ''buildMode'' GString,
       field ''metrics'' (GSlice (GStruct [field ''name'' GString, field ''count'' GInt,
         field ''successCount'' GInt, field ''failureCount'' GInt, field ''p50Ms'' GInt, field ''p95Ms'' GInt]))]"

definition diagnostic_row_of :: "gval \<Rightarrow> diagnostic_row" where
  "diagnostic_row_of v =
     \<lparr>dr_name = str_field v ''name'', dr_count = int_field v ''count'',
      dr_success = int_field v ''successCount'', dr_failure = int_field v ''failureCount'',
      dr_p50 = int_field v ''p50Ms'', dr_p95 = int_field v ''p95Ms''\<rparr>"

definition diagnostic_report_of :: "gval \<Rightarrow> diagnostic_report" where
  "diagnostic_report_of v =
     \<lparr>ds_schema = int_field v ''schemaVersion'', ds_consent = bool_field v ''consent'',
      ds_version = str_field v ''appVersion'', ds_platform = str_field v ''platform'',
      ds_locale = str_field v ''locale'', ds_build_mode = str_field v ''buildMode'',
      ds_metrics = map diagnostic_row_of (slice_field v ''metrics'')\<rparr>"

text \<open>Addition of two Go \<open>int\<close> values.\<close>

definition int_add :: "int \<Rightarrow> int \<Rightarrow> int" where
  "int_add a b = (a + b + 2 ^ 63) mod 2 ^ 64 - 2 ^ 63"

fun diagnostic_rows_ok :: "string list \<Rightarrow> diagnostic_row list \<Rightarrow> bool" where
  "diagnostic_rows_ok seen [] = True"
| "diagnostic_rows_ok seen (row # rows) =
     (if dr_name row \<notin> set app_diagnostic_metric_order \<or> dr_name row \<in> set seen \<or>
         dr_count row < 1 \<or> 100 < dr_count row \<or> dr_success row < 0 \<or> dr_failure row < 0 \<or>
         int_add (dr_success row) (dr_failure row) \<noteq> dr_count row \<or>
         dr_p50 row < 0 \<or> dr_p95 row < dr_p50 row \<or> 6 * 60 * 60 * 1000 < dr_p95 row
      then False else diagnostic_rows_ok (dr_name row # seen) rows)"

definition diagnostic_report_ok :: "diagnostic_report \<Rightarrow> bool" where
  "diagnostic_report_ok r \<longleftrightarrow>
     ds_schema r = 1 \<and> ds_consent r \<and> app_version_re (ds_version r) \<and>
     ds_platform r \<in> set app_diagnostic_platforms \<and>
     ds_locale r \<in> {''en'', ''zh'', ''ja'', ''other''} \<and>
     ds_build_mode r \<in> {''release'', ''profile'', ''debug''} \<and>
     ds_metrics r \<noteq> [] \<and> length (ds_metrics r) \<le> length app_diagnostic_metric_order \<and>
     diagnostic_rows_ok [] (ds_metrics r)"

definition count_row :: "diagnostic_row \<Rightarrow> diagnostic_counters \<Rightarrow> diagnostic_counters" where
  "count_row row c =
     c\<lparr>dc_reports := dc_reports c + 1, dc_success := dc_success c + of_int (dr_success row),
       dc_failure := dc_failure c + of_int (dr_failure row),
       dc_p50_sum := dc_p50_sum c + of_int (dr_p50 row), dc_p95_sum := dc_p95_sum c + of_int (dr_p95 row)\<rparr>"

definition update_row :: "'k \<Rightarrow> ('v \<Rightarrow> 'v) \<Rightarrow> ('k \<times> 'v) list \<Rightarrow> ('k \<times> 'v) list" where
  "update_row k f rows = map (\<lambda>(l, v). (l, if l = k then f v else v)) rows"

fun count_rows :: "string \<Rightarrow> diagnostic_row list \<Rightarrow> diagnostic_metrics \<Rightarrow> diagnostic_metrics" where
  "count_rows platform [] m = m"
| "count_rows platform (row # rows) m =
     count_rows platform rows
       (m\<lparr>dm_rows := update_row (platform, dr_name row) (count_row row) (dm_rows m)\<rparr>)"

definition invalid_app_diagnostics :: rpc_error where
  "invalid_app_diagnostics =
     invalid_params ''invalid params: expected a consented, aggregate-only diagnostics schema''"

definition diagnostics_accepted :: json where
  "diagnostics_accepted = JObj [(''accepted'', JBool True), (''rawEventsStored'', JBool False)]"

definition report_app_diagnostics ::
  "raw \<Rightarrow> diagnostic_metrics \<Rightarrow> (rpc_error + json) \<times> diagnostic_metrics" where
  "report_app_diagnostics params m =
     (case decode_strict_json diagnostic_report_type params of
        None \<Rightarrow> (Inl invalid_app_diagnostics, m)
      | Some v \<Rightarrow>
          (let r = diagnostic_report_of v in
           if \<not> diagnostic_report_ok r then (Inl invalid_app_diagnostics, m)
           else
             (let m1 = count_rows (ds_platform r) (ds_metrics r) m in
              (Inr diagnostics_accepted,
               m1\<lparr>dm_uploads := update_row (ds_platform r) (\<lambda>n. n + 1) (dm_uploads m1)\<rparr>))))"

subsection \<open>Nothing but counters under fixed labels\<close>

text \<open>
  The wrapped sum of two non-negative 64-bit values is a small positive number only if it is the sum.
\<close>

lemma int_add_exact:
  assumes "0 \<le> a" "a < 2 ^ 63" "0 \<le> b" "b < 2 ^ 63" "int_add a b = c" "0 \<le> c"
  shows "a + b = c"
proof (cases "a + b < 2 ^ 63")
  case True
  then show ?thesis using assms by (simp add: int_add_def)
next
  case False
  have "(a + b + 2 ^ 63) mod 2 ^ 64 = a + b + 2 ^ 63 - 2 ^ 64"
    using False assms(1-4) by (simp add: mod_pos_geq)
  then have "c < 0" using assms(2,4,5) by (simp add: int_add_def)
  then show ?thesis using assms(6) by simp
qed

lemma update_row_keys [simp]: "map fst (update_row k f rows) = map fst rows"
  by (simp add: update_row_def comp_def split_def)

lemma count_rows_labels:
  "map fst (dm_rows (count_rows platform rows m)) = map fst (dm_rows m) \<and>
   dm_uploads (count_rows platform rows m) = dm_uploads m"
  by (induction platform rows m rule: count_rows.induct) simp_all

definition diagnostics_inv :: "diagnostic_metrics \<Rightarrow> bool" where
  "diagnostics_inv m \<longleftrightarrow>
     map fst (dm_rows m) = diagnostic_labels \<and> map fst (dm_uploads m) = app_diagnostic_platforms"

lemma diagnostics_inv_new: "diagnostics_inv new_app_diagnostic_metrics"
  by (simp add: diagnostics_inv_def new_app_diagnostic_metrics_def comp_def)

lemma report_keeps_inv: "diagnostics_inv m \<Longrightarrow> diagnostics_inv (snd (report_app_diagnostics params m))"
  using count_rows_labels
  by (simp add: report_app_diagnostics_def diagnostics_inv_def Let_def split: option.split)

lemma rejected_report_counts_nothing:
  "isl (fst (report_app_diagnostics params m)) \<Longrightarrow> snd (report_app_diagnostics params m) = m"
  by (auto simp: report_app_diagnostics_def Let_def split: option.splits if_splits)

text \<open>
  The new state depends on the platform and the numbers of the rows only: two accepted reports that
  agree on them, whatever their version, locale and build mode, have the same effect and answer.
\<close>

lemma report_reveals_only_rows:
  assumes "decode_strict_json diagnostic_report_type p1 = Some v1" "decode_strict_json diagnostic_report_type p2 = Some v2"
    and "diagnostic_report_ok (diagnostic_report_of v1)" "diagnostic_report_ok (diagnostic_report_of v2)"
    and "ds_platform (diagnostic_report_of v1) = ds_platform (diagnostic_report_of v2)"
    and "ds_metrics (diagnostic_report_of v1) = ds_metrics (diagnostic_report_of v2)"
  shows "report_app_diagnostics p1 m = report_app_diagnostics p2 m"
  using assms by (simp add: report_app_diagnostics_def Let_def)

lemma map_of_update_row:
  "map_of (update_row k f rows) l = (if l = k then map_option f (map_of rows l) else map_of rows l)"
  by (induction rows) (auto simp: update_row_def)

lemma diagnostic_rows_ok_iff:
  "diagnostic_rows_ok seen rows \<longleftrightarrow>
     distinct (map dr_name rows) \<and> set (map dr_name rows) \<inter> set seen = {} \<and>
     (\<forall>row \<in> set rows. dr_name row \<in> set app_diagnostic_metric_order \<and> 1 \<le> dr_count row \<and> dr_count row \<le> 100 \<and>
        0 \<le> dr_success row \<and> 0 \<le> dr_failure row \<and>
        int_add (dr_success row) (dr_failure row) = dr_count row \<and>
        0 \<le> dr_p50 row \<and> dr_p50 row \<le> dr_p95 row \<and> dr_p95 row \<le> 6 * 60 * 60 * 1000)"
  by (induction seen rows rule: diagnostic_rows_ok.induct) (auto simp: not_less)

text \<open>The effect of a report on the counters of one label.\<close>

lemma count_rows_lookup:
  assumes "distinct (map dr_name rows)"
  shows "map_of (dm_rows (count_rows platform rows m)) (p, name) =
    (if p = platform then
       (case filter (\<lambda>row. dr_name row = name) rows of
          [] \<Rightarrow> map_of (dm_rows m) (p, name)
        | row # _ \<Rightarrow> map_option (count_row row) (map_of (dm_rows m) (p, name)))
     else map_of (dm_rows m) (p, name))"
  using assms
proof (induction platform rows m rule: count_rows.induct)
  case (2 platform row rows m)
  have "filter (\<lambda>r. dr_name r = dr_name row) rows = []"
    using "2.prems" by (fastforce simp: filter_empty_conv image_iff)
  with 2 show ?case by (auto simp: map_of_update_row split: list.split)
qed simp

text \<open>An accepted report.\<close>

definition sample_report :: raw where
  "sample_report = Some (JObj [(''schemaVersion'', JNum ''1''), (''consent'', JBool True),
     (''appVersion'', JStr ''1.2.3''), (''platform'', JStr ''ios''), (''locale'', JStr ''en''),
     (''buildMode'', JStr ''release''), (''metrics'', JArr [JObj [(''name'', JStr ''app.startup''),
       (''count'', JNum ''3''), (''successCount'', JNum ''2''), (''failureCount'', JNum ''1''),
       (''p50Ms'', JNum ''10''), (''p95Ms'', JNum ''20'')]])])"

lemma sample_report_accepted: "\<not> isl (fst (report_app_diagnostics sample_report new_app_diagnostic_metrics))"
  by code_simp

text \<open>
  A diagnostics report changes nothing but counters under fixed labels. A refused report counts
  nothing at all; any report keeps the fixed set of rows; and an accepted one adds, for each of its
  distinct metrics, one report and the stated successes and failures, whose sum is the stated count
  although Go adds them in 64 bits, to the row of its platform and metric, leaving every other
  platform's rows alone.
\<close>

theorem diagnostics_count_only:
  assumes "diagnostics_inv m" and "report_app_diagnostics params m = (r, m')"
  shows "diagnostics_inv m' \<and> (isl r \<longrightarrow> m' = m) \<and>
    (\<not> isl r \<longrightarrow> (\<exists>v. decode_strict_json diagnostic_report_type params = Some v \<and>
       (let report = diagnostic_report_of v in
        ds_consent report \<and> distinct (map dr_name (ds_metrics report)) \<and>
        (\<forall>p name. map_of (dm_rows m') (p, name) =
           (case filter (\<lambda>row. p = ds_platform report \<and> dr_name row = name) (ds_metrics report) of
              [] \<Rightarrow> map_of (dm_rows m) (p, name)
            | row # _ \<Rightarrow> map_option (count_row row) (map_of (dm_rows m) (p, name)))))))"
proof (intro conjI impI)
  show "diagnostics_inv m'" using report_keeps_inv [OF assms(1)] assms(2) by (metis snd_conv)
  show "m' = m" if "isl r" using rejected_report_counts_nothing assms(2) that by (metis fst_conv snd_conv)
  assume "\<not> isl r"
  then obtain v where v: "decode_strict_json diagnostic_report_type params = Some v"
    "diagnostic_report_ok (diagnostic_report_of v)"
    "dm_rows m' = dm_rows (count_rows (ds_platform (diagnostic_report_of v)) (ds_metrics (diagnostic_report_of v)) m)"
    using assms(2) by (auto simp: report_app_diagnostics_def Let_def split: option.splits if_splits)
  then have "ds_consent (diagnostic_report_of v)" "distinct (map dr_name (ds_metrics (diagnostic_report_of v)))"
    by (simp_all add: diagnostic_report_ok_def diagnostic_rows_ok_iff)
  with v show "\<exists>v. decode_strict_json diagnostic_report_type params = Some v \<and>
       (let report = diagnostic_report_of v in
        ds_consent report \<and> distinct (map dr_name (ds_metrics report)) \<and>
        (\<forall>p name. map_of (dm_rows m') (p, name) =
           (case filter (\<lambda>row. p = ds_platform report \<and> dr_name row = name) (ds_metrics report) of
              [] \<Rightarrow> map_of (dm_rows m) (p, name)
            | row # _ \<Rightarrow> map_option (count_row row) (map_of (dm_rows m) (p, name)))))"
    by (intro exI [of _ v]) (simp add: count_rows_lookup split: list.split)
qed

end
