(* ===== verification/Prices.thy ===== *)
theory Prices
  imports Official_Tokens Limiter Cached_Answers
begin

section \<open>Prices\<close>

text \<open>
  \<open>upstream/prices.go\<close> and \<open>handlers/prices.go\<close>. A \<open>float64\<close> is a rational, rounded by \<open>float64\<close>
  after every operation; a quotient that is infinite in Go is too large for every range checked here
  as a rational as well. The transport waits of the outbound limiter, and the JSON form of cached
  prices (floats and a time as \<open>encoding/json\<close> prints them), are parameters.
\<close>

subsection \<open>Quotes\<close>

record market_quote =
  mq_usd :: rat
  mq_cny :: rat
  mq_jpy :: rat
  mq_change :: "rat option"
  mq_last_updated :: instant

definition max_coin_gecko_ids :: nat where "max_coin_gecko_ids = 50"
definition max_coin_gecko_id_length :: nat where "max_coin_gecko_id_length = 80"
definition max_coin_gecko_quote_age :: duration where "max_coin_gecko_quote_age = minutes 15"
definition max_coin_gecko_future_clock_skew :: duration where "max_coin_gecko_future_clock_skew = minutes 5"
definition max_coin_gecko_24h_change :: rat where "max_coin_gecko_24h_change = 1000000000"
definition max_coin_gecko_fx_deviation :: rat where "max_coin_gecko_fx_deviation = float64 (5 / 1000)"
definition min_coin_gecko_cny_per_usd :: rat where "min_coin_gecko_cny_per_usd = float64 (1 / 10)"
definition max_coin_gecko_cny_per_usd :: rat where "max_coin_gecko_cny_per_usd = 100"
definition min_coin_gecko_jpy_per_usd :: rat where "min_coin_gecko_jpy_per_usd = 1"
definition max_coin_gecko_jpy_per_usd :: rat where "max_coin_gecko_jpy_per_usd = 10000"

text \<open>Hyphen-separated words of digits and small letters, none of them empty.\<close>

definition coin_gecko_id_pattern :: "string \<Rightarrow> bool" where
  "coin_gecko_id_pattern s \<longleftrightarrow>
     list_all (\<lambda>word. word \<noteq> [] \<and> list_all (\<lambda>c. is_digit c \<or> is_lower c) word) (split_on CHR ''-'' s)"

definition validate_coin_gecko_ids :: "string list \<Rightarrow> string list option" where
  "validate_coin_gecko_ids ids =
     (if ids = [] \<or> max_coin_gecko_ids < length ids then None
      else if list_all (\<lambda>i. i \<noteq> [] \<and> length i \<le> max_coin_gecko_id_length \<and> coin_gecko_id_pattern i) ids \<and>
              distinct ids
      then Some (sort ids) else None)"

text \<open>\<open>strconv.ParseFloat\<close> fails on a literal whose value rounds to an infinity.\<close>

definition parse_float :: "string \<Rightarrow> rat option" where
  "parse_float lit =
     (if float_finite (rat_of_literal lit) then Some (float64 (rat_of_literal lit)) else None)"

definition parse_positive_finite_json_number :: "raw \<Rightarrow> rat option" where
  "parse_positive_finite_json_number raw =
     (case raw of
        Some (JNum lit) \<Rightarrow>
          (case parse_float lit of Some v \<Rightarrow> if v \<le> 0 then None else Some v | None \<Rightarrow> None)
      | _ \<Rightarrow> None)"

definition parse_nullable_coin_gecko_change :: "raw \<Rightarrow> rat option option" where
  "parse_nullable_coin_gecko_change raw =
     (case raw of
        Some JNull \<Rightarrow> Some None
      | Some (JNum lit) \<Rightarrow>
          (case parse_float lit of
             Some v \<Rightarrow> if v < - 100 \<or> max_coin_gecko_24h_change < v then None else Some (Some v)
           | None \<Rightarrow> None)
      | _ \<Rightarrow> None)"

definition parse_coin_gecko_timestamp :: "raw \<Rightarrow> instant \<Rightarrow> instant option" where
  "parse_coin_gecko_timestamp raw now =
     (case raw of
        Some (JNum lit) \<Rightarrow>
          if \<not> all_digits lit then None
          else (let sec = int (nat_of_dec lit) in
                if 2 ^ 63 \<le> sec \<or> sec \<le> 0 then None
                else (let updated_at = sec * nanos_per_second in
                      if updated_at < now - max_coin_gecko_quote_age \<or>
                         now + max_coin_gecko_future_clock_skew < updated_at
                      then None else Some updated_at))
      | _ \<Rightarrow> None)"

definition coin_gecko_members :: "string list" where
  "coin_gecko_members =
     [''usd'', ''usd_24h_change'', ''cny'', ''cny_24h_change'', ''jpy'', ''jpy_24h_change'', ''last_updated_at'']"

definition decode_coin_gecko_quote :: "raw \<Rightarrow> instant \<Rightarrow> market_quote option" where
  "decode_coin_gecko_quote raw now =
     do {
       obj \<leftarrow> decode_exact_json_object raw coin_gecko_members;
       guard_opt (list_all (\<lambda>k. obj k \<noteq> None) coin_gecko_members);
       usd \<leftarrow> parse_positive_finite_json_number (obj ''usd'');
       cny \<leftarrow> parse_positive_finite_json_number (obj ''cny'');
       jpy \<leftarrow> parse_positive_finite_json_number (obj ''jpy'');
       change \<leftarrow> parse_nullable_coin_gecko_change (obj ''usd_24h_change'');
       parse_nullable_coin_gecko_change (obj ''cny_24h_change'');
       parse_nullable_coin_gecko_change (obj ''jpy_24h_change'');
       updated_at \<leftarrow> parse_coin_gecko_timestamp (obj ''last_updated_at'') now;
       Some \<lparr>mq_usd = usd, mq_cny = cny, mq_jpy = jpy, mq_change = change, mq_last_updated = updated_at\<rparr>
     }"

subsection \<open>Exchange rates\<close>

definition finite_in_range :: "rat \<Rightarrow> rat \<Rightarrow> rat \<Rightarrow> bool" where
  "finite_in_range v minimum maximum \<longleftrightarrow> minimum \<le> v \<and> v \<le> maximum"

definition cny_rate :: "market_quote \<Rightarrow> rat" where "cny_rate q = float64 (mq_cny q / mq_usd q)"
definition jpy_rate :: "market_quote \<Rightarrow> rat" where "jpy_rate q = float64 (mq_jpy q / mq_usd q)"

definition median_rate :: "rat list \<Rightarrow> rat" where
  "median_rate rates =
     (let sorted = sort rates; middle = length sorted div 2 in
      if length sorted mod 2 = 1 then sorted ! middle
      else float64 (float64 (sorted ! (middle - 1) + sorted ! middle) / 2))"

text \<open>\<open>ratesAgree\<close> computes the same median with the cases the other way round.\<close>

definition rates_agree :: "rat list \<Rightarrow> bool" where
  "rates_agree rates \<longleftrightarrow>
     length rates < 2 \<or>
     (let sorted = sort rates; upper = sorted ! (length sorted div 2);
          median = (if length sorted mod 2 = 0
                    then float64 (float64 (sorted ! (length sorted div 2 - 1) + upper) / 2) else upper)
      in list_all (\<lambda>rate. \<bar>float64 (float64 (rate / median) - 1)\<bar> \<le> max_coin_gecko_fx_deviation) sorted)"

definition validate_coin_gecko_fx_consistency :: "market_quote list \<Rightarrow> bool" where
  "validate_coin_gecko_fx_consistency quotes \<longleftrightarrow>
     list_all (\<lambda>q. finite_in_range (cny_rate q) min_coin_gecko_cny_per_usd max_coin_gecko_cny_per_usd \<and>
       finite_in_range (jpy_rate q) min_coin_gecko_jpy_per_usd max_coin_gecko_jpy_per_usd) quotes \<and>
     rates_agree (map cny_rate quotes) \<and> rates_agree (map jpy_rate quotes)"

text \<open>The quotes, in the order of the response's members.\<close>

definition coin_gecko_entry ::
  "(string \<rightharpoonup> json) \<Rightarrow> string list \<Rightarrow> instant \<Rightarrow> string \<Rightarrow> (string \<times> market_quote) option" where
  "coin_gecko_entry objects expected now i =
     (if i \<notin> set expected then None
      else map_option (\<lambda>q. (i, q)) (decode_coin_gecko_quote (objects i) now))"

definition decode_coin_gecko_quotes ::
  "raw \<Rightarrow> string list \<Rightarrow> instant \<Rightarrow> (string \<times> market_quote) list option" where
  "decode_coin_gecko_quotes raw expected now =
     do {
       objects \<leftarrow> decode_unique_json_object raw;
       guard_opt (length (object_keys raw) = length expected);
       out \<leftarrow> map_opt (coin_gecko_entry objects expected now) (object_keys raw);
       guard_opt (list_all (\<lambda>i. i \<in> set (map fst out)) expected);
       guard_opt (validate_coin_gecko_fx_consistency (map snd out));
       Some out
     }"

subsection \<open>The client\<close>

definition coin_gecko_url :: "string \<Rightarrow> string list \<Rightarrow> string" where
  "coin_gecko_url base ids =
     base @ ''/api/v3/simple/price?'' @ query_string
       [(''ids'', join '','' ids), (''include_24hr_change'', ''true''), (''include_last_updated_at'', ''true''),
        (''precision'', ''full''), (''vs_currencies'', ''usd,cny,jpy'')]"

definition coin_gecko_fetch :: "pool_env \<Rightarrow> string \<Rightarrow> string rest" where
  "coin_gecko_fetch env url w =
     (let (reply, w1) = exchange env (url, []) w in
      (case hr_outcome reply of
         RequestInvalid \<Rightarrow> Inl (Unavailable ''coingecko'' ''could not create upstream request'')
       | TransportFailed timed_out \<Rightarrow> Inl (safe_request_failure ''coingecko'' timed_out (hr_ctx_done reply))
       | Responded st bd \<Rightarrow>
           (case Option.bind bd (\<lambda>b. read_bounded_response b (2 ^ 20)) of
              None \<Rightarrow> Inl (Unavailable ''coingecko'' ''could not read upstream response'')
            | Some data \<Rightarrow>
                if st \<noteq> 200 then Inl (Unavailable ''coingecko'' (''CoinGecko returned HTTP '' @ dec_of_int st))
                else Inr data), w1))"

record coin_gecko =
  cg_base :: string
  cg_limiter :: interval

definition new_coin_gecko :: "string \<Rightarrow> interval \<Rightarrow> coin_gecko" where
  "new_coin_gecko base limiter = \<lparr>cg_base = trim_right_slashes base, cg_limiter = limiter\<rparr>"

text \<open>
  \<open>pc_wake\<close> is the clock when the limiter lets a call go, and whether the request's context ended the
  wait. \<open>time.Now()\<close> for the age of the quotes is read after the answer.
\<close>

record usd_price =
  up_usd :: rat
  up_change24h :: "rat option"

record cached_prices =
  cp_prices :: "(string \<times> usd_price) list"
  cp_fiat_per_usd :: "(string \<times> rat) list"
  cp_at :: instant

record price_config =
  pc_env :: gateway_env
  pc_unicode :: unicode_env
  pc_wake :: "interval \<Rightarrow> world \<Rightarrow> instant \<times> bool"
  pc_codec :: "cached_prices codec"
  pc_store_get :: "string \<Rightarrow> world \<Rightarrow> store_error + string"
  pc_store_set :: "string \<Rightarrow> world \<Rightarrow> bool"

definition simple_price ::
  "price_config \<Rightarrow> string list \<Rightarrow> coin_gecko \<Rightarrow> world
     \<Rightarrow> (go_error + (string \<times> market_quote) list) \<times> coin_gecko \<times> world" where
  "simple_price c ids cg w =
     (case validate_coin_gecko_ids ids of
        None \<Rightarrow> (Inl (Unavailable ''coingecko'' ''invalid CoinGecko request''), cg, w)
      | Some request_ids \<Rightarrow>
          (let (later, cancelled) = pc_wake c (cg_limiter cg) w;
               (ok, limiter) = interval_wait (cg_limiter cg) (w_now w) later cancelled;
               cg1 = cg\<lparr>cg_limiter := limiter\<rparr>; w1 = w\<lparr>w_now := later\<rparr>
           in if \<not> ok
              then (Inl (Unavailable ''coingecko'' ''request canceled while waiting for upstream rate limit''), cg1, w1)
              else
                (case coin_gecko_fetch (ge_net (pc_env c)) (coin_gecko_url (cg_base cg) request_ids) w1 of
                   (Inl e, w2) \<Rightarrow> (Inl e, cg1, w2)
                 | (Inr data, w2) \<Rightarrow>
                     ((case decode_coin_gecko_quotes (json_parse data) ids (w_now w2) of
                         None \<Rightarrow> Inl (Unavailable ''coingecko'' ''malformed CoinGecko response'')
                       | Some out \<Rightarrow> Inr out), cg1, w2))))"

subsection \<open>kt_getPrices\<close>

definition gecko_id_table :: "(string \<times> string) list" where
  "gecko_id_table =
     [(''ETH'', ''ethereum''), (''POL'', ''polygon-ecosystem-token''), (''AVAX'', ''avalanche-2''),
      (''BNB'', ''binancecoin''), (''TRX'', ''tron''), (''SOL'', ''solana''), (''USDT'', ''tether''),
      (''USDC'', ''usd-coin''), (''BUSD'', ''binance-usd''), (''DAI'', ''dai''), (''WETH'', ''weth''),
      (''WBTC'', ''wrapped-bitcoin''), (''LINK'', ''chainlink''), (''UNI'', ''uniswap''),
      (''SHIB'', ''shiba-inu''), (''PEPE'', ''pepe''), (''JUP'', ''jupiter-exchange-solana''),
      (''BONK'', ''bonk''), (''PYUSD'', ''paypal-usd'')]"

definition gecko_ids :: "string \<rightharpoonup> string" where "gecko_ids = map_of gecko_id_table"

definition prices_ttl :: duration where "prices_ttl = seconds 30"

record price_state =
  prs_coin_gecko :: coin_gecko
  prs_cache :: "cached_prices cache"

record price_result =
  pr_prices :: "(string \<times> usd_price) list"
  pr_fiat_per_usd :: "(string \<times> rat) list"
  pr_cached_at_ms :: int

text \<open>The known symbols of a request, each once; unknown ones are skipped.\<close>

fun symbols_to_fetch :: "unicode_env \<Rightarrow> string list \<Rightarrow> string list \<Rightarrow> string list" where
  "symbols_to_fetch uc seen [] = []"
| "symbols_to_fetch uc seen (s # ss) =
     (let sym = uc_upper uc (trim_space s) in
      if sym = [] \<or> sym \<in> set seen then symbols_to_fetch uc seen ss
      else (if gecko_ids sym \<noteq> None then [sym] else []) @ symbols_to_fetch uc (sym # seen) ss)"

definition price_params_type :: gtype where
  "price_params_type = GStruct [field ''symbols'' (GSlice GString)]"

definition checked_prices :: "unicode_env \<Rightarrow> raw \<Rightarrow> rpc_error + string list" where
  \<open>checked_prices uc params =
     bind_sum (or_error (decode_strict_json price_params_type params)
         (invalid_params ''invalid params: expected {"symbols": [...]}''))
       (\<lambda>p. if slice_field p ''symbols'' = []
             then Inl (invalid_params ''invalid params: "symbols" must be a non-empty array'')
             else Inr (sort (symbols_to_fetch uc [] (string_items p ''symbols''))))\<close>

definition usd_price_of :: "market_quote \<Rightarrow> usd_price" where
  "usd_price_of q = \<lparr>up_usd = mq_usd q, up_change24h = mq_change q\<rparr>"

text \<open>
  What is cached and answered after a fetch. \<open>res[geckoIDs[sym]]\<close> of an absent quote is the zero
  quote; \<open>SimplePrice\<close> never returns without every quote asked for, so the lookup is total here.
\<close>

definition fetched_prices :: "string list \<Rightarrow> (string \<times> market_quote) list \<Rightarrow> instant \<Rightarrow> cached_prices" where
  "fetched_prices fetch res now =
     (let quotes = map (\<lambda>sym. (sym, the (map_of res (the (gecko_ids sym))))) fetch in
      \<lparr>cp_prices = map (\<lambda>(sym, q). (sym, usd_price_of q)) quotes,
       cp_fiat_per_usd = [(''USD'', 1), (''CNY'', median_rate (map (cny_rate \<circ> snd) quotes)),
         (''JPY'', median_rate (map (jpy_rate \<circ> snd) quotes))],
       cp_at = now\<rparr>)"

text \<open>The cached rates overwrite the preset one.\<close>

definition answer_prices :: "cached_prices \<Rightarrow> price_result" where
  "answer_prices p =
     \<lparr>pr_prices = cp_prices p,
      pr_fiat_per_usd = fold (\<lambda>(k, v). AList.update k v) (cp_fiat_per_usd p) [(''USD'', 1)],
      pr_cached_at_ms = unix_milli (cp_at p)\<rparr>"

definition no_prices :: "instant \<Rightarrow> cached_prices" where
  "no_prices now = \<lparr>cp_prices = [], cp_fiat_per_usd = [], cp_at = now\<rparr>"

definition get_prices ::
  "price_config \<Rightarrow> raw \<Rightarrow> price_state \<Rightarrow> world \<Rightarrow> (rpc_error + price_result) \<times> price_state \<times> world" where
  "get_prices c params st w =
     (case checked_prices (pc_unicode c) params of
        Inl e \<Rightarrow> (Inl e, st, w)
      | Inr fetch \<Rightarrow>
          if fetch = [] then (Inr (answer_prices (no_prices (w_now w))), st, w)
          else
            (let key = join '','' fetch;
                 (ch, hit) = cache_get (pc_codec c) (w_now w) (w_now w) key (pc_store_get c key w) (prs_cache st);
                 st1 = st\<lparr>prs_cache := ch\<rparr>
             in case hit of
                  Some p \<Rightarrow> (Inr (answer_prices p), st1, w)
                | None \<Rightarrow>
                    (case simple_price c (map (the \<circ> gecko_ids) fetch) (prs_coin_gecko st1) w of
                       (Inl e, cg, w1) \<Rightarrow> (Inl (upstream_error ''coingecko'' e), st1\<lparr>prs_coin_gecko := cg\<rparr>, w1)
                     | (Inr res, cg, w1) \<Rightarrow>
                         (let p = fetched_prices fetch res (w_now w1);
                              (ch2, _) = cache_set (pc_codec c) (w_now w1) key p (pc_store_set c key w1) ch
                          in (Inr (answer_prices p),
                              st1\<lparr>prs_coin_gecko := cg, prs_cache := ch2\<rparr>, w1)))))"

end
