(* ===== verification/Prices_Facts.thy ===== *)
theory Prices_Facts
  imports Prices Balances_Facts
begin

section \<open>What a price answer rests on\<close>

subsection \<open>Accepted quotes\<close>

definition quote_ok :: "instant \<Rightarrow> market_quote \<Rightarrow> bool" where
  "quote_ok now q \<longleftrightarrow>
     0 < mq_usd q \<and> 0 < mq_cny q \<and> 0 < mq_jpy q \<and>
     (\<forall>ch. mq_change q = Some ch \<longrightarrow> - 100 \<le> ch \<and> ch \<le> 1000000000) \<and>
     now - minutes 15 \<le> mq_last_updated q \<and> mq_last_updated q \<le> now + minutes 5"

lemma quote_members:
  "parse_positive_finite_json_number raw = Some v \<Longrightarrow> 0 < v"
  "parse_nullable_coin_gecko_change raw = Some (Some ch) \<Longrightarrow> - 100 \<le> ch \<and> ch \<le> 1000000000"
  "parse_coin_gecko_timestamp raw now = Some t \<Longrightarrow> now - minutes 15 \<le> t \<and> t \<le> now + minutes 5"
  by (auto simp: parse_positive_finite_json_number_def parse_nullable_coin_gecko_change_def
      parse_coin_gecko_timestamp_def max_coin_gecko_24h_change_def max_coin_gecko_quote_age_def
      max_coin_gecko_future_clock_skew_def Let_def split: option.splits json.splits if_splits)

lemma decode_coin_gecko_quote_ok: "decode_coin_gecko_quote raw now = Some q \<Longrightarrow> quote_ok now q"
  unfolding decode_coin_gecko_quote_def quote_ok_def
  using quote_members by (fastforce simp: bind_eq_Some_conv)

lemma coin_gecko_entry_Some:
  "coin_gecko_entry objects expected now i = Some x \<Longrightarrow> fst x = i \<and> i \<in> set expected \<and> quote_ok now (snd x)"
  by (auto simp: coin_gecko_entry_def dest: decode_coin_gecko_quote_ok split: if_splits)

lemma decode_coin_gecko_quotes_Some:
  assumes "decode_coin_gecko_quotes raw expected now = Some out" "distinct expected"
  shows "distinct (map fst out)" "set (map fst out) = set expected" "\<forall>q \<in> snd ` set out. quote_ok now q"
    "validate_coin_gecko_fx_consistency (map snd out)"
proof -
  from assms(1) obtain objects where o: "decode_unique_json_object raw = Some objects"
    "map_opt (coin_gecko_entry objects expected now) (object_keys raw) = Some out"
    "list_all (\<lambda>i. i \<in> set (map fst out)) expected" "validate_coin_gecko_fx_consistency (map snd out)"
    by (auto simp: decode_coin_gecko_quotes_def bind_eq_Some_conv)
  have len: "length out = length (object_keys raw)" using map_opt_length [OF o(2)] .
  have entry: "fst (out ! i) = object_keys raw ! i \<and> fst (out ! i) \<in> set expected \<and> quote_ok now (snd (out ! i))"
    if "i < length out" for i
    using coin_gecko_entry_Some map_opt_nth [OF o(2), of i] that len by fastforce
  have keys: "map fst out = object_keys raw" by (rule nth_equalityI) (use len entry in auto)
  then show "distinct (map fst out)" using o(1) by (auto simp: decode_unique_json_object_iff object_keys_def)
  have "\<forall>x \<in> set out. fst x \<in> set expected \<and> quote_ok now (snd x)" using entry by (metis in_set_conv_nth)
  then show "set (map fst out) = set expected" "\<forall>q \<in> snd ` set out. quote_ok now q"
    using o(3) by (auto simp: list_all_iff)
  show "validate_coin_gecko_fx_consistency (map snd out)" by (fact o(4))
qed

subsection \<open>The median rate\<close>

lemma median_between:
  assumes "rates \<noteq> []" "\<forall>r \<in> set rates. lo \<le> r \<and> r \<le> hi"
    and "float64 (float64 (lo + lo) / 2) = lo" "float64 (float64 (hi + hi) / 2) = hi"
  shows "lo \<le> median_rate rates" "median_rate rates \<le> hi"
proof -
  have nth: "lo \<le> sort rates ! i \<and> sort rates ! i \<le> hi" if "i < length rates" for i
    using that assms(2) by (metis length_sort nth_mem set_sort)
  let ?m = "length rates div 2"
  have "0 < length rates" using assms(1) by simp
  then have m: "?m < length rates" "?m - 1 < length rates" by linarith+
  have avg: "lo \<le> float64 (float64 (a + b) / 2) \<and> float64 (float64 (a + b) / 2) \<le> hi"
    if "lo \<le> a" "a \<le> hi" "lo \<le> b" "b \<le> hi" for a b
  proof -
    have "float64 (lo + lo) \<le> float64 (a + b)" "float64 (a + b) \<le> float64 (hi + hi)"
      using that by (auto intro!: float64_mono)
    then have "float64 (float64 (lo + lo) / 2) \<le> float64 (float64 (a + b) / 2)"
      "float64 (float64 (a + b) / 2) \<le> float64 (float64 (hi + hi) / 2)"
      by (auto intro!: float64_mono divide_right_mono)
    with assms(3,4) show ?thesis by simp
  qed
  from nth [OF m(1)] nth [OF m(2)] avg
  show "lo \<le> median_rate rates" "median_rate rates \<le> hi"
    by (auto simp: median_rate_def Let_def)
qed

lemma median_rate_mset:
  assumes "mset rs = mset rs'"
  shows "median_rate rs = median_rate rs'"
proof -
  have "sort rs = sort rs'" by (rule properties_for_sort) (use assms in simp_all)
  then show ?thesis by (simp only: median_rate_def)
qed

definition within_deviation :: "rat \<Rightarrow> rat \<Rightarrow> bool" where
  "within_deviation median rate \<longleftrightarrow> \<bar>float64 (float64 (rate / median) - 1)\<bar> \<le> max_coin_gecko_fx_deviation"

lemma rates_agree_iff:
  "rates_agree rates \<longleftrightarrow> length rates < 2 \<or> (\<forall>r \<in> set rates. within_deviation (median_rate rates) r)"
proof -
  have "(if length xs mod 2 = 0 then a else b) = (if length xs mod 2 = 1 then b else a)" for xs :: "rat list" and a b :: rat
    by presburger
  then show ?thesis
    by (simp add: rates_agree_def median_rate_def within_deviation_def Let_def list_all_iff)
qed

lemma within_deviation_refl: "r \<noteq> 0 \<Longrightarrow> within_deviation r r"
proof -
  assume "r \<noteq> 0"
  then have "float64 (float64 (r / r) - 1) = 0" using float64_of_int [of 1] by simp
  moreover have "0 \<le> max_coin_gecko_fx_deviation" by (simp add: max_coin_gecko_fx_deviation_def float64_nonneg)
  ultimately show ?thesis by (simp add: within_deviation_def)
qed

lemma fx_consistent_rates:
  assumes "rates_agree rates" "rates \<noteq> []" "\<forall>r \<in> set rates. 0 < r"
  shows "\<forall>r \<in> set rates. within_deviation (median_rate rates) r"
proof (cases "length rates < 2")
  case True
  with assms(2) obtain r where r: "rates = [r]" by (cases rates) auto
  with assms(3) show ?thesis using within_deviation_refl [of r] by (simp add: median_rate_def)
next
  case False
  with assms(1) show ?thesis by (simp add: rates_agree_iff)
qed

lemma half_of_double: "x = float64 y \<Longrightarrow> float64 (float64 (x + x) / 2) = x"
  using float64_double [of y] float64_idem [of y] by simp

lemma rate_bounds:
  "x \<in> {min_coin_gecko_cny_per_usd, max_coin_gecko_cny_per_usd, min_coin_gecko_jpy_per_usd, max_coin_gecko_jpy_per_usd} \<Longrightarrow>
   float64 (float64 (x + x) / 2) = x"
  using half_of_double [of x "1 / 10"] half_of_double [of x x] float64_of_int [of 100] float64_of_int [of 1]
    float64_of_int [of 10000]
  by (auto simp: min_coin_gecko_cny_per_usd_def max_coin_gecko_cny_per_usd_def min_coin_gecko_jpy_per_usd_def
      max_coin_gecko_jpy_per_usd_def)

lemma lower_bounds_positive: "0 < min_coin_gecko_cny_per_usd" "0 < min_coin_gecko_jpy_per_usd"
proof -
  have "float64 (2 powi (- 4)) = 2 powi (- 4)" using float64_grid [of 1 "- 4"] by simp
  moreover have "float64 (2 powi (- 4)) \<le> float64 (1 / 10)" by (rule float64_mono) simp
  ultimately show "0 < min_coin_gecko_cny_per_usd" by (simp add: min_coin_gecko_cny_per_usd_def)
qed (simp add: min_coin_gecko_jpy_per_usd_def)

subsection \<open>The requested symbols\<close>

lemma symbols_to_fetch:
  "distinct (symbols_to_fetch uc seen ss) \<and> set (symbols_to_fetch uc seen ss) \<inter> set seen = {} \<and>
   set (symbols_to_fetch uc seen ss) \<subseteq> dom gecko_ids \<and>
   set (symbols_to_fetch uc seen ss) \<subseteq> (\<lambda>s. uc_upper uc (trim_space s)) ` set ss"
proof (induction uc seen ss rule: symbols_to_fetch.induct)
  case (2 uc seen s ss)
  show ?case
  proof (cases "uc_upper uc (trim_space s) = [] \<or> uc_upper uc (trim_space s) \<in> set seen")
    case True
    with "2.IH"(1) show ?thesis by (auto simp: Let_def)
  next
    case False
    from "2.IH"(2) [OF refl False] False show ?thesis by (auto simp: Let_def)
  qed
qed simp

lemma symbols_complete:
  "s \<in> set ss \<Longrightarrow> uc_upper uc (trim_space s) \<in> dom gecko_ids \<Longrightarrow> uc_upper uc (trim_space s) \<notin> set seen \<Longrightarrow>
   uc_upper uc (trim_space s) \<in> set (symbols_to_fetch uc seen ss)"
proof (induction uc seen ss rule: symbols_to_fetch.induct)
  case (2 uc seen x ss)
  have nil: "[] \<notin> dom gecko_ids" by (simp add: gecko_ids_def gecko_id_table_def)
  show ?case
  proof (cases "uc_upper uc (trim_space s) = uc_upper uc (trim_space x)")
    case True
    with 2 nil show ?thesis by (auto simp: Let_def)
  next
    case False
    with 2 show ?thesis by (auto simp: Let_def)
  qed
qed simp

lemma gecko_table:
  "distinct (map fst gecko_id_table)" "distinct (map snd gecko_id_table)"
  "list_all (\<lambda>(s, i). s \<noteq> [] \<and> CHR '','' \<notin> set s) gecko_id_table"
  by code_simp+

lemma gecko_ids_known:
  assumes "gecko_ids s = Some i"
  shows "s \<noteq> []" "CHR '','' \<notin> set s"
  using assms gecko_table(3) map_of_SomeD [of gecko_id_table s i] by (auto simp: gecko_ids_def list_all_iff)

lemma gecko_ids_inj: "inj_on (the \<circ> gecko_ids) (dom gecko_ids)"
proof (rule inj_onI)
  fix s t
  assume "s \<in> dom gecko_ids" "t \<in> dom gecko_ids" "(the \<circ> gecko_ids) s = (the \<circ> gecko_ids) t"
  then obtain i where "gecko_ids s = Some i" "gecko_ids t = Some i" by auto
  then have "(s, i) \<in> set gecko_id_table" "(t, i) \<in> set gecko_id_table"
    by (simp_all add: gecko_ids_def map_of_SomeD)
  then show "s = t" using gecko_table(2) by (metis distinct_map inj_onD fst_conv snd_conv)
qed

definition known_symbols :: "string list \<Rightarrow> bool" where
  "known_symbols fetch \<longleftrightarrow> distinct fetch \<and> sorted fetch \<and> set fetch \<subseteq> dom gecko_ids"

lemma checked_prices_known:
  assumes "checked_prices uc params = Inr fetch"
  shows "known_symbols fetch"
proof -
  obtain p where "fetch = sort (symbols_to_fetch uc [] (string_items p ''symbols''))"
    using assms by (auto simp: checked_prices_def or_error_def split: option.splits if_splits)
  with symbols_to_fetch [of uc "[]" "string_items p ''symbols''"] show ?thesis by (simp add: known_symbols_def)
qed

lemma join_comma_inj:
  assumes "known_symbols a" "known_symbols b" "join '','' a = join '','' b"
  shows "a = b"
  using assms(3) by (rule join_inj) (use assms(1,2) gecko_ids_known in \<open>fastforce simp: known_symbols_def\<close>)

subsection \<open>Fetched prices\<close>

definition symbol_quotes :: "string list \<Rightarrow> (string \<times> market_quote) list \<Rightarrow> (string \<times> market_quote) list" where
  "symbol_quotes fetch res = map (\<lambda>sym. (sym, the (map_of res (the (gecko_ids sym))))) fetch"

text \<open>What the quotes behind an answer are: fresh, and consistent in their exchange rates.\<close>

definition consistent_quotes :: "string list \<Rightarrow> instant \<Rightarrow> (string \<times> market_quote) list \<Rightarrow> bool" where
  "consistent_quotes fetch now quotes \<longleftrightarrow>
     map fst quotes = fetch \<and> (\<forall>q \<in> snd ` set quotes. quote_ok now q) \<and>
     (let cny = map (cny_rate \<circ> snd) quotes; jpy = map (jpy_rate \<circ> snd) quotes in
      min_coin_gecko_cny_per_usd \<le> median_rate cny \<and> median_rate cny \<le> 100 \<and>
      1 \<le> median_rate jpy \<and> median_rate jpy \<le> 10000 \<and>
      (\<forall>r \<in> set cny. within_deviation (median_rate cny) r) \<and> (\<forall>r \<in> set jpy. within_deviation (median_rate jpy) r))"

lemma map_of_permutes:
  assumes "distinct (map fst res)" "distinct ids" "set ids = set (map fst res)"
  shows "mset (map (\<lambda>i. the (map_of res i)) ids) = mset (map snd res)"
proof -
  have "mset (map fst res) = mset ids" using assms by (metis set_eq_iff_mset_eq_distinct)
  then have "mset (map (\<lambda>i. the (map_of res i)) (map fst res)) = mset (map (\<lambda>i. the (map_of res i)) ids)"
    by (metis mset_map)
  moreover have "map (\<lambda>i. the (map_of res i)) (map fst res) = map snd res"
    using assms(1) by (auto intro!: map_cong)
  ultimately show ?thesis by metis
qed

lemma symbol_quotes_consistent:
  assumes "decode_coin_gecko_quotes raw (map (the \<circ> gecko_ids) fetch) now = Some res" "known_symbols fetch" "fetch \<noteq> []"
  shows "consistent_quotes fetch now (symbol_quotes fetch res)"
proof -
  let ?ids = "map (the \<circ> gecko_ids) fetch" and ?quotes = "symbol_quotes fetch res"
  have ids: "distinct ?ids"
    using assms(2) gecko_ids_inj by (auto simp: known_symbols_def distinct_map intro: inj_on_subset)
  note d = decode_coin_gecko_quotes_Some [OF assms(1) ids]
  have snd: "map snd ?quotes = map (\<lambda>i. the (map_of res i)) ?ids" by (simp add: symbol_quotes_def)
  have perm: "mset (map snd ?quotes) = mset (map snd res)"
    unfolding snd by (rule map_of_permutes [OF d(1) ids]) (use d(2) in simp)
  have quotes: "snd ` set ?quotes = snd ` set res" using mset_eq_setD [OF perm] by simp
  have ne: "?quotes \<noteq> []" using assms(3) by (simp add: symbol_quotes_def)
  have rates: "rates_agree (map f (map snd res)) \<Longrightarrow> \<forall>q \<in> snd ` set res. 0 < lo \<and> lo \<le> f q \<and> f q \<le> hi \<Longrightarrow>
      float64 (float64 (lo + lo) / 2) = lo \<Longrightarrow> float64 (float64 (hi + hi) / 2) = hi \<Longrightarrow>
      lo \<le> median_rate (map (f \<circ> snd) ?quotes) \<and> median_rate (map (f \<circ> snd) ?quotes) \<le> hi \<and>
      (\<forall>r \<in> set (map (f \<circ> snd) ?quotes). within_deviation (median_rate (map (f \<circ> snd) ?quotes)) r)"
    for f lo hi
  proof -
    assume a: "rates_agree (map f (map snd res))" "\<forall>q \<in> snd ` set res. 0 < lo \<and> lo \<le> f q \<and> f q \<le> hi"
      and b: "float64 (float64 (lo + lo) / 2) = lo" "float64 (float64 (hi + hi) / 2) = hi"
    have eq: "mset (map f (map snd res)) = mset (map (f \<circ> snd) ?quotes)"
      using perm by (metis mset_map map_map)
    then have m: "median_rate (map f (map snd res)) = median_rate (map (f \<circ> snd) ?quotes)"
      and s: "set (map f (map snd res)) = set (map (f \<circ> snd) ?quotes)"
      by (rule median_rate_mset, rule mset_eq_setD)
    have ne': "map f (map snd res) \<noteq> []" using ne eq by auto
    have "\<forall>r \<in> set (map f (map snd res)). 0 < r" and r: "\<forall>r \<in> set (map f (map snd res)). lo \<le> r \<and> r \<le> hi"
      using a(2) by force+
    from fx_consistent_rates [OF a(1) ne' this(1)] median_between [OF ne' r b]
    show ?thesis unfolding m s by blast
  qed
  have fx: "\<forall>q \<in> snd ` set res. min_coin_gecko_cny_per_usd \<le> cny_rate q \<and> cny_rate q \<le> 100 \<and> 1 \<le> jpy_rate q \<and> jpy_rate q \<le> 10000"
    "rates_agree (map cny_rate (map snd res))" "rates_agree (map jpy_rate (map snd res))"
    using d(4) by (auto simp: validate_coin_gecko_fx_consistency_def finite_in_range_def list_all_iff
        max_coin_gecko_cny_per_usd_def min_coin_gecko_jpy_per_usd_def max_coin_gecko_jpy_per_usd_def)
  have cny: "\<forall>q \<in> snd ` set res. 0 < min_coin_gecko_cny_per_usd \<and> min_coin_gecko_cny_per_usd \<le> cny_rate q \<and> cny_rate q \<le> 100"
    and jpy: "\<forall>q \<in> snd ` set res. (0 :: rat) < 1 \<and> 1 \<le> jpy_rate q \<and> jpy_rate q \<le> 10000"
    using fx(1) lower_bounds_positive by auto
  have b: "float64 (float64 (x + x) / 2) = x" if "x \<in> {min_coin_gecko_cny_per_usd, 100, 1, 10000}" for x
    using rate_bounds [of x] that
    by (simp add: max_coin_gecko_cny_per_usd_def min_coin_gecko_jpy_per_usd_def max_coin_gecko_jpy_per_usd_def)
  have "map fst ?quotes = fetch" by (simp add: symbol_quotes_def comp_def)
  moreover have "\<forall>q \<in> snd ` set ?quotes. quote_ok now q" using d(3) quotes by simp
  ultimately show ?thesis
    using rates [OF fx(2) cny b b] rates [OF fx(3) jpy b b] by (simp add: consistent_quotes_def Let_def)
qed

subsection \<open>Runs\<close>

text \<open>
  What a cached value owes the symbols it is stored for: it was made from quotes that were consistent
  when it was made.
\<close>

definition prices_answer :: "cached_prices \<Rightarrow> string list \<Rightarrow> bool" where
  "prices_answer p fetch \<longleftrightarrow>
     (\<exists>quotes. consistent_quotes fetch (cp_at p) quotes \<and>
        cp_prices p = map (\<lambda>(sym, q). (sym, usd_price_of q)) quotes \<and>
        cp_fiat_per_usd p = [(''USD'', 1), (''CNY'', median_rate (map (cny_rate \<circ> snd) quotes)),
          (''JPY'', median_rate (map (jpy_rate \<circ> snd) quotes))])"

interpretation prices: cached_answers known_symbols "join '',''" prices_answer
  by unfold_locales (use join_comma_inj in blast)

definition prices_cache_ok :: "cached_prices cache \<Rightarrow> bool" where
  "prices_cache_ok ch \<longleftrightarrow> prices.kept ch \<and> (\<forall>(k, v, e) \<in> set (ch_m ch). e = cp_at v + ch_ttl ch)"

lemma prices_cache_ok_get:
  assumes "prices_cache_ok ch" "cache_get codec now later key answer ch = (ch', hit)"
  shows "prices_cache_ok ch'" "ch_ttl ch' = ch_ttl ch"
    "hit = Some p \<Longrightarrow> now \<le> cp_at p + ch_ttl ch"
proof -
  have "ch_namespace ch = None" using assms(1) by (simp add: prices_cache_ok_def keeps_answers_def)
  with assms(2) have get: "get_local now key ch = (ch', hit)" by (metis cache_get_local_only)
  then show ttl: "ch_ttl ch' = ch_ttl ch" by (auto simp: get_local_def split: option.splits if_splits)
  show "prices_cache_ok ch'"
    using prices.kept_get [OF _ assms(2)] assms(1) get_local_subset [OF get] ttl
    by (fastforce simp: prices_cache_ok_def)
  show "hit = Some p \<Longrightarrow> now \<le> cp_at p + ch_ttl ch"
    using get assms(1)
    by (fastforce simp: get_local_def prices_cache_ok_def split: option.splits if_splits dest!: map_of_SomeD)
qed

lemma prices_cache_ok_set:
  assumes "prices_cache_ok ch" "known_symbols fetch" "prices_answer p fetch"
    and "cache_set codec (cp_at p) (join '','' fetch) p stored ch = (ch', x)"
  shows "prices_cache_ok ch'"
proof -
  have "ch_namespace ch = None" using assms(1) by (simp add: prices_cache_ok_def keeps_answers_def)
  with assms(4) have set: "ch' = set_local (cp_at p) (join '','' fetch) p (cp_at p + ch_ttl ch) ch"
    by (metis cache_set_local_only prod.inject)
  then have "ch_ttl ch' = ch_ttl ch" by (simp add: set_local_def)
  with set show ?thesis
    using prices.kept_set [OF _ assms(2,3,4)] assms(1)
      set_local_subset(1) [of "cp_at p" "join '','' fetch" p "cp_at p + ch_ttl ch" ch]
    by (fastforce simp: prices_cache_ok_def)
qed

lemma simple_price_Inr:
  assumes "simple_price c ids cg w = (Inr res, cg', w')"
  shows "\<exists>raw. decode_coin_gecko_quotes raw ids (w_now w') = Some res"
  using assms by (auto simp: simple_price_def Let_def split: option.splits prod.splits if_splits sum.splits)

lemma fetched_prices_answer:
  "consistent_quotes fetch now (symbol_quotes fetch res) \<Longrightarrow>
   prices_answer (fetched_prices fetch res now) fetch \<and> cp_at (fetched_prices fetch res now) = now"
  by (auto simp: prices_answer_def fetched_prices_def symbol_quotes_def Let_def)

text \<open>
  One request: the cache stays sound, and an answer about some symbols renders a value made for them
  at most 30 seconds ago.
\<close>

lemma get_prices_ok:
  assumes "prices_cache_ok (prs_cache st)" "get_prices c params st w = (r, st', w')"
  shows "prices_cache_ok (prs_cache st') \<and> ch_ttl (prs_cache st') = ch_ttl (prs_cache st)"
    "checked_prices (pc_unicode c) params = Inr fetch \<Longrightarrow> fetch \<noteq> [] \<Longrightarrow> r = Inr res \<Longrightarrow>
      \<exists>p. res = answer_prices p \<and> prices_answer p fetch \<and>
        (w_now w \<le> cp_at p + ch_ttl (prs_cache st) \<or> cp_at p = w_now w')"
proof -
  let ?A = "prices_cache_ok (prs_cache st') \<and> ch_ttl (prs_cache st') = ch_ttl (prs_cache st)"
  let ?B = "\<forall>fetch res. checked_prices (pc_unicode c) params = Inr fetch \<longrightarrow> fetch \<noteq> [] \<longrightarrow> r = Inr res \<longrightarrow>
      (\<exists>p. res = answer_prices p \<and> prices_answer p fetch \<and>
        (w_now w \<le> cp_at p + ch_ttl (prs_cache st) \<or> cp_at p = w_now w'))"
  have "?A \<and> ?B"
  proof (cases "checked_prices (pc_unicode c) params")
    case (Inl e)
    then show ?thesis using assms by (simp add: get_prices_def)
  next
    case (Inr fetch)
    then have known: "known_symbols fetch" by (rule checked_prices_known)
    show ?thesis
    proof (cases "fetch = []")
      case True
      then show ?thesis using assms Inr by (simp add: get_prices_def)
    next
      case False
      let ?key = "join '','' fetch"
      obtain ch hit where get: "cache_get (pc_codec c) (w_now w) (w_now w) ?key (pc_store_get c ?key w) (prs_cache st) = (ch, hit)"
        by fastforce
      note got = prices_cache_ok_get [OF assms(1) get]
      show ?thesis
      proof (cases hit)
        case (Some p)
        then have "prices_answer p fetch"
          using prices.kept_hit [OF _ known] get assms(1) by (fastforce simp: prices_cache_ok_def)
        then show ?thesis using assms(2) Inr False get got Some by (auto simp: get_prices_def)
      next
        case None
        obtain x cg w1 where fetched: "simple_price c (map (the \<circ> gecko_ids) fetch) (prs_coin_gecko st) w = (x, cg, w1)"
          by (metis prod_cases3)
        show ?thesis
        proof (cases x)
          case (Inl e)
          then show ?thesis using assms(2) \<open>checked_prices _ _ = Inr fetch\<close> False get got None fetched
            by (auto simp: get_prices_def)
        next
          case (Inr quotes)
          let ?p = "fetched_prices fetch quotes (w_now w1)"
          from simple_price_Inr fetched Inr obtain raw
            where "decode_coin_gecko_quotes raw (map (the \<circ> gecko_ids) fetch) (w_now w1) = Some quotes" by blast
          from symbol_quotes_consistent [OF this known False]
          have p: "prices_answer ?p fetch" "cp_at ?p = w_now w1" using fetched_prices_answer by blast+
          obtain ch2 y where set: "cache_set (pc_codec c) (w_now w1) ?key ?p (pc_store_set c ?key w1) ch = (ch2, y)"
            by fastforce
          have "prices_cache_ok ch2" "ch_ttl ch2 = ch_ttl ch"
            using prices_cache_ok_set [OF got(1) known p(1)] set p(2) got(1)
            by (auto simp: prices_cache_ok_def keeps_answers_def cache_set_local_only set_local_def)
          then show ?thesis
            using assms(2) \<open>checked_prices _ _ = Inr fetch\<close> False get got None fetched Inr set p
            by (auto simp: get_prices_def Let_def)
        qed
      qed
    qed
  qed
  then show ?A and "checked_prices (pc_unicode c) params = Inr fetch \<Longrightarrow> fetch \<noteq> [] \<Longrightarrow> r = Inr res \<Longrightarrow>
      \<exists>p. res = answer_prices p \<and> prices_answer p fetch \<and>
        (w_now w \<le> cp_at p + ch_ttl (prs_cache st) \<or> cp_at p = w_now w')" by blast+
qed

inductive prices_run :: "price_config \<Rightarrow> price_state \<Rightarrow> bool" for c where
  start: "prs_cache st = new_cache prices_ttl \<Longrightarrow> prices_run c st"
| request: "prices_run c st \<Longrightarrow> get_prices c params st w = (r, st', w') \<Longrightarrow> prices_run c st'"

lemma prices_run_ok: "prices_run c st \<Longrightarrow> prices_cache_ok (prs_cache st) \<and> ch_ttl (prs_cache st) = prices_ttl"
proof (induction rule: prices_run.induct)
  case (start st)
  then show ?case using prices.kept_new by (simp add: prices_cache_ok_def new_cache_def)
next
  case (request st params w r st' w')
  then show ?case using get_prices_ok(1) by metis
qed

end
