(* ===== verification/Price_Samples.thy ===== *)
theory Price_Samples
  imports Prices Token_Samples
begin

section \<open>A price request, answered\<close>

definition ether_body :: string where
  \<open>ether_body = ''{"ethereum":{"usd":2,"usd_24h_change":null,"cny":14,"cny_24h_change":0,"jpy":300,"jpy_24h_change":-1,"last_updated_at":1}}''\<close>

definition price_config_sample :: price_config where
  "price_config_sample =
     \<lparr>pc_env = \<lparr>ge_net = replies [ether_body], ge_sha = (\<lambda>bs. bs), ge_printable = (\<lambda>s. True)\<rparr>,
      pc_unicode = plain_unicode, pc_wake = (\<lambda>iv w. (w_now w, False)),
      pc_codec = \<lparr>encode = (\<lambda>v. None), decode = (\<lambda>r. None)\<rparr>,
      pc_store_get = (\<lambda>k w. Inl ErrNotFound), pc_store_set = (\<lambda>k w. True)\<rparr>"

definition price_start :: price_state where
  "price_start = \<lparr>prs_coin_gecko = new_coin_gecko ''https://c'' (new_interval (seconds 1)),
     prs_cache = new_cache (seconds 30)\<rparr>"

definition price_params :: raw where
  "price_params = Some (JObj [(''symbols'', JArr [JStr '' ETH'', JStr ''NOPE'', JStr ''ETH''])])"

definition price_run :: "(rpc_error + price_result) \<times> price_state \<times> world" where
  "price_run = get_prices price_config_sample price_params price_start sample_world"

lemma price_checked: "checked_prices (pc_unicode price_config_sample) price_params = Inr [''ETH'']"
  by code_simp

lemma price_answered: "\<not> isl (fst price_run)"
  by code_simp

end
