(* ===== verification/Health.thy ===== *)
theory Health
  imports Gateway Pool_Facts "HOL-Library.List_Lexorder" "HOL-Library.Char_ord"
begin

section \<open>Health and readiness\<close>

text \<open>
  \<open>handlers/health.go\<close> and the probes of \<open>cmd/gateway/main.go\<close>. The client maps have exactly the keys
  \<open>New\<close> gives them; Go iterates over them in no fixed order, which the sorted list of unavailable
  networks and the sorted keys of the answer do not show. All pools are read at one instant.
\<close>

definition evm_network_ids :: "string list" where
  "evm_network_ids =
     [''eth-mainnet'', ''eth-sepolia'', ''polygon-mainnet'', ''polygon-amoy'', ''base-mainnet'',
      ''base-sepolia'', ''arbitrum-mainnet'', ''arbitrum-sepolia'', ''avalanche-mainnet'',
      ''avalanche-fuji'', ''bnb-mainnet'', ''bnb-testnet'']"

definition sol_network_ids :: "string list" where
  "sol_network_ids = [''sol-mainnet'', ''sol-devnet'']"

definition pool_networks :: "gateway \<Rightarrow> (string \<times> pool) list" where
  "pool_networks g =
     map (\<lambda>n. (n, gw_evm g n)) evm_network_ids @ map (\<lambda>n. (n, gw_sol g n)) sol_network_ids"

definition network_health :: "instant \<Rightarrow> gateway \<Rightarrow> (string \<times> pool_health) list" where
  "network_health now g = map (\<lambda>(n, p). (n, pool_health now p)) (pool_networks g)"

subsection \<open>The answers\<close>

abbreviation json_count :: "64 word \<Rightarrow> json" where "json_count n \<equiv> JNum (dec_of_nat (unat n))"
abbreviation json_nat :: "nat \<Rightarrow> json" where "json_nat n \<equiv> JNum (dec_of_nat n)"

definition failure_metrics_json :: "failure_counts \<Rightarrow> json" where
  "failure_metrics_json m =
     JObj [(''rateLimited'', json_count (fc_rate_limited m)), (''timeouts'', json_count (fc_timeouts m)),
       (''malformedResponses'', json_count (fc_malformed m)), (''transport'', json_count (fc_transport m)),
       (''serverErrors'', json_count (fc_server m)), (''providerErrors'', json_count (fc_provider m)),
       (''other'', json_count (fc_other m))]"

definition endpoint_health_json :: "endpoint_health \<Rightarrow> json" where
  "endpoint_health_json e =
     JObj [(''position'', json_nat (eh_position e)), (''state'', JStr (eh_state e)),
       (''successes'', json_count (eh_successes e)), (''failures'', json_count (eh_failures e)),
       (''failureMetrics'', failure_metrics_json (eh_failure_metrics e)),
       (''lastLatencyMs'', JNum (dec_of_int (eh_last_latency_ms e))),
       (''latencyP50Ms'', JNum (dec_of_int (eh_latency_p50_ms e))),
       (''latencyP95Ms'', JNum (dec_of_int (eh_latency_p95_ms e))),
       (''samples'', json_nat (eh_samples e))]"

definition pool_health_json :: "pool_health \<Rightarrow> json" where
  "pool_health_json h =
     JObj [(''endpoints'', json_nat (ph_endpoints h)), (''openCircuits'', json_nat (ph_open_circuits h)),
       (''successes'', json_count (ph_successes h)), (''failures'', json_count (ph_failures h)),
       (''failureMetrics'', failure_metrics_json (ph_failure_metrics h)),
       (''lastLatencyMs'', JNum (dec_of_int (ph_last_latency_ms h))),
       (''latencyP50Ms'', JNum (dec_of_int (ph_latency_p50_ms h))),
       (''latencyP95Ms'', JNum (dec_of_int (ph_latency_p95_ms h))),
       (''samples'', json_nat (ph_samples h)),
       (''endpointMetrics'', JArr (map endpoint_health_json (ph_endpoint_metrics h)))]"

definition health :: "string \<Rightarrow> instant \<Rightarrow> gateway \<Rightarrow> json" where
  "health version now g =
     JObj [(''networks'', JArr (map JStr network_order)), (''ok'', JBool True),
       (''upstreams'', JObj (sort_key fst (map (\<lambda>(n, h). (n, pool_health_json h)) (network_health now g)))),
       (''version'', JStr version)]"

definition network_unavailable :: "pool_health \<Rightarrow> bool" where
  "network_unavailable h \<longleftrightarrow> ph_endpoints h = 0 \<or> ph_endpoints h \<le> ph_open_circuits h"

definition readiness :: "instant \<Rightarrow> gateway \<Rightarrow> bool \<times> string list" where
  "readiness now g =
     (let nets = network_health now g;
          unavailable = map fst (filter (\<lambda>(_, h). network_unavailable h) nets)
      in (0 < length nets \<and> length unavailable < length nets, sort unavailable))"

subsection \<open>The probes\<close>

record http_answer =
  ha_status :: int
  ha_content_type :: string
  ha_body :: string

definition healthz :: http_answer where
  \<open>healthz = \<lparr>ha_status = 200, ha_content_type = ''application/json'', ha_body = ''{"ok":true}''\<rparr>\<close>

text \<open>\<open>json.Encoder\<close> ends its text with a newline.\<close>

definition readyz :: "instant \<Rightarrow> gateway \<Rightarrow> http_answer" where
  "readyz now g =
     (let (ready, unavailable) = readiness now g in
      \<lparr>ha_status = (if ready then 200 else 503), ha_content_type = ''application/json'',
       ha_body = json_print (JObj [(''ok'', JBool ready), (''ready'', JBool ready),
         (''unavailableNetworks'', JArr (map JStr unavailable))]) @ [CHR 0x0A]\<rparr>)"

subsection \<open>When the gateway is ready\<close>

lemma filter_all_length: "length xs \<le> length (filter P xs) \<longleftrightarrow> (\<forall>x \<in> set xs. P x)"
  using length_filter_less [of _ xs P] by (fastforce simp: not_less [symmetric])

lemma network_unavailable_iff:
  "network_unavailable (pool_health now p) \<longleftrightarrow> (\<forall>ep \<in> set (pl_eps p). circuit_open now ep)"
  by (auto simp: network_unavailable_def pool_health_def Let_def case_prod_beta filter_all_length)

lemma network_health_conv:
  "map fst (filter (\<lambda>(_, h). network_unavailable h) (network_health now g)) =
   map fst (filter (\<lambda>(_, p). \<forall>ep \<in> set (pl_eps p). circuit_open now ep) (pool_networks g))"
  by (simp add: network_health_def filter_map comp_def split_def network_unavailable_iff)

theorem readiness_iff:
  "fst (readiness now g) \<longleftrightarrow> (\<exists>(n, p) \<in> set (pool_networks g). \<exists>ep \<in> set (pl_eps p). \<not> circuit_open now ep)"
  "set (snd (readiness now g)) = {n. \<exists>p. (n, p) \<in> set (pool_networks g) \<and> (\<forall>ep \<in> set (pl_eps p). circuit_open now ep)}"
  "sorted (snd (readiness now g))"
proof -
  let ?nets = "pool_networks g" and ?down = "\<lambda>(n :: string, p). \<forall>ep \<in> set (pl_eps p). circuit_open now ep"
  have nets: "length (network_health now g) = length ?nets" by (simp add: network_health_def)
  have down: "length (filter (\<lambda>(_, h). network_unavailable h) (network_health now g)) = length (filter ?down ?nets)"
    using arg_cong [OF network_health_conv [of now g], of length] by (simp only: length_map)
  have "0 < length ?nets" by (simp add: pool_networks_def evm_network_ids_def)
  then have "fst (readiness now g) \<longleftrightarrow> length (filter ?down ?nets) < length ?nets"
    by (simp only: readiness_def Let_def nets down length_map fst_conv simp_thms)
  also have "\<dots> \<longleftrightarrow> \<not> (\<forall>x \<in> set ?nets. ?down x)" using filter_all_length [of ?nets ?down] by linarith
  finally show "fst (readiness now g) \<longleftrightarrow> (\<exists>(n, p) \<in> set ?nets. \<exists>ep \<in> set (pl_eps p). \<not> circuit_open now ep)"
    by auto
  show "set (snd (readiness now g)) = {n. \<exists>p. (n, p) \<in> set ?nets \<and> (\<forall>ep \<in> set (pl_eps p). circuit_open now ep)}"
    by (force simp: readiness_def Let_def network_health_conv)
  show "sorted (snd (readiness now g))" by (simp add: readiness_def Let_def)
qed

subsection \<open>No endpoint is named\<close>

text \<open>
  Provider URLs carry API keys. Replacing every URL of every pool by another leaves all three texts as
  they are, so nothing about a URL can be read from them.
\<close>

definition relabel_pool :: "(string \<Rightarrow> string) \<Rightarrow> pool \<Rightarrow> pool" where
  "relabel_pool f p = p\<lparr>pl_eps := map (\<lambda>ep. ep\<lparr>ep_url := f (ep_url ep)\<rparr>) (pl_eps p)\<rparr>"

definition relabel_gateway :: "(string \<Rightarrow> string) \<Rightarrow> gateway \<Rightarrow> gateway" where
  "relabel_gateway f g =
     g\<lparr>gw_evm := (\<lambda>n. relabel_pool f (gw_evm g n)), gw_sol := (\<lambda>n. relabel_pool f (gw_sol g n))\<rparr>"

lemma relabel_endpoint [simp]:
  "circuit_open now (ep\<lparr>ep_url := u\<rparr>) = circuit_open now ep"
  "latencies (ep\<lparr>ep_url := u\<rparr>) = latencies ep"
  by (simp_all add: circuit_open_def latencies_def)

lemma relabel_endpoint_state [simp]: "endpoint_state (ep\<lparr>ep_url := u\<rparr>) is_open = endpoint_state ep is_open"
  by (cases ep) (simp only: endpoint_state_def endpoint.simps)

lemma relabel_endpoint_health [simp]: "endpoint_health_of now i (ep\<lparr>ep_url := u\<rparr>) = endpoint_health_of now i ep"
  by (simp add: endpoint_health_of_def split: prod.split)

lemma enumerate_map: "enumerate n (map f xs) = map (\<lambda>(i, x). (i, f x)) (enumerate n xs)"
  by (induction xs arbitrary: n) simp_all

lemma relabelled_list:
  fixes eps f
  defines "eps' \<equiv> map (\<lambda>ep. ep\<lparr>ep_url := f (ep_url ep)\<rparr>) eps"
  shows "length eps' = length eps" "map latencies eps' = map latencies eps"
    "length (filter (circuit_open now) eps') = length (filter (circuit_open now) eps)"
    "map ep_successes eps' = map ep_successes eps" "map ep_failures eps' = map ep_failures eps"
    "fold (\<lambda>ep m. add_counts m (ep_failure_counts ep)) eps' c = fold (\<lambda>ep m. add_counts m (ep_failure_counts ep)) eps c"
    "fold (\<lambda>ep m. if ep_last_latency_ms ep > m then ep_last_latency_ms ep else m) eps' l =
     fold (\<lambda>ep m. if ep_last_latency_ms ep > m then ep_last_latency_ms ep else m) eps l"
    "map (\<lambda>(i, ep). endpoint_health_of now i ep) (enumerate 0 eps') =
     map (\<lambda>(i, ep). endpoint_health_of now i ep) (enumerate 0 eps)"
  by (simp_all add: eps'_def comp_def filter_map enumerate_map fold_map split_def cong: if_cong)

lemma pool_health_relabel [simp]: "pool_health now (relabel_pool f p) = pool_health now p"
proof -
  have "pl_eps (relabel_pool f p) = map (\<lambda>ep. ep\<lparr>ep_url := f (ep_url ep)\<rparr>) (pl_eps p)"
    by (simp add: relabel_pool_def)
  then show ?thesis by (simp only: pool_health_def Let_def relabelled_list)
qed

lemma network_health_relabel [simp]: "network_health now (relabel_gateway f g) = network_health now g"
  by (simp add: network_health_def pool_networks_def relabel_gateway_def)

theorem health_names_no_endpoint:
  "health version now (relabel_gateway f g) = health version now g"
  "readyz now (relabel_gateway f g) = readyz now g"
  by (simp_all add: health_def readyz_def readiness_def)

end
