(* ===== verification/Wiring.thy ===== *)
theory Wiring
  imports Balances Prices App_Diagnostics Health Token_Security Redis_Store Limiter History_Handler Broadcast
begin

section \<open>Configuration and wiring\<close>

text \<open>
  \<open>handlers/gateway.go\<close> and the set-up part of \<open>cmd/gateway/main.go\<close>: the configuration, its
  defaults, what \<open>New\<close> builds from it, and how the process reads its environment before it serves
  anything. The shared store and the broadcast store are present or absent (\<open>cf_shared_cache\<close>,
  \<open>cf_broadcast_store\<close>); the logger, the clock and the HTTP client belong to the environment.
  A map whose keys are network ids is an association list.
\<close>

subsection \<open>The configuration\<close>

record config =
  cf_version :: string
  cf_attempt_timeout :: duration
  cf_shared_cache :: bool
  cf_broadcast_store :: bool
  cf_eth_urls :: "string list"
  cf_polygon_urls :: "string list"
  cf_base_urls :: "string list"
  cf_arbitrum_urls :: "string list"
  cf_avalanche_urls :: "string list"
  cf_bnb_urls :: "string list"
  cf_solana_urls :: "string list"
  cf_tron_url :: string
  cf_tron_api_key :: string
  cf_eth_sepolia_urls :: "string list"
  cf_polygon_amoy_urls :: "string list"
  cf_base_sepolia_urls :: "string list"
  cf_arbitrum_sepolia_urls :: "string list"
  cf_avalanche_fuji_urls :: "string list"
  cf_bnb_testnet_urls :: "string list"
  cf_solana_devnet_urls :: "string list"
  cf_tron_nile_url :: string
  cf_coin_gecko_url :: string
  cf_coin_gecko_interval :: duration
  cf_etherscan_url :: string
  cf_etherscan_key :: string
  cf_alchemy_keys :: "string list"
  cf_alchemy_urls :: "(string \<times> string list) list option"
  cf_alchemy_rpc_count :: int
  cf_helius_url :: string
  cf_helius_devnet_url :: string
  cf_helius_key :: string
  cf_goplus_url :: string
  cf_goplus_solana_url :: string
  cf_goplus_approval_url :: string
  cf_goplus_access_token :: string
  cf_disable_external_token_risk :: bool
  cf_disable_external_approvals :: bool
  cf_evm_history_fallback_urls :: "(string \<times> string) list option"
  cf_official_tokens :: "official_token list option"
  cf_token_risks :: "token_risk list option"

definition evm_history_fallbacks :: "(string \<times> string) list" where
  "evm_history_fallbacks =
     [(''eth-mainnet'', ''https://eth.blockscout.com/api''),
      (''eth-sepolia'', ''https://eth-sepolia.blockscout.com/api''),
      (''polygon-mainnet'', ''https://polygon.blockscout.com/api''),
      (''base-mainnet'', ''https://base.blockscout.com/api''),
      (''base-sepolia'', ''https://base-sepolia.blockscout.com/api''),
      (''arbitrum-mainnet'', ''https://arbitrum.blockscout.com/api''),
      (''arbitrum-sepolia'', ''https://arbitrum-sepolia.blockscout.com/api''),
      (''avalanche-mainnet'', ''https://api.routescan.io/v2/network/mainnet/evm/43114/etherscan/api''),
      (''avalanche-fuji'', ''https://api.routescan.io/v2/network/testnet/evm/43113/etherscan/api'')]"

definition defaults :: config where
  "defaults =
     \<lparr>cf_version = ''1.16.29'',
      cf_attempt_timeout = seconds 10,
      cf_shared_cache = False,
      cf_broadcast_store = False,
      cf_eth_urls = [''https://eth.llamarpc.com'', ''https://cloudflare-eth.com''],
      cf_polygon_urls = [''https://polygon-rpc.com'', ''https://polygon-bor-rpc.publicnode.com''],
      cf_base_urls = [''https://mainnet.base.org''],
      cf_arbitrum_urls = [''https://arb1.arbitrum.io/rpc''],
      cf_avalanche_urls = [''https://api.avax.network/ext/bc/C/rpc''],
      cf_bnb_urls = [''https://bsc-dataseed.bnbchain.org''],
      cf_solana_urls = [''https://api.mainnet-beta.solana.com''],
      cf_tron_url = ''https://api.trongrid.io'',
      cf_tron_api_key = [],
      cf_eth_sepolia_urls = [''https://ethereum-sepolia-rpc.publicnode.com''],
      cf_polygon_amoy_urls = [''https://polygon-amoy-bor-rpc.publicnode.com'', ''https://polygon-amoy.drpc.org''],
      cf_base_sepolia_urls = [''https://sepolia.base.org''],
      cf_arbitrum_sepolia_urls = [''https://sepolia-rollup.arbitrum.io/rpc''],
      cf_avalanche_fuji_urls = [''https://api.avax-test.network/ext/bc/C/rpc''],
      cf_bnb_testnet_urls = [''https://bsc-testnet-dataseed.bnbchain.org'', ''https://bsc-testnet.bnbchain.org'', ''https://bsc-testnet-rpc.publicnode.com''],
      cf_solana_devnet_urls = [''https://api.devnet.solana.com''],
      cf_tron_nile_url = ''https://nile.trongrid.io'',
      cf_coin_gecko_url = ''https://api.coingecko.com'',
      cf_coin_gecko_interval = seconds 1,
      cf_etherscan_url = ''https://api.etherscan.io/v2/api'',
      cf_etherscan_key = [],
      cf_alchemy_keys = [],
      cf_alchemy_urls = None,
      cf_alchemy_rpc_count = 0,
      cf_helius_url = ''https://mainnet.helius-rpc.com'',
      cf_helius_devnet_url = ''https://devnet.helius-rpc.com'',
      cf_helius_key = [],
      cf_goplus_url = ''https://api.gopluslabs.io/api/v1/token_security'',
      cf_goplus_solana_url = ''https://api.gopluslabs.io/api/v1/solana/token_security'',
      cf_goplus_approval_url = ''https://api.gopluslabs.io/api/v2/token_approval_security'',
      cf_goplus_access_token = [],
      cf_disable_external_token_risk = False,
      cf_disable_external_approvals = False,
      cf_evm_history_fallback_urls = Some evm_history_fallbacks,
      cf_official_tokens = Some default_official_tokens,
      cf_token_risks = Some []\<rparr>"

text \<open>The unset fields of a configuration, filled in; a nil map or slice is \<open>None\<close>.\<close>

definition or_default :: "'a list \<Rightarrow> 'a list \<Rightarrow> 'a list" where
  "or_default xs d = (if xs = [] then d else xs)"

definition or_default_option :: "'a option \<Rightarrow> 'a option \<Rightarrow> 'a option" where
  "or_default_option x d = (if x = None then d else x)"

definition or_default_duration :: "duration \<Rightarrow> duration \<Rightarrow> duration" where
  "or_default_duration t d = (if t \<le> 0 then d else t)"

text \<open>\<open>AlchemyNetworkURLs\<close>: the endpoints of each network, one per key, in the order of the keys.\<close>

definition alchemy_slugs :: "(string \<times> string) list" where
  "alchemy_slugs =
     [(''eth-mainnet'', ''eth-mainnet''), (''eth-sepolia'', ''eth-sepolia''),
      (''polygon-mainnet'', ''polygon-mainnet''), (''polygon-amoy'', ''polygon-amoy''),
      (''base-mainnet'', ''base-mainnet''), (''base-sepolia'', ''base-sepolia''),
      (''arbitrum-mainnet'', ''arb-mainnet''), (''arbitrum-sepolia'', ''arb-sepolia''),
      (''avalanche-mainnet'', ''avax-mainnet''), (''avalanche-fuji'', ''avax-fuji''),
      (''bnb-mainnet'', ''bnb-mainnet''), (''bnb-testnet'', ''bnb-testnet'')]"

definition alchemy_url :: "string \<Rightarrow> string \<Rightarrow> string" where
  "alchemy_url slug key = ''https://'' @ slug @ ''.g.alchemy.com/v2/'' @ key"

definition alchemy_network_urls :: "string list \<Rightarrow> (string \<times> string list) list" where
  "alchemy_network_urls keys =
     (case filter (\<lambda>k. k \<noteq> []) keys of
        [] \<Rightarrow> []
      | ks \<Rightarrow> map (\<lambda>(network, slug). (network, map (alchemy_url slug) ks)) alchemy_slugs)"

definition fill_defaults :: "config \<Rightarrow> config" where
  "fill_defaults c =
     c\<lparr>cf_version := or_default (cf_version c) (cf_version defaults),
       cf_attempt_timeout := or_default_duration (cf_attempt_timeout c) (cf_attempt_timeout defaults),
       cf_eth_urls := or_default (cf_eth_urls c) (cf_eth_urls defaults),
       cf_polygon_urls := or_default (cf_polygon_urls c) (cf_polygon_urls defaults),
       cf_base_urls := or_default (cf_base_urls c) (cf_base_urls defaults),
       cf_arbitrum_urls := or_default (cf_arbitrum_urls c) (cf_arbitrum_urls defaults),
       cf_avalanche_urls := or_default (cf_avalanche_urls c) (cf_avalanche_urls defaults),
       cf_bnb_urls := or_default (cf_bnb_urls c) (cf_bnb_urls defaults),
       cf_solana_urls := or_default (cf_solana_urls c) (cf_solana_urls defaults),
       cf_tron_url := or_default (cf_tron_url c) (cf_tron_url defaults),
       cf_eth_sepolia_urls := or_default (cf_eth_sepolia_urls c) (cf_eth_sepolia_urls defaults),
       cf_polygon_amoy_urls := or_default (cf_polygon_amoy_urls c) (cf_polygon_amoy_urls defaults),
       cf_base_sepolia_urls := or_default (cf_base_sepolia_urls c) (cf_base_sepolia_urls defaults),
       cf_arbitrum_sepolia_urls := or_default (cf_arbitrum_sepolia_urls c) (cf_arbitrum_sepolia_urls defaults),
       cf_avalanche_fuji_urls := or_default (cf_avalanche_fuji_urls c) (cf_avalanche_fuji_urls defaults),
       cf_bnb_testnet_urls := or_default (cf_bnb_testnet_urls c) (cf_bnb_testnet_urls defaults),
       cf_solana_devnet_urls := or_default (cf_solana_devnet_urls c) (cf_solana_devnet_urls defaults),
       cf_tron_nile_url := or_default (cf_tron_nile_url c) (cf_tron_nile_url defaults),
       cf_coin_gecko_url := or_default (cf_coin_gecko_url c) (cf_coin_gecko_url defaults),
       cf_coin_gecko_interval := or_default_duration (cf_coin_gecko_interval c) (cf_coin_gecko_interval defaults),
       cf_etherscan_url := or_default (cf_etherscan_url c) (cf_etherscan_url defaults),
       cf_helius_url := or_default (cf_helius_url c) (cf_helius_url defaults),
       cf_helius_devnet_url := or_default (cf_helius_devnet_url c) (cf_helius_devnet_url defaults),
       cf_goplus_url := or_default (cf_goplus_url c) (cf_goplus_url defaults),
       cf_goplus_solana_url := or_default (cf_goplus_solana_url c) (cf_goplus_solana_url defaults),
       cf_goplus_approval_url := or_default (cf_goplus_approval_url c) (cf_goplus_approval_url defaults),
       cf_evm_history_fallback_urls := or_default_option (cf_evm_history_fallback_urls c) (cf_evm_history_fallback_urls defaults),
       cf_official_tokens := or_default_option (cf_official_tokens c) (cf_official_tokens defaults),
       cf_token_risks := or_default_option (cf_token_risks c) (cf_token_risks defaults),
       cf_alchemy_urls :=
         (if cf_alchemy_urls c = None \<and> cf_alchemy_keys c \<noteq> [] then Some (alchemy_network_urls (cf_alchemy_keys c))
          else cf_alchemy_urls c)\<rparr>"

subsection \<open>What New builds\<close>

text \<open>
  \<open>outside\<close> holds everything that is not in the repository: the transport and the hash, Go's
  Unicode tables and URL parser, the timer of the CoinGecko limiter, the answers of the two Redis
  stores, the orders in which goroutines finish and maps are ranged over, and the two float formats.
\<close>

record outside =
  ou_env :: gateway_env
  ou_unicode :: unicode_env
  ou_urls :: url_env
  ou_wake :: "interval \<Rightarrow> world \<Rightarrow> instant \<times> bool"
  ou_price_codec :: "cached_prices codec"
  ou_cache_get :: "string \<Rightarrow> world \<Rightarrow> store_error + string"
  ou_cache_set :: "string \<Rightarrow> world \<Rightarrow> bool"
  ou_history_get :: "raw \<Rightarrow> world \<Rightarrow> store_error + string"
  ou_history_set :: "raw \<Rightarrow> world \<Rightarrow> bool"
  ou_broadcast_store :: "raw \<Rightarrow> world \<Rightarrow> store_answers"
  ou_schedule :: "nat \<Rightarrow> nat list"
  ou_directions :: "transfer_direction \<times> transfer_direction"
  ou_key_order :: "string list \<Rightarrow> string list"
  ou_json_float :: "rat \<Rightarrow> string"
  ou_metric_float :: "rat \<Rightarrow> string"

text \<open>The gateway's parts that no request changes, and those that requests change.\<close>

record service_config =
  sc_version :: string
  sc_outside :: outside
  sc_history :: history_config
  sc_tokens :: token_config
  sc_balances :: balance_config
  sc_prices :: price_config
  sc_catalog :: "official_token list"

record service =
  sv_gateway :: gateway
  sv_alchemy :: "string \<rightharpoonup> alchemy_client"
  sv_prices :: price_state
  sv_balance_cache :: "balances_result cache"
  sv_history_cache :: "history_result cache"
  sv_tokens :: token_state
  sv_diagnostics :: diagnostic_metrics
  sv_world :: world

definition evm_urls :: "config \<Rightarrow> (string \<times> string list) list" where
  "evm_urls c =
     [(''eth-mainnet'', cf_eth_urls c), (''eth-sepolia'', cf_eth_sepolia_urls c),
      (''polygon-mainnet'', cf_polygon_urls c), (''polygon-amoy'', cf_polygon_amoy_urls c),
      (''base-mainnet'', cf_base_urls c), (''base-sepolia'', cf_base_sepolia_urls c),
      (''arbitrum-mainnet'', cf_arbitrum_urls c), (''arbitrum-sepolia'', cf_arbitrum_sepolia_urls c),
      (''avalanche-mainnet'', cf_avalanche_urls c), (''avalanche-fuji'', cf_avalanche_fuji_urls c),
      (''bnb-mainnet'', cf_bnb_urls c), (''bnb-testnet'', cf_bnb_testnet_urls c)]"

definition lookup_list :: "(string \<times> 'a list) list \<Rightarrow> string \<Rightarrow> 'a list" where
  "lookup_list m k = (case map_of m k of Some xs \<Rightarrow> xs | None \<Rightarrow> [])"

text \<open>The network checks of the handlers precede every lookup, so no client of another name is used.\<close>

definition new_clients :: "config \<Rightarrow> gateway" where
  "new_clients c =
     \<lparr>gw_evm = (\<lambda>n. new_pool n (lookup_list (evm_urls c) n) (cf_alchemy_rpc_count c)),
      gw_sol = (\<lambda>n. new_pool ''solana'' (if n = ''sol-mainnet'' then cf_solana_urls c else cf_solana_devnet_urls c) 0),
      gw_tron = (\<lambda>n. new_tron (if n = ''tron-mainnet'' then cf_tron_url c else cf_tron_nile_url c)),
      gw_guard = new_broadcast_guard (cf_broadcast_store c)\<rparr>"

definition new_alchemy_clients :: "config \<Rightarrow> string \<rightharpoonup> alchemy_client" where
  "new_alchemy_clients c network =
     (case cf_alchemy_urls c of
        None \<Rightarrow> None
      | Some urls \<Rightarrow>
          (case lookup_list urls network of [] \<Rightarrow> None | endpoints \<Rightarrow> Some (new_alchemy endpoints)))"

definition new_history_scan :: "config \<Rightarrow> string \<rightharpoonup> etherscan_client" where
  "new_history_scan c network =
     (case cf_evm_history_fallback_urls c of
        None \<Rightarrow> None
      | Some urls \<Rightarrow>
          (case map_of urls network of
             None \<Rightarrow> None
           | Some base \<Rightarrow> if base = '''' then None else Some (new_etherscan base '''')))"

text \<open>An invalid catalog leaves no official token.\<close>

definition catalog_of :: "outside \<Rightarrow> config \<Rightarrow> official_token list" where
  "catalog_of ou c =
     (case normalize_official_tokens (ou_unicode ou) (ge_sha (ou_env ou)) (cf_official_tokens c) of
        Inl _ \<Rightarrow> []
      | Inr tokens \<Rightarrow> tokens)"

text \<open>The Etherscan client is used only when there is a key for it.\<close>

definition new_history_config :: "outside \<Rightarrow> config \<Rightarrow> history_config" where
  "new_history_config ou c =
     \<lparr>hc_env = ou_env ou,
      hc_scan = (if cf_etherscan_key c = '''' then None
                 else Some (new_etherscan (cf_etherscan_url c) (cf_etherscan_key c))),
      hc_history_scan = new_history_scan c,
      hc_helius_key = (cf_helius_key c \<noteq> ''''),
      hc_helius = (\<lambda>n. new_helius (if n = ''sol-mainnet'' then cf_helius_url c else cf_helius_devnet_url c)
                    (cf_helius_key c)),
      hc_official = official_token_index (catalog_of ou c) (\<lambda>_. Map.empty),
      sd_directions = ou_directions ou,
      sd_key_order = ou_key_order ou\<rparr>"

text \<open>An invalid risk registry leaves the check of tokens unavailable instead of empty.\<close>

definition new_token_config :: "outside \<Rightarrow> config \<Rightarrow> token_config" where
  "new_token_config ou c =
     (let risks = normalize_token_risks (ge_sha (ou_env ou)) (cf_token_risks c);
          token = cf_goplus_access_token c in
      \<lparr>tk_env = ou_env ou, tk_urls = ou_urls ou,
       tk_official = official_token_index (catalog_of ou c) (\<lambda>_. Map.empty),
       tk_risks = (case risks of Inl _ \<Rightarrow> Map.empty | Inr m \<Rightarrow> m),
       tk_registry_ok = (case risks of Inl _ \<Rightarrow> False | Inr _ \<Rightarrow> True),
       tk_goplus = (if cf_disable_external_token_risk c then None
                    else Some (new_goplus (cf_goplus_url c) token)),
       tk_goplus_solana = (if cf_disable_external_token_risk c then None
                           else Some (new_goplus_solana (cf_goplus_solana_url c) token)),
       tk_goplus_approvals = (if cf_disable_external_approvals c then None
                              else Some (new_goplus_approvals (cf_goplus_approval_url c) token))\<rparr>)"

definition balances_ttl :: duration where "balances_ttl = seconds 10"
definition history_ttl :: duration where "history_ttl = seconds 5"

definition new_service_config :: "outside \<Rightarrow> config \<Rightarrow> service_config" where
  "new_service_config ou c =
     \<lparr>sc_version = cf_version c, sc_outside = ou,
      sc_history = new_history_config ou c,
      sc_tokens = new_token_config ou c,
      sc_balances = \<lparr>bc_env = ou_env ou, bc_store_get = ou_cache_get ou, bc_store_set = ou_cache_set ou,
                     bc_schedule = ou_schedule ou\<rparr>,
      sc_prices = \<lparr>pc_env = ou_env ou, pc_unicode = ou_unicode ou, pc_wake = ou_wake ou,
                   pc_codec = ou_price_codec ou, pc_store_get = ou_cache_get ou, pc_store_set = ou_cache_set ou\<rparr>,
      sc_catalog = catalog_of ou c\<rparr>"

definition new_service_state :: "config \<Rightarrow> instant \<Rightarrow> service" where
  "new_service_state c now =
     \<lparr>sv_gateway = new_clients c,
      sv_alchemy = new_alchemy_clients c,
      sv_prices =
        \<lparr>prs_coin_gecko = new_coin_gecko (cf_coin_gecko_url c) (new_interval (cf_coin_gecko_interval c)),
         prs_cache = new_shared_cache prices_ttl (cf_shared_cache c) ''prices'' True\<rparr>,
      sv_balance_cache = new_shared_cache balances_ttl (cf_shared_cache c) ''balances-v2'' True,
      sv_history_cache = new_shared_cache history_ttl (cf_shared_cache c) ''history-v2'' True,
      sv_tokens = new_token_state,
      sv_diagnostics = new_app_diagnostic_metrics,
      sv_world = \<lparr>w_now = now, w_sent = []\<rparr>\<rparr>"

text \<open>\<open>New\<close>: the defaults are filled in first.\<close>

definition new_gateway :: "outside \<Rightarrow> config \<Rightarrow> instant \<Rightarrow> service_config \<times> service" where
  "new_gateway ou c now =
     (let cfg = fill_defaults c in (new_service_config ou cfg, new_service_state cfg now))"

subsection \<open>The process environment\<close>

text \<open>
  \<open>getenv\<close> answers the empty string for a variable that is not set. The Redis URL and connection,
  the files and \<open>strconv.ParseFloat\<close> are outside; a float is finite, an infinity or not a number.
\<close>

datatype go_float = Finite rat | PosInf | NegInf | NotANumber

record start_env =
  se_getenv :: "string \<Rightarrow> string"
  se_read_file :: "string \<Rightarrow> string option"
  se_redis_parse :: "string \<Rightarrow> (string \<times> string) option"
  se_redis_accepts :: "string \<Rightarrow> bool"
  se_redis_ping :: "string \<Rightarrow> redis_error + unit"
  se_config_get :: "string \<Rightarrow> redis_error + (string \<rightharpoonup> string)"
  se_parse_float :: "string \<Rightarrow> go_float option"
  se_now :: instant

datatype start_error =
    InvalidStore string
  | StoreUnavailable
  | UnsafeRetention string
  | InvalidSwitch
  | InvalidProviderURL
  | UnreadableFile
  | InvalidRegistry registry_error
  | InvalidProxies
  | InvalidMetricsToken
  | NonFiniteLimit

definition env_list :: "start_env \<Rightarrow> string \<Rightarrow> string list" where
  "env_list se key =
     (let raw = se_getenv se key in
      if raw = '''' then [] else filter (\<lambda>s. s \<noteq> '''') (map trim_space (split_on CHR '','' raw)))"

fun float_not_positive :: "go_float \<Rightarrow> bool" where
  "float_not_positive (Finite v) = (v \<le> 0)"
| "float_not_positive PosInf = False"
| "float_not_positive NegInf = True"
| "float_not_positive NotANumber = False"

definition env_float :: "start_env \<Rightarrow> string \<Rightarrow> rat \<Rightarrow> go_float" where
  "env_float se key def =
     (let raw = se_getenv se key in
      if raw = '''' then Finite def
      else case se_parse_float se raw of
          None \<Rightarrow> Finite def
        | Some v \<Rightarrow> if float_not_positive v then Finite def else v)"

definition prepend_urls :: "string list \<Rightarrow> string list \<Rightarrow> string list" where
  "prepend_urls primaries fallbacks =
     (if primaries = [] then fallbacks
      else primaries @ filter (\<lambda>fallback. fallback \<notin> set primaries) fallbacks)"

definition parse_bool :: "string \<Rightarrow> bool option" where
  "parse_bool s =
     (if s \<in> {''1'', ''t'', ''T'', ''TRUE'', ''true'', ''True''} then Some True
      else if s \<in> {''0'', ''f'', ''F'', ''FALSE'', ''false'', ''False''} then Some False
      else None)"

definition trimmed_env :: "start_env \<Rightarrow> string \<Rightarrow> string" where
  "trimmed_env se key = trim_space (se_getenv se key)"

text \<open>The stores: \<open>None\<close> when the variable is not set, otherwise the URL of the store.\<close>

definition open_store :: "start_env \<Rightarrow> string \<Rightarrow> start_error + redis_store" where
  "open_store se url =
     (case new_redis_store (se_redis_parse se url) (se_redis_accepts se url) of
        Inl e \<Rightarrow> Inl (InvalidStore e)
      | Inr s \<Rightarrow> Inr s)"

definition shared_store :: "start_env \<Rightarrow> start_error + string option" where
  "shared_store se =
     (let url = trimmed_env se ''REDIS_URL'' in
      if url = '''' then Inr None
      else bind_sum (open_store se url)
        (\<lambda>s. case redis_ping (se_now se) (se_now se) (se_redis_ping se url) s of
            (_, Inl _) \<Rightarrow> Inl StoreUnavailable
          | (_, Inr _) \<Rightarrow> Inr (Some url)))"

definition broadcast_store :: "start_env \<Rightarrow> string option \<Rightarrow> start_error + string option" where
  "broadcast_store se shared =
     (let url = trimmed_env se ''BROADCAST_REDIS_URL'' in
      bind_sum (if url = '''' then Inr shared else bind_sum (open_store se url) (\<lambda>_. Inr (Some url)))
        (\<lambda>store. case store of
            None \<Rightarrow> Inr None
          | Some url \<Rightarrow>
              (case validate_broadcast_retention (se_config_get se url) of
                 Some e \<Rightarrow> Inl (UnsafeRetention e)
               | None \<Rightarrow> Inr (Some url))))"

text \<open>Endpoints, keys and the two switches.\<close>

definition load_endpoints :: "start_env \<Rightarrow> config \<Rightarrow> config" where
  "load_endpoints se c =
     c\<lparr>cf_eth_urls := or_default (env_list se ''ETH_RPC_URLS'') (cf_eth_urls c),
       cf_polygon_urls := or_default (env_list se ''POLYGON_RPC_URLS'') (cf_polygon_urls c),
       cf_base_urls := or_default (env_list se ''BASE_RPC_URLS'') (cf_base_urls c),
       cf_arbitrum_urls := or_default (env_list se ''ARBITRUM_RPC_URLS'') (cf_arbitrum_urls c),
       cf_avalanche_urls := or_default (env_list se ''AVALANCHE_RPC_URLS'') (cf_avalanche_urls c),
       cf_bnb_urls := or_default (env_list se ''BNB_RPC_URLS'') (cf_bnb_urls c),
       cf_solana_urls := or_default (env_list se ''SOLANA_RPC_URLS'') (cf_solana_urls c),
       cf_tron_url := or_default (se_getenv se ''TRON_API_URL'') (cf_tron_url c),
       cf_tron_api_key := trimmed_env se ''TRON_API_KEY'',
       cf_eth_sepolia_urls := or_default (env_list se ''ETH_SEPOLIA_RPC_URLS'') (cf_eth_sepolia_urls c),
       cf_polygon_amoy_urls := or_default (env_list se ''POLYGON_AMOY_RPC_URLS'') (cf_polygon_amoy_urls c),
       cf_base_sepolia_urls := or_default (env_list se ''BASE_SEPOLIA_RPC_URLS'') (cf_base_sepolia_urls c),
       cf_arbitrum_sepolia_urls :=
         or_default (env_list se ''ARBITRUM_SEPOLIA_RPC_URLS'') (cf_arbitrum_sepolia_urls c),
       cf_avalanche_fuji_urls := or_default (env_list se ''AVALANCHE_FUJI_RPC_URLS'') (cf_avalanche_fuji_urls c),
       cf_bnb_testnet_urls := or_default (env_list se ''BNB_TESTNET_RPC_URLS'') (cf_bnb_testnet_urls c),
       cf_solana_devnet_urls := or_default (env_list se ''SOLANA_DEVNET_RPC_URLS'') (cf_solana_devnet_urls c),
       cf_tron_nile_url := or_default (se_getenv se ''TRON_NILE_API_URL'') (cf_tron_nile_url c),
       cf_coin_gecko_url := or_default (se_getenv se ''COINGECKO_API_URL'') (cf_coin_gecko_url c),
       cf_etherscan_url := or_default (se_getenv se ''ETHERSCAN_API_URL'') (cf_etherscan_url c),
       cf_etherscan_key := se_getenv se ''ETHERSCAN_API_KEY''\<rparr>"

definition load_alchemy_keys :: "start_env \<Rightarrow> string list" where
  "load_alchemy_keys se =
     (case env_list se ''ALCHEMY_API_KEYS'' of
        [] \<Rightarrow> (let legacy = trimmed_env se ''ALCHEMY_API_KEY'' in if legacy = '''' then [] else [legacy])
      | keys \<Rightarrow> keys)"

definition load_alchemy :: "start_env \<Rightarrow> config \<Rightarrow> config" where
  "load_alchemy se c =
     (let keys = load_alchemy_keys se; c = c\<lparr>cf_alchemy_keys := keys\<rparr> in
      if keys = [] then c
      else (let urls = lookup_list (alchemy_network_urls keys) in
        c\<lparr>cf_alchemy_rpc_count := int (length keys),
          cf_eth_urls := prepend_urls (urls ''eth-mainnet'') (cf_eth_urls c),
          cf_eth_sepolia_urls := prepend_urls (urls ''eth-sepolia'') (cf_eth_sepolia_urls c),
          cf_polygon_urls := prepend_urls (urls ''polygon-mainnet'') (cf_polygon_urls c),
          cf_polygon_amoy_urls := prepend_urls (urls ''polygon-amoy'') (cf_polygon_amoy_urls c),
          cf_base_urls := prepend_urls (urls ''base-mainnet'') (cf_base_urls c),
          cf_base_sepolia_urls := prepend_urls (urls ''base-sepolia'') (cf_base_sepolia_urls c),
          cf_arbitrum_urls := prepend_urls (urls ''arbitrum-mainnet'') (cf_arbitrum_urls c),
          cf_arbitrum_sepolia_urls := prepend_urls (urls ''arbitrum-sepolia'') (cf_arbitrum_sepolia_urls c),
          cf_avalanche_urls := prepend_urls (urls ''avalanche-mainnet'') (cf_avalanche_urls c),
          cf_avalanche_fuji_urls := prepend_urls (urls ''avalanche-fuji'') (cf_avalanche_fuji_urls c),
          cf_bnb_urls := prepend_urls (urls ''bnb-mainnet'') (cf_bnb_urls c),
          cf_bnb_testnet_urls := prepend_urls (urls ''bnb-testnet'') (cf_bnb_testnet_urls c)\<rparr>))"

definition load_providers :: "start_env \<Rightarrow> config \<Rightarrow> config" where
  "load_providers se c =
     c\<lparr>cf_helius_url := or_default (se_getenv se ''HELIUS_API_URL'') (cf_helius_url c),
       cf_helius_devnet_url := or_default (se_getenv se ''HELIUS_DEVNET_API_URL'') (cf_helius_devnet_url c),
       cf_helius_key := se_getenv se ''HELIUS_API_KEY'',
       cf_goplus_url := or_default (trimmed_env se ''GOPLUS_API_URL'') (cf_goplus_url c),
       cf_goplus_solana_url := or_default (trimmed_env se ''GOPLUS_SOLANA_API_URL'') (cf_goplus_solana_url c),
       cf_goplus_approval_url := or_default (trimmed_env se ''GOPLUS_APPROVAL_API_URL'') (cf_goplus_approval_url c),
       cf_goplus_access_token := trimmed_env se ''GOPLUS_ACCESS_TOKEN''\<rparr>"

definition env_switch :: "start_env \<Rightarrow> string \<Rightarrow> bool \<Rightarrow> start_error + bool" where
  "env_switch se key cur =
     (let v = trimmed_env se key in
      if v = '''' then Inr cur
      else case parse_bool v of None \<Rightarrow> Inl InvalidSwitch | Some b \<Rightarrow> Inr b)"

definition require :: "bool \<Rightarrow> start_error \<Rightarrow> start_error + unit" where
  "require b e = (if b then Inr () else Inl e)"

definition load_switches :: "start_env \<Rightarrow> url_env \<Rightarrow> config \<Rightarrow> start_error + config" where
  "load_switches se ue c =
     bind_sum (env_switch se ''DISABLE_EXTERNAL_TOKEN_RISK'' (cf_disable_external_token_risk c))
       (\<lambda>no_risk.
     bind_sum (env_switch se ''DISABLE_EXTERNAL_APPROVAL_LOOKUP'' (cf_disable_external_approvals c))
       (\<lambda>no_approvals.
     bind_sum (require (no_risk \<or> validate_goplus_url ue (cf_goplus_url c)) InvalidProviderURL)
       (\<lambda>_.
     bind_sum (require (no_approvals \<or> validate_goplus_url ue (cf_goplus_approval_url c)) InvalidProviderURL)
       (\<lambda>_. Inr (c\<lparr>cf_disable_external_token_risk := no_risk, cf_disable_external_approvals := no_approvals\<rparr>)))))"

text \<open>The two registry files; an accepted file replaces the whole built-in list.\<close>

definition load_registry ::
  "start_env \<Rightarrow> string \<Rightarrow> (string \<Rightarrow> registry_error + 'a list) \<Rightarrow> 'a list option \<Rightarrow> start_error + 'a list option" where
  "load_registry se key load cur =
     (let path = trimmed_env se key in
      if path = '''' then Inr cur
      else case se_read_file se path of
          None \<Rightarrow> Inl UnreadableFile
        | Some content \<Rightarrow>
            (case load content of Inl e \<Rightarrow> Inl (InvalidRegistry e) | Inr entries \<Rightarrow> Inr (Some entries)))"

definition load_registries :: "start_env \<Rightarrow> outside \<Rightarrow> config \<Rightarrow> start_error + config" where
  "load_registries se ou c =
     (let sha = ge_sha (ou_env ou) in
      bind_sum (load_registry se ''OFFICIAL_TOKENS_FILE'' (load_official_tokens_file (ou_unicode ou) sha)
          (cf_official_tokens c))
        (\<lambda>tokens.
      bind_sum (load_registry se ''TOKEN_RISKS_FILE'' (load_token_risks_file sha) (cf_token_risks c))
        (\<lambda>risks. Inr (c\<lparr>cf_official_tokens := tokens, cf_token_risks := risks\<rparr>))))"

definition load_config :: "start_env \<Rightarrow> outside \<Rightarrow> start_error + config" where
  "load_config se ou =
     bind_sum (shared_store se) (\<lambda>shared.
     bind_sum (broadcast_store se shared) (\<lambda>store.
     bind_sum (load_switches se (ou_urls ou) (load_providers se (load_alchemy se (load_endpoints se
         (defaults\<lparr>cf_shared_cache := (shared \<noteq> None), cf_broadcast_store := (store \<noteq> None)\<rparr>))))) (\<lambda>c.
     load_registries se ou c)))"

subsection \<open>The metrics page\<close>

text \<open>Lengths are in bytes; \<open>None\<close> refuses the token, the empty token closes the page.\<close>

definition validate_metrics_bearer_token :: "string \<Rightarrow> string option" where
  "validate_metrics_bearer_token raw =
     (let token = trim_space raw in
      if token = '''' then Some '''' else if length token < 32 then None else Some token)"

definition has_valid_metrics_bearer :: "string \<Rightarrow> string \<Rightarrow> bool" where
  "has_valid_metrics_bearer authorization token \<longleftrightarrow> token \<noteq> '''' \<and> authorization = ''Bearer '' @ token"

definition metrics_handler :: "string \<Rightarrow> string \<Rightarrow> string \<Rightarrow> string option" where
  "metrics_handler page token authorization =
     (if has_valid_metrics_bearer authorization token then Some page else None)"

end
