(* ===== verification/Metrics.thy ===== *)
theory Metrics
  imports Health Token_Security App_Diagnostics Cache
begin

section \<open>The metrics page\<close>

text \<open>
  \<open>handlers/metrics.go\<close>: the Prometheus text of every counter the gateway keeps. Every label is a
  network, an endpoint position or a word of the code; the parameter \<open>fmt\<close> is the \<open>%g\<close> form of a
  \<open>float64\<close>, here a number of milliseconds divided by 1000.
\<close>

definition nl :: string where "nl = [CHR 0x0A]"

definition metric_families :: "(string \<times> string \<times> string) list" where
  \<open>metric_families =
     [(''upstream_endpoints'', ''Configured upstream endpoint count.'', ''gauge''),
      (''ready'', ''Whether at least one configured JSON-RPC network can currently accept work.'', ''gauge''),
      (''network_available'', ''Whether a network has at least one endpoint outside an open circuit.'', ''gauge''),
      (''upstream_open_circuits'', ''Upstream endpoints with an open circuit.'', ''gauge''),
      (''upstream_attempts_total'', ''Upstream attempts by anonymous endpoint and outcome.'', ''counter''),
      (''upstream_failures_total'', ''Upstream failures by privacy-safe reason.'', ''counter''),
      (''upstream_latency_seconds'', ''Rolling endpoint latency percentile over at most 256 attempts.'', ''gauge''),
      (''upstream_latency_samples'', ''Number of attempts retained in the rolling latency window.'', ''gauge''),
      (''upstream_available'', ''Whether the anonymous endpoint circuit is available for a request.'', ''gauge''),
      (''shared_cache_enabled'', ''Whether the cross-instance cache is configured.'', ''gauge''),
      (''shared_cache_operations_total'', ''Cross-instance cache operations by outcome.'', ''counter''),
      (''broadcast_guard_enabled'', ''Whether the atomic cross-instance broadcast guard is configured.'', ''gauge''),
      (''broadcast_guard_operations_total'', ''Broadcast guard operations by fixed privacy-safe outcome.'', ''counter''),
      (''token_risk_provider_enabled'', ''Whether independent token threat intelligence is configured.'', ''gauge''),
      (''token_risk_provider_operations_total'', ''External token threat-intelligence operations by privacy-safe outcome.'', ''counter''),
      (''token_approval_provider_enabled'', ''Whether external token-approval discovery is configured.'', ''gauge''),
      (''token_approval_provider_operations_total'', ''External token-approval operations by privacy-safe outcome.'', ''counter''),
      (''token_approval_rows_total'', ''Token-approval rows observed by fixed risk category.'', ''counter''),
      (''external_provider_circuit_open'', ''Whether a security-provider circuit is open and calls fail closed without contacting it.'', ''gauge''),
      (''external_provider_circuit_probe_inflight'', ''Whether the only half-open recovery probe is currently in flight.'', ''gauge''),
      (''external_provider_circuit_short_circuits_total'', ''Security-provider calls rejected while a circuit was open.'', ''counter''),
      (''app_diagnostic_uploads_total'', ''Explicitly consented aggregate-only mobile diagnostic uploads.'', ''counter''),
      (''app_diagnostic_samples_total'', ''Client-reported samples by fixed metric and outcome.'', ''counter''),
      (''app_diagnostic_reports_total'', ''Reports contributing a fixed metric row.'', ''counter''),
      (''app_diagnostic_percentile_milliseconds_sum'', ''Sum of client-computed percentiles; divide by reports for the average reported percentile.'', ''counter'')]\<close>

definition metric_header :: "string \<times> string \<times> string \<Rightarrow> string" where
  "metric_header f =
     (case f of (name, help, kind) \<Rightarrow>
        ''# HELP kt_gateway_'' @ name @ '' '' @ help @ nl @ ''# TYPE kt_gateway_'' @ name @ '' '' @ kind @ nl)"

text \<open>One sample line; without labels there are no braces.\<close>

definition label :: "string \<times> string \<Rightarrow> string" where
  "label l = fst l @ ''='' @ quote (snd l)"

definition sample :: "string \<Rightarrow> (string \<times> string) list \<Rightarrow> string \<Rightarrow> string" where
  "sample name labels n =
     ''kt_gateway_'' @ name @
     (if labels = [] then [] else ''{'' @ join '','' (map label labels) @ ''}'') @ '' '' @ n @ nl"

abbreviation count :: "64 word \<Rightarrow> string" where "count n \<equiv> dec_of_nat (unat n)"

definition flag :: "bool \<Rightarrow> string" where "flag b = (if b then ''1'' else ''0'')"

definition write_failure_metrics :: "(string \<times> string) list \<Rightarrow> failure_counts \<Rightarrow> string" where
  "write_failure_metrics base m =
     concat (map (\<lambda>(reason, n). sample ''upstream_failures_total'' (base @ [(''reason'', reason)]) (count n))
       [(''rate_limited'', fc_rate_limited m), (''timeout'', fc_timeouts m),
        (''malformed_response'', fc_malformed m), (''transport'', fc_transport m),
        (''server_error'', fc_server m), (''provider_error'', fc_provider m), (''other'', fc_other m)])"

definition write_cache_metrics :: "string \<Rightarrow> 'v cache \<Rightarrow> string" where
  "write_cache_metrics name c =
     sample ''shared_cache_enabled'' [(''cache'', name)] (flag (ch_namespace c \<noteq> None)) @
     sample ''shared_cache_operations_total'' [(''cache'', name), (''outcome'', ''hit'')] (count (ch_hits c)) @
     sample ''shared_cache_operations_total'' [(''cache'', name), (''outcome'', ''miss'')] (count (ch_misses c)) @
     sample ''shared_cache_operations_total'' [(''cache'', name), (''outcome'', ''error'')] (count (ch_errors c))"

definition write_provider_circuit_metrics :: "string \<Rightarrow> provider_circuit option \<Rightarrow> string" where
  "write_provider_circuit_metrics provider circuit =
     (let s = (case circuit of
                 None \<Rightarrow> \<lparr>ps_open = False, ps_probe_in_flight = False, ps_short_circuits = 0\<rparr>
               | Some c \<Rightarrow> circuit_snapshot c)
      in sample ''external_provider_circuit_open'' [(''provider'', provider)] (flag (ps_open s)) @
         sample ''external_provider_circuit_probe_inflight'' [(''provider'', provider)] (flag (ps_probe_in_flight s)) @
         sample ''external_provider_circuit_short_circuits_total'' [(''provider'', provider)]
           (count (ps_short_circuits s)))"

definition write_broadcast_guard_metrics :: "broadcast_guard \<Rightarrow> string" where
  "write_broadcast_guard_metrics g =
     (let m = bg_metrics g in
      sample ''broadcast_guard_enabled'' [] (flag (bg_shared g)) @
      concat (map (\<lambda>(outcome, n). sample ''broadcast_guard_operations_total'' [(''outcome'', outcome)] (count n))
        [(''claim_acquired'', gm_claim_acquired m), (''replay_accepted'', gm_replay_accepted m),
         (''replay_rejected'', gm_replay_rejected m), (''replay_unknown'', gm_replay_unknown m),
         (''replay_pending'', gm_replay_pending m), (''unavailable'', gm_unavailable m),
         (''corrupt_record'', gm_corrupt_record m), (''persist_error'', gm_persist_error m)]))"

definition endpoint_metrics_text :: "(rat \<Rightarrow> string) \<Rightarrow> string \<Rightarrow> endpoint_health \<Rightarrow> string" where
  "endpoint_metrics_text fmt network e =
     (let base = [(''network'', network), (''endpoint'', dec_of_nat (eh_position e))] in
      sample ''upstream_attempts_total'' (base @ [(''outcome'', ''success'')]) (count (eh_successes e)) @
      sample ''upstream_attempts_total'' (base @ [(''outcome'', ''failure'')]) (count (eh_failures e)) @
      write_failure_metrics base (eh_failure_metrics e) @
      sample ''upstream_latency_seconds'' (base @ [(''percentile'', ''p50'')])
        (fmt (of_int (eh_latency_p50_ms e) / 1000)) @
      sample ''upstream_latency_seconds'' (base @ [(''percentile'', ''p95'')])
        (fmt (of_int (eh_latency_p95_ms e) / 1000)) @
      sample ''upstream_latency_samples'' base (dec_of_nat (eh_samples e)) @
      sample ''upstream_available'' base (flag (eh_state e \<noteq> ''open'')))"

definition network_metrics_text :: "(rat \<Rightarrow> string) \<Rightarrow> string \<times> pool_health \<Rightarrow> string" where
  "network_metrics_text fmt nh =
     (let (network, h) = nh; base = [(''network'', network)] in
      sample ''network_available'' base (flag (0 < ph_endpoints h \<and> ph_open_circuits h < ph_endpoints h)) @
      sample ''upstream_endpoints'' base (dec_of_nat (ph_endpoints h)) @
      sample ''upstream_open_circuits'' base (dec_of_nat (ph_open_circuits h)) @
      concat (map (endpoint_metrics_text fmt network) (ph_endpoint_metrics h)))"

definition token_risk_metrics_text :: "token_config \<Rightarrow> token_risk_metrics \<Rightarrow> string" where
  "token_risk_metrics_text c m =
     sample ''token_risk_provider_enabled'' [] (flag (tk_goplus c \<noteq> None \<or> tk_goplus_solana c \<noteq> None)) @
     concat (map (\<lambda>(outcome, n). sample ''token_risk_provider_operations_total'' [(''outcome'', outcome)] (count n))
       [(''lookup'', rm_lookups m), (''unsafe'', rm_unsafe m), (''unknown'', rm_unknown m),
        (''error'', rm_errors m), (''cache_hit'', rm_cache_hits m)])"

definition approval_metrics_text :: "token_config \<Rightarrow> token_approval_metrics \<Rightarrow> string" where
  "approval_metrics_text c m =
     sample ''token_approval_provider_enabled'' [] (flag (tk_goplus_approvals c \<noteq> None)) @
     concat (map (\<lambda>(outcome, n). sample ''token_approval_provider_operations_total'' [(''outcome'', outcome)] (count n))
       [(''lookup'', am_lookups m), (''error'', am_errors m), (''cache_hit'', am_cache_hits m)]) @
     sample ''token_approval_rows_total'' [(''risk'', ''all'')] (count (am_rows m)) @
     sample ''token_approval_rows_total'' [(''risk'', ''unsafe'')] (count (am_risky_rows m))"

text \<open>A missing row would be a nil pointer in Go; \<open>diagnostics_inv\<close> says there is none.\<close>

definition diagnostic_row_text :: "diagnostic_metrics \<Rightarrow> string \<Rightarrow> string \<Rightarrow> string" where
  "diagnostic_row_text m platform name =
     (let row = (case map_of (dm_rows m) (platform, name) of Some r \<Rightarrow> r | None \<Rightarrow> zero_counters);
          base = [(''platform'', platform), (''metric'', name)] in
      sample ''app_diagnostic_samples_total'' (base @ [(''outcome'', ''success'')]) (count (dc_success row)) @
      sample ''app_diagnostic_samples_total'' (base @ [(''outcome'', ''failure'')]) (count (dc_failure row)) @
      sample ''app_diagnostic_reports_total'' base (count (dc_reports row)) @
      sample ''app_diagnostic_percentile_milliseconds_sum'' (base @ [(''percentile'', ''p50'')]) (count (dc_p50_sum row)) @
      sample ''app_diagnostic_percentile_milliseconds_sum'' (base @ [(''percentile'', ''p95'')]) (count (dc_p95_sum row)))"

definition diagnostics_text :: "diagnostic_metrics \<Rightarrow> string" where
  "diagnostics_text m =
     concat (map (\<lambda>platform.
        sample ''app_diagnostic_uploads_total'' [(''platform'', platform)]
          (count (case map_of (dm_uploads m) platform of Some n \<Rightarrow> n | None \<Rightarrow> 0)) @
        concat (map (diagnostic_row_text m platform) app_diagnostic_metric_order)) app_diagnostic_platforms)"

definition metrics ::
  "(rat \<Rightarrow> string) \<Rightarrow> instant \<Rightarrow> gateway \<Rightarrow> 'p cache \<Rightarrow> 'b cache \<Rightarrow> 'h cache \<Rightarrow> token_config \<Rightarrow> token_state
     \<Rightarrow> diagnostic_metrics \<Rightarrow> string" where
  "metrics fmt now g prices balances history c ts dm =
     (let nets = sort_key fst (network_health now g) in
      concat (map metric_header metric_families) @
      concat (map (network_metrics_text fmt) nets) @
      sample ''ready'' [] (flag (list_ex (\<lambda>(_, h). 0 < ph_endpoints h \<and> ph_open_circuits h < ph_endpoints h) nets)) @
      write_cache_metrics ''prices'' prices @ write_cache_metrics ''balances'' balances @
      write_cache_metrics ''history'' history @ write_broadcast_guard_metrics (gw_guard g) @
      token_risk_metrics_text c (ts_risk_metrics ts) @ approval_metrics_text c (ts_approval_metrics ts) @
      write_provider_circuit_metrics ''token_risk_evm''
        (map_option (\<lambda>_. ts_goplus_circuit ts) (tk_goplus c)) @
      write_provider_circuit_metrics ''token_risk_solana''
        (map_option (\<lambda>_. ts_solana_circuit ts) (tk_goplus_solana c)) @
      write_provider_circuit_metrics ''token_approvals_evm''
        (map_option (\<lambda>_. ts_approvals_circuit ts) (tk_goplus_approvals c)) @
      diagnostics_text dm)"

subsection \<open>What the page shows\<close>

text \<open>Like the health answer, the page is the same for every choice of endpoint URLs.\<close>

lemma relabel_guard [simp]: "gw_guard (relabel_gateway f g) = gw_guard g"
  by (simp add: relabel_gateway_def)

lemma metrics_name_no_endpoint:
  "metrics fmt now (relabel_gateway f g) prices balances history c ts dm =
   metrics fmt now g prices balances history c ts dm"
  by (simp only: metrics_def network_health_relabel relabel_guard)

text \<open>
  It says \<open>kt_gateway_ready 1\<close> exactly when the readiness probe answers 200: both read the same health.
\<close>

lemma list_ex_sort_key: "list_ex P (sort_key f xs) = list_ex P xs"
  by (simp add: list_ex_iff)

lemma metrics_ready:
  "list_ex (\<lambda>(_, h). 0 < ph_endpoints h \<and> ph_open_circuits h < ph_endpoints h) (sort_key fst (network_health now g)) =
   fst (readiness now g)"
proof -
  have "(0 < ph_endpoints h \<and> ph_open_circuits h < ph_endpoints h) = (\<not> network_unavailable h)" for h
    by (auto simp: network_unavailable_def)
  then show ?thesis
    by (simp add: list_ex_sort_key list_ex_iff network_health_def split_def network_unavailable_iff readiness_iff(1)
        del: split_paired_Ex)
qed

end
