(* ===== verification/Service.thy ===== *)
theory Service
  imports Wiring Metrics Rpc History_Handler Balances
begin

section \<open>The service: every method behind one server\<close>

text \<open>
  \<open>Register\<close> of \<open>handlers/gateway.go\<close> and the rest of \<open>cmd/gateway/main.go\<close>. A method of the
  server takes the raw parameters and the whole state of the gateway and returns the JSON result or
  the error; requests are served one after another. The float format of \<open>encoding/json\<close> is outside.
\<close>

subsection \<open>Handlers over the whole state\<close>

definition rendered :: "('a \<Rightarrow> json) \<Rightarrow> rpc_error + 'a \<Rightarrow> rpc_error + raw" where
  "rendered to_json r = (case r of Inl e \<Rightarrow> Inl e | Inr x \<Rightarrow> Inr (Some (to_json x)))"

definition on_gateway :: "json Gateway.handler \<Rightarrow> service \<Rightarrow> (rpc_error + raw) \<times> service" where
  "on_gateway m sv =
     (case m (sv_gateway sv) (sv_world sv) of
        (r, g, w) \<Rightarrow> (rendered id r, sv\<lparr>sv_gateway := g, sv_world := w\<rparr>))"

definition on_balances :: "('a \<Rightarrow> json) \<Rightarrow> 'a balances \<Rightarrow> service \<Rightarrow> (rpc_error + raw) \<times> service" where
  "on_balances to_json m sv =
     (case m \<lparr>bs_gateway = sv_gateway sv, bs_cache = sv_balance_cache sv\<rparr> (sv_world sv) of
        (r, st, w) \<Rightarrow>
          (rendered to_json r,
           sv\<lparr>sv_gateway := bs_gateway st, sv_balance_cache := bs_cache st, sv_world := w\<rparr>))"

definition on_history :: "history_result history \<Rightarrow> service \<Rightarrow> (rpc_error + raw) \<times> service" where
  "on_history m sv =
     (case m \<lparr>hs_gateway = sv_gateway sv, hs_alchemy = sv_alchemy sv, hs_cache = sv_history_cache sv\<rparr>
             (sv_world sv) of
        (r, st, w) \<Rightarrow>
          (rendered history_json r,
           sv\<lparr>sv_gateway := hs_gateway st, sv_alchemy := hs_alchemy st, sv_history_cache := hs_cache st,
              sv_world := w\<rparr>))"

definition on_tokens :: "json token_handler \<Rightarrow> service \<Rightarrow> (rpc_error + raw) \<times> service" where
  "on_tokens m sv =
     (case m (sv_tokens sv) (sv_world sv) of
        (r, st, w) \<Rightarrow> (rendered id r, sv\<lparr>sv_tokens := st, sv_world := w\<rparr>))"

text \<open>\<open>priceResult\<close>; a Go map is printed in the order of its keys.\<close>

definition usd_price_json :: "(rat \<Rightarrow> string) \<Rightarrow> usd_price \<Rightarrow> json" where
  "usd_price_json fmt p =
     JObj ((''usd'', JNum (fmt (up_usd p))) #
       (case up_change24h p of None \<Rightarrow> [] | Some x \<Rightarrow> [(''change24h'', JNum (fmt x))]))"

definition price_result_json :: "(rat \<Rightarrow> string) \<Rightarrow> price_result \<Rightarrow> json" where
  "price_result_json fmt r =
     JObj [(''cachedAtMs'', JNum (dec_of_int (pr_cached_at_ms r))),
           (''fiatPerUsd'', JObj (sort_key fst (map (\<lambda>(k, x). (k, JNum (fmt x))) (pr_fiat_per_usd r)))),
           (''prices'', JObj (sort_key fst (map (\<lambda>(k, p). (k, usd_price_json fmt p)) (pr_prices r))))]"

definition on_prices ::
  "(rat \<Rightarrow> string) \<Rightarrow> (price_state \<Rightarrow> world \<Rightarrow> (rpc_error + price_result) \<times> price_state \<times> world) \<Rightarrow> service
     \<Rightarrow> (rpc_error + raw) \<times> service" where
  "on_prices fmt m sv =
     (case m (sv_prices sv) (sv_world sv) of
        (r, st, w) \<Rightarrow> (rendered (price_result_json fmt) r, sv\<lparr>sv_prices := st, sv_world := w\<rparr>))"

definition portfolio_entry_json :: "portfolio_entry \<Rightarrow> json" where
  "portfolio_entry_json e =
     JObj ([(''chain'', JStr (pe_chain e)), (''network'', JStr (pe_network e)), (''address'', JStr (pe_address e))] @
       (case pe_result e of None \<Rightarrow> [] | Some r \<Rightarrow> [(''result'', balances_json r)]) @
       (if pe_error e = [] then [] else [(''error'', JStr (pe_error e))]))"

definition portfolio_json :: "portfolio_entry list \<Rightarrow> json" where
  "portfolio_json es = JObj [(''accounts'', JArr (map portfolio_entry_json es))]"

subsection \<open>Register\<close>

abbreviation sc_env :: "service_config \<Rightarrow> gateway_env" where "sc_env c \<equiv> ou_env (sc_outside c)"

definition service_broadcast :: "service_config \<Rightarrow> service Rpc.handler" where
  "service_broadcast c params sv =
     on_gateway (broadcast (sc_env c) (ou_broadcast_store (sc_outside c) params (sv_world sv)) params) sv"

definition service_history :: "service_config \<Rightarrow> service Rpc.handler" where
  "service_history c params sv =
     on_history (get_history (sc_history c) (ou_history_get (sc_outside c) params (sv_world sv))
       (ou_history_set (sc_outside c) params (sv_world sv)) params) sv"

definition service_search :: "service_config \<Rightarrow> service Rpc.handler" where
  "service_search c params sv =
     (rendered search_result_json (search_official_tokens (ou_unicode (sc_outside c)) (sc_catalog c) params), sv)"

definition service_health :: "service_config \<Rightarrow> service Rpc.handler" where
  "service_health c params sv =
     (Inr (Some (health (sc_version c) (w_now (sv_world sv)) (sv_gateway sv))), sv)"

definition service_diagnostics :: "service Rpc.handler" where
  "service_diagnostics params sv =
     (case report_app_diagnostics params (sv_diagnostics sv) of
        (r, m) \<Rightarrow> (rendered id r, sv\<lparr>sv_diagnostics := m\<rparr>))"

definition service_methods :: "service_config \<Rightarrow> (string \<times> service Rpc.handler) list" where
  "service_methods c =
     [(''kt_health'', service_health c),
      (''kt_getBalances'', \<lambda>params. on_balances balances_json (get_balances (sc_balances c) params)),
      (''kt_getPortfolio'', \<lambda>params. on_balances portfolio_json (get_portfolio (sc_balances c) params)),
      (''kt_getPrices'', \<lambda>params. on_prices (ou_json_float (sc_outside c)) (get_prices (sc_prices c) params)),
      (''kt_getChainParams'', \<lambda>params. on_gateway (get_chain_params (sc_env c) params)),
      (''kt_getTronFeeData'', \<lambda>params. on_gateway (get_tron_fee_data (sc_env c) params)),
      (''kt_simulateEvmTransfer'', \<lambda>params. on_gateway (simulate_evm_transfer (sc_env c) params)),
      (''kt_estimateEvmGas'', \<lambda>params. on_gateway (estimate_evm_gas (sc_env c) params)),
      (''kt_getEvmSpendableBalances'', \<lambda>params. on_gateway (get_evm_spendable_balances (sc_env c) params)),
      (''kt_getHistory'', service_history c),
      (''kt_getTransactionStatus'', \<lambda>params. on_gateway (get_transaction_status (sc_env c) params)),
      (''kt_getNetworkIdentity'', \<lambda>params. on_gateway (get_network_identity (sc_env c) params)),
      (''kt_searchTokens'', service_search c),
      (''kt_checkTokenRisk'', \<lambda>params. on_tokens (check_token_risk (sc_tokens c) params)),
      (''kt_getEvmTokenApprovals'', \<lambda>params. on_tokens (get_evm_token_approvals (sc_tokens c) params)),
      (''kt_reportDiagnostics'', service_diagnostics),
      (''kt_broadcast'', service_broadcast c)]"

definition register_all :: "service_config \<Rightarrow> service server \<Rightarrow> service server" where
  "register_all c s = fold (\<lambda>(name, h) s. register s name h) (service_methods c) s"

subsection \<open>The process\<close>

text \<open>
  What \<open>main\<close> serves after a successful start. The model of the limiter has finite rates only: where
  the code goes on with an infinite rate or with one that is not a number, the model stops with
  \<open>NonFiniteLimit\<close>.
\<close>

record process =
  pr_config :: service_config
  pr_server :: "service server"
  pr_metrics_token :: string
  pr_limiter :: limiter
  pr_service :: service

definition start_limiter :: "start_env \<Rightarrow> start_error + limiter" where
  "start_limiter se =
     (case (env_float se ''RATE_LIMIT_RPS'' 10, env_float se ''RATE_LIMIT_BURST'' 20) of
        (Finite rate, Finite burst) \<Rightarrow> Inr (new_limiter rate burst)
      | _ \<Rightarrow> Inl NonFiniteLimit)"

definition start_process :: "start_env \<Rightarrow> outside \<Rightarrow> start_error + process" where
  "start_process se ou =
     bind_sum (load_config se ou) (\<lambda>cfg.
     bind_sum (start_limiter se) (\<lambda>limiter.
       let (c, sv) = new_gateway ou cfg (se_now se) in
       case set_trusted_proxy_cidrs new_server (trimmed_env se ''TRUSTED_PROXY_CIDRS'') of
         Inl _ \<Rightarrow> Inl InvalidProxies
       | Inr server \<Rightarrow>
           (case validate_metrics_bearer_token (se_getenv se ''METRICS_BEARER_TOKEN'') of
              None \<Rightarrow> Inl InvalidMetricsToken
            | Some token \<Rightarrow>
                Inr \<lparr>pr_config = c, pr_server = register_all c server, pr_metrics_token = token,
                     pr_limiter = limiter, pr_service = sv\<rparr>)))"

text \<open>The pages of the multiplexer besides \<open>POST /rpc\<close>; the metrics page is 404 without its token.\<close>

definition metrics_page :: "process \<Rightarrow> string" where
  "metrics_page p =
     (let sv = pr_service p in
      metrics (ou_metric_float (sc_outside (pr_config p))) (w_now (sv_world sv)) (sv_gateway sv)
        (prs_cache (sv_prices sv)) (sv_balance_cache sv) (sv_history_cache sv) (sc_tokens (pr_config p))
        (sv_tokens sv) (sv_diagnostics sv))"

definition not_found :: http_answer where
  "not_found = \<lparr>ha_status = 404, ha_content_type = ''text/plain; charset=utf-8'', ha_body = ''404 page not found'' @ [CHR 0x0A]\<rparr>"

definition method_not_allowed :: http_answer where
  "method_not_allowed =
     \<lparr>ha_status = 405, ha_content_type = ''text/plain; charset=utf-8'', ha_body = ''Method Not Allowed'' @ [CHR 0x0A]\<rparr>"

text \<open>A \<open>GET\<close> of a clean path; \<open>net/http\<close> redirects other spellings. \<open>/rpc\<close> takes \<open>POST\<close> only.\<close>

definition get_page :: "process \<Rightarrow> string \<Rightarrow> string \<Rightarrow> http_answer" where
  "get_page p path authorization =
     (let sv = pr_service p in
      if path = ''/healthz'' then healthz
      else if path = ''/readyz'' then readyz (w_now (sv_world sv)) (sv_gateway sv)
      else if path = ''/metrics'' then
        (case metrics_handler (metrics_page p) (pr_metrics_token p) authorization of
           Some page \<Rightarrow> \<lparr>ha_status = 200, ha_content_type = ''text/plain; version=0.0.4; charset=utf-8'', ha_body = page\<rparr>
         | None \<Rightarrow> not_found)
      else if path = ''/rpc'' then method_not_allowed
      else not_found)"

definition post_rpc :: "process \<Rightarrow> client_request \<Rightarrow> rpc_response \<times> log_line list \<times> process" where
  "post_rpc p r =
     (case serve_http (pr_server p) (w_now (sv_world (pr_service p))) r (Some (pr_limiter p)) (pr_service p) of
        (resp, lines, l, sv) \<Rightarrow>
          (resp, lines, p\<lparr>pr_limiter := (case l of Some l \<Rightarrow> l | None \<Rightarrow> pr_limiter p), pr_service := sv\<rparr>))"

end
