(* ===== verification/Timely.thy ===== *)
theory Timely
  imports Balances Prices Token_Security History_Cost Broadcast_Once
begin

section \<open>Reads leave the guard alone and never turn back the clock\<close>

text \<open>
  Every handler but \<open>kt_broadcast\<close> is \<open>calm\<close>: it keeps the broadcast guard as it was and ends no
  earlier than it began. The clients are \<open>timely\<close>: they end no earlier than they began.
\<close>

named_theorems calm_intros

subsection \<open>Clients\<close>

definition timely_io :: "'a io \<Rightarrow> bool" where
  "timely_io m \<longleftrightarrow> (\<forall>p w. w_now w \<le> w_now (snd (snd (m p w))))"

definition timely_rest :: "'a rest \<Rightarrow> bool" where
  "timely_rest m \<longleftrightarrow> (\<forall>w. w_now w \<le> w_now (snd (m w)))"

lemma timely_io_cost: "io_cost n m \<Longrightarrow> timely_io m"
  unfolding timely_io_def io_cost_def sends_upto_def by (metis prod.collapse)

lemma timely_rest_cost: "rest_cost n m \<Longrightarrow> timely_rest m"
  by (simp add: timely_rest_def rest_cost_def sends_upto_def)

lemma timely_pool_call [calm_intros]:
  "timely_io (pool_call env ext m ps)" "timely_io (pool_call_once env m ps)"
  using timely_io_cost [OF pool_call_cost] sends_upto_call_once
  by (auto simp: timely_io_def sends_upto_def)

lemma timely_io_pure [calm_intros]:
  "timely_io (io_return x)" "timely_io (io_fail e)" "timely_io (io_lift r)"
  "timely_io (evm_unavailable t)" "timely_io (solana_fail t)"
  by (simp_all add: timely_io_def io_return_def io_fail_def io_lift_def evm_unavailable_def solana_fail_def)

lemma timely_io_bind [calm_intros]:
  assumes "timely_io f" "\<And>x. timely_io (g x)"
  shows "timely_io (io_bind f g)"
  unfolding timely_io_def
proof (intro allI)
  fix p w
  obtain r p1 w1 where f: "f p w = (r, p1, w1)" by (metis prod_cases3)
  then have "w_now w \<le> w_now w1" using assms(1) by (metis timely_io_def snd_conv)
  moreover have "w_now w1 \<le> w_now (snd (snd (g x p1 w1)))" for x using assms(2) by (simp add: timely_io_def)
  ultimately show "w_now w \<le> w_now (snd (snd (io_bind f g p w)))"
    by (cases r) (auto simp: io_bind_def f intro: order_trans)
qed

lemma timely_io_cases [calm_intros]:
  "(\<And>y. timely_io (g y)) \<Longrightarrow> timely_io h \<Longrightarrow> timely_io (case x of None \<Rightarrow> h | Some y \<Rightarrow> g y)"
  "(b \<Longrightarrow> timely_io m1) \<Longrightarrow> (\<not> b \<Longrightarrow> timely_io m2) \<Longrightarrow> timely_io (if b then m1 else m2)"
  "timely_io (solana_decoded m k)"
  by (auto simp: solana_decoded_def timely_io_pure split: option.split)

lemma timely_rest_lift [calm_intros]: "timely_rest (rest_lift r)"
  by (simp add: timely_rest_def rest_lift_def)

lemma timely_rest_bind [calm_intros]:
  assumes "timely_rest f" "\<And>x. timely_rest (g x)"
  shows "timely_rest (rest_bind f g)"
  unfolding timely_rest_def
proof (intro allI)
  fix w
  obtain r w1 where f: "f w = (r, w1)" by (metis surj_pair)
  then have "w_now w \<le> w_now w1" using assms(1) by (metis timely_rest_def snd_conv)
  moreover have "w_now w1 \<le> w_now (snd (g x w1))" for x using assms(2) by (simp add: timely_rest_def)
  ultimately show "w_now w \<le> w_now (snd (rest_bind f g w))"
    by (cases r) (auto simp: rest_bind_def f intro: order_trans)
qed

lemma timely_rest_cases [calm_intros]:
  "(\<And>y. timely_rest (g y)) \<Longrightarrow> timely_rest h \<Longrightarrow> timely_rest (case x of None \<Rightarrow> h | Some y \<Rightarrow> g y)"
  "(b \<Longrightarrow> timely_rest m1) \<Longrightarrow> (\<not> b \<Longrightarrow> timely_rest m2) \<Longrightarrow> timely_rest (if b then m1 else m2)"
  by (auto split: option.split)

lemmas timely_tron_fetch [calm_intros] = timely_rest_cost [OF tron_fetch_cost]

subsection \<open>Handlers over the clients and the guard\<close>

definition calm :: "'a Gateway.handler \<Rightarrow> bool" where
  "calm m \<longleftrightarrow> (\<forall>g w. gw_guard (fst (snd (m g w))) = gw_guard g \<and> w_now w \<le> w_now (snd (snd (m g w))))"

lemma calmD: "calm m \<Longrightarrow> m g w = (r, g', w') \<Longrightarrow> gw_guard g' = gw_guard g \<and> w_now w \<le> w_now w'"
  unfolding calm_def by (metis fst_conv snd_conv)

lemma calm_pure [calm_intros]: "calm (h_return x)" "calm (h_fail e)" "calm (h_lift r)"
  by (simp_all add: calm_def h_return_def h_fail_def h_lift_def)

lemma calm_bind [calm_intros]:
  assumes "calm m" "\<And>x. calm (f x)"
  shows "calm (h_bind m f)"
  unfolding calm_def
proof (intro allI)
  fix g w
  obtain r g1 w1 where m: "m g w = (r, g1, w1)" by (metis prod_cases3)
  note c = calmD [OF assms(1) m]
  show "gw_guard (fst (snd (h_bind m f g w))) = gw_guard g \<and> w_now w \<le> w_now (snd (snd (h_bind m f g w)))"
  proof (cases r)
    case (Inr x)
    have "gw_guard (fst (snd (f x g1 w1))) = gw_guard g1 \<and> w_now w1 \<le> w_now (snd (snd (f x g1 w1)))"
      using assms(2) by (simp add: calm_def)
    then show ?thesis using c by (auto simp: h_bind_def m Inr)
  qed (use c in \<open>simp add: h_bind_def m\<close>)
qed

lemma calm_on [calm_intros]:
  "timely_io mp \<Longrightarrow> calm (on_evm n mp)" "timely_io mp \<Longrightarrow> calm (on_sol n mp)"
  "(\<And>t. timely_rest (mr t)) \<Longrightarrow> calm (on_tron n mr)"
  by (simp_all add: calm_def timely_io_def timely_rest_def on_evm_def on_sol_def on_tron_def split_beta)

lemma calm_cases [calm_intros]:
  "(\<And>y. calm (f y)) \<Longrightarrow> calm h \<Longrightarrow> calm (case x of None \<Rightarrow> h | Some y \<Rightarrow> f y)"
  "(b \<Longrightarrow> calm m1) \<Longrightarrow> (\<not> b \<Longrightarrow> calm m2) \<Longrightarrow> calm (if b then m1 else m2)"
  "(\<And>e. calm (fe e)) \<Longrightarrow> (\<And>y. calm (fy y)) \<Longrightarrow> calm (case s of Inl e \<Rightarrow> fe e | Inr y \<Rightarrow> fy y)"
  "(\<And>a b. calm (fp a b)) \<Longrightarrow> calm (case p of (a, b) \<Rightarrow> fp a b)"
  by (auto split: option.split sum.split prod.split)

lemma calm_upstream [calm_intros]: "calm m \<Longrightarrow> calm (or_upstream_error label m)"
  unfolding or_upstream_error_def by (intro calm_intros)

lemma calm_by_family [calm_intros]: "calm m1 \<Longrightarrow> calm m2 \<Longrightarrow> calm m3 \<Longrightarrow> calm (by_family meta chain m1 m2 m3)"
  by (simp add: by_family_def)

subsection \<open>The clients' reads\<close>

lemma timely_call [calm_intros]:
  "timely_io (evm_call env m ps)" "timely_io (solana_call env m ps)" "timely_io (solana_call_extensible env m ps)"
  by (simp_all add: evm_call_def [abs_def] solana_call_def [abs_def] solana_call_extensible_def [abs_def] timely_pool_call)

lemma timely_io_sum [calm_intros]:
  "(\<And>e. timely_io (fe e)) \<Longrightarrow> (\<And>y. timely_io (fy y)) \<Longrightarrow> timely_io (case s of Inl e \<Rightarrow> fe e | Inr y \<Rightarrow> fy y)"
  by (auto split: sum.split)

lemma timely_evm [calm_intros]:
  "timely_io (evm_quantity env m ps)" "timely_io (evm_chain_id env)" "timely_io (evm_get_balance_at env a tag)"
  "timely_io (evm_get_balance env a)" "timely_io (evm_token_balance_at env ct h tag)"
  "timely_io (evm_token_balance env ct h)" "timely_io (evm_simulate_transaction env f t v d tag)"
  "timely_io (evm_estimate_gas env f t v d)" "timely_io (evm_transaction_count env a)"
  "timely_io (evm_gas_price env)" "timely_io (evm_transaction_status env hash)"
  "timely_io (evm_fee_history env n qs)"
  unfolding evm_quantity_def evm_chain_id_def evm_get_balance_at_def evm_get_balance_def evm_token_balance_at_def
    evm_token_balance_def evm_simulate_transaction_def evm_estimate_gas_def evm_transaction_count_def
    evm_gas_price_def evm_transaction_status_def evm_fee_history_def Let_def
  by (intro calm_intros)+

lemma timely_fee_tiers [calm_intros]: "timely_io (fee_tiers env)"
proof -
  have h: "timely_io (fee_tiers_from_history env)" "timely_io (fee_tiers_from_gas_price env)"
    unfolding fee_tiers_from_history_def fee_tiers_from_gas_price_def by (intro calm_intros)+
  show ?thesis
    unfolding timely_io_def
  proof (intro allI)
    fix p w
    obtain r p1 w1 where f: "fee_tiers_from_history env p w = (r, p1, w1)" by (metis prod_cases3)
    then have "w_now w \<le> w_now w1" using h(1) by (metis timely_io_def snd_conv)
    moreover have "w_now w1 \<le> w_now (snd (snd (fee_tiers_from_gas_price env p1 w1)))"
      using h(2) by (simp add: timely_io_def)
    ultimately show "w_now w \<le> w_now (snd (snd (fee_tiers env p w)))"
      by (cases r) (auto simp: fee_tiers_def f)
  qed
qed

lemma timely_solana [calm_intros]:
  "timely_io (solana_genesis_hash env)" "timely_io (solana_get_balance env a)"
  "timely_io (solana_get_token_balance env a m)" "timely_io (solana_signature_status env s)"
  unfolding solana_genesis_hash_def solana_get_balance_def solana_get_token_balance_def solana_signature_status_def
  by (intro calm_intros)+

lemma timely_tron_do [calm_intros]: "timely_rest (tron_do env t path payload ty)"
  unfolding tron_do_def by (intro calm_intros)

lemma timely_tron [calm_intros]:
  "timely_rest (tron_genesis_block_id env t)" "timely_rest (tron_transaction_contract_result env t i p)"
  "timely_rest (tron_get_account sha esc env t a)"
  unfolding tron_genesis_block_id_def tron_transaction_contract_result_def tron_get_account_def
  by (intro calm_intros)+

lemma timely_tron_status [calm_intros]: "timely_rest (tron_transaction_status env t i)"
  unfolding tron_transaction_status_def Let_def by (intro calm_intros)

lemma timely_tron_fee_data [calm_intros]: "timely_rest (tron_fee_data env t op a ct sel pa)"
  unfolding tron_fee_data_def by (auto intro!: calm_intros split: option.split)

subsection \<open>The handlers\<close>

lemma calm_evm_reads:
  "calm (get_chain_params env params)" "calm (simulate_evm_transfer env params)" "calm (estimate_evm_gas env params)"
  unfolding get_chain_params_def simulate_evm_transfer_def estimate_evm_gas_def Let_def
  by (intro calm_intros)+

lemma calm_spendable: "calm (get_evm_spendable_balances env params)"
  unfolding get_evm_spendable_balances_def native_views_def token_view_def Let_def
  by (intro calm_intros)

lemma calm_tron_fee_data: "calm (get_tron_fee_data env params)"
  unfolding get_tron_fee_data_def Let_def by (intro calm_intros)

lemma calm_status: "calm (get_transaction_status env params)"
  unfolding get_transaction_status_def Let_def by (intro calm_intros)

lemma calm_identity: "calm (get_network_identity env params)"
  unfolding get_network_identity_def Let_def by (intro calm_intros)

subsection \<open>Balances\<close>

lemma calm_read_tokens [calm_intros]: "(\<And>t. calm (rd t)) \<Longrightarrow> calm (read_tokens rd tokens is entries)"
  by (induction rd tokens "is" entries rule: read_tokens.induct) (simp_all add: calm_intros)

lemma calm_account_balances [calm_intros]:
  "calm native \<Longrightarrow> (\<And>t. calm (rd t)) \<Longrightarrow> calm (account_balances schedule meta native rd tokens)"
  unfolding account_balances_def by (intro calm_intros)

lemma timely_trc20 [calm_intros]: "timely_rest (tron_trc20_balance sha env t h c)"
  unfolding tron_trc20_balance_def Let_def by (auto intro!: calm_intros split: option.split)

lemma calm_token_entry [calm_intros]: "calm (evm_token_entry env network address t)"
  unfolding evm_token_entry_def by (intro calm_intros)

lemma calm_fetch_balances: "calm (fetch_balances c q)"
  unfolding fetch_balances_def evm_balances_def tron_balances_def solana_balances_def Let_def
  by (intro calm_intros)

definition quiet :: "gateway \<Rightarrow> world \<Rightarrow> gateway \<Rightarrow> world \<Rightarrow> bool" where
  "quiet g w g' w' \<longleftrightarrow> gw_guard g' = gw_guard g \<and> w_now w \<le> w_now w'"

lemma quiet_refl [simp]: "quiet g w g w" by (simp add: quiet_def)

lemma quiet_trans: "quiet g w g1 w1 \<Longrightarrow> quiet g1 w1 g2 w2 \<Longrightarrow> quiet g w g2 w2"
  by (auto simp: quiet_def)

lemma calm_quiet: "calm m \<Longrightarrow> m g w = (r, g', w') \<Longrightarrow> quiet g w g' w'"
  by (simp add: quiet_def calmD)

lemma get_balances_quiet:
  "get_balances c params st w = (r, st', w') \<Longrightarrow> quiet (bs_gateway st) w (bs_gateway st') w'"
  using calm_quiet [OF calm_fetch_balances]
  by (fastforce simp: get_balances_def Let_def split: sum.splits prod.splits option.splits)

lemma portfolio_row_quiet:
  "portfolio_row c a st w = (e, st', w') \<Longrightarrow> quiet (bs_gateway st) w (bs_gateway st') w'"
  using get_balances_quiet
  by (fastforce simp: portfolio_row_def Let_def split: sum.splits prod.splits)

lemma portfolio_rows_quiet:
  "portfolio_rows c as is es st w = (es', st', w') \<Longrightarrow> quiet (bs_gateway st) w (bs_gateway st') w'"
proof (induction "is" arbitrary: es st w)
  case (Cons i "is")
  obtain e st1 w1 where r: "portfolio_row c (as ! i) st w = (e, st1, w1)" by (metis prod_cases3)
  then have "portfolio_rows c as is (es[i := e]) st1 w1 = (es', st', w')" using Cons.prems by simp
  from quiet_trans [OF portfolio_row_quiet [OF r] Cons.IH [OF this]] show ?case .
qed simp

lemma get_portfolio_quiet:
  "get_portfolio c params st w = (r, st', w') \<Longrightarrow> quiet (bs_gateway st) w (bs_gateway st') w'"
  using portfolio_rows_quiet
  by (fastforce simp: get_portfolio_def Let_def split: option.splits prod.splits if_splits)

subsection \<open>History\<close>

abbreviation quiet_history :: "history_state \<Rightarrow> world \<Rightarrow> history_state \<Rightarrow> world \<Rightarrow> bool" where
  "quiet_history st w st' w' \<equiv> quiet (hs_gateway st) w (hs_gateway st') w'"

lemma with_sol_quiet: "timely_io m \<Longrightarrow> with_sol network m st w = (r, st', w') \<Longrightarrow> quiet_history st w st' w'"
  by (auto simp: with_sol_def timely_io_def quiet_def split_beta Let_def)

lemmas solana_reads_timely = solana_read_costs [THEN timely_io_cost] owned_accounts_cost [THEN timely_io_cost]

lemma account_signatures_quiet:
  "account_signatures c network limit as m st w = (m', st', w') \<Longrightarrow> quiet_history st w st' w'"
proof (induction as arbitrary: m st w)
  case (Cons a as)
  obtain r st1 w1 where r: "with_sol network (solana_signatures_for_address (hc_net c) a limit) st w = (r, st1, w1)"
    by (metis prod_cases3)
  then have "account_signatures c network limit as (note_signatures m (rows_of r)) st1 w1 = (m', st', w')"
    using Cons.prems by simp
  from quiet_trans [OF with_sol_quiet [OF solana_reads_timely(1) r] Cons.IH [OF this]] show ?case .
qed simp

lemma history_signatures_quiet:
  assumes "solana_history_signatures c network owner limit st w = (r, st', w')"
  shows "quiet_history st w st' w'"
proof -
  obtain x st1 w1 where 1: "with_sol network (solana_signatures_for_address (hc_net c) owner limit) st w = (x, st1, w1)"
    by (metis prod_cases3)
  obtain y st2 w2 where 2: "with_sol network (solana_get_owned_token_accounts (hc_net c) owner) st1 w1 = (y, st2, w2)"
    by (metis prod_cases3)
  note q1 = with_sol_quiet [OF solana_reads_timely(1) 1]
  note q2 = quiet_trans [OF q1 with_sol_quiet [OF solana_reads_timely(3) 2]]
  show ?thesis
  proof (cases x)
    case (Inr owned)
    obtain m st3 w3 where 3: "account_signatures c network limit (sd_key_order c (take 32 (rows_of y)))
        (note_signatures [] owned) st2 w2 = (m, st3, w3)"
      by (metis prod_cases3)
    then show ?thesis
      using quiet_trans [OF q2 account_signatures_quiet [OF 3]] assms 1 2 Inr
      by (simp add: solana_history_signatures_def)
  qed (use assms 1 q1 in \<open>simp add: solana_history_signatures_def\<close>)
qed

lemma impact_loop_quiet:
  "impact_loop c network address limit ss records e st w = (r, st', w') \<Longrightarrow> quiet_history st w st' w'"
proof (induction ss arbitrary: records e st w)
  case (Cons s ss)
  let ?read = "solana_transaction_account_impact (hc_net c) (sd_key_order c) (sg_signature s) address"
  obtain x st1 w1 where call: "with_sol network ?read st w = (x, st1, w1)" by (metis prod_cases3)
  note q = with_sol_quiet [OF solana_reads_timely(2) call]
  have rest: "quiet_history st w st' w'"
    if "impact_loop c network address limit ss records1 e1 st1 w1 = (r, st', w')" for records1 e1
    using quiet_trans [OF q Cons.IH [OF that]] .
  show ?case
  proof (cases "sg_signature s = []")
    case True
    then show ?thesis using Cons.IH [of records e st w] Cons.prems by simp
  next
    case False
    then show ?thesis
      using Cons.prems call q by (auto simp: split_beta Let_def split: sum.splits if_splits dest: rest)
  qed
qed simp

lemma signature_history_quiet:
  assumes "signature_history c network address limit st w = (r, st', w')"
  shows "quiet_history st w st' w'"
proof -
  obtain x st1 w1 where 1: "solana_history_signatures c network address limit st w = (x, st1, w1)"
    by (metis prod_cases3)
  note q1 = history_signatures_quiet [OF 1]
  show ?thesis
  proof (cases x)
    case (Inr ss)
    obtain y st2 w2 where 2: "impact_loop c network address limit ss [] None st1 w1 = (y, st2, w2)"
      by (metis prod_cases3)
    then show ?thesis
      using quiet_trans [OF q1 impact_loop_quiet [OF 2]] assms 1 Inr
      by (simp add: signature_history_def Let_def split_beta)
  qed (use assms 1 q1 in \<open>simp add: signature_history_def\<close>)
qed

lemma explorer_history_quiet:
  "explorer_history c chain network address limit e st w = (r, st', w') \<Longrightarrow> quiet_history st w st' w'"
  using explorer_history_cost [of c chain network address limit e st w r st' w']
  by (auto simp: quiet_def sends_upto_def explorer_history_def Let_def split_beta split: if_splits)

lemma evm_history_quiet:
  assumes "evm_history c chain network address limit st w = (r, st', w')"
  shows "quiet_history st w st' w'"
proof (cases "hs_alchemy st network")
  case None
  then show ?thesis using assms explorer_history_quiet by (simp add: evm_history_def)
next
  case (Some a)
  obtain x a1 w1 where 1: "alchemy_transfers (hc_net c) (sd_directions c) (sd_key_order c) address limit a w = (x, a1, w1)"
    by (metis prod_cases3)
  have t: "w_now w \<le> w_now w1" using alchemy_costD [OF alchemy_transfers_cost 1] by (simp add: sends_upto_def)
  show ?thesis
  proof (cases x)
    case (Inl e)
    then have "explorer_history c chain network address limit (Some e)
        (st\<lparr>hs_alchemy := (hs_alchemy st)(network \<mapsto> a1)\<rparr>) w1 = (r, st', w')"
      using assms Some 1 by (simp add: evm_history_def)
    from explorer_history_quiet [OF this] t show ?thesis by (simp add: quiet_def)
  next
    case (Inr ts)
    then show ?thesis using assms Some 1 t by (auto simp: evm_history_def quiet_def)
  qed
qed

lemma solana_history_quiet:
  assumes "solana_history c network address limit st w = (r, st', w')"
  shows "quiet_history st w st' w'"
proof (cases "hc_helius_key c")
  case False
  then show ?thesis using assms signature_history_quiet by (simp add: solana_history_def)
next
  case True
  obtain x w1 where 1: "helius_transfers (hc_net c) (hc_helius c network) address limit w = (x, w1)" by fastforce
  have t: "w_now w \<le> w_now w1" using rest_costD [OF helius_transfers_cost 1] by (simp add: sends_upto_def)
  show ?thesis
  proof (cases x)
    case (Inl e)
    then have "signature_history c network address limit st w1 = (r, st', w')"
      using assms True 1 by (simp add: solana_history_def)
    from signature_history_quiet [OF this] t show ?thesis by (simp add: quiet_def)
  qed (use assms True 1 t in \<open>auto simp: solana_history_def quiet_def\<close>)
qed

lemma tron_history_quiet:
  "tron_history c network address limit st w = (r, st', w') \<Longrightarrow> quiet_history st w st' w'"
  using tron_history_cost [of c network address limit st w r st' w']
  by (auto simp: quiet_def sends_upto_def tron_history_def Let_def split_beta)

lemma get_history_quiet:
  assumes "get_history c answer stored params st w = (r, st', w')"
  shows "quiet_history st w st' w'"
proof (cases "checked_history (hc_env c) params")
  case (Inr q)
  have fetch: "quiet_history st1 w1 st2 w2" if "fetch_history c q st1 w1 = (x, st2, w2)" for x st1 w1 st2 w2
    using that tron_history_quiet evm_history_quiet solana_history_quiet
    by (auto simp: fetch_history_def split: if_splits)
  obtain ch hit where get: "cache_get history_codec (w_now w) (w_now w) (history_key q) answer (hs_cache st) = (ch, hit)"
    by fastforce
  show ?thesis
  proof (cases hit)
    case None
    obtain x st2 w2 where f: "fetch_history c q (st\<lparr>hs_cache := ch\<rparr>) w = (x, st2, w2)" by (metis prod_cases3)
    have "w' = w2 \<and> hs_gateway st' = hs_gateway st2"
      using assms Inr get None f by (auto simp: get_history_def Let_def split_beta split: sum.splits)
    then show ?thesis using fetch [OF f] by simp
  qed (use assms Inr get in \<open>auto simp: get_history_def\<close>)
qed (use assms in \<open>simp add: get_history_def\<close>)

subsection \<open>Providers outside the pools\<close>

lemma timely_exchange: "snd (m w) = snd (exchange env req w) \<Longrightarrow> w_now w \<le> w_now (snd (m w))"
  using sends_upto_exchange [of w env req] by (simp add: sends_upto_def)

lemma timely_goplus_fetch [calm_intros]: "timely_rest (goplus_fetch env label url)"
  unfolding timely_rest_def by (auto intro: timely_exchange simp: goplus_fetch_def Let_def split_beta)

lemma timely_coin_gecko_fetch [calm_intros]: "timely_rest (coin_gecko_fetch env url)"
  unfolding timely_rest_def by (auto intro: timely_exchange simp: coin_gecko_fetch_def Let_def split_beta)

lemma timely_pairing [calm_intros]: "timely_rest (\<lambda>w. (f w, w))"
  by (simp add: timely_rest_def)

lemma timely_goplus [calm_intros]:
  "timely_rest (goplus_request env ue label ep q)" "timely_rest (goplus_token_risk env ue g cid ct)"
  "timely_rest (goplus_solana_token_risk env ue g mint)" "timely_rest (goplus_token_approvals env ue g cid ad)"
  unfolding goplus_token_risk_def goplus_solana_token_risk_def goplus_token_approvals_def goplus_request_def Let_def
  by (intro calm_intros)+

lemma with_circuit_timely:
  "timely_rest m \<Longrightarrow> with_circuit env m ci w = (r, ci', w') \<Longrightarrow> w_now w \<le> w_now w'"
  unfolding timely_rest_def with_circuit_def
  by (auto simp: split_beta Let_def split: prod.splits option.splits)

lemma lookup_risk_timely:
  assumes "timely_rest m" "lookup_external_token_risk env network ct off pr sol m st w = (r, st', w')"
  shows "w_now w \<le> w_now w'"
  using assms(2) with_circuit_timely [OF assms(1)]
  by (fastforce simp: lookup_external_token_risk_def Let_def split: prod.splits option.splits sum.splits)

lemma risk_provider_timely: "risk_provider c network ct = Some (p, s, m) \<Longrightarrow> timely_rest m"
  by (auto simp: risk_provider_def intro: calm_intros split: option.splits prod.splits if_splits)

lemma check_token_risk_timely: "check_token_risk c params st w = (r, st', w') \<Longrightarrow> w_now w \<le> w_now w'"
  using lookup_risk_timely [OF risk_provider_timely]
  by (fastforce simp: check_token_risk_def split: prod.splits option.splits sum.splits if_splits)

lemma get_approvals_timely: "get_evm_token_approvals c params st w = (r, st', w') \<Longrightarrow> w_now w \<le> w_now w'"
  using with_circuit_timely [OF timely_goplus(4)]
  by (fastforce simp: get_evm_token_approvals_def Let_def split: prod.splits option.splits sum.splits)

text \<open>The timer of the price limiter does not run backwards.\<close>

definition forward_wake :: "price_config \<Rightarrow> bool" where
  "forward_wake c \<longleftrightarrow> (\<forall>i w. w_now w \<le> fst (pc_wake c i w))"

lemma simple_price_timely:
  assumes "forward_wake c" "simple_price c ids cg w = (r, cg', w')"
  shows "w_now w \<le> w_now w'"
proof -
  have later: "w_now w \<le> fst (pc_wake c i w)" for i using assms(1) by (simp add: forward_wake_def)
  have "t \<le> w_now (snd (coin_gecko_fetch env url (w\<lparr>w_now := t\<rparr>)))" for env url t
    using spec [OF timely_coin_gecko_fetch [unfolded timely_rest_def], of "w\<lparr>w_now := t\<rparr>" env url] by simp
  then have "w_now w \<le> w_now (snd (coin_gecko_fetch env url (w\<lparr>w_now := fst (pc_wake c i w)\<rparr>)))" for env url i
    using later by (rule order_trans [rotated])
  moreover note later
  moreover from assms(2) have "w' = w \<or> w' = w\<lparr>w_now := fst (pc_wake c (cg_limiter cg) w)\<rparr> \<or>
      (\<exists>env url. w' = snd (coin_gecko_fetch env url (w\<lparr>w_now := fst (pc_wake c (cg_limiter cg) w)\<rparr>)))"
    by (auto simp: simple_price_def Let_def split_beta split: prod.splits option.splits sum.splits if_splits)
       (metis snd_conv)+
  ultimately show ?thesis by auto
qed

lemma get_prices_timely:
  assumes "forward_wake c" "get_prices c params st w = (r, st', w')"
  shows "w_now w \<le> w_now w'"
proof -
  have "w_now w \<le> w_now (snd (snd (simple_price c ids cg w)))" for ids cg
    using simple_price_timely [OF assms(1)] by (metis prod.collapse)
  moreover from assms(2) have "w' = w \<or> (\<exists>ids cg. w' = snd (snd (simple_price c ids cg w)))"
    by (auto simp: get_prices_def Let_def split_beta split: prod.splits option.splits sum.splits if_splits)
  ultimately show ?thesis by auto
qed

end
