(* ===== verification/Service_Facts.thy ===== *)
theory Service_Facts
  imports Service Timely
begin

section \<open>A signed payload is submitted once, whatever the server is asked\<close>

text \<open>
  The guarantee of \<open>Broadcast_Once\<close> seen from the network: in any run of the server that started
  without a shared store, under any mix of requests to any methods, bodies that are refused, rate
  limiting and time passing.
\<close>

subsection \<open>The methods\<close>

lemma srv_methods_fold:
  "srv_methods (fold (\<lambda>(name, h) s. register s name h) ms s) = srv_methods s ++ map_of (rev ms)"
  by (induction ms arbitrary: s) (auto simp: register_def map_add_def fun_eq_iff split: option.splits)

lemma srv_rest_fold:
  "srv_max_body (fold (\<lambda>(name, h) s. register s name h) ms s) = srv_max_body s"
  "srv_trusted (fold (\<lambda>(name, h) s. register s name h) ms s) = srv_trusted s"
  by (induction ms arbitrary: s) (auto simp: register_def)

definition method_names :: "string list" where
  "method_names =
     [''kt_health'', ''kt_getBalances'', ''kt_getPortfolio'', ''kt_getPrices'', ''kt_getChainParams'',
      ''kt_getTronFeeData'', ''kt_simulateEvmTransfer'', ''kt_estimateEvmGas'', ''kt_getEvmSpendableBalances'',
      ''kt_getHistory'', ''kt_getTransactionStatus'', ''kt_getNetworkIdentity'', ''kt_searchTokens'',
      ''kt_checkTokenRisk'', ''kt_getEvmTokenApprovals'', ''kt_reportDiagnostics'', ''kt_broadcast'']"

lemma service_method_names: "map fst (service_methods c) = method_names"
  by (simp add: service_methods_def method_names_def)

lemma method_names_distinct: "distinct method_names"
  by code_simp

lemma map_of_rev_distinct: "distinct (map fst xs) \<Longrightarrow> map_of (rev xs) = map_of xs"
  by (rule map_of_eqI) (auto simp: map_of_eq_Some_iff rev_map [symmetric])

lemma registered_methods:
  "srv_methods (register_all c s) = srv_methods s ++ map_of (service_methods c)"
  by (simp add: register_all_def srv_methods_fold map_of_rev_distinct service_method_names method_names_distinct)

lemma broadcast_method: "map_of (service_methods c) ''kt_broadcast'' = Some (service_broadcast c)"
  by (rule map_of_is_SomeI) (simp_all add: service_method_names method_names_distinct, simp add: service_methods_def)


lemma method_cases:
  assumes "srv_methods (register_all c new_server) name = Some h"
  shows "(name, h) \<in> set (service_methods c)"
  using assms by (auto simp: registered_methods new_server_def map_add_def dest: map_of_SomeD split: option.splits)

subsection \<open>Every method but one leaves the guard alone\<close>

abbreviation quiet_service :: "service \<Rightarrow> service \<Rightarrow> bool" where
  "quiet_service sv sv' \<equiv> quiet (sv_gateway sv) (sv_world sv) (sv_gateway sv') (sv_world sv')"

definition quiet_method :: "service Rpc.handler \<Rightarrow> bool" where
  "quiet_method h \<longleftrightarrow> (\<forall>params sv. quiet_service sv (snd (h params sv)))"

lemma on_gateway_quiet: "(\<And>params. calm (m params)) \<Longrightarrow> quiet_method (\<lambda>params. on_gateway (m params))"
  unfolding quiet_method_def on_gateway_def
  by (auto split: prod.split dest: calm_quiet)

lemma on_balances_quiet:
  assumes "\<And>params st w r st' w'. m params st w = (r, st', w') \<Longrightarrow> quiet (bs_gateway st) w (bs_gateway st') w'"
  shows "quiet_method (\<lambda>params. on_balances f (m params))"
  using assms by (fastforce simp: quiet_method_def on_balances_def split: prod.split)

lemma on_tokens_quiet:
  assumes "\<And>params st w r st' w'. m params st w = (r, st', w') \<Longrightarrow> w_now w \<le> w_now w'"
  shows "quiet_method (\<lambda>params. on_tokens (m params))"
  using assms by (fastforce simp: quiet_method_def on_tokens_def quiet_def split: prod.split)

lemma on_prices_quiet:
  assumes "\<And>params st w r st' w'. m params st w = (r, st', w') \<Longrightarrow> w_now w \<le> w_now w'"
  shows "quiet_method (\<lambda>params. on_prices f (m params))"
  using assms by (fastforce simp: quiet_method_def on_prices_def quiet_def split: prod.split)

lemma history_quiet: "quiet_method (service_history c)"
  using get_history_quiet
  by (fastforce simp: quiet_method_def service_history_def on_history_def split: prod.split)

lemma stateless_quiet:
  "quiet_method (service_health c)" "quiet_method (service_search c)" "quiet_method service_diagnostics"
  by (auto simp: quiet_method_def service_health_def service_search_def service_diagnostics_def split: prod.split)

lemma gateway_methods_quiet:
  "quiet_method (\<lambda>params. on_gateway (get_chain_params env params))"
  "quiet_method (\<lambda>params. on_gateway (simulate_evm_transfer env params))"
  "quiet_method (\<lambda>params. on_gateway (estimate_evm_gas env params))"
  "quiet_method (\<lambda>params. on_gateway (get_evm_spendable_balances env params))"
  "quiet_method (\<lambda>params. on_gateway (get_tron_fee_data env params))"
  "quiet_method (\<lambda>params. on_gateway (get_transaction_status env params))"
  "quiet_method (\<lambda>params. on_gateway (get_network_identity env params))"
  by (rule on_gateway_quiet, rule calm_evm_reads calm_spendable calm_tron_fee_data calm_status calm_identity)+

lemma account_methods_quiet:
  "quiet_method (\<lambda>params. on_balances f (get_balances bc params))"
  "quiet_method (\<lambda>params. on_balances g (get_portfolio bc params))"
  by (rule on_balances_quiet, rule get_balances_quiet, assumption)
     (rule on_balances_quiet, rule get_portfolio_quiet, assumption)

lemma token_methods_quiet:
  "quiet_method (\<lambda>params. on_tokens (check_token_risk tc params))"
  "quiet_method (\<lambda>params. on_tokens (get_evm_token_approvals tc params))"
  by (rule on_tokens_quiet, rule check_token_risk_timely, assumption)
     (rule on_tokens_quiet, rule get_approvals_timely, assumption)

lemma price_method_quiet:
  "forward_wake pc \<Longrightarrow> quiet_method (\<lambda>params. on_prices f (get_prices pc params))"
  by (rule on_prices_quiet, rule get_prices_timely)

lemma service_methods_quiet:
  assumes "forward_wake (sc_prices c)"
  shows "list_all (\<lambda>(name, h). name \<noteq> ''kt_broadcast'' \<longrightarrow> quiet_method h) (service_methods c)"
  by (simp add: service_methods_def stateless_quiet history_quiet gateway_methods_quiet account_methods_quiet
      token_methods_quiet price_method_quiet [OF assms])

lemma method_quiet:
  assumes "(name, h) \<in> set (service_methods c)" "name \<noteq> ''kt_broadcast''" "forward_wake (sc_prices c)"
    and "h params sv = (r, sv')"
  shows "quiet_service sv sv'"
proof -
  have "quiet_method h" using service_methods_quiet [OF assms(3)] assms(1,2) unfolding list_all_iff by blast
  then show ?thesis using assms(4) unfolding quiet_method_def by (metis snd_conv)
qed

subsection \<open>What a request does to the state\<close>

text \<open>The request that reaches the dispatcher, if the body gets that far.\<close>

definition received :: "'s server \<Rightarrow> client_request \<Rightarrow> rpc_request option" where
  "received s r =
     (if srv_max_body s < rq_content_length r then None
      else case read_body (srv_max_body s) r of
          None \<Rightarrow> None
        | Some body \<Rightarrow>
            if srv_max_body s < int (length body) \<or> prefix ''['' (skip_ws body) then None
            else (case decode_request_envelope body of
                    Inl e \<Rightarrow> None
                  | Inr req \<Rightarrow> if req_jsonrpc req \<noteq> ''2.0'' \<or> req_method req = [] then None else Some req))"

lemma serve_body_state:
  "snd (snd (serve_body s r st)) = (case received s r of None \<Rightarrow> st | Some req \<Rightarrow> snd (dispatch s req st))"
  by (auto simp: serve_body_def received_def serve_request_def Let_def split_beta split: option.splits sum.splits)

definition admitted :: "process \<Rightarrow> client_request \<Rightarrow> rpc_request option" where
  "admitted p r =
     (if fst (allow (pr_limiter p) (w_now (sv_world (pr_service p))) (client_ip (srv_trusted (pr_server p)) r))
      then received (pr_server p) r else None)"

lemma post_rpc_state:
  "pr_service (snd (snd (post_rpc p r))) =
     (case admitted p r of None \<Rightarrow> pr_service p | Some req \<Rightarrow> snd (dispatch (pr_server p) req (pr_service p)))"
  using serve_body_state [of "pr_server p" r "pr_service p"]
  by (auto simp: post_rpc_def serve_http_def admitted_def Let_def split_beta)

lemma post_rpc_config [simp]:
  "pr_server (snd (snd (post_rpc p r))) = pr_server p" "pr_config (snd (snd (post_rpc p r))) = pr_config p"
  by (auto simp: post_rpc_def split: prod.splits)

subsection \<open>Runs of the process\<close>

text \<open>The claims and recorded results of a request; only a broadcast has any.\<close>

definition posted_events :: "process \<Rightarrow> client_request \<Rightarrow> guard_event list" where
  "posted_events p r =
     (case admitted p r of
        None \<Rightarrow> []
      | Some req \<Rightarrow>
          if req_method req = ''kt_broadcast''
          then (let sv = pr_service p; ou = sc_outside (pr_config p) in
            broadcast_events (ou_env ou) (ou_broadcast_store ou (req_params req) (sv_world sv)) (req_params req)
              (sv_gateway sv) (sv_world sv))
          else [])"

definition at_time :: "instant \<Rightarrow> process \<Rightarrow> process" where
  "at_time t p = p\<lparr>pr_service := (pr_service p)\<lparr>sv_world := (sv_world (pr_service p))\<lparr>w_now := t\<rparr>\<rparr>\<rparr>"

inductive process_run :: "service_config \<Rightarrow> guard_event list \<Rightarrow> process \<Rightarrow> bool" for c where
  started: "pr_config p = c \<Longrightarrow> srv_methods (pr_server p) = srv_methods (register_all c new_server) \<Longrightarrow>
    gw_guard (sv_gateway (pr_service p)) = new_broadcast_guard False \<Longrightarrow> process_run c [] p"
| waited: "process_run c evs p \<Longrightarrow> w_now (sv_world (pr_service p)) \<le> t \<Longrightarrow> process_run c evs (at_time t p)"
| posted: "process_run c evs p \<Longrightarrow> post_rpc p r = (resp, lines, p') \<Longrightarrow>
    process_run c (posted_events p r @ evs) p'"

lemma process_run_gateway:
  assumes "forward_wake (sc_prices c)"
  shows "process_run c evs p \<Longrightarrow>
    pr_config p = c \<and> srv_methods (pr_server p) = srv_methods (register_all c new_server) \<and>
    gateway_run (sc_env c) evs (sv_gateway (pr_service p)) (sv_world (pr_service p))"
proof (induction rule: process_run.induct)
  case (started p)
  then show ?case by (auto intro: gateway_run.started)
next
  case (waited evs p t)
  then show ?case by (auto simp: at_time_def intro: gateway_run.elsewhere)
next
  case (posted evs p r resp lines p')
  let ?sv = "pr_service p"
  have p': "p' = snd (snd (post_rpc p r))" using posted.hyps(2) by simp
  have same: "pr_config p' = c" "srv_methods (pr_server p') = srv_methods (register_all c new_server)"
    using posted.IH by (simp_all add: p')
  have run: "gateway_run (sc_env c) evs (sv_gateway ?sv) (sv_world ?sv)" using posted.IH by simp
  have quiet: "gateway_run (sc_env c) evs (sv_gateway sv) (sv_world sv)" if "quiet_service ?sv sv" for sv
    using gateway_run.elsewhere [OF run] that by (simp add: quiet_def)
  have "gateway_run (sc_env c) (posted_events p r @ evs) (sv_gateway (pr_service p')) (sv_world (pr_service p'))"
  proof (cases "admitted p r")
    case None
    then show ?thesis using run by (simp add: p' post_rpc_state posted_events_def)
  next
    case (Some req)
    then have sv': "pr_service p' = snd (dispatch (pr_server p) req ?sv)" by (simp add: p' post_rpc_state)
    show ?thesis
    proof (cases "srv_methods (pr_server p) (req_method req)")
      case None
      then have "req_method req \<noteq> ''kt_broadcast''"
        using posted.IH broadcast_method by (auto simp: registered_methods map_add_def)
      then show ?thesis using None Some sv' run by (simp add: dispatch_def posted_events_def)
    next
      case h: (Some h)
      then have mem: "(req_method req, h) \<in> set (service_methods c)" using posted.IH method_cases by simp
      obtain res sv1 where call: "h (req_params req) ?sv = (res, sv1)" by fastforce
      then have sv1: "pr_service p' = sv1" using sv' h by (simp add: dispatch_def)
      show ?thesis
      proof (cases "req_method req = ''kt_broadcast''")
        case False
        from quiet [OF method_quiet [OF mem False assms call]] show ?thesis
          using False Some sv1 by (simp add: posted_events_def)
      next
        case True
        then have "h = service_broadcast c"
          using h posted.IH broadcast_method by (simp add: registered_methods map_add_def)
        then obtain res1 where "broadcast (sc_env c) (ou_broadcast_store (sc_outside c) (req_params req) (sv_world ?sv))
            (req_params req) (sv_gateway ?sv) (sv_world ?sv) = (res1, sv_gateway sv1, sv_world sv1)"
          using call by (auto simp: service_broadcast_def on_gateway_def split: prod.splits)
        from gateway_run.served [OF run this] show ?thesis
          using True Some sv1 posted.IH by (simp add: posted_events_def Let_def)
      qed
    qed
  qed
  then show ?case using same by simp
qed

lemma repeated_post_sends_nothing:
  assumes wake: "forward_wake (sc_prices c)"
    and run: "process_run c evs p"
    and req: "admitted p r = Some req" "req_method req = ''kt_broadcast''"
    and key: "checked_broadcast (sc_env c) (req_params req) = Inr (meta, chain, network, payload, key)"
    and claim: "claimed_since evs key = Some t" "w_now (sv_world (pr_service p)) < t + broadcast_guard_ttl"
    and call: "post_rpc p r = (resp, lines, p')"
  shows "sv_world (pr_service p') = sv_world (pr_service p)"
proof -
  let ?sv = "pr_service p"
  note inv = process_run_gateway [OF wake run]
  have "srv_methods (pr_server p) ''kt_broadcast'' = Some (service_broadcast c)"
    using inv broadcast_method by (simp add: registered_methods map_add_def)
  then have sv': "pr_service p' = snd (service_broadcast c (req_params req) ?sv)"
    using post_rpc_state [of p r] req call by (simp add: dispatch_def)
  obtain r1 g1 w1 where b: "broadcast (sc_env c) (ou_broadcast_store (sc_outside c) (req_params req) (sv_world ?sv))
      (req_params req) (sv_gateway ?sv) (sv_world ?sv) = (r1, g1, w1)"
    by (metis prod_cases3)
  have "w1 = sv_world ?sv" using no_second_submission [OF _ key claim b] inv by blast
  then show ?thesis using b sv' by (simp add: service_broadcast_def on_gateway_def)
qed

end
