(* ===== verification/Wiring_Facts.thy ===== *)
theory Wiring_Facts
  imports Wiring Broadcast_Once
begin

section \<open>What a configuration that starts guarantees\<close>

text \<open>
  A process that starts has a broadcast store that cannot evict claims, reached over TLS or the
  loopback interface, and provider URLs that cannot leak a lookup; the risk registry it accepted is
  the one in force; and the Alchemy endpoints of a network are exactly its round-robin primaries.
\<close>

subsection \<open>The stores and the provider URLs\<close>

definition store_url_ok :: "start_env \<Rightarrow> string \<Rightarrow> bool" where
  "store_url_ok se url \<longleftrightarrow>
     (\<exists>scheme host. se_redis_parse se url = Some (scheme, host) \<and>
        (scheme = ''rediss'' \<or> scheme = ''redis'' \<and> is_loopback_host host))"

definition never_evicts :: "start_env \<Rightarrow> string \<Rightarrow> bool" where
  "never_evicts se url \<longleftrightarrow>
     (\<exists>policy. se_config_get se url = Inr policy \<and> policy ''maxmemory-policy'' = Some ''noeviction'')"

lemma open_store_Inr: "open_store se url = Inr s \<Longrightarrow> store_url_ok se url"
  by (auto simp: open_store_def new_redis_store_def store_url_ok_def split: option.splits if_splits)

lemma shared_store_Some:
  assumes "shared_store se = Inr (Some url)"
  shows "url = trimmed_env se ''REDIS_URL'' \<and> store_url_ok se url"
proof -
  let ?url = "trimmed_env se ''REDIS_URL''"
  from assms obtain s where s: "open_store se ?url = Inr s"
    and ping: "(case redis_ping (se_now se) (se_now se) (se_redis_ping se ?url) s of
       (_, Inl _) \<Rightarrow> Inl StoreUnavailable | (_, Inr _) \<Rightarrow> Inr (Some ?url)) = Inr (Some url)"
    unfolding shared_store_def Let_def by (simp add: bind_sum_Inr split: if_splits) blast
  then have "?url = url" by (auto split: prod.splits sum.splits)
  then show ?thesis using open_store_Inr [OF s] by simp
qed

lemma broadcast_store_None: "broadcast_store se (Some u) \<noteq> Inr None"
  by (auto simp: broadcast_store_def Let_def bind_sum_Inr split: if_splits option.splits)

lemma broadcast_store_Some:
  assumes "broadcast_store se shared = Inr (Some url)"
  shows "never_evicts se url \<and>
    (url = trimmed_env se ''BROADCAST_REDIS_URL'' \<and> store_url_ok se url \<or> shared = Some url)"
  using assms
  by (auto simp: broadcast_store_def Let_def bind_sum_Inr validate_broadcast_retention_def never_evicts_def
      dest: open_store_Inr split: if_splits option.splits sum.splits)

lemmas load_selectors = load_endpoints_def load_alchemy_def load_providers_def Let_def

lemma load_parts [simp]:
  "cf_shared_cache (load_providers se (load_alchemy se (load_endpoints se c))) = cf_shared_cache c"
  "cf_broadcast_store (load_providers se (load_alchemy se (load_endpoints se c))) = cf_broadcast_store c"
  by (simp_all add: load_selectors)

lemma load_registries_Inr:
  assumes "load_registries se ou c = Inr c'"
  obtains tokens risks where "c' = c\<lparr>cf_official_tokens := tokens, cf_token_risks := risks\<rparr>"
    "load_registry se ''OFFICIAL_TOKENS_FILE'' (load_official_tokens_file (ou_unicode ou) (ge_sha (ou_env ou)))
       (cf_official_tokens c) = Inr tokens"
    "load_registry se ''TOKEN_RISKS_FILE'' (load_token_risks_file (ge_sha (ou_env ou))) (cf_token_risks c) = Inr risks"
  using assms by (auto simp: load_registries_def Let_def bind_sum_Inr)

lemma load_switches_Inr:
  assumes "load_switches se ue c = Inr c'"
  obtains no_risk no_approvals where
    "c' = c\<lparr>cf_disable_external_token_risk := no_risk, cf_disable_external_approvals := no_approvals\<rparr>"
    "no_risk \<or> validate_goplus_url ue (cf_goplus_url c)"
    "no_approvals \<or> validate_goplus_url ue (cf_goplus_approval_url c)"
  using assms by (auto simp: load_switches_def bind_sum_Inr require_def split: if_splits)

text \<open>The whole of a successful start.\<close>

lemma load_config_Inr:
  assumes "load_config se ou = Inr c"
  obtains shared store c1 no_risk no_approvals tokens risks where
    "shared_store se = Inr shared" "broadcast_store se shared = Inr store"
    "c1 = load_providers se (load_alchemy se (load_endpoints se
       (defaults\<lparr>cf_shared_cache := (shared \<noteq> None), cf_broadcast_store := (store \<noteq> None)\<rparr>)))"
    "no_risk \<or> validate_goplus_url (ou_urls ou) (cf_goplus_url c1)"
    "no_approvals \<or> validate_goplus_url (ou_urls ou) (cf_goplus_approval_url c1)"
    "load_registry se ''TOKEN_RISKS_FILE'' (load_token_risks_file (ge_sha (ou_env ou))) (cf_token_risks c1) = Inr risks"
    "c = c1\<lparr>cf_disable_external_token_risk := no_risk, cf_disable_external_approvals := no_approvals,
            cf_official_tokens := tokens, cf_token_risks := risks\<rparr>"
proof -
  from assms obtain shared store c1 c2 where
    *: "shared_store se = Inr shared" "broadcast_store se shared = Inr store"
    "c1 = load_providers se (load_alchemy se (load_endpoints se
       (defaults\<lparr>cf_shared_cache := (shared \<noteq> None), cf_broadcast_store := (store \<noteq> None)\<rparr>)))"
    "load_switches se (ou_urls ou) c1 = Inr c2" "load_registries se ou c2 = Inr c"
    unfolding load_config_def bind_sum_Inr by blast
  show thesis
    by (rule load_switches_Inr [OF *(4)], rule load_registries_Inr [OF *(5)], rule that [OF *(1-3)]) auto
qed

subsection \<open>The risk registry in force\<close>

lemma to_lower_plain: "\<forall>c \<in> set s. plain_char c \<Longrightarrow> to_lower s = map char_lower s"
  by (induction s rule: to_lower.induct) (auto simp: plain_char_def byte_of_def)

lemma plain_text_trim: "\<forall>c \<in> set s. plain_char c \<Longrightarrow> trim_space s = s"
  by (cases "s = []") (auto simp: trim_space_plain hd_in_set last_in_set, simp add: trim_space_def trim_left_runes.simps leading_space_def)

lemma char_lower_hex: "is_hex c \<Longrightarrow> is_hex (char_lower c) \<and> char_lower (char_lower c) = char_lower c"
  by (auto simp: is_hex_def is_digit_def char_lower_def is_upper_def byte_of_def)

lemma lower_evm_address:
  assumes "evm_address_re s"
  shows "evm_address_re (to_lower s)" "to_lower (to_lower s) = to_lower s" "\<forall>c \<in> set s. plain_char c"
proof -
  from assms obtain t where s: "s = ''0x'' @ t" and t: "length t = 40" "list_all is_hex t"
    by (auto simp: evm_address_re_def prefix_def hex_text_def)
  have zero: "char_lower CHR ''0'' = CHR ''0''" "char_lower CHR ''x'' = CHR ''x''" by code_simp+
  show plain: "\<forall>c \<in> set s. plain_char c"
    using t is_hex_plain by (auto simp: s list_all_iff plain_char_def byte_of_def)
  have low: "to_lower s = ''0x'' @ map char_lower t" using to_lower_plain [OF plain] by (simp add: s zero)
  have hex: "list_all is_hex (map char_lower t)" using t char_lower_hex by (simp add: list_all_iff)
  then show "evm_address_re (to_lower s)" using t by (simp add: evm_address_re_def hex_text_def low)
  have "\<forall>c \<in> set (to_lower s). plain_char c"
    using hex is_hex_plain by (auto simp: low list_all_iff plain_char_def byte_of_def)
  then have "to_lower (to_lower s) = map char_lower (to_lower s)" by (rule to_lower_plain)
  also have "\<dots> = to_lower s" using t char_lower_hex by (auto simp: low zero list_all_iff)
  finally show "to_lower (to_lower s) = to_lower s" .
qed

lemma chain_families: "chains chain = Some m \<Longrightarrow> cm_evm m \<or> chain = ''tron'' \<or> chain = ''solana''"
  by (auto simp: chains_def split: if_splits)

lemma registry_contract_cases:
  assumes "registry_contract sha meta contract = None"
  obtains (evm) "chain_is_evm (nm_chain meta)" "evm_address_re contract"
  | (other) "\<not> chain_is_evm (nm_chain meta)" "\<forall>c \<in> set contract. plain_char c"
proof -
  from assms obtain m where m: "chains (nm_chain meta) = Some m" "cm_evm m \<longrightarrow> evm_address_re contract"
    by (auto simp: registry_contract_def validate_address_def split: if_splits option.splits)
  show thesis
  proof (cases "cm_evm m")
    case True
    then show thesis using evm m by (simp add: chain_is_evm_def)
  next
    case False
    then have "base58_text contract"
      using assms chain_families [OF m(1)]
      by (auto simp: registry_contract_def base58_token_address_re_def split: if_splits)
    moreover have "list_all plain_char b58_alphabet" by code_simp
    ultimately have "\<forall>c \<in> set contract. plain_char c" unfolding base58_text_def list_all_iff by blast
    then show thesis using other False m by (simp add: chain_is_evm_def)
  qed
qed

lemma registry_contract_lower:
  assumes "registry_contract sha meta contract = None" "chain_is_evm (nm_chain meta)"
  shows "registry_contract sha meta (to_lower contract) = None"
  using assms(1)
proof (cases rule: registry_contract_cases)
  case evm
  have c: "chains (nm_chain meta) \<noteq> None" using evm by (auto simp: chain_is_evm_def split: option.splits)
  have "\<not> chain_is_evm ''tron''" "\<not> chain_is_evm ''solana''" by code_simp+
  then have "nm_chain meta \<noteq> ''tron''" "nm_chain meta \<noteq> ''solana''" using evm(1) by metis+
  moreover have "trim_space (to_lower contract) = to_lower contract"
    using lower_evm_address(3) [OF lower_evm_address(1) [OF evm(2)]] by (rule plain_text_trim)
  moreover have "to_lower contract \<noteq> ''''"
    using lower_evm_address(1) [OF evm(2)] by (auto simp: evm_address_re_def)
  ultimately show ?thesis
    using c lower_evm_address(1) [OF evm(2)]
    by (auto simp: registry_contract_def validate_address_def)
qed (use assms in simp)

lemma network_trimmed: "networks n = Some meta \<Longrightarrow> trim_space n = n"
proof -
  have "list_all (\<lambda>n. trim_space n = n) (map fst network_table)" by code_simp
  then show "networks n = Some meta \<Longrightarrow> trim_space n = n"
    by (auto simp: networks_def list_all_iff dest!: map_of_SomeD)
qed

lemma category_canonical: "c \<in> set allowed_token_risk_categories \<Longrightarrow> to_lower (trim_space c) = c"
proof -
  have "list_all (\<lambda>c. to_lower (trim_space c) = c) allowed_token_risk_categories" by code_simp
  then show "c \<in> set allowed_token_risk_categories \<Longrightarrow> ?thesis" by (simp add: list_all_iff)
qed

text \<open>A normalised entry is normal, so the second validation in \<open>New\<close> accepts what the first did.\<close>

lemma normalize_risk_normal:
  assumes "normalize_token_risk sha e = Inr r"
  shows "normalize_token_risk sha r = Inr r"
proof -
  from assms obtain meta contract where m: "networks (tr_network r) = Some meta"
    and rc: "registry_contract sha meta contract = None"
    and r: "tr_contract r = (if chain_is_evm (nm_chain meta) then to_lower contract else contract)"
    and cat: "tr_category r \<in> set allowed_token_risk_categories"
    by (auto simp: normalize_token_risk_def Let_def split: option.splits if_splits)
  from rc have "registry_contract sha meta (tr_contract r) = None \<and> trim_space (tr_contract r) = tr_contract r \<and>
      (chain_is_evm (nm_chain meta) \<longrightarrow> to_lower (tr_contract r) = tr_contract r)"
  proof (cases rule: registry_contract_cases)
    case evm
    then show ?thesis
      using registry_contract_lower [OF rc] lower_evm_address(2) lower_evm_address(1) plain_text_trim
        lower_evm_address(3) [OF lower_evm_address(1)]
      by (simp add: r)
  next
    case other
    then show ?thesis using rc plain_text_trim by (simp add: r)
  qed
  then show ?thesis
    using m cat network_trimmed [OF m] category_canonical [OF cat] by (simp add: normalize_token_risk_def Let_def)
qed

lemma add_token_risks_normal:
  assumes "add_token_risks sha acc es = Inr m"
  shows "add_token_risks sha acc (map (\<lambda>e. case normalize_token_risk sha e of Inr n \<Rightarrow> n | Inl _ \<Rightarrow> e) es) = Inr m"
  using assms
  by (induction sha acc es rule: add_token_risks.induct)
     (auto simp: normalize_risk_normal Let_def split: sum.splits if_splits)

lemma accepted_risk_file:
  assumes "load_token_risks_file sha content = Inr es"
  shows "\<exists>m. normalize_token_risks sha (Some es) = Inr m"
  using assms add_token_risks_normal
  by (fastforce simp: load_token_risks_file_def normalize_token_risks_def bind_sum_Inr Let_def
      split: option.splits gval.splits)

lemma default_risks: "normalize_token_risks sha (Some []) = Inr Map.empty"
  by (simp add: normalize_token_risks_def)

lemma load_registry_Inr:
  assumes "load_registry se key load cur = Inr entries"
  shows "entries = cur \<or> (\<exists>content es. load content = Inr es \<and> entries = Some es)"
  using assms by (auto simp: load_registry_def Let_def split: if_splits option.splits sum.splits)

lemma loaded_token_risks [simp]:
  "cf_token_risks (load_providers se (load_alchemy se (load_endpoints se c))) = cf_token_risks c"
  by (simp add: load_selectors)

lemma fill_token_risks:
  "cf_token_risks (fill_defaults c) = (case cf_token_risks c of None \<Rightarrow> cf_token_risks defaults | r \<Rightarrow> r)"
  by (simp add: fill_defaults_def or_default_option_def split: option.split)

lemma registry_in_force:
  assumes "load_config se ou = Inr c"
  shows "tk_registry_ok (sc_tokens (fst (new_gateway ou c now)))"
  using assms
proof (rule load_config_Inr)
  fix shared store c1 no_risk no_approvals tokens risks
  assume c1: "c1 = load_providers se (load_alchemy se (load_endpoints se
       (defaults\<lparr>cf_shared_cache := (shared \<noteq> (None :: string option)), cf_broadcast_store := (store \<noteq> (None :: string option))\<rparr>)))"
    and risks: "load_registry se ''TOKEN_RISKS_FILE'' (load_token_risks_file (ge_sha (ou_env ou))) (cf_token_risks c1) = Inr risks"
    and c: "c = c1\<lparr>cf_disable_external_token_risk := no_risk, cf_disable_external_approvals := no_approvals,
            cf_official_tokens := tokens, cf_token_risks := risks\<rparr>"
  have "cf_token_risks c1 = Some []" by (simp add: c1 defaults_def)
  moreover have "\<exists>m. normalize_token_risks (ge_sha (ou_env ou)) (Some []) = Inr m" using default_risks by blast
  ultimately obtain es m where es: "risks = Some es" "normalize_token_risks (ge_sha (ou_env ou)) (Some es) = Inr m"
    using load_registry_Inr [OF risks] accepted_risk_file by metis
  then have "cf_token_risks (fill_defaults c) = Some es" by (simp add: c fill_token_risks)
  then show ?thesis by (simp add: new_gateway_def new_service_config_def new_token_config_def Let_def es)
qed

lemma started_flags:
  assumes "load_config se ou = Inr c"
  shows "\<exists>shared store. shared_store se = Inr shared \<and> broadcast_store se shared = Inr store \<and>
    cf_shared_cache c = (shared \<noteq> None) \<and> cf_broadcast_store c = (store \<noteq> None)"
  by (rule load_config_Inr [OF assms], intro exI conjI, assumption, assumption) simp_all

lemma started_store:
  assumes "load_config se ou = Inr c"
  shows "cf_shared_cache c \<longrightarrow> cf_broadcast_store c"
    and "cf_broadcast_store c \<longrightarrow>
      (\<exists>url \<in> {trimmed_env se ''REDIS_URL'', trimmed_env se ''BROADCAST_REDIS_URL''}.
         store_url_ok se url \<and> never_evicts se url)"
proof -
  obtain shared store where s: "shared_store se = Inr shared" "broadcast_store se shared = Inr store"
    and c: "cf_shared_cache c \<longleftrightarrow> shared \<noteq> None" "cf_broadcast_store c \<longleftrightarrow> store \<noteq> None"
    using started_flags [OF assms] by blast
  show "cf_shared_cache c \<longrightarrow> cf_broadcast_store c" using c broadcast_store_None s(2) by (cases shared; cases store) auto
  show "cf_broadcast_store c \<longrightarrow>
      (\<exists>url \<in> {trimmed_env se ''REDIS_URL'', trimmed_env se ''BROADCAST_REDIS_URL''}.
         store_url_ok se url \<and> never_evicts se url)"
  proof
    assume "cf_broadcast_store c"
    then obtain url where "store = Some url" using c by auto
    then have "broadcast_store se shared = Inr (Some url)" using s by simp
    from broadcast_store_Some [OF this] show "\<exists>url \<in> {trimmed_env se ''REDIS_URL'', trimmed_env se ''BROADCAST_REDIS_URL''}.
         store_url_ok se url \<and> never_evicts se url"
      using shared_store_Some [of se url] s(1) by blast
  qed
qed

subsection \<open>Alchemy endpoints are the round-robin primaries\<close>

lemma env_list_non_empty: "[] \<notin> set (env_list se key)"
  by (auto simp: env_list_def Let_def)

lemma alchemy_keys_non_empty: "[] \<notin> set (load_alchemy_keys se)"
  using env_list_non_empty [of se "''ALCHEMY_API_KEYS''"]
  by (auto simp: load_alchemy_keys_def Let_def split: list.splits if_splits)

lemma alchemy_lookup:
  assumes "(network, slug) \<in> set alchemy_slugs" "keys \<noteq> []" "[] \<notin> set keys"
  shows "lookup_list (alchemy_network_urls keys) network = map (alchemy_url slug) keys"
proof -
  have "filter (\<lambda>k. k \<noteq> []) keys = keys" using assms(3) by (induction keys) auto
  moreover have "distinct (map fst alchemy_slugs)" by code_simp
  then have "map_of (map (\<lambda>(n, s). (n, map (alchemy_url s) keys)) alchemy_slugs) network = Some (map (alchemy_url slug) keys)"
    using assms(1) by (intro map_of_is_SomeI) (force simp: comp_def split_beta)+
  ultimately show ?thesis
    using assms(2) by (simp add: lookup_list_def alchemy_network_urls_def list.case_eq_if)
qed

lemma evm_urls_kept [simp]:
  "evm_urls (c\<lparr>cf_disable_external_token_risk := b1, cf_disable_external_approvals := b2,
            cf_official_tokens := ts, cf_token_risks := rs\<rparr>) = evm_urls c"
  "evm_urls (load_providers se c) = evm_urls c"
  "cf_alchemy_rpc_count (load_providers se c) = cf_alchemy_rpc_count c"
  by (simp_all add: evm_urls_def load_providers_def)

lemma load_alchemy_urls:
  assumes "(network, slug) \<in> set alchemy_slugs" "load_alchemy_keys se \<noteq> []"
  shows "lookup_list (evm_urls (load_alchemy se c)) network =
      prepend_urls (lookup_list (alchemy_network_urls (load_alchemy_keys se)) network) (lookup_list (evm_urls c) network)"
    and "cf_alchemy_rpc_count (load_alchemy se c) = int (length (load_alchemy_keys se))"
proof -
  have "network \<in> set (map fst alchemy_slugs)" using assms(1) by force
  then show "lookup_list (evm_urls (load_alchemy se c)) network =
      prepend_urls (lookup_list (alchemy_network_urls (load_alchemy_keys se)) network) (lookup_list (evm_urls c) network)"
    using assms(2) by (auto simp: alchemy_slugs_def load_alchemy_def Let_def evm_urls_def lookup_list_def)
qed (use assms in \<open>simp add: load_alchemy_def Let_def\<close>)


lemma load_config_alchemy:
  assumes "load_config se ou = Inr c"
  shows "\<exists>c0. evm_urls c = evm_urls (load_alchemy se c0) \<and>
    cf_alchemy_rpc_count c = cf_alchemy_rpc_count (load_alchemy se c0)"
proof (rule load_config_Inr [OF assms])
  fix shared :: "string option" and store :: "string option" and c1 no_risk no_approvals tokens risks
  assume "c1 = load_providers se (load_alchemy se (load_endpoints se
       (defaults\<lparr>cf_shared_cache := (shared \<noteq> None), cf_broadcast_store := (store \<noteq> None)\<rparr>)))"
    and "c = c1\<lparr>cf_disable_external_token_risk := no_risk, cf_disable_external_approvals := no_approvals,
            cf_official_tokens := tokens, cf_token_risks := risks\<rparr>"
  then have "evm_urls c = evm_urls (load_alchemy se (load_endpoints se
       (defaults\<lparr>cf_shared_cache := (shared \<noteq> None), cf_broadcast_store := (store \<noteq> None)\<rparr>))) \<and>
    cf_alchemy_rpc_count c = cf_alchemy_rpc_count (load_alchemy se (load_endpoints se
       (defaults\<lparr>cf_shared_cache := (shared \<noteq> None), cf_broadcast_store := (store \<noteq> None)\<rparr>)))"
    by simp
  then show ?thesis by blast
qed

lemma map_of_keyed: "map_of (map (\<lambda>(k, v). (k, f k v)) xs) k = map_option (f k) (map_of xs k)"
  by (induction xs) auto

lemma fill_evm_urls_list:
  "evm_urls (fill_defaults c) = map (\<lambda>(n, us). (n, or_default us (lookup_list (evm_urls defaults) n))) (evm_urls c)"
  by (simp add: evm_urls_def fill_defaults_def lookup_list_def)

lemma fill_evm_urls:
  assumes "lookup_list (evm_urls c) network \<noteq> []"
  shows "lookup_list (evm_urls (fill_defaults c)) network = lookup_list (evm_urls c) network"
  using assms unfolding fill_evm_urls_list
  by (auto simp: lookup_list_def map_of_keyed or_default_def split: option.splits)

lemma fill_rpc_count [simp]: "cf_alchemy_rpc_count (fill_defaults c) = cf_alchemy_rpc_count c"
  by (simp add: fill_defaults_def)

lemma new_pool_primaries:
  assumes "[] \<notin> set primaries" "primaries \<noteq> []"
  shows "let p = new_pool name (prepend_urls primaries fallbacks) (int (length primaries)) in
    pl_round_robin_prefix p = length primaries \<and>
    map ep_url (take (length primaries) (pl_eps p)) = primaries \<and>
    map ep_url (drop (length primaries) (pl_eps p)) = filter (\<lambda>u. u \<noteq> [] \<and> u \<notin> set primaries) fallbacks"
proof -
  have urls: "filter (\<lambda>u. u \<noteq> '''') (prepend_urls primaries fallbacks) =
      primaries @ filter (\<lambda>u. u \<noteq> [] \<and> u \<notin> set primaries) fallbacks"
    using assms by (auto simp: prepend_urls_def conj_commute filter_id_conv)
  have "map ep_url (map new_endpoint us) = us" for us by (induction us) (simp_all add: new_endpoint_def)
  then show ?thesis
    by (simp add: new_pool_def urls Let_def take_map drop_map flip: map_append)
qed

lemma alchemy_primaries:
  assumes "load_config se ou = Inr c" "load_alchemy_keys se \<noteq> []" "(network, slug) \<in> set alchemy_slugs"
  shows "let p = gw_evm (sv_gateway (snd (new_gateway ou c now))) network;
             primaries = map (alchemy_url slug) (load_alchemy_keys se)
    in pl_round_robin_prefix p = length primaries \<and>
       map ep_url (take (length primaries) (pl_eps p)) = primaries \<and>
       set (map ep_url (drop (length primaries) (pl_eps p))) \<inter> set primaries = {}"
proof -
  let ?keys = "load_alchemy_keys se" and ?primaries = "map (alchemy_url slug) (load_alchemy_keys se)"
  obtain c0 where c: "evm_urls c = evm_urls (load_alchemy se c0)"
    "cf_alchemy_rpc_count c = cf_alchemy_rpc_count (load_alchemy se c0)"
    using load_config_alchemy [OF assms(1)] by blast
  define fallbacks where "fallbacks = lookup_list (evm_urls c0) network"
  have urls: "lookup_list (evm_urls c) network = prepend_urls ?primaries fallbacks"
    using load_alchemy_urls(1) [OF assms(3,2)] alchemy_lookup [OF assms(3,2) alchemy_keys_non_empty]
    by (simp add: c fallbacks_def)
  have ne: "?primaries \<noteq> []" "[] \<notin> set ?primaries" using assms(2) by (auto simp: alchemy_url_def)
  then have "lookup_list (evm_urls c) network \<noteq> []" by (simp add: urls prepend_urls_def)
  from fill_evm_urls [OF this] have pool: "gw_evm (sv_gateway (snd (new_gateway ou c now))) network =
      new_pool network (prepend_urls ?primaries fallbacks) (int (length ?primaries))"
    using load_alchemy_urls(2) [OF assms(3,2)]
    by (simp add: new_gateway_def new_service_state_def new_clients_def Let_def urls c(2))
  define p where "p = new_pool network (prepend_urls ?primaries fallbacks) (int (length ?primaries))"
  note facts = new_pool_primaries [OF ne(2,1), of network fallbacks, folded p_def, unfolded Let_def]
  have "set (map ep_url (drop (length ?primaries) (pl_eps p))) \<inter> set ?primaries = {}"
    unfolding facts [THEN conjunct2, THEN conjunct2] by auto
  with facts pool show ?thesis unfolding p_def [symmetric] Let_def by metis
qed

lemma started_urls:
  assumes "load_config se ou = Inr c"
  shows "\<not> cf_disable_external_token_risk c \<longrightarrow> validate_goplus_url (ou_urls ou) (cf_goplus_url c)"
    and "\<not> cf_disable_external_approvals c \<longrightarrow> validate_goplus_url (ou_urls ou) (cf_goplus_approval_url c)"
  by (rule load_config_Inr [OF assms], auto)+

end
