(* ===== verification/Pages.thy ===== *)
theory Pages
  imports Service_Facts Wiring_Facts Token_Samples Price_Samples
begin

section \<open>What the pages of the process show\<close>

text \<open>
  The status pages do not depend on the endpoints' URLs, which may carry API keys, and the metrics
  page is served only against the bearer token of the configuration.
\<close>

definition relabel_service :: "(string \<Rightarrow> string) \<Rightarrow> service \<Rightarrow> service" where
  "relabel_service f sv = sv\<lparr>sv_gateway := relabel_gateway f (sv_gateway sv)\<rparr>"

definition relabel_process :: "(string \<Rightarrow> string) \<Rightarrow> process \<Rightarrow> process" where
  "relabel_process f p = p\<lparr>pr_service := relabel_service f (pr_service p)\<rparr>"

lemma relabel_selectors [simp]:
  "sv_gateway (relabel_service f sv) = relabel_gateway f (sv_gateway sv)"
  "sv_world (relabel_service f sv) = sv_world sv" "sv_prices (relabel_service f sv) = sv_prices sv"
  "sv_balance_cache (relabel_service f sv) = sv_balance_cache sv"
  "sv_history_cache (relabel_service f sv) = sv_history_cache sv"
  "sv_tokens (relabel_service f sv) = sv_tokens sv" "sv_diagnostics (relabel_service f sv) = sv_diagnostics sv"
  "pr_service (relabel_process f p) = relabel_service f (pr_service p)"
  "pr_config (relabel_process f p) = pr_config p" "pr_metrics_token (relabel_process f p) = pr_metrics_token p"
  by (simp_all add: relabel_service_def relabel_process_def)

lemma pages_name_no_endpoint:
  "get_page (relabel_process f p) path authorization = get_page p path authorization"
proof -
  have "metrics_page (relabel_process f p) = metrics_page p"
    unfolding metrics_page_def Let_def relabel_selectors metrics_name_no_endpoint ..
  then show ?thesis
    unfolding get_page_def Let_def relabel_selectors health_names_no_endpoint by (rule arg_cong)
qed

lemma health_method_names_no_endpoint:
  "fst (service_health c params (relabel_service f sv)) = fst (service_health c params sv)"
  unfolding service_health_def relabel_selectors health_names_no_endpoint by simp

lemma started_metrics_token:
  assumes "start_process se ou = Inr p"
  shows "validate_metrics_bearer_token (se_getenv se ''METRICS_BEARER_TOKEN'') = Some (pr_metrics_token p)"
  using assms unfolding start_process_def bind_sum_Inr Let_def split_beta
  by (force split: sum.splits option.splits)

lemma metrics_page_token:
  assumes "validate_metrics_bearer_token raw = Some (pr_metrics_token p)"
    and "ha_status (get_page p ''/metrics'' authorization) = 200"
  shows "authorization = ''Bearer '' @ trim_space raw" "32 \<le> length (trim_space raw)"
  using assms
  by (auto simp: validate_metrics_bearer_token_def get_page_def metrics_handler_def has_valid_metrics_bearer_def
      not_found_def Let_def split: if_splits)

end
