(* ===== verification/Service_Samples.thy ===== *)
theory Service_Samples
  imports Pages Samples
begin

section \<open>A process that starts, and one that is asked twice\<close>

subsection \<open>The outside\<close>

definition sample_outside :: outside where
  "sample_outside =
     \<lparr>ou_env = sample_env, ou_unicode = plain_unicode, ou_urls = sample_urls,
      ou_wake = (\<lambda>iv w. (w_now w, False)), ou_price_codec = \<lparr>encode = (\<lambda>v. None), decode = (\<lambda>r. None)\<rparr>,
      ou_cache_get = (\<lambda>k w. Inl ErrNotFound), ou_cache_set = (\<lambda>k w. True),
      ou_history_get = (\<lambda>r w. Inl ErrNotFound), ou_history_set = (\<lambda>r w. True),
      ou_broadcast_store = (\<lambda>r w. sample_store), ou_schedule = (\<lambda>n. [0..<n]),
      ou_directions = (ToAddress, FromAddress), ou_key_order = (\<lambda>ks. ks),
      ou_json_float = (\<lambda>x. ''1''), ou_metric_float = (\<lambda>x. ''1'')\<rparr>"

subsection \<open>The same payload posted twice\<close>

definition sample_config :: service_config where
  "sample_config = new_service_config sample_outside defaults"

definition sample_process :: process where
  "sample_process =
     \<lparr>pr_config = sample_config, pr_server = register_all sample_config new_server, pr_metrics_token = [],
      pr_limiter = new_limiter 10 20,
      pr_service = (new_service_state defaults 1000)\<lparr>sv_gateway := sample_gateway, sv_world := sample_world\<rparr>\<rparr>"

definition sample_body :: string where
  \<open>sample_body = ''{"jsonrpc":"2.0","id":1,"method":"kt_broadcast","params":{"chain":"tron","payload":"{}"}}''\<close>

definition sample_post :: client_request where
  "sample_post =
     \<lparr>rq_remote_addr = ''198.51.100.7:4711'', rq_forwarded_for = [], rq_real_ip = [],
      rq_content_length = int (length sample_body), rq_body = sample_body, rq_body_fails = False\<rparr>"

definition sample_request :: rpc_request where
  "sample_request =
     \<lparr>req_jsonrpc = ''2.0'', req_method = ''kt_broadcast'', req_params = sample_params, req_id = Some (JNum ''1'')\<rparr>"

definition after_process :: process where
  "after_process = snd (snd (post_rpc sample_process sample_post))"

lemma sample_body_read:
  "int (length sample_body) \<le> 4 * 2 ^ 20" "\<not> prefix ''['' (skip_ws sample_body)"
  "decode_request_envelope sample_body = Inr sample_request"
  by code_simp+

lemma sample_received: "received (register_all c new_server) sample_post = Some sample_request"
proof -
  have "read_body (4 * 2 ^ 20) sample_post = Some sample_body"
    using sample_body_read(1) by (simp add: read_body_def sample_post_def Let_def)
  then show ?thesis
    using sample_body_read
    by (simp add: received_def register_all_def srv_rest_fold new_server_def sample_post_def sample_request_def)
qed

lemma sample_client: "client_ip (srv_trusted (register_all c new_server)) sample_post = ''198.51.100.7''"
proof -
  have "client_ip [] sample_post = ''198.51.100.7''" by code_simp
  then show ?thesis by (simp add: register_all_def srv_rest_fold new_server_def)
qed

definition sample_limiter :: limiter where
  "sample_limiter = snd (allow (new_limiter 10 20) 1000 ''198.51.100.7'')"

lemma sample_allowed_first:
  "allow (new_limiter 10 20) 1000 ''198.51.100.7'' =
     (True, (new_limiter 10 20)\<lparr>lim_buckets := [(''198.51.100.7'', \<lparr>bk_tokens = 19, bk_last = 1000\<rparr>)]\<rparr>)"
proof -
  have "float64 (20 - 1) = 19" using float64_of_int [of 19] by simp
  then show ?thesis
    by (simp add: allow_def route_key_def new_limiter_def new_limiter_with_def default_max_buckets_def refill_def
        take_token_def Let_def)
qed

lemma sample_limiter_fields:
  "lim_burst sample_limiter = 20" "lim_rate sample_limiter = 10"
  "lim_buckets sample_limiter = [(''198.51.100.7'', \<lparr>bk_tokens = 19, bk_last = 1000\<rparr>)]"
  unfolding sample_limiter_def sample_allowed_first by (simp_all add: new_limiter_def new_limiter_with_def)

lemma sample_allowed:
  "fst (allow (new_limiter 10 20) 1000 ''198.51.100.7'')" "fst (allow sample_limiter 1005 ''198.51.100.7'')"
proof -
  show "fst (allow (new_limiter 10 20) 1000 ''198.51.100.7'')" by (simp add: sample_allowed_first)
  let ?b = "\<lparr>bk_tokens = 19, bk_last = 1000\<rparr> :: bucket"
  define e where "e = duration_seconds (time_sub 1005 1000)"
  have "19 \<le> float64 (19 + float64 (e * 10))" if "0 < e"
  proof -
    have "0 \<le> float64 (e * 10)" using that float64_mono [of 0 "e * 10"] by simp
    then show ?thesis using float64_mono [of 19 "19 + float64 (e * 10)"] float64_of_int [of 19] by simp
  qed
  then have "1 \<le> bk_tokens (refill sample_limiter 1005 (Some ?b))"
    by (auto simp: refill_def Let_def e_def sample_limiter_fields)
  then show "fst (allow sample_limiter 1005 ''198.51.100.7'')"
    by (simp add: allow_def route_key_def take_token_def sample_limiter_fields Let_def)
qed

lemma sample_admitted: "admitted sample_process sample_post = Some sample_request"
  using sample_allowed(1) sample_received sample_client
  by (simp add: admitted_def sample_process_def sample_world_def)

lemma sample_env_of: "sc_env sample_config = sample_env" "sc_outside sample_config = sample_outside"
  "ou_env sample_outside = sample_env"
  "ou_broadcast_store sample_outside r w = sample_store"
  by (simp_all add: sample_config_def new_service_config_def sample_outside_def)

lemma sample_services:
  "sv_gateway (pr_service sample_process) = sample_gateway" "sv_world (pr_service sample_process) = sample_world"
  "req_params sample_request = sample_params" "req_method sample_request = ''kt_broadcast''"
  "pr_config sample_process = sample_config" "pr_server sample_process = register_all sample_config new_server"
  by (simp_all add: sample_process_def sample_request_def)

lemma sample_dispatched:
  "snd (dispatch (register_all sample_config new_server) sample_request sv) =
   snd (service_broadcast sample_config sample_params sv)"
  using broadcast_method [of sample_config]
  by (simp add: dispatch_def registered_methods map_add_def sample_services)

lemma after_service:
  "sv_gateway (pr_service after_process) = after_gateway" "sv_world (pr_service after_process) = after_world"
proof -
  have "pr_service after_process = snd (service_broadcast sample_config sample_params (pr_service sample_process))"
    by (simp add: after_process_def post_rpc_state sample_admitted sample_services sample_dispatched)
  then show "sv_gateway (pr_service after_process) = after_gateway" "sv_world (pr_service after_process) = after_world"
    by (simp_all add: service_broadcast_def on_gateway_def sample_env_of sample_services sample_after_def split_beta)
qed

lemma sample_posted_events:
  "posted_events sample_process sample_post =
   broadcast_events sample_env sample_store sample_params sample_gateway sample_world"
  by (simp add: posted_events_def sample_admitted sample_services sample_env_of Let_def)

lemma sample_forward: "forward_wake (sc_prices sample_config)"
  by (simp add: forward_wake_def sample_config_def new_service_config_def sample_outside_def)

lemma sample_process_run:
  "process_run sample_config (posted_events sample_process sample_post) after_process"
proof -
  have "process_run sample_config [] sample_process"
    by (rule process_run.started) (simp_all add: sample_services sample_gateway_def)
  moreover have "post_rpc sample_process sample_post =
      (fst (post_rpc sample_process sample_post), fst (snd (post_rpc sample_process sample_post)), after_process)"
    by (simp add: after_process_def)
  ultimately show ?thesis using process_run.posted by fastforce
qed

lemma after_admitted: "admitted after_process sample_post = Some sample_request"
proof -
  have "pr_limiter after_process = sample_limiter"
    using sample_client sample_allowed(1)
    by (simp add: after_process_def post_rpc_def serve_http_def sample_process_def sample_world_def sample_limiter_def
        split_beta Let_def)
  moreover have "pr_server after_process = register_all sample_config new_server"
    by (simp add: after_process_def sample_services)
  ultimately show ?thesis
    using sample_allowed(2) sample_received sample_client by (simp add: admitted_def after_service sample_now)
qed

subsection \<open>A start\<close>

definition sample_getenv :: "string \<Rightarrow> string" where
  "sample_getenv k =
     (if k = ''REDIS_URL'' then '' rediss://r ''
      else if k = ''ALCHEMY_API_KEYS'' then ''k1, k2''
      else if k = ''METRICS_BEARER_TOKEN'' then replicate 32 CHR ''m''
      else [])"

definition sample_start :: start_env where
  "sample_start =
     \<lparr>se_getenv = sample_getenv, se_read_file = (\<lambda>f. None),
      se_redis_parse = (\<lambda>u. Some (''rediss'', ''r'')), se_redis_accepts = (\<lambda>u. True),
      se_redis_ping = (\<lambda>u. Inr ()),
      se_config_get = (\<lambda>u. Inr (Map.empty(''maxmemory-policy'' \<mapsto> ''noeviction''))),
      se_parse_float = (\<lambda>s. None), se_now = 1000\<rparr>"

lemma sample_env_values:
  "trimmed_env sample_start ''REDIS_URL'' = ''rediss://r''"
  "trimmed_env sample_start ''BROADCAST_REDIS_URL'' = []"
  "trimmed_env sample_start ''DISABLE_EXTERNAL_TOKEN_RISK'' = []"
  "trimmed_env sample_start ''DISABLE_EXTERNAL_APPROVAL_LOOKUP'' = []"
  "trimmed_env sample_start ''OFFICIAL_TOKENS_FILE'' = []" "trimmed_env sample_start ''TOKEN_RISKS_FILE'' = []"
  "trimmed_env sample_start ''TRUSTED_PROXY_CIDRS'' = []"
  "se_getenv sample_start ''RATE_LIMIT_RPS'' = []" "se_getenv sample_start ''RATE_LIMIT_BURST'' = []"
  "trimmed_env sample_start ''GOPLUS_API_URL'' = []" "trimmed_env sample_start ''GOPLUS_APPROVAL_API_URL'' = []"
  "load_alchemy_keys sample_start = [''k1'', ''k2'']"
  "validate_metrics_bearer_token (se_getenv sample_start ''METRICS_BEARER_TOKEN'') = Some (replicate 32 CHR ''m'')"
  by code_simp+

lemma sample_shared: "shared_store sample_start = Inr (Some ''rediss://r'')"
proof -
  have store: "open_store sample_start u = Inr (redis_store_init redis_failure_cooldown)" for u
    by (simp add: open_store_def new_redis_store_def sample_start_def)
  have ping: "snd (redis_ping (se_now sample_start) (se_now sample_start) (se_redis_ping sample_start u)
      (redis_store_init redis_failure_cooldown)) = Inr ()" for u
    by (simp add: redis_ping_def redis_operation_def begin_operation_def redis_store_init_def sample_start_def split_beta)
  show ?thesis
    using ping [of "''rediss://r''"]
    by (simp add: shared_store_def sample_env_values store bind_sum_def Let_def case_prod_beta)
qed

lemma sample_broadcast_store: "broadcast_store sample_start (Some u) = Inr (Some u)"
proof -
  have "se_config_get sample_start u = Inr (Map.empty(''maxmemory-policy'' \<mapsto> ''noeviction''))"
    by (simp add: sample_start_def)
  then show ?thesis
    by (simp add: broadcast_store_def sample_env_values bind_sum_def validate_broadcast_retention_def Let_def)
qed

lemma sample_url_valid:
  "validate_goplus_url sample_urls (cf_goplus_url defaults)"
  "validate_goplus_url sample_urls (cf_goplus_approval_url defaults)"
  unfolding defaults_def config.select_convs by code_simp+

lemma sample_urls_loaded:
  "cf_goplus_url (load_providers sample_start (load_alchemy sample_start (load_endpoints sample_start c))) = cf_goplus_url c"
  "cf_goplus_approval_url (load_providers sample_start (load_alchemy sample_start (load_endpoints sample_start c))) =
   cf_goplus_approval_url c"
  by (simp_all add: load_selectors sample_env_values or_default_def)

lemma sample_loaded: "\<exists>c. load_config sample_start sample_outside = Inr c"
proof -
  let ?c = "load_providers sample_start (load_alchemy sample_start (load_endpoints sample_start
      (defaults\<lparr>cf_shared_cache := True, cf_broadcast_store := True\<rparr>)))"
  have "ou_urls sample_outside = sample_urls" by (simp add: sample_outside_def)
  then have "\<exists>c. load_switches sample_start (ou_urls sample_outside) ?c = Inr c"
    using sample_url_valid
    by (simp add: load_switches_def env_switch_def sample_env_values require_def sample_urls_loaded bind_sum_def Let_def)
  then obtain c where c: "load_switches sample_start (ou_urls sample_outside) ?c = Inr c" by blast
  have "\<exists>c'. load_registries sample_start sample_outside c = Inr c'"
    by (simp add: load_registries_def load_registry_def sample_env_values bind_sum_def Let_def)
  then show ?thesis
    using c by (simp add: load_config_def sample_shared sample_broadcast_store bind_sum_def)
qed

lemma sample_process_starts: "\<exists>p. start_process sample_start sample_outside = Inr p"
proof -
  obtain c where c: "load_config sample_start sample_outside = Inr c" using sample_loaded by blast
  have l: "\<exists>l. start_limiter sample_start = Inr l"
    by (simp add: start_limiter_def env_float_def sample_env_values)
  have "parse_cidr_items (split_on CHR '','' []) = Inr []" by code_simp
  then have "set_trusted_proxy_cidrs s [] = Inr (s\<lparr>srv_trusted := []\<rparr>)" for s :: "service server"
    by (simp add: set_trusted_proxy_cidrs_def)
  then show ?thesis
    using c l by (auto simp: start_process_def bind_sum_def sample_env_values split_beta Let_def)
qed

end
