(* ===== verification/Spec2Isabelle.thy ===== *)
theory Spec2Isabelle
  imports Rlp Guard_Once Pool_Facts Provider_Circuit Cache Samples Rpc History_Samples Token_Samples Balances_Samples
    App_Diagnostics Prices_Facts Price_Samples Service_Samples
begin

text \<open>
  The KT Wallet gateway (\<open>src/backend/gateway\<close>, Go): a stateless-looking JSON-RPC service between
  mobile wallets and the nodes and indexers of eight chain families. A wallet sends a \<open>kt_*\<close> method;
  a handler (\<open>internal/handlers\<close>) validates its parameters strictly, reads or writes through the
  upstream clients (\<open>internal/upstream\<close>), which talk to HTTP providers through a failover pool, and
  answers in a fixed vocabulary. Its hard parts are money-critical: a signed transaction must be
  submitted at most once, a balance or fee must never be misread from an ambiguous answer, and a
  failing provider must not take the service down. This development translates that core and proves
  it. Go integers of fixed width that can wrap are words; \<open>big.Int\<close> is \<open>int\<close>; byte strings
  and strings are lists; JSON texts are parsed and printed by the model; a mutex-protected section
  is one step; HTTP, SHA-256, \<open>net/url\<close> and \<open>unicode.IsPrint\<close> are parameters.

  Theories, in the order of their dependencies:

  \<^item> \<open>Prelude\<close>: time, characters and text, decimal and hexadecimal numerals, the fact collections
    \<open>record_frames\<close> and \<open>inv_intros\<close>.
  \<^item> \<open>Json\<close>, \<open>Schema\<close>: \<open>encoding/json\<close> as the gateway uses it (a parser with Go's limits, the printer
    with sorted keys and HTML escapes, the typed decoder with its case folding), and the two
    \<open>strict_json.go\<close> files on top of it.
  \<^item> \<open>Errors\<close>: \<open>rpc.Error\<close>, \<open>NodeError\<close>/\<open>Unavailable\<close>, \<open>upstream/errors.go\<close> and the mapping of upstream
    failures to client errors.
  \<^item> \<open>Registry\<close>, \<open>Base58\<close>: the chain and network registries, address validation, base58
    (\<open>handlers/validate.go\<close>, \<open>networks.go\<close>).
  \<^item> \<open>Rlp\<close>: the RLP reader and the EVM envelope check of \<open>broadcast_envelope.go\<close>, against the
    canonical encoder \<open>rlp_encode\<close>.
  \<^item> \<open>Expiry_Heap\<close>, \<open>Guard\<close>, \<open>Guard_Inv\<close>, \<open>Guard_Once\<close>: \<open>broadcast_guard.go\<close>. The expiry index is
    \<open>container/heap\<close> over objects with addresses, because \<open>Swap\<close> writes through pointers; the guard's
    two operations \<open>begin_guard\<close> and \<open>complete_guard\<close> are composed of their locked sections and of the
    shared store's answers. \<open>guard_inv\<close> ties the three structures together, \<open>local_run\<close> is the step
    relation of one process, \<open>run_inv\<close> its invariant.
  \<^item> \<open>Pool\<close>, \<open>Pool_Facts\<close>: \<open>upstream/pool.go\<close>; a world is the clock and the requests sent, the
    environment answers each request depending on everything sent so far.
  \<^item> \<open>Breaker\<close>, \<open>Provider_Circuit\<close>, \<open>Redis_Store\<close>: the locale \<open>half_open_breaker\<close> states what a half-open
    circuit breaker promises and proves the consequences for all interleavings; both breakers of the
    gateway (\<open>provider_circuit.go\<close>, \<open>cache/redis.go\<close>) interpret it.
  \<^item> \<open>Cache\<close>: \<open>cache/cache.go\<close> with its abstract specification, a map that never forgets.
  \<^item> \<open>Evm\<close>, \<open>Tron\<close>, \<open>Solana\<close>: the clients of the three families with their response decoders.
  \<^item> \<open>Gateway\<close>, \<open>Broadcast\<close>, \<open>Broadcast_Once\<close>: the handlers for fees, simulation, spendable balances,
    transaction status, network identity and TRON reads, and \<open>kt_broadcast\<close>; \<open>gateway_run\<close> is the
    step relation of a whole gateway.
  \<^item> \<open>Float64\<close>, \<open>Limiter\<close>: \<open>ratelimit/ratelimit.go\<close>; \<open>float64\<close> arithmetic is rational arithmetic
    rounded to the nearest representable number after every operation.
  \<^item> \<open>Net\<close>, \<open>Rpc\<close>: IP addresses and networks as \<open>net\<close> parses them, and \<open>internal/rpc\<close>: envelopes,
    dispatch, log labels, trusted proxies.
  \<^item> \<open>Provider_Rows\<close>, \<open>Tron_History\<close>, \<open>Explorer\<close>, \<open>Civil_Time\<close>, \<open>Alchemy\<close>, \<open>Solana_Impact\<close>: the
    indexers behind the transaction history with their row decoders (\<open>upstream/tron_history.go\<close>,
    \<open>history.go\<close>, \<open>alchemy.go\<close>, the history half of \<open>solana.go\<close>).
  \<^item> \<open>History\<close>, \<open>History_Handler\<close>: \<open>handlers/history.go\<close>, the pure merging of pages and the handler.
    \<open>History_Facts\<close> proves what a page promises, \<open>History_Bound\<close> that the cache never answers one
    request with another's page, \<open>History_Cost\<close> how many upstream requests an answer can cost.
  \<^item> \<open>Json_Raw\<close>, \<open>Goplus\<close>, \<open>Goplus_Client\<close>, \<open>Goplus_Facts\<close>: \<open>json.RawMessage\<close>, the decoders of
    \<open>upstream/goplus_response.go\<close>, the three clients of \<open>goplus.go\<close>, \<open>goplus_solana.go\<close> and
    \<open>goplus_approvals.go\<close>, and what an accepted answer may claim.
  \<^item> \<open>Runes\<close>, \<open>Official_Tokens\<close>: strings as UTF-8 runes, and \<open>handlers/official_tokens.go\<close> (catalog
    file, normalisation, index, search).
  \<^item> \<open>Token_Security\<close>, \<open>Token_Facts\<close>: \<open>handlers/token_risk.go\<close> and \<open>token_approvals.go\<close>, and what a
    verdict or an approval list rests on, in every run.
  \<^item> \<open>Cached_Answers\<close>: the locale of every cache that is asked by request and must never answer with
    what belongs to another one; the history, approvals, balance and price caches interpret it.
  \<^item> \<open>Balances\<close>, \<open>Balances_Facts\<close>: \<open>handlers/balances.go\<close> and \<open>tokenSetHash\<close>: the concurrent reads under
    any schedule, the cache, the portfolio.
  \<^item> \<open>Prices\<close>, \<open>Prices_Facts\<close>: \<open>upstream/prices.go\<close> and \<open>handlers/prices.go\<close>; quotes are the
    \<open>float64\<close> values their texts denote.
  \<^item> \<open>App_Diagnostics\<close>, \<open>Health\<close>, \<open>Metrics\<close>: \<open>handlers/app_diagnostics.go\<close>, \<open>health.go\<close> and
    \<open>metrics.go\<close>.
  \<^item> \<open>Wiring\<close>, \<open>Wiring_Facts\<close>: \<open>Config\<close> and \<open>New\<close> of \<open>handlers/gateway.go\<close> and the start of
    \<open>cmd/gateway/main.go\<close> up to the limiter, as a function of the environment variables, files and
    stores (record \<open>start_env\<close>) to a configuration or a refusal.
  \<^item> \<open>Timely\<close>, \<open>Service\<close>, \<open>Service_Facts\<close>, \<open>Pages\<close>: \<open>Register\<close> and the HTTP handlers of \<open>main.go\<close>: the
    whole process as one state, with one operation per HTTP request; \<open>process_run\<close> is its step
    relation. Every run of a process projects to a \<open>gateway_run\<close>, which is how the guarantee about
    broadcasts reaches \<open>POST /rpc\<close>.
  \<^item> \<open>Samples\<close>, \<open>History_Samples\<close>, \<open>Token_Samples\<close>, \<open>Balances_Samples\<close>, \<open>Price_Samples\<close>,
    \<open>Service_Samples\<close>: concrete gateways, environments and answers on which the properties below are
    applied.

  The properties are ordered by section: broadcasting; envelopes, addresses and JSON; the failover
  pool; the circuit breakers; the cache; what is read from the chains; the endpoint (limiter,
  envelope, client addresses, logs); the transaction history; token security and the official
  catalog; balances; prices; the process (start, wiring, pages). Further results stand with their
  components: fee tiers and network identity in \<open>Gateway\<close>, TRON and Solana confirmations in \<open>Tron\<close>
  and \<open>Solana\<close>, Redis in \<open>Redis_Store\<close>, the latency ring and the circuit of an endpoint in
  \<open>Pool_Facts\<close>, the token fingerprint in \<open>Balances_Facts\<close>, diagnostics in \<open>App_Diagnostics\<close>.

  Recursion: the JSON and RLP readers and all loops are total functions; Go's own nesting limit
  (10000) and the envelope's budget (4096 items, depth 8) are part of the definitions, so no fuel is
  introduced.

  Not modelled: starting and stopping the HTTP server, log output other than the lines of
  \<open>ServeHTTP\<close>, the clock (time is an argument), the API key header, redirect policy and timeouts of
  the HTTP clients (part of the environment that answers requests), non-finite rate limits, and the
  wallet applications, which are not Go. Requests are served one after the other; the guard, the
  breakers and the limiter, where interleaving matters, have step relations of their own. The
  theorems about runs of caches and of the guard are about a process without a shared store.
\<close>

section \<open>Broadcasting a signed transaction\<close>

text \<open>
  C1. A signed payload is submitted at most once per retention window. In every run of a gateway
  without a shared store, whatever was broadcast in between and whatever the providers answered:
  once a payload's key has been claimed, and as long as the node has not explicitly rejected it
  since, no broadcast of a payload with that key sends a single request, for 24 hours.
\<close>

theorem claimed_payload_is_never_resent:
  assumes "gateway_run env evs g w"
    and "checked_broadcast env params = Inr (meta, chain, network, payload, key)"
    and "claimed_since evs key = Some t" and "w_now w < t + broadcast_guard_ttl"
  shows "snd (snd (broadcast env store params g w)) = w"
  using no_second_submission [OF assms] by (metis prod.collapse)

theorem claimed_payload_is_never_resent_witness:
  "w_sent after_world \<noteq> [] \<and>
   snd (snd (broadcast sample_env sample_store sample_params after_gateway after_world)) = after_world"
  using claimed_payload_is_never_resent [OF sample_run sample_checked sample_claimed, of sample_store]
  by (simp add: sample_now sample_sent guard_ttl_value)

text \<open>
  C2. The same guarantee seen from the network. In every run of the process that started without a
  shared store, under any mix of HTTP requests to any of its 17 methods, malformed bodies, rate
  limiting and time passing: once a payload's key has been claimed and the node has not explicitly
  rejected it since, no \<open>POST /rpc\<close> that carries a payload with that key makes the process send a
  single upstream request, for 24 hours.
\<close>

theorem posted_payload_is_never_resent:
  assumes "forward_wake (sc_prices c)" and "process_run c evs p"
    and "admitted p r = Some req" and "req_method req = ''kt_broadcast''"
    and "checked_broadcast (sc_env c) (req_params req) = Inr (meta, chain, network, payload, key)"
    and "claimed_since evs key = Some t" and "w_now (sv_world (pr_service p)) < t + broadcast_guard_ttl"
  shows "sv_world (pr_service (snd (snd (post_rpc p r)))) = sv_world (pr_service p)"
  using repeated_post_sends_nothing [OF assms] by (metis prod.collapse)

theorem posted_payload_is_never_resent_witness:
  "w_sent (sv_world (pr_service after_process)) \<noteq> [] \<and>
   sv_world (pr_service (snd (snd (post_rpc after_process sample_post)))) = sv_world (pr_service after_process)"
proof -
  have "claimed_since (posted_events sample_process sample_post) sample_key = Some 1000"
    by (simp add: sample_posted_events sample_claimed)
  moreover have "w_now (sv_world (pr_service after_process)) < 1000 + broadcast_guard_ttl"
    by (simp add: after_service sample_now broadcast_guard_ttl_def hours_def minutes_def seconds_def nanos_per_second_def)
  moreover have "checked_broadcast (sc_env sample_config) (req_params sample_request) =
      Inr (sample_meta, ''tron'', ''tron-mainnet'', ''{}'', sample_key)"
    by (simp add: sample_env_of sample_services sample_checked)
  ultimately show ?thesis
    using posted_payload_is_never_resent [OF sample_forward sample_process_run after_admitted sample_services(4)]
    by (simp add: after_service sample_sent)
qed



text \<open>
  C4. One call of \<open>Broadcast\<close> sends at most one HTTP request, whatever the parameters, the state
  of the pools and circuits, the shared store and the answers: an irreversible write is never
  failed over to a second endpoint.
\<close>

theorem broadcast_sends_at_most_one_request:
  "\<exists>reqs. length reqs \<le> 1 \<and>
     w_sent (snd (snd (broadcast env store params g w))) = w_sent w @ reqs"
proof -
  have "sends_upto 1 w (snd (snd (broadcast env store params g w)))"
    using broadcast_sends_at_most_one by (metis prod.collapse)
  then show ?thesis by (auto simp: sends_upto_def)
qed

text \<open>
  C5. The guard never hands out ownership of a claimed key: in any interleaving of \<open>begin\<close> and
  \<open>complete\<close> calls on one process, while a claim is younger than the retention time and has not
  been rejected, \<open>begin\<close> does not make its caller the owner, although thousands of other
  payloads may be fighting for the 4096 local slots.
\<close>

theorem claim_is_exclusive:
  assumes "local_run evs t g" and "claimed_since evs key = Some s"
    and "t \<le> now" and "now < s + broadcast_guard_ttl"
  shows "snd (begin_guard now key nx got g) \<noteq> Owner"
proof -
  have "guard_inv g" "\<not> bg_shared g"
    and "s + broadcast_guard_ttl \<le> t \<or> pins g key (s + broadcast_guard_ttl)"
    using local_run_inv [OF assms(1)] assms(2) by (auto simp: run_inv_def)
  moreover from this assms(3,4) have "pins g key (s + broadcast_guard_ttl)" by linarith
  ultimately show ?thesis using begin_guard_keeps_pins assms(4) by (metis prod.collapse)
qed

theorem claim_is_exclusive_witness:
  "snd (begin_guard 7 ''k'' NxCreated GetError
     (fst (begin_guard 5 ''k'' NxCreated GetError (new_broadcast_guard False)))) \<noteq> Owner"
proof -
  let ?g = "fst (begin_guard 5 ''k'' NxCreated GetError (new_broadcast_guard False))"
  have "snd (begin_guard 5 ''k'' NxCreated GetError (new_broadcast_guard False)) = Owner"
    by code_simp
  then have "begin_guard 5 ''k'' NxCreated GetError (new_broadcast_guard False) = (?g, Owner)"
    by (metis prod.collapse)
  then have "local_run [Claim ''k'' 5] 5 ?g" using local_run.begin_owner [OF local_run.start] by blast
  from claim_is_exclusive [OF this, of _ 5 7] show ?thesis by (simp add: guard_ttl_value)
qed

text \<open>
  C6. The guard's three structures stay consistent and bounded: both operations keep the invariant
  that every record owns exactly one expiry object with its key and expiry, that the index an
  object stores is its place in the heap, that the eviction list holds exactly the records marked
  evictable, and that there are at most 4096 records, with or without a shared store.
\<close>

theorem guard_operations_keep_invariant:
  assumes "guard_inv g"
  shows "guard_inv (fst (begin_guard now key nx got g)) \<and> guard_inv (fst (complete_guard key r ok g))"
  using assms by (simp add: inv_intros)

theorem guard_operations_keep_invariant_witness:
  "guard_inv (fst (begin_guard 5 ''k'' NxExists GetError (new_broadcast_guard True)))"
  using guard_operations_keep_invariant [OF guard_inv_new] by blast

text \<open>
  C7. Only a node's explicit answer counts as a rejection: the error a client sees carries the
  upstream code, and the guard records the outcome as rejected (and so resubmittable), exactly when
  the upstream client returned a \<open>NodeError\<close>; every lost, garbled or refused exchange is
  \<open>submission_unknown\<close>.
\<close>

theorem rejected_iff_node_error:
  "(br_state (outcome_record chain (Inl e)) = broadcast_rejected \<longleftrightarrow> (\<exists>c m. e = NodeError c m)) \<and>
   (err_code (broadcast_error u e) = CodeUpstream \<longleftrightarrow> (\<exists>c m. e = NodeError c m)) \<and>
   err_code (broadcast_error u e) \<in> {CodeUpstream, CodeSubmissionUnknown}"
  by (cases e) (auto simp: outcome_record_def broadcast_error_def rpc_codes Let_def
      broadcast_rejected_def broadcast_unknown_def)

section \<open>Envelopes, addresses and JSON\<close>

text \<open>
  C8. The shape check of a signed EVM transaction accepts canonical RLP only: an accepted payload is
  the transaction-type byte (typed transactions only) followed by the one canonical encoding of a
  list, nested at most nine deep and with at most 4096 items. Two different payloads can therefore
  never carry the same transaction tree.
\<close>

theorem accepted_envelope_is_canonical_rlp:
  assumes "valid_evm_broadcast_envelope raw"
  shows "\<exists>t. raw = (if unat (raw ! 0) < 0x80 then [raw ! 0] else []) @ rlp_encode t \<and>
    rlp_list t \<and> rlp_wf t \<and> rlp_nodes t \<le> 4096 \<and> rlp_depth t \<le> 9"
proof -
  from accepted_envelope_parses [OF assms] obtain t budget where
    t: "read_broadcast_rlp 0 4096 (envelope_body raw) = Some (t, length (envelope_body raw), budget)"
      "rlp_list t" and ne: "raw \<noteq> []"
    by blast
  from read_broadcast_rlp_canonical(1) [OF t(1)]
  have "envelope_body raw = rlp_encode t" "rlp_wf t" "rlp_nodes t \<le> 4096" "rlp_depth t \<le> 9" by auto
  moreover have "raw = (if unat (raw ! 0) < 0x80 then [raw ! 0] else []) @ envelope_body raw"
    using ne by (cases raw) (auto simp: envelope_body_def)
  ultimately show ?thesis using t(2) by metis
qed

theorem accepted_envelope_is_canonical_rlp_witness:
  "\<exists>t. [0xc9, 1, 1, 1, 1, 1, 1, 0x1b, 1, 1] = rlp_encode t \<and> rlp_list t"
proof -
  have "valid_evm_broadcast_envelope [0xc9, 1, 1, 1, 1, 1, 1, 0x1b, 1, 1]" by code_simp
  from accepted_envelope_is_canonical_rlp [OF this] show ?thesis by auto
qed

text \<open>
  C9. The bounded RLP reader inverts the canonical encoder: every well-formed tree within the depth
  and item limits is read back from its encoding, whatever bytes follow, and exactly its bytes and
  its items are consumed. The limits are the only trees the reader refuses.
\<close>

theorem rlp_reader_inverts_encoder:
  assumes "rlp_wf t" and "rlp_depth t \<le> 9" and "rlp_nodes t \<le> budget"
    and "length (rlp_encode t) < 2 ^ 64"
  shows "read_broadcast_rlp 0 budget (rlp_encode t @ tail) =
    Some (t, length (rlp_encode t), budget - rlp_nodes t)"
  using read_broadcast_rlp_accepts [of t 0 budget tail] assms by simp

theorem rlp_reader_inverts_encoder_witness:
  "read_broadcast_rlp 0 4096 ([0xc2, 5, 0x80] @ [7]) =
     Some (RLP True [5, 0x80] [RLP False [5] [], RLP False [] []], 3, 4093)"
proof -
  let ?t = "RLP True [5, 0x80] [RLP False [5] [], RLP False [] []]"
  have enc: "rlp_encode ?t = [0xc2, 5, 0x80]" by code_simp
  have wf: "rlp_wf ?t" "rlp_depth ?t \<le> 9" and n: "rlp_nodes ?t = 3" by code_simp+
  have len: "rlp_nodes ?t \<le> 4096" "length (rlp_encode ?t) < 2 ^ 64" unfolding enc n by simp_all
  from rlp_reader_inverts_encoder [OF wf len, of "[7]"] show ?thesis unfolding enc n by simp
qed

text \<open>
  C10. Base58 is a bijection between payloads and their spellings: a text decodes to a payload
  exactly when it is the encoding of that payload, leading zero bytes and leading ones included. No
  two spellings of an address or signature decode to the same bytes.
\<close>

theorem base58_decode_inverts_encode:
  "base58_decode s = Some payload \<longleftrightarrow> s = base58_encode payload"
  using encode_decode decode_encode by metis



section \<open>The failover pool\<close>

text \<open>
  C12. The path of a read. A call goes through the endpoints in the order \<open>endpointsForCall\<close> gave,
  skipping those whose circuit is open when it reaches them; it sends its one body to each endpoint
  it visits, in that order and once each; it leaves an endpoint only after a retryable failure
  (transport, HTTP 429 or 5xx, malformed answer, provider routing error); it stops early only on an
  authoritative answer or when the caller's context is done; and it returns what the last visited
  endpoint answered, or the circuit-open error when every circuit was open. \<open>call_result\<close> says this
  of the list \<open>hops\<close> of visited endpoints.
\<close>

theorem read_call_follows_failover_path:
  assumes "pool_inv p"
  shows "\<exists>hops. call_result env ext (rpc_request_body method params) (pl_eps p)
    (snd (endpoints_for_call p)) w (circuit_open_error p) (fst (pool_call env ext method params p w))
    (snd (snd (pool_call env ext method params p w))) hops"
  using pool_call_result [OF assms] by (metis prod.collapse)

theorem read_call_follows_failover_path_witness:
  "\<exists>hops. call_result sample_net True (rpc_request_body ''eth_chainId'' []) (pl_eps sample_pool)
    (snd (endpoints_for_call sample_pool)) sample_world (circuit_open_error sample_pool)
    (fst (pool_call sample_net True ''eth_chainId'' [] sample_pool sample_world))
    (snd (snd (pool_call sample_net True ''eth_chainId'' [] sample_pool sample_world))) hops"
  by (rule read_call_follows_failover_path [OF sample_pool_inv])

text \<open>
  C13. Calls keep a pool consistent: after any read or write every endpoint's failure counters still
  add up to its total failures, its latency window is well formed, an endpoint with three
  consecutive failures has a circuit deadline, and the round-robin cursor is in range.
\<close>

theorem pool_calls_keep_invariant:
  assumes "pool_inv p"
  shows "pool_inv (fst (snd (pool_call env ext method params p w))) \<and>
    pool_inv (fst (snd (pool_call_once env method params p w)))"
  using pool_inv_call [OF assms] pool_inv_call_once [OF assms] by (metis prod.collapse)

theorem pool_calls_keep_invariant_witness:
  "pool_inv (fst (snd (pool_call_once sample_net ''m'' [] sample_pool sample_world)))"
  using pool_calls_keep_invariant [OF sample_pool_inv] by blast

text \<open>
  C14. Load balancing is fair: over any number of consecutive calls the first choices walk round the
  primary endpoints one by one, so \<open>k\<close> consecutive calls start at \<open>k\<close> different primaries, where
  \<open>k\<close> is their number.
\<close>

theorem primaries_take_turns:
  assumes "1 < pl_round_robin_prefix p"
  shows "call_heads n p =
      map (\<lambda>i. (pl_next_primary p + i) mod pl_round_robin_prefix p) [0..<n] \<and>
    distinct (call_heads (pl_round_robin_prefix p) p)"
  using call_heads_conv [OF assms] rotation_distinct [of "pl_round_robin_prefix p"] assms by simp

theorem primaries_take_turns_witness: "call_heads 3 sample_pool = [0, 1, 0]"
proof -
  have "pl_round_robin_prefix sample_pool = 2" "pl_next_primary sample_pool = 0" by code_simp+
  with primaries_take_turns [of sample_pool 3] show ?thesis by (simp add: numeral_3_eq_3)
qed

section \<open>Circuit breakers\<close>

text \<open>
  C15. A half-open provider circuit admits one probe: in every interleaving of \<open>allow\<close> and
  \<open>finish\<close> on a fresh circuit (fewer than \<open>2^64\<close> operations, the width of its generation counter)
  at most one admitted and unfinished call is a probe, and while it is in flight and the circuit is
  still open nobody else is admitted. A stale success cannot close the circuit under the probe.
\<close>

theorem provider_admits_one_probe:
  assumes "provider.breaker_run new_provider_circuit k es out c" and "k < 2 ^ 64"
  shows "length (filter pp_probe out) \<le> 1 \<and>
    (filter pp_probe out = [] \<or> pc_open_until c = None \<or> snd (circuit_allow now c) = None)"
proof -
  note run = assms(1) circuit_ok_new assms(2)
  have "snd (circuit_allow now c) = None" if "p \<in> set out" "pp_probe p" "pc_open_until c = Some t" for p t
    using provider.probe_excludes [OF run] that by blast
  then show ?thesis using provider.at_most_one_probe [OF run] by (fastforce simp: filter_empty_conv)
qed

theorem provider_admits_one_probe_witness:
  "length (filter pp_probe [the (snd (circuit_allow 5 new_provider_circuit))]) \<le> 1"
proof -
  let ?p = "the (snd (circuit_allow 5 new_provider_circuit))"
  have "circuit_allow 5 new_provider_circuit = (fst (circuit_allow 5 new_provider_circuit), Some ?p)"
    by (simp add: circuit_allow_def new_provider_circuit_def)
  from provider.breaker_run.admitted [OF provider.breaker_run.start this]
  have "provider.breaker_run new_provider_circuit 1 [Admitted ?p] [?p]
      (fst (circuit_allow 5 new_provider_circuit))" by simp
  from provider_admits_one_probe [OF this] show ?thesis by simp
qed

section \<open>The cache\<close>

text \<open>
  C16. Lazy and opportunistic eviction never show: a local cache answers any sequence of \<open>Set\<close> and
  \<open>Get\<close> operations, at non-decreasing times, exactly as a map that keeps every entry for ever and
  compares its expiry on reading, although it deletes expired entries on reads and in sweeps.
\<close>

theorem cache_refines_expiring_map:
  assumes "sorted (map fst ops)"
  shows "run_cache codec ops (new_cache ttl) = spec_cache ttl ops Map.empty"
proof (cases ops)
  case (Cons x xs)
  show ?thesis
  proof (rule run_cache_refines [OF assms])
    show "\<forall>(t, _) \<in> set ops. fst x \<le> t" using assms Cons by auto
  qed (simp_all add: new_cache_def cache_inv_def cache_view_def spec_view_def)
qed simp

theorem cache_refines_expiring_map_witness:
  "run_cache \<lparr>encode = (\<lambda>v. None), decode = (\<lambda>r. None)\<rparr>
     [(0, CSet ''a'' (1 :: nat)), (5, CGet ''a''), (11, CGet ''a''), (12, CGet ''b'')] (new_cache 10)
   = [Some 1, None, None]"
  by (subst cache_refines_expiring_map) (simp_all add: spec_view_def)

section \<open>What is read from the chains\<close>




section \<open>The endpoint: who is served, and how a request is read\<close>

text \<open>
  C19. The bounded limiter serves every client as a private token bucket would: in any run on a
  monotone clock, the requests answered from a bucket of their own (those not diverted to the
  shared overflow bucket) get exactly the answers of the unbounded reference, although fully
  refilled buckets are dropped whenever the table is full. Rounding of \<open>float64\<close> included.
\<close>

theorem bounded_limiter_refines_private_buckets:
  assumes "float64 burst = burst" and "sorted (map fst reqs)"
  shows "map snd (served reqs (allow_run (new_limiter_with rate burst m) reqs)) =
    reference_run (new_limiter_with rate burst m) (\<lambda>_. None)
      (map fst (served reqs (allow_run (new_limiter_with rate burst m) reqs)))"
proof (cases reqs)
  case (Cons r rs)
  have "simulates (new_limiter_with rate burst m) (\<lambda>_. None) (fst r)"
    by (simp add: simulates_empty new_limiter_with_def)
  then show ?thesis
    using assms Cons by (intro allow_run_simulates limiter_inv_new) auto
qed (simp add: served_def)

theorem bounded_limiter_refines_private_buckets_witness:
  "reference_run (new_limiter_with 1 1 3) (\<lambda>_. None) [(0, ''a''), (0, ''b''), (2000000000, ''d'')] =
     [True, True, True]"
proof -
  let ?reqs = "[(0, ''a''), (0, ''b''), (0, ''c''), (2000000000, ''d''), (2000000000, ''a'')]"
  have "served ?reqs (allow_run (new_limiter_with 1 1 3) ?reqs) =
      [((0, ''a''), True), ((0, ''b''), True), ((2000000000, ''d''), True)]" by code_simp
  then show ?thesis
    using bounded_limiter_refines_private_buckets [of 1 ?reqs 1 3] float64_of_int [of 1] by simp
qed

text \<open>
  C20. A request envelope has one reading: a body is accepted exactly when it is one JSON object
  whose member names are distinct and among the four of JSON-RPC, each with a value of its kind,
  and the request then holds precisely those members.
\<close>

theorem envelope_has_one_reading:
  "decode_request_envelope body = Inr req \<longleftrightarrow>
     (\<exists>members. json_parse body = Some (JObj members) \<and> distinct (map fst members) \<and>
        list_all member_ok members \<and> req = overlay empty_request members)"
  by (auto simp: decode_request_envelope_def decode_members_spec split: option.split json.split)

text \<open>
  C21. A client cannot choose its limiter key: whatever field lines and leading parts it puts into
  \<open>X-Forwarded-For\<close>, the key is that of the rightmost hop no trusted proxy owns, as the proxies
  recorded it, or that of the connecting peer itself.
\<close>

theorem forwarded_headers_cannot_choose_the_key:
  assumes "parse_ip (rq_remote_addr r) = Some peer"
    and "concat (map (split_on CHR '','') (rq_forwarded_for r)) = evil @ own" and "rq_forwarded_for r \<noteq> []"
    and "map_opt (\<lambda>part. parse_ip (trim_space part)) own = Some hops"
    and "last_untrusted trusted hops = Some client"
  shows "client_ip trusted r \<in> {ip_string client, ip_string peer}"
proof (cases "contains_ip trusted peer")
  case True
  show ?thesis
  proof (cases "forwarded_parts [] (rq_forwarded_for r)")
    case (Some parts)
    then have "parts = evil @ own" using forwarded_parts_concat assms(2) by fastforce
    then show ?thesis
      using True assms Some by (auto simp: client_ip_def map_opt_append last_untrusted_append split: option.split)
  qed (use True assms in \<open>simp add: client_ip_def\<close>)
qed (use assms in \<open>simp add: client_ip_def\<close>)

theorem forwarded_headers_cannot_choose_the_key_witness:
  "client_ip sample_proxies sample_forged \<in> {''198.51.100.7'', ''10.0.0.2''}"
proof -
  have "ip_string [0,0,0,0,0,0,0,0,0,0,255,255,198,51,100,7] = ''198.51.100.7''"
    "ip_string [0,0,0,0,0,0,0,0,0,0,255,255,10,0,0,2] = ''10.0.0.2''" by code_simp+
  moreover have "client_ip sample_proxies sample_forged \<in>
      {ip_string [0,0,0,0,0,0,0,0,0,0,255,255,198,51,100,7], ip_string [0,0,0,0,0,0,0,0,0,0,255,255,10,0,0,2]}"
  proof (rule forwarded_headers_cannot_choose_the_key)
    show "parse_ip (rq_remote_addr sample_forged) = Some [0,0,0,0,0,0,0,0,0,0,255,255,10,0,0,2]" by code_simp
    show "concat (map (split_on CHR '','') (rq_forwarded_for sample_forged)) =
        [''evil''] @ ['' 198.51.100.7'', '' 10.0.0.9'']" by code_simp
    show "rq_forwarded_for sample_forged \<noteq> []" by code_simp
    show "map_opt (\<lambda>part. parse_ip (trim_space part)) ['' 198.51.100.7'', '' 10.0.0.9''] =
        Some [[0,0,0,0,0,0,0,0,0,0,255,255,198,51,100,7], [0,0,0,0,0,0,0,0,0,0,255,255,10,0,0,9]]" by code_simp
    show "last_untrusted sample_proxies
        [[0,0,0,0,0,0,0,0,0,0,255,255,198,51,100,7], [0,0,0,0,0,0,0,0,0,0,255,255,10,0,0,9]] =
        Some [0,0,0,0,0,0,0,0,0,0,255,255,198,51,100,7]" by code_simp
  qed
  ultimately show ?thesis by simp
qed


section \<open>The transaction history\<close>



text \<open>
  C24. A history answer belongs to its request and claims nothing the registry does not: in every run
  of a gateway whose history cache has no shared store, whatever was requested and cached before,
  an answered \<open>kt_getHistory\<close> names the chain, network and address asked for, has at most the
  requested number of records (Solana excepted), and each record is honest: a verified one is the
  chain's own coin or carries the registered symbol and decimals of its contract, any other one a
  harmless symbol and bounded decimals.
\<close>

theorem history_answers_its_request:
  assumes "history_run c st" and "checked_history (hc_env c) params = Inr q"
    and "get_history c answer stored params st w = (Inr res, st', w')"
  shows "hx_chain res = hq_chain q \<and> hx_network res = hq_network q \<and> hx_address res = hq_address q \<and>
    (hq_chain q \<noteq> ''solana'' \<longrightarrow> int (length (hx_records res)) \<le> hq_limit q) \<and>
    (\<forall>r \<in> set (hx_records res). honest_record (hc_official c (hq_network q)) (hq_chain q) r)"
  using get_history_answers(2) [OF history_run_bound [OF assms(1)] assms(3) assms(2)]
  by (simp add: answers_def)

theorem history_answers_its_request_witness:
  "\<exists>res st w. explorer_run = (Inr res, st, w) \<and> hx_address res = wallet \<and> length (hx_records res) = 1"
proof -
  obtain r st w where run: "explorer_run = (r, st, w)" by (metis prod_cases3)
  obtain res where res: "r = Inr res" and "length (hx_records res) = 1"
    using explorer_answered [unfolded run] by (cases r) auto
  with history_answers_its_request [OF history_start_run explorer_checked, of "Inl ErrNotFound" True sample_world]
  show ?thesis using run by (simp add: explorer_run_def)
qed

text \<open>
  C25. A history request always ends after a bounded amount of work, whatever the providers answer:
  it sends at most three requests for TRON, six to explorers and five per Alchemy endpoint for an
  EVM chain, and one plus 35 and four times the limit, times the width of the pool, for Solana.
  Nothing is sent for a request that is refused.
\<close>

theorem history_requests_are_bounded:
  assumes "\<And>ks. mset (sd_key_order c ks) = mset ks"
    and "get_history c answer stored params st w = (r, st', w')"
  shows "\<exists>reqs. w_sent w' = w_sent w @ reqs \<and>
    length reqs \<le> (case checked_history (hc_env c) params of Inl _ \<Rightarrow> 0 | Inr q \<Rightarrow> history_budget st q)"
proof (cases "checked_history (hc_env c) params")
  case (Inl e)
  then show ?thesis using get_history_refused_cost [OF Inl] assms(2) by simp
next
  case (Inr q)
  then show ?thesis using get_history_cost [OF assms(1) Inr assms(2)] by (auto simp: sends_upto_def)
qed

theorem history_requests_are_bounded_witness:
  "\<exists>reqs. w_sent (snd (snd explorer_run)) = reqs \<and> length reqs \<le> 6"
proof -
  have "\<And>ks. mset (sd_key_order explorer_config ks) = mset ks"
    by (simp add: explorer_config_def history_setup_def)
  moreover obtain r st w where "explorer_run = (r, st, w)" by (metis prod_cases3)
  ultimately show ?thesis
    using history_requests_are_bounded [of explorer_config "Inl ErrNotFound" True _ history_start sample_world]
    by (fastforce simp: explorer_run_def explorer_checked sample_world_def history_budget_def history_start_def)
qed

text \<open>
  C26. Alchemy's block times reach the wallet unchanged: an accepted batch gives a time for exactly the
  blocks asked for, each time is the one stated under that block's own identifier, and its RFC 3339
  text, which the history parses again, reads back as exactly that second (until the year 9999).
\<close>

theorem block_times_are_those_stated:
  assumes "decode_alchemy_block_timestamps data blocks = Page ts"
  shows "\<exists>entries. data = Some (JArr entries) \<and> set (map fst ts) = set blocks \<and>
    (\<forall>(b, s) \<in> set ts. \<exists>ident stamp.
       0 < ident \<and> ident \<le> int (length blocks) \<and> b = blocks ! nat (ident - 1) \<and>
       states_block_time entries ident stamp \<and>
       (nat_of_hex (drop 2 stamp) < 253402300800 \<longrightarrow>
          parse_rfc3339 s = Some (int (nat_of_hex (drop 2 stamp)) * 10 ^ 9)))"
proof -
  from alchemy_block_times [OF assms] obtain entries where e: "data = Some (JArr entries)"
    "\<forall>(b, s) \<in> set ts. block_time_of entries blocks b s" "set (map fst ts) = set blocks" by blast
  show ?thesis
    by (intro exI [of _ entries]) (use e in \<open>fastforce simp: block_time_of_def parse_format_rfc3339\<close>)
qed

theorem block_times_are_those_stated_witness:
  "\<exists>s. decode_alchemy_block_timestamps sample_block_batch [''0x10''] = Page [(''0x10'', s)] \<and>
     parse_rfc3339 s = Some (1709251199 * 10 ^ 9)"
proof -
  have ts: "decode_alchemy_block_timestamps sample_block_batch [''0x10''] = Page [(''0x10'', ''2024-02-29T23:59:59Z'')]"
    and v: "nat_of_hex (drop 2 ''0x65e11a7f'') = 1709251199" by code_simp+
  have "states_block_time entries i stamp \<Longrightarrow> stamp = ''0x65e11a7f''"
    if "sample_block_batch = Some (JArr entries)" for entries i stamp
    using that by (auto simp: sample_block_batch_def states_block_time_def decode_unique_json_object_iff
        decode_extensible_json_object_iff)
  with block_times_are_those_stated [OF ts] ts v show ?thesis by fastforce
qed


section \<open>Token security and the official catalog\<close>

text \<open>
  C28. A token verdict is the one the evidence supports, in every run of the two token handlers: an
  answered \<open>kt_checkTokenRisk\<close> has the status \<open>risk_verdict\<close> gives to the operator's registry, the
  official catalog and what the provider said about this very identity at most five minutes ago.
  In particular nothing is called safe that the registry lists, that the catalog does not list, or
  for which the provider (where one is configured) has not just stated an evaluated, clean record.
\<close>

theorem token_verdict_is_justified:
  assumes "token_run c ev st w" and "check_token_risk c params st w = (Inr j, st', w')"
  shows "verdict_justified c params ev w w' (status_of j) \<and>
    (\<forall>network contract. checked_token_risk c params = Inr (network, contract) \<longrightarrow> status_of j = ''safe'' \<longrightarrow>
       tk_risks c (token_identity_key network contract) = None \<and> official_token c network contract \<and>
       (\<forall>p s lookup. risk_provider c network contract = Some (p, s, lookup) \<longrightarrow>
          (\<exists>threat. th_found threat \<and> \<not> th_unsafe threat \<and>
             (fresh_evidence ev w (token_identity_key network contract) threat \<or> lookup w = (Inr threat, w')))))"
proof -
  have "verdict_justified c params ev w w' (status_of j)" by (rule token_run_justified [OF assms])
  then show ?thesis by (fastforce simp: verdict_justified_def risk_verdict_def Let_def split: option.splits if_splits)
qed

theorem token_verdict_is_justified_witness:
  "\<exists>j st' w'. clean_run = (Inr j, st', w') \<and> status_of j = ''safe'' \<and>
     verdict_justified clean_config token_params [] sample_world w' ''safe''"
proof -
  obtain st' w' where run: "check_token_risk clean_config token_params new_token_state sample_world =
      (Inr (token_risk_result ''eth-mainnet'' wallet ''safe'' ''official_catalog+goplus'' []), st', w')"
    using clean_answer unfolding clean_run_def by (metis prod.collapse)
  with token_verdict_is_justified [OF token_run.start run] show ?thesis by (simp add: clean_run_def)
qed

text \<open>
  C29. A wallet's address leaves the gateway towards the approvals provider only with consent: when
  \<open>kt_getEvmTokenApprovals\<close> sends anything, the parameters carry \<open>privacyConsent: true\<close>, the network
  is one the provider supports, and exactly one request is sent, about the address in the call.
\<close>

theorem approvals_need_consent:
  assumes "get_evm_token_approvals c params st w = (r, st', w')" and "w_sent w' \<noteq> w_sent w"
  shows "\<exists>p network chain_id g. decode_strict_json approvals_params_type params = Some p \<and>
    bool_field p ''privacyConsent'' \<and>
    resolve_network (str_field p ''chain'') (str_field p ''network'') = Inr network \<and>
    goplus_approval_chain_ids network = Some chain_id \<and> tk_goplus_approvals c = Some g \<and>
    w_sent w' = w_sent w @ [(ue_with_query (tk_urls c) (gp_base g @ ''/'' @ path_escape chain_id)
      ''addresses'' (to_lower (str_field p ''address'')), [])]"
  by (rule approvals_request [OF assms])

theorem approvals_need_consent_witness:
  "\<exists>p r st w. approvals_run = (r, st, w) \<and> length (w_sent w) = 1 \<and>
     decode_strict_json approvals_params_type approvals_params = Some p \<and> bool_field p ''privacyConsent''"
proof -
  obtain r st w where run: "approvals_run = (r, st, w)" by (metis prod_cases3)
  have sent: "length (w_sent w) = 1" using approvals_answer by (simp add: run)
  then have "w_sent w \<noteq> w_sent sample_world" by (auto simp: sample_world_def)
  from approvals_need_consent [OF run [unfolded approvals_run_def] this] run sent show ?thesis by blast
qed



text \<open>
  C31. The operator's risk registry protects completely or not at all: an accepted registry has every
  row of the file under the row's own identity, as it was normalised, and no two rows share one.
\<close>

theorem risk_registry_is_all_or_nothing:
  assumes "normalize_token_risks sha (Some es) = Inr m"
  shows "(\<forall>e \<in> set es. \<exists>n. normalize_token_risk sha e = Inr n \<and>
      m (token_identity_key (tr_network n) (tr_contract n)) = Some n) \<and> card (dom m) = length es"
  using accepted_registry_is_complete [OF assms] by blast

theorem risk_registry_is_all_or_nothing_witness:
  "\<exists>m. normalize_token_risks (\<lambda>b. b) (Some one_risk) = Inr m \<and> card (dom m) = 1"
proof -
  obtain m where "normalize_token_risks (\<lambda>b. b) (Some one_risk) = Inr m"
    using one_risk_accepted by (cases "normalize_token_risks (\<lambda>b. b) (Some one_risk)") auto
  with risk_registry_is_all_or_nothing [OF this] show ?thesis by (auto simp: one_risk_def)
qed

text \<open>
  C32. The catalog of verified tokens is well formed and its index faithful: an accepted catalog has
  one entry per identity, each with a checked network, contract, symbol, name and scale, and the
  history finds a token's metadata exactly when the catalog lists its network and contract.
\<close>

theorem official_catalog_is_checked:
  assumes "normalize_official_tokens uc sha tokens = Inr res"
  shows "distinct (map official_identity res) \<and> list_all (official_ok sha) res \<and>
    (\<forall>n c m. official_token_index res (\<lambda>n. Map.empty) n c = Some m \<longleftrightarrow>
       (\<exists>t \<in> set res. ot_network t = n \<and> ot_contract t = c \<and>
          m = \<lparr>tm_symbol = ot_symbol t, tm_decimals = ot_decimals t\<rparr>))"
  using accepted_catalog(1,2) [OF assms] official_index_iff [OF accepted_catalog(1) [OF assms]] by blast

theorem official_catalog_is_checked_witness:
  "\<exists>res. normalize_official_tokens plain_unicode (\<lambda>b. b) (Some one_token) = Inr res \<and>
     list_all (official_ok (\<lambda>b. b)) res"
proof -
  obtain res where "normalize_official_tokens plain_unicode (\<lambda>b. b) (Some one_token) = Inr res"
    using one_token_accepted
    by (cases "normalize_official_tokens plain_unicode (\<lambda>b. b) (Some one_token)") auto
  with official_catalog_is_checked [OF this] show ?thesis by blast
qed

section \<open>Balances\<close>

text \<open>
  C33. A balances answer belongs to its request: in every run of a gateway whose balance cache has no
  shared store, with goroutines running in any order, an answered \<open>kt_getBalances\<close> names the chain,
  network and address asked for, gives the native coin in its own denomination as the chain's
  client read it, and has one row per token of a list with the requested fingerprint, in the order
  of that list, each row either the balance read for that token and address or an error with zero.
\<close>

theorem balances_answer_their_request:
  assumes "balances_run c st" and "schedule_ok (bc_schedule c)"
    and "checked_balances (bc_env c) params = Inr q" and "get_balances c params st w = (Inr r, st', w')"
  shows "br_chain r = bq_chain q \<and> br_network r = bq_network q \<and> br_address r = bq_address q \<and>
    (\<exists>n. br_native r = native_entry (bq_meta q) n \<and> native_read (bc_env c) q n) \<and>
    (\<exists>tokens. token_set_hash (ge_sha (bc_env c)) tokens = token_set_hash (ge_sha (bc_env c)) (bq_tokens q) \<and>
       map token_ref_of_entry (br_tokens r) = tokens \<and> list_all (entry_ok (bc_env c) q) (br_tokens r))"
proof -
  have "answers_balances (bc_env c) r q"
    using get_balances_answers(2) [OF balances_run_kept [OF assms(1,2)] assms(2,4,3)] by blast
  then show ?thesis by (auto simp: answers_balances_def balances_match_def)
qed

theorem balances_answer_their_request_witness:
  "\<exists>r st w. balance_run = (Inr r, st, w) \<and> br_address r = wallet \<and> be_raw (br_native r) = ''5''"
proof -
  obtain x st w where run: "balance_run = (x, st, w)" by (metis prod_cases3)
  obtain r where r: "x = Inr r" and five: "be_raw (br_native r) = ''5''"
    using balance_answer [unfolded run] by (cases x) auto
  have "balances_run balance_config_sample balance_start"
    by (rule balances_run.start) (simp add: balance_start_def)
  from balances_answer_their_request [OF this sample_schedule balance_checked(1) run [unfolded balance_run_def r]]
  have "br_address r = wallet" by (simp add: balance_request_def)
  then show ?thesis using run five unfolding r by blast
qed

text \<open>
  C34. The balance cache does not distinguish the order of the tokens: after an answer was cached, a
  request for the same account that lists the same tokens in another order is given the rows in the
  first request's order until the entry expires, although the wallet reads the rows by position.
\<close>

theorem reordered_tokens_get_earlier_rows:
  assumes "get_balances c params st w = (Inr r, st', w')" and "checked_balances (bc_env c) params = Inr q"
    and "ch_namespace (bs_cache st) = None" and "schedule_ok (bc_schedule c)"
    and "snd (get_local (w_now w) (balances_key (ge_sha (bc_env c)) q) (bs_cache st)) = None"
    and "checked_balances (bc_env c) params' = Inr (q\<lparr>bq_tokens := ts\<rparr>)"
    and "mset ts = mset (bq_tokens q)" and "w_now w2 \<le> w_now w' + ch_ttl (bs_cache st)"
  shows "\<exists>r'. fst (get_balances c params' st' w2) = Inr r' \<and>
    map token_ref_of_entry (br_tokens r') = bq_tokens q"
  using same_fingerprint_same_answer [OF assms(1,2,3,5,6) token_set_hash_order [OF assms(7)] assms(8)]
    get_balances_rows [OF assms(1-5)] by blast

theorem reordered_tokens_get_earlier_rows_witness:
  "\<exists>r' st w. balance_run = (Inr r', st, w) \<and>
     (\<exists>r. fst (get_balances balance_config_sample (balance_params [''a'', ''b'']) st w) = Inr r \<and>
        map te_contract (br_tokens r) = [''b'', ''a''])"
proof -
  obtain x st w where run: "balance_run = (x, st, w)" by (metis prod_cases3)
  obtain r where r: "x = Inr r" using balance_answer [unfolded run] by (cases x) auto
  let ?q = "balance_request [''b'', ''a'']"
  have swap: "?q\<lparr>bq_tokens := map token_ref_s [''a'', ''b'']\<rparr> = balance_request [''a'', ''b'']"
    by (simp add: balance_request_def)
  have "\<exists>r'. fst (get_balances balance_config_sample (balance_params [''a'', ''b'']) st w) = Inr r' \<and>
      map token_ref_of_entry (br_tokens r') = bq_tokens ?q"
    by (rule reordered_tokens_get_earlier_rows [OF run [unfolded balance_run_def r] balance_checked(1) _ sample_schedule _
          balance_checked(2) [folded swap]])
      (simp_all add: balance_start_def new_cache_def get_local_def balance_request_def seconds_def nanos_per_second_def)
  then obtain r' where r': "fst (get_balances balance_config_sample (balance_params [''a'', ''b'']) st w) = Inr r'"
      "map token_ref_of_entry (br_tokens r') = bq_tokens ?q" by blast
  have "map te_contract (br_tokens r') = map tk_contract (map token_ref_of_entry (br_tokens r'))"
    by (simp add: token_ref_of_entry_def comp_def)
  with r' have "map te_contract (br_tokens r') = [''b'', ''a'']"
    by (simp only:) (simp add: balance_request_def token_ref_s_def)
  with run [unfolded r] r'(1) show ?thesis by (intro exI conjI)
qed

section \<open>Prices\<close>



section \<open>The process\<close>



text \<open>
  C37. Alchemy endpoints come first. When Alchemy keys are configured, the pool of every EVM network
  starts with exactly the network's Alchemy URLs, one per key in the order of the keys, these are its
  round-robin primaries, and none of them occurs again among the fallbacks.
\<close>

theorem alchemy_endpoints_come_first:
  assumes "load_config se ou = Inr c" and "load_alchemy_keys se \<noteq> []" and "(network, slug) \<in> set alchemy_slugs"
  shows "let p = gw_evm (sv_gateway (snd (new_gateway ou c now))) network;
             primaries = map (alchemy_url slug) (load_alchemy_keys se)
    in pl_round_robin_prefix p = length primaries \<and>
       map ep_url (take (length primaries) (pl_eps p)) = primaries \<and>
       set (map ep_url (drop (length primaries) (pl_eps p))) \<inter> set primaries = {}"
  using assms by (rule alchemy_primaries)

theorem alchemy_endpoints_come_first_witness:
  "\<exists>c. load_config sample_start sample_outside = Inr c \<and>
     pl_round_robin_prefix (gw_evm (sv_gateway (snd (new_gateway sample_outside c 1000))) ''bnb-mainnet'') = 2"
proof -
  obtain c where c: "load_config sample_start sample_outside = Inr c" using sample_loaded by blast
  have "(''bnb-mainnet'', ''bnb-mainnet'') \<in> set alchemy_slugs" by (simp add: alchemy_slugs_def)
  from alchemy_endpoints_come_first [OF c _ this, of 1000] c show ?thesis by (simp add: Let_def sample_env_values)
qed

text \<open>
  C38. Readiness means that something can be served: the readiness probe answers 200 exactly when
  some network has an endpoint whose circuit admits a call, and it lists, sorted, exactly the
  networks none of whose endpoints does.
\<close>

theorem ready_iff_some_endpoint_serves:
  "(ha_status (readyz now g) = 200 \<longleftrightarrow>
      (\<exists>(n, p) \<in> set (pool_networks g). \<exists>ep \<in> set (pl_eps p). \<not> circuit_open now ep)) \<and>
   set (snd (readiness now g)) =
     {n. \<exists>p. (n, p) \<in> set (pool_networks g) \<and> (\<forall>ep \<in> set (pl_eps p). circuit_open now ep)} \<and>
   sorted (snd (readiness now g))"
proof -
  have "ha_status (readyz now g) = 200 \<longleftrightarrow> fst (readiness now g)" by (simp add: readyz_def split_beta)
  then show ?thesis using readiness_iff [of now g] by blast
qed

theorem ready_iff_some_endpoint_serves_witness:
  "ha_status (readyz 1000 sample_gateway) = 200"
proof -
  have "(''eth-mainnet'', sample_pool) \<in> set (pool_networks sample_gateway)"
    by (simp add: pool_networks_def evm_network_ids_def sample_gateway_def)
  moreover have "\<exists>ep \<in> set (pl_eps sample_pool). \<not> circuit_open 1000 ep"
    by (simp add: sample_pool_def new_pool_def Let_def new_endpoint_def circuit_open_def)
  ultimately show ?thesis using ready_iff_some_endpoint_serves [of 1000 sample_gateway] by blast
qed

text \<open>
  C39. No page names an endpoint. The URLs of the endpoints may carry API keys: whatever URLs the
  pools are given, \<open>/healthz\<close>, \<open>/readyz\<close>, \<open>/metrics\<close> and the answer of \<open>kt_health\<close> stay the same.
\<close>

theorem no_page_names_an_endpoint:
  "get_page (relabel_process f p) path authorization = get_page p path authorization \<and>
   fst (service_health c params (relabel_service f sv)) = fst (service_health c params sv)"
  using pages_name_no_endpoint health_method_names_no_endpoint by blast

text \<open>
  C40. The metrics page needs its token: after every start, whatever state the process is in,
  \<open>/metrics\<close> answers 200 only to the bearer token of the environment, which has at least 32 bytes;
  without a configured token it never does.
\<close>

theorem metrics_page_needs_its_token:
  assumes "start_process se ou = Inr p" and "pr_metrics_token q = pr_metrics_token p"
    and "ha_status (get_page q ''/metrics'' authorization) = 200"
  shows "authorization = ''Bearer '' @ trimmed_env se ''METRICS_BEARER_TOKEN'' \<and>
    32 \<le> length (trimmed_env se ''METRICS_BEARER_TOKEN'')"
  using metrics_page_token [of "se_getenv se ''METRICS_BEARER_TOKEN''" q authorization]
    started_metrics_token [OF assms(1)] assms(2,3) by (simp add: trimmed_env_def)

theorem metrics_page_needs_its_token_witness:
  "\<exists>p authorization. start_process sample_start sample_outside = Inr p \<and>
     ha_status (get_page p ''/metrics'' authorization) = 200 \<and>
     authorization = ''Bearer '' @ trimmed_env sample_start ''METRICS_BEARER_TOKEN''"
proof -
  obtain p where p: "start_process sample_start sample_outside = Inr p" using sample_process_starts by blast
  have "pr_metrics_token p = replicate 32 CHR ''m''"
    using started_metrics_token [OF p] sample_env_values by simp
  then have "ha_status (get_page p ''/metrics'' (''Bearer '' @ replicate 32 CHR ''m'')) = 200"
    by (simp add: get_page_def metrics_handler_def has_valid_metrics_bearer_def Let_def)
  with metrics_page_needs_its_token [OF p refl] p show ?thesis by blast
qed

end
